(* ===== verification/Prelude.thy ===== *)
theory Prelude
  imports Main "HOL-Library.Word" "HOL-Library.Char_ord" "HOL-Library.List_Lexorder" "HOL-Library.Sublist"
begin

text \<open>
  Shared vocabulary of the development: the Go types the components use (\<open>int64\<close> as a 64-bit
  word read with \<open>sint\<close>, instants as nanoseconds since the zero \<open>time.Time\<close>, byte strings), the
  standard-library string operations they call, error results, and the list lemmas that several
  components share.
\<close>

named_theorems handler_defs
  \<open>definitions of command handlers, unfolded to invert a successful run\<close>
named_theorems guard_defs
  \<open>definitions of pure guards and state-machine functions\<close>
named_theorems row_simps
  \<open>how table operations act on rows\<close>

section \<open>Go scalars\<close>

type_synonym i64 = "64 word"
type_synonym go_error = string

text \<open>
  A \<open>time.Time\<close> is modelled by the number of nanoseconds from the zero \<open>time.Time\<close>
  (midnight, January 1st, year 1, UTC), so \<open>IsZero\<close> is equality with 0, \<open>Before\<close> is \<open><\<close> and
  \<open>UTC\<close> (which changes the presentation, not the instant) is the identity.
\<close>

type_synonym instant = int

definition is_zero_time :: "instant \<Rightarrow> bool" where
  "is_zero_time t \<longleftrightarrow> t = 0"

definition second :: int where "second = 1000000000"
definition hour :: int where "hour = 3600 * second"
definition day :: int where "day = 24 * hour"

definition min_duration :: int where "min_duration = - (2 ^ 63)"
definition max_duration :: int where "max_duration = 2 ^ 63 - 1"

text \<open>\<open>Time.Sub\<close> saturates at the largest and smallest \<open>Duration\<close>.\<close>

definition time_sub :: "instant \<Rightarrow> instant \<Rightarrow> int" where
  "time_sub a b = max min_duration (min max_duration (a - b))"

text \<open>Go's integer division truncates towards zero.\<close>

definition trunc_div :: "int \<Rightarrow> int \<Rightarrow> int" where
  "trunc_div a b = sgn a * sgn b * (\<bar>a\<bar> div \<bar>b\<bar>)"

text \<open>A signed 64-bit number below the largest one has a successor.\<close>

lemma sint_succ:
  fixes x :: i64
  assumes "sint x < 2 ^ 63 - 1"
  shows "sint (x + 1) = sint x + 1"
proof -
  have "- (2 ^ 63) \<le> sint x" using sint_ge [of x] by simp
  with assms show ?thesis
    by (simp add: sint_word_ariths signed_take_bit_int_eq_self)
qed

section \<open>Go strings\<close>

text \<open>
  A Go string is a byte sequence. \<open>strings.TrimSpace\<close> removes the UTF-8 encodings of the code
  points for which \<open>unicode.IsSpace\<close> holds, from both ends.
\<close>

definition space_runes :: "string list" where
  "space_runes =
     [[CHR 0x20], [CHR 0x09], [CHR 0x0A], [CHR 0x0B], [CHR 0x0C], [CHR 0x0D],
      [CHR 0xC2, CHR 0x85], [CHR 0xC2, CHR 0xA0],
      [CHR 0xE1, CHR 0x9A, CHR 0x80],
      [CHR 0xE2, CHR 0x80, CHR 0x80], [CHR 0xE2, CHR 0x80, CHR 0x81],
      [CHR 0xE2, CHR 0x80, CHR 0x82], [CHR 0xE2, CHR 0x80, CHR 0x83],
      [CHR 0xE2, CHR 0x80, CHR 0x84], [CHR 0xE2, CHR 0x80, CHR 0x85],
      [CHR 0xE2, CHR 0x80, CHR 0x86], [CHR 0xE2, CHR 0x80, CHR 0x87],
      [CHR 0xE2, CHR 0x80, CHR 0x88], [CHR 0xE2, CHR 0x80, CHR 0x89],
      [CHR 0xE2, CHR 0x80, CHR 0x8A],
      [CHR 0xE2, CHR 0x80, CHR 0xA8], [CHR 0xE2, CHR 0x80, CHR 0xA9],
      [CHR 0xE2, CHR 0x80, CHR 0xAF], [CHR 0xE2, CHR 0x81, CHR 0x9F],
      [CHR 0xE3, CHR 0x80, CHR 0x80]]"

fun strip_one :: "string list \<Rightarrow> string \<Rightarrow> string option" where
  "strip_one [] s = None"
| "strip_one (r # rs) s =
     (if r \<noteq> [] \<and> take (length r) s = r then Some (drop (length r) s) else strip_one rs s)"

lemma strip_one_shorter: "strip_one rs s = Some t \<Longrightarrow> length t < length s"
  by (induction rs) (auto split: if_splits, metis append_take_drop_id drop_eq_Nil2 length_drop
      length_greater_0_conv linorder_not_less diff_less take_eq_Nil)

function strip_all :: "string list \<Rightarrow> string \<Rightarrow> string" where
  "strip_all rs s = (case strip_one rs s of None \<Rightarrow> s | Some t \<Rightarrow> strip_all rs t)"
  by pat_completeness auto
termination
  by (relation "measure (\<lambda>(rs, s). length s)") (auto dest: strip_one_shorter)

declare strip_all.simps [simp del]

definition TrimSpace :: "string \<Rightarrow> string" where
  "TrimSpace s = rev (strip_all (map rev space_runes) (rev (strip_all space_runes s)))"

text \<open>Trimming is a projection: what is left neither starts nor ends with white space.\<close>

lemma strip_one_None: "strip_one rs s = None \<longleftrightarrow> (\<forall>r \<in> set rs. r \<noteq> [] \<longrightarrow> \<not> prefix r s)"
  by (induction rs) (auto simp: prefix_def append_eq_conv_conj, metis append_take_drop_id)

lemma strip_one_suffix: "strip_one rs s = Some t \<Longrightarrow> suffix t s"
  by (induction rs) (auto simp: suffix_drop split: if_splits)

lemma strip_all_None: "strip_one rs (strip_all rs s) = None"
  by (induction rs s rule: strip_all.induct) (subst strip_all.simps, auto split: option.splits)

lemma strip_all_fixed: "strip_one rs s = None \<Longrightarrow> strip_all rs s = s"
  by (subst strip_all.simps) simp

lemma strip_all_suffix: "suffix (strip_all rs s) s"
proof (induction rs s rule: strip_all.induct)
  case (1 rs s)
  then show ?case
    by (subst strip_all.simps) (auto split: option.splits dest: strip_one_suffix intro: suffix_order.trans)
qed

lemma TrimSpace_idem [simp]: "TrimSpace (TrimSpace s) = TrimSpace s"
proof -
  let ?l = "strip_all space_runes s"
  let ?r = "strip_all (map rev space_runes) (rev ?l)"
  have "suffix ?r (rev ?l)" by (rule strip_all_suffix)
  then have "prefix (rev ?r) ?l" by (simp add: suffix_to_prefix)
  then have "strip_one space_runes (rev ?r) = None"
    using strip_all_None [of space_runes s] by (auto simp: strip_one_None intro: prefix_order.trans)
  then have "strip_all space_runes (rev ?r) = rev ?r" by (rule strip_all_fixed)
  moreover have "strip_all (map rev space_runes) ?r = ?r" by (intro strip_all_fixed strip_all_None)
  ultimately show ?thesis by (simp add: TrimSpace_def)
qed

definition blank :: "string \<Rightarrow> bool" where
  "blank s \<longleftrightarrow> TrimSpace s = []"

definition HasPrefix :: "string \<Rightarrow> string \<Rightarrow> bool" where
  "HasPrefix s p \<longleftrightarrow> take (length p) s = p"

section \<open>Runes\<close>

text \<open>
  Decoding of UTF-8 as Go's \<open>range\<close> over a string does it: an ill-formed byte yields the
  replacement rune and advances by one byte.
\<close>

definition cont_byte :: "int \<Rightarrow> int \<Rightarrow> int \<Rightarrow> bool" where
  "cont_byte lo hi b \<longleftrightarrow> lo \<le> b \<and> b \<le> hi"

definition byte_at :: "string \<Rightarrow> nat \<Rightarrow> int" where
  "byte_at s i = (if i < length s then of_char (s ! i) else - 1)"

definition decode_rune :: "string \<Rightarrow> int \<times> nat" where
  "decode_rune s =
     (let b0 = byte_at s 0; b1 = byte_at s 1; b2 = byte_at s 2; b3 = byte_at s 3;
          lo2 = (if b0 = 0xE0 then 0xA0 else if b0 = 0xF0 then 0x90 else 0x80);
          hi2 = (if b0 = 0xED then 0x9F else if b0 = 0xF4 then 0x8F else 0xBF) in
      if b0 < 0x80 then (b0, 1)
      else if 0xC2 \<le> b0 \<and> b0 \<le> 0xDF \<and> cont_byte 0x80 0xBF b1
      then ((b0 - 0xC0) * 64 + (b1 - 0x80), 2)
      else if 0xE0 \<le> b0 \<and> b0 \<le> 0xEF \<and> cont_byte lo2 hi2 b1 \<and> cont_byte 0x80 0xBF b2
      then ((b0 - 0xE0) * 4096 + (b1 - 0x80) * 64 + (b2 - 0x80), 3)
      else if 0xF0 \<le> b0 \<and> b0 \<le> 0xF4 \<and> cont_byte lo2 hi2 b1 \<and> cont_byte 0x80 0xBF b2 \<and>
              cont_byte 0x80 0xBF b3
      then ((b0 - 0xF0) * 262144 + (b1 - 0x80) * 4096 + (b2 - 0x80) * 64 + (b3 - 0x80), 4)
      else (0xFFFD, 1))"

lemma decode_rune_width: "0 < snd (decode_rune s)"
  by (simp add: decode_rune_def Let_def)

function runes :: "string \<Rightarrow> int list" where
  "runes s = (if s = [] then []
     else fst (decode_rune s) # runes (drop (snd (decode_rune s)) s))"
  by pat_completeness auto
termination
  by (relation "measure length") (auto simp: decode_rune_width)

declare runes.simps [simp del]

definition IsControl :: "int \<Rightarrow> bool" where
  "IsControl r \<longleftrightarrow> 0 \<le> r \<and> r < 0x20 \<or> 0x7F \<le> r \<and> r < 0xA0"

section \<open>Results\<close>

text \<open>
  A Go function that returns a value and an \<open>error\<close> returns a sum here: \<open>Inl\<close> the error, \<open>Inr\<close>
  the value. \<open>bind_result\<close> is the statement \<open>if err != nil { return err }\<close>.
\<close>

fun bind_result :: "'e + 'a \<Rightarrow> ('a \<Rightarrow> 'e + 'b) \<Rightarrow> 'e + 'b" where
  "bind_result (Inl e) f = Inl e"
| "bind_result (Inr x) f = f x"

lemma bind_result_Inr: "bind_result m f = Inr y \<longleftrightarrow> (\<exists>x. m = Inr x \<and> f x = Inr y)"
  by (cases m) auto

lemma bind_result_Inl: "bind_result m f = Inl e \<longleftrightarrow> m = Inl e \<or> (\<exists>x. m = Inr x \<and> f x = Inl e)"
  by (cases m) auto

text \<open>A function that only returns an \<open>error\<close>: \<open>None\<close> is \<open>nil\<close>.\<close>

definition check_error :: "'e option \<Rightarrow> 'e + 'a \<Rightarrow> 'e + 'a" where
  "check_error err k = (case err of Some e \<Rightarrow> Inl e | None \<Rightarrow> k)"

lemma check_error_Inr: "check_error err k = Inr y \<longleftrightarrow> err = None \<and> k = Inr y"
  by (simp add: check_error_def split: option.splits)

lemma if_Inl_Inr: "(if b then Inl e else k) = Inr y \<longleftrightarrow> \<not> b \<and> k = Inr y"
  by simp

lemma if_Inr_Inl: "(if b then k else Inl e) = Inr y \<longleftrightarrow> b \<and> k = Inr y"
  by simp

lemma case_sum_Inr:
  "(case x of Inl a \<Rightarrow> Inl (g a) | Inr v \<Rightarrow> f v) = Inr y \<longleftrightarrow> (\<exists>v. x = Inr v \<and> f v = Inr y)"
  by (cases x) simp_all

lemma case_singleton_Inr:
  "(case xs of [x] \<Rightarrow> f x | _ \<Rightarrow> Inl e) = Inr y \<longleftrightarrow> (\<exists>x. xs = [x] \<and> f x = Inr y)"
  by (auto split: list.splits)

lemma case_option_Inr:
  "(case x of None \<Rightarrow> Inl e | Some v \<Rightarrow> f v) = Inr y \<longleftrightarrow> (\<exists>v. x = Some v \<and> f v = Inr y)"
  by (cases x) simp_all

text \<open>A text column that may be \<open>NULL\<close>, as \<open>COALESCE(column, '')\<close>.\<close>

definition or_empty :: "string option \<Rightarrow> string" where
  "or_empty s = (case s of None \<Rightarrow> '''' | Some t \<Rightarrow> t)"

text \<open>A loop that applies a fallible function to every element and stops at the first error.\<close>

fun map_result :: "('a \<Rightarrow> 'e + 'b) \<Rightarrow> 'a list \<Rightarrow> 'e + 'b list" where
  "map_result f [] = Inr []"
| "map_result f (x # xs) = bind_result (f x) (\<lambda>y. bind_result (map_result f xs) (\<lambda>ys. Inr (y # ys)))"

lemma map_result_Inr: "map_result f xs = Inr ys \<longleftrightarrow> list_all2 (\<lambda>x y. f x = Inr y) xs ys"
  by (induction xs arbitrary: ys) (auto simp: bind_result_Inr list_all2_Cons1)

lemma map_result_fixed:
  "map_result f xs = Inr ys \<Longrightarrow> \<forall>x \<in> set xs. \<forall>y. f x = Inr y \<longrightarrow> g y = Inr y \<Longrightarrow>
   map_result g ys = Inr ys"
  by (induction xs arbitrary: ys) (auto simp: bind_result_Inr)

section \<open>Numbers and dates as text\<close>

fun digits :: "nat \<Rightarrow> string" where
  "digits n = (if n < 10 then [char_of (48 + n)] else digits (n div 10) @ [char_of (48 + n mod 10)])"

declare digits.simps [simp del]

definition zero_pad :: "nat \<Rightarrow> string \<Rightarrow> string" where
  "zero_pad w s = replicate (w - length s) (CHR ''0'') @ s"

definition decimal :: "int \<Rightarrow> string" where
  "decimal i = (if i < 0 then ''-'' @ digits (nat (- i)) else digits (nat i))"

text \<open>The civil date of an instant in UTC, in the proleptic Gregorian calendar.\<close>

definition civil_date :: "instant \<Rightarrow> int \<times> int \<times> int" where
  "civil_date t =
     (let z = t div day + 306; era = z div 146097; doe = z mod 146097;
          yoe = (doe - doe div 1460 + doe div 36524 - doe div 146096) div 365;
          doy = doe - (365 * yoe + yoe div 4 - yoe div 100);
          mp = (5 * doy + 2) div 153;
          d = doy - (153 * mp + 2) div 5 + 1;
          m = (if mp < 10 then mp + 3 else mp - 9) in
      (yoe + era * 400 + (if m \<le> 2 then 1 else 0), m, d))"

definition format_date :: "instant \<Rightarrow> string" where
  "format_date t = (case civil_date t of (y, m, d) \<Rightarrow>
     zero_pad 4 (decimal y) @ ''-'' @ zero_pad 2 (decimal m) @ ''-'' @ zero_pad 2 (decimal d))"

text \<open>\<open>time.Parse("2006-01-02", value)\<close>: the midnight of a date of four, two and two digits.\<close>

definition is_decimal_digit :: "char \<Rightarrow> bool" where
  "is_decimal_digit c \<longleftrightarrow> CHR ''0'' \<le> c \<and> c \<le> CHR ''9''"

definition decimal_value :: "string \<Rightarrow> int" where
  "decimal_value s = foldl (\<lambda>n c. n * 10 + int (of_char c) - 48) 0 s"

definition leap_year :: "int \<Rightarrow> bool" where
  "leap_year y \<longleftrightarrow> y mod 4 = 0 \<and> (y mod 100 \<noteq> 0 \<or> y mod 400 = 0)"

definition days_in :: "int \<Rightarrow> int \<Rightarrow> int" where
  "days_in m y = (if m = 2 then (if leap_year y then 29 else 28)
     else if m \<in> {4, 6, 9, 11} then 30 else 31)"

definition civil_instant :: "int \<Rightarrow> int \<Rightarrow> int \<Rightarrow> instant" where
  "civil_instant y m d =
     (let y' = (if m \<le> 2 then y - 1 else y); era = y' div 400; yoe = y' mod 400;
          doy = (153 * (if m > 2 then m - 3 else m + 9) + 2) div 5 + d - 1;
          doe = yoe * 365 + yoe div 4 - yoe div 100 + doy in
      (era * 146097 + doe - 306) * day)"

fun parse_date :: "string \<Rightarrow> instant option" where
  "parse_date [y1, y2, y3, y4, s1, m1, m2, s2, d1, d2] =
     (let y = decimal_value [y1, y2, y3, y4]; m = decimal_value [m1, m2]; d = decimal_value [d1, d2] in
      if list_all is_decimal_digit [y1, y2, y3, y4, m1, m2, d1, d2] \<and> s1 = CHR ''-'' \<and> s2 = CHR ''-'' \<and>
         1 \<le> m \<and> m \<le> 12 \<and> 1 \<le> d \<and> d \<le> days_in m y
      then Some (civil_instant y m d) else None)"
| "parse_date _ = None"

end
