(* ===== verification/Identity.thy ===== *)
theory Identity
  imports Prelude "HOL-Library.AList"
begin

text \<open>
  Package \<open>internal/identity\<close>: principals and their roles, the rule that ties an organisation to
  exactly one role (\<open>authority.go\<close>), departmental review authority (\<open>department_authority.go\<close>)
  and effective-dated functional assignments (\<open>checklist_functional_authority.go\<close>). The SQL
  query that resolves the department assignments of a principal is not modelled here: a principal
  carries its resolved assignments, as in the code.
\<close>

section \<open>Principals and roles\<close>

text \<open>Go's \<open>type Role string\<close> is open: \<open>RoleOther\<close> stands for every other string.\<close>

datatype Role =
    RoleInspector | RoleLeadInspector | RoleDepartmentManager | RoleGeneralManager
  | RoleFinance | RoleExecutiveDirector | RoleAuditee | RoleAdmin | RoleOther string

record DepartmentAssignment =
  da_DepartmentID :: string
  da_OrganizationalUnitID :: string
  da_EffectiveFrom :: instant
  da_EffectiveTo :: "instant option"

record Principal =
  SubjectID :: string
  DisplayName :: string
  OrganizationID :: string
  Roles :: "Role list"
  SessionID :: string
  DepartmentAssignments :: "DepartmentAssignment list"

fun HasRole :: "Principal \<Rightarrow> Role list \<Rightarrow> bool" where
  "HasRole p expected = list_ex (\<lambda>actual. list_ex (\<lambda>candidate. actual = candidate) expected)
     (Roles p)"

definition BelongsTo :: "Principal \<Rightarrow> string \<Rightarrow> bool" where
  "BelongsTo p organizationID \<longleftrightarrow>
     OrganizationID p \<noteq> '''' \<and> OrganizationID p = organizationID"

definition IsCAA :: "Principal \<Rightarrow> bool" where
  "IsCAA p \<longleftrightarrow> HasRole p
     [RoleInspector, RoleLeadInspector, RoleDepartmentManager, RoleGeneralManager, RoleFinance,
      RoleExecutiveDirector, RoleAdmin]"

declare HasRole.simps [simp del]

lemma HasRole_iff: "HasRole p rs \<longleftrightarrow> (\<exists>r \<in> set rs. r \<in> set (Roles p))"
  by (auto simp: HasRole.simps list_ex_iff)

lemma HasRole_mono: "HasRole p rs \<Longrightarrow> set rs \<subseteq> set rs' \<Longrightarrow> HasRole p rs'"
  by (auto simp: HasRole_iff)

lemma BelongsTo_iff [guard_defs]:
  "BelongsTo p org \<longleftrightarrow> OrganizationID p = org \<and> org \<noteq> ''''"
  by (auto simp: BelongsTo_def)

section \<open>One organisation, one role\<close>

datatype authority_error =
    ErrInvalidApplicationAuthority
  | ErrUnsupportedRole Role \<comment> \<open>wraps \<open>ErrInvalidApplicationAuthority\<close>\<close>

text \<open>The result of a Go function that returns only an \<open>error\<close>: \<open>None\<close> is \<open>nil\<close>.\<close>

definition ValidateApplicationAuthority :: "string \<Rightarrow> Role list \<Rightarrow> authority_error option" where
  "ValidateApplicationAuthority organizationID roles =
     (let trimmedOrganizationID = TrimSpace organizationID in
      if organizationID \<noteq> trimmedOrganizationID \<or> trimmedOrganizationID = '''' \<or> length roles \<noteq> 1
      then Some ErrInvalidApplicationAuthority
      else (case roles ! 0 of
          RoleAuditee \<Rightarrow>
            if organizationID = ''CAA'' then Some ErrInvalidApplicationAuthority else None
        | RoleOther r \<Rightarrow> Some (ErrUnsupportedRole (RoleOther r))
        | _ \<Rightarrow> if organizationID \<noteq> ''CAA'' then Some ErrInvalidApplicationAuthority else None))"

definition EqualApplicationAuthority :: "string \<Rightarrow> Role list \<Rightarrow> string \<Rightarrow> Role list \<Rightarrow> bool" where
  "EqualApplicationAuthority leftOrganizationID leftRoles rightOrganizationID rightRoles \<longleftrightarrow>
     (if ValidateApplicationAuthority leftOrganizationID leftRoles \<noteq> None \<or>
         ValidateApplicationAuthority rightOrganizationID rightRoles \<noteq> None
      then False
      else leftOrganizationID = rightOrganizationID \<and> leftRoles ! 0 = rightRoles ! 0)"

lemma valid_authority_single_role:
  assumes "ValidateApplicationAuthority org roles = None"
  shows "\<exists>r. roles = [r] \<and> (r = RoleAuditee \<longleftrightarrow> org \<noteq> ''CAA'') \<and> (\<forall>s. r \<noteq> RoleOther s) \<and> \<not> blank org"
proof -
  from assms have "length roles = 1" "TrimSpace org = org" "org \<noteq> ''''"
    by (auto simp: ValidateApplicationAuthority_def Let_def split: if_splits)
  moreover from \<open>length roles = 1\<close> obtain r where "roles = [r]"
    by (cases roles) auto
  ultimately show ?thesis
    using assms
    by (auto simp: ValidateApplicationAuthority_def Let_def blank_def split: if_splits Role.splits)
qed

lemma EqualApplicationAuthority_refl:
  "EqualApplicationAuthority org roles org roles \<longleftrightarrow> ValidateApplicationAuthority org roles = None"
  by (simp add: EqualApplicationAuthority_def)

lemma EqualApplicationAuthority_iff:
  "EqualApplicationAuthority o1 r1 o2 r2 \<longleftrightarrow>
     ValidateApplicationAuthority o1 r1 = None \<and> o1 = o2 \<and> r1 = r2"
proof
  assume eq: "EqualApplicationAuthority o1 r1 o2 r2"
  then have v: "ValidateApplicationAuthority o1 r1 = None" "ValidateApplicationAuthority o2 r2 = None"
    by (auto simp: EqualApplicationAuthority_def split: if_splits)
  with eq valid_authority_single_role [OF v(1)] valid_authority_single_role [OF v(2)]
  show "ValidateApplicationAuthority o1 r1 = None \<and> o1 = o2 \<and> r1 = r2"
    by (auto simp: EqualApplicationAuthority_def)
qed (auto simp: EqualApplicationAuthority_def)

section \<open>Departmental review authority\<close>

definition CanTechnicallyReview :: "Principal \<Rightarrow> string \<Rightarrow> bool" where
  "CanTechnicallyReview p departmentID =
     (if \<not> HasRole p [RoleDepartmentManager] \<or> blank departmentID then False
      else list_ex (\<lambda>assignment. da_DepartmentID assignment = departmentID)
             (DepartmentAssignments p))"

definition CanTechnicallyReviewUnit :: "Principal \<Rightarrow> string \<Rightarrow> string \<Rightarrow> bool" where
  "CanTechnicallyReviewUnit p departmentID organizationalUnitID =
     (if \<not> CanTechnicallyReview p departmentID \<or> blank organizationalUnitID then False
      else list_ex (\<lambda>assignment. da_DepartmentID assignment = departmentID \<and>
                       da_OrganizationalUnitID assignment = organizationalUnitID)
             (DepartmentAssignments p))"

definition CanPublishChecklist :: "Principal \<Rightarrow> string \<Rightarrow> bool" where
  "CanPublishChecklist p departmentID = CanTechnicallyReview p departmentID"

section \<open>Functional assignments\<close>

datatype FunctionalPermission =
    FunctionalPermissionRegulatorySourceOwner | FunctionalPermissionChecklistReviewer
  | FunctionalPermissionOther string

datatype FunctionalAssignmentStatus =
    FunctionalAssignmentActive | FunctionalAssignmentRevoked | FunctionalAssignmentExpired
  | FunctionalAssignmentStatusOther string

datatype FunctionalScopeKind =
    ScopeSourceIdentity | ScopeReviewedSourceSet | ScopeDepartmentChecklists
  | ScopeProviderChecklists | ScopeReviewedSourceSetChecklists | ScopeKindOther string

record FunctionalAssignmentScope =
  sc_Kind :: FunctionalScopeKind
  sc_SourceVersionID :: string
  sc_SourceID :: string
  sc_ChainRole :: string
  sc_ReviewedSourceSetID :: string
  sc_ReviewedSourceSetVersion :: i64
  sc_ReviewedSourceSetDigest :: string
  sc_ProviderScopeID :: string
  sc_TargetID :: string
  sc_InspectionType :: string
  sc_DepartmentID :: string
  sc_OrganizationalUnitID :: string
  sc_CandidateRootID :: string

record FunctionalAssignment =
  fa_AssignmentID :: string
  fa_RootID :: string
  fa_SupersedesID :: string
  fa_Version :: i64
  fa_SubjectID :: string
  fa_MembershipID :: string
  fa_Permission :: FunctionalPermission
  fa_Scope :: FunctionalAssignmentScope
  fa_EffectiveFrom :: instant
  fa_EffectiveTo :: "instant option"
  fa_Status :: FunctionalAssignmentStatus
  fa_CreatedAt :: instant

record FunctionalAuthorizationQuery =
  fq_SubjectID :: string
  fq_MembershipID :: string
  fq_Permission :: FunctionalPermission
  fq_At :: instant
  fq_Scope :: FunctionalAssignmentScope

definition errInvalidFunctionalScope :: go_error where
  "errInvalidFunctionalScope = ''invalid functional assignment scope''"

definition ValidateFunctionalAssignmentScope ::
  "FunctionalPermission \<Rightarrow> FunctionalAssignmentScope \<Rightarrow> go_error option" where
  "ValidateFunctionalAssignmentScope permission scope =
     (if blank (sc_DepartmentID scope) \<or> blank (sc_OrganizationalUnitID scope)
      then Some errInvalidFunctionalScope
      else (case permission of
          FunctionalPermissionRegulatorySourceOwner \<Rightarrow>
            (case sc_Kind scope of
                ScopeSourceIdentity \<Rightarrow>
                  if blank (sc_SourceVersionID scope) \<or> blank (sc_SourceID scope) \<or>
                     blank (sc_ChainRole scope)
                  then Some errInvalidFunctionalScope else None
              | ScopeReviewedSourceSet \<Rightarrow>
                  if blank (sc_ReviewedSourceSetID scope) \<or> sint (sc_ReviewedSourceSetVersion scope) \<le> 0 \<or>
                     blank (sc_ReviewedSourceSetDigest scope) \<or> blank (sc_ProviderScopeID scope) \<or>
                     blank (sc_TargetID scope) \<or> blank (sc_InspectionType scope)
                  then Some errInvalidFunctionalScope else None
              | _ \<Rightarrow> Some errInvalidFunctionalScope)
        | FunctionalPermissionChecklistReviewer \<Rightarrow>
            (case sc_Kind scope of
                ScopeDepartmentChecklists \<Rightarrow> None
              | ScopeProviderChecklists \<Rightarrow>
                  if blank (sc_ProviderScopeID scope) then Some errInvalidFunctionalScope else None
              | ScopeReviewedSourceSetChecklists \<Rightarrow>
                  if blank (sc_ReviewedSourceSetID scope) \<or> sint (sc_ReviewedSourceSetVersion scope) \<le> 0 \<or>
                     blank (sc_ReviewedSourceSetDigest scope)
                  then Some errInvalidFunctionalScope else None
              | _ \<Rightarrow> Some errInvalidFunctionalScope)
        | FunctionalPermissionOther _ \<Rightarrow> Some errInvalidFunctionalScope))"

text \<open>
  The first loop of \<open>ResolveCurrentFunctionalAssignments\<close> keeps, per root, the successor with the
  highest version (ties broken by creation time, first come first kept). The Go map is an
  association list without duplicate keys. Iterating over a Go map has no fixed order, but the
  final sort by the (distinct) root identifiers removes the difference.
\<close>

definition supersedes :: "FunctionalAssignment \<Rightarrow> FunctionalAssignment \<Rightarrow> bool" where
  "supersedes assignment current \<longleftrightarrow>
     sint (fa_Version assignment) > sint (fa_Version current) \<or>
     fa_Version assignment = fa_Version current \<and> fa_CreatedAt assignment > fa_CreatedAt current"

fun latest_step :: "(string \<times> FunctionalAssignment) list \<Rightarrow> FunctionalAssignment \<Rightarrow>
    (string \<times> FunctionalAssignment) list" where
  "latest_step latest assignment =
     (if blank (fa_RootID assignment) \<or> sint (fa_Version assignment) \<le> 0 then latest
      else (case map_of latest (fa_RootID assignment) of
          None \<Rightarrow> AList.update (fa_RootID assignment) assignment latest
        | Some current \<Rightarrow>
            if supersedes assignment current
            then AList.update (fa_RootID assignment) assignment latest else latest))"

declare latest_step.simps [simp del]

definition latest_by_root :: "FunctionalAssignment list \<Rightarrow> (string \<times> FunctionalAssignment) list" where
  "latest_by_root assignments = foldl latest_step [] assignments"

definition current_at :: "instant \<Rightarrow> FunctionalAssignment \<Rightarrow> bool" where
  "current_at now assignment \<longleftrightarrow>
     \<not> (fa_Status assignment \<noteq> FunctionalAssignmentActive \<or> fa_EffectiveFrom assignment > now \<or>
        (case fa_EffectiveTo assignment of None \<Rightarrow> False | Some t \<Rightarrow> \<not> now < t)) \<and>
     ValidateFunctionalAssignmentScope (fa_Permission assignment) (fa_Scope assignment) = None"

definition ResolveCurrentFunctionalAssignments ::
  "FunctionalAssignment list \<Rightarrow> instant \<Rightarrow> FunctionalAssignment list" where
  "ResolveCurrentFunctionalAssignments assignments now =
     sort_key fa_RootID (filter (current_at now) (map snd (latest_by_root assignments)))"

definition AuthorizeFunctionalAssignment ::
  "FunctionalAssignment list \<Rightarrow> FunctionalAuthorizationQuery \<Rightarrow> bool" where
  "AuthorizeFunctionalAssignment assignments query =
     (if blank (fq_SubjectID query) \<or> blank (fq_MembershipID query) \<or>
         fq_Permission query = FunctionalPermissionOther '''' \<or>
         blank (sc_DepartmentID (fq_Scope query)) \<or> blank (sc_OrganizationalUnitID (fq_Scope query))
      then False
      else if ValidateFunctionalAssignmentScope (fq_Permission query) (fq_Scope query) \<noteq> None
      then False
      else list_ex (\<lambda>assignment. fa_SubjectID assignment = fq_SubjectID query \<and>
              fa_MembershipID assignment = fq_MembershipID query \<and>
              fa_Permission assignment = fq_Permission query \<and> fa_Scope assignment = fq_Scope query)
            (ResolveCurrentFunctionalAssignments assignments (fq_At query)))"

section \<open>The latest successor per root\<close>

definition eligible :: "FunctionalAssignment \<Rightarrow> bool" where
  "eligible a \<longleftrightarrow> \<not> blank (fa_RootID a) \<and> 0 < sint (fa_Version a)"

lemma supersedes_irrefl [simp]: "\<not> supersedes a a"
  by (simp add: supersedes_def)

lemma supersedes_trans: "supersedes a b \<Longrightarrow> supersedes b c \<Longrightarrow> supersedes a c"
  by (auto simp: supersedes_def)

text \<open>What the loop has established after a prefix \<open>xs\<close> of the assignments.\<close>

definition latest_inv :: "FunctionalAssignment list \<Rightarrow> (string \<times> FunctionalAssignment) list \<Rightarrow> bool" where
  "latest_inv xs latest \<longleftrightarrow> distinct (map fst latest) \<and>
     (\<forall>k a. map_of latest k = Some a \<longrightarrow>
        k = fa_RootID a \<and> a \<in> set xs \<and> eligible a \<and>
        (\<forall>b \<in> set xs. eligible b \<and> fa_RootID b = k \<longrightarrow> \<not> supersedes b a)) \<and>
     (\<forall>b \<in> set xs. eligible b \<longrightarrow> map_of latest (fa_RootID b) \<noteq> None)"

lemma map_of_AList_update [simp]:
  "map_of (AList.update k v al) k' = (if k' = k then Some v else map_of al k')"
  by (simp add: update_conv)

lemma latest_inv_step:
  assumes "latest_inv xs latest"
  shows "latest_inv (xs @ [a]) (latest_step latest a)"
proof (cases "eligible a")
  case False
  then have "latest_step latest a = latest" by (auto simp: latest_step.simps eligible_def)
  with assms False show ?thesis by (auto simp: latest_inv_def)
next
  case True
  then have step: "latest_step latest a =
      (case map_of latest (fa_RootID a) of
         None \<Rightarrow> AList.update (fa_RootID a) a latest
       | Some c \<Rightarrow> if supersedes a c then AList.update (fa_RootID a) a latest else latest)"
    by (auto simp: latest_step.simps eligible_def not_le)
  show ?thesis
  proof (cases "map_of latest (fa_RootID a)")
    case None
    with assms True show ?thesis
      by (force simp: latest_inv_def step distinct_update)
  next
    case (Some c)
    with assms have c: "\<forall>b \<in> set xs. eligible b \<and> fa_RootID b = fa_RootID a \<longrightarrow> \<not> supersedes b c"
      by (auto simp: latest_inv_def)
    have keep: "\<forall>b \<in> set xs. eligible b \<and> fa_RootID b = fa_RootID a \<longrightarrow> \<not> supersedes b a"
      if "supersedes a c" using c that supersedes_trans by blast
    show ?thesis
      using assms True Some c keep
      by (cases "supersedes a c")
        (auto simp: latest_inv_def step distinct_update simp del: map_of_eq_Some_iff)
  qed
qed

lemma latest_inv_latest_by_root: "latest_inv xs (latest_by_root xs)"
proof (induction xs rule: rev_induct)
  case Nil
  then show ?case by (simp add: latest_inv_def latest_by_root_def)
next
  case (snoc a xs)
  then show ?case
    using latest_inv_step [of xs "latest_by_root xs" a] by (simp add: latest_by_root_def)
qed

lemma resolve_current_mem:
  assumes "a \<in> set (ResolveCurrentFunctionalAssignments xs now)"
  shows "a \<in> set xs" "eligible a" "current_at now a"
    "b \<in> set xs \<Longrightarrow> eligible b \<Longrightarrow> fa_RootID b = fa_RootID a \<Longrightarrow> \<not> supersedes b a"
proof -
  from assms obtain k where "(k, a) \<in> set (latest_by_root xs)" and now: "current_at now a"
    by (auto simp: ResolveCurrentFunctionalAssignments_def)
  with latest_inv_latest_by_root [of xs] have m: "map_of (latest_by_root xs) k = Some a"
    by (simp add: latest_inv_def)
  with latest_inv_latest_by_root [of xs] now
  show "a \<in> set xs" "eligible a" "current_at now a"
    "b \<in> set xs \<Longrightarrow> eligible b \<Longrightarrow> fa_RootID b = fa_RootID a \<Longrightarrow> \<not> supersedes b a"
    by (auto simp: latest_inv_def)
qed

lemma distinct_roots_latest: "distinct (map fa_RootID (map snd (latest_by_root xs)))"
proof -
  note inv = latest_inv_latest_by_root [of xs]
  then have d: "distinct (map fst (latest_by_root xs))" by (simp add: latest_inv_def)
  have "fa_RootID (snd x) = fst x" if "x \<in> set (latest_by_root xs)" for x
    using inv d that by (cases x) (simp add: latest_inv_def)
  then have e: "map fa_RootID (map snd (latest_by_root xs)) = map fst (latest_by_root xs)" by simp
  show ?thesis unfolding e by (rule d)
qed

lemma resolve_current_sorted:
  "sorted (map fa_RootID (ResolveCurrentFunctionalAssignments xs now))"
  "distinct (map fa_RootID (ResolveCurrentFunctionalAssignments xs now))"
proof -
  show "sorted (map fa_RootID (ResolveCurrentFunctionalAssignments xs now))"
    by (simp add: ResolveCurrentFunctionalAssignments_def)
  have "distinct (map fa_RootID (filter (current_at now) (map snd (latest_by_root xs))))"
    using distinct_roots_latest [of xs] by (simp add: distinct_map_filter)
  then show "distinct (map fa_RootID (ResolveCurrentFunctionalAssignments xs now))"
    by (simp add: ResolveCurrentFunctionalAssignments_def distinct_map)
qed

lemma AuthorizeFunctionalAssignmentD:
  assumes "AuthorizeFunctionalAssignment xs q"
  obtains a where "a \<in> set (ResolveCurrentFunctionalAssignments xs (fq_At q))"
    "fa_SubjectID a = fq_SubjectID q" "fa_MembershipID a = fq_MembershipID q"
    "fa_Permission a = fq_Permission q" "fa_Scope a = fq_Scope q"
  using assms by (auto simp: AuthorizeFunctionalAssignment_def list_ex_iff split: if_splits)

lemma ResolveCurrent_unique:
  assumes "a \<in> set xs" "eligible a" "current_at now a"
    and "\<forall>b \<in> set xs. b \<noteq> a \<and> eligible b \<and> fa_RootID b = fa_RootID a \<longrightarrow> supersedes a b"
  shows "a \<in> set (ResolveCurrentFunctionalAssignments xs now)"
proof -
  let ?l = "latest_by_root xs"
  note inv = latest_inv_latest_by_root [of xs]
  from assms inv obtain c where c: "map_of ?l (fa_RootID a) = Some c"
    by (auto simp: latest_inv_def)
  with inv have "fa_RootID c = fa_RootID a" "c \<in> set xs" "eligible c" "\<not> supersedes a c"
    using assms(1,2) by (auto simp: latest_inv_def)
  with assms(4) have "c = a" by auto
  with c have "(fa_RootID a, a) \<in> set ?l" by (simp add: map_of_SomeD)
  with assms(3) show ?thesis
    by (force simp: ResolveCurrentFunctionalAssignments_def)
qed

end
