(* ===== verification/FindingLifecycle.thy ===== *)
theory FindingLifecycle
  imports Identity
begin

text \<open>
  The pure state machines of a Finding: authorised closure (\<open>internal/findings/state.go\<close>),
  submission and review of a corrective action plan (\<open>internal/caps/state.go\<close>,
  \<open>internal/caps/authorization.go\<close>) and review of Evidence (\<open>internal/evidence/state.go\<close>), and
  the abstract lifecycle graph they refine.
\<close>

section \<open>Findings\<close>

datatype FindingStatus =
    FStatusOpen | FStatusWaitingForCAP | FStatusCAPSubmitted | FStatusCAPRejected
  | FStatusCAPMoreInformationRequested | FStatusEvidenceRequired | FStatusEvidenceSubmitted
  | FStatusPendingCAAReview | FStatusEvidenceMoreInformationRequested | FStatusPendingClosure
  | FStatusClosed | FStatusOther string

datatype ClosureBasis = ClosureBasisEvidenceVerified | ClosureBasisAuthorized | ClosureBasisOther string

text \<open>The zero value of the Go type \<open>ClosureBasis\<close>.\<close>

definition ClosureBasisNone :: ClosureBasis where
  "ClosureBasisNone = ClosureBasisOther ''''"

record AuthorizedCloseInput =
  ac_Actor :: Principal
  ac_Status :: FindingStatus
  ac_Revision :: i64
  ac_ExpectedRevision :: i64
  ac_Reason :: string

record TransitionResult =
  tr_Status :: FindingStatus
  tr_Revision :: i64
  tr_ClosureBasis :: ClosureBasis
  tr_Reason :: string

definition AuthorizedClose :: "AuthorizedCloseInput \<Rightarrow> go_error + TransitionResult" where
  "AuthorizedClose input =
     (if \<not> HasRole (ac_Actor input) [RoleDepartmentManager]
      then Inl ''only a Department Manager can authorize closure''
      else if ac_Status input = FStatusClosed
      then Inl ''Finding is already closed''
      else if ac_Status input \<noteq> FStatusPendingClosure
      then Inl ''Finding must be pending closure after Evidence verification''
      else if ac_Revision input \<noteq> ac_ExpectedRevision input
      then Inl ''stale Finding revision''
      else if blank (ac_Reason input)
      then Inl ''authorized closure reason is required''
      else Inr \<lparr>tr_Status = FStatusClosed, tr_Revision = ac_Revision input + 1,
                tr_ClosureBasis = ClosureBasisAuthorized, tr_Reason = TrimSpace (ac_Reason input)\<rparr>)"

section \<open>Corrective action plans\<close>

datatype CAPStatus =
    CStatusDraft | CStatusSubmitted | CStatusAccepted | CStatusRejected
  | CStatusMoreInformationRequested | CStatusOther string

datatype CAPReviewDecision =
    CDecisionAccept | CDecisionReject | CDecisionRequestInformation | CDecisionOther string

record CAPSubmitInput =
  cs_Actor :: Principal
  cs_FindingOrganizationID :: string
  cs_FindingStatus :: FindingStatus
  cs_FindingRevision :: i64
  cs_ExpectedFindingRevision :: i64

record CAPSubmitResult =
  csr_CAPStatus :: CAPStatus
  csr_FindingStatus :: FindingStatus

definition caps_Submit :: "CAPSubmitInput \<Rightarrow> go_error + CAPSubmitResult" where
  "caps_Submit input =
     (if \<not> HasRole (cs_Actor input) [RoleAuditee] \<or>
         \<not> BelongsTo (cs_Actor input) (cs_FindingOrganizationID input)
      then Inl ''Auditee is outside the Finding organization''
      else if cs_FindingRevision input \<noteq> cs_ExpectedFindingRevision input
      then Inl ''stale Finding revision''
      else if cs_FindingStatus input \<noteq> FStatusWaitingForCAP \<and>
              cs_FindingStatus input \<noteq> FStatusCAPRejected \<and>
              cs_FindingStatus input \<noteq> FStatusCAPMoreInformationRequested
      then Inl ''Finding is not accepting a CAP submission''
      else Inr \<lparr>csr_CAPStatus = CStatusSubmitted, csr_FindingStatus = FStatusCAPSubmitted\<rparr>)"

record CAPReviewInput =
  cr_Actor :: Principal
  cr_CAPStatus :: CAPStatus
  cr_CAPRevision :: i64
  cr_ExpectedCAPRevision :: i64
  cr_FindingStatus :: FindingStatus
  cr_EvidenceRequired :: bool
  cr_Decision :: CAPReviewDecision
  cr_Reason :: string

record CAPReviewResult =
  crr_CAPStatus :: CAPStatus
  crr_FindingStatus :: FindingStatus

definition caps_Review :: "CAPReviewInput \<Rightarrow> go_error + CAPReviewResult" where
  "caps_Review input =
     (if \<not> HasRole (cr_Actor input) [RoleInspector, RoleLeadInspector]
      then Inl ''role cannot review a CAP''
      else if cr_CAPStatus input \<noteq> CStatusSubmitted \<or> cr_FindingStatus input \<noteq> FStatusCAPSubmitted
      then Inl ''CAP is not pending CAA review''
      else if cr_CAPRevision input \<noteq> cr_ExpectedCAPRevision input
      then Inl ''stale CAP revision''
      else (case cr_Decision input of
          CDecisionAccept \<Rightarrow>
            if \<not> cr_EvidenceRequired input
            then Inr \<lparr>crr_CAPStatus = CStatusAccepted, crr_FindingStatus = FStatusPendingClosure\<rparr>
            else Inr \<lparr>crr_CAPStatus = CStatusAccepted, crr_FindingStatus = FStatusEvidenceRequired\<rparr>
        | CDecisionReject \<Rightarrow>
            if blank (cr_Reason input) then Inl ''CAP rejection reason is required''
            else Inr \<lparr>crr_CAPStatus = CStatusRejected, crr_FindingStatus = FStatusCAPRejected\<rparr>
        | CDecisionRequestInformation \<Rightarrow>
            if blank (cr_Reason input) then Inl ''CAP information request reason is required''
            else Inr \<lparr>crr_CAPStatus = CStatusMoreInformationRequested,
                      crr_FindingStatus = FStatusCAPMoreInformationRequested\<rparr>
        | CDecisionOther _ \<Rightarrow> Inl ''unsupported CAP review decision''))"

datatype RevisionAudience = AudienceCAA | AudienceAuditee

record RevisionReadAuthorizationInput =
  rr_Actor :: Principal
  rr_FindingOrganizationID :: string
  rr_FindingAuthorized :: bool

definition AuthorizeRevisionRead :: "RevisionReadAuthorizationInput \<Rightarrow> go_error + RevisionAudience" where
  "AuthorizeRevisionRead input =
     (if HasRole (rr_Actor input) [RoleInspector, RoleLeadInspector, RoleDepartmentManager]
      then (if \<not> rr_FindingAuthorized input
            then Inl ''Finding authority is required to read CAP revisions''
            else Inr AudienceCAA)
      else if HasRole (rr_Actor input) [RoleAuditee] \<and>
              BelongsTo (rr_Actor input) (rr_FindingOrganizationID input)
      then Inr AudienceAuditee
      else Inl ''CAP revision read authority is unavailable'')"

section \<open>Evidence\<close>

datatype ScanStatus = ScanPending | ScanClean | ScanQuarantined | ScanOther string

datatype EvidenceDecision =
    EDecisionClose | EDecisionPartiallyClose | EDecisionNotClose | EDecisionRequestInformation
  | EDecisionOther string

record EvidenceReviewInput =
  er_Actor :: Principal
  er_VersionID :: string
  er_VersionRevision :: i64
  er_ExpectedVersionRevision :: i64
  er_ScanStatus :: ScanStatus
  er_FindingStatus :: FindingStatus
  er_Decision :: EvidenceDecision

record EvidenceReviewResult =
  err_FindingStatus :: FindingStatus
  err_ClosureBasis :: ClosureBasis

definition evidence_Review :: "EvidenceReviewInput \<Rightarrow> go_error + EvidenceReviewResult" where
  "evidence_Review input =
     (if \<not> HasRole (er_Actor input) [RoleInspector, RoleLeadInspector]
      then Inl ''role cannot review Evidence''
      else if er_VersionID input = '''' \<or> er_VersionRevision input \<noteq> er_ExpectedVersionRevision input
      then Inl ''exact Evidence version revision is required''
      else if er_ScanStatus input \<noteq> ScanClean
      then Inl ''Evidence version is not scan-clean''
      else if er_FindingStatus input \<noteq> FStatusPendingCAAReview \<and>
              er_FindingStatus input \<noteq> FStatusEvidenceSubmitted
      then Inl ''Finding is not pending Evidence review''
      else (case er_Decision input of
          EDecisionClose \<Rightarrow> Inr \<lparr>err_FindingStatus = FStatusClosed,
                                  err_ClosureBasis = ClosureBasisEvidenceVerified\<rparr>
        | EDecisionPartiallyClose \<Rightarrow> Inr \<lparr>err_FindingStatus = FStatusEvidenceMoreInformationRequested,
                                  err_ClosureBasis = ClosureBasisNone\<rparr>
        | EDecisionNotClose \<Rightarrow> Inr \<lparr>err_FindingStatus = FStatusEvidenceMoreInformationRequested,
                                  err_ClosureBasis = ClosureBasisNone\<rparr>
        | EDecisionRequestInformation \<Rightarrow> Inr \<lparr>err_FindingStatus = FStatusEvidenceMoreInformationRequested,
                                  err_ClosureBasis = ClosureBasisNone\<rparr>
        | EDecisionOther _ \<Rightarrow> Inl ''unsupported Evidence review decision''))"

section \<open>The lifecycle graph\<close>

text \<open>
  The abstract specification of the three machines: which status may follow which. Nothing leaves
  \<open>CLOSED\<close>.
\<close>

inductive finding_edge :: "FindingStatus \<Rightarrow> FindingStatus \<Rightarrow> bool" where
  submit_cap: "s \<in> {FStatusWaitingForCAP, FStatusCAPRejected, FStatusCAPMoreInformationRequested} \<Longrightarrow>
     finding_edge s FStatusCAPSubmitted"
| review_cap: "t \<in> {FStatusPendingClosure, FStatusEvidenceRequired, FStatusCAPRejected,
                   FStatusCAPMoreInformationRequested} \<Longrightarrow> finding_edge FStatusCAPSubmitted t"
| review_evidence: "s \<in> {FStatusPendingCAAReview, FStatusEvidenceSubmitted} \<Longrightarrow>
     t \<in> {FStatusClosed, FStatusEvidenceMoreInformationRequested} \<Longrightarrow> finding_edge s t"
| upload_evidence: "s \<in> {FStatusEvidenceRequired, FStatusEvidenceMoreInformationRequested} \<Longrightarrow>
     finding_edge s FStatusEvidenceSubmitted"
| scan_evidence: "t \<in> {FStatusPendingCAAReview, FStatusEvidenceMoreInformationRequested} \<Longrightarrow>
     finding_edge FStatusEvidenceSubmitted t"
| close: "finding_edge FStatusPendingClosure FStatusClosed"

inductive_simps finding_edge_closed [simp]: "finding_edge FStatusClosed t"
inductive_simps finding_edge_into_closed: "finding_edge s FStatusClosed"
inductive_cases finding_edgeE: "finding_edge s t"

lemma AuthorizedClose_Inr [guard_defs]:
  "AuthorizedClose input = Inr r \<longleftrightarrow>
     HasRole (ac_Actor input) [RoleDepartmentManager] \<and> ac_Status input = FStatusPendingClosure \<and>
     ac_Revision input = ac_ExpectedRevision input \<and> \<not> blank (ac_Reason input) \<and>
     r = \<lparr>tr_Status = FStatusClosed, tr_Revision = ac_Revision input + 1,
          tr_ClosureBasis = ClosureBasisAuthorized, tr_Reason = TrimSpace (ac_Reason input)\<rparr>"
  by (auto simp: AuthorizedClose_def)

lemma caps_Submit_Inr [guard_defs]:
  "caps_Submit input = Inr r \<longleftrightarrow>
     HasRole (cs_Actor input) [RoleAuditee] \<and>
     BelongsTo (cs_Actor input) (cs_FindingOrganizationID input) \<and>
     cs_FindingRevision input = cs_ExpectedFindingRevision input \<and>
     cs_FindingStatus input \<in>
       {FStatusWaitingForCAP, FStatusCAPRejected, FStatusCAPMoreInformationRequested} \<and>
     r = \<lparr>csr_CAPStatus = CStatusSubmitted, csr_FindingStatus = FStatusCAPSubmitted\<rparr>"
  by (auto simp: caps_Submit_def)

lemma caps_Submit_edge:
  "caps_Submit input = Inr r \<Longrightarrow> finding_edge (cs_FindingStatus input) (csr_FindingStatus r)"
  by (auto simp: caps_Submit_Inr intro: finding_edge.intros)

lemma caps_Review_edge:
  assumes "caps_Review input = Inr r"
  shows "finding_edge (cr_FindingStatus input) (crr_FindingStatus r)"
    "cr_CAPStatus input = CStatusSubmitted" "cr_FindingStatus input = FStatusCAPSubmitted"
    "cr_CAPRevision input = cr_ExpectedCAPRevision input"
    "crr_CAPStatus r \<in> {CStatusAccepted, CStatusRejected, CStatusMoreInformationRequested}"
    "crr_FindingStatus r = FStatusPendingClosure \<longleftrightarrow>
       cr_Decision input = CDecisionAccept \<and> \<not> cr_EvidenceRequired input"
  using assms
  by (auto simp: caps_Review_def split: if_splits CAPReviewDecision.splits intro: finding_edge.intros)

lemma evidence_Review_edge:
  assumes "evidence_Review input = Inr r"
  shows "finding_edge (er_FindingStatus input) (err_FindingStatus r)"
    "er_ScanStatus input = ScanClean"
    "err_FindingStatus r = FStatusClosed \<longleftrightarrow> er_Decision input = EDecisionClose"
    "err_ClosureBasis r = (if er_Decision input = EDecisionClose
                           then ClosureBasisEvidenceVerified else ClosureBasisNone)"
  using assms
  by (auto simp: evidence_Review_def split: if_splits EvidenceDecision.splits intro: finding_edge.intros)

lemma AuthorizedClose_edge:
  "AuthorizedClose input = Inr r \<Longrightarrow> finding_edge (ac_Status input) (tr_Status r)"
  by (auto simp: AuthorizedClose_Inr intro: finding_edge.intros)

end
