(* ===== verification/FieldDecisions.thy ===== *)
theory FieldDecisions
  imports FindingLifecycle
begin

text \<open>
  The pure decisions of field work: potential findings (\<open>internal/potentialfindings\<close>), the
  question context of an inspection (\<open>internal/inspections/authorization.go\<close>), checklist
  submission and reopening (\<open>internal/checklists/state.go\<close>) and the report approval chain
  (\<open>internal/reports/state.go\<close>).
\<close>

section \<open>Potential findings\<close>

datatype PotentialStatus =
    PStatusPendingLeadReview | PStatusReturned | PStatusDismissed | PStatusConverted
  | PStatusOther string

datatype PotentialDecision = PDecisionReturn | PDecisionDismiss | PDecisionConvert | PDecisionOther string

datatype Severity =
    SeverityLevel1Critical | SeverityLevel2Major | SeverityLevel3Minor | SeverityObservation
  | SeverityOther string

definition SeverityNone :: Severity where "SeverityNone = SeverityOther ''''"

record PotentialDecideInput =
  pd_Actor :: Principal
  pd_Status :: PotentialStatus
  pd_Revision :: i64
  pd_ExpectedRevision :: i64
  pd_Decision :: PotentialDecision
  pd_Reason :: string
  pd_Severity :: Severity

record PotentialDecideResult =
  pdr_Status :: PotentialStatus
  pdr_Revision :: i64
  pdr_CreateFinding :: bool
  pdr_Severity :: Severity

definition validSeverity :: "Severity \<Rightarrow> bool" where
  "validSeverity severity \<longleftrightarrow>
     severity = SeverityLevel1Critical \<or> severity = SeverityLevel2Major \<or>
     severity = SeverityLevel3Minor \<or> severity = SeverityObservation"

definition potentialfindings_Decide :: "PotentialDecideInput \<Rightarrow> go_error + PotentialDecideResult" where
  "potentialfindings_Decide input =
     (if \<not> HasRole (pd_Actor input) [RoleLeadInspector]
      then Inl ''only a Lead Inspector can decide a Potential Finding''
      else if pd_Status input \<noteq> PStatusPendingLeadReview
      then Inl ''Potential Finding is not pending Lead review''
      else if pd_Revision input \<noteq> pd_ExpectedRevision input
      then Inl ''stale Potential Finding revision''
      else (case pd_Decision input of
          PDecisionReturn \<Rightarrow>
            if blank (pd_Reason input) then Inl ''return reason is required''
            else Inr \<lparr>pdr_Status = PStatusReturned, pdr_Revision = pd_Revision input + 1,
                      pdr_CreateFinding = False, pdr_Severity = SeverityNone\<rparr>
        | PDecisionDismiss \<Rightarrow>
            if blank (pd_Reason input) then Inl ''dismissal reason is required''
            else Inr \<lparr>pdr_Status = PStatusDismissed, pdr_Revision = pd_Revision input + 1,
                      pdr_CreateFinding = False, pdr_Severity = SeverityNone\<rparr>
        | PDecisionConvert \<Rightarrow>
            if \<not> validSeverity (pd_Severity input) then Inl ''approved Finding severity is required''
            else Inr \<lparr>pdr_Status = PStatusConverted, pdr_Revision = pd_Revision input + 1,
                      pdr_CreateFinding = True, pdr_Severity = pd_Severity input\<rparr>
        | PDecisionOther _ \<Rightarrow> Inl ''unsupported Potential Finding decision''))"

definition AuthorizeList :: "Principal \<Rightarrow> go_error option" where
  "AuthorizeList actor =
     (if HasRole actor [RoleLeadInspector] then None
      else Some ''Lead Inspector authority is required to list Potential Findings'')"

definition AuthorizeRead :: "Principal \<Rightarrow> string list \<Rightarrow> go_error option" where
  "AuthorizeRead actor assignedInspectorSubjectIDs =
     (if HasRole actor [RoleLeadInspector] then None
      else if HasRole actor [RoleInspector] \<and>
              list_ex (\<lambda>subjectID. subjectID = SubjectID actor) assignedInspectorSubjectIDs then None
      else Some ''Potential Finding read authority is unavailable'')"

lemma potentialfindings_Decide_Inr [guard_defs]:
  assumes "potentialfindings_Decide input = Inr r"
  shows "HasRole (pd_Actor input) [RoleLeadInspector]"
    "pd_Status input = PStatusPendingLeadReview"
    "pd_Revision input = pd_ExpectedRevision input"
    "pdr_Revision r = pd_Revision input + 1"
    "pdr_Status r \<in> {PStatusReturned, PStatusDismissed, PStatusConverted}"
    "pdr_CreateFinding r \<longleftrightarrow> pdr_Status r = PStatusConverted"
    "pdr_CreateFinding r \<Longrightarrow> validSeverity (pdr_Severity r)"
    "pdr_Severity r = (if pd_Decision input = PDecisionConvert then pd_Severity input else SeverityNone)"
    "pdr_Status r = PStatusConverted \<longleftrightarrow> pd_Decision input = PDecisionConvert"
  using assms
  by (auto simp: potentialfindings_Decide_def split: if_splits PotentialDecision.splits)

section \<open>Question context\<close>

record PotentialFindingContext =
  pc_AuditID :: string
  pc_QuestionAuditID :: string
  pc_ResponseAuditID :: string
  pc_QuestionID :: string
  pc_ResponseQuestionID :: string
  pc_AssignedInspectorUserID :: string

definition CanAnswerQuestion :: "Principal \<Rightarrow> string list \<Rightarrow> bool" where
  "CanAnswerQuestion p assignedSubjectIDs =
     (if \<not> HasRole p [RoleInspector] \<or> SubjectID p = '''' then False
      else list_ex (\<lambda>subjectID. SubjectID p = subjectID) assignedSubjectIDs)"

definition ValidatePotentialFindingContext ::
  "PotentialFindingContext \<Rightarrow> Principal \<Rightarrow> go_error option" where
  "ValidatePotentialFindingContext ctx p =
     (if \<not> HasRole p [RoleInspector]
      then Some ''only an Inspector can create a Potential Finding''
      else if pc_AuditID ctx = '''' \<or> pc_QuestionID ctx = ''''
      then Some ''Audit and question identity are required''
      else if pc_AuditID ctx \<noteq> pc_QuestionAuditID ctx \<or> pc_AuditID ctx \<noteq> pc_ResponseAuditID ctx
      then Some ''Potential Finding context crosses Audit scope''
      else if pc_QuestionID ctx \<noteq> pc_ResponseQuestionID ctx
      then Some ''Potential Finding context crosses question scope''
      else if pc_AssignedInspectorUserID ctx \<noteq> SubjectID p
      then Some ''Inspector is not assigned to the question''
      else None)"

lemma CanAnswerQuestion_iff:
  "CanAnswerQuestion p ids \<longleftrightarrow> HasRole p [RoleInspector] \<and> SubjectID p \<noteq> '''' \<and> SubjectID p \<in> set ids"
  by (auto simp: CanAnswerQuestion_def list_ex_iff)

section \<open>Checklists\<close>

datatype ChecklistStatus = KStatusNotStarted | KStatusInProgress | KStatusSubmitted | KStatusOther string

record ChecklistReopenInput =
  ro_Actor :: Principal
  ro_Status :: ChecklistStatus
  ro_Revision :: i64
  ro_ExpectedRevision :: i64
  ro_Reason :: string

record ChecklistSubmitInput =
  su_Actor :: Principal
  su_AssignedSubjectIDs :: "string list"
  su_Status :: ChecklistStatus
  su_Revision :: i64
  su_ExpectedRevision :: i64

text \<open>\<open>SubmitResult\<close> and \<open>ReopenResult\<close> have the same two fields.\<close>

record ChecklistResult =
  kr_Status :: ChecklistStatus
  kr_Revision :: i64

definition CanEdit :: "ChecklistStatus \<Rightarrow> bool" where
  "CanEdit status \<longleftrightarrow> status = KStatusInProgress"

definition checklists_Submit :: "ChecklistSubmitInput \<Rightarrow> go_error + ChecklistResult" where
  "checklists_Submit input =
     (if \<not> HasRole (su_Actor input) [RoleInspector] \<or> SubjectID (su_Actor input) = ''''
      then Inl ''only an assigned Inspector can submit a checklist''
      else if \<not> list_ex (\<lambda>subjectID. subjectID = SubjectID (su_Actor input)) (su_AssignedSubjectIDs input)
      then Inl ''Inspector is not assigned to this checklist''
      else if su_Status input \<noteq> KStatusInProgress
      then Inl ''only an in-progress checklist can be submitted''
      else if su_Revision input \<noteq> su_ExpectedRevision input
      then Inl ''stale checklist revision''
      else Inr \<lparr>kr_Status = KStatusSubmitted, kr_Revision = su_Revision input + 1\<rparr>)"

definition checklists_Reopen :: "ChecklistReopenInput \<Rightarrow> go_error + ChecklistResult" where
  "checklists_Reopen input =
     (if \<not> HasRole (ro_Actor input) [RoleInspector, RoleLeadInspector] \<or>
         HasRole (ro_Actor input) [RoleInspector] \<and> SubjectID (ro_Actor input) = ''''
      then Inl ''only an assigned Inspector or Lead Inspector can reopen a checklist''
      else if ro_Status input \<noteq> KStatusSubmitted
      then Inl ''only a submitted checklist can be reopened''
      else if ro_Revision input \<noteq> ro_ExpectedRevision input
      then Inl ''stale checklist revision''
      else if blank (ro_Reason input)
      then Inl ''reopen reason is required''
      else Inr \<lparr>kr_Status = KStatusInProgress, kr_Revision = ro_Revision input + 1\<rparr>)"

lemma checklists_Submit_Inr [guard_defs]:
  "checklists_Submit input = Inr r \<longleftrightarrow>
     HasRole (su_Actor input) [RoleInspector] \<and> SubjectID (su_Actor input) \<noteq> '''' \<and>
     SubjectID (su_Actor input) \<in> set (su_AssignedSubjectIDs input) \<and>
     su_Status input = KStatusInProgress \<and> su_Revision input = su_ExpectedRevision input \<and>
     r = \<lparr>kr_Status = KStatusSubmitted, kr_Revision = su_Revision input + 1\<rparr>"
  by (auto simp: checklists_Submit_def list_ex_iff)

lemma checklists_Reopen_Inr [guard_defs]:
  "checklists_Reopen input = Inr r \<longleftrightarrow>
     HasRole (ro_Actor input) [RoleInspector, RoleLeadInspector] \<and>
     \<not> (HasRole (ro_Actor input) [RoleInspector] \<and> SubjectID (ro_Actor input) = '''') \<and>
     ro_Status input = KStatusSubmitted \<and> ro_Revision input = ro_ExpectedRevision input \<and>
     \<not> blank (ro_Reason input) \<and>
     r = \<lparr>kr_Status = KStatusInProgress, kr_Revision = ro_Revision input + 1\<rparr>"
  by (auto simp: checklists_Reopen_def)

section \<open>Reports\<close>

datatype ReportKind = KindPreliminary | KindFinal | KindOther string

datatype ReportStatus =
    RStatusDraft | RStatusDepartmentReview | RStatusGeneralManagerReview
  | RStatusExecutiveDirectorReview | RStatusReturned | RStatusIssued | RStatusLocked
  | RStatusOther string

datatype ReportDecision = RDecisionForward | RDecisionReturn | RDecisionIssue | RDecisionOther string

record PrepareInput =
  pi_ReportID :: string
  pi_Kind :: ReportKind
  pi_Version :: i64
  pi_FindingIDs :: "string list"
  pi_ContentHash :: string
  pi_Ready :: bool

record PreparedVersion =
  pv_ReportID :: string
  pv_Kind :: ReportKind
  pv_Version :: i64
  pv_FindingIDs :: "string list"
  pv_ContentHash :: string
  pv_Status :: ReportStatus

definition Prepare :: "PrepareInput \<Rightarrow> go_error + PreparedVersion" where
  "Prepare input =
     (if blank (pi_ReportID input) \<or> sint (pi_Version input) \<le> 0
      then Inl ''report identity and positive version are required''
      else if pi_Kind input \<noteq> KindPreliminary \<and> pi_Kind input \<noteq> KindFinal
      then Inl ''typed Preliminary or Final Report family is required''
      else if \<not> pi_Ready input
      then Inl ''report preparation is not ready for Department review''
      else if \<not> HasPrefix (TrimSpace (pi_ContentHash input)) ''sha256:''
      then Inl ''report content hash is required''
      else if list_ex blank (pi_FindingIDs input)
      then Inl ''report Finding identities cannot be empty''
      else Inr \<lparr>pv_ReportID = pi_ReportID input, pv_Kind = pi_Kind input,
                pv_Version = pi_Version input, pv_FindingIDs = pi_FindingIDs input,
                pv_ContentHash = pi_ContentHash input, pv_Status = RStatusDepartmentReview\<rparr>)"

record ReportDecideInput =
  rd_Actor :: Principal
  rd_Status :: ReportStatus
  rd_Version :: i64
  rd_ExpectedVersion :: i64
  rd_Decision :: ReportDecision
  rd_Reason :: string

definition returnOrForward :: "ReportDecideInput \<Rightarrow> ReportStatus \<Rightarrow> go_error + ReportStatus" where
  "returnOrForward input forward =
     (case rd_Decision input of
        RDecisionForward \<Rightarrow> Inr forward
      | RDecisionReturn \<Rightarrow>
          if blank (rd_Reason input) then Inl ''report return reason is required''
          else Inr RStatusReturned
      | _ \<Rightarrow> Inl ''unsupported report decision at this stage'')"

definition reports_Decide :: "ReportDecideInput \<Rightarrow> go_error + ReportStatus" where
  "reports_Decide input =
     (if rd_Version input \<noteq> rd_ExpectedVersion input then Inl ''stale report version''
      else (case rd_Status input of
          RStatusDepartmentReview \<Rightarrow>
            if \<not> HasRole (rd_Actor input) [RoleDepartmentManager]
            then Inl ''report is outside Department Manager authority''
            else returnOrForward input RStatusGeneralManagerReview
        | RStatusGeneralManagerReview \<Rightarrow>
            if \<not> HasRole (rd_Actor input) [RoleGeneralManager]
            then Inl ''report is outside General Manager authority''
            else returnOrForward input RStatusExecutiveDirectorReview
        | RStatusExecutiveDirectorReview \<Rightarrow>
            if \<not> HasRole (rd_Actor input) [RoleExecutiveDirector] \<or> rd_Decision input \<noteq> RDecisionIssue
            then Inl ''only Executive Director can issue this report''
            else Inr RStatusLocked
        | _ \<Rightarrow> Inl ''report stage is not decidable''))"

text \<open>The approval chain, as a graph labelled with the role that may take the edge.\<close>

inductive report_edge :: "Role \<Rightarrow> ReportStatus \<Rightarrow> ReportStatus \<Rightarrow> bool" where
  dm_forward: "report_edge RoleDepartmentManager RStatusDepartmentReview RStatusGeneralManagerReview"
| gm_forward: "report_edge RoleGeneralManager RStatusGeneralManagerReview RStatusExecutiveDirectorReview"
| dm_return: "report_edge RoleDepartmentManager RStatusDepartmentReview RStatusReturned"
| gm_return: "report_edge RoleGeneralManager RStatusGeneralManagerReview RStatusReturned"
| ed_issue: "report_edge RoleExecutiveDirector RStatusExecutiveDirectorReview RStatusLocked"

inductive_simps report_edge_into_locked: "report_edge r s RStatusLocked"
inductive_simps report_edge_from_locked [simp]: "report_edge r RStatusLocked t"
inductive_simps report_edge_from_returned [simp]: "report_edge r RStatusReturned t"
inductive_cases report_edgeE: "report_edge r s t"

lemma reports_Decide_edge:
  assumes "reports_Decide input = Inr t"
  shows "\<exists>r \<in> set (Roles (rd_Actor input)). report_edge r (rd_Status input) t"
  using assms
  by (auto simp: reports_Decide_def returnOrForward_def HasRole_iff
      split: if_splits ReportStatus.splits ReportDecision.splits intro: report_edge.intros)

lemma reports_Decide_version: "reports_Decide input = Inr t \<Longrightarrow> rd_Version input = rd_ExpectedVersion input"
  by (auto simp: reports_Decide_def split: if_splits)

end
