(* ===== verification/Json.thy ===== *)
theory Json
  imports Prelude
begin

text \<open>
  Decoding of JSON documents into structs, as \<open>encoding/json\<close> does it with
  \<open>DisallowUnknownFields\<close>. A document is a tree; the members of an object are decoded in the order of the
  text. A member that is \<open>null\<close> leaves its field alone, a key that names no field is an error, and keys
  are matched up to the simple case folding of the package.
\<close>

datatype json =
    JNull | JBool bool | JNumber string | JString string
  | JArray "json list" | JObject "(string \<times> json) list"

text \<open>
  The syntax of the texts is that of the package and a parameter: \<open>jt_next\<close> reads the next value of a text
  (\<open>Decoder.Decode\<close>: the end of the text, which is \<open>io.EOF\<close>, an error, or a value and what follows it),
  \<open>jt_any\<close> is the error of storing a value in an \<open>any\<close> (a number out of range), and \<open>jt_marshal\<close> is
  \<open>json.Marshal\<close>, \<open>None\<close> for a value that has no JSON form.
\<close>

datatype json_read = ReadEOF | ReadError go_error | ReadValue json string

record JsonText =
  jt_next :: "string \<Rightarrow> json_read"
  jt_any :: "json \<Rightarrow> go_error option"
  jt_marshal :: "json \<Rightarrow> string option"

definition upper_ascii :: "char \<Rightarrow> char" where
  "upper_ascii c = (if CHR ''a'' \<le> c \<and> c \<le> CHR ''z'' then char_of (of_char c - (32 :: nat)) else c)"

text \<open>\<open>foldName\<close>: besides the letters, the long s and the Kelvin sign fold to ASCII letters; other runes
  never match a field of the program.\<close>

fun fold_name :: "string \<Rightarrow> string" where
  "fold_name [] = []"
| "fold_name (c # s) =
     (if c = CHR 0xC5 \<and> take 1 s = [CHR 0xBF] then CHR ''S'' # fold_name (drop 1 s)
      else if c = CHR 0xE2 \<and> take 2 s = [CHR 0x84, CHR 0xAA] then CHR ''K'' # fold_name (drop 2 s)
      else upper_ascii c # fold_name s)"

declare fold_name.simps [simp del]

definition decode_text :: "string \<Rightarrow> json \<Rightarrow> go_error + string" where
  "decode_text current v = (case v of
     JNull \<Rightarrow> Inr current
   | JString s \<Rightarrow> Inr s
   | _ \<Rightarrow> Inl ''json: cannot unmarshal value into Go value of type string'')"

text \<open>An array is decoded into the elements the slice already has, then into new ones.\<close>

fun decode_elements :: "('a \<Rightarrow> json \<Rightarrow> go_error + 'a) \<Rightarrow> 'a \<Rightarrow> 'a list \<Rightarrow> json list \<Rightarrow> go_error + 'a list" where
  "decode_elements dec zero current [] = Inr []"
| "decode_elements dec zero current (v # vs) =
     bind_result (dec (case current of [] \<Rightarrow> zero | c # _ \<Rightarrow> c) v) (\<lambda>x.
     bind_result (decode_elements dec zero (tl current) vs) (\<lambda>xs. Inr (x # xs)))"

definition decode_array :: "('a \<Rightarrow> json \<Rightarrow> go_error + 'a) \<Rightarrow> 'a \<Rightarrow> 'a list \<Rightarrow> json \<Rightarrow> go_error + 'a list" where
  "decode_array dec zero current v = (case v of
     JNull \<Rightarrow> Inr []
   | JArray vs \<Rightarrow> decode_elements dec zero current vs
   | _ \<Rightarrow> Inl ''json: cannot unmarshal value into Go value of slice type'')"

text \<open>The fields of a struct: the decoder of a field by its folded name.\<close>

type_synonym 'c fields = "string \<Rightarrow> ('c \<Rightarrow> json \<Rightarrow> go_error + 'c) option"

definition decode_into :: "('a \<Rightarrow> json \<Rightarrow> go_error + 'a) \<Rightarrow> ('c \<Rightarrow> 'a) \<Rightarrow> ('a \<Rightarrow> 'c \<Rightarrow> 'c) \<Rightarrow> 'c \<Rightarrow> json \<Rightarrow>
    go_error + 'c" where
  "decode_into dec get put c v = bind_result (dec (get c) v) (\<lambda>x. Inr (put x c))"

fun decode_members :: "'c fields \<Rightarrow> 'c \<Rightarrow> (string \<times> json) list \<Rightarrow> go_error + 'c" where
  "decode_members table c [] = Inr c"
| "decode_members table c ((k, v) # members) =
     (case table (fold_name k) of
        None \<Rightarrow> Inl (''json: unknown field '' @ k)
      | Some dec \<Rightarrow> bind_result (dec c v) (\<lambda>c'. decode_members table c' members))"

definition decode_struct :: "'c fields \<Rightarrow> 'c \<Rightarrow> json \<Rightarrow> go_error + 'c" where
  "decode_struct table c v = (case v of
     JNull \<Rightarrow> Inr c
   | JObject members \<Rightarrow> decode_members table c members
   | _ \<Rightarrow> Inl ''json: cannot unmarshal value into Go value of struct type'')"

text \<open>A decoded object has no unknown member.\<close>

lemma decode_members_known: "decode_members table c members = Inr c' \<Longrightarrow> (k, v) \<in> set members \<Longrightarrow> table (fold_name k) \<noteq> None"
  by (induction table c members rule: decode_members.induct) (auto simp: bind_result_Inr split: option.split_asm)

lemma decode_struct_Inr:
  "decode_struct table c v = Inr c' \<longleftrightarrow>
     v = JNull \<and> c' = c \<or> (\<exists>members. v = JObject members \<and> decode_members table c members = Inr c')"
  by (auto simp: decode_struct_def split: json.splits)

section \<open>\<open>jsonb\<close>\<close>

text \<open>
  The text of a \<open>jsonb\<close> value, as \<open>->>\<close> returns it for values that are not strings: a space after
  every comma and colon, and the escapes of PostgreSQL. The members are in the order of storage.
\<close>

definition hex_digit :: "nat \<Rightarrow> char" where
  "hex_digit n = (if n < 10 then char_of (48 + n) else char_of (87 + n))"

definition escape_char :: "char \<Rightarrow> string" where
  "escape_char c =
     (if c = CHR 0x22 then [CHR 0x5C, CHR 0x22]
      else if c = CHR 0x5C then [CHR 0x5C, CHR 0x5C]
      else if c = CHR 0x08 then [CHR 0x5C, CHR ''b'']
      else if c = CHR 0x0C then [CHR 0x5C, CHR ''f'']
      else if c = CHR 0x0A then [CHR 0x5C, CHR ''n'']
      else if c = CHR 0x0D then [CHR 0x5C, CHR ''r'']
      else if c = CHR 0x09 then [CHR 0x5C, CHR ''t'']
      else if (of_char c :: nat) < 32
      then [CHR 0x5C, CHR ''u'', CHR ''0'', CHR ''0'', hex_digit (of_char c div 16), hex_digit (of_char c mod 16)]
      else [c])"

definition quoted :: "string \<Rightarrow> string" where
  "quoted s = [CHR 0x22] @ concat (map escape_char s) @ [CHR 0x22]"

fun separated :: "string \<Rightarrow> string list \<Rightarrow> string" where
  "separated sep [] = []"
| "separated sep [s] = s"
| "separated sep (s # t # rest) = s @ sep @ separated sep (t # rest)"

fun jsonb_text :: "json \<Rightarrow> string" where
  "jsonb_text JNull = ''null''"
| "jsonb_text (JBool b) = (if b then ''true'' else ''false'')"
| "jsonb_text (JNumber n) = n"
| "jsonb_text (JString s) = quoted s"
| "jsonb_text (JArray vs) = ''['' @ separated '', '' (map jsonb_text vs) @ '']''"
| "jsonb_text (JObject members) =
     ''{'' @ separated '', '' (map (\<lambda>(k, v). quoted k @ '': '' @ jsonb_text v) members) @ ''}''"

text \<open>\<open>values->>'key'\<close>: \<open>NULL\<close> for an absent member and for \<open>null\<close>.\<close>

definition json_text_at :: "string \<Rightarrow> (string \<times> json) list \<Rightarrow> string option" where
  "json_text_at key values = (case map_of values key of
     None \<Rightarrow> None
   | Some JNull \<Rightarrow> None
   | Some (JString s) \<Rightarrow> Some s
   | Some v \<Rightarrow> Some (jsonb_text v))"

end
