(* ===== verification/ReportContent.thy ===== *)
theory ReportContent
  imports Json
begin

text \<open>
  The immutable report narrative (\<open>internal/documents/report_content.go\<close>). The two functions of
  \<open>golang.org/x/text\<close> the code calls are parameters: \<open>parse_tag\<close> is \<open>language.Parse\<close> followed by
  \<open>Tag.String\<close> (\<open>None\<close> for an error or the undetermined language), \<open>nfc\<close> is
  \<open>norm.NFC.String\<close>. The code validates in place; here the normalised content is the result.
\<close>

record ReportSection =
  sec_ID :: string
  sec_Heading :: string
  sec_Paragraphs :: "string list"

record ReportFinding =
  rf_FindingID :: string
  rf_Reference :: string
  rf_Title :: string
  rf_Narrative :: string
  rf_RegulatoryBasis :: "string list"

record ReportContent =
  rc_Schema :: string
  rc_LanguageTag :: string
  rc_Title :: string
  rc_ExecutiveSummary :: string
  rc_Scope :: string
  rc_Methodology :: string
  rc_Sections :: "ReportSection list"
  rc_Findings :: "ReportFinding list"
  rc_Conclusion :: string
  rc_Recommendations :: "string list"

definition ReportContentSchema :: string where
  "ReportContentSchema = ''avia.report-content/v1''"

definition maximumReportText :: int where "maximumReportText = 200000"
definition maximumReportString :: int where "maximumReportString = 32768"
definition maximumReportSections :: int where "maximumReportSections = 128"
definition maximumReportFindings :: int where "maximumReportFindings = 512"
definition maximumReportParagraphs :: int where "maximumReportParagraphs = 2048"

definition forbidden_rune :: "int \<Rightarrow> bool" where
  "forbidden_rune r \<longleftrightarrow> r = 0x3C \<or> r = 0x3E \<or> IsControl r \<and> r \<noteq> 0x0A \<and> r \<noteq> 0x09"

definition normalizeReportString :: "(string \<Rightarrow> string) \<Rightarrow> bool \<Rightarrow> string \<Rightarrow> go_error + string" where
  "normalizeReportString nfc required value =
     (let normalized = nfc (TrimSpace value) in
      if required \<and> normalized = '''' then Inl ''report content contains a required empty string''
      else if int (length (runes normalized)) > maximumReportString
      then Inl ''report content string exceeds bounded length''
      else if list_ex forbidden_rune (runes normalized)
      then Inl ''report content contains HTML or control text''
      else Inr normalized)"

definition rune_count :: "string \<Rightarrow> nat" where
  "rune_count s = length (runes s)"

text \<open>The body of the loop over \<open>content.Sections\<close>, given the identities seen so far.\<close>

definition normalizeSection :: "(string \<Rightarrow> string) \<Rightarrow> string list \<Rightarrow> ReportSection \<Rightarrow>
    go_error + ReportSection" where
  "normalizeSection nfc seen sec =
     bind_result (normalizeReportString nfc True (sec_ID sec)) (\<lambda>sid.
     if sid \<in> set seen then Inl ''report sections contain duplicate identity''
     else bind_result (normalizeReportString nfc True (sec_Heading sec)) (\<lambda>heading.
     if sec_Paragraphs sec = [] \<or> int (length (sec_Paragraphs sec)) > maximumReportParagraphs
     then Inl ''report section paragraphs are outside bounds''
     else bind_result (map_result (normalizeReportString nfc True) (sec_Paragraphs sec)) (\<lambda>paragraphs.
     Inr \<lparr>sec_ID = sid, sec_Heading = heading, sec_Paragraphs = paragraphs\<rparr>)))"

fun normalizeSections :: "(string \<Rightarrow> string) \<Rightarrow> string list \<Rightarrow> ReportSection list \<Rightarrow>
    go_error + ReportSection list" where
  "normalizeSections nfc seen [] = Inr []"
| "normalizeSections nfc seen (sec # rest) =
     bind_result (normalizeSection nfc seen sec) (\<lambda>sec'.
     bind_result (normalizeSections nfc (sec_ID sec' # seen) rest) (\<lambda>rest'. Inr (sec' # rest')))"

definition normalizeFinding :: "(string \<Rightarrow> string) \<Rightarrow> string list \<Rightarrow> ReportFinding \<Rightarrow>
    go_error + ReportFinding" where
  "normalizeFinding nfc seen f =
     bind_result (normalizeReportString nfc True (rf_FindingID f)) (\<lambda>fid.
     bind_result (normalizeReportString nfc True (rf_Reference f)) (\<lambda>reference.
     bind_result (normalizeReportString nfc True (rf_Title f)) (\<lambda>title.
     bind_result (normalizeReportString nfc True (rf_Narrative f)) (\<lambda>narrative.
     if fid \<in> set seen then Inl ''report findings contain duplicate identity''
     else bind_result (map_result (normalizeReportString nfc True) (rf_RegulatoryBasis f)) (\<lambda>basis.
     Inr \<lparr>rf_FindingID = fid, rf_Reference = reference, rf_Title = title,
           rf_Narrative = narrative, rf_RegulatoryBasis = basis\<rparr>)))))"

fun normalizeFindings :: "(string \<Rightarrow> string) \<Rightarrow> string list \<Rightarrow> ReportFinding list \<Rightarrow>
    go_error + ReportFinding list" where
  "normalizeFindings nfc seen [] = Inr []"
| "normalizeFindings nfc seen (f # rest) =
     bind_result (normalizeFinding nfc seen f) (\<lambda>f'.
     bind_result (normalizeFindings nfc (rf_FindingID f' # seen) rest) (\<lambda>rest'. Inr (f' # rest')))"

text \<open>
  The text count is accumulated along the loops of the code; it only depends on the normalised
  content.
\<close>

definition text_count :: "ReportContent \<Rightarrow> nat" where
  "text_count c =
     sum_list (map (\<lambda>sec. sum_list (map rune_count (sec_Paragraphs sec))) (rc_Sections c)) +
     sum_list (map (\<lambda>f. rune_count (rf_Narrative f)) (rc_Findings c)) +
     sum_list (map rune_count (rc_Recommendations c)) +
     (rune_count (rc_Title c) + rune_count (rc_ExecutiveSummary c) + rune_count (rc_Scope c) +
      rune_count (rc_Methodology c) + rune_count (rc_Conclusion c))"

definition ValidateReportContent :: "(string \<Rightarrow> string option) \<Rightarrow> (string \<Rightarrow> string) \<Rightarrow> ReportContent \<Rightarrow>
    go_error + ReportContent" where
  "ValidateReportContent parse_tag nfc content =
     (if rc_Schema content \<noteq> ReportContentSchema
      then Inl ''report content schema must be avia.report-content/v1''
      else (case parse_tag (TrimSpace (rc_LanguageTag content)) of
        None \<Rightarrow> Inl ''report languageTag must be a valid BCP-47 language tag''
      | Some tag \<Rightarrow>
        bind_result (normalizeReportString nfc True (rc_Title content)) (\<lambda>title.
        bind_result (normalizeReportString nfc True (rc_ExecutiveSummary content)) (\<lambda>summary.
        bind_result (normalizeReportString nfc True (rc_Scope content)) (\<lambda>scope.
        bind_result (normalizeReportString nfc True (rc_Methodology content)) (\<lambda>methodology.
        bind_result (normalizeReportString nfc True (rc_Conclusion content)) (\<lambda>conclusion.
        if int (length (rc_Sections content)) > maximumReportSections \<or>
           int (length (rc_Findings content)) > maximumReportFindings \<or>
           int (length (rc_Recommendations content)) > maximumReportParagraphs
        then Inl ''report content exceeds bounded collection limits''
        else bind_result (normalizeSections nfc [] (rc_Sections content)) (\<lambda>sections.
        bind_result (normalizeFindings nfc [] (rc_Findings content)) (\<lambda>findings.
        bind_result (map_result (normalizeReportString nfc True) (rc_Recommendations content))
          (\<lambda>recommendations.
        let normalized = \<lparr>rc_Schema = rc_Schema content, rc_LanguageTag = tag, rc_Title = title,
                  rc_ExecutiveSummary = summary, rc_Scope = scope, rc_Methodology = methodology,
                  rc_Sections = sections, rc_Findings = findings, rc_Conclusion = conclusion,
                  rc_Recommendations = recommendations\<rparr> in
        if text_count normalized = 0 \<or> int (text_count normalized) > maximumReportText
        then Inl ''report content text is outside bounds''
        else Inr normalized))))))))))"

section \<open>Decoding\<close>

text \<open>The fields of the three structs under the folded names of their JSON tags.\<close>

definition section_fields :: "ReportSection fields" where
  "section_fields name =
     (if name = ''ID'' then Some (decode_into decode_text sec_ID (\<lambda>x s. s\<lparr>sec_ID := x\<rparr>))
      else if name = ''HEADING'' then Some (decode_into decode_text sec_Heading (\<lambda>x s. s\<lparr>sec_Heading := x\<rparr>))
      else if name = ''PARAGRAPHS''
      then Some (decode_into (decode_array decode_text '''') sec_Paragraphs (\<lambda>x s. s\<lparr>sec_Paragraphs := x\<rparr>))
      else None)"

definition no_section :: ReportSection where
  "no_section = \<lparr>sec_ID = '''', sec_Heading = '''', sec_Paragraphs = []\<rparr>"

definition finding_fields :: "ReportFinding fields" where
  "finding_fields name =
     (if name = ''FINDINGID'' then Some (decode_into decode_text rf_FindingID (\<lambda>x f. f\<lparr>rf_FindingID := x\<rparr>))
      else if name = ''REFERENCE''
      then Some (decode_into decode_text rf_Reference (\<lambda>x f. f\<lparr>rf_Reference := x\<rparr>))
      else if name = ''TITLE'' then Some (decode_into decode_text rf_Title (\<lambda>x f. f\<lparr>rf_Title := x\<rparr>))
      else if name = ''NARRATIVE''
      then Some (decode_into decode_text rf_Narrative (\<lambda>x f. f\<lparr>rf_Narrative := x\<rparr>))
      else if name = ''REGULATORYBASIS''
      then Some (decode_into (decode_array decode_text '''') rf_RegulatoryBasis
        (\<lambda>x f. f\<lparr>rf_RegulatoryBasis := x\<rparr>))
      else None)"

definition no_finding :: ReportFinding where
  "no_finding = \<lparr>rf_FindingID = '''', rf_Reference = '''', rf_Title = '''', rf_Narrative = '''',
     rf_RegulatoryBasis = []\<rparr>"

definition content_fields :: "ReportContent fields" where
  "content_fields name =
     (if name = ''SCHEMA'' then Some (decode_into decode_text rc_Schema (\<lambda>x c. c\<lparr>rc_Schema := x\<rparr>))
      else if name = ''LANGUAGETAG''
      then Some (decode_into decode_text rc_LanguageTag (\<lambda>x c. c\<lparr>rc_LanguageTag := x\<rparr>))
      else if name = ''TITLE'' then Some (decode_into decode_text rc_Title (\<lambda>x c. c\<lparr>rc_Title := x\<rparr>))
      else if name = ''EXECUTIVESUMMARY''
      then Some (decode_into decode_text rc_ExecutiveSummary (\<lambda>x c. c\<lparr>rc_ExecutiveSummary := x\<rparr>))
      else if name = ''SCOPE'' then Some (decode_into decode_text rc_Scope (\<lambda>x c. c\<lparr>rc_Scope := x\<rparr>))
      else if name = ''METHODOLOGY''
      then Some (decode_into decode_text rc_Methodology (\<lambda>x c. c\<lparr>rc_Methodology := x\<rparr>))
      else if name = ''SECTIONS''
      then Some (decode_into (decode_array (decode_struct section_fields) no_section) rc_Sections
        (\<lambda>x c. c\<lparr>rc_Sections := x\<rparr>))
      else if name = ''FINDINGS''
      then Some (decode_into (decode_array (decode_struct finding_fields) no_finding) rc_Findings
        (\<lambda>x c. c\<lparr>rc_Findings := x\<rparr>))
      else if name = ''CONCLUSION''
      then Some (decode_into decode_text rc_Conclusion (\<lambda>x c. c\<lparr>rc_Conclusion := x\<rparr>))
      else if name = ''RECOMMENDATIONS''
      then Some (decode_into (decode_array decode_text '''') rc_Recommendations
        (\<lambda>x c. c\<lparr>rc_Recommendations := x\<rparr>))
      else None)"

definition no_content :: ReportContent where
  "no_content = \<lparr>rc_Schema = '''', rc_LanguageTag = '''', rc_Title = '''', rc_ExecutiveSummary = '''',
     rc_Scope = '''', rc_Methodology = '''', rc_Sections = [], rc_Findings = [], rc_Conclusion = '''',
     rc_Recommendations = []\<rparr>"

text \<open>The text is one object with known members only, and nothing but white space follows it.\<close>

definition DecodeReportContent :: "JsonText \<Rightarrow> (string \<Rightarrow> string option) \<Rightarrow> (string \<Rightarrow> string) \<Rightarrow> string \<Rightarrow>
    go_error + ReportContent" where
  "DecodeReportContent text parse_tag nfc raw =
     (case jt_next text raw of
        ReadEOF \<Rightarrow> Inl ''decode report content: EOF''
      | ReadError e \<Rightarrow> Inl (''decode report content: '' @ e)
      | ReadValue v rest \<Rightarrow>
        (case decode_struct content_fields no_content v of
           Inl e \<Rightarrow> Inl (''decode report content: '' @ e)
         | Inr content \<Rightarrow>
           (case jt_next text rest of
              ReadError e \<Rightarrow> Inl (''decode trailing report content: '' @ e)
            | ReadValue trailing _ \<Rightarrow>
              (case jt_any text trailing of
                 Some e \<Rightarrow> Inl (''decode trailing report content: '' @ e)
               | None \<Rightarrow> Inl ''report content contains trailing JSON'')
            | ReadEOF \<Rightarrow> ValidateReportContent parse_tag nfc content)))"

section \<open>Normalisation is a projection\<close>

text \<open>
  What \<open>ValidateReportContent\<close> relies on: canonical tags parse to themselves, and normalising a
  trimmed and normalised string changes nothing.
\<close>

definition stable_text :: "(string \<Rightarrow> string option) \<Rightarrow> (string \<Rightarrow> string) \<Rightarrow> bool" where
  "stable_text parse_tag nfc \<longleftrightarrow>
     (\<forall>s. nfc (TrimSpace (nfc (TrimSpace s))) = nfc (TrimSpace s)) \<and>
     (\<forall>s t. parse_tag s = Some t \<longrightarrow> parse_tag (TrimSpace t) = Some t)"

lemma normalizeReportString_fixed:
  assumes "stable_text parse_tag nfc" "normalizeReportString nfc b s = Inr t"
  shows "normalizeReportString nfc b t = Inr t"
  using assms by (auto simp: normalizeReportString_def stable_text_def Let_def split: if_splits)

lemma normalizeReportString_text:
  assumes "normalizeReportString nfc True s = Inr t"
  shows "t \<noteq> ''''" "int (rune_count t) \<le> maximumReportString" "\<forall>r \<in> set (runes t). \<not> forbidden_rune r"
  using assms
  by (auto simp: normalizeReportString_def Let_def rune_count_def list_ex_iff split: if_splits)

lemma map_normalize_fixed:
  "stable_text parse_tag nfc \<Longrightarrow> map_result (normalizeReportString nfc b) xs = Inr ys \<Longrightarrow>
   map_result (normalizeReportString nfc b) ys = Inr ys"
  by (rule map_result_fixed) (auto intro: normalizeReportString_fixed)

lemma map_result_length: "map_result f xs = Inr ys \<Longrightarrow> length ys = length xs"
  by (simp add: map_result_Inr list_all2_lengthD)

lemma normalizeSection_fixed:
  assumes "stable_text parse_tag nfc" "normalizeSection nfc seen sec = Inr sec'"
  shows "normalizeSection nfc seen sec' = Inr sec'" "sec_ID sec' \<notin> set seen"
    "sec_Paragraphs sec' \<noteq> []"
proof -
  from assms(2) have s: "normalizeReportString nfc True (sec_ID sec) = Inr (sec_ID sec')"
    "normalizeReportString nfc True (sec_Heading sec) = Inr (sec_Heading sec')"
    and ps: "map_result (normalizeReportString nfc True) (sec_Paragraphs sec) = Inr (sec_Paragraphs sec')"
    and b: "sec_ID sec' \<notin> set seen" "sec_Paragraphs sec \<noteq> []"
      "int (length (sec_Paragraphs sec)) \<le> maximumReportParagraphs"
    by (auto simp: normalizeSection_def bind_result_Inr if_Inl_Inr)
  note s' = s [THEN normalizeReportString_fixed [OF assms(1)]]
  note ps' = map_normalize_fixed [OF assms(1) ps] and len = map_result_length [OF ps]
  show "sec_ID sec' \<notin> set seen" by (rule b)
  show ne: "sec_Paragraphs sec' \<noteq> []" using len b(2) by auto
  show "normalizeSection nfc seen sec' = Inr sec'"
    using s' ps' b(1,3) len ne by (cases sec') (simp add: normalizeSection_def)
qed

lemma normalizeFinding_fixed:
  assumes "stable_text parse_tag nfc" "normalizeFinding nfc seen f = Inr f'"
  shows "normalizeFinding nfc seen f' = Inr f'" "rf_FindingID f' \<notin> set seen"
  using assms(2)
  by (auto simp: normalizeFinding_def bind_result_Inr if_Inl_Inr
      intro: normalizeReportString_fixed [OF assms(1)] map_normalize_fixed [OF assms(1)])

lemma normalizeSections_fixed:
  assumes "stable_text parse_tag nfc"
  shows "normalizeSections nfc seen secs = Inr secs' \<Longrightarrow>
    normalizeSections nfc seen secs' = Inr secs' \<and> length secs' = length secs \<and>
    distinct (map sec_ID secs') \<and> set (map sec_ID secs') \<inter> set seen = {} \<and>
    (\<forall>s \<in> set secs'. sec_Paragraphs s \<noteq> [])"
proof (induction secs arbitrary: seen secs')
  case (Cons sec rest)
  then obtain sec' rest' where "normalizeSection nfc seen sec = Inr sec'"
    "normalizeSections nfc (sec_ID sec' # seen) rest = Inr rest'" "secs' = sec' # rest'"
    by (auto simp: bind_result_Inr)
  with Cons.IH [of "sec_ID sec' # seen" rest'] show ?case
    by (auto simp: bind_result_Inr normalizeSection_fixed [OF assms])
qed simp

lemma normalizeFindings_fixed:
  assumes "stable_text parse_tag nfc"
  shows "normalizeFindings nfc seen fs = Inr fs' \<Longrightarrow>
    normalizeFindings nfc seen fs' = Inr fs' \<and> length fs' = length fs \<and>
    distinct (map rf_FindingID fs') \<and> set (map rf_FindingID fs') \<inter> set seen = {}"
proof (induction fs arbitrary: seen fs')
  case (Cons f rest)
  then obtain f' rest' where "normalizeFinding nfc seen f = Inr f'"
    "normalizeFindings nfc (rf_FindingID f' # seen) rest = Inr rest'" "fs' = f' # rest'"
    by (auto simp: bind_result_Inr)
  with Cons.IH [of "rf_FindingID f' # seen" rest'] show ?case
    by (auto simp: bind_result_Inr normalizeFinding_fixed [OF assms])
qed simp

text \<open>What an accepted content satisfies, field by field.\<close>

lemma ValidateReportContent_Inr:
  assumes "ValidateReportContent parse_tag nfc c = Inr c'"
  shows "rc_Schema c = ReportContentSchema" "rc_Schema c' = rc_Schema c"
    "parse_tag (TrimSpace (rc_LanguageTag c)) = Some (rc_LanguageTag c')"
    "normalizeReportString nfc True (rc_Title c) = Inr (rc_Title c')"
    "normalizeReportString nfc True (rc_ExecutiveSummary c) = Inr (rc_ExecutiveSummary c')"
    "normalizeReportString nfc True (rc_Scope c) = Inr (rc_Scope c')"
    "normalizeReportString nfc True (rc_Methodology c) = Inr (rc_Methodology c')"
    "normalizeReportString nfc True (rc_Conclusion c) = Inr (rc_Conclusion c')"
    "int (length (rc_Sections c)) \<le> maximumReportSections" "int (length (rc_Findings c)) \<le> maximumReportFindings"
    "int (length (rc_Recommendations c)) \<le> maximumReportParagraphs"
    "normalizeSections nfc [] (rc_Sections c) = Inr (rc_Sections c')"
    "normalizeFindings nfc [] (rc_Findings c) = Inr (rc_Findings c')"
    "map_result (normalizeReportString nfc True) (rc_Recommendations c) = Inr (rc_Recommendations c')"
    "0 < text_count c'" "int (text_count c') \<le> maximumReportText"
  using assms
  by (auto simp: ValidateReportContent_def bind_result_Inr if_Inl_Inr Let_def split: option.splits)

lemma validate_report_content_fixed:
  assumes stable: "stable_text parse_tag nfc" and valid: "ValidateReportContent parse_tag nfc c = Inr c'"
  shows "ValidateReportContent parse_tag nfc c' = Inr c'"
proof -
  note v = ValidateReportContent_Inr [OF valid]
  note strings = v(4-8) [THEN normalizeReportString_fixed [OF stable]]
  have tag: "parse_tag (TrimSpace (rc_LanguageTag c')) = Some (rc_LanguageTag c')"
    using stable v(3) by (auto simp: stable_text_def)
  show ?thesis
    using v strings tag normalizeSections_fixed [OF stable v(12)]
      normalizeFindings_fixed [OF stable v(13)] map_normalize_fixed [OF stable v(14)]
      map_result_length [OF v(14)]
    by (cases c') (simp add: ValidateReportContent_def Let_def)
qed

section \<open>What crosses the report boundary\<close>

text \<open>A text that may be stored: not empty, of bounded length, and without markup or control characters.\<close>

definition plain_text :: "string \<Rightarrow> bool" where
  "plain_text t \<longleftrightarrow> t \<noteq> '''' \<and> int (rune_count t) \<le> maximumReportString \<and> (\<forall>r \<in> set (runes t). \<not> forbidden_rune r)"

definition content_texts :: "ReportContent \<Rightarrow> string list" where
  "content_texts c =
     [rc_Title c, rc_ExecutiveSummary c, rc_Scope c, rc_Methodology c, rc_Conclusion c] @
     concat (map (\<lambda>s. sec_ID s # sec_Heading s # sec_Paragraphs s) (rc_Sections c)) @
     concat (map (\<lambda>f. rf_FindingID f # rf_Reference f # rf_Title f # rf_Narrative f # rf_RegulatoryBasis f)
       (rc_Findings c)) @ rc_Recommendations c"

lemma normalized_plain: "normalizeReportString nfc True s = Inr t \<Longrightarrow> plain_text t"
  using normalizeReportString_text [of nfc s t] by (simp add: plain_text_def)

lemma normalized_all_plain: "map_result (normalizeReportString nfc True) xs = Inr ys \<Longrightarrow> t \<in> set ys \<Longrightarrow> plain_text t"
  by (auto simp: map_result_Inr list_all2_conv_all_nth in_set_conv_nth) (metis normalized_plain)

definition plain_section :: "ReportSection \<Rightarrow> bool" where
  "plain_section s \<longleftrightarrow> plain_text (sec_ID s) \<and> plain_text (sec_Heading s) \<and> (\<forall>t \<in> set (sec_Paragraphs s). plain_text t)"

definition plain_finding :: "ReportFinding \<Rightarrow> bool" where
  "plain_finding f \<longleftrightarrow> plain_text (rf_FindingID f) \<and> plain_text (rf_Reference f) \<and> plain_text (rf_Title f) \<and>
     plain_text (rf_Narrative f) \<and> (\<forall>t \<in> set (rf_RegulatoryBasis f). plain_text t)"

lemma normalizeSection_plain: "normalizeSection nfc seen s = Inr s' \<Longrightarrow> plain_section s'"
  by (clarsimp simp: normalizeSection_def bind_result_Inr if_Inl_Inr plain_section_def)
    (meson normalized_plain normalized_all_plain)

lemma normalizeFinding_plain: "normalizeFinding nfc seen f = Inr f' \<Longrightarrow> plain_finding f'"
  by (clarsimp simp: normalizeFinding_def bind_result_Inr if_Inl_Inr plain_finding_def)
    (meson normalized_plain normalized_all_plain)

lemma normalizeSections_plain: "normalizeSections nfc seen xs = Inr ys \<Longrightarrow> list_all plain_section ys"
  by (induction xs arbitrary: seen ys) (auto simp: bind_result_Inr intro: normalizeSection_plain)

lemma normalizeFindings_plain: "normalizeFindings nfc seen xs = Inr ys \<Longrightarrow> list_all plain_finding ys"
  by (induction xs arbitrary: seen ys) (auto simp: bind_result_Inr intro: normalizeFinding_plain)

lemma validated_plain:
  assumes "ValidateReportContent parse_tag nfc c = Inr c'"
  shows "\<forall>t \<in> set (content_texts c'). plain_text t"
proof -
  note v = ValidateReportContent_Inr [OF assms]
  from v(4-8) [THEN normalized_plain] normalizeSections_plain [OF v(12)] normalizeFindings_plain [OF v(13)]
    normalized_all_plain [OF v(14)]
  show ?thesis by (auto simp: content_texts_def list_all_iff plain_section_def plain_finding_def)
qed

lemma DecodeReportContent_Inr:
  assumes "DecodeReportContent text parse_tag nfc raw = Inr c"
  obtains members rest content where "jt_next text raw = ReadValue (JObject members) rest" "jt_next text rest = ReadEOF"
    "\<forall>(k, v) \<in> set members. content_fields (fold_name k) \<noteq> None"
    "ValidateReportContent parse_tag nfc content = Inr c"
proof -
  from assms obtain v rest content where r: "jt_next text raw = ReadValue v rest" "jt_next text rest = ReadEOF"
    and d: "decode_struct content_fields no_content v = Inr content"
    and valid: "ValidateReportContent parse_tag nfc content = Inr c"
    by (auto simp: DecodeReportContent_def split: json_read.split_asm sum.split_asm option.split_asm)
  from ValidateReportContent_Inr(1) [OF valid] have "content \<noteq> no_content"
    by (auto simp: no_content_def ReportContentSchema_def)
  with d obtain members where m: "v = JObject members" "decode_members content_fields no_content members = Inr content"
    by (auto simp: decode_struct_Inr)
  from m(2) decode_members_known have "\<forall>(k, v) \<in> set members. content_fields (fold_name k) \<noteq> None" by fast
  with r m(1) valid show thesis by (intro that) simp_all
qed

end
