(* ===== verification/Store.thy ===== *)
theory Store
  imports FieldDecisions ReportContent "HOL-Library.Product_Lexorder"
begin

text \<open>
  The PostgreSQL tables that the command handlers of \<open>internal/application\<close> read and write, with the
  columns those statements mention (\<open>apps/api/migrations\<close>), and the statements themselves: a table is
  a list of rows, \<open>SELECT ... WHERE key = $1\<close> is \<open>lookup\<close>, \<open>UPDATE ... WHERE key = $1\<close> is \<open>modify\<close>
  and \<open>INSERT\<close> is \<open>insert_row\<close>, which fails on a violated primary key, unique index or check.
  A handler runs in one transaction, so an error leaves the tables as they were.
\<close>

section \<open>Errors\<close>

text \<open>The sentinel errors of \<open>internal/application/service.go\<close> and \<open>internal/platform/idempotency\<close>;
  \<open>ErrInternal\<close> is any other error (a failed statement).\<close>

datatype error_kind =
    ErrForbidden | ErrConflict | ErrInvalid | ErrNotFound | ErrOperationIDReuse | ErrInternal

datatype app_error = AppError (err_kind: error_kind) (err_detail: string)

definition wrap_error :: "error_kind \<Rightarrow> go_error + 'a \<Rightarrow> app_error + 'a" where
  "wrap_error k r = (case r of Inl msg \<Rightarrow> Inl (AppError k msg) | Inr x \<Rightarrow> Inr x)"

lemma wrap_error_Inr [simp]: "wrap_error k r = Inr x \<longleftrightarrow> r = Inr x"
  by (simp add: wrap_error_def split: sum.splits)

section \<open>Statements\<close>

definition lookup :: "('r \<Rightarrow> 'k) \<Rightarrow> 'k \<Rightarrow> 'r list \<Rightarrow> 'r option" where
  "lookup key k rows = find (\<lambda>r. key r = k) rows"

definition modify :: "('r \<Rightarrow> 'k) \<Rightarrow> 'k \<Rightarrow> ('r \<Rightarrow> 'r) \<Rightarrow> 'r list \<Rightarrow> 'r list" where
  "modify key k g rows = map (\<lambda>r. if key r = k then g r else r) rows"

text \<open>\<open>violates\<close> is the disjunction of the constraints the new row would break.\<close>

definition insert_row :: "string \<Rightarrow> bool \<Rightarrow> 'r \<Rightarrow> 'r list \<Rightarrow> app_error + 'r list" where
  "insert_row context violates r rows =
     (if violates then Inl (AppError ErrInternal context) else Inr (rows @ [r]))"

text \<open>
  \<open>ORDER BY version DESC LIMIT 1\<close>: the first row with the greatest version. Several ordering
  columns are a tuple, ordered lexicographically; text is ordered bytewise (the \<open>C\<close> collation).
\<close>

fun latest :: "('r \<Rightarrow> 'v :: linorder) \<Rightarrow> 'r list \<Rightarrow> 'r option" where
  "latest version [] = None"
| "latest version (r # rows) =
     (case latest version rows of
        None \<Rightarrow> Some r
      | Some r' \<Rightarrow> if version r' > version r then Some r' else Some r)"

lemma lookup_Some: "lookup key k rows = Some r \<Longrightarrow> r \<in> set rows \<and> key r = k"
  by (auto simp: lookup_def find_Some_iff)

lemma lookup_None: "lookup key k rows = None \<longleftrightarrow> (\<forall>r \<in> set rows. key r \<noteq> k)"
  by (auto simp: lookup_def find_None_iff)

lemma lookup_append: "lookup key k (rows @ rows') =
    (case lookup key k rows of None \<Rightarrow> lookup key k rows' | Some r \<Rightarrow> Some r)"
  by (induction rows) (auto simp: lookup_def)

lemma lookup_single [simp]: "lookup key k [r] = (if key r = k then Some r else None)"
  by (simp add: lookup_def)

lemma lookup_modify:
  assumes "\<And>r. key r = k \<Longrightarrow> key (g r) = k"
  shows "lookup key k' (modify key k g rows) =
    (if k' = k then map_option g (lookup key k rows) else lookup key k' rows)"
  using assms by (induction rows) (auto simp: lookup_def modify_def)

lemma keys_modify:
  assumes "\<And>r. key r = k \<Longrightarrow> key (g r) = k"
  shows "map key (modify key k g rows) = map key rows"
  using assms by (induction rows) (auto simp: modify_def)

lemma map_modify_keep:
  assumes "\<And>r. f (g r) = f r"
  shows "map f (modify key k g rows) = map f rows"
  using assms by (induction rows) (auto simp: modify_def)

lemma insert_row_Inr [row_simps]:
  "insert_row context violates r rows = Inr rows' \<longleftrightarrow> \<not> violates \<and> rows' = rows @ [r]"
  by (auto simp: insert_row_def)

lemma latest_None [simp]: "latest version rows = None \<longleftrightarrow> rows = []"
  by (cases rows) (auto split: option.splits)

lemma latest_Some:
  "latest version rows = Some r \<Longrightarrow> r \<in> set rows \<and> (\<forall>r' \<in> set rows. version r' \<le> version r)"
proof (induction rows arbitrary: r)
  case (Cons a rows)
  then show ?case by (fastforce split: option.splits if_splits)
qed simp

section \<open>Rows\<close>

record Finding =
  f_id :: string
  f_reference :: string
  f_potential_finding_id :: "string option"
  f_inspection_id :: string
  f_organization_id :: string
  f_severity :: Severity
  f_status :: FindingStatus
  f_owner_subject_id :: "string option"
  f_next_action :: string
  f_due_date :: "instant option"
  f_closure_basis :: "ClosureBasis option"
  f_closure_reason :: "string option"
  f_revision :: i64
  f_cap_required :: bool
  f_evidence_required :: bool
  f_issued_at :: "instant option"
  f_closed_at :: "instant option"
  f_created_at :: instant
  f_updated_at :: instant

record PotentialFinding =
  p_id :: string
  p_inspection_id :: string
  p_checklist_response_id :: string
  p_organization_id :: string
  p_status :: PotentialStatus
  p_finding_basis :: string
  p_expected_evidence :: "string option"
  p_comment_to_auditee :: string
  p_internal_caa_note :: "string option"
  p_converted_finding_id :: "string option"
  p_revision :: i64
  p_created_at :: instant
  p_updated_at :: instant
  p_question_id :: string
  p_title :: string
  p_description :: string
  p_created_by_subject_id :: string
  p_supersedes_potential_finding_id :: "string option"

record CAPRevision =
  c_id :: string
  c_cap_id :: string
  c_finding_id :: string
  c_organization_id :: string
  c_revision :: i64
  c_status :: CAPStatus
  c_root_cause :: string
  c_corrective_action :: string
  c_preventive_action :: string
  c_target_completion_date :: instant
  c_submitted_by_subject_id :: string
  c_submitted_at :: instant
  c_responsible_person :: string
  c_comment_to_caa :: "string option"

record EvidenceVersion =
  e_id :: string
  e_evidence_id :: string
  e_finding_id :: string
  e_organization_id :: string
  e_version :: i64
  e_object_metadata_id :: "string option"
  e_filename :: string
  e_media_type :: string
  e_sha256 :: string
  e_size_bytes :: i64
  e_status :: ScanStatus
  e_submitted_by_subject_id :: string
  e_submitted_at :: instant
  e_revision :: i64

record EvidenceVersionState =
  es_evidence_version_id :: string
  es_upload_state :: string
  es_scan_state :: ScanStatus
  es_review_state :: string
  es_canonical_object_metadata_id :: "string option"
  es_scan_reason :: "string option"
  es_revision :: i64
  es_updated_at :: instant

datatype DecisionText =
    CAPDecision CAPReviewDecision | EvidenceDecisionText EvidenceDecision
  | PotentialDecisionText PotentialDecision

record ReviewDecisionRow =
  v_id :: string
  v_entity_type :: string
  v_entity_id :: string
  v_expected_revision :: i64
  v_decision :: DecisionText
  v_reason :: "string option"
  v_comment_to_auditee :: "string option"
  v_internal_caa_note :: "string option"
  v_decided_by_subject_id :: string
  v_decided_at :: instant

text \<open>
  The JSON snapshot of a report version. \<open>rs_decodes\<close> tells whether \<open>json.Unmarshal\<close> into the Go
  struct succeeds; \<open>rs_kind = None\<close> is an absent \<open>kind\<close>, which SQL reads as \<open>NULL\<close> and Go as the
  empty string.
\<close>

record ReportSnapshot =
  rs_decodes :: bool
  rs_kind :: "ReportKind option"
  rs_ready :: bool
  rs_finding_ids :: "string list"
  rs_potential_finding_ids :: "string list"
  rs_potential_finding_root_digest :: string
  rs_content_hash :: string
  rs_created_by_subject :: string
  rs_content :: ReportContent

record ReportVersion =
  rv_id :: string
  rv_report_id :: string
  rv_inspection_id :: string
  rv_version :: i64
  rv_status :: string
  rv_snapshot :: ReportSnapshot
  rv_created_at :: instant

record ReportApprovalState =
  ra_report_version_id :: string
  ra_status :: ReportStatus
  ra_revision :: i64
  ra_issued_at :: "instant option"
  ra_updated_at :: instant

record ReportDecisionRow =
  rdr_id :: string
  rdr_report_version_id :: string
  rdr_expected_version :: i64
  rdr_decision :: ReportDecision
  rdr_reason :: "string option"
  rdr_decided_by_subject_id :: string
  rdr_decided_at :: instant

record Organization =
  g_id :: string
  g_legal_name :: string
  g_organization_type :: string
  g_status :: string
  g_revision :: i64
  g_created_at :: instant
  g_updated_at :: instant
  g_tombstoned_at :: "instant option"

record ReminderRuleRow =
  rm_id :: string
  rm_label :: string
  rm_offset_days :: i64
  rm_channel :: string
  rm_status :: string
  rm_revision :: i64
  rm_created_at :: instant
  rm_updated_at :: instant

record Inspection =
  in_id :: string
  in_organization_id :: string
  in_inspection_type :: string
  in_status :: string
  in_revision :: i64
  in_tombstoned_at :: "instant option"
  in_updated_at :: instant
  in_assigned_inspector_subject_id :: "string option"
  in_title :: string
  in_due_date :: "instant option"
  in_created_at :: instant

text \<open>The JSON snapshot of a package that was materialized from a released scope.\<close>

record PackageQuestion =
  kq_id :: string
  kq_sectionId :: string
  kq_prompt :: string
  kq_regulatoryReference :: string
  kq_expectedEvidence :: string
  kq_assignedInspectorUserIds :: "string list"

record PackageSnapshot =
  ks_schemaVersion :: i64
  ks_protocolVersion :: i64
  ks_catalogId :: string
  ks_usageClass :: string
  ks_releasedScopeSnapshotId :: string
  ks_selectionDigest :: string
  ks_preparationId :: string
  ks_preparationDigest :: string
  ks_questions :: "PackageQuestion list"

text \<open>\<open>pk_snapshot\<close> is \<open>None\<close> for the snapshot of a checklist template.\<close>

record InspectionPackage =
  pk_id :: string
  pk_inspection_id :: string
  pk_checklist_template_version_id :: "string option"
  pk_canonical_scope_snapshot_id :: "string option"
  pk_package_version :: i64
  pk_expires_at :: "instant option"
  pk_revoked_at :: "instant option"
  pk_package_digest :: string
  pk_snapshot :: "PackageSnapshot option"
  pk_created_at :: instant

record InspectionChecklist =
  k_inspection_id :: string
  k_status :: ChecklistStatus
  k_revision :: i64
  k_submitted_at :: "instant option"
  k_reopened_at :: "instant option"
  k_reopen_reason :: "string option"

record QuestionAssignment =
  qa_inspection_id :: string
  qa_question_id :: string
  qa_subject_id :: string
  qa_assignment_revision :: i64

record ChecklistResponse =
  cr_id :: string
  cr_inspection_id :: string
  cr_package_id :: string
  cr_question_id :: string
  cr_assigned_inspector_subject_id :: string
  cr_response_value :: string
  cr_comment_to_auditee :: "string option"
  cr_internal_caa_note :: "string option"
  cr_revision :: i64
  cr_updated_at :: instant

record UploadSession =
  us_id :: string
  us_upload_kind :: string
  us_aggregate_id :: string
  us_organization_id :: string
  us_initiated_by_subject_id :: string
  us_bucket_name :: string
  us_staging_object_key :: string
  us_file_name :: string
  us_declared_media_type :: string
  us_declared_size_bytes :: i64
  us_declared_sha256 :: string
  us_expected_aggregate_revision :: "i64 option"
  us_upload_state :: string
  us_expires_at :: instant
  us_object_metadata_id :: "string option"
  us_created_at :: instant
  us_completed_at :: "instant option"
  us_session_epoch :: i64
  us_part_size_bytes :: "i64 option"
  us_whole_file_sha256 :: "string option"
  us_object_version_id :: "string option"
  us_object_etag :: "string option"

record ObjectMetadata =
  om_id :: string
  om_aggregate_type :: string
  om_aggregate_id :: string
  om_organization_id :: string
  om_bucket_name :: "string option"
  om_object_key :: string
  om_filename :: string
  om_media_type :: string
  om_sha256 :: string
  om_size_bytes :: i64
  om_scan_status :: ScanStatus
  om_object_state :: string
  om_upload_id :: "string option"
  om_scan_engine_version :: "string option"
  om_scan_signature_version :: "string option"
  om_scanned_at :: "instant option"
  om_object_version_id :: "string option"
  om_object_etag :: "string option"
  om_created_at :: instant

record InspectionAttachmentVersion =
  iv_id :: string
  iv_inspection_attachment_id :: string
  iv_version :: i64
  iv_organization_id :: string
  iv_source_object_metadata_id :: string
  iv_upload_session_id :: string
  iv_file_name :: string
  iv_media_type :: string
  iv_sha256 :: string
  iv_size_bytes :: i64
  iv_submitted_by_subject_id :: string
  iv_submitted_at :: instant

record UploadPart =
  up_id :: string
  up_upload_session_id :: string
  up_session_epoch :: i64
  up_part_number :: i64
  up_byte_size :: i64
  up_part_sha256 :: string
  up_part_object_key :: string
  up_part_state :: string
  up_object_version_id :: "string option"
  up_object_etag :: "string option"
  up_acknowledged_at :: "instant option"
  up_created_at :: instant

record InspectionAttachment =
  at_id :: string
  at_inspection_id :: string
  at_package_id :: string
  at_question_id :: string
  at_checklist_response_id :: "string option"
  at_organization_id :: string
  at_created_by_subject_id :: string
  at_offline_grant_id :: string
  at_device_instance_id :: string
  at_file_name :: string
  at_declared_media_type :: string
  at_declared_size_bytes :: i64
  at_declared_sha256 :: string
  at_object_metadata_id :: "string option"
  at_upload_state :: string
  at_scan_state :: ScanStatus
  at_current_version_id :: "string option"
  at_revision :: i64
  at_updated_at :: instant
  at_canonical_object_metadata_id :: "string option"
  at_potential_finding_id :: "string option"

record AuditAssignment =
  aa_id :: string
  aa_inspection_id :: "string option"
  aa_lead_subject_id :: "string option"
  aa_planning_item_id :: "string option"
  aa_status :: string
  aa_revision :: i64
  aa_tombstoned_at :: "instant option"
  aa_updated_at :: instant
  aa_organization_id :: string
  aa_scheduled_start_date :: "instant option"
  aa_scheduled_end_date :: "instant option"
  aa_released_scope_snapshot_id :: "string option"
  aa_created_at :: instant

record AuditTeamMember =
  tm_assignment_id :: string
  tm_subject_id :: string
  tm_member_role :: string
  tm_removed_at :: "instant option"
  tm_revision :: i64
  tm_created_at :: instant

text \<open>\<open>audit_question_assignments\<close>, \<open>canonical_audit_scope_snapshot_questions\<close> and \<open>question_versions\<close>.\<close>

record AuditQuestionAssignment =
  aq_assignment_id :: string
  aq_question_id :: string
  aq_subject_id :: string
  aq_revision :: i64
  aq_created_at :: instant

record SnapshotQuestion =
  sq_snapshot_id :: string
  sq_question_version_id :: string
  sq_position :: int

record QuestionVersionRow =
  qv_id :: string
  qv_question_id :: string
  qv_prompt :: string
  qv_configured_reference :: string
  qv_expected_evidence :: string

record DocumentRecord =
  dr_id :: string
  dr_organization_id :: string
  dr_kind :: string
  dr_title :: string

text \<open>
  \<open>session_references\<close>, \<open>offline_grants\<close>, \<open>sync_cursor_tokens\<close> and \<open>sync_cursors\<close>. The JSON columns
  \<open>assignment_scope\<close> and \<open>profile_public_jwk\<close> are the question identifiers and the text of the key.
\<close>

record SessionReference =
  ses_id :: string
  ses_subject_id :: string
  ses_expires_at :: instant
  ses_absolute_expires_at :: "instant option"
  ses_revoked_at :: "instant option"

record OfflineGrantRow =
  gr_id :: string
  gr_subject_id :: string
  gr_device_id :: string
  gr_package_id :: string
  gr_inspection_id :: string
  gr_assignment_revision :: i64
  gr_granted_at :: instant
  gr_expires_at :: instant
  gr_revoked_at :: "instant option"
  gr_revoke_reason :: "string option"
  gr_session_id :: string
  gr_package_version :: i64
  gr_package_digest :: string
  gr_allowed_command_types :: "string list"
  gr_assignment_scope :: "string list"
  gr_profile_key_id :: string
  gr_profile_public_jwk :: string
  gr_lease_issued_at :: instant
  gr_lease_expires_at :: instant

record CursorToken =
  ct_token :: string
  ct_subject_id :: string
  ct_organization_id :: string
  ct_package_id :: string
  ct_grant_id :: string
  ct_device_id :: string
  ct_profile_key_id :: string
  ct_projection_version :: i64
  ct_high_water_mark :: int
  ct_issued_at :: instant

record SyncCursorRow =
  sx_subject_id :: string
  sx_device_id :: string
  sx_profile_key_id :: string
  sx_cursor_sequence :: int
  sx_projection_version :: i64
  sx_updated_at :: instant

end
