(* ===== verification/ScopeAuthority.thy ===== *)
theory ScopeAuthority
  imports Store
begin

text \<open>
  The current department authority over a planned audit:
  \<open>requireCurrentDepartmentScopeAuthority\<close> of \<open>internal/assignments/service.go\<close>, one SQL query over
  the planning, provider-scope and department tables. \<open>today\<close> is \<open>CURRENT_DATE\<close>; dates are day
  numbers. A nullable column is an \<open>option\<close>, and a comparison with \<open>NULL\<close> is not true.
\<close>

record PlanningIntakeDraft =
  pid_id :: string
  pid_submitted_planning_item_id :: "string option"
  pid_values :: "(string \<times> json) list" \<comment> \<open>a \<open>jsonb\<close> object\<close>
  pid_tombstoned :: bool
  pid_revision :: i64
  pid_updated_at :: instant
  pid_organization_id :: string
  pid_created_by_subject_id :: string

definition pid_prepared_audit_id :: "PlanningIntakeDraft \<Rightarrow> string option" where
  "pid_prepared_audit_id draft = json_text_at ''preparedAuditId'' (pid_values draft)"

record ScopeDraft =
  sd_id :: string
  sd_planning_intake_draft_id :: "string option"
  sd_planning_proposal_snapshot_id :: "string option"
  sd_provider_scope_id :: string
  sd_regulated_target_id :: string
  sd_status :: string
  sd_audit_type :: string
  sd_organization_id :: string
  sd_catalog_id :: string
  sd_usage_class :: string
  sd_catalog_root_digest :: string
  sd_revision :: i64
  sd_selected_question_count :: int
  sd_selection_digest :: string
  sd_approved_checklist_item_ceiling :: "int option"
  sd_updated_at :: instant

record ProposalSnapshot =
  pp_id :: string
  pp_planning_item_id :: string
  pp_draft_id :: string
  pp_revision :: i64
  pp_snapshot_digest :: string
  pp_snapshot :: "(string \<times> json) list"

record ScopeSnapshot =
  ss_scope_draft_id :: string
  ss_stage :: string
  ss_id :: string
  ss_revision :: i64
  ss_catalog_id :: string
  ss_usage_class :: string
  ss_selection_digest :: string
  ss_selected_question_count :: int
  ss_planning_snapshot_digest :: string
  ss_catalog_root_digest :: string
  ss_snapshot :: "(string \<times> json) list"

record ProviderScope =
  ps_id :: string
  ps_root_id :: string
  ps_organization_id :: string
  ps_service_provider_type_id :: string
  ps_status :: string
  ps_effective_from :: int
  ps_effective_to :: "int option"
  ps_primary_target_id :: "string option"

record RegulatedTarget =
  rt_id :: string
  rt_organization_id :: "string option"
  rt_owner_organization_id :: "string option"

record Membership =
  mb_id :: string
  mb_root_id :: string
  mb_subject_id :: string
  mb_department_id :: string
  mb_organizational_unit_id :: string
  mb_membership_role :: string
  mb_status :: string
  mb_effective_from :: int
  mb_effective_to :: "int option"

text \<open>A status fact of a department or of an organisational unit.\<close>

record StatusFact =
  sf_id :: string
  sf_subject :: string
  sf_status :: string
  sf_effective_from :: int

record ScopeTables =
  t_intake_drafts :: "PlanningIntakeDraft list"
  t_scope_drafts :: "ScopeDraft list"
  t_proposals :: "ProposalSnapshot list"
  t_scope_snapshots :: "ScopeSnapshot list"
  t_provider_scopes :: "ProviderScope list"
  t_targets :: "RegulatedTarget list"
  t_responsibilities :: "(string \<times> string) list" \<comment> \<open>service provider type, organisational unit\<close>
  t_units :: "string list"
  t_memberships :: "Membership list"
  t_department_facts :: "StatusFact list"
  t_unit_facts :: "StatusFact list"
  t_scope_targets :: "(string \<times> string) list" \<comment> \<open>provider scope, regulated target\<close>

section \<open>The query\<close>

text \<open>The first common table expression, \<open>matching_scope\<close>; \<open>canonical\<close> are the assignments.\<close>

definition draft_matches :: "AuditAssignment list \<Rightarrow> string \<Rightarrow> string \<Rightarrow> PlanningIntakeDraft \<Rightarrow> bool" where
  "draft_matches canonical planningItemID inspectionID draft \<longleftrightarrow>
     \<not> pid_tombstoned draft \<and>
     (planningItemID \<noteq> '''' \<and> pid_submitted_planning_item_id draft = Some planningItemID \<or>
      inspectionID \<noteq> '''' \<and>
        (pid_prepared_audit_id draft = Some inspectionID \<or>
         list_ex (\<lambda>a. aa_inspection_id a = Some inspectionID \<and>
                      aa_planning_item_id a \<noteq> None \<and>
                      aa_planning_item_id a = pid_submitted_planning_item_id draft \<and>
                      aa_tombstoned_at a = None) canonical))"

definition matching_scope :: "ScopeTables \<Rightarrow> AuditAssignment list \<Rightarrow> string \<Rightarrow> string \<Rightarrow> ScopeDraft list" where
  "matching_scope t canonical planningItemID inspectionID =
     concat (map (\<lambda>draft. filter (\<lambda>sd. sd_planning_intake_draft_id sd = Some (pid_id draft)) (t_scope_drafts t))
       (filter (draft_matches canonical planningItemID inspectionID) (t_intake_drafts t))) @
     concat (map (\<lambda>proposal. filter (\<lambda>sd. sd_planning_proposal_snapshot_id sd = Some (pp_id proposal))
         (t_scope_drafts t))
       (filter (\<lambda>proposal. planningItemID \<noteq> '''' \<and> pp_planning_item_id proposal = planningItemID)
         (t_proposals t)))"

definition effective_at :: "int \<Rightarrow> int option \<Rightarrow> bool" where
  "effective_at today effective_to \<longleftrightarrow>
     (case effective_to of None \<Rightarrow> True | Some d \<Rightarrow> d > today)"

text \<open>\<open>SELECT DISTINCT ON (root_id) ... ORDER BY root_id, effective_from DESC, id DESC\<close>.\<close>

definition current_memberships :: "ScopeTables \<Rightarrow> int \<Rightarrow> string \<Rightarrow> Membership list" where
  "current_memberships t today subject =
     (let rows = filter (\<lambda>m. mb_subject_id m = subject \<and> mb_effective_from m \<le> today) (t_memberships t) in
      map (\<lambda>root. the (latest (\<lambda>m. (mb_effective_from m, mb_id m)) (filter (\<lambda>m. mb_root_id m = root) rows)))
        (sort (remdups (map mb_root_id rows))))"

text \<open>The lateral \<open>membership\<close>: a current manager membership of the unit (\<open>LIMIT 1\<close>).\<close>

definition manager_membership :: "ScopeTables \<Rightarrow> int \<Rightarrow> string \<Rightarrow> string \<Rightarrow> Membership option" where
  "manager_membership t today subject unit =
     find (\<lambda>m. mb_organizational_unit_id m = unit \<and> mb_membership_role m = ''DEPARTMENT_MANAGER'' \<and>
               mb_status m = ''ACTIVE'' \<and> effective_at today (mb_effective_to m))
       (current_memberships t today subject)"

definition current_status :: "StatusFact list \<Rightarrow> int \<Rightarrow> string \<Rightarrow> string option" where
  "current_status facts today subject =
     map_option sf_status (latest (\<lambda>f. (sf_effective_from f, sf_id f))
       (filter (\<lambda>f. sf_subject f = subject \<and> sf_effective_from f \<le> today) facts))"

definition current_provider_scope :: "ScopeTables \<Rightarrow> int \<Rightarrow> ProviderScope \<Rightarrow> ProviderScope option" where
  "current_provider_scope t today scope =
     latest (\<lambda>s. (ps_effective_from s, ps_id s))
       (filter (\<lambda>s. ps_root_id s = ps_root_id scope \<and> ps_effective_from s \<le> today) (t_provider_scopes t))"

definition manages_unit :: "ScopeTables \<Rightarrow> int \<Rightarrow> string \<Rightarrow> string \<Rightarrow> bool" where
  "manages_unit t today subject unit \<longleftrightarrow>
     (case manager_membership t today subject unit of
        None \<Rightarrow> False
      | Some m \<Rightarrow> current_status (t_department_facts t) today (mb_department_id m) = Some ''ACTIVE'' \<and>
                  current_status (t_unit_facts t) today (mb_organizational_unit_id m) = Some ''ACTIVE'')"

definition target_of_scope :: "ScopeTables \<Rightarrow> ProviderScope \<Rightarrow> RegulatedTarget \<Rightarrow> bool" where
  "target_of_scope t scope target \<longleftrightarrow>
     (case rt_organization_id target of None \<Rightarrow> True | Some org \<Rightarrow> org = ps_organization_id scope) \<and>
     (case rt_owner_organization_id target of None \<Rightarrow> True | Some org \<Rightarrow> org = ps_organization_id scope) \<and>
     (ps_primary_target_id scope = Some (rt_id target) \<or>
      list_ex (\<lambda>l. l = (ps_id scope, rt_id target)) (t_scope_targets t))"

text \<open>The second common table expression: the selected draft is released and within the
  subject's current responsibility.\<close>

definition authorized_scope :: "ScopeTables \<Rightarrow> int \<Rightarrow> string \<Rightarrow> ScopeDraft \<Rightarrow> bool" where
  "authorized_scope t today subject selected \<longleftrightarrow>
     list_ex (\<lambda>s. ss_scope_draft_id s = sd_id selected \<and> ss_stage s = ''RELEASED'') (t_scope_snapshots t) \<and>
     (sd_status selected = ''RELEASED'' \<or> sd_status selected = ''FINALIZED'') \<and>
     list_ex (\<lambda>scope. ps_id scope = sd_provider_scope_id selected \<and>
        map_option ps_id (current_provider_scope t today scope) = Some (ps_id scope) \<and>
        ps_status scope = ''ACTIVE'' \<and> ps_effective_from scope \<le> today \<and>
        effective_at today (ps_effective_to scope) \<and>
        list_ex (\<lambda>target. rt_id target = sd_regulated_target_id selected \<and> target_of_scope t scope target)
          (t_targets t) \<and>
        list_ex (\<lambda>(provider_type, unit). provider_type = ps_service_provider_type_id scope \<and>
           unit \<in> set (t_units t) \<and> manages_unit t today subject unit) (t_responsibilities t))
       (t_provider_scopes t)"

definition requireCurrentDepartmentScopeAuthority ::
  "ScopeTables \<Rightarrow> AuditAssignment list \<Rightarrow> int \<Rightarrow> Principal \<Rightarrow> string \<Rightarrow> string \<Rightarrow> app_error option" where
  "requireCurrentDepartmentScopeAuthority t canonical today actor planningItemID inspectionID =
     (let selected = matching_scope t canonical planningItemID inspectionID;
          canonicalScope = (selected \<noteq> []);
          authorized = list_ex (authorized_scope t today (SubjectID actor)) selected in
      if canonicalScope \<and> \<not> authorized then Some (AppError ErrForbidden '''') else None)"

section \<open>Facts\<close>

lemma current_membership_latest:
  assumes "m \<in> set (current_memberships t today subject)"
  shows "m \<in> set (t_memberships t)" "mb_subject_id m = subject" "mb_effective_from m \<le> today"
    "m' \<in> set (t_memberships t) \<Longrightarrow> mb_subject_id m' = subject \<Longrightarrow> mb_effective_from m' \<le> today \<Longrightarrow>
     mb_root_id m' = mb_root_id m \<Longrightarrow> mb_effective_from m' \<le> mb_effective_from m"
proof -
  define rows where "rows = filter (\<lambda>m. mb_subject_id m = subject \<and> mb_effective_from m \<le> today) (t_memberships t)"
  define group where "group root = filter (\<lambda>m. mb_root_id m = root) rows" for root
  have eq: "current_memberships t today subject =
      map (\<lambda>root. the (latest (\<lambda>m. (mb_effective_from m, mb_id m)) (group root)))
        (sort (remdups (map mb_root_id rows)))"
    by (simp add: current_memberships_def rows_def group_def Let_def)
  with assms obtain root where root: "root \<in> mb_root_id ` set rows"
    and m: "m = the (latest (\<lambda>m. (mb_effective_from m, mb_id m)) (group root))"
    by auto
  from root have "group root \<noteq> []" by (auto simp: group_def filter_empty_conv)
  with m have l: "latest (\<lambda>m. (mb_effective_from m, mb_id m)) (group root) = Some m"
    by (metis latest_None option.collapse)
  from latest_Some [OF l] have mem: "m \<in> set (group root)"
    and max: "\<forall>r' \<in> set (group root). mb_effective_from r' \<le> mb_effective_from m"
    by (auto simp: less_eq_prod_def)
  from mem show "m \<in> set (t_memberships t)" "mb_subject_id m = subject" "mb_effective_from m \<le> today"
    by (simp_all add: group_def rows_def)
  show "mb_effective_from m' \<le> mb_effective_from m"
    if "m' \<in> set (t_memberships t)" "mb_subject_id m' = subject" "mb_effective_from m' \<le> today"
      "mb_root_id m' = mb_root_id m"
    using max mem that by (simp add: group_def rows_def)
qed

lemma manages_unit_membership:
  assumes "manages_unit t today subject unit"
  obtains m where "m \<in> set (t_memberships t)" "mb_subject_id m = subject"
    "mb_organizational_unit_id m = unit" "mb_status m = ''ACTIVE''" "mb_effective_from m \<le> today"
    "effective_at today (mb_effective_to m)"
    "current_status (t_department_facts t) today (mb_department_id m) = Some ''ACTIVE''"
proof -
  from assms obtain m where m: "manager_membership t today subject unit = Some m"
    and s: "current_status (t_department_facts t) today (mb_department_id m) = Some ''ACTIVE''"
    by (auto simp: manages_unit_def split: option.splits)
  then have "m \<in> set (current_memberships t today subject)" "mb_organizational_unit_id m = unit"
    "mb_status m = ''ACTIVE''" "effective_at today (mb_effective_to m)"
    by (auto simp: manager_membership_def find_Some_iff)
  with s current_membership_latest [of m t today subject] that show thesis by blast
qed

lemma matching_scope_intake:
  assumes "\<forall>sd \<in> set (t_scope_drafts t). sd_planning_intake_draft_id sd = None"
  shows "matching_scope t canonical '''' inspectionID = []"
  using assms by (auto simp: matching_scope_def filter_empty_conv)

end
