(* ===== verification/AssignmentTypes.thy ===== *)
theory AssignmentTypes
  imports ScopeAuthority
begin

text \<open>
  The data of the preparation of an audit (\<open>internal/assignments\<close> and the materialization of
  \<open>internal/application\<close>): the tables behind it, the commands, their results and the payloads that
  are hashed for idempotency. \<open>Status\<close> is the text of the column; a column of type \<open>date\<close> is the
  instant of its midnight.
\<close>

section \<open>Statuses\<close>

abbreviation StatusPreparation :: string where "StatusPreparation \<equiv> ''PREPARATION''"
abbreviation StatusLeadAssigned :: string where "StatusLeadAssigned \<equiv> ''LEAD_ASSIGNED''"
abbreviation StatusTeamAssigned :: string where "StatusTeamAssigned \<equiv> ''TEAM_ASSIGNED''"
abbreviation StatusQuestionsAssigned :: string where "StatusQuestionsAssigned \<equiv> ''QUESTIONS_ASSIGNED''"
abbreviation StatusAwaitingAuditeeConfirmation :: string where
  "StatusAwaitingAuditeeConfirmation \<equiv> ''AWAITING_AUDITEE_CONFIRMATION''"
abbreviation StatusConfirmed :: string where "StatusConfirmed \<equiv> ''CONFIRMED''"
abbreviation StatusAlternativeProposed :: string where "StatusAlternativeProposed \<equiv> ''ALTERNATIVE_PROPOSED''"
abbreviation StatusScheduled :: string where "StatusScheduled \<equiv> ''SCHEDULED''"
abbreviation StatusReady :: string where "StatusReady \<equiv> ''READY''"

section \<open>Values\<close>

text \<open>\<open>QuestionAssignment\<close>: one subject covers one question.\<close>

record Coverage =
  qc_QuestionID :: string
  qc_SubjectID :: string

datatype CoverageKind = CoverageAdd | CoverageRemove | CoverageReplace | CoverageOther string

text \<open>The JSON snapshots of the previews and of the history of edits.\<close>

datatype EditSnapshot =
    TeamSnapshot "string list" \<comment> \<open>\<open>memberSubjectIds\<close>\<close>
  | CoverageSnapshot CoverageKind "Coverage list"
  | TeamEdit "string list" "Coverage list"
  | CoverageEdit CoverageKind "Coverage list" "Coverage list"

text \<open>The payload a confirmed preparation hashes and stores.\<close>

record PreparationPayload =
  py_assignmentId :: string
  py_releasedScopeSnapshotId :: string
  py_selectionDigest :: string
  py_leadSubjectId :: string
  py_coverage :: "(string \<times> string list) list" \<comment> \<open>question version, its subjects\<close>

section \<open>Tables\<close>

text \<open>\<open>surveillance_plan_items\<close>; the budget, a \<open>numeric(14, 2)\<close>, is in hundredths.\<close>

record PlanItem =
  it_id :: string
  it_organization_id :: string
  it_title :: string
  it_inspection_type :: string
  it_status :: string
  it_scheduled_date :: instant
  it_revision :: i64
  it_tombstoned_at :: "instant option"
  it_plan_year :: int
  it_estimated_budget :: int
  it_current_owner_role :: string
  it_next_action :: string
  it_created_at :: instant
  it_updated_at :: instant

text \<open>\<open>checklist_template_versions\<close>: the identifiers of the questions in the snapshot, \<open>None\<close> when the
  snapshot does not decode.\<close>

record TemplateVersion =
  tv_id :: string
  tv_question_ids :: "string list option"

record PreparationSnapshot =
  ph_id :: string
  ph_assignment_id :: "string option"
  ph_released_scope_snapshot_id :: string
  ph_lead_subject_id :: string
  ph_revision :: i64
  ph_status :: string
  ph_preparation_digest :: string
  ph_confirmed_by_subject_id :: "string option"
  ph_confirmed_at :: "instant option"
  ph_confirmed_assignment_revision :: "i64 option"
  ph_snapshot :: PreparationPayload
  ph_created_at :: instant

record PreparationQuestion =
  pz_preparation_id :: string
  pz_released_scope_snapshot_id :: string
  pz_question_version_id :: string
  pz_subject_id :: string
  pz_position :: int

record EditPreview =
  ep_id :: string
  ep_assignment_id :: string
  ep_assignment_revision :: i64
  ep_edit_kind :: string
  ep_operation_id :: string
  ep_idempotency_key :: string
  ep_edit_digest :: string
  ep_snapshot :: EditSnapshot
  ep_actor_subject_id :: string
  ep_expires_at :: instant

record PreviewConsumption =
  ec_preview_id :: string
  ec_consumed_by_subject_id :: string
  ec_consumed_at :: instant

record EditEvent =
  ev_id :: string
  ev_assignment_id :: string
  ev_assignment_revision :: i64
  ev_edit_kind :: string
  ev_edit_digest :: string
  ev_snapshot :: EditSnapshot
  ev_actor_subject_id :: string

text \<open>\<open>desired_membership_versions\<close>, \<open>desired_membership_sync\<close> and \<open>identity_references\<close>; roles are text arrays.\<close>

record DesiredMembership =
  dm_membership_id :: string
  dm_subject_id :: string
  dm_revision :: i64
  dm_membership_state :: string
  dm_effective_at :: instant
  dm_organization_id :: string
  dm_roles :: "string list"

record MembershipSync =
  ms_membership_id :: string
  ms_subject_id :: string
  ms_desired_revision :: i64
  ms_observed_provider_enabled :: bool
  ms_drift_state :: string
  ms_observed_organization_id :: "string option"
  ms_observed_roles :: "string list"

record IdentityReference =
  id_subject_id :: string
  id_tombstoned_at :: "instant option"
  id_deactivated_at :: "instant option"

text \<open>The sealed catalogs of questions and the eligibility of their members.\<close>

record QuestionCatalog =
  ca_id :: string
  ca_catalog_version :: string
  ca_catalog_root_digest :: string
  ca_usage_class :: string
  ca_status :: string
  ca_source_origin :: string
  ca_created_at :: instant

record CatalogMembership =
  cm_catalog_id :: string
  cm_question_version_id :: string
  cm_usage_class :: string
  cm_form_code :: string
  cm_ordinal :: int
  cm_proposed_domain :: "string option"

text \<open>\<open>canonical_question_catalog_ai_enrichments\<close>.\<close>

record Enrichment =
  en_catalog_id :: string
  en_question_version_id :: string
  en_mandatory_control :: bool
  en_safety_critical :: bool
  en_risk_tier :: string

text \<open>
  \<open>canonical_audit_scope_selection_operations\<close>, with the identifiers of the receipt, and the rows of
  \<open>canonical_audit_scope_selection_questions\<close> that belong to it (question version, position).
\<close>

record SelectionOperation =
  so_id :: string
  so_scope_draft_id :: string
  so_operation_kind :: string
  so_affected_question_version_ids :: "string list"
  so_created_at :: instant
  so_questions :: "(string \<times> int) list"

record MembershipEvent =
  me_event_id :: string
  me_catalog_id :: string
  me_question_version_id :: string
  me_status :: string
  me_occurred_at :: instant

record Applicability =
  ap_catalog_id :: string
  ap_question_version_id :: string
  ap_provider_scope_id :: string
  ap_regulated_target_id :: string
  ap_status :: string

record PreparationTables =
  plan_items :: "PlanItem list"
  template_versions :: "TemplateVersion list"
  preparation_snapshots :: "PreparationSnapshot list"
  preparation_questions :: "PreparationQuestion list"
  edit_previews :: "EditPreview list"
  preview_consumptions :: "PreviewConsumption list"
  edit_events :: "EditEvent list"
  desired_memberships :: "DesiredMembership list"
  membership_sync :: "MembershipSync list"
  identity_references :: "IdentityReference list"
  question_catalogs :: "QuestionCatalog list"
  catalog_memberships :: "CatalogMembership list"
  membership_events :: "MembershipEvent list"
  applicabilities :: "Applicability list"
  enrichments :: "Enrichment list"
  selection_operations :: "SelectionOperation list"

section \<open>Commands\<close>

record PrepareCommand =
  ac_OperationID :: string
  ac_IdempotencyKey :: string
  ac_PlanningItemID :: string
  ac_InspectionID :: string
  ac_ExpectedPlanningRevision :: i64

record ConfirmPreparationCommand =
  cf_OperationID :: string
  cf_IdempotencyKey :: string
  cf_AssignmentID :: string
  cf_ExpectedAssignmentRevision :: i64

record AssignLeadCommand =
  al_OperationID :: string
  al_IdempotencyKey :: string
  al_AssignmentID :: string
  al_InspectionID :: string
  al_ExpectedInspectionRevision :: i64
  al_LeadSubjectID :: string
  al_ScheduledStartDate :: string
  al_ScheduledEndDate :: string

record AssignTeamCommand =
  mt_OperationID :: string
  mt_IdempotencyKey :: string
  mt_AssignmentID :: string
  mt_ExpectedRevision :: i64
  mt_PreviewID :: string
  mt_PreviewDigest :: string
  mt_MemberSubjectIDs :: "string list"

record PreviewTeamCommand =
  vt_OperationID :: string
  vt_IdempotencyKey :: string
  vt_AssignmentID :: string
  vt_ExpectedRevision :: i64
  vt_MemberSubjectIDs :: "string list"

record PreviewQuestionsCommand =
  vq_OperationID :: string
  vq_IdempotencyKey :: string
  vq_AssignmentID :: string
  vq_ExpectedRevision :: i64
  vq_OperationKind :: CoverageKind
  vq_QuestionAssignments :: "Coverage list"

record AssignQuestionsCommand =
  mq_OperationID :: string
  mq_IdempotencyKey :: string
  mq_AssignmentID :: string
  mq_ExpectedRevision :: i64
  mq_PreviewID :: string
  mq_PreviewDigest :: string
  mq_OperationKind :: CoverageKind
  mq_QuestionAssignments :: "Coverage list"

datatype CoordinationDecision =
    CoordinationConfirm | CoordinationProposeAlternative | CoordinationOther string

record RespondCoordinationCommand =
  rp_OperationID :: string
  rp_IdempotencyKey :: string
  rp_InspectionID :: string
  rp_OrganizationID :: string
  rp_ExpectedRevision :: i64
  rp_Decision :: CoordinationDecision
  rp_AlternativeDate :: "string option"

datatype ReviewCoordinationDecision =
    ReviewCoordinationAccept | ReviewCoordinationReturn | ReviewCoordinationOther string

record ReviewCoordinationCommand =
  rw_OperationID :: string
  rw_IdempotencyKey :: string
  rw_InspectionID :: string
  rw_OrganizationID :: string
  rw_ExpectedRevision :: i64
  rw_Decision :: ReviewCoordinationDecision
  rw_Reason :: string

record MaterializeInspectionCommand =
  mi_OperationID :: string
  mi_IdempotencyKey :: string
  mi_CorrelationID :: string
  mi_AssignmentID :: string
  mi_ExpectedAssignmentRevision :: i64
  mi_TemplateVersionID :: string
  mi_PackageID :: string
  mi_PackageVersion :: i64
  mi_ExpiresAt :: instant

text \<open>What each command of the service hashes: itself, with its lists normalized.\<close>

datatype AssignmentSemantic =
    PrepareSemantic PrepareCommand
  | ConfirmPreparationSemantic ConfirmPreparationCommand
  | AssignLeadSemantic AssignLeadCommand
  | PreviewTeamSemantic PreviewTeamCommand
  | PreviewQuestionsSemantic PreviewQuestionsCommand
  | AssignTeamSemantic AssignTeamCommand
  | AssignQuestionsSemantic AssignQuestionsCommand
  | RespondCoordinationSemantic RespondCoordinationCommand
  | ReviewCoordinationSemantic ReviewCoordinationCommand

section \<open>Results\<close>

text \<open>An omitted text is empty, an omitted number 0 and the zero \<open>time.Time\<close> is 0.\<close>

record Preparation =
  pn_AssignmentID :: string
  pn_PlanningItemID :: string
  pn_InspectionID :: string
  pn_OrganizationID :: string
  pn_Status :: string
  pn_Revision :: i64
  pn_PreparationID :: string
  pn_PreparationDigest :: string
  pn_SelectedQuestionCount :: int
  pn_ConfirmedAt :: instant
  pn_ConfirmedAssignmentRevision :: i64

record Assignment =
  an_ID :: string
  an_PlanningItemID :: string
  an_ReleasedScopeSnapshotID :: string
  an_InspectionID :: string
  an_OrganizationID :: string
  an_LeadSubjectID :: string
  an_MemberSubjectIDs :: "string list"
  an_QuestionAssignments :: "Coverage list"
  an_SelectedQuestionVersionIDs :: "string list"
  an_Status :: string
  an_ScheduledStartDate :: string
  an_ScheduledEndDate :: string
  an_Revision :: i64
  an_PreparationID :: string
  an_PreparationDigest :: string
  an_PreparationConfirmedAt :: "instant option"
  an_PreparationConfirmedAssignmentRevision :: i64

record PreparationEditPreview =
  pe_PreviewID :: string
  pe_AssignmentID :: string
  pe_AssignmentRevision :: i64
  pe_EditKind :: string
  pe_Digest :: string
  pe_ExpiresAt :: instant
  pe_MemberSubjectIDs :: "string list"
  pe_QuestionAssignments :: "Coverage list"

record AuditeeCoordination =
  co_InspectionID :: string
  co_OrganizationID :: string
  co_OrganizationName :: string
  co_Title :: string
  co_InspectionCategory :: string
  co_ScheduledStartDate :: string
  co_Status :: string
  co_AlternativeDate :: "string option"
  co_NextAction :: string
  co_Revision :: i64

record MaterializedInspection =
  mz_InspectionID :: string
  mz_AssignmentID :: string
  mz_PackageID :: string
  mz_TemplateVersionID :: string
  mz_PackageVersion :: i64
  mz_PackageDigest :: string
  mz_Status :: string
  mz_NoticeWithheld :: bool
  mz_AssignmentRevision :: i64
  mz_ExpiresAt :: instant

end
