(* ===== verification/Commands.thy ===== *)
theory Commands
  imports AssignmentTypes
begin

text \<open>
  The commands of \<open>internal/application\<close>, their results, the semantic payload each hashes for
  idempotency, and the text of the status values that the audit trail stores.
\<close>

section \<open>Texts\<close>

fun role_text :: "Role \<Rightarrow> string" where
  "role_text RoleInspector = ''inspector''"
| "role_text RoleLeadInspector = ''leadInspector''"
| "role_text RoleDepartmentManager = ''manager''"
| "role_text RoleGeneralManager = ''gm''"
| "role_text RoleFinance = ''finance''"
| "role_text RoleExecutiveDirector = ''executiveDirector''"
| "role_text RoleAuditee = ''auditee''"
| "role_text RoleAdmin = ''admin''"
| "role_text (RoleOther s) = s"

fun finding_status_text :: "FindingStatus \<Rightarrow> string" where
  "finding_status_text FStatusOpen = ''OPEN''"
| "finding_status_text FStatusWaitingForCAP = ''WAITING_FOR_CAP''"
| "finding_status_text FStatusCAPSubmitted = ''CAP_SUBMITTED''"
| "finding_status_text FStatusCAPRejected = ''CAP_REJECTED''"
| "finding_status_text FStatusCAPMoreInformationRequested = ''CAP_MORE_INFORMATION_REQUESTED''"
| "finding_status_text FStatusEvidenceRequired = ''EVIDENCE_REQUIRED''"
| "finding_status_text FStatusEvidenceSubmitted = ''EVIDENCE_SUBMITTED''"
| "finding_status_text FStatusPendingCAAReview = ''PENDING_CAA_REVIEW''"
| "finding_status_text FStatusEvidenceMoreInformationRequested = ''EVIDENCE_MORE_INFORMATION_REQUESTED''"
| "finding_status_text FStatusPendingClosure = ''PENDING_CLOSURE''"
| "finding_status_text FStatusClosed = ''CLOSED''"
| "finding_status_text (FStatusOther s) = s"

fun closure_basis_text :: "ClosureBasis \<Rightarrow> string" where
  "closure_basis_text ClosureBasisEvidenceVerified = ''EVIDENCE_VERIFIED''"
| "closure_basis_text ClosureBasisAuthorized = ''AUTHORIZED_CLOSURE''"
| "closure_basis_text (ClosureBasisOther s) = s"

fun potential_status_text :: "PotentialStatus \<Rightarrow> string" where
  "potential_status_text PStatusPendingLeadReview = ''PENDING_LEAD_REVIEW''"
| "potential_status_text PStatusReturned = ''RETURNED''"
| "potential_status_text PStatusDismissed = ''DISMISSED''"
| "potential_status_text PStatusConverted = ''CONVERTED''"
| "potential_status_text (PStatusOther s) = s"

fun checklist_status_text :: "ChecklistStatus \<Rightarrow> string" where
  "checklist_status_text KStatusNotStarted = ''NOT_STARTED''"
| "checklist_status_text KStatusInProgress = ''IN_PROGRESS''"
| "checklist_status_text KStatusSubmitted = ''SUBMITTED''"
| "checklist_status_text (KStatusOther s) = s"

fun report_status_text :: "ReportStatus \<Rightarrow> string" where
  "report_status_text RStatusDraft = ''DRAFT''"
| "report_status_text RStatusDepartmentReview = ''DEPARTMENT_REVIEW''"
| "report_status_text RStatusGeneralManagerReview = ''GM_REVIEW''"
| "report_status_text RStatusExecutiveDirectorReview = ''EXECUTIVE_DIRECTOR_REVIEW''"
| "report_status_text RStatusReturned = ''RETURNED''"
| "report_status_text RStatusIssued = ''ISSUED''"
| "report_status_text RStatusLocked = ''LOCKED''"
| "report_status_text (RStatusOther s) = s"

fun report_kind_text :: "ReportKind \<Rightarrow> string" where
  "report_kind_text KindPreliminary = ''PRELIMINARY''"
| "report_kind_text KindFinal = ''FINAL''"
| "report_kind_text (KindOther s) = s"

fun severity_text :: "Severity \<Rightarrow> string" where
  "severity_text SeverityLevel1Critical = ''LEVEL_1_CRITICAL''"
| "severity_text SeverityLevel2Major = ''LEVEL_2_MAJOR''"
| "severity_text SeverityLevel3Minor = ''LEVEL_3_MINOR''"
| "severity_text SeverityObservation = ''OBSERVATION''"
| "severity_text (SeverityOther s) = s"

text \<open>SQL's \<open>NULLIF($n, '')\<close>.\<close>

definition null_if_empty :: "string \<Rightarrow> string option" where
  "null_if_empty s = (if s = '''' then None else Some s)"

text \<open>A \<open>date\<close> column keeps the calendar day of the instant.\<close>

definition date_of :: "instant \<Rightarrow> instant" where
  "date_of t = t div day * day"

section \<open>Commands\<close>

record SubmitCAPCommand =
  sc_OperationID :: string
  sc_CorrelationID :: string
  sc_FindingID :: string
  sc_ExpectedFindingRevision :: i64
  sc_RootCause :: string
  sc_CorrectiveAction :: string
  sc_PreventiveAction :: string
  sc_ResponsiblePerson :: string
  sc_TargetCompletionDate :: instant
  sc_CommentToCAA :: string

record ReviewCAPCommand =
  rc_OperationID :: string
  rc_CorrelationID :: string
  rc_CAPRevisionID :: string
  rc_ExpectedCAPRevision :: i64
  rc_FindingID :: string
  rc_ExpectedFindingRevision :: i64
  rc_Decision :: CAPReviewDecision
  rc_CommentToAuditee :: string
  rc_InternalCAANote :: string

record ReviewEvidenceCommand =
  re_OperationID :: string
  re_CorrelationID :: string
  re_EvidenceVersionID :: string
  re_ExpectedEvidenceVersionRevision :: i64
  re_FindingID :: string
  re_ExpectedFindingRevision :: i64
  re_Decision :: EvidenceDecision
  re_CommentToAuditee :: string
  re_InternalCAANote :: string

record AuthorizedCloseFindingCommand =
  cl_OperationID :: string
  cl_CorrelationID :: string
  cl_FindingID :: string
  cl_ExpectedFindingRevision :: i64
  cl_Reason :: string

record ConvertPotentialFindingCommand =
  cp_OperationID :: string
  cp_CorrelationID :: string
  cp_PotentialFindingID :: string
  cp_ExpectedRevision :: i64
  cp_Severity :: Severity
  cp_CAPRequired :: bool
  cp_EvidenceRequired :: bool
  cp_DueDate :: "instant option"
  cp_RequirementsSpecified :: bool

record DecideReportCommand =
  dc_OperationID :: string
  dc_CorrelationID :: string
  dc_ReportVersionID :: string
  dc_ExpectedRevision :: i64
  dc_Decision :: ReportDecision
  dc_Reason :: string

record UpsertChecklistResponseCommand =
  uc_OperationID :: string
  uc_CorrelationID :: string
  uc_ResponseID :: string
  uc_InspectionID :: string
  uc_PackageID :: string
  uc_QuestionID :: string
  uc_ExpectedResponseRevision :: "i64 option"
  uc_Answer :: string
  uc_CommentToAuditee :: string
  uc_InternalCAANote :: string

record SubmitChecklistCommand =
  sk_OperationID :: string
  sk_CorrelationID :: string
  sk_InspectionID :: string
  sk_ExpectedChecklistRevision :: i64

record ReopenChecklistCommand =
  rk_OperationID :: string
  rk_CorrelationID :: string
  rk_InspectionID :: string
  rk_ExpectedChecklistRevision :: i64
  rk_Reason :: string

record CreatePotentialFindingCommand =
  pf_OperationID :: string
  pf_CorrelationID :: string
  pf_InspectionID :: string
  pf_QuestionID :: string
  pf_ChecklistResponseID :: string
  pf_ExpectedChecklistResponseRevision :: i64
  pf_Title :: string
  pf_Description :: string
  pf_CommentToAuditee :: string
  pf_InternalCAANote :: string
  pf_ExpectedEvidence :: string
  pf_InspectionAttachmentIDs :: "string list"

record DecidePotentialFindingCommand =
  dp_OperationID :: string
  dp_CorrelationID :: string
  dp_PotentialFindingID :: string
  dp_ExpectedRevision :: i64
  dp_Decision :: PotentialDecision
  dp_Reason :: string

record StartInspectionCommand =
  si_OperationID :: string
  si_CorrelationID :: string
  si_InspectionID :: string
  si_ExpectedInspectionRevision :: i64

record CreateAdminOrganizationCommand =
  ko_OperationID :: string
  ko_IdempotencyKey :: string
  ko_OrganizationID :: string
  ko_LegalName :: string
  ko_OrganizationType :: string

record CreateReminderRuleCommand =
  km_OperationID :: string
  km_IdempotencyKey :: string
  km_RuleID :: string
  km_Label :: string
  km_OffsetDays :: i64
  km_Channel :: string

text \<open>The content is a \<open>map[string]any\<close>: a JSON object, or \<open>JNull\<close> for the nil map.\<close>

record CreateReportVersionCommand =
  kv_OperationID :: string
  kv_IdempotencyKey :: string
  kv_ReportVersionID :: string
  kv_ReportID :: string
  kv_AuditID :: string
  kv_Kind :: ReportKind
  kv_Version :: i64
  kv_Status :: ReportStatus
  kv_FindingIDs :: "string list"
  kv_Content :: json

section \<open>Results\<close>

record SubmitCAPResult =
  sr_CAPRevisionID :: string
  sr_CAPID :: string
  sr_CAPRevision :: i64
  sr_CAPStatus :: CAPStatus
  sr_FindingID :: string
  sr_FindingStatus :: FindingStatus
  sr_FindingRevision :: i64

record ReviewCAPResult =
  rcr_CAPRevisionID :: string
  rcr_CAPStatus :: CAPStatus
  rcr_FindingID :: string
  rcr_FindingStatus :: FindingStatus
  rcr_FindingRevision :: i64

record ReviewEvidenceResult =
  rer_ReviewDecisionID :: string
  rer_EvidenceVersionID :: string
  rer_EvidenceRevision :: i64
  rer_FindingID :: string
  rer_FindingStatus :: FindingStatus
  rer_FindingRevision :: i64
  rer_ClosureBasis :: ClosureBasis

record AuthorizedCloseFindingResult =
  clr_FindingID :: string
  clr_FindingStatus :: FindingStatus
  clr_FindingRevision :: i64
  clr_ClosureBasis :: ClosureBasis

record ConvertPotentialFindingResult =
  cpr_PotentialFindingID :: string
  cpr_PotentialFindingStatus :: PotentialStatus
  cpr_PotentialFindingRevision :: i64
  cpr_FindingID :: string
  cpr_FindingReference :: string
  cpr_FindingStatus :: FindingStatus

record DecideReportResult =
  dcr_ReportVersionID :: string
  dcr_Status :: ReportStatus
  dcr_Revision :: i64
  dcr_IssuedAt :: "instant option"

record ChecklistResponseResult =
  ucr_ResponseID :: string
  ucr_InspectionID :: string
  ucr_QuestionID :: string
  ucr_Answer :: string
  ucr_Revision :: i64

record ChecklistTransitionResult =
  ctr_InspectionID :: string
  ctr_Status :: ChecklistStatus
  ctr_Revision :: i64

record PotentialFindingResult =
  pfr_ID :: string
  pfr_InspectionID :: string
  pfr_QuestionID :: string
  pfr_Status :: PotentialStatus
  pfr_Revision :: i64

record StartedInspection =
  sti_InspectionID :: string
  sti_AssignmentID :: string
  sti_InspectionStatus :: string
  sti_AssignmentStatus :: string
  sti_InspectionRevision :: i64
  sti_ChecklistRevision :: i64
  sti_StartedAt :: instant

record AdminOrganization =
  no_ID :: string
  no_LegalName :: string
  no_OrganizationType :: string
  no_Status :: string

record ReminderRule =
  nm_ID :: string
  nm_Label :: string
  nm_OffsetDays :: i64
  nm_Channel :: string
  nm_Status :: string
  nm_Revision :: i64

record CreatedReportVersion =
  nv_ReportVersionID :: string
  nv_ReportID :: string
  nv_Kind :: ReportKind
  nv_OrganizationID :: string
  nv_AuditID :: string
  nv_FindingIDs :: "string list"
  nv_PotentialFindingIDs :: "string list"
  nv_PotentialFindingRootDigest :: string
  nv_ContentHash :: string
  nv_Version :: i64
  nv_Status :: ReportStatus
  nv_Revision :: i64
  nv_IssuedAt :: "instant option"

text \<open>
  The type parameter of \<open>executeTransition[T]\<close> becomes the sum of all results. A response is stored
  as JSON and decoded again by the same command; encoding and decoding are the identity here.
\<close>

section \<open>Results of uploads and offline grants\<close>

record RequiredHeaders =
  rh_ContentType :: string
  rh_SHA256 :: string
  rh_IfNoneMatch :: string

record BeginEvidenceUploadOutput =
  bu_UploadID :: string
  bu_StagingObjectKey :: string
  bu_UploadURL :: string
  bu_RequiredHeaders :: RequiredHeaders
  bu_ExpiresAt :: instant
  bu_MaximumByteSize :: i64

record CompleteEvidenceUploadOutput =
  cu_EvidenceVersionID :: string
  cu_Version :: i64
  cu_UploadState :: string
  cu_ScanState :: string
  cu_ReviewState :: string

record BeginAttachmentUploadOutput =
  ab_UploadID :: string
  ab_StagingObjectKey :: string
  ab_ExpiresAt :: instant
  ab_MaximumByteSize :: i64
  ab_SessionEpoch :: i64
  ab_PartSize :: i64
  ab_ReceivedParts :: "i64 list"
  ab_AcknowledgedOffsets :: "i64 list"
  ab_PartHashes :: "(string \<times> string) list"
  ab_WholeFileSHA256 :: string

record BeginPartOutput =
  bp_UploadID :: string
  bp_SessionEpoch :: i64
  bp_PartNumber :: i64
  bp_PartObjectKey :: string
  bp_UploadURL :: string
  bp_RequiredHeaders :: RequiredHeaders
  bp_ExpiresAt :: instant

record UploadPartReceipt =
  pr_PartNumber :: i64
  pr_ByteSize :: i64
  pr_SHA256 :: string
  pr_AcknowledgedOffset :: i64
  pr_ObjectVersion :: string

record CompleteAttachmentUploadOutput =
  ao_InspectionAttachmentID :: string
  ao_InspectionAttachmentVersionID :: string
  ao_Version :: i64
  ao_UploadState :: string
  ao_ScanState :: string
  ao_ByteSize :: i64
  ao_SHA256 :: string
  ao_ObjectVersion :: string

record OfflineGrant =
  og_ID :: string
  og_SubjectID :: string
  og_OrganizationID :: string
  og_PackageID :: string
  og_PackageVersion :: i64
  og_PackageDigest :: string
  og_AllowedCommandTypes :: "string list"
  og_QuestionIDs :: "string list"
  og_DeviceInstanceID :: string
  og_ProfileKeyID :: string
  og_AssignmentRevision :: i64
  og_IssuedAt :: instant
  og_ExpiresAt :: instant
  og_LeaseIssuedAt :: instant
  og_LeaseExpiresAt :: instant

text \<open>Results of the offline synchronisation (\<open>internal/sync/service.go\<close>); a formatted time is its instant.\<close>

datatype PushStatus =
    PushAccepted | PushAlreadyApplied | PushConflict | PushForbidden | PushInvalid | PushRetryable

record ConflictDescriptor =
  cd_Code :: string
  cd_EntityID :: string
  cd_AuthoritativeRevision :: "i64 option"
  cd_AuthoritativeStatus :: "string option"
  cd_ChangedAt :: "instant option"

record PushResult =
  px_OperationID :: string
  px_Status :: PushStatus
  px_AuthoritativeEntityID :: "string option"
  px_AuthoritativeRevision :: "i64 option"
  px_ErrorCode :: string
  px_Conflict :: "ConflictDescriptor option"
  px_AcknowledgedAt :: instant

datatype Response =
    SubmitCAPResponse SubmitCAPResult
  | ReviewCAPResponse ReviewCAPResult
  | ReviewEvidenceResponse ReviewEvidenceResult
  | AuthorizedCloseResponse AuthorizedCloseFindingResult
  | ConvertResponse ConvertPotentialFindingResult
  | DecideReportResponse DecideReportResult
  | ChecklistResponseResponse ChecklistResponseResult
  | ChecklistTransitionResponse ChecklistTransitionResult
  | PotentialFindingResponse PotentialFindingResult
  | StartedInspectionResponse StartedInspection
  | BeginEvidenceUploadResponse BeginEvidenceUploadOutput
  | CompleteEvidenceUploadResponse CompleteEvidenceUploadOutput
  | BeginAttachmentUploadResponse BeginAttachmentUploadOutput
  | BeginPartResponse BeginPartOutput
  | PartReceiptResponse UploadPartReceipt
  | CompleteAttachmentUploadResponse CompleteAttachmentUploadOutput
  | OfflineGrantResponse OfflineGrant
  | AdminOrganizationResponse AdminOrganization
  | ReminderRuleResponse ReminderRule
  | CreatedReportVersionResponse CreatedReportVersion
  | PushResponse PushResult
  | PreparationResponse Preparation
  | AssignmentResponse Assignment
  | EditPreviewResponse PreparationEditPreview
  | CoordinationResponse AuditeeCoordination
  | MaterializedResponse MaterializedInspection

section \<open>Semantic payloads\<close>

datatype Semantic =
    SubmitCAPSemantic i64 string string string string instant string
  | ReviewCAPSemantic i64 i64 CAPReviewDecision string string
  | ReviewEvidenceSemantic i64 i64 EvidenceDecision string string
  | AuthorizedCloseSemantic i64 string
  | ConvertSemantic i64 Severity bool bool "instant option"
  | DecideReportSemantic i64 ReportDecision string
  | UpsertResponseSemantic string string string "i64 option" string string string
  | SubmitChecklistSemantic i64
  | ReopenChecklistSemantic i64 string
  | CreatePotentialSemantic string string string i64 string string string string string "string list"
  | DecidePotentialSemantic i64 PotentialDecision string
  | StartInspectionSemantic i64
  | CreateAdminOrganizationSemantic CreateAdminOrganizationCommand
  | CreateReminderRuleSemantic CreateReminderRuleCommand
  | CreateReportVersionSemantic CreateReportVersionCommand
  | MaterializeSemantic i64 string string i64 instant

end
