(* ===== verification/Envelope.thy ===== *)
theory Envelope
  imports Commands
begin

text \<open>
  The command envelope of \<open>internal/application\<close>: \<open>executeTransition\<close> (\<open>service.go\<close>) and
  \<open>persistCommandTransaction\<close> (\<open>transaction_envelope.go\<close>). Every command runs a handler inside one
  transaction, together with the idempotency check before it and the audit event, synchronisation
  change, outbox message, stored response and link after it. The contract of a handler is the
  locale \<open>command_handler\<close>; the properties of the envelope are proved inside it.
\<close>

section \<open>The ledger tables\<close>

record AuditEvent =
  ae_event_id :: string
  ae_occurred_at :: instant
  ae_actor_subject_id :: "string option"
  ae_actor_role :: string
  ae_organization_id :: string
  ae_action :: string
  ae_entity_type :: string
  ae_entity_id :: string
  ae_entity_version :: i64
  ae_before_status :: "string option"
  ae_after_status :: string
  ae_reason :: "string option"
  ae_operation_id :: "string option"
  ae_correlation_id :: string
  ae_closure_basis :: "string option"
  ae_details :: "(string \<times> string) list"

text \<open>The provenance constants a render request carries (\<open>documents.NativeRendererProvenance\<close>).\<close>

record RenderRequest =
  rq_reportVersionId :: string
  rq_documentId :: string
  rq_renderJobId :: string
  rq_requestedVersion :: i64
  rq_sourceHash :: string

text \<open>The projections the scan worker writes; an absent JSON field is \<open>None\<close>.\<close>

record EvidenceScanProjection =
  xp_evidenceVersionId :: string
  xp_scanState :: string
  xp_reviewState :: string
  xp_findingStatus :: string
  xp_reason :: "string option"

record AttachmentScanProjection =
  yp_inspectionAttachmentId :: string
  yp_inspectionAttachmentVersionId :: string
  yp_version :: "i64 option"
  yp_scanState :: string
  yp_reason :: "string option"

text \<open>The changes the offline synchronisation publishes, by the \<open>kind\<close> of their JSON object.\<close>

record ResponseChangeValue =
  fc_id :: string
  fc_questionId :: string
  fc_answer :: string
  fc_comment :: string
  fc_revision :: i64
  fc_updatedAt :: instant

record PotentialChangeValue =
  pq_id :: string
  pq_auditId :: string
  pq_questionId :: string
  pq_organizationId :: string
  pq_title :: string
  pq_description :: string
  pq_status :: string
  pq_revision :: i64
  pq_convertedFindingId :: "string option"

datatype FieldChange =
    ResponseChange ResponseChangeValue
  | PotentialChange PotentialChangeValue
  | ChecklistChange string string i64 \<comment> \<open>audit, status, revision\<close>
  | AttachmentChange string string i64 \<comment> \<open>identifier, upload state, revision\<close>
  | PackageRevokedChange string string string \<comment> \<open>package, reason code, time\<close>
  | TombstoneChange string string i64 \<comment> \<open>entity type, entity, revision\<close>
  | NoChange

datatype Payload =
    ResponsePayload Response | RenderPayload RenderRequest
  | EvidenceScanPayload EvidenceScanProjection | AttachmentScanPayload AttachmentScanProjection
  | FieldChangePayload FieldChange

record SyncChange =
  sy_sequence_id :: int
  sy_subject_id :: string
  sy_organization_id :: string
  sy_package_id :: "string option"
  sy_kind :: string
  sy_entity_id :: string
  sy_entity_revision :: i64
  sy_payload :: Payload
  sy_changed_at :: instant
  sy_operation_id :: "string option"
  sy_correlation_id :: "string option"

record OutboxMessage =
  o_id :: string
  o_topic :: string
  o_aggregate_type :: string
  o_aggregate_id :: string
  o_payload :: Payload
  o_available_at :: instant
  o_idempotency_key :: "string option"
  o_operation_id :: "string option"
  o_correlation_id :: "string option"
  o_lease_owner :: "string option"
  o_lease_expires_at :: "instant option"
  o_claimed_at :: "instant option"
  o_delivered_at :: "instant option"
  o_terminal_state :: "string option"
  o_attempt_count :: int
  o_last_error :: "string option"
  o_created_at :: instant

record IdempotencyResponse =
  ir_scope :: string
  ir_operation_id :: string
  ir_semantic_hash :: string
  ir_response_body :: Response
  ir_created_at :: instant

record CommandLink =
  ln_operation_id :: string
  ln_idempotency_scope :: string
  ln_audit_event_id :: string
  ln_change_sequence_id :: int
  ln_outbox_message_id :: string
  ln_created_at :: instant

text \<open>\<open>l_next_sequence\<close> is the sequence behind the \<open>bigserial\<close> of \<open>authorized_sync_changes\<close>.\<close>

record Ledger =
  l_audit_events :: "AuditEvent list"
  l_sync_changes :: "SyncChange list"
  l_next_sequence :: int
  l_outbox :: "OutboxMessage list"
  l_responses :: "IdempotencyResponse list"
  l_links :: "CommandLink list"

record DocumentRenderJob =
  dj_id :: string
  dj_document_id :: string
  dj_organization_id :: string
  dj_requested_version :: i64
  dj_idempotency_key :: string
  dj_content :: ReportContent

record DB =
  findings :: "Finding list"
  potential_findings :: "PotentialFinding list"
  cap_revisions :: "CAPRevision list"
  review_decisions :: "ReviewDecisionRow list"
  evidence_versions :: "EvidenceVersion list"
  evidence_version_states :: "EvidenceVersionState list"
  upload_sessions :: "UploadSession list"
  object_metadata :: "ObjectMetadata list"
  report_versions :: "ReportVersion list"
  report_approval_states :: "ReportApprovalState list"
  report_decisions :: "ReportDecisionRow list"
  inspections :: "Inspection list"
  inspection_packages :: "InspectionPackage list"
  inspection_checklists :: "InspectionChecklist list"
  question_assignments :: "QuestionAssignment list"
  checklist_responses :: "ChecklistResponse list"
  inspection_attachments :: "InspectionAttachment list"
  inspection_attachment_versions :: "InspectionAttachmentVersion list"
  inspection_attachment_upload_parts :: "UploadPart list"
  audit_assignments :: "AuditAssignment list"
  audit_team_members :: "AuditTeamMember list"
  audit_question_assignments :: "AuditQuestionAssignment list"
  snapshot_questions :: "SnapshotQuestion list"
  question_versions :: "QuestionVersionRow list"
  document_records :: "DocumentRecord list"
  document_render_jobs :: "DocumentRenderJob list"
  organizations :: "Organization list"
  reminder_rules :: "ReminderRuleRow list"
  session_references :: "SessionReference list"
  offline_grants :: "OfflineGrantRow list"
  sync_cursor_tokens :: "CursorToken list"
  sync_cursors :: "SyncCursorRow list"
  scope_tables :: ScopeTables
  preparation :: PreparationTables
  ledger :: Ledger

section \<open>The environment of one call\<close>

text \<open>
  What a call takes from outside: the readings of the injected clock (\<open>env_clock n\<close> is the \<open>n\<close>-th
  reading of the handler, \<open>env_commit_clock\<close> the one after it; \<open>env_now\<close> is \<open>now()\<close> of the database), the injected generator of
  identifiers, one value per prefix, the optional generator of Finding references, the next value
  of the database sequence of public numbers, \<open>CURRENT_DATE\<close>, the semantic hash
  (\<open>idempotency.SemanticHash\<close> of the kind, entity and payload; \<open>None\<close> when the payload has no JSON
  form), and the functions of \<open>golang.org/x/text\<close>, the JSON texts and the digests that report content
  uses.
\<close>

record Env =
  env_clock :: "nat \<Rightarrow> instant"
  env_commit_clock :: instant
  env_now :: instant
  env_new_id :: "string \<Rightarrow> string"
  env_finding_reference :: "string option"
  env_nextval :: int
  env_today :: int
  env_semantic_hash :: "string \<Rightarrow> string \<Rightarrow> Semantic \<Rightarrow> string option"
  env_parse_tag :: "string \<Rightarrow> string option"
  env_nfc :: "string \<Rightarrow> string"
  env_json :: JsonText
  env_content_digest :: "ReportContent \<Rightarrow> string"
  env_root_digest :: "string list \<Rightarrow> string"
  env_source_hash :: "string \<Rightarrow> string \<Rightarrow> string \<Rightarrow> string \<Rightarrow> i64 \<Rightarrow> string \<Rightarrow> ReportContent \<Rightarrow> string option"

record commandEnvelope =
  ce_OperationID :: string
  ce_IdempotencyKey :: string
  ce_CorrelationID :: string
  ce_Kind :: string
  ce_EntityID :: string
  ce_Semantic :: Semantic

record transition =
  tn_Response :: Response
  tn_OrganizationID :: string
  tn_Action :: string
  tn_EntityType :: string
  tn_EntityID :: string
  tn_EntityVersion :: i64
  tn_BeforeStatus :: string
  tn_AfterStatus :: string
  tn_Reason :: string
  tn_ClosureBasis :: string
  tn_SyncKind :: string
  tn_OutboxTopic :: string

type_synonym handler = "DB \<Rightarrow> app_error + (DB \<times> transition)"

section \<open>Persisting the envelope\<close>

record transactionEnvelopeRecord =
  te_OperationID :: string
  te_CorrelationID :: string
  te_IdempotencyKey :: string
  te_IdempotencyScope :: string
  te_SemanticHash :: string
  te_ResponseBody :: Response
  te_ActorSubjectID :: string
  te_ActorRole :: string
  te_OrganizationID :: string
  te_Action :: string
  te_EntityType :: string
  te_EntityID :: string
  te_EntityVersion :: i64
  te_BeforeStatus :: string
  te_AfterStatus :: string
  te_Reason :: string
  te_ClosureBasis :: string
  te_SyncKind :: string
  te_OutboxTopic :: string
  te_AuditEventID :: string
  te_OutboxMessageID :: string
  te_OccurredAt :: instant
  te_now :: instant

definition outbox_key :: "string \<Rightarrow> string \<Rightarrow> string" where
  "outbox_key scope key = ''command:'' @ scope @ '':idempotency:'' @ key"

definition audit_row :: "transactionEnvelopeRecord \<Rightarrow> AuditEvent" where
  "audit_row r = \<lparr>ae_event_id = te_AuditEventID r, ae_occurred_at = te_OccurredAt r,
     ae_actor_subject_id = Some (te_ActorSubjectID r), ae_actor_role = te_ActorRole r,
     ae_organization_id = te_OrganizationID r, ae_action = te_Action r,
     ae_entity_type = te_EntityType r, ae_entity_id = te_EntityID r,
     ae_entity_version = te_EntityVersion r, ae_before_status = Some (te_BeforeStatus r),
     ae_after_status = te_AfterStatus r, ae_reason = null_if_empty (te_Reason r),
     ae_operation_id = Some (te_OperationID r), ae_correlation_id = te_CorrelationID r,
     ae_closure_basis = null_if_empty (te_ClosureBasis r),
     ae_details = []\<rparr>"

definition sync_row :: "transactionEnvelopeRecord \<Rightarrow> int \<Rightarrow> SyncChange" where
  "sync_row r changeSequenceID = \<lparr>sy_sequence_id = changeSequenceID, sy_subject_id = te_ActorSubjectID r,
     sy_organization_id = te_OrganizationID r, sy_package_id = None, sy_kind = te_SyncKind r, sy_entity_id = te_EntityID r,
     sy_entity_revision = te_EntityVersion r, sy_payload = ResponsePayload (te_ResponseBody r),
     sy_changed_at = te_OccurredAt r, sy_operation_id = Some (te_OperationID r),
     sy_correlation_id = Some (te_CorrelationID r)\<rparr>"

definition outbox_row :: "transactionEnvelopeRecord \<Rightarrow> OutboxMessage" where
  "outbox_row r = \<lparr>o_id = te_OutboxMessageID r, o_topic = te_OutboxTopic r,
     o_aggregate_type = te_EntityType r, o_aggregate_id = te_EntityID r,
     o_payload = ResponsePayload (te_ResponseBody r), o_available_at = te_OccurredAt r,
     o_idempotency_key = Some (outbox_key (te_IdempotencyScope r) (te_IdempotencyKey r)),
     o_operation_id = Some (te_OperationID r), o_correlation_id = Some (te_CorrelationID r),
     o_lease_owner = None, o_lease_expires_at = None, o_claimed_at = None, o_delivered_at = None,
     o_terminal_state = None, o_attempt_count = 0, o_last_error = None, o_created_at = te_now r\<rparr>"

definition response_row :: "transactionEnvelopeRecord \<Rightarrow> IdempotencyResponse" where
  "response_row r = \<lparr>ir_scope = te_IdempotencyScope r, ir_operation_id = te_OperationID r,
     ir_semantic_hash = te_SemanticHash r, ir_response_body = te_ResponseBody r,
     ir_created_at = te_OccurredAt r\<rparr>"

definition link_row :: "transactionEnvelopeRecord \<Rightarrow> int \<Rightarrow> CommandLink" where
  "link_row r changeSequenceID = \<lparr>ln_operation_id = te_OperationID r,
     ln_idempotency_scope = te_IdempotencyScope r, ln_audit_event_id = te_AuditEventID r,
     ln_change_sequence_id = changeSequenceID, ln_outbox_message_id = te_OutboxMessageID r,
     ln_created_at = te_OccurredAt r\<rparr>"

text \<open>The unique indexes of the five tables.\<close>

definition audit_conflict :: "AuditEvent \<Rightarrow> AuditEvent list \<Rightarrow> bool" where
  "audit_conflict e rows = list_ex (\<lambda>a. ae_event_id a = ae_event_id e \<or>
     ae_operation_id a \<noteq> None \<and> ae_actor_subject_id a \<noteq> None \<and>
     ae_actor_subject_id a = ae_actor_subject_id e \<and> ae_operation_id a = ae_operation_id e \<and>
     ae_action a = ae_action e) rows"

definition outbox_conflict :: "OutboxMessage \<Rightarrow> OutboxMessage list \<Rightarrow> bool" where
  "outbox_conflict m rows = list_ex (\<lambda>o'. o_id o' = o_id m \<or>
     o_idempotency_key o' \<noteq> None \<and> o_idempotency_key o' = o_idempotency_key m) rows"

definition response_conflict :: "IdempotencyResponse \<Rightarrow> IdempotencyResponse list \<Rightarrow> bool" where
  "response_conflict r rows =
     list_ex (\<lambda>i. ir_scope i = ir_scope r \<and> ir_operation_id i = ir_operation_id r) rows"

definition link_conflict :: "CommandLink \<Rightarrow> CommandLink list \<Rightarrow> bool" where
  "link_conflict k rows = list_ex (\<lambda>n.
     ln_idempotency_scope n = ln_idempotency_scope k \<and> ln_operation_id n = ln_operation_id k \<or>
     ln_audit_event_id n = ln_audit_event_id k \<or> ln_change_sequence_id n = ln_change_sequence_id k \<or>
     ln_outbox_message_id n = ln_outbox_message_id k) rows"

definition persistCommandTransaction :: "transactionEnvelopeRecord \<Rightarrow> Ledger \<Rightarrow> app_error + Ledger" where
  "persistCommandTransaction r l =
     bind_result (insert_row ''append audit event'' (audit_conflict (audit_row r) (l_audit_events l))
       (audit_row r) (l_audit_events l)) (\<lambda>audit_events.
     let changeSequenceID = l_next_sequence l in
     bind_result (insert_row ''append authorized sync change''
       (list_ex (\<lambda>s. sy_sequence_id s = changeSequenceID) (l_sync_changes l))
       (sync_row r changeSequenceID) (l_sync_changes l)) (\<lambda>sync_changes.
     bind_result (insert_row ''enqueue server outbox'' (outbox_conflict (outbox_row r) (l_outbox l))
       (outbox_row r) (l_outbox l)) (\<lambda>outbox.
     bind_result (insert_row ''store idempotent response'' (response_conflict (response_row r) (l_responses l))
       (response_row r) (l_responses l)) (\<lambda>responses.
     bind_result (insert_row ''link command transaction records''
       (link_conflict (link_row r changeSequenceID) (l_links l))
       (link_row r changeSequenceID) (l_links l)) (\<lambda>links.
     Inr \<lparr>l_audit_events = audit_events, l_sync_changes = sync_changes,
          l_next_sequence = changeSequenceID + 1, l_outbox = outbox, l_responses = responses,
          l_links = links\<rparr>)))))"

section \<open>Executing a command\<close>

definition command_scope :: "Principal \<Rightarrow> commandEnvelope \<Rightarrow> string" where
  "command_scope actor envelope = SubjectID actor @ '':'' @ ce_Kind envelope"

definition idempotency_key :: "commandEnvelope \<Rightarrow> string" where
  "idempotency_key envelope =
     (if ce_IdempotencyKey envelope = '''' then ce_OperationID envelope else ce_IdempotencyKey envelope)"

definition stored_response :: "string \<Rightarrow> string \<Rightarrow> Ledger \<Rightarrow> IdempotencyResponse option" where
  "stored_response scope operationID l =
     lookup (\<lambda>i. (ir_scope i, ir_operation_id i)) (scope, operationID) (l_responses l)"

definition envelope_record :: "Env \<Rightarrow> Principal \<Rightarrow> commandEnvelope \<Rightarrow> string \<Rightarrow> transition \<Rightarrow>
    transactionEnvelopeRecord" where
  "envelope_record env actor envelope semanticHash result = \<lparr>
     te_OperationID = ce_OperationID envelope, te_CorrelationID = ce_CorrelationID envelope,
     te_IdempotencyKey = idempotency_key envelope, te_IdempotencyScope = command_scope actor envelope,
     te_SemanticHash = semanticHash, te_ResponseBody = tn_Response result,
     te_ActorSubjectID = SubjectID actor,
     te_ActorRole = (case Roles actor of [] \<Rightarrow> '''' | r # _ \<Rightarrow> role_text r),
     te_OrganizationID = tn_OrganizationID result, te_Action = tn_Action result,
     te_EntityType = tn_EntityType result, te_EntityID = tn_EntityID result,
     te_EntityVersion = tn_EntityVersion result, te_BeforeStatus = tn_BeforeStatus result,
     te_AfterStatus = tn_AfterStatus result, te_Reason = tn_Reason result,
     te_ClosureBasis = tn_ClosureBasis result, te_SyncKind = tn_SyncKind result,
     te_OutboxTopic = tn_OutboxTopic result, te_AuditEventID = env_new_id env ''audit'',
     te_OutboxMessageID = env_new_id env ''outbox'', te_OccurredAt = env_commit_clock env,
     te_now = env_now env\<rparr>"

definition executeTransition :: "Env \<Rightarrow> Principal \<Rightarrow> commandEnvelope \<Rightarrow> handler \<Rightarrow> DB \<Rightarrow>
    app_error + (DB \<times> Response)" where
  "executeTransition env actor envelope handler db =
     (if SubjectID actor = '''' \<or> ce_OperationID envelope = '''' \<or> ce_CorrelationID envelope = '''' \<or>
         ce_Kind envelope = '''' \<or> ce_EntityID envelope = ''''
      then Inl (AppError ErrInvalid ''actor, operation, correlation, kind, and entity are required'')
      else (case env_semantic_hash env (ce_Kind envelope) (ce_EntityID envelope) (ce_Semantic envelope) of
        None \<Rightarrow> Inl (AppError ErrInternal ''hash command'')
      | Some semanticHash \<Rightarrow>
        (case stored_response (command_scope actor envelope) (ce_OperationID envelope) (ledger db) of
          Some stored \<Rightarrow>
            if ir_semantic_hash stored \<noteq> semanticHash
            then Inl (AppError ErrOperationIDReuse '''')
            else Inr (db, ir_response_body stored)
        | None \<Rightarrow>
            if list_ex (\<lambda>m. o_idempotency_key m =
                 Some (outbox_key (command_scope actor envelope) (idempotency_key envelope)))
               (l_outbox (ledger db))
            then Inl (AppError ErrOperationIDReuse '''')
            else bind_result (handler db) (\<lambda>(db', result).
              bind_result (persistCommandTransaction
                  (envelope_record env actor envelope semanticHash result) (ledger db')) (\<lambda>l.
              Inr (db'\<lparr>ledger := l\<rparr>, tn_Response result))))))"

end
