(* ===== verification/HandlerContract.thy ===== *)
theory HandlerContract
  imports Envelope
begin

text \<open>
  The contract between \<open>executeTransition\<close> and a command handler, and what the envelope promises to
  every command that keeps it: one audit event, synchronisation change, outbox message, stored
  response and link per accepted command, replay of the stored response without a second effect,
  and rejection of a reused operation or idempotency key.
\<close>

section \<open>What persisting does\<close>

lemma persistCommandTransaction_Inr:
  "persistCommandTransaction r l = Inr l' \<longleftrightarrow>
     \<not> audit_conflict (audit_row r) (l_audit_events l) \<and>
     (\<forall>s \<in> set (l_sync_changes l). sy_sequence_id s \<noteq> l_next_sequence l) \<and>
     \<not> outbox_conflict (outbox_row r) (l_outbox l) \<and>
     \<not> response_conflict (response_row r) (l_responses l) \<and>
     \<not> link_conflict (link_row r (l_next_sequence l)) (l_links l) \<and>
     l' = \<lparr>l_audit_events = l_audit_events l @ [audit_row r],
           l_sync_changes = l_sync_changes l @ [sync_row r (l_next_sequence l)],
           l_next_sequence = l_next_sequence l + 1,
           l_outbox = l_outbox l @ [outbox_row r],
           l_responses = l_responses l @ [response_row r],
           l_links = l_links l @ [link_row r (l_next_sequence l)]\<rparr>"
  by (auto simp: persistCommandTransaction_def bind_result_Inr insert_row_Inr list_ex_iff Let_def)

section \<open>The ledger invariant\<close>

definition response_key :: "IdempotencyResponse \<Rightarrow> string \<times> string" where
  "response_key i = (ir_scope i, ir_operation_id i)"

definition link_key :: "CommandLink \<Rightarrow> string \<times> string" where
  "link_key n = (ln_idempotency_scope n, ln_operation_id n)"

text \<open>A link names an audit event, a change and an outbox message of its own operation.\<close>

definition link_resolves :: "Ledger \<Rightarrow> CommandLink \<Rightarrow> bool" where
  "link_resolves l n \<longleftrightarrow>
     (\<exists>a \<in> set (l_audit_events l). ae_event_id a = ln_audit_event_id n \<and>
        ae_operation_id a = Some (ln_operation_id n)) \<and>
     (\<exists>s \<in> set (l_sync_changes l). sy_sequence_id s = ln_change_sequence_id n \<and>
        sy_operation_id s = Some (ln_operation_id n)) \<and>
     (\<exists>m \<in> set (l_outbox l). o_id m = ln_outbox_message_id n \<and> o_operation_id m = Some (ln_operation_id n))"

definition ledger_wf :: "Ledger \<Rightarrow> bool" where
  "ledger_wf l \<longleftrightarrow>
     distinct (map ae_event_id (l_audit_events l)) \<and> distinct (map o_id (l_outbox l)) \<and>
     distinct (map sy_sequence_id (l_sync_changes l)) \<and>
     (\<forall>s \<in> set (l_sync_changes l). sy_sequence_id s < l_next_sequence l) \<and>
     distinct (map response_key (l_responses l)) \<and> distinct (map link_key (l_links l)) \<and>
     set (map link_key (l_links l)) \<subseteq> set (map response_key (l_responses l)) \<and>
     (\<forall>n \<in> set (l_links l). link_resolves l n)"

text \<open>What a handler may do to the ledger: append outbox messages with fresh identifiers.\<close>

definition keeps_ledger :: "Ledger \<Rightarrow> Ledger \<Rightarrow> bool" where
  "keeps_ledger l l' \<longleftrightarrow>
     l_audit_events l' = l_audit_events l \<and> l_sync_changes l' = l_sync_changes l \<and>
     l_next_sequence l' = l_next_sequence l \<and> l_responses l' = l_responses l \<and> l_links l' = l_links l \<and>
     (\<exists>extra. l_outbox l' = l_outbox l @ extra) \<and>
     (distinct (map o_id (l_outbox l)) \<longrightarrow> distinct (map o_id (l_outbox l')))"

lemma keeps_ledger_refl [simp, intro]: "keeps_ledger l l"
  by (simp add: keeps_ledger_def)

lemma keeps_ledger_wf: "keeps_ledger l l' \<Longrightarrow> ledger_wf l \<Longrightarrow> ledger_wf l'"
  by (auto simp: keeps_ledger_def ledger_wf_def link_resolves_def) blast

lemma link_resolves_append:
  assumes "link_resolves l n" "set (l_audit_events l) \<subseteq> set (l_audit_events l')"
    "set (l_sync_changes l) \<subseteq> set (l_sync_changes l')" "set (l_outbox l) \<subseteq> set (l_outbox l')"
  shows "link_resolves l' n"
  using assms by (fastforce simp: link_resolves_def)

text \<open>Appending one row to each of the five tables keeps the invariant when their keys are new.\<close>

lemma ledger_wf_append:
  assumes wf: "ledger_wf l"
    and ids: "ae_event_id a \<notin> set (map ae_event_id (l_audit_events l))"
      "o_id m \<notin> set (map o_id (l_outbox l))"
      "response_key i \<notin> set (map response_key (l_responses l))"
    and links: "sy_sequence_id s = l_next_sequence l" "link_key n = response_key i"
      "ln_audit_event_id n = ae_event_id a" "ae_operation_id a = Some (ln_operation_id n)"
      "ln_change_sequence_id n = l_next_sequence l" "sy_operation_id s = Some (ln_operation_id n)"
      "ln_outbox_message_id n = o_id m" "o_operation_id m = Some (ln_operation_id n)"
  shows "ledger_wf \<lparr>l_audit_events = l_audit_events l @ [a], l_sync_changes = l_sync_changes l @ [s],
      l_next_sequence = l_next_sequence l + 1, l_outbox = l_outbox l @ [m],
      l_responses = l_responses l @ [i], l_links = l_links l @ [n]\<rparr>" (is "ledger_wf ?l'")
proof -
  have new: "link_resolves ?l' n" using links by (simp add: link_resolves_def)
  have old: "\<forall>k \<in> set (l_links l). link_resolves ?l' k"
    using wf by (auto simp: ledger_wf_def intro: link_resolves_append)
  have "link_key n \<notin> set (map link_key (l_links l))" using wf ids links by (auto simp: ledger_wf_def)
  then show ?thesis
    using wf ids new old links by (auto simp: ledger_wf_def less_le_trans dest: less_imp_neq)
qed

lemma persist_wf:
  assumes p: "persistCommandTransaction r l = Inr l'" and wf: "ledger_wf l"
  shows "ledger_wf l'"
proof -
  from p have fresh: "\<not> audit_conflict (audit_row r) (l_audit_events l)"
    "\<not> outbox_conflict (outbox_row r) (l_outbox l)" "\<not> response_conflict (response_row r) (l_responses l)"
    and l': "l' = \<lparr>l_audit_events = l_audit_events l @ [audit_row r],
           l_sync_changes = l_sync_changes l @ [sync_row r (l_next_sequence l)],
           l_next_sequence = l_next_sequence l + 1, l_outbox = l_outbox l @ [outbox_row r],
           l_responses = l_responses l @ [response_row r],
           l_links = l_links l @ [link_row r (l_next_sequence l)]\<rparr>"
    by (simp_all add: persistCommandTransaction_Inr)
  show ?thesis
    unfolding l' by (rule ledger_wf_append [OF wf])
      (use fresh in \<open>auto simp: audit_conflict_def outbox_conflict_def response_conflict_def list_ex_iff
        response_key_def link_key_def audit_row_def sync_row_def outbox_row_def response_row_def
        link_row_def\<close>)
qed

section \<open>The contract\<close>

lemma executeTransition_cases:
  assumes "executeTransition env actor envelope handler db = Inr (db', resp)"
  obtains (replayed) stored semanticHash where
      "env_semantic_hash env (ce_Kind envelope) (ce_EntityID envelope) (ce_Semantic envelope) = Some semanticHash"
      "stored_response (command_scope actor envelope) (ce_OperationID envelope) (ledger db) = Some stored"
      "ir_semantic_hash stored = semanticHash" "db' = db" "resp = ir_response_body stored"
  | (executed) semanticHash mid result l where
      "env_semantic_hash env (ce_Kind envelope) (ce_EntityID envelope) (ce_Semantic envelope) = Some semanticHash"
      "stored_response (command_scope actor envelope) (ce_OperationID envelope) (ledger db) = None"
      "handler db = Inr (mid, result)"
      "persistCommandTransaction (envelope_record env actor envelope semanticHash result) (ledger mid) = Inr l"
      "db' = mid\<lparr>ledger := l\<rparr>" "resp = tn_Response result"
  using assms
  by (auto simp: executeTransition_def bind_result_Inr split: if_splits option.splits prod.splits)

locale command_handler =
  fixes handler :: handler
  assumes handler_ledger: "handler db = Inr (db', result) \<Longrightarrow> keeps_ledger (ledger db) (ledger db')"
begin

lemma envelope_wf:
  assumes run: "executeTransition env actor envelope handler db = Inr (db', resp)"
    and wf: "ledger_wf (ledger db)"
  shows "ledger_wf (ledger db')"
  using run
proof (cases rule: executeTransition_cases)
  case replayed
  with wf show ?thesis by simp
next
  case (executed semanticHash mid result l)
  with keeps_ledger_wf [OF handler_ledger wf] persist_wf show ?thesis by auto
qed

lemma envelope_appends:
  assumes run: "executeTransition env actor envelope handler db = Inr (db', resp)"
    and new: "stored_response (command_scope actor envelope) (ce_OperationID envelope) (ledger db) = None"
  obtains mid result event where "handler db = Inr (mid, result)" "resp = tn_Response result"
    "db' = mid\<lparr>ledger := ledger db'\<rparr>"
    "l_audit_events (ledger db') = l_audit_events (ledger db) @ [event]"
    "ae_operation_id event = Some (ce_OperationID envelope)" "ae_action event = tn_Action result"
    "ae_actor_subject_id event = Some (SubjectID actor)"
    "ae_entity_id event = tn_EntityID result" "ae_before_status event = Some (tn_BeforeStatus result)"
    "ae_after_status event = tn_AfterStatus result"
  using run
proof (cases rule: executeTransition_cases)
  case replayed
  with new show thesis by simp
next
  case (executed semanticHash mid result l)
  then have "keeps_ledger (ledger db) (ledger mid)" by (intro handler_ledger)
  with executed show thesis
    by (intro that [of mid result "audit_row (envelope_record env actor envelope semanticHash result)"])
      (auto simp: persistCommandTransaction_Inr keeps_ledger_def audit_row_def envelope_record_def)
qed

text \<open>After an accepted command its response is stored, so the same call replays it.\<close>

lemma envelope_stored:
  assumes run: "executeTransition env actor envelope handler db = Inr (db', resp)"
  shows "\<exists>stored. stored_response (command_scope actor envelope) (ce_OperationID envelope) (ledger db') =
      Some stored \<and> ir_response_body stored = resp \<and>
      env_semantic_hash env (ce_Kind envelope) (ce_EntityID envelope) (ce_Semantic envelope) =
        Some (ir_semantic_hash stored)"
  using run
proof (cases rule: executeTransition_cases)
  case replayed
  then show ?thesis by simp
next
  case (executed semanticHash mid result l)
  then have "keeps_ledger (ledger db) (ledger mid)" by (intro handler_ledger)
  with executed show ?thesis
    by (auto simp: persistCommandTransaction_Inr keeps_ledger_def stored_response_def lookup_append
        response_row_def envelope_record_def)
qed

lemma envelope_replay:
  assumes run: "executeTransition env actor envelope handler db = Inr (db', resp)"
    and hash: "env_semantic_hash env' = env_semantic_hash env"
  shows "executeTransition env' actor envelope handler' db' = Inr (db', resp)"
proof -
  from run have "\<not> (SubjectID actor = '''' \<or> ce_OperationID envelope = '''' \<or>
      ce_CorrelationID envelope = '''' \<or> ce_Kind envelope = '''' \<or> ce_EntityID envelope = '''')"
    by (auto simp: executeTransition_def)
  with envelope_stored [OF run] hash show ?thesis
    by (auto simp: executeTransition_def)
qed

end

text \<open>A second command under a used operation identifier is refused unless its payload hashes alike.\<close>

lemma executeTransition_operation_reuse:
  assumes "stored_response (command_scope actor envelope) (ce_OperationID envelope) (ledger db) = Some stored"
    and "env_semantic_hash env (ce_Kind envelope) (ce_EntityID envelope) (ce_Semantic envelope) = Some h"
    and "h \<noteq> ir_semantic_hash stored"
    and "SubjectID actor \<noteq> ''''" "ce_OperationID envelope \<noteq> ''''" "ce_CorrelationID envelope \<noteq> ''''"
      "ce_Kind envelope \<noteq> ''''" "ce_EntityID envelope \<noteq> ''''"
  shows "executeTransition env actor envelope handler db = Inl (AppError ErrOperationIDReuse '''')"
  using assms by (simp add: executeTransition_def)

end
