(* ===== verification/FindingWorkflow.thy ===== *)
theory FindingWorkflow
  imports HandlerContract
begin

text \<open>
  The canonical transitions of a Finding: \<open>SubmitCAP\<close>, \<open>ReviewCAP\<close>, \<open>ReviewEvidence\<close> and
  \<open>AuthorizedCloseFinding\<close> of \<open>internal/application/canonical_transitions.go\<close>, and
  \<open>ConvertPotentialFinding\<close>, \<open>ListFindings\<close> and \<open>GetFinding\<close> of \<open>service.go\<close>. Each command is a
  handler (the closure of the Go method) run by \<open>executeTransition\<close>.
\<close>

section \<open>Reads and writes shared by the handlers\<close>

definition GetFindingForUpdate :: "string \<Rightarrow> DB \<Rightarrow> Finding option" where
  "GetFindingForUpdate findingID db = lookup f_id findingID (findings db)"

text \<open>\<open>UPDATE findings SET ... WHERE id = $1\<close>: the check \<open>revision > 0\<close> fails the statement.\<close>

definition update_finding :: "string \<Rightarrow> string \<Rightarrow> (Finding \<Rightarrow> Finding) \<Rightarrow> DB \<Rightarrow> app_error + DB" where
  "update_finding context findingID g db =
     (if list_ex (\<lambda>f. f_id f = findingID \<and> sint (f_revision (g f)) \<le> 0) (findings db)
      then Inl (AppError ErrInternal context)
      else Inr (db\<lparr>findings := modify f_id findingID g (findings db)\<rparr>))"

definition PreliminaryIssued :: "string \<Rightarrow> DB \<Rightarrow> bool" where
  "PreliminaryIssued inspectionID db =
     list_ex (\<lambda>preliminary. rv_inspection_id preliminary = inspectionID \<and>
         rs_kind (rv_snapshot preliminary) = Some KindPreliminary \<and>
         list_ex (\<lambda>approval. ra_report_version_id approval = rv_id preliminary \<and>
             (ra_status approval = RStatusIssued \<or> ra_status approval = RStatusLocked))
           (report_approval_states db))
       (report_versions db)"

definition GetLatestCAPRevisionForFinding :: "string \<Rightarrow> DB \<Rightarrow> CAPRevision option" where
  "GetLatestCAPRevisionForFinding findingID db =
     latest (\<lambda>c. sint (c_revision c)) (filter (\<lambda>c. c_finding_id c = findingID) (cap_revisions db))"

text \<open>An \<open>integer\<close> column holds 32 bits; the check is \<open>revision > 0\<close>.\<close>

definition cap_revision_conflict :: "CAPRevision \<Rightarrow> CAPRevision list \<Rightarrow> bool" where
  "cap_revision_conflict row rows \<longleftrightarrow>
     \<not> (0 < sint (c_revision row) \<and> sint (c_revision row) < 2 ^ 31) \<or>
     list_ex (\<lambda>c. c_id c = c_id row \<or> c_cap_id c = c_cap_id row \<and> c_revision c = c_revision row) rows"

definition hasAssignment :: "string \<Rightarrow> DB \<Rightarrow> bool" where
  "hasAssignment inspectionID db =
     list_ex (\<lambda>a. aa_inspection_id a = Some inspectionID \<and> aa_tombstoned_at a = None) (audit_assignments db)"

text \<open>A current team member of the inspection's assignment, in one of the given roles.\<close>

definition teamMember :: "(AuditAssignment \<Rightarrow> bool) \<Rightarrow> string list \<Rightarrow> string \<Rightarrow> string \<Rightarrow> DB \<Rightarrow> bool" where
  "teamMember extra roles inspectionID subject db =
     list_ex (\<lambda>a. aa_inspection_id a = Some inspectionID \<and> aa_tombstoned_at a = None \<and> extra a \<and>
         list_ex (\<lambda>m. tm_assignment_id m = aa_id a \<and> tm_subject_id m = subject \<and>
             tm_member_role m \<in> set roles \<and> tm_removed_at m = None) (audit_team_members db))
       (audit_assignments db)"

definition isLead :: "string \<Rightarrow> string \<Rightarrow> DB \<Rightarrow> bool" where
  "isLead inspectionID subject db =
     teamMember (\<lambda>a. aa_lead_subject_id a = Some subject) [''LEAD_INSPECTOR''] inspectionID subject db"

definition requireFindingReviewAuthority :: "Env \<Rightarrow> Principal \<Rightarrow> string \<Rightarrow> bool \<Rightarrow> DB \<Rightarrow> app_error option" where
  "requireFindingReviewAuthority env actor inspectionID allowDepartmentManager db =
     (if \<not> hasAssignment inspectionID db
      then Some (AppError ErrForbidden ''Finding is not bound to a canonical Audit assignment'')
      else if teamMember (\<lambda>_. True) [''INSPECTOR'', ''LEAD_INSPECTOR''] inspectionID (SubjectID actor) db
      then None
      else if allowDepartmentManager \<and> HasRole actor [RoleDepartmentManager]
      then requireCurrentDepartmentScopeAuthority (scope_tables db) (audit_assignments db)
             (env_today env) actor '''' inspectionID
      else Some (AppError ErrForbidden ''reviewer is not assigned to this Audit''))"

definition requireLeadInspectorAuthority :: "Principal \<Rightarrow> string \<Rightarrow> DB \<Rightarrow> app_error option" where
  "requireLeadInspectorAuthority actor inspectionID db =
     (if \<not> HasRole actor [RoleLeadInspector] \<or> blank (SubjectID actor)
      then Some (AppError ErrForbidden ''Lead Inspector role required'')
      else if \<not> hasAssignment inspectionID db
      then Some (AppError ErrForbidden ''Audit has no assigned Lead Inspector'')
      else if \<not> isLead inspectionID (SubjectID actor) db
      then Some (AppError ErrForbidden ''Lead Inspector is not assigned to this Audit'')
      else None)"

definition insert_review_decision :: "string \<Rightarrow> ReviewDecisionRow \<Rightarrow> DB \<Rightarrow> app_error + DB" where
  "insert_review_decision context row db =
     bind_result (insert_row context (list_ex (\<lambda>v. v_id v = v_id row) (review_decisions db)) row
       (review_decisions db)) (\<lambda>rows. Inr (db\<lparr>review_decisions := rows\<rparr>))"

fun nextActionForFinding :: "FindingStatus \<Rightarrow> string" where
  "nextActionForFinding FStatusCAPRejected = ''Auditee revises CAP''"
| "nextActionForFinding FStatusCAPMoreInformationRequested = ''Auditee revises CAP''"
| "nextActionForFinding FStatusEvidenceRequired = ''Auditee submits Evidence''"
| "nextActionForFinding FStatusEvidenceMoreInformationRequested = ''Auditee submits Evidence''"
| "nextActionForFinding FStatusEvidenceSubmitted = ''CAA reviews Evidence''"
| "nextActionForFinding FStatusPendingCAAReview = ''CAA reviews Evidence''"
| "nextActionForFinding FStatusPendingClosure = ''CAA completes verification''"
| "nextActionForFinding FStatusClosed = ''Closed''"
| "nextActionForFinding _ = ''CAA reviews Finding''"

section \<open>SubmitCAP\<close>

text \<open>The CAP identity and number the new revision continues from.\<close>

definition latest_cap :: "Env \<Rightarrow> string \<Rightarrow> DB \<Rightarrow> string \<times> i64" where
  "latest_cap env findingID db =
     (case GetLatestCAPRevisionForFinding findingID db of
        None \<Rightarrow> (env_new_id env ''cap'', 0)
      | Some latestCAP \<Rightarrow> (c_cap_id latestCAP, c_revision latestCAP))"

definition SubmitCAP_row :: "Env \<Rightarrow> Principal \<Rightarrow> SubmitCAPCommand \<Rightarrow> Finding \<Rightarrow> CAPStatus \<Rightarrow> DB \<Rightarrow> CAPRevision" where
  "SubmitCAP_row env actor command finding status db =
     \<lparr>c_id = env_new_id env ''cap-revision'', c_cap_id = fst (latest_cap env (sc_FindingID command) db),
      c_finding_id = sc_FindingID command, c_organization_id = f_organization_id finding,
      c_revision = snd (latest_cap env (sc_FindingID command) db) + 1, c_status = status,
      c_root_cause = TrimSpace (sc_RootCause command),
      c_corrective_action = TrimSpace (sc_CorrectiveAction command),
      c_preventive_action = TrimSpace (sc_PreventiveAction command),
      c_target_completion_date = date_of (sc_TargetCompletionDate command),
      c_submitted_by_subject_id = SubjectID actor, c_submitted_at = env_clock env 0,
      c_responsible_person = TrimSpace (sc_ResponsiblePerson command),
      c_comment_to_caa = null_if_empty (TrimSpace (sc_CommentToCAA command))\<rparr>"

definition SubmitCAP_update :: "Env \<Rightarrow> FindingStatus \<Rightarrow> i64 \<Rightarrow> Finding \<Rightarrow> Finding" where
  "SubmitCAP_update env status revision f =
     f\<lparr>f_status := status, f_next_action := ''CAA reviews CAP'', f_revision := revision,
       f_updated_at := env_clock env 0\<rparr>"

definition SubmitCAP_result :: "SubmitCAPCommand \<Rightarrow> Finding \<Rightarrow> CAPSubmitResult \<Rightarrow> CAPRevision \<Rightarrow> transition" where
  "SubmitCAP_result command finding decision row =
     \<lparr>tn_Response = SubmitCAPResponse
        \<lparr>sr_CAPRevisionID = c_id row, sr_CAPID = c_cap_id row, sr_CAPRevision = c_revision row,
         sr_CAPStatus = csr_CAPStatus decision, sr_FindingID = sc_FindingID command,
         sr_FindingStatus = csr_FindingStatus decision, sr_FindingRevision = f_revision finding + 1\<rparr>,
      tn_OrganizationID = f_organization_id finding, tn_Action = ''cap.submitted'',
      tn_EntityType = ''finding'', tn_EntityID = sc_FindingID command,
      tn_EntityVersion = f_revision finding + 1,
      tn_BeforeStatus = finding_status_text (f_status finding),
      tn_AfterStatus = finding_status_text (csr_FindingStatus decision), tn_Reason = '''',
      tn_ClosureBasis = '''', tn_SyncKind = ''cap_revision'', tn_OutboxTopic = ''cap.submitted''\<rparr>"

definition SubmitCAP_handler :: "Env \<Rightarrow> Principal \<Rightarrow> SubmitCAPCommand \<Rightarrow> handler" where
  "SubmitCAP_handler env actor command db =
     (if \<not> HasRole actor [RoleAuditee] then Inl (AppError ErrForbidden ''Auditee role required'')
      else if blank (sc_RootCause command) \<or> blank (sc_CorrectiveAction command) \<or>
              blank (sc_PreventiveAction command) \<or> blank (sc_ResponsiblePerson command) \<or>
              is_zero_time (sc_TargetCompletionDate command)
      then Inl (AppError ErrInvalid ''complete CAP content and target date are required'')
      else (case GetFindingForUpdate (sc_FindingID command) db of
        None \<Rightarrow> Inl (AppError ErrNotFound '''')
      | Some finding \<Rightarrow>
        if \<not> BelongsTo actor (f_organization_id finding)
        then Inl (AppError ErrForbidden ''Finding is outside the Auditee organization'')
        else if \<not> PreliminaryIssued (f_inspection_id finding) db
        then Inl (AppError ErrConflict ''Preliminary Report must be approved and issued before CAP'')
        else bind_result (wrap_error ErrConflict (caps_Submit
            \<lparr>cs_Actor = actor, cs_FindingOrganizationID = f_organization_id finding,
             cs_FindingStatus = f_status finding, cs_FindingRevision = f_revision finding,
             cs_ExpectedFindingRevision = sc_ExpectedFindingRevision command\<rparr>)) (\<lambda>decision.
          let row = SubmitCAP_row env actor command finding (csr_CAPStatus decision) db in
          bind_result (insert_row ''append CAP revision'' (cap_revision_conflict row (cap_revisions db))
              row (cap_revisions db)) (\<lambda>rows.
          bind_result (update_finding ''advance Finding after CAP submission'' (sc_FindingID command)
              (SubmitCAP_update env (csr_FindingStatus decision) (f_revision finding + 1))
              (db\<lparr>cap_revisions := rows\<rparr>)) (\<lambda>db'.
          Inr (db', SubmitCAP_result command finding decision row))))))"

definition SubmitCAP_envelope :: "SubmitCAPCommand \<Rightarrow> commandEnvelope" where
  "SubmitCAP_envelope command = \<lparr>ce_OperationID = sc_OperationID command, ce_IdempotencyKey = '''',
     ce_CorrelationID = sc_CorrelationID command, ce_Kind = ''submit_cap'',
     ce_EntityID = sc_FindingID command,
     ce_Semantic = SubmitCAPSemantic (sc_ExpectedFindingRevision command)
       (TrimSpace (sc_RootCause command)) (TrimSpace (sc_CorrectiveAction command))
       (TrimSpace (sc_PreventiveAction command)) (TrimSpace (sc_ResponsiblePerson command))
       (sc_TargetCompletionDate command) (TrimSpace (sc_CommentToCAA command))\<rparr>"

definition SubmitCAP :: "Env \<Rightarrow> Principal \<Rightarrow> SubmitCAPCommand \<Rightarrow> DB \<Rightarrow> app_error + (DB \<times> Response)" where
  "SubmitCAP env actor command =
     executeTransition env actor (SubmitCAP_envelope command) (SubmitCAP_handler env actor command)"

section \<open>ReviewCAP\<close>

definition ReviewCAP_decision :: "Env \<Rightarrow> Principal \<Rightarrow> ReviewCAPCommand \<Rightarrow> ReviewDecisionRow" where
  "ReviewCAP_decision env actor command =
     \<lparr>v_id = env_new_id env ''review-decision'', v_entity_type = ''cap_revision'',
      v_entity_id = rc_CAPRevisionID command, v_expected_revision = rc_ExpectedCAPRevision command,
      v_decision = CAPDecision (rc_Decision command),
      v_reason = null_if_empty (TrimSpace (rc_CommentToAuditee command)),
      v_comment_to_auditee = null_if_empty (TrimSpace (rc_CommentToAuditee command)),
      v_internal_caa_note = null_if_empty (TrimSpace (rc_InternalCAANote command)),
      v_decided_by_subject_id = SubjectID actor, v_decided_at = env_clock env 0\<rparr>"

definition ReviewCAP_update :: "Env \<Rightarrow> FindingStatus \<Rightarrow> i64 \<Rightarrow> Finding \<Rightarrow> Finding" where
  "ReviewCAP_update env status revision f =
     f\<lparr>f_status := status, f_next_action := nextActionForFinding status, f_revision := revision,
       f_updated_at := env_clock env 0\<rparr>"

definition ReviewCAP_result :: "ReviewCAPCommand \<Rightarrow> Finding \<Rightarrow> CAPReviewResult \<Rightarrow> transition" where
  "ReviewCAP_result command finding decision =
     \<lparr>tn_Response = ReviewCAPResponse
        \<lparr>rcr_CAPRevisionID = rc_CAPRevisionID command, rcr_CAPStatus = crr_CAPStatus decision,
         rcr_FindingID = f_id finding, rcr_FindingStatus = crr_FindingStatus decision,
         rcr_FindingRevision = f_revision finding + 1\<rparr>,
      tn_OrganizationID = f_organization_id finding, tn_Action = ''cap.reviewed'',
      tn_EntityType = ''finding'', tn_EntityID = f_id finding,
      tn_EntityVersion = f_revision finding + 1,
      tn_BeforeStatus = finding_status_text (f_status finding),
      tn_AfterStatus = finding_status_text (crr_FindingStatus decision),
      tn_Reason = TrimSpace (rc_CommentToAuditee command), tn_ClosureBasis = '''',
      tn_SyncKind = ''finding'', tn_OutboxTopic = ''cap.reviewed''\<rparr>"

definition ReviewCAP_handler :: "Env \<Rightarrow> Principal \<Rightarrow> ReviewCAPCommand \<Rightarrow> handler" where
  "ReviewCAP_handler env actor command db =
     (if \<not> HasRole actor [RoleInspector, RoleLeadInspector]
      then Inl (AppError ErrForbidden ''CAA review role required'')
      else if blank (rc_CommentToAuditee command) \<or> blank (rc_InternalCAANote command)
      then Inl (AppError ErrInvalid ''Comment to Auditee and Internal CAA Note are required'')
      else (case lookup c_id (rc_CAPRevisionID command) (cap_revisions db) of
        None \<Rightarrow> Inl (AppError ErrNotFound '''')
      | Some capRevisionRecord \<Rightarrow>
        if c_finding_id capRevisionRecord \<noteq> rc_FindingID command then Inl (AppError ErrNotFound '''')
        else (case GetLatestCAPRevisionForFinding (rc_FindingID command) db of
          None \<Rightarrow> Inl (AppError ErrInternal ''no rows in result set'')
        | Some latestCAPRevision \<Rightarrow>
          if c_id latestCAPRevision \<noteq> c_id capRevisionRecord
          then Inl (AppError ErrConflict ''exact latest CAP revision is required'')
          else (case GetFindingForUpdate (rc_FindingID command) db of
            None \<Rightarrow> Inl (AppError ErrNotFound '''')
          | Some finding \<Rightarrow>
            if c_organization_id capRevisionRecord \<noteq> f_organization_id finding
            then Inl (AppError ErrInternal ''CAP and Finding organization mismatch'')
            else check_error (requireFindingReviewAuthority env actor (f_inspection_id finding) False db)
            (if f_revision finding \<noteq> rc_ExpectedFindingRevision command
             then Inl (AppError ErrConflict ''stale Finding revision'')
             else bind_result (wrap_error ErrConflict (caps_Review
                \<lparr>cr_Actor = actor, cr_CAPStatus = c_status capRevisionRecord,
                 cr_CAPRevision = c_revision capRevisionRecord,
                 cr_ExpectedCAPRevision = rc_ExpectedCAPRevision command,
                 cr_FindingStatus = f_status finding, cr_EvidenceRequired = f_evidence_required finding,
                 cr_Decision = rc_Decision command,
                 cr_Reason = TrimSpace (rc_CommentToAuditee command)\<rparr>)) (\<lambda>decision.
             bind_result (insert_review_decision ''append CAP review decision''
                (ReviewCAP_decision env actor command) db) (\<lambda>db1.
             bind_result (update_finding ''advance Finding after CAP review'' (f_id finding)
                (ReviewCAP_update env (crr_FindingStatus decision) (f_revision finding + 1)) db1) (\<lambda>db2.
             Inr (db2, ReviewCAP_result command finding decision)))))))))"

definition ReviewCAP_envelope :: "ReviewCAPCommand \<Rightarrow> commandEnvelope" where
  "ReviewCAP_envelope command = \<lparr>ce_OperationID = rc_OperationID command, ce_IdempotencyKey = '''',
     ce_CorrelationID = rc_CorrelationID command, ce_Kind = ''review_cap'',
     ce_EntityID = rc_CAPRevisionID command,
     ce_Semantic = ReviewCAPSemantic (rc_ExpectedCAPRevision command)
       (rc_ExpectedFindingRevision command) (rc_Decision command)
       (TrimSpace (rc_CommentToAuditee command)) (TrimSpace (rc_InternalCAANote command))\<rparr>"

definition ReviewCAP :: "Env \<Rightarrow> Principal \<Rightarrow> ReviewCAPCommand \<Rightarrow> DB \<Rightarrow> app_error + (DB \<times> Response)" where
  "ReviewCAP env actor command =
     executeTransition env actor (ReviewCAP_envelope command) (ReviewCAP_handler env actor command)"

section \<open>ReviewEvidence\<close>

definition update_evidence_state :: "string \<Rightarrow> (EvidenceVersionState \<Rightarrow> EvidenceVersionState) \<Rightarrow> DB \<Rightarrow>
    app_error + DB" where
  "update_evidence_state evidenceVersionID g db =
     (if list_ex (\<lambda>e. es_evidence_version_id e = evidenceVersionID \<and> sint (es_revision (g e)) \<le> 0)
           (evidence_version_states db)
      then Inl (AppError ErrInternal ''record exact Evidence review state'')
      else Inr (db\<lparr>evidence_version_states :=
        modify es_evidence_version_id evidenceVersionID g (evidence_version_states db)\<rparr>))"

fun reviewState :: "EvidenceDecision \<Rightarrow> string" where
  "reviewState EDecisionClose = ''ACCEPTED''"
| "reviewState EDecisionPartiallyClose = ''PARTIALLY_ACCEPTED''"
| "reviewState EDecisionNotClose = ''REJECTED''"
| "reviewState _ = ''MORE_INFORMATION_REQUESTED''"

text \<open>\<open>NULLIF(basis, '')\<close> of the closure basis.\<close>

definition null_if_no_basis :: "ClosureBasis \<Rightarrow> ClosureBasis option" where
  "null_if_no_basis b = (if b = ClosureBasisNone then None else Some b)"

definition ReviewEvidence_decision :: "Env \<Rightarrow> Principal \<Rightarrow> ReviewEvidenceCommand \<Rightarrow> ReviewDecisionRow" where
  "ReviewEvidence_decision env actor command =
     \<lparr>v_id = env_new_id env ''review-decision'', v_entity_type = ''evidence_version'',
      v_entity_id = re_EvidenceVersionID command,
      v_expected_revision = re_ExpectedEvidenceVersionRevision command,
      v_decision = EvidenceDecisionText (re_Decision command),
      v_reason = null_if_empty (TrimSpace (re_CommentToAuditee command)),
      v_comment_to_auditee = null_if_empty (TrimSpace (re_CommentToAuditee command)),
      v_internal_caa_note = null_if_empty (TrimSpace (re_InternalCAANote command)),
      v_decided_by_subject_id = SubjectID actor, v_decided_at = env_clock env 0\<rparr>"

definition ReviewEvidence_state_update :: "Env \<Rightarrow> EvidenceDecision \<Rightarrow> EvidenceVersionState \<Rightarrow> EvidenceVersionState" where
  "ReviewEvidence_state_update env decision e =
     e\<lparr>es_review_state := reviewState decision, es_revision := es_revision e + 1,
       es_updated_at := env_clock env 0\<rparr>"

definition ReviewEvidence_update :: "Env \<Rightarrow> ReviewEvidenceCommand \<Rightarrow> EvidenceReviewResult \<Rightarrow> i64 \<Rightarrow> Finding \<Rightarrow> Finding" where
  "ReviewEvidence_update env command decision revision f =
     f\<lparr>f_status := err_FindingStatus decision,
       f_next_action := nextActionForFinding (err_FindingStatus decision),
       f_closure_basis := null_if_no_basis (err_ClosureBasis decision),
       f_closure_reason := null_if_empty (TrimSpace (re_CommentToAuditee command)),
       f_revision := revision, f_updated_at := env_clock env 0,
       f_closed_at := (if err_FindingStatus decision = FStatusClosed then Some (env_clock env 0) else None)\<rparr>"

text \<open>The scan status and revision of a version come from its processing state when there is one.\<close>

definition evidence_status :: "EvidenceVersion \<Rightarrow> DB \<Rightarrow> ScanStatus \<times> i64" where
  "evidence_status version db =
     (case lookup es_evidence_version_id (e_id version) (evidence_version_states db) of
        Some st \<Rightarrow> (es_scan_state st, es_revision st)
      | None \<Rightarrow> (e_status version, e_revision version))"

definition ReviewEvidence_result :: "Env \<Rightarrow> ReviewEvidenceCommand \<Rightarrow> Finding \<Rightarrow> i64 \<Rightarrow> EvidenceReviewResult \<Rightarrow> transition" where
  "ReviewEvidence_result env command finding evidenceRevision decision =
     \<lparr>tn_Response = ReviewEvidenceResponse
        \<lparr>rer_ReviewDecisionID = env_new_id env ''review-decision'',
         rer_EvidenceVersionID = re_EvidenceVersionID command,
         rer_EvidenceRevision = evidenceRevision + 1, rer_FindingID = f_id finding,
         rer_FindingStatus = err_FindingStatus decision, rer_FindingRevision = f_revision finding + 1,
         rer_ClosureBasis = err_ClosureBasis decision\<rparr>,
      tn_OrganizationID = f_organization_id finding, tn_Action = ''evidence.reviewed'',
      tn_EntityType = ''finding'', tn_EntityID = f_id finding,
      tn_EntityVersion = f_revision finding + 1,
      tn_BeforeStatus = finding_status_text (f_status finding),
      tn_AfterStatus = finding_status_text (err_FindingStatus decision),
      tn_Reason = TrimSpace (re_CommentToAuditee command),
      tn_ClosureBasis = closure_basis_text (err_ClosureBasis decision),
      tn_SyncKind = ''finding'', tn_OutboxTopic = ''evidence.reviewed''\<rparr>"

definition ReviewEvidence_handler :: "Env \<Rightarrow> Principal \<Rightarrow> ReviewEvidenceCommand \<Rightarrow> handler" where
  "ReviewEvidence_handler env actor command db =
     (if \<not> HasRole actor [RoleInspector, RoleLeadInspector]
      then Inl (AppError ErrForbidden ''CAA Evidence review role required'')
      else if blank (re_CommentToAuditee command) \<or> blank (re_InternalCAANote command)
      then Inl (AppError ErrInvalid ''Comment to Auditee and Internal CAA Note are required'')
      else (case lookup e_id (re_EvidenceVersionID command) (evidence_versions db) of
        None \<Rightarrow> Inl (AppError ErrNotFound '''')
      | Some evidenceVersion \<Rightarrow>
        if e_finding_id evidenceVersion \<noteq> re_FindingID command then Inl (AppError ErrNotFound '''')
        else (case GetFindingForUpdate (re_FindingID command) db of
          None \<Rightarrow> Inl (AppError ErrNotFound '''')
        | Some finding \<Rightarrow>
          if e_organization_id evidenceVersion \<noteq> f_organization_id finding
          then Inl (AppError ErrInternal ''Evidence and Finding organization mismatch'')
          else check_error (requireFindingReviewAuthority env actor (f_inspection_id finding) False db)
          (case latest (\<lambda>e. sint (e_version e))
                 (filter (\<lambda>e. e_finding_id e = re_FindingID command) (evidence_versions db)) of
            None \<Rightarrow> Inl (AppError ErrInternal ''no rows in result set'')
          | Some latestEvidenceVersion \<Rightarrow>
            if e_id latestEvidenceVersion \<noteq> e_id evidenceVersion
            then Inl (AppError ErrConflict ''exact latest Evidence version is required'')
            else if f_revision finding \<noteq> re_ExpectedFindingRevision command
            then Inl (AppError ErrConflict ''stale Finding revision'')
            else bind_result (wrap_error ErrConflict (evidence_Review
                \<lparr>er_Actor = actor, er_VersionID = e_id evidenceVersion,
                 er_VersionRevision = snd (evidence_status evidenceVersion db),
                 er_ExpectedVersionRevision = re_ExpectedEvidenceVersionRevision command,
                 er_ScanStatus = fst (evidence_status evidenceVersion db),
                 er_FindingStatus = f_status finding, er_Decision = re_Decision command\<rparr>)) (\<lambda>decision.
            bind_result (insert_review_decision ''append Evidence review decision''
                (ReviewEvidence_decision env actor command) db) (\<lambda>db1.
            bind_result (if lookup es_evidence_version_id (e_id evidenceVersion) (evidence_version_states db) \<noteq> None
                then update_evidence_state (e_id evidenceVersion)
                  (ReviewEvidence_state_update env (re_Decision command)) db1
                else Inr db1) (\<lambda>db2.
            bind_result (update_finding ''advance Finding after Evidence review'' (f_id finding)
                (ReviewEvidence_update env command decision (f_revision finding + 1)) db2) (\<lambda>db3.
            Inr (db3, ReviewEvidence_result env command finding
                   (snd (evidence_status evidenceVersion db)) decision)))))))))"

definition ReviewEvidence_envelope :: "ReviewEvidenceCommand \<Rightarrow> commandEnvelope" where
  "ReviewEvidence_envelope command = \<lparr>ce_OperationID = re_OperationID command, ce_IdempotencyKey = '''',
     ce_CorrelationID = re_CorrelationID command, ce_Kind = ''review_evidence'',
     ce_EntityID = re_EvidenceVersionID command,
     ce_Semantic = ReviewEvidenceSemantic (re_ExpectedEvidenceVersionRevision command)
       (re_ExpectedFindingRevision command) (re_Decision command)
       (TrimSpace (re_CommentToAuditee command)) (TrimSpace (re_InternalCAANote command))\<rparr>"

definition ReviewEvidence :: "Env \<Rightarrow> Principal \<Rightarrow> ReviewEvidenceCommand \<Rightarrow> DB \<Rightarrow> app_error + (DB \<times> Response)" where
  "ReviewEvidence env actor command =
     executeTransition env actor (ReviewEvidence_envelope command) (ReviewEvidence_handler env actor command)"

section \<open>AuthorizedCloseFinding\<close>

definition AuthorizedClose_update :: "Env \<Rightarrow> TransitionResult \<Rightarrow> Finding \<Rightarrow> Finding" where
  "AuthorizedClose_update env decision f =
     f\<lparr>f_status := tr_Status decision, f_next_action := ''Closed'',
       f_closure_basis := Some (tr_ClosureBasis decision),
       f_closure_reason := Some (tr_Reason decision), f_revision := tr_Revision decision,
       f_updated_at := env_clock env 0, f_closed_at := Some (env_clock env 0)\<rparr>"

definition AuthorizedClose_result :: "AuthorizedCloseFindingCommand \<Rightarrow> Finding \<Rightarrow> TransitionResult \<Rightarrow> transition" where
  "AuthorizedClose_result command finding decision =
     \<lparr>tn_Response = AuthorizedCloseResponse
        \<lparr>clr_FindingID = cl_FindingID command, clr_FindingStatus = tr_Status decision,
         clr_FindingRevision = tr_Revision decision, clr_ClosureBasis = tr_ClosureBasis decision\<rparr>,
      tn_OrganizationID = f_organization_id finding, tn_Action = ''finding.authorized_closure'',
      tn_EntityType = ''finding'', tn_EntityID = cl_FindingID command,
      tn_EntityVersion = tr_Revision decision,
      tn_BeforeStatus = finding_status_text (f_status finding),
      tn_AfterStatus = finding_status_text (tr_Status decision), tn_Reason = tr_Reason decision,
      tn_ClosureBasis = closure_basis_text (tr_ClosureBasis decision),
      tn_SyncKind = ''finding'', tn_OutboxTopic = ''finding.closed''\<rparr>"

definition AuthorizedCloseFinding_handler :: "Env \<Rightarrow> Principal \<Rightarrow> AuthorizedCloseFindingCommand \<Rightarrow> handler" where
  "AuthorizedCloseFinding_handler env actor command db =
     (if \<not> HasRole actor [RoleDepartmentManager]
      then Inl (AppError ErrForbidden ''Department Manager role required'')
      else (case GetFindingForUpdate (cl_FindingID command) db of
        None \<Rightarrow> Inl (AppError ErrNotFound '''')
      | Some finding \<Rightarrow>
        check_error (requireCurrentDepartmentScopeAuthority (scope_tables db) (audit_assignments db)
            (env_today env) actor '''' (f_inspection_id finding))
        (bind_result (wrap_error ErrConflict (AuthorizedClose
            \<lparr>ac_Actor = actor, ac_Status = f_status finding, ac_Revision = f_revision finding,
             ac_ExpectedRevision = cl_ExpectedFindingRevision command,
             ac_Reason = TrimSpace (cl_Reason command)\<rparr>)) (\<lambda>decision.
         bind_result (update_finding ''authorize Finding closure'' (cl_FindingID command)
            (AuthorizedClose_update env decision) db) (\<lambda>db'.
         Inr (db', AuthorizedClose_result command finding decision))))))"

definition AuthorizedCloseFinding_envelope :: "AuthorizedCloseFindingCommand \<Rightarrow> commandEnvelope" where
  "AuthorizedCloseFinding_envelope command =
     \<lparr>ce_OperationID = cl_OperationID command, ce_IdempotencyKey = '''',
      ce_CorrelationID = cl_CorrelationID command, ce_Kind = ''authorized_close_finding'',
      ce_EntityID = cl_FindingID command,
      ce_Semantic = AuthorizedCloseSemantic (cl_ExpectedFindingRevision command)
        (TrimSpace (cl_Reason command))\<rparr>"

definition AuthorizedCloseFinding :: "Env \<Rightarrow> Principal \<Rightarrow> AuthorizedCloseFindingCommand \<Rightarrow> DB \<Rightarrow>
    app_error + (DB \<times> Response)" where
  "AuthorizedCloseFinding env actor command =
     executeTransition env actor (AuthorizedCloseFinding_envelope command)
       (AuthorizedCloseFinding_handler env actor command)"

section \<open>ConvertPotentialFinding\<close>

text \<open>
  The recursive query \<open>lineage\<close>: a potential finding and the ones it supersedes. The query follows
  one parent per row; \<open>None\<close> is the run that does not end, on a cycle of successors.
\<close>

fun lineage :: "nat \<Rightarrow> PotentialFinding list \<Rightarrow> string \<Rightarrow> string list option" where
  "lineage 0 rows pid = None"
| "lineage (Suc n) rows pid =
     (case lookup p_id pid rows of
        None \<Rightarrow> Some []
      | Some p \<Rightarrow>
          (case p_supersedes_potential_finding_id p of
             None \<Rightarrow> Some [pid]
           | Some parent \<Rightarrow> map_option (Cons pid) (lineage n rows parent)))"

definition LineageIssued :: "string \<Rightarrow> string list \<Rightarrow> DB \<Rightarrow> bool" where
  "LineageIssued inspectionID ids db =
     list_ex (\<lambda>preliminary. rv_inspection_id preliminary = inspectionID \<and>
         rs_kind (rv_snapshot preliminary) = Some KindPreliminary \<and>
         list_ex (\<lambda>frozen. frozen \<in> set ids) (rs_potential_finding_ids (rv_snapshot preliminary)) \<and>
         list_ex (\<lambda>approval. ra_report_version_id approval = rv_id preliminary \<and>
             (ra_status approval = RStatusIssued \<or> ra_status approval = RStatusLocked))
           (report_approval_states db))
       (report_versions db)"

definition finding_conflict :: "Finding \<Rightarrow> Finding list \<Rightarrow> bool" where
  "finding_conflict row rows \<longleftrightarrow> sint (f_revision row) \<le> 0 \<or>
     list_ex (\<lambda>f. f_id f = f_id row \<or> f_reference f = f_reference row \<or>
         f_potential_finding_id f \<noteq> None \<and> f_potential_finding_id f = f_potential_finding_id row) rows"

text \<open>
  \<open>UPDATE potential_findings ... WHERE id = $1\<close>. The partial unique index on the checklist response
  of rows that are not \<open>RETURNED\<close> cannot fail here: the row was pending, so it was indexed already.
\<close>

definition update_potential_finding :: "string \<Rightarrow> string \<Rightarrow> (PotentialFinding \<Rightarrow> PotentialFinding) \<Rightarrow> DB \<Rightarrow>
    app_error + DB" where
  "update_potential_finding context pid g db =
     (if list_ex (\<lambda>p. p_id p = pid \<and> sint (p_revision (g p)) \<le> 0) (potential_findings db)
      then Inl (AppError ErrInternal context)
      else Inr (db\<lparr>potential_findings := modify p_id pid g (potential_findings db)\<rparr>))"

definition capRequired :: "ConvertPotentialFindingCommand \<Rightarrow> bool" where
  "capRequired command =
     (if \<not> cp_RequirementsSpecified command then cp_Severity command \<noteq> SeverityObservation
      else cp_CAPRequired command)"

definition evidenceRequired :: "ConvertPotentialFindingCommand \<Rightarrow> bool" where
  "evidenceRequired command =
     (if \<not> cp_RequirementsSpecified command then cp_Severity command \<noteq> SeverityObservation
      else cp_EvidenceRequired command)"

definition convertDueDate :: "ConvertPotentialFindingCommand \<Rightarrow> instant option" where
  "convertDueDate command =
     (if \<not> cp_RequirementsSpecified command \<and> cp_Severity command = SeverityObservation
      then None else cp_DueDate command)"

definition findingReference :: "Env \<Rightarrow> string" where
  "findingReference env =
     (case env_finding_reference env of
        Some r \<Rightarrow> r
      | None \<Rightarrow> ''OPS-'' @ decimal (fst (civil_date (env_clock env 0))) @ ''-'' @
                zero_pad 3 (decimal (env_nextval env)))"

definition initialFindingStatus :: "ConvertPotentialFindingCommand \<Rightarrow> FindingStatus \<times> string" where
  "initialFindingStatus command =
     (if \<not> capRequired command
      then (if evidenceRequired command
            then (FStatusEvidenceRequired, ''Auditee submits Evidence'')
            else (FStatusPendingClosure, ''CAA verifies closure path''))
      else (FStatusWaitingForCAP, ''Auditee to submit CAP''))"

definition Convert_row :: "Env \<Rightarrow> ConvertPotentialFindingCommand \<Rightarrow> PotentialFinding \<Rightarrow> Finding" where
  "Convert_row env command record =
     \<lparr>f_id = env_new_id env ''finding'', f_reference = findingReference env,
      f_potential_finding_id = Some (cp_PotentialFindingID command),
      f_inspection_id = p_inspection_id record, f_organization_id = p_organization_id record,
      f_severity = cp_Severity command, f_status = fst (initialFindingStatus command),
      f_owner_subject_id = None, f_next_action = snd (initialFindingStatus command),
      f_due_date = map_option date_of (convertDueDate command), f_closure_basis = None,
      f_closure_reason = None, f_revision = 1, f_cap_required = capRequired command,
      f_evidence_required = evidenceRequired command, f_issued_at = Some (env_clock env 1),
      f_closed_at = None, f_created_at = env_clock env 1, f_updated_at = env_clock env 1\<rparr>"

definition Convert_update :: "Env \<Rightarrow> PotentialDecideResult \<Rightarrow> string \<Rightarrow> PotentialFinding \<Rightarrow> PotentialFinding" where
  "Convert_update env decision findingID p =
     p\<lparr>p_status := pdr_Status decision, p_revision := pdr_Revision decision,
       p_converted_finding_id := Some findingID, p_updated_at := env_clock env 2\<rparr>"

definition Convert_result :: "ConvertPotentialFindingCommand \<Rightarrow> PotentialFinding \<Rightarrow> PotentialDecideResult \<Rightarrow> Finding \<Rightarrow> transition" where
  "Convert_result command record decision row =
     \<lparr>tn_Response = ConvertResponse
        \<lparr>cpr_PotentialFindingID = cp_PotentialFindingID command,
         cpr_PotentialFindingStatus = pdr_Status decision,
         cpr_PotentialFindingRevision = pdr_Revision decision, cpr_FindingID = f_id row,
         cpr_FindingReference = f_reference row, cpr_FindingStatus = f_status row\<rparr>,
      tn_OrganizationID = p_organization_id record, tn_Action = ''potential_finding.converted'',
      tn_EntityType = ''potential_finding'', tn_EntityID = cp_PotentialFindingID command,
      tn_EntityVersion = pdr_Revision decision,
      tn_BeforeStatus = potential_status_text (p_status record),
      tn_AfterStatus = potential_status_text (pdr_Status decision), tn_Reason = '''',
      tn_ClosureBasis = '''', tn_SyncKind = ''potential_finding'',
      tn_OutboxTopic = ''potential_finding.converted''\<rparr>"

definition ConvertPotentialFinding_handler :: "Env \<Rightarrow> Principal \<Rightarrow> ConvertPotentialFindingCommand \<Rightarrow> handler" where
  "ConvertPotentialFinding_handler env actor command db =
     (if \<not> HasRole actor [RoleLeadInspector]
      then Inl (AppError ErrForbidden ''Lead Inspector role required'')
      else (case lookup p_id (cp_PotentialFindingID command) (potential_findings db) of
        None \<Rightarrow> Inl (AppError ErrNotFound '''')
      | Some record \<Rightarrow>
        if \<not> hasAssignment (p_inspection_id record) db
        then Inl (AppError ErrForbidden ''Potential Finding is not bound to a canonical Audit assignment'')
        else if \<not> isLead (p_inspection_id record) (SubjectID actor) db
        then Inl (AppError ErrForbidden ''Lead Inspector is not assigned to this Audit'')
        else (case lineage (Suc (length (potential_findings db))) (potential_findings db)
                     (cp_PotentialFindingID command) of
          None \<Rightarrow> Inl (AppError ErrInternal ''recursive query does not end'')
        | Some ids \<Rightarrow>
          if \<not> LineageIssued (p_inspection_id record) ids db
          then Inl (AppError ErrConflict
            ''Preliminary Report must be approved and issued before Finding issuance'')
          else bind_result (wrap_error ErrConflict (potentialfindings_Decide
              \<lparr>pd_Actor = actor, pd_Status = p_status record, pd_Revision = p_revision record,
               pd_ExpectedRevision = cp_ExpectedRevision command, pd_Decision = PDecisionConvert,
               pd_Reason = '''', pd_Severity = cp_Severity command\<rparr>)) (\<lambda>decision.
          let row = Convert_row env command record in
          bind_result (insert_row ''create canonical Finding'' (finding_conflict row (findings db)) row
              (findings db)) (\<lambda>rows.
          bind_result (update_potential_finding ''record Potential Finding conversion''
              (cp_PotentialFindingID command) (Convert_update env decision (f_id row))
              (db\<lparr>findings := rows\<rparr>)) (\<lambda>db'.
          Inr (db', Convert_result command record decision row)))))))"

definition ConvertPotentialFinding_envelope :: "ConvertPotentialFindingCommand \<Rightarrow> commandEnvelope" where
  "ConvertPotentialFinding_envelope command =
     \<lparr>ce_OperationID = cp_OperationID command, ce_IdempotencyKey = '''',
      ce_CorrelationID = cp_CorrelationID command, ce_Kind = ''convert_potential_finding'',
      ce_EntityID = cp_PotentialFindingID command,
      ce_Semantic = ConvertSemantic (cp_ExpectedRevision command) (cp_Severity command)
        (capRequired command) (evidenceRequired command) (convertDueDate command)\<rparr>"

definition ConvertPotentialFinding :: "Env \<Rightarrow> Principal \<Rightarrow> ConvertPotentialFindingCommand \<Rightarrow> DB \<Rightarrow>
    app_error + (DB \<times> Response)" where
  "ConvertPotentialFinding env actor command =
     executeTransition env actor (ConvertPotentialFinding_envelope command)
       (ConvertPotentialFinding_handler env actor command)"

section \<open>Reading Findings\<close>

record FindingProjection =
  fp_ID :: string
  fp_Reference :: string
  fp_OrganizationID :: string
  fp_RelatedAuditID :: string
  fp_Severity :: string
  fp_Status :: string
  fp_Owner :: string
  fp_NextAction :: string
  fp_DueDate :: string
  fp_Revision :: i64

definition findingProjection :: "Finding \<Rightarrow> FindingProjection" where
  "findingProjection record = \<lparr>fp_ID = f_id record, fp_Reference = f_reference record,
     fp_OrganizationID = f_organization_id record, fp_RelatedAuditID = f_inspection_id record,
     fp_Severity = severity_text (f_severity record),
     fp_Status = finding_status_text (f_status record),
     fp_Owner = (case f_owner_subject_id record of None \<Rightarrow> '''' | Some owner \<Rightarrow> owner),
     fp_NextAction = f_next_action record,
     fp_DueDate = (case f_due_date record of None \<Rightarrow> '''' | Some t \<Rightarrow> format_date t),
     fp_Revision = f_revision record\<rparr>"

definition ListFindings :: "Principal \<Rightarrow> DB \<Rightarrow> app_error + FindingProjection list" where
  "ListFindings actor db =
     (if HasRole actor [RoleAuditee]
      then Inr (map findingProjection (sort_key f_reference
        (filter (\<lambda>f. f_organization_id f = OrganizationID actor) (findings db))))
      else if \<not> IsCAA actor then Inl (AppError ErrForbidden '''')
      else Inr (map findingProjection (sort_key f_reference (findings db))))"

definition GetFinding :: "Principal \<Rightarrow> string \<Rightarrow> DB \<Rightarrow> app_error + FindingProjection" where
  "GetFinding actor findingID db =
     (case lookup f_id findingID (findings db) of
        None \<Rightarrow> Inl (AppError ErrNotFound '''')
      | Some record \<Rightarrow>
        if HasRole actor [RoleAuditee]
        then (if OrganizationID actor \<noteq> f_organization_id record then Inl (AppError ErrNotFound '''')
              else Inr (findingProjection record))
        else if \<not> IsCAA actor then Inl (AppError ErrForbidden '''')
        else Inr (findingProjection record))"

end
