(* ===== verification/FindingLaws.thy ===== *)
theory FindingLaws
  imports FindingWorkflow
begin

text \<open>
  What a successful run of each Finding handler has checked and changed, and the interpretations of
  the handler contract on them.
\<close>

section \<open>Statements\<close>

lemma update_finding_Inr [row_simps]:
  "update_finding context fid g db = Inr db' \<longleftrightarrow>
     (\<forall>f \<in> set (findings db). f_id f = fid \<longrightarrow> 0 < sint (f_revision (g f))) \<and>
     db' = db\<lparr>findings := modify f_id fid g (findings db)\<rparr>"
  by (auto simp: update_finding_def list_ex_iff not_le)

lemma insert_review_decision_Inr [row_simps]:
  "insert_review_decision context row db = Inr db' \<longleftrightarrow>
     (\<forall>v \<in> set (review_decisions db). v_id v \<noteq> v_id row) \<and>
     db' = db\<lparr>review_decisions := review_decisions db @ [row]\<rparr>"
  by (auto simp: insert_review_decision_def bind_result_Inr insert_row_Inr list_ex_iff)

lemma update_evidence_state_Inr [row_simps]:
  "update_evidence_state eid g db = Inr db' \<longleftrightarrow>
     (\<forall>e \<in> set (evidence_version_states db). es_evidence_version_id e = eid \<longrightarrow> 0 < sint (es_revision (g e))) \<and>
     db' = db\<lparr>evidence_version_states :=
        modify es_evidence_version_id eid g (evidence_version_states db)\<rparr>"
  by (auto simp: update_evidence_state_def list_ex_iff not_le)

lemma update_potential_finding_Inr [row_simps]:
  "update_potential_finding context pid g db = Inr db' \<longleftrightarrow>
     (\<forall>p \<in> set (potential_findings db). p_id p = pid \<longrightarrow> 0 < sint (p_revision (g p))) \<and>
     db' = db\<lparr>potential_findings := modify p_id pid g (potential_findings db)\<rparr>"
  by (auto simp: update_potential_finding_def list_ex_iff not_le)

lemmas run_simps = bind_result_Inr check_error_Inr if_Inl_Inr row_simps

section \<open>Inversion of the handlers\<close>

lemma SubmitCAP_handler_Inr:
  assumes "SubmitCAP_handler env actor command db = Inr (db', result)"
  obtains finding decision row where
    "lookup f_id (sc_FindingID command) (findings db) = Some finding"
    "PreliminaryIssued (f_inspection_id finding) db"
    "caps_Submit \<lparr>cs_Actor = actor, cs_FindingOrganizationID = f_organization_id finding,
       cs_FindingStatus = f_status finding, cs_FindingRevision = f_revision finding,
       cs_ExpectedFindingRevision = sc_ExpectedFindingRevision command\<rparr> = Inr decision"
    "row = SubmitCAP_row env actor command finding (csr_CAPStatus decision) db"
    "\<not> cap_revision_conflict row (cap_revisions db)"
    "\<forall>f \<in> set (findings db). f_id f = sc_FindingID command \<longrightarrow> 0 < sint (f_revision finding + 1)"
    "db' = db\<lparr>cap_revisions := cap_revisions db @ [row],
       findings := modify f_id (sc_FindingID command)
         (SubmitCAP_update env (csr_FindingStatus decision) (f_revision finding + 1)) (findings db)\<rparr>"
    "result = SubmitCAP_result command finding decision row"
  using assms
  by (auto simp: SubmitCAP_handler_def GetFindingForUpdate_def Let_def run_simps SubmitCAP_update_def
      split: option.splits)

lemma ReviewCAP_handler_Inr:
  assumes "ReviewCAP_handler env actor command db = Inr (db', result)"
  obtains cap finding decision where
    "lookup c_id (rc_CAPRevisionID command) (cap_revisions db) = Some cap"
    "c_finding_id cap = rc_FindingID command"
    "map_option c_id (GetLatestCAPRevisionForFinding (rc_FindingID command) db) = Some (c_id cap)"
    "lookup f_id (rc_FindingID command) (findings db) = Some finding"
    "f_revision finding = rc_ExpectedFindingRevision command"
    "requireFindingReviewAuthority env actor (f_inspection_id finding) False db = None"
    "caps_Review \<lparr>cr_Actor = actor, cr_CAPStatus = c_status cap, cr_CAPRevision = c_revision cap,
       cr_ExpectedCAPRevision = rc_ExpectedCAPRevision command, cr_FindingStatus = f_status finding,
       cr_EvidenceRequired = f_evidence_required finding, cr_Decision = rc_Decision command,
       cr_Reason = TrimSpace (rc_CommentToAuditee command)\<rparr> = Inr decision"
    "db' = db\<lparr>review_decisions := review_decisions db @ [ReviewCAP_decision env actor command],
       findings := modify f_id (f_id finding)
         (ReviewCAP_update env (crr_FindingStatus decision) (f_revision finding + 1)) (findings db)\<rparr>"
    "\<forall>f \<in> set (findings db). f_id f = f_id finding \<longrightarrow> 0 < sint (f_revision finding + 1)"
    "result = ReviewCAP_result command finding decision"
  using assms
  by (auto simp: ReviewCAP_handler_def GetFindingForUpdate_def run_simps ReviewCAP_update_def
      split: option.splits)

text \<open>Whether or not the version has a processing state, its update is one of the state table.\<close>

lemma maybe_update_evidence_state:
  assumes "(if b then update_evidence_state eid g db else Inr db) = Inr db'"
  shows "\<exists>states. db' = db\<lparr>evidence_version_states := states\<rparr> \<and>
     (states = evidence_version_states db \<or>
      states = modify es_evidence_version_id eid g (evidence_version_states db))"
proof (cases b)
  case False
  with assms have "db' = db\<lparr>evidence_version_states := evidence_version_states db\<rparr>" by simp
  then show ?thesis by blast
qed (use assms in \<open>auto simp: update_evidence_state_Inr\<close>)

lemma ReviewEvidence_handler_Inr:
  assumes "ReviewEvidence_handler env actor command db = Inr (db', result)"
  obtains version finding decision states where
    "lookup e_id (re_EvidenceVersionID command) (evidence_versions db) = Some version"
    "e_finding_id version = re_FindingID command"
    "lookup f_id (re_FindingID command) (findings db) = Some finding"
    "f_revision finding = re_ExpectedFindingRevision command"
    "map_option e_id (latest (\<lambda>e. sint (e_version e))
       (filter (\<lambda>e. e_finding_id e = re_FindingID command) (evidence_versions db))) = Some (e_id version)"
    "requireFindingReviewAuthority env actor (f_inspection_id finding) False db = None"
    "evidence_Review \<lparr>er_Actor = actor, er_VersionID = e_id version,
       er_VersionRevision = snd (evidence_status version db),
       er_ExpectedVersionRevision = re_ExpectedEvidenceVersionRevision command,
       er_ScanStatus = fst (evidence_status version db), er_FindingStatus = f_status finding,
       er_Decision = re_Decision command\<rparr> = Inr decision"
    "db' = db\<lparr>review_decisions := review_decisions db @ [ReviewEvidence_decision env actor command],
       evidence_version_states := states,
       findings := modify f_id (f_id finding)
         (ReviewEvidence_update env command decision (f_revision finding + 1)) (findings db)\<rparr>"
    "states = evidence_version_states db \<or>
     states = modify es_evidence_version_id (e_id version)
       (ReviewEvidence_state_update env (re_Decision command)) (evidence_version_states db)"
    "0 < sint (f_revision finding + 1)"
    "result = ReviewEvidence_result env command finding (snd (evidence_status version db)) decision"
proof -
  from assms obtain version finding last decision db1 db2 where
    v: "lookup e_id (re_EvidenceVersionID command) (evidence_versions db) = Some version"
    "e_finding_id version = re_FindingID command"
    "lookup f_id (re_FindingID command) (findings db) = Some finding"
    "f_revision finding = re_ExpectedFindingRevision command"
    "latest (\<lambda>e. sint (e_version e))
       (filter (\<lambda>e. e_finding_id e = re_FindingID command) (evidence_versions db)) = Some last"
    "e_id last = e_id version"
    "requireFindingReviewAuthority env actor (f_inspection_id finding) False db = None"
    "evidence_Review \<lparr>er_Actor = actor, er_VersionID = e_id version,
       er_VersionRevision = snd (evidence_status version db),
       er_ExpectedVersionRevision = re_ExpectedEvidenceVersionRevision command,
       er_ScanStatus = fst (evidence_status version db), er_FindingStatus = f_status finding,
       er_Decision = re_Decision command\<rparr> = Inr decision"
    and d1: "insert_review_decision ''append Evidence review decision''
       (ReviewEvidence_decision env actor command) db = Inr db1"
    and d2: "(if lookup es_evidence_version_id (e_id version) (evidence_version_states db) \<noteq> None
       then update_evidence_state (e_id version) (ReviewEvidence_state_update env (re_Decision command)) db1
       else Inr db1) = Inr db2"
    and d3: "update_finding ''advance Finding after Evidence review'' (f_id finding)
       (ReviewEvidence_update env command decision (f_revision finding + 1)) db2 = Inr db'"
    and r: "result = ReviewEvidence_result env command finding (snd (evidence_status version db)) decision"
    unfolding ReviewEvidence_handler_def GetFindingForUpdate_def
    by (clarsimp simp: bind_result_Inr check_error_Inr if_Inl_Inr simp del: not_None_eq
        split: option.splits)
  from maybe_update_evidence_state [OF d2] obtain states where
    d2': "db2 = db1\<lparr>evidence_version_states := states\<rparr>"
    and st: "states = evidence_version_states db1 \<or> states = modify es_evidence_version_id (e_id version)
       (ReviewEvidence_state_update env (re_Decision command)) (evidence_version_states db1)"
    by blast
  from d1 have rows: "findings db1 = findings db" "evidence_version_states db1 = evidence_version_states db"
    by (simp_all add: row_simps)
  have "0 < sint (f_revision finding + 1)"
    using d3 v(3) rows by (auto simp: row_simps d2' ReviewEvidence_update_def dest: lookup_Some)
  moreover from d2' d1 d3 have "db' = db\<lparr>review_decisions := review_decisions db @ [ReviewEvidence_decision env actor command],
       evidence_version_states := states,
       findings := modify f_id (f_id finding)
         (ReviewEvidence_update env command decision (f_revision finding + 1)) (findings db)\<rparr>"
    by (simp add: row_simps)
  ultimately show thesis
    using v r st rows by (intro that [of version finding decision states]) simp_all
qed

lemma AuthorizedCloseFinding_handler_Inr:
  assumes "AuthorizedCloseFinding_handler env actor command db = Inr (db', result)"
  obtains finding decision where
    "lookup f_id (cl_FindingID command) (findings db) = Some finding"
    "requireCurrentDepartmentScopeAuthority (scope_tables db) (audit_assignments db)
       (env_today env) actor '''' (f_inspection_id finding) = None"
    "AuthorizedClose \<lparr>ac_Actor = actor, ac_Status = f_status finding,
       ac_Revision = f_revision finding, ac_ExpectedRevision = cl_ExpectedFindingRevision command,
       ac_Reason = TrimSpace (cl_Reason command)\<rparr> = Inr decision"
    "db' = db\<lparr>findings := modify f_id (cl_FindingID command) (AuthorizedClose_update env decision)
       (findings db)\<rparr>"
    "\<forall>f \<in> set (findings db). f_id f = cl_FindingID command \<longrightarrow> 0 < sint (tr_Revision decision)"
    "result = AuthorizedClose_result command finding decision"
  using assms
  by (auto simp: AuthorizedCloseFinding_handler_def GetFindingForUpdate_def run_simps
      AuthorizedClose_update_def split: option.splits)

lemma ConvertPotentialFinding_handler_Inr:
  assumes "ConvertPotentialFinding_handler env actor command db = Inr (db', result)"
  obtains pending ids decision row where
    "lookup p_id (cp_PotentialFindingID command) (potential_findings db) = Some pending"
    "isLead (p_inspection_id pending) (SubjectID actor) db"
    "lineage (Suc (length (potential_findings db))) (potential_findings db)
       (cp_PotentialFindingID command) = Some ids"
    "LineageIssued (p_inspection_id pending) ids db"
    "potentialfindings_Decide \<lparr>pd_Actor = actor, pd_Status = p_status pending,
       pd_Revision = p_revision pending, pd_ExpectedRevision = cp_ExpectedRevision command,
       pd_Decision = PDecisionConvert, pd_Reason = '''', pd_Severity = cp_Severity command\<rparr> = Inr decision"
    "row = Convert_row env command pending" "\<not> finding_conflict row (findings db)"
    "db' = db\<lparr>findings := findings db @ [row],
       potential_findings := modify p_id (cp_PotentialFindingID command)
         (Convert_update env decision (f_id row)) (potential_findings db)\<rparr>"
    "result = Convert_result command pending decision row"
  using assms
  by (auto simp: ConvertPotentialFinding_handler_def Let_def run_simps split: option.splits)

section \<open>The handlers keep the contract\<close>

interpretation submit_cap: command_handler "SubmitCAP_handler env actor command" for env actor command
  by unfold_locales (auto elim: SubmitCAP_handler_Inr)

interpretation review_cap: command_handler "ReviewCAP_handler env actor command" for env actor command
  by unfold_locales (auto elim: ReviewCAP_handler_Inr)

interpretation review_evidence: command_handler "ReviewEvidence_handler env actor command"
  for env actor command
  by unfold_locales (auto elim: ReviewEvidence_handler_Inr)

interpretation authorized_close: command_handler "AuthorizedCloseFinding_handler env actor command"
  for env actor command
  by unfold_locales (auto elim: AuthorizedCloseFinding_handler_Inr)

interpretation convert_finding: command_handler "ConvertPotentialFinding_handler env actor command"
  for env actor command
  by unfold_locales (auto elim: ConvertPotentialFinding_handler_Inr)

end
