(* ===== verification/FieldWorkflow.thy ===== *)
theory FieldWorkflow
  imports FindingLaws
begin

text \<open>
  Field work on an inspection: \<open>UpsertChecklistResponse\<close>, \<open>SubmitChecklist\<close>, \<open>ReopenChecklist\<close>,
  \<open>CreatePotentialFinding\<close> and \<open>DecidePotentialFinding\<close> of
  \<open>internal/application/field_workflow.go\<close>, and \<open>StartInspection\<close> of \<open>inspection_start.go\<close>.
\<close>

section \<open>Shared reads\<close>

definition validChecklistAnswer :: "string \<Rightarrow> bool" where
  "validChecklistAnswer answer \<longleftrightarrow>
     answer = ''COMPLIANT'' \<or> answer = ''NON_COMPLIANT'' \<or> answer = ''OBSERVATION'' \<or>
     answer = ''NOT_APPLICABLE'' \<or> answer = ''NOT_CHECKED''"

definition containsString :: "string list \<Rightarrow> string \<Rightarrow> bool" where
  "containsString values expected = list_ex (\<lambda>value. value = expected) values"

text \<open>\<open>packageRevoked != nil || (packageExpiry != nil && !now.Before(packageExpiry))\<close>.\<close>

definition package_unusable :: "instant \<Rightarrow> InspectionPackage \<Rightarrow> bool" where
  "package_unusable now package \<longleftrightarrow>
     pk_revoked_at package \<noteq> None \<or>
     (case pk_expires_at package of None \<Rightarrow> False | Some expiry \<Rightarrow> \<not> now < expiry)"

definition canonical_snapshot_missing :: "InspectionPackage \<Rightarrow> bool" where
  "canonical_snapshot_missing package \<longleftrightarrow>
     pk_canonical_scope_snapshot_id package = None \<or> pk_canonical_scope_snapshot_id package = Some ''''"

text \<open>The join of a question assignment with a current team membership of the same subject.\<close>

definition assigned_question :: "string \<Rightarrow> string \<Rightarrow> string \<Rightarrow> DB \<Rightarrow> bool" where
  "assigned_question inspectionID questionID subject db =
     list_ex (\<lambda>q. qa_inspection_id q = inspectionID \<and> qa_question_id q = questionID \<and>
         qa_subject_id q = subject) (question_assignments db)"

definition current_team_member :: "string \<Rightarrow> string \<Rightarrow> DB \<Rightarrow> bool" where
  "current_team_member inspectionID subject db =
     list_ex (\<lambda>a. aa_inspection_id a = Some inspectionID \<and> aa_tombstoned_at a = None \<and>
         list_ex (\<lambda>m. tm_assignment_id m = aa_id a \<and> tm_subject_id m = subject \<and>
             tm_removed_at m = None) (audit_team_members db)) (audit_assignments db)"

definition latest_package :: "string \<Rightarrow> DB \<Rightarrow> InspectionPackage option" where
  "latest_package inspectionID db =
     latest (\<lambda>k. sint (pk_package_version k))
       (filter (\<lambda>k. pk_inspection_id k = inspectionID) (inspection_packages db))"

text \<open>\<open>UPDATE inspection_checklists ... WHERE inspection_id = $1\<close>.\<close>

definition update_checklist :: "string \<Rightarrow> string \<Rightarrow> (InspectionChecklist \<Rightarrow> InspectionChecklist) \<Rightarrow> DB \<Rightarrow>
    app_error + DB" where
  "update_checklist context inspectionID g db =
     (if list_ex (\<lambda>k. k_inspection_id k = inspectionID \<and> sint (k_revision (g k)) \<le> 0)
           (inspection_checklists db)
      then Inl (AppError ErrInternal context)
      else Inr (db\<lparr>inspection_checklists := modify k_inspection_id inspectionID g (inspection_checklists db)\<rparr>))"

section \<open>UpsertChecklistResponse\<close>

text \<open>The joined row: the inspection, its checklist and the package, for an assigned inspector.\<close>

definition response_context :: "UpsertChecklistResponseCommand \<Rightarrow> Principal \<Rightarrow> DB \<Rightarrow>
    (Inspection \<times> InspectionChecklist \<times> InspectionPackage) option" where
  "response_context command actor db =
     (case lookup in_id (uc_InspectionID command) (inspections db) of
        None \<Rightarrow> None
      | Some inspection \<Rightarrow>
        (case lookup k_inspection_id (uc_InspectionID command) (inspection_checklists db) of
          None \<Rightarrow> None
        | Some checklist \<Rightarrow>
          (case find (\<lambda>k. pk_inspection_id k = uc_InspectionID command \<and> pk_id k = uc_PackageID command)
                  (inspection_packages db) of
            None \<Rightarrow> None
          | Some package \<Rightarrow>
            if assigned_question (uc_InspectionID command) (uc_QuestionID command) (SubjectID actor) db \<and>
               current_team_member (uc_InspectionID command) (SubjectID actor) db
            then Some (inspection, checklist, package) else None)))"

definition Upsert_row :: "Env \<Rightarrow> Principal \<Rightarrow> UpsertChecklistResponseCommand \<Rightarrow> ChecklistResponse" where
  "Upsert_row env actor command =
     \<lparr>cr_id = uc_ResponseID command, cr_inspection_id = uc_InspectionID command,
      cr_package_id = uc_PackageID command, cr_question_id = uc_QuestionID command,
      cr_assigned_inspector_subject_id = SubjectID actor,
      cr_response_value = TrimSpace (uc_Answer command),
      cr_comment_to_auditee = null_if_empty (TrimSpace (uc_CommentToAuditee command)),
      cr_internal_caa_note = null_if_empty (TrimSpace (uc_InternalCAANote command)),
      cr_revision = 1, cr_updated_at = env_clock env 0\<rparr>"

definition Upsert_update :: "Env \<Rightarrow> UpsertChecklistResponseCommand \<Rightarrow> i64 \<Rightarrow> ChecklistResponse \<Rightarrow> ChecklistResponse" where
  "Upsert_update env command revision r =
     r\<lparr>cr_response_value := TrimSpace (uc_Answer command),
       cr_comment_to_auditee := null_if_empty (TrimSpace (uc_CommentToAuditee command)),
       cr_internal_caa_note := null_if_empty (TrimSpace (uc_InternalCAANote command)),
       cr_revision := revision, cr_updated_at := env_clock env 0\<rparr>"

definition response_row_conflict :: "ChecklistResponse \<Rightarrow> ChecklistResponse list \<Rightarrow> bool" where
  "response_row_conflict row rows =
     list_ex (\<lambda>r. cr_id r = cr_id row \<or>
       cr_inspection_id r = cr_inspection_id row \<and> cr_question_id r = cr_question_id row) rows"

definition Upsert_write :: "Env \<Rightarrow> Principal \<Rightarrow> UpsertChecklistResponseCommand \<Rightarrow> ChecklistResponse option \<Rightarrow>
    ChecklistResponse list \<Rightarrow> app_error + (ChecklistResponse list \<times> i64)" where
  "Upsert_write env actor command existing rows =
     (case existing of
        None \<Rightarrow>
          if uc_ExpectedResponseRevision command \<noteq> None
          then Inl (AppError ErrConflict ''response does not exist at expected revision'')
          else bind_result (insert_row ''create checklist response''
              (response_row_conflict (Upsert_row env actor command) rows)
              (Upsert_row env actor command) rows) (\<lambda>rows'. Inr (rows', 1))
      | Some r \<Rightarrow>
          if cr_id r \<noteq> uc_ResponseID command \<or>
             uc_ExpectedResponseRevision command \<noteq> Some (cr_revision r)
          then Inl (AppError ErrConflict ''stale or mismatched checklist response'')
          else if sint (cr_revision r + 1) \<le> 0
          then Inl (AppError ErrInternal ''update checklist response'')
          else Inr (modify cr_id (cr_id r) (Upsert_update env command (cr_revision r + 1)) rows,
                    cr_revision r + 1))"

definition Upsert_result :: "UpsertChecklistResponseCommand \<Rightarrow> string \<Rightarrow> string \<Rightarrow> i64 \<Rightarrow> transition" where
  "Upsert_result command organizationID beforeAnswer revision =
     \<lparr>tn_Response = ChecklistResponseResponse
        \<lparr>ucr_ResponseID = uc_ResponseID command, ucr_InspectionID = uc_InspectionID command,
         ucr_QuestionID = uc_QuestionID command, ucr_Answer = TrimSpace (uc_Answer command),
         ucr_Revision = revision\<rparr>,
      tn_OrganizationID = organizationID, tn_Action = ''checklist_response.recorded'',
      tn_EntityType = ''checklist_response'', tn_EntityID = uc_ResponseID command,
      tn_EntityVersion = revision, tn_BeforeStatus = beforeAnswer,
      tn_AfterStatus = TrimSpace (uc_Answer command), tn_Reason = '''', tn_ClosureBasis = '''',
      tn_SyncKind = ''checklist_response'', tn_OutboxTopic = ''checklist_response.recorded''\<rparr>"

definition UpsertChecklistResponse_handler :: "Env \<Rightarrow> Principal \<Rightarrow> UpsertChecklistResponseCommand \<Rightarrow> handler" where
  "UpsertChecklistResponse_handler env actor command db =
     (if \<not> HasRole actor [RoleInspector] \<or> SubjectID actor = ''''
      then Inl (AppError ErrForbidden ''Inspector role required'')
      else if uc_ResponseID command = '''' \<or> uc_InspectionID command = '''' \<or> uc_PackageID command = '''' \<or>
              uc_QuestionID command = '''' \<or> \<not> validChecklistAnswer (TrimSpace (uc_Answer command))
      then Inl (AppError ErrInvalid ''valid response, Audit, package, question, and answer are required'')
      else (case response_context command actor db of
        None \<Rightarrow> Inl (AppError ErrForbidden ''Inspector is not assigned to this Audit question'')
      | Some (inspection, checklist, package) \<Rightarrow>
        if \<not> CanEdit (k_status checklist)
        then Inl (AppError ErrConflict ''submitted checklist is read-only'')
        else if canonical_snapshot_missing package
        then Inl (AppError ErrConflict ''canonical execution package is required'')
        else if package_unusable (env_clock env 0) package
        then Inl (AppError ErrConflict ''inspection package is expired or withdrawn'')
        else
        let existing = find (\<lambda>r. cr_inspection_id r = uc_InspectionID command \<and>
                          cr_question_id r = uc_QuestionID command) (checklist_responses db) in
        bind_result (Upsert_write env actor command existing (checklist_responses db)) (\<lambda>(rows, revision).
        Inr (db\<lparr>checklist_responses := rows\<rparr>,
          Upsert_result command (in_organization_id inspection)
            (case existing of None \<Rightarrow> '''' | Some r \<Rightarrow> cr_response_value r) revision))))"

definition UpsertChecklistResponse_envelope :: "UpsertChecklistResponseCommand \<Rightarrow> commandEnvelope" where
  "UpsertChecklistResponse_envelope command =
     \<lparr>ce_OperationID = uc_OperationID command, ce_IdempotencyKey = '''',
      ce_CorrelationID = uc_CorrelationID command, ce_Kind = ''upsert_checklist_response'',
      ce_EntityID = uc_ResponseID command,
      ce_Semantic = UpsertResponseSemantic (uc_InspectionID command) (uc_PackageID command)
        (uc_QuestionID command) (uc_ExpectedResponseRevision command) (TrimSpace (uc_Answer command))
        (TrimSpace (uc_CommentToAuditee command)) (TrimSpace (uc_InternalCAANote command))\<rparr>"

definition UpsertChecklistResponse :: "Env \<Rightarrow> Principal \<Rightarrow> UpsertChecklistResponseCommand \<Rightarrow> DB \<Rightarrow>
    app_error + (DB \<times> Response)" where
  "UpsertChecklistResponse env actor command =
     executeTransition env actor (UpsertChecklistResponse_envelope command)
       (UpsertChecklistResponse_handler env actor command)"

section \<open>SubmitChecklist\<close>

definition uncleared_attachment :: "string \<Rightarrow> DB \<Rightarrow> bool" where
  "uncleared_attachment inspectionID db =
     list_ex (\<lambda>a. at_inspection_id a = inspectionID \<and>
         (at_upload_state a \<noteq> ''UPLOADED'' \<or> at_scan_state a \<noteq> ScanClean \<or>
          at_canonical_object_metadata_id a = None)) (inspection_attachments db)"

text \<open>\<open>SELECT DISTINCT question_id\<close> of the assignments of an inspection.\<close>

definition assigned_questions :: "string \<Rightarrow> DB \<Rightarrow> string list" where
  "assigned_questions inspectionID db =
     remdups (map qa_question_id (filter (\<lambda>q. qa_inspection_id q = inspectionID) (question_assignments db)))"

definition snapshot_question_count :: "string \<Rightarrow> DB \<Rightarrow> nat" where
  "snapshot_question_count snapshotID db =
     length (filter (\<lambda>q. sq_snapshot_id q = snapshotID) (snapshot_questions db))"

definition covered_by_snapshot :: "string \<Rightarrow> string \<Rightarrow> DB \<Rightarrow> bool" where
  "covered_by_snapshot snapshotID questionID db =
     list_ex (\<lambda>scoped. sq_snapshot_id scoped = snapshotID \<and>
         (sq_question_version_id scoped = questionID \<or>
          list_ex (\<lambda>v. qv_id v = sq_question_version_id scoped \<and> qv_question_id v = questionID)
            (question_versions db))) (snapshot_questions db)"

definition coverage_mismatch :: "string \<Rightarrow> string \<Rightarrow> DB \<Rightarrow> bool" where
  "coverage_mismatch snapshotID inspectionID db \<longleftrightarrow>
     snapshot_question_count snapshotID db = 0 \<or>
     length (assigned_questions inspectionID db) \<noteq> snapshot_question_count snapshotID db \<or>
     length (filter (\<lambda>q. \<not> covered_by_snapshot snapshotID q db) (assigned_questions inspectionID db)) \<noteq> 0"

text \<open>The response joined to an assigned question: non-empty value, unique by its key.\<close>

definition question_response :: "string \<Rightarrow> string \<Rightarrow> DB \<Rightarrow> ChecklistResponse option" where
  "question_response inspectionID questionID db =
     find (\<lambda>r. cr_inspection_id r = inspectionID \<and> cr_question_id r = questionID \<and>
               cr_response_value r \<noteq> '''') (checklist_responses db)"

text \<open>\<open>btrim\<close> removes spaces only, so its result is empty exactly for a text of spaces.\<close>

definition no_comment :: "ChecklistResponse \<Rightarrow> bool" where
  "no_comment r = list_all (\<lambda>c. c = CHR '' '')
     ((case cr_comment_to_auditee r of None \<Rightarrow> '''' | Some s \<Rightarrow> s) @
      (case cr_internal_caa_note r of None \<Rightarrow> '''' | Some s \<Rightarrow> s))"

definition missing_comment :: "string \<Rightarrow> string \<Rightarrow> DB \<Rightarrow> bool" where
  "missing_comment inspectionID questionID db =
     (case question_response inspectionID questionID db of
        None \<Rightarrow> False
      | Some r \<Rightarrow> (cr_response_value r = ''NON_COMPLIANT'' \<or> cr_response_value r = ''OBSERVATION'') \<and> no_comment r)"

definition assigned_subjects :: "string \<Rightarrow> DB \<Rightarrow> string list" where
  "assigned_subjects inspectionID db =
     sort (remdups (map qa_subject_id
       (filter (\<lambda>q. qa_inspection_id q = inspectionID) (question_assignments db))))"

definition SubmitChecklist_update :: "Env \<Rightarrow> ChecklistResult \<Rightarrow> InspectionChecklist \<Rightarrow> InspectionChecklist" where
  "SubmitChecklist_update env decision k =
     k\<lparr>k_status := kr_Status decision, k_revision := kr_Revision decision,
       k_submitted_at := Some (env_clock env 0)\<rparr>"

definition ChecklistTransition_result :: "string \<Rightarrow> string \<Rightarrow> string \<Rightarrow> ChecklistStatus \<Rightarrow> ChecklistResult \<Rightarrow>
    string \<Rightarrow> transition" where
  "ChecklistTransition_result inspectionID organizationID action before decision reason =
     \<lparr>tn_Response = ChecklistTransitionResponse
        \<lparr>ctr_InspectionID = inspectionID, ctr_Status = kr_Status decision,
         ctr_Revision = kr_Revision decision\<rparr>,
      tn_OrganizationID = organizationID, tn_Action = action,
      tn_EntityType = ''inspection_checklist'', tn_EntityID = inspectionID,
      tn_EntityVersion = kr_Revision decision, tn_BeforeStatus = checklist_status_text before,
      tn_AfterStatus = checklist_status_text (kr_Status decision), tn_Reason = reason,
      tn_ClosureBasis = '''', tn_SyncKind = ''inspection_checklist'', tn_OutboxTopic = action\<rparr>"

text \<open>The checks between reading the checklist and deciding, in the order of the code.\<close>

definition submission_blocked :: "Env \<Rightarrow> string \<Rightarrow> DB \<Rightarrow> app_error option" where
  "submission_blocked env inspectionID db =
     (case latest_package inspectionID db of
        None \<Rightarrow> Some (AppError ErrConflict ''immutable execution package is required'')
      | Some package \<Rightarrow>
        if package_unusable (env_clock env 0) package
        then Some (AppError ErrConflict ''immutable execution package is expired or withdrawn'')
        else if canonical_snapshot_missing package \<or> pk_checklist_template_version_id package \<noteq> None
        then Some (AppError ErrConflict ''canonical execution package source is required'')
        else if uncleared_attachment inspectionID db
        then Some (AppError ErrConflict
          ''every Inspection Attachment must be uploaded and clean before checklist submission'')
        else if coverage_mismatch (the (pk_canonical_scope_snapshot_id package)) inspectionID db
        then Some (AppError ErrConflict
          ''checklist coverage does not match the immutable released package'')
        else if assigned_questions inspectionID db = [] \<or>
                length (filter (\<lambda>q. question_response inspectionID q db \<noteq> None)
                  (assigned_questions inspectionID db)) \<noteq> length (assigned_questions inspectionID db)
        then Some (AppError ErrConflict
          ''every immutable package question must have a response before submission'')
        else if length (filter (\<lambda>q. missing_comment inspectionID q db) (assigned_questions inspectionID db)) \<noteq> 0
        then Some (AppError ErrConflict
          ''non-compliant and observation responses require an auditee comment or Internal CAA Note'')
        else None)"

text \<open>The joined row of a checklist and its inspection.\<close>

definition checklist_context :: "string \<Rightarrow> DB \<Rightarrow> (InspectionChecklist \<times> Inspection) option" where
  "checklist_context inspectionID db =
     (case lookup k_inspection_id inspectionID (inspection_checklists db) of
        None \<Rightarrow> None
      | Some checklist \<Rightarrow>
        (case lookup in_id inspectionID (inspections db) of
           None \<Rightarrow> None | Some inspection \<Rightarrow> Some (checklist, inspection)))"

definition SubmitChecklist_handler :: "Env \<Rightarrow> Principal \<Rightarrow> SubmitChecklistCommand \<Rightarrow> handler" where
  "SubmitChecklist_handler env actor command db =
     (if \<not> HasRole actor [RoleInspector] \<or> SubjectID actor = ''''
      then Inl (AppError ErrForbidden ''Inspector role required'')
      else (case checklist_context (sk_InspectionID command) db of
        None \<Rightarrow> Inl (AppError ErrNotFound '''')
      | Some (checklist, inspection) \<Rightarrow>
        check_error (submission_blocked env (sk_InspectionID command) db)
        (let assigned = assigned_subjects (sk_InspectionID command) db in
         bind_result (wrap_error
            (if containsString assigned (SubjectID actor) then ErrConflict else ErrForbidden)
            (checklists_Submit
              \<lparr>su_Actor = actor, su_AssignedSubjectIDs = assigned, su_Status = k_status checklist,
               su_Revision = k_revision checklist,
               su_ExpectedRevision = sk_ExpectedChecklistRevision command\<rparr>)) (\<lambda>decision.
         bind_result (update_checklist ''submit checklist'' (sk_InspectionID command)
            (SubmitChecklist_update env decision) db) (\<lambda>db'.
         Inr (db', ChecklistTransition_result (sk_InspectionID command) (in_organization_id inspection)
                ''checklist.submitted'' (k_status checklist) decision ''''))))))"

definition SubmitChecklist_envelope :: "SubmitChecklistCommand \<Rightarrow> commandEnvelope" where
  "SubmitChecklist_envelope command =
     \<lparr>ce_OperationID = sk_OperationID command, ce_IdempotencyKey = '''',
      ce_CorrelationID = sk_CorrelationID command, ce_Kind = ''submit_checklist'',
      ce_EntityID = sk_InspectionID command,
      ce_Semantic = SubmitChecklistSemantic (sk_ExpectedChecklistRevision command)\<rparr>"

definition SubmitChecklist :: "Env \<Rightarrow> Principal \<Rightarrow> SubmitChecklistCommand \<Rightarrow> DB \<Rightarrow> app_error + (DB \<times> Response)" where
  "SubmitChecklist env actor command =
     executeTransition env actor (SubmitChecklist_envelope command)
       (SubmitChecklist_handler env actor command)"

section \<open>ReopenChecklist\<close>

text \<open>Report, Finding, CAP or Evidence history that forbids reopening.\<close>

definition downstream_history :: "string \<Rightarrow> DB \<Rightarrow> bool" where
  "downstream_history inspectionID db \<longleftrightarrow>
     list_ex (\<lambda>r. rv_inspection_id r = inspectionID \<and> rv_status r \<noteq> ''DRAFT'') (report_versions db) \<or>
     list_ex (\<lambda>f. f_inspection_id f = inspectionID \<and> finding_status_text (f_status f) \<noteq> ''DRAFT'')
       (findings db) \<or>
     list_ex (\<lambda>c. list_ex (\<lambda>f. f_id f = c_finding_id c \<and> f_inspection_id f = inspectionID) (findings db))
       (cap_revisions db) \<or>
     list_ex (\<lambda>e. list_ex (\<lambda>f. f_id f = e_finding_id e \<and> f_inspection_id f = inspectionID) (findings db))
       (evidence_versions db)"

definition covered_inspector :: "string \<Rightarrow> string \<Rightarrow> DB \<Rightarrow> bool" where
  "covered_inspector inspectionID subject db =
     list_ex (\<lambda>a. aa_inspection_id a = Some inspectionID \<and> aa_tombstoned_at a = None \<and>
         list_ex (\<lambda>m. tm_assignment_id m = aa_id a \<and> tm_subject_id m = subject \<and>
             tm_member_role m = ''INSPECTOR'' \<and> tm_removed_at m = None \<and>
             list_ex (\<lambda>q. aq_assignment_id q = aa_id a \<and> aq_subject_id q = subject)
               (audit_question_assignments db))
           (audit_team_members db)) (audit_assignments db)"

definition ReopenChecklist_update :: "Env \<Rightarrow> string \<Rightarrow> ChecklistResult \<Rightarrow> InspectionChecklist \<Rightarrow> InspectionChecklist" where
  "ReopenChecklist_update env reason decision k =
     k\<lparr>k_status := kr_Status decision, k_revision := kr_Revision decision,
       k_reopened_at := Some (env_clock env 0), k_reopen_reason := Some reason\<rparr>"

definition reopen_blocked :: "Principal \<Rightarrow> string \<Rightarrow> DB \<Rightarrow> app_error option" where
  "reopen_blocked actor inspectionID db =
     (if \<not> list_ex (\<lambda>k. pk_inspection_id k = inspectionID \<and> pk_canonical_scope_snapshot_id k \<noteq> None)
           (inspection_packages db)
      then Some (AppError ErrConflict ''canonical execution package is required'')
      else if downstream_history inspectionID db
      then Some (AppError ErrConflict
        ''checklist cannot be reopened after report, Finding, CAP, or Evidence history exists'')
      else if HasRole actor [RoleLeadInspector]
      then requireLeadInspectorAuthority actor inspectionID db
      else if \<not> covered_inspector inspectionID (SubjectID actor) db
      then Some (AppError ErrForbidden ''Inspector is not assigned to this Audit'')
      else None)"

definition ReopenChecklist_handler :: "Env \<Rightarrow> Principal \<Rightarrow> ReopenChecklistCommand \<Rightarrow> handler" where
  "ReopenChecklist_handler env actor command db =
     (if \<not> HasRole actor [RoleInspector, RoleLeadInspector]
      then Inl (AppError ErrForbidden ''Inspector or Lead Inspector role required'')
      else (case checklist_context (rk_InspectionID command) db of
        None \<Rightarrow> Inl (AppError ErrNotFound '''')
      | Some (checklist, inspection) \<Rightarrow>
        check_error (reopen_blocked actor (rk_InspectionID command) db)
        (bind_result (wrap_error ErrConflict (checklists_Reopen
            \<lparr>ro_Actor = actor, ro_Status = k_status checklist, ro_Revision = k_revision checklist,
             ro_ExpectedRevision = rk_ExpectedChecklistRevision command,
             ro_Reason = TrimSpace (rk_Reason command)\<rparr>)) (\<lambda>decision.
         bind_result (update_checklist ''reopen checklist'' (rk_InspectionID command)
            (ReopenChecklist_update env (TrimSpace (rk_Reason command)) decision) db) (\<lambda>db'.
         Inr (db', ChecklistTransition_result (rk_InspectionID command) (in_organization_id inspection)
                ''checklist.reopened'' (k_status checklist) decision (TrimSpace (rk_Reason command))))))))"

definition ReopenChecklist_envelope :: "ReopenChecklistCommand \<Rightarrow> commandEnvelope" where
  "ReopenChecklist_envelope command =
     \<lparr>ce_OperationID = rk_OperationID command, ce_IdempotencyKey = '''',
      ce_CorrelationID = rk_CorrelationID command, ce_Kind = ''reopen_checklist'',
      ce_EntityID = rk_InspectionID command,
      ce_Semantic = ReopenChecklistSemantic (rk_ExpectedChecklistRevision command)
        (TrimSpace (rk_Reason command))\<rparr>"

definition ReopenChecklist :: "Env \<Rightarrow> Principal \<Rightarrow> ReopenChecklistCommand \<Rightarrow> DB \<Rightarrow> app_error + (DB \<times> Response)" where
  "ReopenChecklist env actor command =
     executeTransition env actor (ReopenChecklist_envelope command)
       (ReopenChecklist_handler env actor command)"

section \<open>CreatePotentialFinding\<close>

fun normalize_ids :: "string list \<Rightarrow> string list \<Rightarrow> go_error + string list" where
  "normalize_ids seen [] = Inr []"
| "normalize_ids seen (value # rest) =
     (if TrimSpace value = '''' then Inl ''identifier is required''
      else if TrimSpace value \<in> set seen then Inl ''duplicate identifier''
      else bind_result (normalize_ids (TrimSpace value # seen) rest) (\<lambda>ids. Inr (TrimSpace value # ids)))"

definition normalizedUniqueIDs :: "string list \<Rightarrow> go_error + string list" where
  "normalizedUniqueIDs values = bind_result (normalize_ids [] values) (\<lambda>ids. Inr (sort ids))"

text \<open>The joined row behind a potential finding: the response and its inspection.\<close>

definition potential_context :: "CreatePotentialFindingCommand \<Rightarrow> Principal \<Rightarrow> DB \<Rightarrow>
    (ChecklistResponse \<times> Inspection) option" where
  "potential_context command actor db =
     (case find (\<lambda>r. cr_id r = pf_ChecklistResponseID command \<and> cr_inspection_id r = pf_InspectionID command \<and>
                     cr_question_id r = pf_QuestionID command) (checklist_responses db) of
        None \<Rightarrow> None
      | Some response \<Rightarrow>
        (case lookup in_id (cr_inspection_id response) (inspections db) of
          None \<Rightarrow> None
        | Some inspection \<Rightarrow>
          if list_ex (\<lambda>k. k_inspection_id k = cr_inspection_id response \<and> k_status k = KStatusInProgress)
               (inspection_checklists db) \<and>
             list_ex (\<lambda>k. pk_id k = cr_package_id response \<and> pk_inspection_id k = cr_inspection_id response \<and>
                 pk_canonical_scope_snapshot_id k \<noteq> None) (inspection_packages db) \<and>
             assigned_question (cr_inspection_id response) (cr_question_id response) (SubjectID actor) db \<and>
             current_team_member (cr_inspection_id response) (SubjectID actor) db
          then Some (response, inspection) else None))"

definition latest_potential :: "string \<Rightarrow> DB \<Rightarrow> PotentialFinding option" where
  "latest_potential responseID db =
     latest (\<lambda>p. (sint (p_revision p), p_id p))
       (filter (\<lambda>p. p_checklist_response_id p = responseID) (potential_findings db))"

definition attachment_in_context :: "CreatePotentialFindingCommand \<Rightarrow> string list \<Rightarrow> string \<Rightarrow> string \<Rightarrow>
    InspectionAttachment \<Rightarrow> bool" where
  "attachment_in_context command ids organizationID subject a \<longleftrightarrow>
     at_id a \<in> set ids \<and> at_inspection_id a = pf_InspectionID command \<and>
     at_question_id a = pf_QuestionID command \<and>
     at_checklist_response_id a = Some (pf_ChecklistResponseID command) \<and>
     at_organization_id a = organizationID \<and> at_created_by_subject_id a = subject \<and>
     at_upload_state a = ''UPLOADED'' \<and> at_scan_state a = ScanClean \<and>
     at_canonical_object_metadata_id a \<noteq> None \<and> at_potential_finding_id a = None"

definition CreatePotential_row :: "Env \<Rightarrow> Principal \<Rightarrow> CreatePotentialFindingCommand \<Rightarrow> string \<Rightarrow> string option \<Rightarrow>
    PotentialFinding" where
  "CreatePotential_row env actor command organizationID predecessor =
     \<lparr>p_id = env_new_id env ''potential-finding'', p_inspection_id = pf_InspectionID command,
      p_checklist_response_id = pf_ChecklistResponseID command, p_organization_id = organizationID,
      p_status = PStatusPendingLeadReview, p_finding_basis = TrimSpace (pf_Description command),
      p_expected_evidence = null_if_empty (TrimSpace (pf_ExpectedEvidence command)),
      p_comment_to_auditee = TrimSpace (pf_CommentToAuditee command),
      p_internal_caa_note = null_if_empty (TrimSpace (pf_InternalCAANote command)),
      p_converted_finding_id = None, p_revision = 1, p_created_at = env_clock env 0,
      p_updated_at = env_clock env 0, p_question_id = pf_QuestionID command,
      p_title = TrimSpace (pf_Title command), p_description = TrimSpace (pf_Description command),
      p_created_by_subject_id = SubjectID actor, p_supersedes_potential_finding_id = predecessor\<rparr>"

definition potential_conflict :: "PotentialFinding \<Rightarrow> PotentialFinding list \<Rightarrow> bool" where
  "potential_conflict row rows =
     list_ex (\<lambda>p. p_id p = p_id row \<or>
       p_checklist_response_id p = p_checklist_response_id row \<and> p_status p \<noteq> PStatusReturned \<and>
       p_status row \<noteq> PStatusReturned) rows"

definition link_attachments :: "string \<Rightarrow> string list \<Rightarrow> DB \<Rightarrow> app_error + DB" where
  "link_attachments potentialFindingID ids db =
     (if ids = [] then Inr db
      else if length (filter (\<lambda>a. at_id a \<in> set ids \<and> at_potential_finding_id a = None)
                (inspection_attachments db)) \<noteq> length ids
      then Inl (AppError ErrConflict '''')
      else Inr (db\<lparr>inspection_attachments :=
        map (\<lambda>a. if at_id a \<in> set ids \<and> at_potential_finding_id a = None
                 then a\<lparr>at_potential_finding_id := Some potentialFindingID\<rparr> else a)
          (inspection_attachments db)\<rparr>))"

definition PotentialFinding_result :: "PotentialFinding \<Rightarrow> string \<Rightarrow> string \<Rightarrow> string \<Rightarrow> PotentialStatus \<Rightarrow> i64 \<Rightarrow>
    string \<Rightarrow> transition" where
  "PotentialFinding_result row action before organizationID status revision reason =
     \<lparr>tn_Response = PotentialFindingResponse
        \<lparr>pfr_ID = p_id row, pfr_InspectionID = p_inspection_id row,
         pfr_QuestionID = p_question_id row, pfr_Status = status, pfr_Revision = revision\<rparr>,
      tn_OrganizationID = organizationID, tn_Action = action, tn_EntityType = ''potential_finding'',
      tn_EntityID = p_id row, tn_EntityVersion = revision, tn_BeforeStatus = before,
      tn_AfterStatus = potential_status_text status, tn_Reason = reason, tn_ClosureBasis = '''',
      tn_SyncKind = ''potential_finding'', tn_OutboxTopic = action\<rparr>"

definition CreatePotentialFinding_handler :: "Env \<Rightarrow> Principal \<Rightarrow> CreatePotentialFindingCommand \<Rightarrow> string list \<Rightarrow> handler" where
  "CreatePotentialFinding_handler env actor command attachmentIDs db =
     (if \<not> HasRole actor [RoleInspector] \<or> SubjectID actor = ''''
      then Inl (AppError ErrForbidden ''Inspector role required'')
      else if blank (pf_Title command) \<or> blank (pf_Description command) \<or> blank (pf_CommentToAuditee command)
      then Inl (AppError ErrInvalid ''title, description, and Comment to Auditee are required'')
      else (case potential_context command actor db of
        None \<Rightarrow> Inl (AppError ErrForbidden ''response is outside the Inspector assignment'')
      | Some (response, inspection) \<Rightarrow>
        if cr_revision response \<noteq> pf_ExpectedChecklistResponseRevision command
        then Inl (AppError ErrConflict ''stale checklist response revision'')
        else if cr_response_value response \<noteq> ''NON_COMPLIANT'' \<and> cr_response_value response \<noteq> ''OBSERVATION''
        then Inl (AppError ErrConflict ''response does not support a Potential Finding'')
        else
        let existing = latest_potential (pf_ChecklistResponseID command) db in
        if existing \<noteq> None \<and> p_status (the existing) \<noteq> PStatusReturned
        then Inl (AppError ErrConflict ''checklist response already has an active Potential Finding'')
        else check_error (map_option (AppError ErrForbidden) (ValidatePotentialFindingContext
            \<lparr>pc_AuditID = pf_InspectionID command, pc_QuestionAuditID = cr_inspection_id response,
             pc_ResponseAuditID = cr_inspection_id response, pc_QuestionID = pf_QuestionID command,
             pc_ResponseQuestionID = cr_question_id response,
             pc_AssignedInspectorUserID = cr_assigned_inspector_subject_id response\<rparr> actor))
        (if attachmentIDs \<noteq> [] \<and>
            length (filter (attachment_in_context command attachmentIDs (in_organization_id inspection)
               (SubjectID actor)) (inspection_attachments db)) \<noteq> length attachmentIDs
         then Inl (AppError ErrForbidden ''Inspection Attachment is outside the exact response context'')
         else
         let row = CreatePotential_row env actor command (in_organization_id inspection)
               (map_option p_id existing) in
         bind_result (insert_row ''create Potential Finding'' (potential_conflict row (potential_findings db))
            row (potential_findings db)) (\<lambda>rows.
         bind_result (link_attachments (p_id row) attachmentIDs (db\<lparr>potential_findings := rows\<rparr>)) (\<lambda>db'.
         Inr (db', PotentialFinding_result row ''potential_finding.created'' ''''
                (in_organization_id inspection) PStatusPendingLeadReview 1 ''''))))))"

definition CreatePotentialFinding_envelope :: "CreatePotentialFindingCommand \<Rightarrow> string list \<Rightarrow> commandEnvelope" where
  "CreatePotentialFinding_envelope command attachmentIDs =
     \<lparr>ce_OperationID = pf_OperationID command, ce_IdempotencyKey = '''',
      ce_CorrelationID = pf_CorrelationID command, ce_Kind = ''create_potential_finding'',
      ce_EntityID = pf_ChecklistResponseID command,
      ce_Semantic = CreatePotentialSemantic (pf_InspectionID command) (pf_QuestionID command)
        (pf_ChecklistResponseID command) (pf_ExpectedChecklistResponseRevision command)
        (TrimSpace (pf_Title command)) (TrimSpace (pf_Description command))
        (TrimSpace (pf_CommentToAuditee command)) (TrimSpace (pf_InternalCAANote command))
        (TrimSpace (pf_ExpectedEvidence command)) attachmentIDs\<rparr>"

definition CreatePotentialFinding :: "Env \<Rightarrow> Principal \<Rightarrow> CreatePotentialFindingCommand \<Rightarrow> DB \<Rightarrow>
    app_error + (DB \<times> Response)" where
  "CreatePotentialFinding env actor command db =
     bind_result (wrap_error ErrInvalid (normalizedUniqueIDs (pf_InspectionAttachmentIDs command)))
       (\<lambda>attachmentIDs. executeTransition env actor (CreatePotentialFinding_envelope command attachmentIDs)
          (CreatePotentialFinding_handler env actor command attachmentIDs) db)"

section \<open>DecidePotentialFinding\<close>

definition DecidePotential_row :: "Env \<Rightarrow> Principal \<Rightarrow> DecidePotentialFindingCommand \<Rightarrow> ReviewDecisionRow" where
  "DecidePotential_row env actor command =
     \<lparr>v_id = env_new_id env ''review-decision'', v_entity_type = ''potential_finding'',
      v_entity_id = dp_PotentialFindingID command, v_expected_revision = dp_ExpectedRevision command,
      v_decision = PotentialDecisionText (dp_Decision command),
      v_reason = Some (TrimSpace (dp_Reason command)), v_comment_to_auditee = None,
      v_internal_caa_note = Some (TrimSpace (dp_Reason command)),
      v_decided_by_subject_id = SubjectID actor, v_decided_at = env_clock env 0\<rparr>"

definition DecidePotential_update :: "Env \<Rightarrow> PotentialDecideResult \<Rightarrow> PotentialFinding \<Rightarrow> PotentialFinding" where
  "DecidePotential_update env decision p =
     p\<lparr>p_status := pdr_Status decision, p_revision := pdr_Revision decision,
       p_updated_at := env_clock env 0\<rparr>"

definition DecidePotentialFinding_handler :: "Env \<Rightarrow> Principal \<Rightarrow> DecidePotentialFindingCommand \<Rightarrow> handler" where
  "DecidePotentialFinding_handler env actor command db =
     (if \<not> HasRole actor [RoleLeadInspector]
      then Inl (AppError ErrForbidden ''Lead Inspector role required'')
      else if dp_Decision command = PDecisionConvert
      then Inl (AppError ErrInvalid ''conversion requires explicit severity command'')
      else (case lookup p_id (dp_PotentialFindingID command) (potential_findings db) of
        None \<Rightarrow> Inl (AppError ErrNotFound '''')
      | Some pending \<Rightarrow>
        check_error (requireLeadInspectorAuthority actor (p_inspection_id pending) db)
        (bind_result (wrap_error ErrConflict (potentialfindings_Decide
            \<lparr>pd_Actor = actor, pd_Status = p_status pending, pd_Revision = p_revision pending,
             pd_ExpectedRevision = dp_ExpectedRevision command, pd_Decision = dp_Decision command,
             pd_Reason = TrimSpace (dp_Reason command), pd_Severity = SeverityNone\<rparr>)) (\<lambda>decision.
         bind_result (update_potential_finding ''record Potential Finding decision''
            (dp_PotentialFindingID command) (DecidePotential_update env decision) db) (\<lambda>db1.
         bind_result (insert_review_decision ''append Potential Finding decision''
            (DecidePotential_row env actor command) db1) (\<lambda>db2.
         Inr (db2, PotentialFinding_result pending ''potential_finding.decided''
                (potential_status_text (p_status pending)) (p_organization_id pending)
                (pdr_Status decision) (pdr_Revision decision) (TrimSpace (dp_Reason command))))))))) "

definition DecidePotentialFinding_envelope :: "DecidePotentialFindingCommand \<Rightarrow> commandEnvelope" where
  "DecidePotentialFinding_envelope command =
     \<lparr>ce_OperationID = dp_OperationID command, ce_IdempotencyKey = '''',
      ce_CorrelationID = dp_CorrelationID command, ce_Kind = ''decide_potential_finding'',
      ce_EntityID = dp_PotentialFindingID command,
      ce_Semantic = DecidePotentialSemantic (dp_ExpectedRevision command) (dp_Decision command)
        (TrimSpace (dp_Reason command))\<rparr>"

definition DecidePotentialFinding :: "Env \<Rightarrow> Principal \<Rightarrow> DecidePotentialFindingCommand \<Rightarrow> DB \<Rightarrow>
    app_error + (DB \<times> Response)" where
  "DecidePotentialFinding env actor command =
     executeTransition env actor (DecidePotentialFinding_envelope command)
       (DecidePotentialFinding_handler env actor command)"

section \<open>StartInspection\<close>

text \<open>The joined row of the inspection, its assignment and its checklist.\<close>

definition start_context :: "string \<Rightarrow> DB \<Rightarrow> (AuditAssignment \<times> Inspection \<times> InspectionChecklist) option" where
  "start_context inspectionID db =
     (case find (\<lambda>i. in_id i = inspectionID \<and> in_tombstoned_at i = None) (inspections db) of
        None \<Rightarrow> None
      | Some inspection \<Rightarrow>
        (case find (\<lambda>a. aa_inspection_id a = Some inspectionID \<and> aa_tombstoned_at a = None)
               (audit_assignments db) of
          None \<Rightarrow> None
        | Some assignment \<Rightarrow>
          (case lookup k_inspection_id inspectionID (inspection_checklists db) of
             None \<Rightarrow> None | Some checklist \<Rightarrow> Some (assignment, inspection, checklist))))"

definition assigned_inspector :: "string \<Rightarrow> string \<Rightarrow> DB \<Rightarrow> bool" where
  "assigned_inspector inspectionID subject db \<longleftrightarrow>
     list_ex (\<lambda>q. qa_inspection_id q = inspectionID \<and> qa_subject_id q = subject) (question_assignments db) \<and>
     current_team_member inspectionID subject db"

definition Start_inspection_update :: "Env \<Rightarrow> Inspection \<Rightarrow> Inspection" where
  "Start_inspection_update env i =
     i\<lparr>in_status := ''IN_PROGRESS'', in_revision := in_revision i + 1, in_updated_at := env_clock env 0\<rparr>"

definition Start_checklist_update :: "InspectionChecklist \<Rightarrow> InspectionChecklist" where
  "Start_checklist_update k = k\<lparr>k_status := KStatusInProgress, k_revision := k_revision k + 1\<rparr>"

definition Start_assignment_update :: "Env \<Rightarrow> AuditAssignment \<Rightarrow> AuditAssignment" where
  "Start_assignment_update env a =
     a\<lparr>aa_status := ''READY'', aa_revision := aa_revision a + 1, aa_updated_at := env_clock env 0\<rparr>"

text \<open>
  The three guarded \<open>UPDATE\<close> statements. Each repeats in its \<open>WHERE\<close> clause what the locked row was
  read with, so it affects exactly one row; adding one to the greatest \<open>bigint\<close> is an error.
\<close>

definition start_updates :: "Env \<Rightarrow> StartInspectionCommand \<Rightarrow> AuditAssignment \<Rightarrow> Inspection \<Rightarrow>
    InspectionChecklist \<Rightarrow> DB \<Rightarrow> app_error + DB" where
  "start_updates env command assignment inspection checklist db =
     (if sint (in_revision inspection + 1) \<le> 0 \<or> sint (k_revision checklist + 1) \<le> 0 \<or>
         sint (aa_revision assignment + 1) \<le> 0
      then Inl (AppError ErrInternal ''bigint out of range'')
      else Inr (db\<lparr>inspections := modify in_id (in_id inspection) (Start_inspection_update env) (inspections db),
        inspection_checklists :=
          modify k_inspection_id (k_inspection_id checklist) Start_checklist_update (inspection_checklists db),
        audit_assignments :=
          modify aa_id (aa_id assignment) (Start_assignment_update env) (audit_assignments db)\<rparr>))"

definition Start_result :: "Env \<Rightarrow> StartInspectionCommand \<Rightarrow> AuditAssignment \<Rightarrow> Inspection \<Rightarrow>
    InspectionChecklist \<Rightarrow> transition" where
  "Start_result env command assignment inspection checklist =
     \<lparr>tn_Response = StartedInspectionResponse
        \<lparr>sti_InspectionID = si_InspectionID command, sti_AssignmentID = aa_id assignment,
         sti_InspectionStatus = ''IN_PROGRESS'', sti_AssignmentStatus = ''READY'',
         sti_InspectionRevision = in_revision inspection + 1,
         sti_ChecklistRevision = k_revision checklist + 1, sti_StartedAt = env_clock env 0\<rparr>,
      tn_OrganizationID = in_organization_id inspection, tn_Action = ''inspection.started'',
      tn_EntityType = ''inspection'', tn_EntityID = si_InspectionID command,
      tn_EntityVersion = in_revision inspection + 1, tn_BeforeStatus = in_status inspection,
      tn_AfterStatus = ''IN_PROGRESS'',
      tn_Reason = ''Inspector start opened the separately authorized execution window.'',
      tn_ClosureBasis = '''', tn_SyncKind = ''inspection'', tn_OutboxTopic = ''inspection.started''\<rparr>"

definition StartInspection_handler :: "Env \<Rightarrow> Principal \<Rightarrow> StartInspectionCommand \<Rightarrow> handler" where
  "StartInspection_handler env actor command db =
     (if \<not> HasRole actor [RoleInspector] \<or> SubjectID actor = ''''
      then Inl (AppError ErrForbidden ''assigned Inspector role required'')
      else if sint (si_ExpectedInspectionRevision command) \<le> 0 \<or> si_InspectionID command = ''''
      then Inl (AppError ErrInvalid '''')
      else (case start_context (si_InspectionID command) db of
        None \<Rightarrow> Inl (AppError ErrNotFound '''')
      | Some (assignment, inspection, checklist) \<Rightarrow>
        if \<not> assigned_inspector (si_InspectionID command) (SubjectID actor) db
        then Inl (AppError ErrForbidden ''Inspector is not assigned to this Audit'')
        else if in_revision inspection \<noteq> si_ExpectedInspectionRevision command \<or>
                in_status inspection \<noteq> ''SCHEDULED'' \<or> k_status checklist \<noteq> KStatusNotStarted
        then Inl (AppError ErrConflict '''')
        else if aa_status assignment \<noteq> ''CONFIRMED'' \<and> aa_status assignment \<noteq> ''SCHEDULED''
        then Inl (AppError ErrConflict '''')
        else (case latest_package (si_InspectionID command) db of
          None \<Rightarrow> Inl (AppError ErrNotFound '''')
        | Some package \<Rightarrow>
          if package_unusable (env_clock env 0) package
          then Inl (AppError ErrConflict ''inspection package is expired or withdrawn'')
          else if canonical_snapshot_missing package
          then Inl (AppError ErrConflict
            ''canonical released-scope package is required before Inspector start'')
          else bind_result (start_updates env command assignment inspection checklist db) (\<lambda>db'.
            Inr (db', Start_result env command assignment inspection checklist)))))"

definition StartInspection_envelope :: "StartInspectionCommand \<Rightarrow> string \<Rightarrow> commandEnvelope" where
  "StartInspection_envelope command correlationID =
     \<lparr>ce_OperationID = si_OperationID command, ce_IdempotencyKey = '''',
      ce_CorrelationID = correlationID, ce_Kind = ''start_inspection'',
      ce_EntityID = si_InspectionID command,
      ce_Semantic = StartInspectionSemantic (si_ExpectedInspectionRevision command)\<rparr>"

text \<open>
  \<open>fresh\<close> is \<open>uuid.NewString\<close> and \<open>parses\<close> is \<open>uuid.Parse\<close>, of \<open>github.com/google/uuid\<close>.
\<close>

definition StartInspection :: "(string \<Rightarrow> bool) \<Rightarrow> string \<Rightarrow> Env \<Rightarrow> Principal \<Rightarrow> StartInspectionCommand \<Rightarrow> DB \<Rightarrow>
    app_error + (DB \<times> Response)" where
  "StartInspection parses fresh env actor command db =
     (if si_CorrelationID command = ''''
      then executeTransition env actor (StartInspection_envelope command fresh)
        (StartInspection_handler env actor command) db
      else if \<not> parses (si_CorrelationID command)
      then Inl (AppError ErrInvalid ''correlation ID must be a UUID'')
      else executeTransition env actor (StartInspection_envelope command (si_CorrelationID command))
        (StartInspection_handler env actor command) db)"

end
