(* ===== verification/ReportWorkflow.thy ===== *)
theory ReportWorkflow
  imports FieldWorkflow
begin

text \<open>
  The approval of a report version: \<open>DecideReport\<close> of \<open>internal/application/service.go\<close> and
  \<open>NewReportRenderSource\<close> of \<open>internal/documents/report_content.go\<close>. The long guard of the handler is
  split along the comments of the code: the report family, the immutable narrative, the Finding set
  and the preconditions of a Final Report.
\<close>

section \<open>Guards\<close>

text \<open>\<open>COALESCE(snapshot->>'kind', '')\<close>, which is also the decoded Go field.\<close>

definition snapshot_kind :: "ReportSnapshot \<Rightarrow> ReportKind" where
  "snapshot_kind snapshot = (case rs_kind snapshot of None \<Rightarrow> KindOther '''' | Some k \<Rightarrow> k)"

definition family :: "string \<Rightarrow> DB \<Rightarrow> ReportVersion list" where
  "family reportID db = filter (\<lambda>r. rv_report_id r = reportID) (report_versions db)"

text \<open>The version is the latest of its family, its snapshot decodes and the family has one kind.\<close>

definition family_guard :: "ReportVersion \<Rightarrow> DB \<Rightarrow> app_error option" where
  "family_guard version db =
     (if list_ex (\<lambda>r. sint (rv_version version) < sint (rv_version r)) (family (rv_report_id version) db)
      then Some (AppError ErrConflict ''report decision must bind the latest immutable family version'')
      else if \<not> rs_decodes (rv_snapshot version)
      then Some (AppError ErrInvalid ''decode report snapshot'')
      else if list_ex (\<lambda>r. report_kind_text (snapshot_kind (rv_snapshot r)) \<noteq>
                report_kind_text (snapshot_kind (rv_snapshot version))) (family (rv_report_id version) db)
      then Some (AppError ErrConflict
        ''Preliminary and Final Report families cannot share one report identity'')
      else None)"

text \<open>The snapshot is prepared, its narrative valid and its hash that of the normalised narrative.\<close>

definition narrative_guard :: "Env \<Rightarrow> ReportVersion \<Rightarrow> app_error + ReportContent" where
  "narrative_guard env version =
     (let snapshot = rv_snapshot version in
      bind_result (wrap_error ErrConflict (Prepare
        \<lparr>pi_ReportID = rv_report_id version, pi_Kind = snapshot_kind snapshot,
         pi_Version = rv_version version, pi_FindingIDs = rs_finding_ids snapshot,
         pi_ContentHash = rs_content_hash snapshot, pi_Ready = rs_ready snapshot\<rparr>)) (\<lambda>_.
      bind_result (wrap_error ErrConflict
        (ValidateReportContent (env_parse_tag env) (env_nfc env) (rs_content snapshot))) (\<lambda>content.
      if env_content_digest env content \<noteq> rs_content_hash snapshot
      then Inl (AppError ErrConflict ''report content hash does not match the immutable narrative'')
      else Inr content)))"

definition organization_guard :: "ReportVersion \<Rightarrow> Inspection \<Rightarrow> DB \<Rightarrow> app_error option" where
  "organization_guard version inspection db =
     (if list_ex (\<lambda>r. list_ex (\<lambda>i. in_id i = rv_inspection_id r \<and>
               in_organization_id i \<noteq> in_organization_id inspection) (inspections db))
           (family (rv_report_id version) db)
      then Some (AppError ErrConflict
        ''report family organization cannot change between immutable versions'')
      else None)"

definition linked_findings :: "string \<Rightarrow> string list \<Rightarrow> DB \<Rightarrow> Finding list" where
  "linked_findings inspectionID ids db =
     filter (\<lambda>f. f_inspection_id f = inspectionID \<and> f_id f \<in> set ids) (findings db)"

definition finding_set_guard :: "ReportVersion \<Rightarrow> Inspection \<Rightarrow> DB \<Rightarrow> app_error option" where
  "finding_set_guard version inspection db =
     (let ids = rs_finding_ids (rv_snapshot version); inspectionID = rv_inspection_id version;
          linked = length (linked_findings inspectionID ids db) in
      if ids \<noteq> [] \<and>
         length (filter (\<lambda>f. f_id f \<in> set ids \<and> f_organization_id f = in_organization_id inspection \<and>
           f_inspection_id f = inspectionID) (findings db)) \<noteq> length ids
      then Some (AppError ErrConflict
        ''report Finding identities must belong to the exact Audit organization'')
      else if linked \<noteq> length (filter (\<lambda>f. f_inspection_id f = inspectionID) (findings db)) \<or>
              linked \<noteq> length ids
      then Some (AppError ErrConflict
        ''report must link the exact immutable Finding set for this Audit'')
      else None)"

definition final_guard :: "ReportVersion \<Rightarrow> DB \<Rightarrow> app_error option" where
  "final_guard version db =
     (if snapshot_kind (rv_snapshot version) = KindFinal
      then (if \<not> PreliminaryIssued (rv_inspection_id version) db
            then Some (AppError ErrConflict
              ''Preliminary Report must be approved and issued before Final Report'')
            else if list_ex (\<lambda>f. f_inspection_id f = rv_inspection_id version \<and> f_status f \<noteq> FStatusClosed)
                   (findings db)
            then Some (AppError ErrConflict
              ''all Findings must complete CAP, Evidence, verification, and closure before Final Report'')
            else None)
      else None)"

definition department_guard :: "Env \<Rightarrow> Principal \<Rightarrow> ReportVersion \<Rightarrow> DB \<Rightarrow> app_error option" where
  "department_guard env actor version db =
     (if HasRole actor [RoleDepartmentManager]
      then requireCurrentDepartmentScopeAuthority (scope_tables db) (audit_assignments db)
             (env_today env) actor '''' (rv_inspection_id version)
      else None)"

section \<open>Effects\<close>

definition update_approval :: "string \<Rightarrow> (ReportApprovalState \<Rightarrow> ReportApprovalState) \<Rightarrow> DB \<Rightarrow> app_error + DB" where
  "update_approval reportVersionID g db =
     (if list_ex (\<lambda>a. ra_report_version_id a = reportVersionID \<and> sint (ra_revision (g a)) \<le> 0)
           (report_approval_states db)
      then Inl (AppError ErrInternal ''update report_approval_states'')
      else Inr (db\<lparr>report_approval_states :=
        modify ra_report_version_id reportVersionID g (report_approval_states db)\<rparr>))"

definition Approval_update :: "Env \<Rightarrow> ReportStatus \<Rightarrow> i64 \<Rightarrow> ReportApprovalState \<Rightarrow> ReportApprovalState" where
  "Approval_update env status revision a =
     a\<lparr>ra_status := status, ra_revision := revision,
       ra_issued_at := (if status = RStatusLocked then Some (env_clock env 0) else None),
       ra_updated_at := env_clock env 1\<rparr>"

definition ReportDecision_row :: "Env \<Rightarrow> Principal \<Rightarrow> DecideReportCommand \<Rightarrow> ReportDecisionRow" where
  "ReportDecision_row env actor command =
     \<lparr>rdr_id = env_new_id env ''report-decision'', rdr_report_version_id = dc_ReportVersionID command,
      rdr_expected_version = dc_ExpectedRevision command, rdr_decision = dc_Decision command,
      rdr_reason = null_if_empty (dc_Reason command), rdr_decided_by_subject_id = SubjectID actor,
      rdr_decided_at = env_clock env 2\<rparr>"

text \<open>\<open>report_decisions.expected_version\<close> is a 32-bit column, unlike the revision it records.\<close>

definition insert_report_decision :: "ReportDecisionRow \<Rightarrow> DB \<Rightarrow> app_error + DB" where
  "insert_report_decision row db =
     bind_result (insert_row ''insert report_decisions''
       (\<not> (- (2 ^ 31) \<le> sint (rdr_expected_version row) \<and> sint (rdr_expected_version row) < 2 ^ 31) \<or>
        list_ex (\<lambda>d. rdr_id d = rdr_id row) (report_decisions db)) row (report_decisions db))
       (\<lambda>rows. Inr (db\<lparr>report_decisions := rows\<rparr>))"

text \<open>\<open>NewReportRenderSource\<close>: the hash of the encoded source, or an error.\<close>

definition NewReportRenderSource :: "Env \<Rightarrow> string \<Rightarrow> string \<Rightarrow> string \<Rightarrow> string \<Rightarrow> i64 \<Rightarrow> string \<Rightarrow> ReportContent \<Rightarrow>
    go_error + string" where
  "NewReportRenderSource env reportVersionID reportID organizationID auditID version actorSubjectID content =
     (if blank reportVersionID \<or> blank reportID \<or> blank organizationID \<or> blank auditID \<or>
         blank actorSubjectID \<or> sint version \<le> 0
      then Inl ''complete immutable report render identity is required''
      else bind_result (ValidateReportContent (env_parse_tag env) (env_nfc env) content) (\<lambda>normalized.
        case env_source_hash env (TrimSpace reportVersionID) (TrimSpace reportID) (TrimSpace organizationID)
               (TrimSpace auditID) version (TrimSpace actorSubjectID) normalized of
          None \<Rightarrow> Inl ''report render source exceeds bounded size''
        | Some h \<Rightarrow> Inr h))"

definition documentID :: "ReportVersion \<Rightarrow> string" where
  "documentID version = ''report-document:'' @ rv_report_id version"

definition render_job :: "Env \<Rightarrow> DecideReportCommand \<Rightarrow> ReportVersion \<Rightarrow> string \<Rightarrow> ReportContent \<Rightarrow> DocumentRenderJob" where
  "render_job env command version organizationID content =
     \<lparr>dj_id = env_new_id env ''document-render-job'', dj_document_id = documentID version,
      dj_organization_id = organizationID, dj_requested_version = rv_version version,
      dj_idempotency_key = ''report-render:'' @ dc_ReportVersionID command, dj_content = content\<rparr>"

definition render_message :: "Env \<Rightarrow> DecideReportCommand \<Rightarrow> ReportVersion \<Rightarrow> string \<Rightarrow> OutboxMessage" where
  "render_message env command version sourceHash =
     \<lparr>o_id = env_new_id env ''document-render-outbox'', o_topic = ''document.render_requested'',
      o_aggregate_type = ''report_version'', o_aggregate_id = dc_ReportVersionID command,
      o_payload = RenderPayload
        \<lparr>rq_reportVersionId = dc_ReportVersionID command, rq_documentId = documentID version,
         rq_renderJobId = env_new_id env ''document-render-job'',
         rq_requestedVersion = rv_version version, rq_sourceHash = sourceHash\<rparr>,
      o_available_at = env_clock env 3,
      o_idempotency_key = Some (''document.render_requested:'' @ dc_ReportVersionID command),
      o_operation_id = Some (dc_OperationID command), o_correlation_id = Some (dc_CorrelationID command),
      o_lease_owner = None, o_lease_expires_at = None, o_claimed_at = None, o_delivered_at = None,
      o_terminal_state = None, o_attempt_count = 0, o_last_error = None, o_created_at = env_now env\<rparr>"

text \<open>\<open>INSERT ... ON CONFLICT (...) DO NOTHING\<close>; another violated constraint is an error.\<close>

definition insert_or_ignore :: "string \<Rightarrow> bool \<Rightarrow> bool \<Rightarrow> 'r \<Rightarrow> 'r list \<Rightarrow> app_error + 'r list" where
  "insert_or_ignore context conflict violates row rows =
     (if conflict then Inr rows else insert_row context violates row rows)"

definition queue_render :: "Env \<Rightarrow> DecideReportCommand \<Rightarrow> ReportVersion \<Rightarrow> string \<Rightarrow> ReportContent \<Rightarrow> string \<Rightarrow> DB \<Rightarrow>
    app_error + DB" where
  "queue_render env command version organizationID content sourceHash db =
     (let job = render_job env command version organizationID content;
          message = render_message env command version sourceHash;
          outbox = l_outbox (ledger db) in
      bind_result (insert_or_ignore ''queue Report document render job''
        (list_ex (\<lambda>j. dj_idempotency_key j = dj_idempotency_key job) (document_render_jobs db))
        (list_ex (\<lambda>j. dj_id j = dj_id job) (document_render_jobs db)) job (document_render_jobs db)) (\<lambda>jobs.
      bind_result (insert_or_ignore ''enqueue Report document render''
        (list_ex (\<lambda>m. o_idempotency_key m = o_idempotency_key message) outbox)
        (list_ex (\<lambda>m. o_id m = o_id message) outbox) message outbox) (\<lambda>messages.
      Inr (db\<lparr>document_render_jobs := jobs, ledger := (ledger db)\<lparr>l_outbox := messages\<rparr>\<rparr>))))"

definition lock_report :: "Env \<Rightarrow> DecideReportCommand \<Rightarrow> ReportVersion \<Rightarrow> string \<Rightarrow> ReportContent \<Rightarrow> DB \<Rightarrow>
    app_error + DB" where
  "lock_report env command version organizationID content db =
     (let documents = (if lookup dr_id (documentID version) (document_records db) = None
            then document_records db @ [\<lparr>dr_id = documentID version, dr_organization_id = organizationID,
              dr_kind = ''REPORT'', dr_title = ''Report '' @ rv_report_id version\<rparr>]
            else document_records db);
          document = the (lookup dr_id (documentID version) documents);
          creator = rs_created_by_subject (rv_snapshot version) in
      if dr_organization_id document \<noteq> organizationID \<or> dr_kind document \<noteq> ''REPORT''
      then Inl (AppError ErrConflict ''report document identity belongs to another immutable family'')
      else if blank creator
      then Inl (AppError ErrConflict ''immutable report creator is required for rendering'')
      else bind_result (wrap_error ErrConflict (NewReportRenderSource env (dc_ReportVersionID command)
          (rv_report_id version) organizationID (rv_inspection_id version) (rv_version version) creator
          content)) (\<lambda>sourceHash.
        queue_render env command version organizationID content sourceHash
          (db\<lparr>document_records := documents\<rparr>)))"

definition DecideReport_result :: "Env \<Rightarrow> DecideReportCommand \<Rightarrow> string \<Rightarrow> ReportApprovalState \<Rightarrow> ReportStatus \<Rightarrow> transition" where
  "DecideReport_result env command organizationID state status =
     \<lparr>tn_Response = DecideReportResponse
        \<lparr>dcr_ReportVersionID = dc_ReportVersionID command, dcr_Status = status,
         dcr_Revision = ra_revision state + 1,
         dcr_IssuedAt = (if status = RStatusLocked then Some (env_clock env 0) else None)\<rparr>,
      tn_OrganizationID = organizationID, tn_Action = ''report.decision_recorded'',
      tn_EntityType = ''report_version'', tn_EntityID = dc_ReportVersionID command,
      tn_EntityVersion = ra_revision state + 1,
      tn_BeforeStatus = report_status_text (ra_status state),
      tn_AfterStatus = report_status_text status, tn_Reason = dc_Reason command,
      tn_ClosureBasis = '''', tn_SyncKind = ''report_version'',
      tn_OutboxTopic = ''report.decision_recorded''\<rparr>"

section \<open>The handler\<close>

definition DecideReport_handler :: "Env \<Rightarrow> Principal \<Rightarrow> DecideReportCommand \<Rightarrow> handler" where
  "DecideReport_handler env actor command db =
     (case lookup ra_report_version_id (dc_ReportVersionID command) (report_approval_states db) of
        None \<Rightarrow> Inl (AppError ErrNotFound '''')
      | Some state \<Rightarrow>
        (case lookup rv_id (dc_ReportVersionID command) (report_versions db) of
          None \<Rightarrow> Inl (AppError ErrInternal ''no rows in result set'')
        | Some version \<Rightarrow>
          check_error (family_guard version db)
          (bind_result (narrative_guard env version) (\<lambda>content.
          (case lookup in_id (rv_inspection_id version) (inspections db) of
            None \<Rightarrow> Inl (AppError ErrInternal ''no rows in result set'')
          | Some inspection \<Rightarrow>
            check_error (department_guard env actor version db)
            (check_error (organization_guard version inspection db)
            (check_error (finding_set_guard version inspection db)
            (check_error (final_guard version db)
            (bind_result (wrap_error
                (if HasRole actor [RoleDepartmentManager, RoleGeneralManager, RoleExecutiveDirector]
                 then ErrConflict else ErrForbidden)
                (reports_Decide \<lparr>rd_Actor = actor, rd_Status = ra_status state,
                   rd_Version = ra_revision state, rd_ExpectedVersion = dc_ExpectedRevision command,
                   rd_Decision = dc_Decision command, rd_Reason = dc_Reason command\<rparr>)) (\<lambda>status.
             bind_result (update_approval (dc_ReportVersionID command)
                (Approval_update env status (ra_revision state + 1)) db) (\<lambda>db1.
             bind_result (insert_report_decision (ReportDecision_row env actor command) db1) (\<lambda>db2.
             bind_result (if status = RStatusLocked
                then lock_report env command version (in_organization_id inspection) content db2
                else Inr db2) (\<lambda>db3.
             Inr (db3, DecideReport_result env command (in_organization_id inspection) state status))))))))))))))"

definition DecideReport_envelope :: "DecideReportCommand \<Rightarrow> commandEnvelope" where
  "DecideReport_envelope command =
     \<lparr>ce_OperationID = dc_OperationID command, ce_IdempotencyKey = '''',
      ce_CorrelationID = dc_CorrelationID command, ce_Kind = ''decide_report'',
      ce_EntityID = dc_ReportVersionID command,
      ce_Semantic = DecideReportSemantic (dc_ExpectedRevision command) (dc_Decision command)
        (dc_Reason command)\<rparr>"

definition DecideReport :: "Env \<Rightarrow> Principal \<Rightarrow> DecideReportCommand \<Rightarrow> DB \<Rightarrow> app_error + (DB \<times> Response)" where
  "DecideReport env actor command =
     executeTransition env actor (DecideReport_envelope command) (DecideReport_handler env actor command)"

end
