(* ===== verification/FieldLaws.thy ===== *)
theory FieldLaws
  imports ReportWorkflow
begin

text \<open>
  What a successful run of each field-work and report handler has checked and changed, and the
  interpretations of the handler contract on them.
\<close>

lemma update_checklist_Inr [row_simps]:
  "update_checklist context inspectionID g db = Inr db' \<longleftrightarrow>
     (\<forall>k \<in> set (inspection_checklists db). k_inspection_id k = inspectionID \<longrightarrow> 0 < sint (k_revision (g k))) \<and>
     db' = db\<lparr>inspection_checklists := modify k_inspection_id inspectionID g (inspection_checklists db)\<rparr>"
  by (auto simp: update_checklist_def list_ex_iff not_le)

lemma update_approval_Inr [row_simps]:
  "update_approval rid g db = Inr db' \<longleftrightarrow>
     (\<forall>a \<in> set (report_approval_states db). ra_report_version_id a = rid \<longrightarrow> 0 < sint (ra_revision (g a))) \<and>
     db' = db\<lparr>report_approval_states := modify ra_report_version_id rid g (report_approval_states db)\<rparr>"
  by (auto simp: update_approval_def list_ex_iff not_le)

section \<open>Inversion of the handlers\<close>

lemma UpsertChecklistResponse_handler_Inr:
  assumes "UpsertChecklistResponse_handler env actor command db = Inr (db', result)"
  obtains inspection checklist package rows revision existing where
    "response_context command actor db = Some (inspection, checklist, package)"
    "k_status checklist = KStatusInProgress" "\<not> package_unusable (env_clock env 0) package"
    "existing = find (\<lambda>r. cr_inspection_id r = uc_InspectionID command \<and>
       cr_question_id r = uc_QuestionID command) (checklist_responses db)"
    "Upsert_write env actor command existing (checklist_responses db) = Inr (rows, revision)"
    "db' = db\<lparr>checklist_responses := rows\<rparr>"
    "tn_Response result = ChecklistResponseResponse \<lparr>ucr_ResponseID = uc_ResponseID command,
       ucr_InspectionID = uc_InspectionID command, ucr_QuestionID = uc_QuestionID command,
       ucr_Answer = TrimSpace (uc_Answer command), ucr_Revision = revision\<rparr>"
  using assms
  by (auto simp: UpsertChecklistResponse_handler_def Upsert_result_def CanEdit_def Let_def
      bind_result_Inr if_Inl_Inr split: option.splits)

lemma SubmitChecklist_handler_Inr:
  assumes "SubmitChecklist_handler env actor command db = Inr (db', result)"
  obtains checklist inspection decision where
    "checklist_context (sk_InspectionID command) db = Some (checklist, inspection)"
    "submission_blocked env (sk_InspectionID command) db = None"
    "checklists_Submit \<lparr>su_Actor = actor,
       su_AssignedSubjectIDs = assigned_subjects (sk_InspectionID command) db,
       su_Status = k_status checklist, su_Revision = k_revision checklist,
       su_ExpectedRevision = sk_ExpectedChecklistRevision command\<rparr> = Inr decision"
    "db' = db\<lparr>inspection_checklists := modify k_inspection_id (sk_InspectionID command)
       (SubmitChecklist_update env decision) (inspection_checklists db)\<rparr>"
  using assms
  by (auto simp: SubmitChecklist_handler_def Let_def bind_result_Inr check_error_Inr if_Inl_Inr
      update_checklist_Inr split: option.splits)

lemma ReopenChecklist_handler_Inr:
  assumes "ReopenChecklist_handler env actor command db = Inr (db', result)"
  obtains checklist inspection decision where
    "checklist_context (rk_InspectionID command) db = Some (checklist, inspection)"
    "reopen_blocked actor (rk_InspectionID command) db = None"
    "checklists_Reopen \<lparr>ro_Actor = actor, ro_Status = k_status checklist,
       ro_Revision = k_revision checklist, ro_ExpectedRevision = rk_ExpectedChecklistRevision command,
       ro_Reason = TrimSpace (rk_Reason command)\<rparr> = Inr decision"
    "db' = db\<lparr>inspection_checklists := modify k_inspection_id (rk_InspectionID command)
       (ReopenChecklist_update env (TrimSpace (rk_Reason command)) decision) (inspection_checklists db)\<rparr>"
  using assms
  by (auto simp: ReopenChecklist_handler_def bind_result_Inr check_error_Inr if_Inl_Inr
      update_checklist_Inr split: option.splits)

lemma link_attachments_Inr:
  "link_attachments pid ids db = Inr db' \<Longrightarrow>
   \<exists>rows. db' = db\<lparr>inspection_attachments := rows\<rparr>"
  by (cases "ids = []") (auto simp: link_attachments_def split: if_splits
      intro: exI [of _ "inspection_attachments db"])

lemma CreatePotentialFinding_handler_Inr:
  assumes "CreatePotentialFinding_handler env actor command ids db = Inr (db', result)"
  obtains response inspection row attachments where
    "potential_context command actor db = Some (response, inspection)"
    "cr_revision response = pf_ExpectedChecklistResponseRevision command"
    "cr_response_value response = ''NON_COMPLIANT'' \<or> cr_response_value response = ''OBSERVATION''"
    "\<forall>p. latest_potential (pf_ChecklistResponseID command) db = Some p \<longrightarrow> p_status p = PStatusReturned"
    "cr_assigned_inspector_subject_id response = SubjectID actor"
    "row = CreatePotential_row env actor command (in_organization_id inspection)
       (map_option p_id (latest_potential (pf_ChecklistResponseID command) db))"
    "\<not> potential_conflict row (potential_findings db)"
    "db' = db\<lparr>potential_findings := potential_findings db @ [row], inspection_attachments := attachments\<rparr>"
proof -
  from assms obtain response inspection where ctx: "potential_context command actor db = Some (response, inspection)"
    by (auto simp: CreatePotentialFinding_handler_def split: if_splits option.splits)
  let ?row = "CreatePotential_row env actor command (in_organization_id inspection)
       (map_option p_id (latest_potential (pf_ChecklistResponseID command) db))"
  from assms ctx have v: "cr_revision response = pf_ExpectedChecklistResponseRevision command"
    "cr_response_value response = ''NON_COMPLIANT'' \<or> cr_response_value response = ''OBSERVATION''"
    "\<forall>p. latest_potential (pf_ChecklistResponseID command) db = Some p \<longrightarrow> p_status p = PStatusReturned"
    "ValidatePotentialFindingContext \<lparr>pc_AuditID = pf_InspectionID command,
       pc_QuestionAuditID = cr_inspection_id response, pc_ResponseAuditID = cr_inspection_id response,
       pc_QuestionID = pf_QuestionID command, pc_ResponseQuestionID = cr_question_id response,
       pc_AssignedInspectorUserID = cr_assigned_inspector_subject_id response\<rparr> actor = None"
    "\<not> potential_conflict ?row (potential_findings db)"
    and l: "link_attachments (p_id ?row) ids (db\<lparr>potential_findings := potential_findings db @ [?row]\<rparr>) = Inr db'"
    by (auto simp: CreatePotentialFinding_handler_def Let_def bind_result_Inr check_error_Inr if_Inl_Inr
        insert_row_Inr)
  from link_attachments_Inr [OF l] obtain attachments where
    "db' = db\<lparr>potential_findings := potential_findings db @ [?row], inspection_attachments := attachments\<rparr>"
    by auto
  with ctx v that [of response inspection ?row attachments] show thesis
    by (auto simp: ValidatePotentialFindingContext_def split: if_splits)
qed

lemma DecidePotentialFinding_handler_Inr:
  assumes "DecidePotentialFinding_handler env actor command db = Inr (db', result)"
  obtains pending decision where
    "lookup p_id (dp_PotentialFindingID command) (potential_findings db) = Some pending"
    "dp_Decision command \<noteq> PDecisionConvert"
    "requireLeadInspectorAuthority actor (p_inspection_id pending) db = None"
    "potentialfindings_Decide \<lparr>pd_Actor = actor, pd_Status = p_status pending,
       pd_Revision = p_revision pending, pd_ExpectedRevision = dp_ExpectedRevision command,
       pd_Decision = dp_Decision command, pd_Reason = TrimSpace (dp_Reason command),
       pd_Severity = SeverityNone\<rparr> = Inr decision"
    "db' = db\<lparr>potential_findings := modify p_id (dp_PotentialFindingID command)
         (DecidePotential_update env decision) (potential_findings db),
       review_decisions := review_decisions db @ [DecidePotential_row env actor command]\<rparr>"
  using assms
  by (auto simp: DecidePotentialFinding_handler_def bind_result_Inr check_error_Inr if_Inl_Inr
      update_potential_finding_Inr insert_review_decision_Inr split: option.splits)

lemma StartInspection_handler_Inr:
  assumes "StartInspection_handler env actor command db = Inr (db', result)"
  obtains assignment inspection checklist where
    "start_context (si_InspectionID command) db = Some (assignment, inspection, checklist)"
    "assigned_inspector (si_InspectionID command) (SubjectID actor) db"
    "in_status inspection = ''SCHEDULED''" "k_status checklist = KStatusNotStarted"
    "db' = db\<lparr>inspections := modify in_id (in_id inspection) (Start_inspection_update env) (inspections db),
        inspection_checklists :=
          modify k_inspection_id (k_inspection_id checklist) Start_checklist_update (inspection_checklists db),
        audit_assignments :=
          modify aa_id (aa_id assignment) (Start_assignment_update env) (audit_assignments db)\<rparr>"
  using assms
  by (auto simp: StartInspection_handler_def start_updates_def bind_result_Inr if_Inl_Inr
      split: option.splits)

section \<open>DecideReport\<close>

lemma insert_or_ignore_Inr:
  "insert_or_ignore context conflict violates row rows = Inr rows' \<longleftrightarrow>
     (if conflict then rows' = rows else \<not> violates \<and> rows' = rows @ [row])"
  by (auto simp: insert_or_ignore_def insert_row_Inr)

lemma queue_render_Inr:
  assumes "queue_render env command version org content h db = Inr db'"
  shows "\<exists>jobs l. db' = db\<lparr>document_render_jobs := jobs, ledger := l\<rparr> \<and> keeps_ledger (ledger db) l"
proof -
  from assms obtain jobs messages message where
    m: "insert_or_ignore ''enqueue Report document render''
        (list_ex (\<lambda>m. o_idempotency_key m = o_idempotency_key message) (l_outbox (ledger db)))
        (list_ex (\<lambda>m. o_id m = o_id message) (l_outbox (ledger db))) message (l_outbox (ledger db)) = Inr messages"
    and d: "db' = db\<lparr>document_render_jobs := jobs, ledger := (ledger db)\<lparr>l_outbox := messages\<rparr>\<rparr>"
    by (auto simp: queue_render_def Let_def bind_result_Inr)
  from m have "keeps_ledger (ledger db) ((ledger db)\<lparr>l_outbox := messages\<rparr>)"
    by (auto simp: insert_or_ignore_Inr keeps_ledger_def list_ex_iff split: if_splits)
  with d show ?thesis by blast
qed

lemma lock_report_Inr:
  assumes "lock_report env command version org content db = Inr db'"
  shows "\<exists>docs jobs l. db' = db\<lparr>document_records := docs, document_render_jobs := jobs, ledger := l\<rparr> \<and>
      keeps_ledger (ledger db) l"
proof -
  from assms obtain docs h where
    "queue_render env command version org content h (db\<lparr>document_records := docs\<rparr>) = Inr db'"
    unfolding lock_report_def Let_def bind_result_Inr if_Inl_Inr by metis
  from queue_render_Inr [OF this] show ?thesis by auto
qed

lemma maybe_lock_report:
  assumes "(if b then lock_report env command version org content db else Inr db) = Inr db'"
  shows "\<exists>docs jobs l. db' = db\<lparr>document_records := docs, document_render_jobs := jobs, ledger := l\<rparr> \<and>
      keeps_ledger (ledger db) l"
proof (cases b)
  case False
  with assms have "db' = db\<lparr>document_records := document_records db,
      document_render_jobs := document_render_jobs db, ledger := ledger db\<rparr>" by simp
  then show ?thesis by blast
qed (use assms lock_report_Inr in auto)

lemma DecideReport_handler_Inr:
  assumes "DecideReport_handler env actor command db = Inr (db', result)"
  obtains state version content inspection status docs jobs l where
    "lookup ra_report_version_id (dc_ReportVersionID command) (report_approval_states db) = Some state"
    "lookup rv_id (dc_ReportVersionID command) (report_versions db) = Some version"
    "lookup in_id (rv_inspection_id version) (inspections db) = Some inspection"
    "narrative_guard env version = Inr content" "final_guard version db = None"
    "family_guard version db = None" "finding_set_guard version inspection db = None"
    "reports_Decide \<lparr>rd_Actor = actor, rd_Status = ra_status state, rd_Version = ra_revision state,
       rd_ExpectedVersion = dc_ExpectedRevision command, rd_Decision = dc_Decision command,
       rd_Reason = dc_Reason command\<rparr> = Inr status"
    "db' = db\<lparr>report_approval_states := modify ra_report_version_id (dc_ReportVersionID command)
         (Approval_update env status (ra_revision state + 1)) (report_approval_states db),
       report_decisions := report_decisions db @ [ReportDecision_row env actor command],
       document_records := docs, document_render_jobs := jobs, ledger := l\<rparr>"
    "keeps_ledger (ledger db) l"
    "result = DecideReport_result env command (in_organization_id inspection) state status"
proof -
  from assms obtain state version content inspection status db1 db2 where
    v: "lookup ra_report_version_id (dc_ReportVersionID command) (report_approval_states db) = Some state"
    "lookup rv_id (dc_ReportVersionID command) (report_versions db) = Some version"
    "lookup in_id (rv_inspection_id version) (inspections db) = Some inspection"
    "narrative_guard env version = Inr content" "final_guard version db = None"
    "family_guard version db = None" "finding_set_guard version inspection db = None"
    "reports_Decide \<lparr>rd_Actor = actor, rd_Status = ra_status state, rd_Version = ra_revision state,
       rd_ExpectedVersion = dc_ExpectedRevision command, rd_Decision = dc_Decision command,
       rd_Reason = dc_Reason command\<rparr> = Inr status"
    and d1: "update_approval (dc_ReportVersionID command)
       (Approval_update env status (ra_revision state + 1)) db = Inr db1"
    and d2: "insert_report_decision (ReportDecision_row env actor command) db1 = Inr db2"
    and d3: "(if status = RStatusLocked
       then lock_report env command version (in_organization_id inspection) content db2 else Inr db2) = Inr db'"
    and r: "result = DecideReport_result env command (in_organization_id inspection) state status"
    by (clarsimp simp: DecideReport_handler_def bind_result_Inr check_error_Inr split: option.splits)
  from maybe_lock_report [OF d3] obtain docs jobs l where
    "db' = db2\<lparr>document_records := docs, document_render_jobs := jobs, ledger := l\<rparr>"
    "keeps_ledger (ledger db2) l" by blast
  moreover from d1 d2 have "db2 = db\<lparr>report_approval_states :=
       modify ra_report_version_id (dc_ReportVersionID command)
         (Approval_update env status (ra_revision state + 1)) (report_approval_states db),
       report_decisions := report_decisions db @ [ReportDecision_row env actor command]\<rparr>"
    by (auto simp: update_approval_Inr insert_report_decision_def bind_result_Inr insert_row_Inr)
  ultimately show thesis
    by (intro that [OF v]) (use r in simp_all)
qed

section \<open>The handlers keep the contract\<close>

interpretation upsert_response: command_handler "UpsertChecklistResponse_handler env actor command"
  for env actor command
  by unfold_locales (auto elim: UpsertChecklistResponse_handler_Inr)

interpretation submit_checklist: command_handler "SubmitChecklist_handler env actor command"
  for env actor command
  by unfold_locales (auto elim: SubmitChecklist_handler_Inr)

interpretation reopen_checklist: command_handler "ReopenChecklist_handler env actor command"
  for env actor command
  by unfold_locales (auto elim: ReopenChecklist_handler_Inr)

interpretation create_potential: command_handler "CreatePotentialFinding_handler env actor command ids"
  for env actor command ids
  by unfold_locales (auto elim: CreatePotentialFinding_handler_Inr)

interpretation decide_potential: command_handler "DecidePotentialFinding_handler env actor command"
  for env actor command
  by unfold_locales (auto elim: DecidePotentialFinding_handler_Inr)

interpretation start_inspection: command_handler "StartInspection_handler env actor command"
  for env actor command
  by unfold_locales (auto elim: StartInspection_handler_Inr)

interpretation decide_report: command_handler "DecideReport_handler env actor command"
  for env actor command
  by unfold_locales (auto elim: DecideReport_handler_Inr)

end
