(* ===== verification/UploadPolicy.thy ===== *)
theory UploadPolicy
  imports Prelude
begin

text \<open>
  The upload policy \<open>internal/platform/uploadpolicy/policy.go\<close> and the parts of
  \<open>internal/platform/objectstore/object_store.go\<close> the upload services and the scan worker use. The
  bytes of an object are a string. SHA-256 and the media types \<open>http.DetectContentType\<close> gives to
  data without one of the three signatures below are parameters.
\<close>

section \<open>Declarations\<close>

datatype upload_error =
    PlainFileNameRequired
  | MediaTypeNotAllowed string
  | ByteSizeOutOfRange i64
  | DigestRequired
  | ObservedTooLarge i64
  | ReadFailed

definition allowedMediaTypes :: "string list" where
  "allowedMediaTypes = [''application/pdf'', ''image/jpeg'', ''image/png'']"

text \<open>\<open>filepath.Base\<close> on Unix.\<close>

fun strip_slashes :: "string \<Rightarrow> string" where
  "strip_slashes [] = []"
| "strip_slashes (c # s) = (if c = CHR ''/'' then strip_slashes s else c # s)"

definition filepath_Base :: "string \<Rightarrow> string" where
  "filepath_Base path =
     (if path = [] then ''.''
      else let body = rev (strip_slashes (rev path));
               element = rev (takeWhile (\<lambda>c. c \<noteq> CHR ''/'') (rev body)) in
        if element = [] then ''/'' else element)"

definition ContainsAny :: "string \<Rightarrow> string \<Rightarrow> bool" where
  "ContainsAny s chars = list_ex (\<lambda>c. c \<in> set chars) s"

text \<open>The regular expression \<open>^sha256:[a-f0-9]{64}$\<close>.\<close>

definition hex_digit :: "char \<Rightarrow> bool" where
  "hex_digit c \<longleftrightarrow> c \<in> set ''0123456789abcdef''"

definition sha256Pattern :: "string \<Rightarrow> bool" where
  "sha256Pattern digest \<longleftrightarrow> HasPrefix digest ''sha256:'' \<and> length digest = 71 \<and>
     list_all hex_digit (drop 7 digest)"

definition ValidateDeclaration :: "string \<Rightarrow> string \<Rightarrow> i64 \<Rightarrow> i64 \<Rightarrow> string \<Rightarrow> upload_error option" where
  "ValidateDeclaration fileName mediaType size' maximum digest =
     (let trimmedName = TrimSpace fileName in
      if trimmedName = '''' \<or> filepath_Base trimmedName \<noteq> trimmedName \<or>
         ContainsAny trimmedName [CHR ''/'', CHR 0x5C, CHR 0x00]
      then Some PlainFileNameRequired
      else if mediaType \<notin> set allowedMediaTypes then Some (MediaTypeNotAllowed mediaType)
      else if sint size' \<le> 0 \<or> sint maximum \<le> 0 \<or> sint maximum < sint size'
      then Some (ByteSizeOutOfRange maximum)
      else if \<not> sha256Pattern digest then Some DigestRequired
      else None)"

section \<open>Observations\<close>

record Observation =
  ob_Size :: i64
  ob_SHA256 :: string
  ob_ContentType :: string

text \<open>A reader delivers its bytes and then ends, or fails when \<open>rd_fails\<close>.\<close>

record Reader =
  rd_bytes :: string
  rd_fails :: bool

record Observer =
  bs_sha256 :: "string \<Rightarrow> string"
  bs_other_type :: "string \<Rightarrow> string"

definition pdf_signature :: string where "pdf_signature = ''%PDF-''"

definition png_signature :: string where
  "png_signature = [CHR 0x89, CHR ''P'', CHR ''N'', CHR ''G'', CHR 0x0D, CHR 0x0A, CHR 0x1A, CHR 0x0A]"

definition jpeg_signature :: string where "jpeg_signature = [CHR 0xFF, CHR 0xD8, CHR 0xFF]"

definition DetectContentType :: "(string \<Rightarrow> string) \<Rightarrow> string \<Rightarrow> string" where
  "DetectContentType other_type data =
     (if HasPrefix data pdf_signature then ''application/pdf''
      else if HasPrefix data png_signature then ''image/png''
      else if HasPrefix data jpeg_signature then ''image/jpeg''
      else other_type data)"

text \<open>
  The limited reader hands out at most \<open>maximum + 1\<close> bytes (none when that is not positive) and so
  never reaches the failure of a longer reader.
\<close>

definition Observe :: "Observer \<Rightarrow> Reader \<Rightarrow> i64 \<Rightarrow> upload_error + Observation" where
  "Observe observer reader maximum =
     (let limit = nat (sint (maximum + 1)); seen = take limit (rd_bytes reader) in
      if rd_fails reader \<and> length (rd_bytes reader) < limit then Inl ReadFailed
      else if sint maximum < int (length seen) then Inl (ObservedTooLarge maximum)
      else Inr \<lparr>ob_Size = of_nat (length seen), ob_SHA256 = ''sha256:'' @ bs_sha256 observer seen,
                ob_ContentType = DetectContentType (bs_other_type observer) (take 512 seen)\<rparr>)"

definition MatchesDeclaration :: "Observation \<Rightarrow> string \<Rightarrow> string \<Rightarrow> i64 \<Rightarrow> bool" where
  "MatchesDeclaration observed mediaType digest size' \<longleftrightarrow>
     ob_Size observed = size' \<and> ob_SHA256 observed = digest \<and> ob_ContentType observed = mediaType"

section \<open>The object store\<close>

record ObjectInfo =
  oi_VersionID :: string
  oi_ETag :: string
  oi_Size :: i64
  oi_Sha256 :: string

text \<open>
  The interface \<open>objectstore.Store\<close> as its answers during one call: a presigned instruction, an
  opened object, a written object, or \<open>None\<close> for an error. \<open>oi_Sha256\<close> is the metadata entry
  \<open>sha256\<close> or, when it is empty, \<open>x-amz-meta-sha256\<close>.
\<close>

record ObjectStore =
  os_put_instruction :: "string \<Rightarrow> string \<Rightarrow> instant \<Rightarrow> (string \<times> instant) option"
  os_get_instruction :: "string \<Rightarrow> string \<Rightarrow> instant \<Rightarrow> (string \<times> instant) option"
  os_open :: "string \<Rightarrow> string \<Rightarrow> (Reader \<times> ObjectInfo) option"
  os_write :: "string \<Rightarrow> string \<Rightarrow> string \<Rightarrow> string \<Rightarrow> string \<Rightarrow> ObjectInfo option"
  os_requires_exact :: bool

definition ExactIdentityForPersistence :: "ObjectStore \<Rightarrow> ObjectInfo \<Rightarrow> (string \<times> string) option" where
  "ExactIdentityForPersistence store info =
     (if \<not> os_requires_exact store then Some ('''', '''')
      else let versionID = TrimSpace (oi_VersionID info); etag = TrimSpace (oi_ETag info) in
        if versionID = '''' \<or> etag = '''' then None else Some (versionID, etag))"

section \<open>Properties of the policy\<close>

lemma strip_slashes_id: "CHR ''/'' \<notin> set s \<Longrightarrow> strip_slashes s = s"
  by (cases s) auto

lemma filepath_Base_plain: "s \<noteq> [] \<Longrightarrow> CHR ''/'' \<notin> set s \<Longrightarrow> filepath_Base s = s"
proof -
  assume "s \<noteq> []" "CHR ''/'' \<notin> set s"
  then have whole: "takeWhile (\<lambda>c. c \<noteq> CHR ''/'') (rev s) = rev s" by (auto simp: takeWhile_eq_all_conv)
  from \<open>s \<noteq> []\<close> \<open>CHR ''/'' \<notin> set s\<close> show ?thesis by (simp add: filepath_Base_def strip_slashes_id whole)
qed

lemma ValidateDeclaration_None [guard_defs]:
  "ValidateDeclaration fileName mediaType size' maximum digest = None \<longleftrightarrow>
     \<not> blank fileName \<and> set (TrimSpace fileName) \<inter> {CHR ''/'', CHR 0x5C, CHR 0x00} = {} \<and>
     mediaType \<in> set allowedMediaTypes \<and>
     0 < sint size' \<and> sint size' \<le> sint maximum \<and> sha256Pattern digest"
proof -
  have "filepath_Base t = t" if "t \<noteq> []" "set t \<inter> {CHR ''/'', CHR 0x5C, CHR 0x00} = {}" for t
    using that by (intro filepath_Base_plain) auto
  then show ?thesis
    by (auto simp: ValidateDeclaration_def Let_def blank_def ContainsAny_def list_ex_iff)
qed

text \<open>
  An accepted observation is of all the bytes of the object, at most \<open>maximum\<close> of them. The
  largest \<open>int64\<close> is excluded: there \<open>maximum + 1\<close> wraps and nothing is read.
\<close>

lemma Observe_Inr:
  assumes ok: "Observe observer reader maximum = Inr observed" and below: "sint maximum < 2 ^ 63 - 1"
  shows "\<not> rd_fails reader" "int (length (rd_bytes reader)) \<le> sint maximum"
    "observed = \<lparr>ob_Size = of_nat (length (rd_bytes reader)),
       ob_SHA256 = ''sha256:'' @ bs_sha256 observer (rd_bytes reader),
       ob_ContentType = DetectContentType (bs_other_type observer) (take 512 (rd_bytes reader))\<rparr>"
proof -
  note lim = sint_succ [OF below]
  from ok lim have small: "int (length (take (nat (sint maximum + 1)) (rd_bytes reader))) \<le> sint maximum"
    by (auto simp: Observe_def Let_def split: if_splits)
  then have len: "int (length (rd_bytes reader)) < sint maximum + 1" by (auto simp: min_def split: if_splits)
  then have all: "take (nat (sint maximum + 1)) (rd_bytes reader) = rd_bytes reader" by simp
  from len show "int (length (rd_bytes reader)) \<le> sint maximum" by simp
  from ok len show "\<not> rd_fails reader" by (auto simp: Observe_def Let_def lim split: if_splits)
  from ok show "observed = \<lparr>ob_Size = of_nat (length (rd_bytes reader)),
       ob_SHA256 = ''sha256:'' @ bs_sha256 observer (rd_bytes reader),
       ob_ContentType = DetectContentType (bs_other_type observer) (take 512 (rd_bytes reader))\<rparr>"
    by (auto simp: Observe_def Let_def lim all split: if_splits)
qed

lemma DetectContentType_signatures [simp]:
  "DetectContentType other_type (pdf_signature @ rest) = ''application/pdf''"
  "DetectContentType other_type (png_signature @ rest) = ''image/png''"
  "DetectContentType other_type (jpeg_signature @ rest) = ''image/jpeg''"
  by (simp_all add: DetectContentType_def HasPrefix_def pdf_signature_def png_signature_def jpeg_signature_def)

text \<open>An allowed media type that the table does not give to other data is detected by its signature.\<close>

lemma DetectContentType_allowed:
  assumes "DetectContentType other_type data \<in> set allowedMediaTypes"
    and "other_type data \<notin> set allowedMediaTypes"
  shows "\<exists>signature \<in> {pdf_signature, png_signature, jpeg_signature}. HasPrefix data signature"
  using assms by (auto simp: DetectContentType_def split: if_splits)

lemma ExactIdentityForPersistence_Some:
  "ExactIdentityForPersistence store info = Some (versionID, etag) \<Longrightarrow>
   (versionID = '''' \<and> etag = '''' \<and> \<not> os_requires_exact store) \<or>
   (versionID \<noteq> '''' \<and> etag \<noteq> '''' \<and> os_requires_exact store)"
  by (auto simp: ExactIdentityForPersistence_def Let_def split: if_splits)

end
