(* ===== verification/UploadEnvelope.thy ===== *)
theory UploadEnvelope
  imports HandlerContract UploadPolicy
begin

text \<open>
  What the two upload services share: the service configuration, the inputs, the lookup of a stored
  response (\<open>loadIdempotent\<close>), and the writers of the ledger, \<open>persistUploadTransaction\<close> of
  \<open>internal/evidence/upload_service.go\<close> and \<open>saveIdempotent\<close> of
  \<open>internal/inspections/attachments/upload_service.go\<close>.
\<close>

section \<open>Errors\<close>

datatype invalid_upload = InvalidReason string | InvalidDeclaration upload_error

text \<open>
  The sentinels of the two services; \<open>UploadForbidden\<close> is \<open>ErrEvidenceForbidden\<close> and
  \<open>ErrAttachmentForbidden\<close>, \<open>UploadFailed\<close> any other error, \<open>BeginUploadError\<close> the error that names
  the stage that failed.
\<close>

datatype evidence_error =
    UploadForbidden | ErrInvalidUpload invalid_upload | ErrObjectMismatch | ErrEvidenceNotReady
  | UploadOperationIDReuse | UploadFailed string | BeginUploadError string evidence_error

section \<open>Inputs\<close>

record BeginUploadInput =
  bi_OperationID :: string
  bi_CorrelationID :: string
  bi_FindingID :: string
  bi_ExpectedFindingRevision :: i64
  bi_FileName :: string
  bi_DeclaredMediaType :: string
  bi_ByteSize :: i64
  bi_SHA256 :: string

record CompleteUploadInput =
  ci_OperationID :: string
  ci_CorrelationID :: string
  ci_UploadID :: string
  ci_SHA256 :: string
  ci_ByteSize :: i64

record BeginAttachmentInput =
  ai_OperationID :: string
  ai_CorrelationID :: string
  ai_InspectionAttachmentID :: string
  ai_PackageID :: string
  ai_FileName :: string
  ai_DeclaredMediaType :: string
  ai_ByteSize :: i64
  ai_SHA256 :: string

record BeginPartInput =
  pi_OperationID :: string
  pi_CorrelationID :: string
  pi_UploadID :: string
  pi_SessionEpoch :: i64
  pi_PartNumber :: i64
  pi_ByteSize :: i64
  pi_SHA256 :: string

record CompleteAttachmentInput =
  ki_OperationID :: string
  ki_CorrelationID :: string
  ki_UploadID :: string
  ki_SessionEpoch :: i64
  ki_SHA256 :: string
  ki_ByteSize :: i64
  ki_Parts :: "UploadPartReceipt list"

datatype UploadInput =
    BeginEvidence BeginUploadInput | CompleteEvidence CompleteUploadInput
  | BeginAttachment BeginAttachmentInput | BeginPartOf BeginPartInput
  | CompleteAttachment CompleteAttachmentInput

text \<open>\<open>sv_SemanticHash\<close> is \<open>idempotency.SemanticHash\<close>; these inputs always have a JSON form.\<close>

record UploadService =
  sv_quarantineBucket :: string
  sv_maximumByteSize :: i64
  sv_instructionTTL :: int
  sv_objects :: ObjectStore
  sv_observer :: Observer
  sv_SemanticHash :: "UploadInput \<Rightarrow> string"

section \<open>The ledger writers\<close>

definition loadIdempotent :: "string \<Rightarrow> string \<Rightarrow> string \<Rightarrow> DB \<Rightarrow> evidence_error + Response option" where
  "loadIdempotent scope operationID semanticHash db =
     (case stored_response scope operationID (ledger db) of
        None \<Rightarrow> Inr None
      | Some stored \<Rightarrow>
          if ir_semantic_hash stored \<noteq> semanticHash then Inl UploadOperationIDReuse
          else Inr (Some (ir_response_body stored)))"

definition sql_insert :: "string \<Rightarrow> bool \<Rightarrow> 'r \<Rightarrow> 'r list \<Rightarrow> evidence_error + 'r list" where
  "sql_insert context violates r rows = (if violates then Inl (UploadFailed context) else Inr (rows @ [r]))"

lemma sql_insert_Inr [row_simps]:
  "sql_insert context violates r rows = Inr rows' \<longleftrightarrow> \<not> violates \<and> rows' = rows @ [r]"
  by (auto simp: sql_insert_def)

record uploadTransactionEnvelope =
  ue_OperationID :: string
  ue_CorrelationID :: string
  ue_IdempotencyScope :: string
  ue_SemanticHash :: string
  ue_ResponseBody :: Response
  ue_ActorSubjectID :: string
  ue_ActorRole :: string
  ue_OrganizationID :: string
  ue_Action :: string
  ue_EntityType :: string
  ue_EntityID :: string
  ue_EntityVersion :: i64
  ue_BeforeStatus :: string
  ue_AfterStatus :: string
  ue_SyncKind :: string
  ue_OutboxTopic :: string
  ue_OutboxKey :: string
  ue_AuditEventID :: string
  ue_OutboxMessageID :: string
  ue_OccurredAt :: instant
  ue_now :: instant

definition upload_audit_row :: "uploadTransactionEnvelope \<Rightarrow> AuditEvent" where
  "upload_audit_row r = \<lparr>ae_event_id = ue_AuditEventID r, ae_occurred_at = ue_OccurredAt r,
     ae_actor_subject_id = Some (ue_ActorSubjectID r), ae_actor_role = ue_ActorRole r,
     ae_organization_id = ue_OrganizationID r, ae_action = ue_Action r,
     ae_entity_type = ue_EntityType r, ae_entity_id = ue_EntityID r,
     ae_entity_version = ue_EntityVersion r, ae_before_status = null_if_empty (ue_BeforeStatus r),
     ae_after_status = ue_AfterStatus r, ae_reason = None, ae_operation_id = Some (ue_OperationID r),
     ae_correlation_id = ue_CorrelationID r, ae_closure_basis = None, ae_details = []\<rparr>"

definition upload_sync_row :: "uploadTransactionEnvelope \<Rightarrow> int \<Rightarrow> SyncChange" where
  "upload_sync_row r changeSequenceID = \<lparr>sy_sequence_id = changeSequenceID,
     sy_subject_id = ue_ActorSubjectID r, sy_organization_id = ue_OrganizationID r, sy_package_id = None,
     sy_kind = ue_SyncKind r, sy_entity_id = ue_EntityID r, sy_entity_revision = ue_EntityVersion r,
     sy_payload = ResponsePayload (ue_ResponseBody r), sy_changed_at = ue_OccurredAt r,
     sy_operation_id = Some (ue_OperationID r), sy_correlation_id = Some (ue_CorrelationID r)\<rparr>"

definition new_message :: "string \<Rightarrow> string \<Rightarrow> string \<Rightarrow> string \<Rightarrow> Payload \<Rightarrow> instant \<Rightarrow> string option \<Rightarrow>
    string option \<Rightarrow> string option \<Rightarrow> instant \<Rightarrow> OutboxMessage" where
  "new_message mid topic entityType entityID payload availableAt key operationID correlationID now =
     \<lparr>o_id = mid, o_topic = topic, o_aggregate_type = entityType, o_aggregate_id = entityID,
      o_payload = payload, o_available_at = availableAt, o_idempotency_key = key,
      o_operation_id = operationID, o_correlation_id = correlationID, o_lease_owner = None,
      o_lease_expires_at = None, o_claimed_at = None, o_delivered_at = None, o_terminal_state = None,
      o_attempt_count = 0, o_last_error = None, o_created_at = now\<rparr>"

definition upload_outbox_row :: "uploadTransactionEnvelope \<Rightarrow> OutboxMessage" where
  "upload_outbox_row r = new_message (ue_OutboxMessageID r) (ue_OutboxTopic r) (ue_EntityType r)
     (ue_EntityID r) (ResponsePayload (ue_ResponseBody r)) (ue_OccurredAt r) (Some (ue_OutboxKey r))
     (Some (ue_OperationID r)) (Some (ue_CorrelationID r)) (ue_now r)"

definition upload_response_row :: "string \<Rightarrow> string \<Rightarrow> string \<Rightarrow> Response \<Rightarrow> instant \<Rightarrow> IdempotencyResponse" where
  "upload_response_row scope operationID semanticHash output now =
     \<lparr>ir_scope = scope, ir_operation_id = operationID, ir_semantic_hash = semanticHash,
      ir_response_body = output, ir_created_at = now\<rparr>"

definition upload_link_row :: "uploadTransactionEnvelope \<Rightarrow> int \<Rightarrow> CommandLink" where
  "upload_link_row r changeSequenceID = \<lparr>ln_operation_id = ue_OperationID r,
     ln_idempotency_scope = ue_IdempotencyScope r, ln_audit_event_id = ue_AuditEventID r,
     ln_change_sequence_id = changeSequenceID, ln_outbox_message_id = ue_OutboxMessageID r,
     ln_created_at = ue_OccurredAt r\<rparr>"

definition persistUploadTransaction :: "uploadTransactionEnvelope \<Rightarrow> DB \<Rightarrow> evidence_error + DB" where
  "persistUploadTransaction r db =
     (let l = ledger db; changeSequenceID = l_next_sequence l;
          response = upload_response_row (ue_IdempotencyScope r) (ue_OperationID r) (ue_SemanticHash r)
            (ue_ResponseBody r) (ue_OccurredAt r) in
      bind_result (sql_insert ''append Evidence upload audit''
        (audit_conflict (upload_audit_row r) (l_audit_events l)) (upload_audit_row r) (l_audit_events l)) (\<lambda>audit_events.
      bind_result (sql_insert ''append Evidence upload authorized change''
        (list_ex (\<lambda>s. sy_sequence_id s = changeSequenceID) (l_sync_changes l))
        (upload_sync_row r changeSequenceID) (l_sync_changes l)) (\<lambda>sync_changes.
      bind_result (sql_insert ''enqueue Evidence upload outbox''
        (outbox_conflict (upload_outbox_row r) (l_outbox l)) (upload_outbox_row r) (l_outbox l)) (\<lambda>outbox.
      bind_result (sql_insert ''store Evidence upload idempotent response''
        (response_conflict response (l_responses l)) response (l_responses l)) (\<lambda>responses.
      bind_result (sql_insert ''link Evidence upload transaction records''
        (link_conflict (upload_link_row r changeSequenceID) (l_links l))
        (upload_link_row r changeSequenceID) (l_links l)) (\<lambda>links.
      Inr (db\<lparr>ledger := \<lparr>l_audit_events = audit_events, l_sync_changes = sync_changes,
        l_next_sequence = changeSequenceID + 1, l_outbox = outbox, l_responses = responses,
        l_links = links\<rparr>\<rparr>)))))))"

definition saveIdempotent :: "string \<Rightarrow> string \<Rightarrow> string \<Rightarrow> Response \<Rightarrow> instant \<Rightarrow> DB \<Rightarrow> evidence_error + DB" where
  "saveIdempotent scope operationID semanticHash output now db =
     (let response = upload_response_row scope operationID semanticHash output now in
      bind_result (sql_insert ''store idempotent response''
        (response_conflict response (l_responses (ledger db))) response (l_responses (ledger db))) (\<lambda>responses.
      Inr (db\<lparr>ledger := (ledger db)\<lparr>l_responses := responses\<rparr>\<rparr>)))"

text \<open>
  The shape of every upload command: in one transaction, replay the stored response of the same
  operation, or run the body, which stores its own response.
\<close>

definition idempotent_upload :: "string \<Rightarrow> string \<Rightarrow> string \<Rightarrow> (DB \<Rightarrow> evidence_error + (DB \<times> Response)) \<Rightarrow> DB \<Rightarrow>
    evidence_error + (DB \<times> Response)" where
  "idempotent_upload scope operationID semanticHash body db =
     bind_result (loadIdempotent scope operationID semanticHash db) (\<lambda>replayed.
       (case replayed of Some output \<Rightarrow> Inr (db, output) | None \<Rightarrow> body db))"

section \<open>Properties\<close>

lemma persistUploadTransaction_Inr:
  "persistUploadTransaction r db = Inr db' \<Longrightarrow>
     \<not> audit_conflict (upload_audit_row r) (l_audit_events (ledger db)) \<and>
     \<not> outbox_conflict (upload_outbox_row r) (l_outbox (ledger db)) \<and>
     \<not> response_conflict (upload_response_row (ue_IdempotencyScope r) (ue_OperationID r)
         (ue_SemanticHash r) (ue_ResponseBody r) (ue_OccurredAt r)) (l_responses (ledger db)) \<and>
     db' = db\<lparr>ledger := \<lparr>l_audit_events = l_audit_events (ledger db) @ [upload_audit_row r],
       l_sync_changes = l_sync_changes (ledger db) @ [upload_sync_row r (l_next_sequence (ledger db))],
       l_next_sequence = l_next_sequence (ledger db) + 1,
       l_outbox = l_outbox (ledger db) @ [upload_outbox_row r],
       l_responses = l_responses (ledger db) @ [upload_response_row (ue_IdempotencyScope r)
         (ue_OperationID r) (ue_SemanticHash r) (ue_ResponseBody r) (ue_OccurredAt r)],
       l_links = l_links (ledger db) @ [upload_link_row r (l_next_sequence (ledger db))]\<rparr>\<rparr>"
  by (auto simp: persistUploadTransaction_def bind_result_Inr sql_insert_Inr Let_def)

lemma persistUpload_wf:
  assumes p: "persistUploadTransaction r db = Inr db'" and wf: "ledger_wf (ledger db)"
  shows "ledger_wf (ledger db')"
proof -
  note run = persistUploadTransaction_Inr [OF p]
  have "ledger_wf \<lparr>l_audit_events = l_audit_events (ledger db) @ [upload_audit_row r],
       l_sync_changes = l_sync_changes (ledger db) @ [upload_sync_row r (l_next_sequence (ledger db))],
       l_next_sequence = l_next_sequence (ledger db) + 1,
       l_outbox = l_outbox (ledger db) @ [upload_outbox_row r],
       l_responses = l_responses (ledger db) @ [upload_response_row (ue_IdempotencyScope r)
         (ue_OperationID r) (ue_SemanticHash r) (ue_ResponseBody r) (ue_OccurredAt r)],
       l_links = l_links (ledger db) @ [upload_link_row r (l_next_sequence (ledger db))]\<rparr>"
    by (rule ledger_wf_append [OF wf])
      (use run in \<open>auto simp: audit_conflict_def outbox_conflict_def response_conflict_def list_ex_iff
        response_key_def link_key_def upload_audit_row_def upload_sync_row_def upload_outbox_row_def
        new_message_def upload_response_row_def upload_link_row_def\<close>)
  with run show ?thesis by simp
qed

lemma saveIdempotent_Inr:
  "saveIdempotent scope operationID semanticHash output now db = Inr db' \<Longrightarrow>
     \<not> response_conflict (upload_response_row scope operationID semanticHash output now)
         (l_responses (ledger db)) \<and>
     db' = db\<lparr>ledger := (ledger db)\<lparr>l_responses := l_responses (ledger db) @
       [upload_response_row scope operationID semanticHash output now]\<rparr>\<rparr>"
  by (auto simp: saveIdempotent_def bind_result_Inr sql_insert_Inr Let_def)

lemma saveIdempotent_wf:
  assumes s: "saveIdempotent scope operationID semanticHash output now db = Inr db'" and wf: "ledger_wf (ledger db)"
  shows "ledger_wf (ledger db')"
  using saveIdempotent_Inr [OF s] wf
  by (auto simp: ledger_wf_def link_resolves_def response_conflict_def list_ex_iff
      response_key_def upload_response_row_def)

lemma idempotent_upload_cases:
  assumes "idempotent_upload scope operationID semanticHash body db = Inr (db', output)"
  obtains (replayed) stored where "stored_response scope operationID (ledger db) = Some stored"
      "ir_semantic_hash stored = semanticHash" "db' = db" "output = ir_response_body stored"
  | (executed) "stored_response scope operationID (ledger db) = None" "body db = Inr (db', output)"
  using assms
  by (auto simp: idempotent_upload_def loadIdempotent_def bind_result_Inr split: option.splits if_splits)

end
