(* ===== verification/EvidenceUpload.thy ===== *)
theory EvidenceUpload
  imports FindingLaws UploadEnvelope
begin

text \<open>
  The Evidence upload service \<open>internal/evidence/upload_service.go\<close>: \<open>Begin\<close> opens an upload session
  for a Finding that waits for Evidence, \<open>Complete\<close> checks the uploaded object against its
  declaration, appends an immutable Evidence version and moves the Finding to \<open>EVIDENCE_SUBMITTED\<close>;
  \<open>ReconcileExpired\<close>, \<open>ListVersions\<close> and \<open>Download\<close>.
\<close>

section \<open>Begin\<close>

definition at_stage :: "string \<Rightarrow> evidence_error + 'a \<Rightarrow> evidence_error + 'a" where
  "at_stage stage m = (case m of Inl e \<Rightarrow> Inl (BeginUploadError stage e) | Inr x \<Rightarrow> Inr x)"

definition evidence_boundary :: "FindingStatus \<Rightarrow> bool" where
  "evidence_boundary status \<longleftrightarrow>
     status = FStatusEvidenceRequired \<or> status = FStatusEvidenceMoreInformationRequested"

text \<open>\<open>fmt.Sprintf("organizations/%s/evidence/%s/%s", ...)\<close>.\<close>

definition staging_key :: "string \<Rightarrow> string \<Rightarrow> string \<Rightarrow> string" where
  "staging_key organizationID findingID uploadID =
     ''organizations/'' @ organizationID @ ''/evidence/'' @ findingID @ ''/'' @ uploadID"

definition upload_session_conflict :: "UploadSession \<Rightarrow> UploadSession list \<Rightarrow> bool" where
  "upload_session_conflict row rows \<longleftrightarrow> sint (us_declared_size_bytes row) < 0 \<or>
     list_ex (\<lambda>u. us_id u = us_id row \<or> us_staging_object_key u = us_staging_object_key row) rows"

definition BeginUpload_session :: "UploadService \<Rightarrow> Env \<Rightarrow> Principal \<Rightarrow> BeginUploadInput \<Rightarrow> Finding \<Rightarrow> UploadSession" where
  "BeginUpload_session service env actor input finding =
     \<lparr>us_id = env_new_id env ''upload'', us_upload_kind = ''EVIDENCE'', us_aggregate_id = bi_FindingID input,
      us_organization_id = f_organization_id finding, us_initiated_by_subject_id = SubjectID actor,
      us_bucket_name = sv_quarantineBucket service,
      us_staging_object_key = staging_key (f_organization_id finding) (bi_FindingID input) (env_new_id env ''upload''),
      us_file_name = bi_FileName input, us_declared_media_type = bi_DeclaredMediaType input,
      us_declared_size_bytes = bi_ByteSize input, us_declared_sha256 = bi_SHA256 input,
      us_expected_aggregate_revision = Some (f_revision finding), us_upload_state = ''PENDING'',
      us_expires_at = env_clock env 0 + sv_instructionTTL service, us_object_metadata_id = None,
      us_created_at = env_clock env 0, us_completed_at = None, us_session_epoch = 1,
      us_part_size_bytes = None, us_whole_file_sha256 = None, us_object_version_id = None,
      us_object_etag = None\<rparr>"

definition BeginUpload_output :: "UploadService \<Rightarrow> BeginUploadInput \<Rightarrow> UploadSession \<Rightarrow> string \<Rightarrow> Response" where
  "BeginUpload_output service input session url = BeginEvidenceUploadResponse
     \<lparr>bu_UploadID = us_id session, bu_StagingObjectKey = us_staging_object_key session, bu_UploadURL = url,
      bu_RequiredHeaders = \<lparr>rh_ContentType = bi_DeclaredMediaType input, rh_SHA256 = bi_SHA256 input,
        rh_IfNoneMatch = ''*''\<rparr>,
      bu_ExpiresAt = us_expires_at session, bu_MaximumByteSize = sv_maximumByteSize service\<rparr>"

definition begin_scope :: "Principal \<Rightarrow> string" where
  "begin_scope actor = SubjectID actor @ '':begin_evidence_upload''"

definition BeginUpload_envelope :: "UploadService \<Rightarrow> Env \<Rightarrow> Principal \<Rightarrow> BeginUploadInput \<Rightarrow> UploadSession \<Rightarrow> Response \<Rightarrow>
    uploadTransactionEnvelope" where
  "BeginUpload_envelope service env actor input session output =
     \<lparr>ue_OperationID = bi_OperationID input, ue_CorrelationID = bi_CorrelationID input,
      ue_IdempotencyScope = begin_scope actor,
      ue_SemanticHash = sv_SemanticHash service (BeginEvidence input), ue_ResponseBody = output,
      ue_ActorSubjectID = SubjectID actor, ue_ActorRole = role_text RoleAuditee,
      ue_OrganizationID = us_organization_id session, ue_Action = ''evidence.upload_started'',
      ue_EntityType = ''evidence_upload_session'', ue_EntityID = us_id session, ue_EntityVersion = 1,
      ue_BeforeStatus = '''', ue_AfterStatus = ''PENDING'', ue_SyncKind = ''evidence_upload_session'',
      ue_OutboxTopic = ''evidence.upload_started'',
      ue_OutboxKey = ''command:'' @ begin_scope actor @ '':idempotency:'' @ bi_OperationID input,
      ue_AuditEventID = env_new_id env ''audit'', ue_OutboxMessageID = env_new_id env ''outbox'',
      ue_OccurredAt = env_clock env 0, ue_now = env_now env\<rparr>"

definition BeginUpload_finding :: "Principal \<Rightarrow> BeginUploadInput \<Rightarrow> DB \<Rightarrow> evidence_error + Finding" where
  "BeginUpload_finding actor input db =
     (case lookup f_id (bi_FindingID input) (findings db) of
        None \<Rightarrow> Inl UploadForbidden
      | Some finding \<Rightarrow>
          if f_organization_id finding \<noteq> OrganizationID actor then Inl UploadForbidden
          else if f_revision finding \<noteq> bi_ExpectedFindingRevision input \<or>
                  \<not> evidence_boundary (f_status finding)
          then Inl (ErrInvalidUpload (InvalidReason ''Finding is not at an Evidence submission boundary''))
          else Inr finding)"

definition require_preliminary :: "string \<Rightarrow> DB \<Rightarrow> evidence_error option" where
  "require_preliminary inspectionID db =
     (if PreliminaryIssued inspectionID db then None
      else Some (ErrInvalidUpload (InvalidReason
        ''Preliminary Report must be approved and issued before Evidence'')))"

definition BeginUpload_body :: "UploadService \<Rightarrow> Env \<Rightarrow> Principal \<Rightarrow> BeginUploadInput \<Rightarrow> DB \<Rightarrow>
    evidence_error + (DB \<times> Response)" where
  "BeginUpload_body service env actor input db =
     bind_result (at_stage ''finding-lock'' (BeginUpload_finding actor input db)) (\<lambda>finding.
     bind_result (at_stage ''preliminary-report''
       (check_error (require_preliminary (f_inspection_id finding) db) (Inr ()))) (\<lambda>_.
     (let session = BeginUpload_session service env actor input finding in
      case os_put_instruction (sv_objects service) (sv_quarantineBucket service)
             (us_staging_object_key session) (us_expires_at session) of
        None \<Rightarrow> Inl (BeginUploadError ''presign'' (UploadFailed ''create private Evidence upload instruction''))
      | Some (url, _) \<Rightarrow>
          bind_result (at_stage ''upload-session'' (sql_insert ''record Evidence upload session''
            (upload_session_conflict session (upload_sessions db)) session (upload_sessions db))) (\<lambda>sessions.
          let output = BeginUpload_output service input session url in
          bind_result (at_stage ''transaction-envelope'' (persistUploadTransaction
            (BeginUpload_envelope service env actor input session output)
            (db\<lparr>upload_sessions := sessions\<rparr>))) (\<lambda>db'. Inr (db', output))))))"

definition evidence_Begin :: "UploadService \<Rightarrow> Env \<Rightarrow> Principal \<Rightarrow> BeginUploadInput \<Rightarrow> DB \<Rightarrow>
    evidence_error + (DB \<times> Response)" where
  "evidence_Begin service env actor input db =
     (if \<not> HasRole actor [RoleAuditee] \<or> SubjectID actor = '''' \<or> OrganizationID actor = ''''
      then Inl UploadForbidden
      else if bi_OperationID input = '''' \<or> bi_CorrelationID input = '''' \<or> bi_FindingID input = '''' \<or>
              sint (bi_ExpectedFindingRevision input) < 1
      then Inl (ErrInvalidUpload (InvalidReason ''command metadata and Finding revision are required''))
      else (case ValidateDeclaration (bi_FileName input) (bi_DeclaredMediaType input) (bi_ByteSize input)
                   (sv_maximumByteSize service) (bi_SHA256 input) of
        Some e \<Rightarrow> Inl (ErrInvalidUpload (InvalidDeclaration e))
      | None \<Rightarrow>
          bind_result (at_stage ''idempotency'' (loadIdempotent (begin_scope actor) (bi_OperationID input)
            (sv_SemanticHash service (BeginEvidence input)) db)) (\<lambda>replayed.
          (case replayed of
             Some output \<Rightarrow> Inr (db, output)
           | None \<Rightarrow> BeginUpload_body service env actor input db))))"

section \<open>Complete\<close>

text \<open>The row \<open>Complete\<close> locks; a \<open>NULL\<close> expected revision fails the scan into an \<open>int64\<close>.\<close>

definition evidence_session :: "string \<Rightarrow> DB \<Rightarrow> (UploadSession \<times> i64) option" where
  "evidence_session uploadID db =
     (case find (\<lambda>u. us_id u = uploadID \<and> us_upload_kind u = ''EVIDENCE'') (upload_sessions db) of
        None \<Rightarrow> None
      | Some session \<Rightarrow> map_option (Pair session) (us_expected_aggregate_revision session))"

definition uploaded_object :: "UploadService \<Rightarrow> UploadSession \<Rightarrow> evidence_error + (string \<times> string)" where
  "uploaded_object service session =
     (case os_open (sv_objects service) (us_bucket_name session) (us_staging_object_key session) of
        None \<Rightarrow> Inl ErrObjectMismatch
      | Some (reader, info) \<Rightarrow>
          (case Observe (sv_observer service) reader (sv_maximumByteSize service) of
             Inl _ \<Rightarrow> Inl ErrObjectMismatch
           | Inr observation \<Rightarrow>
               if oi_Size info \<noteq> us_declared_size_bytes session \<or>
                  \<not> MatchesDeclaration observation (us_declared_media_type session)
                      (us_declared_sha256 session) (us_declared_size_bytes session)
               then Inl ErrObjectMismatch
               else (case ExactIdentityForPersistence (sv_objects service) info of
                       None \<Rightarrow> Inl ErrObjectMismatch
                     | Some identity \<Rightarrow> Inr identity)))"

text \<open>
  The constraints of \<open>object_metadata\<close>: keys, the unique object version, and the check that the
  version identifier and the entity tag are both null or both not blank.
\<close>

definition exact_identity_check :: "ObjectMetadata \<Rightarrow> bool" where
  "exact_identity_check m \<longleftrightarrow>
     om_object_version_id m = None \<and> om_object_etag m = None \<or>
     (\<exists>v e. om_object_version_id m = Some v \<and> om_object_etag m = Some e \<and> \<not> blank v \<and> \<not> blank e)"

lemma exact_identity_check_code [code]:
  "exact_identity_check m \<longleftrightarrow>
     (case (om_object_version_id m, om_object_etag m) of
        (None, None) \<Rightarrow> True | (Some v, Some e) \<Rightarrow> \<not> blank v \<and> \<not> blank e | _ \<Rightarrow> False)"
  by (auto simp: exact_identity_check_def split: option.splits)

definition object_metadata_conflict :: "ObjectMetadata \<Rightarrow> ObjectMetadata list \<Rightarrow> bool" where
  "object_metadata_conflict row rows \<longleftrightarrow>
     sint (om_size_bytes row) < 0 \<or> \<not> exact_identity_check row \<or>
     list_ex (\<lambda>m. om_id m = om_id row \<or> om_object_key m = om_object_key row \<or>
       om_bucket_name m \<noteq> None \<and> om_object_version_id m \<noteq> None \<and>
       om_bucket_name m = om_bucket_name row \<and> om_object_version_id m = om_object_version_id row \<and>
       om_object_key m = om_object_key row) rows"

definition quarantined_object :: "string \<Rightarrow> string \<Rightarrow> UploadSession \<Rightarrow> string \<times> string \<Rightarrow> instant \<Rightarrow> ObjectMetadata" where
  "quarantined_object objectID aggregateType session identity now =
     \<lparr>om_id = objectID, om_aggregate_type = aggregateType, om_aggregate_id = us_aggregate_id session,
      om_organization_id = us_organization_id session, om_bucket_name = Some (us_bucket_name session),
      om_object_key = us_staging_object_key session, om_filename = us_file_name session,
      om_media_type = us_declared_media_type session, om_sha256 = us_declared_sha256 session,
      om_size_bytes = us_declared_size_bytes session, om_scan_status = ScanPending,
      om_object_state = ''QUARANTINED'', om_upload_id = Some (us_id session),
      om_scan_engine_version = None, om_scan_signature_version = None, om_scanned_at = None,
      om_object_version_id = null_if_empty (fst identity), om_object_etag = null_if_empty (snd identity),
      om_created_at = now\<rparr>"

text \<open>The Evidence identity and number the new version continues from.\<close>

definition latest_evidence :: "Env \<Rightarrow> string \<Rightarrow> DB \<Rightarrow> string \<times> i64" where
  "latest_evidence env findingID db =
     (case latest (\<lambda>e. sint (e_version e))
             (filter (\<lambda>e. e_finding_id e = findingID) (evidence_versions db)) of
        None \<Rightarrow> (env_new_id env ''evidence'', 0)
      | Some previous \<Rightarrow> (e_evidence_id previous, e_version previous))"

definition Complete_version :: "Env \<Rightarrow> Principal \<Rightarrow> UploadSession \<Rightarrow> DB \<Rightarrow> EvidenceVersion" where
  "Complete_version env actor session db =
     \<lparr>e_id = env_new_id env ''evidence-version'',
      e_evidence_id = fst (latest_evidence env (us_aggregate_id session) db),
      e_finding_id = us_aggregate_id session, e_organization_id = us_organization_id session,
      e_version = snd (latest_evidence env (us_aggregate_id session) db) + 1,
      e_object_metadata_id = Some (env_new_id env ''object''), e_filename = us_file_name session,
      e_media_type = us_declared_media_type session, e_sha256 = us_declared_sha256 session,
      e_size_bytes = us_declared_size_bytes session, e_status = ScanPending,
      e_submitted_by_subject_id = SubjectID actor, e_submitted_at = env_clock env 0, e_revision = 1\<rparr>"

definition Complete_state :: "Env \<Rightarrow> EvidenceVersionState" where
  "Complete_state env =
     \<lparr>es_evidence_version_id = env_new_id env ''evidence-version'', es_upload_state = ''UPLOADED'',
      es_scan_state = ScanPending, es_review_state = ''NOT_READY'', es_canonical_object_metadata_id = None,
      es_scan_reason = None, es_revision = 1, es_updated_at = env_clock env 0\<rparr>"

definition evidence_version_conflict :: "EvidenceVersion \<Rightarrow> EvidenceVersion list \<Rightarrow> bool" where
  "evidence_version_conflict row rows \<longleftrightarrow>
     \<not> (0 < sint (e_version row) \<and> sint (e_version row) < 2 ^ 31) \<or> sint (e_size_bytes row) < 0 \<or>
     list_ex (\<lambda>e. e_id e = e_id row \<or> e_evidence_id e = e_evidence_id row \<and> e_version e = e_version row) rows"

definition Complete_session :: "Env \<Rightarrow> UploadSession \<Rightarrow> UploadSession" where
  "Complete_session env u = u\<lparr>us_upload_state := ''COMPLETED'',
     us_object_metadata_id := Some (env_new_id env ''object''), us_completed_at := Some (env_clock env 0)\<rparr>"

definition Complete_finding :: "Env \<Rightarrow> i64 \<Rightarrow> Finding \<Rightarrow> Finding" where
  "Complete_finding env revision f = f\<lparr>f_status := FStatusEvidenceSubmitted,
     f_next_action := ''Evidence security scan'', f_revision := revision, f_updated_at := env_clock env 0\<rparr>"

definition finding_update :: "string \<Rightarrow> string \<Rightarrow> (Finding \<Rightarrow> Finding) \<Rightarrow> DB \<Rightarrow> evidence_error + DB" where
  "finding_update context findingID g db =
     (if list_ex (\<lambda>f. f_id f = findingID \<and> sint (f_revision (g f)) \<le> 0) (findings db)
      then Inl (UploadFailed context)
      else Inr (db\<lparr>findings := modify f_id findingID g (findings db)\<rparr>))"

text \<open>The statements of \<open>Complete\<close> after its checks, up to the transaction envelope.\<close>

definition Complete_writes :: "Env \<Rightarrow> Principal \<Rightarrow> UploadSession \<Rightarrow> string \<times> string \<Rightarrow> Finding \<Rightarrow> DB \<Rightarrow>
    evidence_error + DB" where
  "Complete_writes env actor session identity finding db =
     (let object = quarantined_object (env_new_id env ''object'') ''evidence_upload'' session identity (env_clock env 0);
          version = Complete_version env actor session db; state = Complete_state env in
      bind_result (sql_insert ''record quarantined Evidence object''
        (object_metadata_conflict object (object_metadata db)) object (object_metadata db)) (\<lambda>objects.
      bind_result (sql_insert ''append immutable Evidence version''
        (evidence_version_conflict version (evidence_versions db)) version (evidence_versions db)) (\<lambda>versions.
      bind_result (sql_insert ''record Evidence processing state''
        (list_ex (\<lambda>s. es_evidence_version_id s = es_evidence_version_id state) (evidence_version_states db))
        state (evidence_version_states db)) (\<lambda>states.
      finding_update ''advance Finding after Evidence upload'' (us_aggregate_id session)
        (Complete_finding env (f_revision finding + 1))
        (db\<lparr>object_metadata := objects, evidence_versions := versions, evidence_version_states := states,
            upload_sessions := modify us_id (us_id session) (Complete_session env) (upload_sessions db)\<rparr>)))))"

definition Complete_output :: "EvidenceVersion \<Rightarrow> Response" where
  "Complete_output version = CompleteEvidenceUploadResponse
     \<lparr>cu_EvidenceVersionID = e_id version, cu_Version = e_version version, cu_UploadState = ''UPLOADED'',
      cu_ScanState = ''PENDING'', cu_ReviewState = ''NOT_READY''\<rparr>"

definition complete_scope :: "Principal \<Rightarrow> string" where
  "complete_scope actor = SubjectID actor @ '':complete_evidence_upload''"

definition Complete_envelope :: "UploadService \<Rightarrow> Env \<Rightarrow> Principal \<Rightarrow> CompleteUploadInput \<Rightarrow> UploadSession \<Rightarrow>
    EvidenceVersion \<Rightarrow> uploadTransactionEnvelope" where
  "Complete_envelope service env actor input session version =
     \<lparr>ue_OperationID = ci_OperationID input, ue_CorrelationID = ci_CorrelationID input,
      ue_IdempotencyScope = complete_scope actor,
      ue_SemanticHash = sv_SemanticHash service (CompleteEvidence input),
      ue_ResponseBody = Complete_output version, ue_ActorSubjectID = SubjectID actor,
      ue_ActorRole = role_text RoleAuditee, ue_OrganizationID = us_organization_id session,
      ue_Action = ''evidence.uploaded'', ue_EntityType = ''evidence_version'', ue_EntityID = e_id version,
      ue_EntityVersion = 1, ue_BeforeStatus = ''PENDING'', ue_AfterStatus = ''UPLOADED'',
      ue_SyncKind = ''evidence_version'', ue_OutboxTopic = ''evidence.scan_requested'',
      ue_OutboxKey = ''evidence.scan_requested:'' @ e_id version,
      ue_AuditEventID = env_new_id env ''audit'', ue_OutboxMessageID = env_new_id env ''outbox'',
      ue_OccurredAt = env_clock env 0, ue_now = env_now env\<rparr>"

definition Complete_body :: "UploadService \<Rightarrow> Env \<Rightarrow> Principal \<Rightarrow> CompleteUploadInput \<Rightarrow> DB \<Rightarrow>
    evidence_error + (DB \<times> Response)" where
  "Complete_body service env actor input db =
     (case evidence_session (ci_UploadID input) db of
        None \<Rightarrow> Inl UploadForbidden
      | Some (session, expectedRevision) \<Rightarrow>
        if us_initiated_by_subject_id session \<noteq> SubjectID actor \<or>
           us_organization_id session \<noteq> OrganizationID actor \<or> us_upload_state session \<noteq> ''PENDING'' \<or>
           us_expires_at session < env_clock env 0
        then Inl UploadForbidden
        else if us_bucket_name session \<noteq> sv_quarantineBucket service \<or>
                ci_SHA256 input \<noteq> us_declared_sha256 session \<or>
                ci_ByteSize input \<noteq> us_declared_size_bytes session
        then Inl ErrObjectMismatch
        else bind_result (uploaded_object service session) (\<lambda>identity.
          (case find (\<lambda>f. f_id f = us_aggregate_id session \<and>
                  f_organization_id f = us_organization_id session) (findings db) of
             None \<Rightarrow> Inl UploadForbidden
           | Some finding \<Rightarrow>
             if f_revision finding \<noteq> expectedRevision \<or> \<not> evidence_boundary (f_status finding)
             then Inl (ErrInvalidUpload (InvalidReason ''Finding changed after upload began''))
             else check_error (require_preliminary (f_inspection_id finding) db)
               (bind_result (Complete_writes env actor session identity finding db) (\<lambda>db1.
                let version = Complete_version env actor session db in
                bind_result (persistUploadTransaction
                  (Complete_envelope service env actor input session version) db1) (\<lambda>db'.
                Inr (db', Complete_output version)))))))"

definition evidence_Complete :: "UploadService \<Rightarrow> Env \<Rightarrow> Principal \<Rightarrow> CompleteUploadInput \<Rightarrow> DB \<Rightarrow>
    evidence_error + (DB \<times> Response)" where
  "evidence_Complete service env actor input db =
     (if \<not> HasRole actor [RoleAuditee] \<or> SubjectID actor = '''' \<or> ci_OperationID input = '''' \<or>
         ci_CorrelationID input = '''' \<or> ci_UploadID input = ''''
      then Inl UploadForbidden
      else idempotent_upload (complete_scope actor) (ci_OperationID input)
        (sv_SemanticHash service (CompleteEvidence input)) (Complete_body service env actor input) db)"

section \<open>Expiry\<close>

definition expire :: "instant \<Rightarrow> UploadSession \<Rightarrow> UploadSession" where
  "expire now u =
     (if us_upload_kind u = ''EVIDENCE'' \<and> us_upload_state u = ''PENDING'' \<and> us_expires_at u < now
      then u\<lparr>us_upload_state := ''EXPIRED''\<rparr> else u)"

definition ReconcileExpired :: "Env \<Rightarrow> DB \<Rightarrow> DB \<times> nat" where
  "ReconcileExpired env db =
     (db\<lparr>upload_sessions := map (expire (env_clock env 0)) (upload_sessions db)\<rparr>,
      length (filter (\<lambda>u. us_upload_kind u = ''EVIDENCE'' \<and> us_upload_state u = ''PENDING'' \<and>
        us_expires_at u < env_clock env 0) (upload_sessions db)))"

section \<open>Reads\<close>

definition authorizeEvidenceOrganization :: "Principal \<Rightarrow> string \<Rightarrow> evidence_error option" where
  "authorizeEvidenceOrganization actor organizationID =
     (if HasRole actor [RoleAuditee]
      then (if \<not> BelongsTo actor organizationID then Some UploadForbidden else None)
      else if \<not> IsCAA actor then Some UploadForbidden
      else None)"

text \<open>The lead of the inspection's assignment or a current member of its team, in any role.\<close>

definition assignedToInspection :: "string \<Rightarrow> string \<Rightarrow> DB \<Rightarrow> bool" where
  "assignedToInspection inspectionID subject db =
     list_ex (\<lambda>a. aa_inspection_id a = Some inspectionID \<and> aa_tombstoned_at a = None \<and>
         (aa_lead_subject_id a = Some subject \<or>
          list_ex (\<lambda>m. tm_assignment_id m = aa_id a \<and> tm_subject_id m = subject \<and>
             tm_removed_at m = None) (audit_team_members db)))
       (audit_assignments db)"

definition authorizeFindingScope :: "Env \<Rightarrow> Principal \<Rightarrow> string \<Rightarrow> DB \<Rightarrow> evidence_error option" where
  "authorizeFindingScope env actor findingID db =
     (if HasRole actor [RoleAuditee] then None
      else if \<not> IsCAA actor then Some UploadForbidden
      else if HasRole actor [RoleDepartmentManager]
      then (case lookup f_id findingID (findings db) of
              None \<Rightarrow> Some UploadForbidden
            | Some finding \<Rightarrow>
                (case requireCurrentDepartmentScopeAuthority (scope_tables db) (audit_assignments db)
                        (env_today env) actor '''' (f_inspection_id finding) of
                   None \<Rightarrow> None
                 | Some e \<Rightarrow> Some (UploadFailed (err_detail e))))
      else (case lookup f_id findingID (findings db) of
              None \<Rightarrow> Some UploadForbidden
            | Some finding \<Rightarrow>
                if assignedToInspection (f_inspection_id finding) (SubjectID actor) db then None
                else Some UploadForbidden))"

record VersionView =
  vw_ID :: string
  vw_FindingID :: string
  vw_OrganizationID :: string
  vw_Version :: i64
  vw_FileName :: string
  vw_SubmittedAt :: instant
  vw_UploadState :: string
  vw_ScanState :: ScanStatus
  vw_ReviewState :: string
  vw_Revision :: i64

definition version_view :: "EvidenceVersion \<Rightarrow> EvidenceVersionState \<Rightarrow> VersionView" where
  "version_view e s = \<lparr>vw_ID = e_id e, vw_FindingID = e_finding_id e, vw_OrganizationID = e_organization_id e,
     vw_Version = e_version e, vw_FileName = e_filename e, vw_SubmittedAt = e_submitted_at e,
     vw_UploadState = es_upload_state s, vw_ScanState = es_scan_state s,
     vw_ReviewState = es_review_state s, vw_Revision = es_revision s\<rparr>"

definition joined_versions :: "string \<Rightarrow> DB \<Rightarrow> VersionView list" where
  "joined_versions findingID db =
     concat (map (\<lambda>e. map (version_view e)
         (filter (\<lambda>s. es_evidence_version_id s = e_id e) (evidence_version_states db)))
       (sort_key (\<lambda>e. sint (e_version e))
         (filter (\<lambda>e. e_finding_id e = findingID) (evidence_versions db))))"

definition ListVersions :: "Env \<Rightarrow> Principal \<Rightarrow> string \<Rightarrow> DB \<Rightarrow> evidence_error + VersionView list" where
  "ListVersions env actor findingID db =
     (if SubjectID actor = '''' then Inl UploadForbidden
      else (case lookup f_id findingID (findings db) of
        None \<Rightarrow> if HasRole actor [RoleAuditee] then Inl UploadForbidden else Inr []
      | Some finding \<Rightarrow>
          check_error (authorizeEvidenceOrganization actor (f_organization_id finding))
          (check_error (authorizeFindingScope env actor findingID db)
          (if list_ex (\<lambda>v. vw_OrganizationID v \<noteq> f_organization_id finding) (joined_versions findingID db)
           then Inl UploadForbidden
           else Inr (joined_versions findingID db)))))"

definition downloadTTL :: int where "downloadTTL = 5 * 60 * second"

definition canonical_object :: "EvidenceVersion \<Rightarrow> DB \<Rightarrow> (ScanStatus \<times> ObjectMetadata) option" where
  "canonical_object version db =
     (case lookup es_evidence_version_id (e_id version) (evidence_version_states db) of
        None \<Rightarrow> None
      | Some state \<Rightarrow>
          (case es_canonical_object_metadata_id state of
             None \<Rightarrow> None
           | Some object \<Rightarrow>
               map_option (Pair (es_scan_state state)) (lookup om_id object (object_metadata db))))"

definition evidence_Download :: "UploadService \<Rightarrow> Env \<Rightarrow> Principal \<Rightarrow> string \<Rightarrow> DB \<Rightarrow> evidence_error + (string \<times> instant)" where
  "evidence_Download service env actor evidenceVersionID db =
     (if SubjectID actor = '''' then Inl UploadForbidden
      else (case lookup e_id evidenceVersionID (evidence_versions db) of
        None \<Rightarrow> if HasRole actor [RoleAuditee] then Inl UploadForbidden else Inl ErrEvidenceNotReady
      | Some version \<Rightarrow>
          check_error (authorizeEvidenceOrganization actor (e_organization_id version))
          (check_error (authorizeFindingScope env actor (e_finding_id version) db)
          (case canonical_object version db of
             None \<Rightarrow> Inl ErrEvidenceNotReady
           | Some (scanState, object) \<Rightarrow>
               if scanState \<noteq> ScanClean then Inl ErrEvidenceNotReady
               else (case om_bucket_name object of
                 None \<Rightarrow> Inl ErrEvidenceNotReady
               | Some bucket \<Rightarrow>
                   (case os_get_instruction (sv_objects service) bucket (om_object_key object)
                          (env_clock env 0 + downloadTTL) of
                      None \<Rightarrow> Inl (UploadFailed ''create download instruction'')
                    | Some instruction \<Rightarrow> Inr instruction))))))"

section \<open>Inversion\<close>

lemma require_preliminary_None: "require_preliminary inspectionID db = None \<longleftrightarrow> PreliminaryIssued inspectionID db"
  by (simp add: require_preliminary_def)

lemma find_SomeD: "find P xs = Some x \<Longrightarrow> x \<in> set xs \<and> P x"
  by (auto simp: find_Some_iff)

lemma at_stage_Inr [row_simps]: "at_stage stage m = Inr x \<longleftrightarrow> m = Inr x"
  by (simp add: at_stage_def split: sum.splits)

lemma finding_update_Inr [row_simps]:
  "finding_update context fid g db = Inr db' \<longleftrightarrow>
     (\<forall>f \<in> set (findings db). f_id f = fid \<longrightarrow> 0 < sint (f_revision (g f))) \<and>
     db' = db\<lparr>findings := modify f_id fid g (findings db)\<rparr>"
  by (auto simp: finding_update_def list_ex_iff not_le)

lemma uploaded_object_Inr:
  assumes "uploaded_object service session = Inr identity"
  obtains reader info observation where
    "os_open (sv_objects service) (us_bucket_name session) (us_staging_object_key session) = Some (reader, info)"
    "Observe (sv_observer service) reader (sv_maximumByteSize service) = Inr observation"
    "oi_Size info = us_declared_size_bytes session"
    "MatchesDeclaration observation (us_declared_media_type session) (us_declared_sha256 session)
       (us_declared_size_bytes session)"
    "ExactIdentityForPersistence (sv_objects service) info = Some identity"
  using assms by (auto simp: uploaded_object_def split: option.splits sum.splits if_splits prod.splits)

lemma evidence_session_Some:
  "evidence_session uploadID db = Some (session, revision) \<Longrightarrow>
     session \<in> set (upload_sessions db) \<and> us_id session = uploadID \<and> us_upload_kind session = ''EVIDENCE'' \<and>
     us_expected_aggregate_revision session = Some revision"
  by (auto simp: evidence_session_def find_Some_iff split: option.splits)

lemma Complete_writes_Inr:
  assumes "Complete_writes env actor session identity finding db = Inr db'"
  obtains object where
    "object = quarantined_object (env_new_id env ''object'') ''evidence_upload'' session identity (env_clock env 0)"
    "\<not> object_metadata_conflict object (object_metadata db)"
    "\<not> evidence_version_conflict (Complete_version env actor session db) (evidence_versions db)"
    "\<forall>s \<in> set (evidence_version_states db). es_evidence_version_id s \<noteq> env_new_id env ''evidence-version''"
    "\<forall>f \<in> set (findings db). f_id f = us_aggregate_id session \<longrightarrow> 0 < sint (f_revision finding + 1)"
    "db' = db\<lparr>object_metadata := object_metadata db @ [object],
       evidence_versions := evidence_versions db @ [Complete_version env actor session db],
       evidence_version_states := evidence_version_states db @ [Complete_state env],
       upload_sessions := modify us_id (us_id session) (Complete_session env) (upload_sessions db),
       findings := modify f_id (us_aggregate_id session)
         (Complete_finding env (f_revision finding + 1)) (findings db)\<rparr>"
  using assms
  by (auto simp: Complete_writes_def Let_def bind_result_Inr row_simps Complete_finding_def
      Complete_state_def list_ex_iff)

lemma Complete_body_Inr:
  assumes "Complete_body service env actor input db = Inr (db', output)"
  obtains session expectedRevision identity finding mid where
    "evidence_session (ci_UploadID input) db = Some (session, expectedRevision)"
    "us_initiated_by_subject_id session = SubjectID actor" "us_organization_id session = OrganizationID actor"
    "us_upload_state session = ''PENDING''" "env_clock env 0 \<le> us_expires_at session"
    "uploaded_object service session = Inr identity"
    "finding \<in> set (findings db)" "f_id finding = us_aggregate_id session"
    "f_organization_id finding = us_organization_id session"
    "f_revision finding = expectedRevision" "evidence_boundary (f_status finding)"
    "PreliminaryIssued (f_inspection_id finding) db"
    "Complete_writes env actor session identity finding db = Inr mid"
    "persistUploadTransaction (Complete_envelope service env actor input session
       (Complete_version env actor session db)) mid = Inr db'"
    "output = Complete_output (Complete_version env actor session db)"
proof -
  from assms obtain session expectedRevision finding identity mid where
    v: "evidence_session (ci_UploadID input) db = Some (session, expectedRevision)"
    "us_initiated_by_subject_id session = SubjectID actor" "us_organization_id session = OrganizationID actor"
    "us_upload_state session = ''PENDING''" "env_clock env 0 \<le> us_expires_at session"
    "uploaded_object service session = Inr identity"
    and f: "find (\<lambda>f. f_id f = us_aggregate_id session \<and>
       f_organization_id f = us_organization_id session) (findings db) = Some finding"
    and w: "f_revision finding = expectedRevision" "evidence_boundary (f_status finding)"
    "PreliminaryIssued (f_inspection_id finding) db"
    "Complete_writes env actor session identity finding db = Inr mid"
    "persistUploadTransaction (Complete_envelope service env actor input session
       (Complete_version env actor session db)) mid = Inr db'"
    "output = Complete_output (Complete_version env actor session db)"
    by (auto simp: Complete_body_def bind_result_Inr check_error_Inr Let_def if_Inl_Inr
      require_preliminary_None not_less simp del: not_None_eq split: option.splits prod.splits)
  from find_SomeD [OF f] v w show thesis by (intro that [of session expectedRevision identity finding mid]) auto
qed

end
