(* ===== verification/ScanWorker.thy ===== *)
theory ScanWorker
  imports EvidenceUpload
begin

text \<open>
  The malware-scan worker \<open>internal/worker/evidence/worker.go\<close>: it claims a scan message of the outbox
  under a lease, scans and promotes the object, and records the outcome on the Evidence version (or
  Inspection Attachment), the Finding and the ledger in one transaction that ends by marking the
  message delivered under the same lease. \<open>ProcessNext\<close> is the sequence of its transactions \<open>claimNext\<close>,
  \<open>finalizeEvidence\<close> or \<open>finalizeAttachment\<close>, and \<open>recordFailure\<close>. Telemetry and the test hook
  \<open>afterExternalEffect\<close> are not modelled.
\<close>

section \<open>The worker and what it calls\<close>

record ScanResult =
  sc_Clean :: bool
  sc_Reason :: string
  sc_EngineVersion :: string
  sc_SignatureVersion :: string
  sc_ScannedAt :: instant

record ExactObject =
  xo_Bucket :: string
  xo_Key :: string
  xo_VersionID :: string
  xo_ETag :: string
  xo_SHA256 :: string
  xo_Size :: i64

datatype copy_outcome = Copied ObjectInfo | AlreadyExists | CopyFailed string

text \<open>
  \<open>wk_managed\<close> is the managed result provider, if any, \<open>wk_scanner\<close> the scanner on an opened object,
  \<open>wk_copy\<close> and \<open>wk_copy_exact\<close> (\<open>None\<close>: no exact-version store) copy an object to a destination.
\<close>

record Worker =
  wk_workerID :: string
  wk_canonicalBucket :: string
  wk_attachmentBucket :: string
  wk_leaseDuration :: int
  wk_retryDelay :: int
  wk_maximumAttempts :: int
  wk_scanBackend :: string
  wk_managed :: "(ExactObject \<Rightarrow> go_error + ScanResult) option"
  wk_scanner :: "(Reader \<Rightarrow> go_error + ScanResult) option"
  wk_objects :: ObjectStore
  wk_copy :: "string \<Rightarrow> string \<Rightarrow> string \<Rightarrow> string \<Rightarrow> copy_outcome"
  wk_copy_exact :: "(ExactObject \<Rightarrow> string \<Rightarrow> string \<Rightarrow> copy_outcome) option"
  wk_sha256 :: "string \<Rightarrow> string"

record claim =
  cm_ID :: string
  cm_Topic :: string
  cm_AggregateID :: string
  cm_AttemptCount :: int
  cm_CorrelationID :: string

record objectRecord =
  or_OrganizationID :: string
  or_SubjectID :: string
  or_SourceMetadata :: string
  or_SourceBucket :: string
  or_SourceKey :: string
  or_FileName :: string
  or_MediaType :: string
  or_SHA256 :: string
  or_Size :: i64
  or_UploadID :: "string option"
  or_AttachmentVersionID :: string
  or_AttachmentVersion :: i64
  or_VersionID :: string
  or_ETag :: string

section \<open>Claiming\<close>

definition scan_topics :: "string list" where
  "scan_topics = [''evidence.scan_requested'', ''inspection_attachment.scan_requested'']"

definition claimable :: "instant \<Rightarrow> OutboxMessage \<Rightarrow> bool" where
  "claimable now m \<longleftrightarrow> o_topic m \<in> set scan_topics \<and> o_delivered_at m = None \<and>
     o_terminal_state m = None \<and> o_available_at m \<le> now \<and>
     (case o_lease_expires_at m of None \<Rightarrow> True | Some expiry \<Rightarrow> expiry \<le> now)"

definition next_message :: "instant \<Rightarrow> DB \<Rightarrow> OutboxMessage option" where
  "next_message now db =
     (case sort_key (\<lambda>m. (o_available_at m, o_created_at m, o_id m))
             (filter (claimable now) (l_outbox (ledger db))) of
        [] \<Rightarrow> None
      | m # _ \<Rightarrow> Some m)"

definition update_outbox :: "string \<Rightarrow> (OutboxMessage \<Rightarrow> OutboxMessage) \<Rightarrow> DB \<Rightarrow> DB" where
  "update_outbox mid g db =
     db\<lparr>ledger := (ledger db)\<lparr>l_outbox := modify o_id mid g (l_outbox (ledger db))\<rparr>\<rparr>"

definition take_lease :: "Worker \<Rightarrow> instant \<Rightarrow> OutboxMessage \<Rightarrow> OutboxMessage" where
  "take_lease worker now m = m\<lparr>o_lease_owner := Some (wk_workerID worker),
     o_lease_expires_at := Some (now + wk_leaseDuration worker), o_claimed_at := Some now,
     o_attempt_count := o_attempt_count m + 1\<rparr>"

definition claim_of :: "OutboxMessage \<Rightarrow> claim" where
  "claim_of m = \<lparr>cm_ID = o_id m, cm_Topic = o_topic m, cm_AggregateID = o_aggregate_id m,
     cm_AttemptCount = o_attempt_count m + 1,
     cm_CorrelationID = (case o_correlation_id m of None \<Rightarrow> '''' | Some c \<Rightarrow> c)\<rparr>"

definition claimNext :: "Worker \<Rightarrow> instant \<Rightarrow> DB \<Rightarrow> (claim \<times> DB) option" where
  "claimNext worker now db =
     (case next_message now db of
        None \<Rightarrow> None
      | Some m \<Rightarrow> Some (claim_of m, update_outbox (o_id m) (take_lease worker now) db))"

section \<open>Scanning and promoting\<close>

definition exact_source :: "objectRecord \<Rightarrow> ExactObject" where
  "exact_source record = \<lparr>xo_Bucket = or_SourceBucket record, xo_Key = or_SourceKey record,
     xo_VersionID = or_VersionID record, xo_ETag = or_ETag record, xo_SHA256 = or_SHA256 record,
     xo_Size = or_Size record\<rparr>"

definition DisabledScanner :: "instant \<Rightarrow> ScanResult" where
  "DisabledScanner now = \<lparr>sc_Clean = False, sc_Reason = ''content scanning is disabled'',
     sc_EngineVersion = ''disabled'', sc_SignatureVersion = ''not-run'', sc_ScannedAt = now\<rparr>"

definition resolveScan :: "Worker \<Rightarrow> instant \<Rightarrow> objectRecord \<Rightarrow> go_error + ScanResult" where
  "resolveScan worker now record =
     (case wk_managed worker of
        Some resolve \<Rightarrow>
          if or_VersionID record = '''' \<or> or_ETag record = ''''
          then Inl ''managed scan requires captured exact object identity''
          else resolve (exact_source record)
      | None \<Rightarrow>
          if wk_scanBackend worker = ''disabled'' \<or> wk_scanBackend worker = ''''
          then Inr (DisabledScanner now)
          else (case wk_scanner worker of
            None \<Rightarrow> Inl ''Evidence scanner is unavailable''
          | Some scan \<Rightarrow>
              (case os_open (wk_objects worker) (or_SourceBucket record) (or_SourceKey record) of
                 None \<Rightarrow> Inl ''open quarantined object''
               | Some (reader, _) \<Rightarrow> scan reader)))"

definition existingPromotion :: "Worker \<Rightarrow> objectRecord \<Rightarrow> string \<Rightarrow> string \<Rightarrow> bool \<Rightarrow> go_error + ObjectInfo" where
  "existingPromotion worker record bucket key requireVersion =
     (case os_open (wk_objects worker) bucket key of
        None \<Rightarrow> Inl ''open existing canonical object''
      | Some (reader, info) \<Rightarrow>
          if rd_fails reader then Inl ''read existing canonical object''
          else if oi_Size info \<noteq> or_Size record \<or> oi_Sha256 info \<noteq> or_SHA256 record \<or>
                  ''sha256:'' @ wk_sha256 worker (rd_bytes reader) \<noteq> or_SHA256 record \<or>
                  requireVersion \<and> (oi_VersionID info = '''' \<or> oi_ETag info = '''')
          then Inl ''existing canonical object does not match immutable promotion''
          else Inr info)"

definition promote :: "Worker \<Rightarrow> objectRecord \<Rightarrow> string \<Rightarrow> string \<Rightarrow> go_error + ObjectInfo" where
  "promote worker record destinationBucket destinationKey =
     (case wk_managed worker of
        Some _ \<Rightarrow>
          (case wk_copy_exact worker of
             None \<Rightarrow> Inl ''managed scan promotion requires an exact-version object store''
           | Some copy \<Rightarrow>
               (case copy (exact_source record) destinationBucket destinationKey of
                  Copied info \<Rightarrow> Inr info
                | AlreadyExists \<Rightarrow> existingPromotion worker record destinationBucket destinationKey True
                | CopyFailed e \<Rightarrow> Inl e))
      | None \<Rightarrow>
          (case wk_copy worker (or_SourceBucket record) (or_SourceKey record) destinationBucket destinationKey of
             Copied _ \<Rightarrow> Inr \<lparr>oi_VersionID = '''', oi_ETag = '''', oi_Size = or_Size record, oi_Sha256 = ''''\<rparr>
           | AlreadyExists \<Rightarrow> existingPromotion worker record destinationBucket destinationKey False
           | CopyFailed e \<Rightarrow> Inl e))"

section \<open>Statements\<close>

definition markDelivered :: "string \<Rightarrow> instant \<Rightarrow> DB \<Rightarrow> DB" where
  "markDelivered outboxID now db =
     update_outbox outboxID (\<lambda>m. if o_delivered_at m = None
       then m\<lparr>o_delivered_at := Some now, o_lease_owner := None, o_lease_expires_at := None\<rparr> else m) db"

definition holds_lease :: "string \<Rightarrow> string \<Rightarrow> OutboxMessage \<Rightarrow> bool" where
  "holds_lease outboxID workerID m \<longleftrightarrow>
     o_id m = outboxID \<and> o_delivered_at m = None \<and> o_lease_owner m = Some workerID"

definition markDeliveredTx :: "string \<Rightarrow> string \<Rightarrow> instant \<Rightarrow> DB \<Rightarrow> go_error + DB" where
  "markDeliveredTx outboxID workerID now db =
     (if length (filter (holds_lease outboxID workerID) (l_outbox (ledger db))) \<noteq> 1
      then Inl ''scan outbox lease was lost''
      else Inr (markDelivered outboxID now db))"

text \<open>
  The canonical object row. The check is evaluated on the proposed row first; then a row with the
  same key is kept when it has the same digest and version, and otherwise nothing is returned.
\<close>

definition canonical_row :: "Env \<Rightarrow> string \<Rightarrow> string \<Rightarrow> string \<Rightarrow> string \<Rightarrow> objectRecord \<Rightarrow> ObjectInfo \<Rightarrow> ScanResult \<Rightarrow>
    ObjectMetadata" where
  "canonical_row env aggregateType aggregateID bucket key record promoted result =
     \<lparr>om_id = env_new_id env ''canonical-object'', om_aggregate_type = aggregateType,
      om_aggregate_id = aggregateID, om_organization_id = or_OrganizationID record,
      om_bucket_name = Some bucket, om_object_key = key, om_filename = or_FileName record,
      om_media_type = or_MediaType record, om_sha256 = or_SHA256 record, om_size_bytes = or_Size record,
      om_scan_status = ScanClean, om_object_state = ''CANONICAL'', om_upload_id = or_UploadID record,
      om_scan_engine_version = Some (sc_EngineVersion result),
      om_scan_signature_version = Some (sc_SignatureVersion result),
      om_scanned_at = Some (sc_ScannedAt result),
      om_object_version_id = null_if_empty (oi_VersionID promoted),
      om_object_etag = null_if_empty (oi_ETag promoted), om_created_at = env_clock env 0\<rparr>"

definition same_object :: "ObjectMetadata \<Rightarrow> ObjectMetadata \<Rightarrow> bool" where
  "same_object row m \<longleftrightarrow> om_sha256 m = om_sha256 row \<and>
     (case om_object_version_id m of None \<Rightarrow> '''' | Some v \<Rightarrow> v) =
     (case om_object_version_id row of None \<Rightarrow> '''' | Some v \<Rightarrow> v)"

definition upsert_canonical :: "ObjectMetadata \<Rightarrow> DB \<Rightarrow> go_error + (DB \<times> string)" where
  "upsert_canonical row db =
     (if sint (om_size_bytes row) < 0 \<or> \<not> exact_identity_check row
      then Inl ''record canonical object''
      else (case lookup om_object_key (om_object_key row) (object_metadata db) of
        Some existing \<Rightarrow>
          if same_object row existing then Inr (db, om_id existing) else Inl ''record canonical object''
      | None \<Rightarrow>
          if object_metadata_conflict row (object_metadata db) then Inl ''record canonical object''
          else Inr (db\<lparr>object_metadata := object_metadata db @ [row]\<rparr>, om_id row)))"

definition scan_source :: "objectRecord \<Rightarrow> ScanStatus \<Rightarrow> ScanResult \<Rightarrow> DB \<Rightarrow> DB" where
  "scan_source record status result db =
     db\<lparr>object_metadata := modify om_id (or_SourceMetadata record)
       (\<lambda>m. m\<lparr>om_scan_status := status, om_scan_engine_version := Some (sc_EngineVersion result),
              om_scan_signature_version := Some (sc_SignatureVersion result),
              om_scanned_at := Some (sc_ScannedAt result)\<rparr>) (object_metadata db)\<rparr>"

definition system_audit :: "Env \<Rightarrow> string \<Rightarrow> string \<Rightarrow> string \<Rightarrow> string \<Rightarrow> i64 \<Rightarrow> string \<Rightarrow> string \<Rightarrow> string \<Rightarrow>
    (string \<times> string) list \<Rightarrow> AuditEvent" where
  "system_audit env organizationID action entityType entityID entityVersion afterStatus operationID
     correlationID details =
     \<lparr>ae_event_id = env_new_id env ''worker-audit'', ae_occurred_at = env_clock env 0,
      ae_actor_subject_id = None, ae_actor_role = ''system'', ae_organization_id = organizationID,
      ae_action = action, ae_entity_type = entityType, ae_entity_id = entityID,
      ae_entity_version = entityVersion, ae_before_status = Some ''PENDING'',
      ae_after_status = afterStatus, ae_reason = None, ae_operation_id = Some operationID,
      ae_correlation_id = correlationID, ae_closure_basis = None, ae_details = details\<rparr>"

text \<open>
  The three rows the worker adds to the ledger: an audit event, a synchronisation change, and an
  outbox message whose repeated key is ignored.
\<close>

definition append_system :: "AuditEvent \<Rightarrow> (int \<Rightarrow> SyncChange) \<Rightarrow> OutboxMessage \<Rightarrow> DB \<Rightarrow> go_error + DB" where
  "append_system event change message db =
     (let l = ledger db; n = l_next_sequence l in
      if audit_conflict event (l_audit_events l) then Inl ''append scan audit''
      else if list_ex (\<lambda>s. sy_sequence_id s = n) (l_sync_changes l) then Inl ''append scan sync change''
      else if list_ex (\<lambda>m. o_idempotency_key m = o_idempotency_key message) (l_outbox l)
      then Inr (db\<lparr>ledger := l\<lparr>l_audit_events := l_audit_events l @ [event],
             l_sync_changes := l_sync_changes l @ [change n], l_next_sequence := n + 1\<rparr>\<rparr>)
      else if list_ex (\<lambda>m. o_id m = o_id message) (l_outbox l) then Inl ''enqueue scan event''
      else Inr (db\<lparr>ledger := l\<lparr>l_audit_events := l_audit_events l @ [event],
             l_sync_changes := l_sync_changes l @ [change n], l_next_sequence := n + 1,
             l_outbox := l_outbox l @ [message]\<rparr>\<rparr>))"

definition system_change :: "Env \<Rightarrow> string \<Rightarrow> string \<Rightarrow> string \<Rightarrow> string \<Rightarrow> i64 \<Rightarrow> Payload \<Rightarrow> string option \<Rightarrow>
    string option \<Rightarrow> int \<Rightarrow> SyncChange" where
  "system_change env subjectID organizationID kind entityID revision payload operationID correlationID n =
     \<lparr>sy_sequence_id = n, sy_subject_id = subjectID, sy_organization_id = organizationID,
      sy_package_id = None, sy_kind = kind, sy_entity_id = entityID, sy_entity_revision = revision,
      sy_payload = payload, sy_changed_at = env_clock env 0, sy_operation_id = operationID,
      sy_correlation_id = correlationID\<rparr>"

section \<open>Evidence\<close>

definition scan_status_text :: "ScanStatus \<Rightarrow> string" where
  "scan_status_text s = (case s of ScanPending \<Rightarrow> ''PENDING'' | ScanClean \<Rightarrow> ''CLEAN''
     | ScanQuarantined \<Rightarrow> ''QUARANTINED'' | ScanOther t \<Rightarrow> t)"

definition ScanFailed :: ScanStatus where "ScanFailed = ScanOther ''FAILED''"

definition object_record :: "string \<Rightarrow> string \<Rightarrow> ObjectMetadata \<Rightarrow> string \<Rightarrow> i64 \<Rightarrow> objectRecord" where
  "object_record organizationID subjectID m attachmentVersionID attachmentVersion =
     \<lparr>or_OrganizationID = organizationID, or_SubjectID = subjectID, or_SourceMetadata = om_id m,
      or_SourceBucket = or_empty (om_bucket_name m), or_SourceKey = om_object_key m,
      or_FileName = om_filename m, or_MediaType = om_media_type m, or_SHA256 = om_sha256 m,
      or_Size = om_size_bytes m, or_UploadID = om_upload_id m,
      or_AttachmentVersionID = attachmentVersionID, or_AttachmentVersion = attachmentVersion,
      or_VersionID = or_empty (om_object_version_id m), or_ETag = or_empty (om_object_etag m)\<rparr>"

definition load_evidence :: "string \<Rightarrow> DB \<Rightarrow> (objectRecord \<times> ScanStatus) option" where
  "load_evidence evidenceVersionID db =
     (case lookup e_id evidenceVersionID (evidence_versions db) of
        None \<Rightarrow> None
      | Some version \<Rightarrow>
          (case (e_object_metadata_id version,
                 lookup es_evidence_version_id evidenceVersionID (evidence_version_states db)) of
             (Some object, Some state) \<Rightarrow>
               (case lookup om_id object (object_metadata db) of
                  None \<Rightarrow> None
                | Some m \<Rightarrow>
                    if om_bucket_name m = None then None
                    else Some (object_record (e_organization_id version)
                      (e_submitted_by_subject_id version) m '''' 0, es_scan_state state))
           | _ \<Rightarrow> None))"

text \<open>The version, its state and its Finding, joined and locked by \<open>finalizeEvidence\<close>.\<close>

definition scan_context :: "string \<Rightarrow> DB \<Rightarrow> (EvidenceVersion \<times> EvidenceVersionState \<times> Finding) option" where
  "scan_context evidenceVersionID db =
     (case (lookup e_id evidenceVersionID (evidence_versions db),
            lookup es_evidence_version_id evidenceVersionID (evidence_version_states db)) of
        (Some version, Some state) \<Rightarrow>
          map_option (\<lambda>f. (version, state, f)) (lookup f_id (e_finding_id version) (findings db))
      | _ \<Rightarrow> None)"

definition scanned_state :: "Env \<Rightarrow> bool \<Rightarrow> string \<Rightarrow> string \<Rightarrow> EvidenceVersionState \<Rightarrow> EvidenceVersionState" where
  "scanned_state env clean canonicalID reason s =
     (if clean
      then s\<lparr>es_scan_state := ScanClean, es_review_state := ''PENDING_CAA_REVIEW'',
             es_canonical_object_metadata_id := Some canonicalID, es_scan_reason := None,
             es_revision := es_revision s + 1, es_updated_at := env_clock env 0\<rparr>
      else s\<lparr>es_scan_state := ScanQuarantined, es_review_state := ''NOT_READY'',
             es_scan_reason := Some reason, es_revision := es_revision s + 1,
             es_updated_at := env_clock env 0\<rparr>)"

definition update_state :: "string \<Rightarrow> (EvidenceVersionState \<Rightarrow> EvidenceVersionState) \<Rightarrow> DB \<Rightarrow> go_error + DB" where
  "update_state evidenceVersionID g db =
     (if list_ex (\<lambda>e. es_evidence_version_id e = evidenceVersionID \<and> sint (es_revision (g e)) \<le> 0)
           (evidence_version_states db)
      then Inl ''update Evidence processing state''
      else Inr (db\<lparr>evidence_version_states :=
        modify es_evidence_version_id evidenceVersionID g (evidence_version_states db)\<rparr>))"

text \<open>\<open>UPDATE findings ... WHERE id = $1 AND status = 'EVIDENCE_SUBMITTED'\<close>.\<close>

definition scanned_finding :: "Env \<Rightarrow> FindingStatus \<Rightarrow> string \<Rightarrow> i64 \<Rightarrow> Finding \<Rightarrow> Finding" where
  "scanned_finding env status nextAction revision f =
     (if f_status f = FStatusEvidenceSubmitted
      then f\<lparr>f_status := status, f_next_action := nextAction, f_revision := revision,
             f_updated_at := env_clock env 0\<rparr>
      else f)"

definition update_submitted_finding :: "Env \<Rightarrow> string \<Rightarrow> FindingStatus \<Rightarrow> string \<Rightarrow> i64 \<Rightarrow> DB \<Rightarrow> go_error + DB" where
  "update_submitted_finding env findingID status nextAction revision db =
     (if list_ex (\<lambda>f. f_id f = findingID \<and> f_status f = FStatusEvidenceSubmitted \<and> sint revision \<le> 0)
           (findings db)
      then Inl ''update Finding''
      else Inr (db\<lparr>findings := modify f_id findingID (scanned_finding env status nextAction revision)
        (findings db)\<rparr>))"

definition evidence_projection :: "string \<Rightarrow> string \<Rightarrow> string \<Rightarrow> string \<Rightarrow> string option \<Rightarrow> Payload" where
  "evidence_projection versionID scanState reviewStatus findingStatus reason = EvidenceScanPayload
     \<lparr>xp_evidenceVersionId = versionID, xp_scanState = scanState, xp_reviewState = reviewStatus,
      xp_findingStatus = findingStatus, xp_reason = reason\<rparr>"

definition record_clean :: "Worker \<Rightarrow> Env \<Rightarrow> claim \<Rightarrow> objectRecord \<Rightarrow> string \<Rightarrow> ObjectInfo \<Rightarrow> ScanResult \<Rightarrow>
    Finding \<Rightarrow> DB \<Rightarrow> go_error + DB" where
  "record_clean worker env claimed record destinationKey promoted result finding db =
     bind_result (upsert_canonical (canonical_row env ''evidence_version'' (cm_AggregateID claimed)
       (wk_canonicalBucket worker) destinationKey record promoted result) db) (\<lambda>(db1, canonicalID).
     bind_result (update_state (cm_AggregateID claimed) (scanned_state env True canonicalID '''') db1) (\<lambda>db2.
     update_submitted_finding env (f_id finding) FStatusPendingCAAReview ''CAA reviews Evidence''
       (f_revision finding + 1) db2))"

definition record_quarantined :: "Env \<Rightarrow> claim \<Rightarrow> ScanResult \<Rightarrow> Finding \<Rightarrow> DB \<Rightarrow> go_error + DB" where
  "record_quarantined env claimed result finding db =
     bind_result (update_state (cm_AggregateID claimed) (scanned_state env False '''' (sc_Reason result)) db) (\<lambda>db2.
     update_submitted_finding env (f_id finding) FStatusEvidenceMoreInformationRequested
       ''Auditee submits replacement Evidence'' (f_revision finding + 1) db2)"

definition evidence_events :: "Env \<Rightarrow> claim \<Rightarrow> objectRecord \<Rightarrow> bool \<Rightarrow> DB \<Rightarrow> go_error + DB" where
  "evidence_events env claimed record clean db =
     (let scanState = (if clean then ''CLEAN'' else ''QUARANTINED'');
          reviewStatus = (if clean then ''PENDING_CAA_REVIEW'' else ''NOT_READY'');
          findingStatus = (if clean then ''PENDING_CAA_REVIEW'' else ''EVIDENCE_MORE_INFORMATION_REQUESTED'');
          projection = evidence_projection (cm_AggregateID claimed) scanState reviewStatus findingStatus None;
          operationID = ''scan:'' @ cm_AggregateID claimed in
      append_system
        (system_audit env (or_OrganizationID record) ''evidence.scan_completed'' ''evidence_version''
          (cm_AggregateID claimed) 2 scanState operationID operationID
          [(''reviewState'', reviewStatus), (''scanState'', scanState)])
        (system_change env (or_SubjectID record) (or_OrganizationID record) ''evidence_version''
          (cm_AggregateID claimed) 2 projection None None)
        (new_message (env_new_id env ''worker-outbox'') ''evidence.scan_completed'' ''evidence_version''
          (cm_AggregateID claimed) projection (env_clock env 0)
          (Some (''evidence.scan_completed:'' @ cm_AggregateID claimed)) None None (env_now env))
        db)"

definition terminal_scan :: "ScanStatus \<Rightarrow> bool" where
  "terminal_scan s \<longleftrightarrow> s = ScanClean \<or> s = ScanQuarantined"

definition finalizeEvidence :: "Worker \<Rightarrow> Env \<Rightarrow> claim \<Rightarrow> objectRecord \<Rightarrow> string \<Rightarrow> ObjectInfo \<Rightarrow> ScanResult \<Rightarrow> DB \<Rightarrow>
    go_error + DB" where
  "finalizeEvidence worker env claimed record destinationKey promoted result db =
     (case scan_context (cm_AggregateID claimed) db of
        None \<Rightarrow> Inl ''no rows in result set''
      | Some (version, state, finding) \<Rightarrow>
        if terminal_scan (es_scan_state state)
        then markDeliveredTx (cm_ID claimed) (wk_workerID worker) (env_clock env 0) db
        else bind_result
          (if sc_Clean result
           then record_clean worker env claimed record destinationKey promoted result finding db
           else record_quarantined env claimed result finding db) (\<lambda>db1.
          bind_result (evidence_events env claimed record (sc_Clean result)
            (scan_source record (if sc_Clean result then ScanClean else ScanQuarantined) result db1)) (\<lambda>db2.
          markDeliveredTx (cm_ID claimed) (wk_workerID worker) (env_clock env 0) db2)))"

definition evidence_key :: "objectRecord \<Rightarrow> claim \<Rightarrow> string" where
  "evidence_key record claimed = ''organizations/'' @ or_OrganizationID record @ ''/canonical-evidence/'' @
     cm_AggregateID claimed"

definition no_object :: ObjectInfo where
  "no_object = \<lparr>oi_VersionID = '''', oi_ETag = '''', oi_Size = 0, oi_Sha256 = ''''\<rparr>"

definition processEvidence :: "Worker \<Rightarrow> Env \<Rightarrow> claim \<Rightarrow> DB \<Rightarrow> go_error + DB" where
  "processEvidence worker env claimed db =
     (case load_evidence (cm_AggregateID claimed) db of
        None \<Rightarrow> Inl ''load Evidence scan input''
      | Some (record, currentScan) \<Rightarrow>
        if terminal_scan currentScan then Inr (markDelivered (cm_ID claimed) (env_clock env 0) db)
        else bind_result (resolveScan worker (env_clock env 1) record) (\<lambda>result.
          bind_result (if sc_Clean result
             then promote worker record (wk_canonicalBucket worker) (evidence_key record claimed)
             else Inr no_object) (\<lambda>promoted.
          finalizeEvidence worker env claimed record (evidence_key record claimed) promoted result db)))"

section \<open>Failure of an Evidence scan\<close>

definition failed_state :: "Env \<Rightarrow> string \<Rightarrow> EvidenceVersionState \<Rightarrow> EvidenceVersionState" where
  "failed_state env reason s =
     (if es_scan_state s = ScanPending
      then s\<lparr>es_scan_state := ScanFailed, es_review_state := ''NOT_READY'', es_scan_reason := Some reason,
             es_revision := es_revision s + 1, es_updated_at := env_clock env 0\<rparr>
      else s)"

definition fail_object :: "string \<Rightarrow> DB \<Rightarrow> DB" where
  "fail_object objectID db =
     db\<lparr>object_metadata := modify om_id objectID (\<lambda>m. m\<lparr>om_scan_status := ScanFailed\<rparr>) (object_metadata db)\<rparr>"

definition failed_message :: "Env \<Rightarrow> string \<Rightarrow> string \<Rightarrow> string \<Rightarrow> Payload \<Rightarrow> string option \<Rightarrow> OutboxMessage" where
  "failed_message env topic entityType entityID payload operationID =
     (new_message (env_new_id env ''worker-outbox'') topic entityType entityID payload (env_clock env 0)
       (Some (topic @ '':'' @ entityID)) operationID None (env_now env))\<lparr>o_terminal_state := Some ''RECORDED''\<rparr>"

definition evidence_failure_events :: "Env \<Rightarrow> string \<Rightarrow> EvidenceVersion \<Rightarrow> EvidenceVersionState \<Rightarrow> FindingStatus \<Rightarrow>
    string \<Rightarrow> DB \<Rightarrow> go_error + DB" where
  "evidence_failure_events env versionID version state findingStatus reason db =
     (let projection = evidence_projection versionID ''FAILED'' ''NOT_READY''
            (finding_status_text findingStatus) (Some reason);
          operationID = ''scan:'' @ versionID in
      append_system
        (system_audit env (e_organization_id version) ''evidence.scan_failed'' ''evidence_version'' versionID
          (es_revision state + 1) ''FAILED'' operationID operationID
          [(''reason'', reason), (''reviewState'', ''NOT_READY''), (''scanState'', ''FAILED'')])
        (system_change env (e_submitted_by_subject_id version) (e_organization_id version)
          ''evidence_version'' versionID (es_revision state + 1) projection None None)
        (failed_message env ''evidence.scan_failed'' ''evidence_version'' versionID projection None)
        db)"

definition recordEvidenceTerminalFailure :: "Env \<Rightarrow> claim \<Rightarrow> string \<Rightarrow> DB \<Rightarrow> go_error + DB" where
  "recordEvidenceTerminalFailure env claimed reason db =
     (case scan_context (cm_AggregateID claimed) db of
        None \<Rightarrow> Inl ''no rows in result set''
      | Some (version, state, finding) \<Rightarrow>
        (case (case e_object_metadata_id version of None \<Rightarrow> None
               | Some object \<Rightarrow> lookup om_id object (object_metadata db)) of
           None \<Rightarrow> Inl ''no rows in result set''
         | Some object \<Rightarrow>
           if es_scan_state state \<noteq> ScanPending then Inr db
           else bind_result (update_state (cm_AggregateID claimed) (failed_state env reason) db) (\<lambda>db1.
             let submitted = f_status finding = FStatusEvidenceSubmitted;
                 findingStatus = (if submitted then FStatusEvidenceMoreInformationRequested
                                  else f_status finding) in
             bind_result (if submitted
               then update_submitted_finding env (f_id finding) findingStatus
                 ''Auditee submits replacement Evidence'' (f_revision finding + 1) (fail_object (om_id object) db1)
               else Inr (fail_object (om_id object) db1)) (\<lambda>db2.
             evidence_failure_events env (cm_AggregateID claimed) version state findingStatus reason db2))))"

section \<open>Inspection Attachments\<close>

text \<open>The attachment joined with its current version and, optionally, the object of that version.\<close>

definition attachment_context :: "string \<Rightarrow> DB \<Rightarrow> (InspectionAttachment \<times> InspectionAttachmentVersion) option" where
  "attachment_context attachmentID db =
     (case lookup at_id attachmentID (inspection_attachments db) of
        None \<Rightarrow> None
      | Some attachment \<Rightarrow>
          map_option (Pair attachment)
            (find (\<lambda>v. at_current_version_id attachment = Some (iv_id v) \<and>
                 iv_inspection_attachment_id v = attachmentID \<and>
                 at_object_metadata_id attachment = Some (iv_source_object_metadata_id v))
               (inspection_attachment_versions db)))"

definition load_attachment :: "string \<Rightarrow> DB \<Rightarrow> (objectRecord \<times> ScanStatus) option" where
  "load_attachment attachmentID db =
     (case attachment_context attachmentID db of
        None \<Rightarrow> None
      | Some (attachment, version) \<Rightarrow>
          (case lookup om_id (iv_source_object_metadata_id version) (object_metadata db) of
             None \<Rightarrow> None
           | Some m \<Rightarrow>
               if om_bucket_name m = None then None
               else Some (object_record (at_organization_id attachment)
                 (at_created_by_subject_id attachment) m (iv_id version) (iv_version version),
                 at_scan_state attachment)))"

definition scanned_attachment :: "Env \<Rightarrow> ScanStatus \<Rightarrow> string option \<Rightarrow> InspectionAttachment \<Rightarrow> InspectionAttachment" where
  "scanned_attachment env status canonicalID a =
     a\<lparr>at_scan_state := status, at_canonical_object_metadata_id := canonicalID,
       at_revision := at_revision a + 1, at_updated_at := env_clock env 0\<rparr>"

definition attachment_pending :: "string \<Rightarrow> InspectionAttachment \<Rightarrow> bool" where
  "attachment_pending attachmentID a \<longleftrightarrow> at_id a = attachmentID \<and> at_scan_state a = ScanPending"

definition update_attachment :: "(InspectionAttachment \<Rightarrow> bool) \<Rightarrow> (InspectionAttachment \<Rightarrow> InspectionAttachment) \<Rightarrow>
    DB \<Rightarrow> go_error + DB" where
  "update_attachment matches g db =
     (if list_ex (\<lambda>a. matches a \<and> sint (at_revision (g a)) \<le> 0) (inspection_attachments db)
      then Inl ''update Inspection Attachment''
      else Inr (db\<lparr>inspection_attachments :=
        map (\<lambda>a. if matches a then g a else a) (inspection_attachments db)\<rparr>))"

text \<open>The unique index on the canonical object of an attachment.\<close>

definition canonical_taken :: "string \<Rightarrow> string option \<Rightarrow> DB \<Rightarrow> bool" where
  "canonical_taken attachmentID canonicalID db \<longleftrightarrow> canonicalID \<noteq> None \<and>
     list_ex (\<lambda>a. at_id a \<noteq> attachmentID \<and> at_canonical_object_metadata_id a = canonicalID)
       (inspection_attachments db)"

definition attachment_projection :: "string \<Rightarrow> string \<Rightarrow> i64 option \<Rightarrow> string \<Rightarrow> string option \<Rightarrow> Payload" where
  "attachment_projection attachmentID versionID version scanState reason = AttachmentScanPayload
     \<lparr>yp_inspectionAttachmentId = attachmentID, yp_inspectionAttachmentVersionId = versionID,
      yp_version = version, yp_scanState = scanState, yp_reason = reason\<rparr>"

definition attachment_events :: "Env \<Rightarrow> claim \<Rightarrow> objectRecord \<Rightarrow> i64 \<Rightarrow> ScanStatus \<Rightarrow> DB \<Rightarrow> go_error + DB" where
  "attachment_events env claimed record revision status db =
     (let state = scan_status_text status; operationID = ''scan:'' @ or_AttachmentVersionID record;
          projection = attachment_projection (cm_AggregateID claimed) (or_AttachmentVersionID record)
            (Some (or_AttachmentVersion record)) state None in
      append_system
        (system_audit env (or_OrganizationID record) ''inspection_attachment.scan_completed''
          ''inspection_attachment_version'' (or_AttachmentVersionID record) (revision + 1) state
          operationID (cm_CorrelationID claimed)
          [(''inspectionAttachmentId'', cm_AggregateID claimed),
           (''inspectionAttachmentVersionId'', or_AttachmentVersionID record), (''scanState'', state),
           (''version'', decimal (sint (or_AttachmentVersion record)))])
        (system_change env (or_SubjectID record) (or_OrganizationID record)
          ''inspection_attachment_version'' (or_AttachmentVersionID record) (revision + 1) projection
          (Some operationID) (null_if_empty (cm_CorrelationID claimed)))
        (new_message (env_new_id env ''worker-outbox'') ''inspection_attachment.scan_completed''
          ''inspection_attachment_version'' (or_AttachmentVersionID record) projection (env_clock env 0)
          (Some (''inspection_attachment.scan_completed:'' @ or_AttachmentVersionID record))
          (Some operationID) (null_if_empty (cm_CorrelationID claimed)) (env_now env))
        db)"

definition finalizeAttachment :: "Worker \<Rightarrow> Env \<Rightarrow> claim \<Rightarrow> objectRecord \<Rightarrow> string \<Rightarrow> ObjectInfo \<Rightarrow> ScanResult \<Rightarrow> DB \<Rightarrow>
    go_error + DB" where
  "finalizeAttachment worker env claimed record destinationKey promoted result db =
     (case attachment_context (cm_AggregateID claimed) db of
        None \<Rightarrow> Inl ''lock immutable Inspection Attachment version''
      | Some (attachment, version) \<Rightarrow>
        if iv_id version \<noteq> or_AttachmentVersionID record
        then Inl ''lock immutable Inspection Attachment version''
        else if terminal_scan (at_scan_state attachment)
        then markDeliveredTx (cm_ID claimed) (wk_workerID worker) (env_clock env 0) db
        else if at_scan_state attachment \<noteq> ScanPending
        then Inl (''Inspection Attachment scan is not pending: '' @ scan_status_text (at_scan_state attachment))
        else bind_result
          (if sc_Clean result
           then bind_result (upsert_canonical (canonical_row env ''inspection_attachment'' (cm_AggregateID claimed)
               (wk_attachmentBucket worker) destinationKey record promoted result) db)
             (\<lambda>(db1, canonicalID). Inr (db1, ScanClean, Some canonicalID))
           else Inr (db, ScanQuarantined, None)) (\<lambda>(db1, status, canonicalID).
          if canonical_taken (cm_AggregateID claimed) canonicalID db1
          then Inl ''update Inspection Attachment''
          else bind_result (update_attachment (\<lambda>a. attachment_pending (cm_AggregateID claimed) a \<and>
              at_current_version_id a = Some (or_AttachmentVersionID record))
              (scanned_attachment env status canonicalID) db1) (\<lambda>db2.
          bind_result (attachment_events env claimed record (at_revision attachment) status
            (scan_source record status result db2)) (\<lambda>db3.
          markDeliveredTx (cm_ID claimed) (wk_workerID worker) (env_clock env 0) db3))))"

definition attachment_key :: "objectRecord \<Rightarrow> claim \<Rightarrow> string" where
  "attachment_key record claimed = ''organizations/'' @ or_OrganizationID record @
     ''/inspection-attachments/'' @ cm_AggregateID claimed"

definition processAttachment :: "Worker \<Rightarrow> Env \<Rightarrow> claim \<Rightarrow> DB \<Rightarrow> go_error + DB" where
  "processAttachment worker env claimed db =
     (case load_attachment (cm_AggregateID claimed) db of
        None \<Rightarrow> Inl ''load immutable Inspection Attachment version''
      | Some (record, scanState) \<Rightarrow>
        if terminal_scan scanState then Inr (markDelivered (cm_ID claimed) (env_clock env 0) db)
        else bind_result (resolveScan worker (env_clock env 1) record) (\<lambda>result.
          bind_result (if sc_Clean result
             then promote worker record (wk_attachmentBucket worker) (attachment_key record claimed)
             else Inr no_object) (\<lambda>promoted.
          finalizeAttachment worker env claimed record (attachment_key record claimed) promoted result db)))"

definition failed_attachment :: "Env \<Rightarrow> InspectionAttachment \<Rightarrow> InspectionAttachment" where
  "failed_attachment env a = a\<lparr>at_scan_state := ScanFailed, at_revision := at_revision a + 1,
     at_updated_at := env_clock env 0\<rparr>"

definition attachment_failure_events :: "Env \<Rightarrow> claim \<Rightarrow> InspectionAttachment \<Rightarrow> InspectionAttachmentVersion \<Rightarrow>
    string \<Rightarrow> DB \<Rightarrow> go_error + DB" where
  "attachment_failure_events env claimed attachment version reason db =
     (let operationID = ''scan:'' @ cm_AggregateID claimed;
          projection = attachment_projection (cm_AggregateID claimed) (iv_id version) None ''FAILED'' (Some reason) in
      append_system
        (system_audit env (at_organization_id attachment) ''inspection_attachment.scan_failed''
          ''inspection_attachment_version'' (iv_id version) (at_revision attachment + 1) ''FAILED''
          operationID operationID [(''reason'', reason), (''scanState'', ''FAILED'')])
        (system_change env (at_created_by_subject_id attachment) (at_organization_id attachment)
          ''inspection_attachment_version'' (iv_id version) (at_revision attachment + 1) projection
          (Some operationID) None)
        (failed_message env ''inspection_attachment.scan_failed'' ''inspection_attachment_version''
          (iv_id version) projection (Some operationID))
        db)"

definition recordAttachmentTerminalFailure :: "Env \<Rightarrow> claim \<Rightarrow> string \<Rightarrow> DB \<Rightarrow> go_error + DB" where
  "recordAttachmentTerminalFailure env claimed reason db =
     (case attachment_context (cm_AggregateID claimed) db of
        None \<Rightarrow> Inl ''no rows in result set''
      | Some (attachment, version) \<Rightarrow>
        (case lookup om_id (iv_source_object_metadata_id version) (object_metadata db) of
           None \<Rightarrow> Inl ''no rows in result set''
         | Some object \<Rightarrow>
           if at_scan_state attachment \<noteq> ScanPending then Inr db
           else bind_result (update_attachment (attachment_pending (cm_AggregateID claimed))
               (failed_attachment env) db) (\<lambda>db1.
             attachment_failure_events env claimed attachment version reason
               (fail_object (om_id object) db1))))"

section \<open>Recording a failure\<close>

definition fail_message :: "string \<Rightarrow> OutboxMessage \<Rightarrow> OutboxMessage" where
  "fail_message reason m = (if o_delivered_at m = None
     then m\<lparr>o_terminal_state := Some ''FAILED'', o_last_error := Some reason, o_lease_owner := None,
            o_lease_expires_at := None\<rparr> else m)"

definition retry_message :: "Worker \<Rightarrow> instant \<Rightarrow> string \<Rightarrow> OutboxMessage \<Rightarrow> OutboxMessage" where
  "retry_message worker now reason m = (if o_delivered_at m = None
     then m\<lparr>o_last_error := Some reason, o_available_at := now + wk_retryDelay worker,
            o_lease_owner := None, o_lease_expires_at := None\<rparr> else m)"

definition recordFailure :: "Worker \<Rightarrow> Env \<Rightarrow> claim \<Rightarrow> string \<Rightarrow> DB \<Rightarrow> go_error + DB" where
  "recordFailure worker env claimed reason db =
     (if wk_maximumAttempts worker \<le> cm_AttemptCount claimed
      then (let db1 = update_outbox (cm_ID claimed) (fail_message reason) db in
        if cm_Topic claimed = ''evidence.scan_requested''
        then recordEvidenceTerminalFailure env claimed reason db1
        else if cm_Topic claimed = ''inspection_attachment.scan_requested''
        then recordAttachmentTerminalFailure env claimed reason db1
        else Inr db1)
      else Inr (update_outbox (cm_ID claimed) (retry_message worker (env_clock env 0) reason) db))"

section \<open>One round of the worker\<close>

definition process_claim :: "Worker \<Rightarrow> Env \<Rightarrow> claim \<Rightarrow> DB \<Rightarrow> go_error + DB" where
  "process_claim worker env claimed db =
     (if cm_Topic claimed = ''evidence.scan_requested'' then processEvidence worker env claimed db
      else if cm_Topic claimed = ''inspection_attachment.scan_requested''
      then processAttachment worker env claimed db
      else Inl (''unsupported scan topic '' @ cm_Topic claimed))"

text \<open>
  A round without interference: the database it leaves and the error it returns. A failed transaction
  leaves what was committed before it.
\<close>

definition ProcessNext :: "Worker \<Rightarrow> Env \<Rightarrow> Env \<Rightarrow> DB \<Rightarrow> DB \<times> bool \<times> go_error option" where
  "ProcessNext worker env env' db =
     (case claimNext worker (env_clock env 0) db of
        None \<Rightarrow> (db, False, None)
      | Some (claimed, db1) \<Rightarrow>
          (case process_claim worker env claimed db1 of
             Inr db2 \<Rightarrow> (db2, True, None)
           | Inl e \<Rightarrow>
               (case recordFailure worker env' claimed e db1 of
                  Inr db2 \<Rightarrow> (db2, True, Some e)
                | Inl e' \<Rightarrow> (db1, True, Some (e @ [CHR 0x0A] @ e')))))"

end
