(* ===== verification/LedgerGrowth.thy ===== *)
theory LedgerGrowth
  imports ScanWorker "HOL-Library.Sublist"
begin

text \<open>
  The ledger only grows: every transaction appends to the audit trail, the synchronisation changes,
  the stored responses and the links, and changes of an outbox message at most its delivery columns.
\<close>

text \<open>A message without its delivery columns.\<close>

definition sealed :: "OutboxMessage \<Rightarrow> OutboxMessage" where
  "sealed m = m\<lparr>o_available_at := 0, o_lease_owner := None, o_lease_expires_at := None,
     o_claimed_at := None, o_delivered_at := None, o_terminal_state := None, o_attempt_count := 0,
     o_last_error := None\<rparr>"

definition ledger_grows :: "Ledger \<Rightarrow> Ledger \<Rightarrow> bool" where
  "ledger_grows l l' \<longleftrightarrow>
     prefix (l_audit_events l) (l_audit_events l') \<and> prefix (l_sync_changes l) (l_sync_changes l') \<and>
     prefix (l_responses l) (l_responses l') \<and> prefix (l_links l) (l_links l') \<and>
     prefix (map sealed (l_outbox l)) (map sealed (l_outbox l')) \<and>
     l_next_sequence l \<le> l_next_sequence l'"

lemma ledger_grows_refl [simp, intro]: "ledger_grows l l"
  by (simp add: ledger_grows_def)

lemma ledger_grows_trans: "ledger_grows l l' \<Longrightarrow> ledger_grows l' l'' \<Longrightarrow> ledger_grows l l''"
  by (auto simp: ledger_grows_def intro: prefix_order.trans)

lemma sealed_fields:
  assumes "sealed m = sealed m'"
  shows "o_id m = o_id m'" "o_operation_id m = o_operation_id m'" "o_topic m = o_topic m'"
    "o_aggregate_id m = o_aggregate_id m'" "o_payload m = o_payload m'"
    "o_idempotency_key m = o_idempotency_key m'"
  using assms by (cases m; cases m'; simp add: sealed_def)+

lemma keeps_ledger_grows: "keeps_ledger l l' \<Longrightarrow> ledger_grows l l'"
  by (auto simp: keeps_ledger_def ledger_grows_def)

lemma persistCommandTransaction_grows: "persistCommandTransaction r l = Inr l' \<Longrightarrow> ledger_grows l l'"
  by (auto simp: persistCommandTransaction_Inr ledger_grows_def)

lemma persistUploadTransaction_grows:
  "persistUploadTransaction r db = Inr db' \<Longrightarrow> ledger_grows (ledger db) (ledger db')"
  by (drule persistUploadTransaction_Inr) (auto simp: ledger_grows_def)

lemma saveIdempotent_grows:
  "saveIdempotent scope op h output now db = Inr db' \<Longrightarrow> ledger_grows (ledger db) (ledger db')"
  by (drule saveIdempotent_Inr) (auto simp: ledger_grows_def)

section \<open>Delivery updates\<close>

definition delivery_update :: "(OutboxMessage \<Rightarrow> OutboxMessage) \<Rightarrow> bool" where
  "delivery_update g \<longleftrightarrow> (\<forall>m. sealed (g m) = sealed m)"

lemma map_sealed_modify: "delivery_update g \<Longrightarrow> map sealed (modify o_id mid g rows) = map sealed rows"
  by (auto simp: delivery_update_def modify_def)

lemma delivery_updates [simp, intro]:
  "delivery_update (take_lease worker now)" "delivery_update (fail_message reason)"
  "delivery_update (retry_message worker now reason)"
  "delivery_update (\<lambda>m. if o_delivered_at m = None
       then m\<lparr>o_delivered_at := Some now, o_lease_owner := None, o_lease_expires_at := None\<rparr> else m)"
  by (auto simp: delivery_update_def sealed_def take_lease_def fail_message_def retry_message_def)

lemma ledger_wf_outbox:
  assumes "map sealed rows = map sealed (l_outbox l)" and wf: "ledger_wf l"
  shows "ledger_wf (l\<lparr>l_outbox := rows\<rparr>)"
proof -
  have len: "length rows = length (l_outbox l)" using assms(1) by (metis length_map)
  have nth: "o_id (rows ! i) = o_id (l_outbox l ! i) \<and>
      o_operation_id (rows ! i) = o_operation_id (l_outbox l ! i)" if "i < length rows" for i
    using assms(1) that len by (metis nth_map sealed_fields(1,2))
  then have ids: "map o_id rows = map o_id (l_outbox l)" using len by (intro nth_equalityI) auto
  have "link_resolves (l\<lparr>l_outbox := rows\<rparr>) n" if "link_resolves l n" for n
  proof -
    from that obtain m where "m \<in> set (l_outbox l)" "o_id m = ln_outbox_message_id n"
      "o_operation_id m = Some (ln_operation_id n)" by (auto simp: link_resolves_def)
    then have "\<exists>m' \<in> set rows. o_id m' = ln_outbox_message_id n \<and> o_operation_id m' = Some (ln_operation_id n)"
      using nth len by (metis in_set_conv_nth)
    with that show ?thesis by (simp add: link_resolves_def)
  qed
  with wf ids show ?thesis by (auto simp: ledger_wf_def)
qed

lemma update_outbox_ledger:
  assumes "delivery_update g"
  shows "ledger_grows (ledger db) (ledger (update_outbox mid g db))"
    and "ledger_wf (ledger db) \<Longrightarrow> ledger_wf (ledger (update_outbox mid g db))"
  using assms
  by (auto simp: update_outbox_def ledger_grows_def map_sealed_modify intro: ledger_wf_outbox)

lemma markDeliveredTx_Inr:
  "markDeliveredTx mid w now db = Inr db' \<Longrightarrow>
     (\<exists>m \<in> set (l_outbox (ledger db)). holds_lease mid w m) \<and> db' = markDelivered mid now db"
  by (auto simp: markDeliveredTx_def filter_eq_Cons_iff length_Suc_conv split: if_splits)

section \<open>The events of the worker\<close>

lemma append_system_Inr:
  assumes "append_system event change message db = Inr db'"
  obtains extra where
    "\<not> audit_conflict event (l_audit_events (ledger db))"
    "extra = [] \<or> extra = [message] \<and> o_id message \<notin> set (map o_id (l_outbox (ledger db)))"
    "db' = db\<lparr>ledger := (ledger db)\<lparr>l_audit_events := l_audit_events (ledger db) @ [event],
       l_sync_changes := l_sync_changes (ledger db) @ [change (l_next_sequence (ledger db))],
       l_next_sequence := l_next_sequence (ledger db) + 1,
       l_outbox := l_outbox (ledger db) @ extra\<rparr>\<rparr>"
proof -
  let ?l = "ledger db"
  show thesis
  proof (cases "list_ex (\<lambda>m. o_idempotency_key m = o_idempotency_key message) (l_outbox ?l)")
    case True
    with assms show thesis
      by (intro that [of "[]"]) (auto simp: append_system_def Let_def split: if_splits)
  next
    case False
    with assms show thesis
      by (intro that [of "[message]"]) (auto simp: append_system_def Let_def list_ex_iff split: if_splits)
  qed
qed

lemma append_system_ledger:
  assumes run: "append_system event change message db = Inr db'"
    and seq: "\<And>n. sy_sequence_id (change n) = n"
  shows "ledger_grows (ledger db) (ledger db')"
    and "ledger_wf (ledger db) \<Longrightarrow> ledger_wf (ledger db')"
    and "\<exists>l. db' = db\<lparr>ledger := l\<rparr>"
proof -
  from run obtain extra where x:
    "\<not> audit_conflict event (l_audit_events (ledger db))"
    "extra = [] \<or> extra = [message] \<and> o_id message \<notin> set (map o_id (l_outbox (ledger db)))"
    "db' = db\<lparr>ledger := (ledger db)\<lparr>l_audit_events := l_audit_events (ledger db) @ [event],
       l_sync_changes := l_sync_changes (ledger db) @ [change (l_next_sequence (ledger db))],
       l_next_sequence := l_next_sequence (ledger db) + 1,
       l_outbox := l_outbox (ledger db) @ extra\<rparr>\<rparr>" by (rule append_system_Inr)
  from x show "ledger_grows (ledger db) (ledger db')" by (auto simp: ledger_grows_def)
  from x show "\<exists>l. db' = db\<lparr>ledger := l\<rparr>" by blast
  assume wf: "ledger_wf (ledger db)"
  have fresh: "ae_event_id event \<notin> set (map ae_event_id (l_audit_events (ledger db)))"
    using x(1) by (auto simp: audit_conflict_def list_ex_iff)
  have "link_resolves (ledger db') n" if "n \<in> set (l_links (ledger db))" for n
    using wf that x(3) by (auto simp: ledger_wf_def intro: link_resolves_append)
  moreover have "distinct (map o_id (l_outbox (ledger db) @ extra))"
    using x(2) wf by (auto simp: ledger_wf_def) (metis image_eqI)
  ultimately show "ledger_wf (ledger db')"
    using wf fresh unfolding x(3)
    by (auto simp: ledger_wf_def seq less_le_trans simp del: distinct_append map_append dest: less_imp_neq)
      (auto simp: seq dest: less_imp_neq)
qed

end
