(* ===== verification/ScanLaws.thy ===== *)
theory ScanLaws
  imports LedgerGrowth
begin

text \<open>
  What a successful transaction of the scan worker has checked and changed: \<open>finalizeEvidence\<close>,
  \<open>finalizeAttachment\<close>, \<open>recordFailure\<close> and \<open>claimNext\<close>.
\<close>

section \<open>Statements\<close>

lemma update_state_Inr [row_simps]:
  "update_state eid g db = Inr db' \<longleftrightarrow>
     (\<forall>e \<in> set (evidence_version_states db). es_evidence_version_id e = eid \<longrightarrow> 0 < sint (es_revision (g e))) \<and>
     db' = db\<lparr>evidence_version_states :=
        modify es_evidence_version_id eid g (evidence_version_states db)\<rparr>"
  by (auto simp: update_state_def list_ex_iff not_le)

lemma update_submitted_finding_Inr [row_simps]:
  "update_submitted_finding env fid status nextAction revision db = Inr db' \<longleftrightarrow>
     (\<forall>f \<in> set (findings db). f_id f = fid \<and> f_status f = FStatusEvidenceSubmitted \<longrightarrow> 0 < sint revision) \<and>
     db' = db\<lparr>findings := modify f_id fid (scanned_finding env status nextAction revision) (findings db)\<rparr>"
  by (auto simp: update_submitted_finding_def list_ex_iff not_le)

lemma upsert_canonical_Inr:
  assumes "upsert_canonical row db = Inr (db', canonicalID)"
  shows "\<exists>objects. db' = db\<lparr>object_metadata := objects\<rparr>" "exact_identity_check row"
proof -
  show "exact_identity_check row"
    using assms by (auto simp: upsert_canonical_def split: if_splits)
  show "\<exists>objects. db' = db\<lparr>object_metadata := objects\<rparr>"
  proof (cases "lookup om_object_key (om_object_key row) (object_metadata db)")
    case (Some existing)
    with assms have "db' = db\<lparr>object_metadata := object_metadata db\<rparr>"
      by (auto simp: upsert_canonical_def split: if_splits)
    then show ?thesis by blast
  qed (use assms in \<open>auto simp: upsert_canonical_def split: if_splits\<close>)
qed

lemma scan_context_Some:
  assumes "scan_context vid db = Some (version, state, finding)"
  shows "version \<in> set (evidence_versions db)" "e_id version = vid"
    "lookup es_evidence_version_id vid (evidence_version_states db) = Some state"
    "lookup f_id (e_finding_id version) (findings db) = Some finding"
  using assms by (auto simp: scan_context_def dest: lookup_Some split: option.splits)

section \<open>finalizeEvidence\<close>

text \<open>The status a scanned Finding takes and the step its owner sees next.\<close>

definition scan_outcome :: "bool \<Rightarrow> FindingStatus \<times> string" where
  "scan_outcome clean =
     (if clean then (FStatusPendingCAAReview, ''CAA reviews Evidence'')
      else (FStatusEvidenceMoreInformationRequested, ''Auditee submits replacement Evidence''))"

lemma record_outcome:
  assumes "(if sc_Clean result then record_clean worker env claimed record key promoted result finding db
     else record_quarantined env claimed result finding db) = Inr db'"
  obtains canonicalID objects where
    "db' = db\<lparr>object_metadata := objects,
       evidence_version_states := modify es_evidence_version_id (cm_AggregateID claimed)
         (scanned_state env (sc_Clean result) canonicalID (sc_Reason result)) (evidence_version_states db),
       findings := modify f_id (f_id finding) (scanned_finding env (fst (scan_outcome (sc_Clean result)))
         (snd (scan_outcome (sc_Clean result))) (f_revision finding + 1)) (findings db)\<rparr>"
    "sc_Clean result \<longrightarrow> exact_identity_check (canonical_row env ''evidence_version''
       (cm_AggregateID claimed) (wk_canonicalBucket worker) key record promoted result)"
    "\<forall>f \<in> set (findings db). f_id f = f_id finding \<and> f_status f = FStatusEvidenceSubmitted \<longrightarrow>
       0 < sint (f_revision finding + 1)"
proof (cases "sc_Clean result")
  case True
  let ?row = "canonical_row env ''evidence_version'' (cm_AggregateID claimed)
       (wk_canonicalBucket worker) key record promoted result"
  from assms True obtain db1 canonicalID where
    up: "upsert_canonical ?row db = Inr (db1, canonicalID)"
    and pos: "\<forall>f \<in> set (findings db1). f_id f = f_id finding \<and> f_status f = FStatusEvidenceSubmitted \<longrightarrow>
       0 < sint (f_revision finding + 1)"
    and rest: "db' = db1\<lparr>evidence_version_states := modify es_evidence_version_id (cm_AggregateID claimed)
         (scanned_state env True canonicalID '''') (evidence_version_states db1),
       findings := modify f_id (f_id finding) (scanned_finding env FStatusPendingCAAReview
         ''CAA reviews Evidence'' (f_revision finding + 1)) (findings db1)\<rparr>"
    by (auto simp: record_clean_def bind_result_Inr row_simps split: prod.splits)
  from upsert_canonical_Inr [OF up] obtain objects where
    "db1 = db\<lparr>object_metadata := objects\<rparr>" "exact_identity_check ?row" by blast
  moreover from this(1) pos have "\<forall>f \<in> set (findings db). f_id f = f_id finding \<and> f_status f = FStatusEvidenceSubmitted \<longrightarrow>
       0 < sint (f_revision finding + 1)" by simp
  moreover have "scanned_state env True canonicalID '''' = scanned_state env True canonicalID (sc_Reason result)"
    by (auto simp: scanned_state_def)
  ultimately show thesis
    using rest True by (intro that [of canonicalID objects]) (simp_all add: scan_outcome_def)
next
  case False
  then have quarantined: "scanned_state env False '''' (sc_Reason result) =
      scanned_state env (sc_Clean result) '''' (sc_Reason result)" by simp
  from assms False obtain db1 where
    u: "update_state (cm_AggregateID claimed) (scanned_state env False '''' (sc_Reason result)) db = Inr db1"
    and f: "update_submitted_finding env (f_id finding) FStatusEvidenceMoreInformationRequested
      ''Auditee submits replacement Evidence'' (f_revision finding + 1) db1 = Inr db'"
    by (auto simp: record_quarantined_def bind_result_Inr)
  from u f have "\<forall>f \<in> set (findings db). f_id f = f_id finding \<and> f_status f = FStatusEvidenceSubmitted \<longrightarrow>
       0 < sint (f_revision finding + 1)"
    unfolding row_simps by clarsimp
  moreover from u f have "db' = db\<lparr>object_metadata := object_metadata db,
       evidence_version_states := modify es_evidence_version_id (cm_AggregateID claimed)
         (scanned_state env False '''' (sc_Reason result)) (evidence_version_states db),
       findings := modify f_id (f_id finding) (scanned_finding env FStatusEvidenceMoreInformationRequested
         ''Auditee submits replacement Evidence'' (f_revision finding + 1)) (findings db)\<rparr>"
    unfolding row_simps by simp
  ultimately show thesis using False
    by (intro that [of "''''" "object_metadata db"]) (simp_all add: scan_outcome_def)
qed

lemma evidence_events_ledger:
  assumes "evidence_events env claimed record clean db = Inr db'"
  shows "ledger_grows (ledger db) (ledger db')" "ledger_wf (ledger db) \<Longrightarrow> ledger_wf (ledger db')"
    "\<exists>l. db' = db\<lparr>ledger := l\<rparr>"
proof -
  from assms obtain event change message where
    a: "append_system event change message db = Inr db'" and s: "\<And>n. sy_sequence_id (change n) = n"
    by (auto simp: evidence_events_def Let_def system_change_def)
  from append_system_ledger [OF a s] show "ledger_grows (ledger db) (ledger db')"
    "ledger_wf (ledger db) \<Longrightarrow> ledger_wf (ledger db')" "\<exists>l. db' = db\<lparr>ledger := l\<rparr>" by auto
qed

lemma markDelivered_ledger:
  "ledger_grows (ledger db) (ledger (markDelivered mid now db))"
  "ledger_wf (ledger db) \<Longrightarrow> ledger_wf (ledger (markDelivered mid now db))"
  "\<exists>l. markDelivered mid now db = db\<lparr>ledger := l\<rparr>"
  unfolding markDelivered_def
  by (rule update_outbox_ledger; blast)+ (auto simp: update_outbox_def)

lemma markDelivered_delivers:
  assumes "m \<in> set (l_outbox (ledger db))" "o_id m = mid"
  shows "\<exists>m' \<in> set (l_outbox (ledger (markDelivered mid now db))). o_id m' = mid \<and> o_delivered_at m' \<noteq> None"
proof -
  let ?g = "\<lambda>r. if o_id r = mid then if o_delivered_at r = None
    then r\<lparr>o_delivered_at := Some now, o_lease_owner := None, o_lease_expires_at := None\<rparr> else r else r"
  have "?g m \<in> set (l_outbox (ledger (markDelivered mid now db)))"
    using assms by (auto simp: markDelivered_def update_outbox_def modify_def)
  moreover have "o_id (?g m) = mid" "o_delivered_at (?g m) \<noteq> None" using assms by auto
  ultimately show ?thesis by blast
qed

lemma finalizeEvidence_Inr:
  assumes "finalizeEvidence worker env claimed record key promoted result db = Inr db'"
  obtains (delivered) version state finding where
      "scan_context (cm_AggregateID claimed) db = Some (version, state, finding)"
      "terminal_scan (es_scan_state state)"
      "db' = markDelivered (cm_ID claimed) (env_clock env 0) db"
  | (scanned) version state finding canonicalID objects l where
      "scan_context (cm_AggregateID claimed) db = Some (version, state, finding)"
      "\<not> terminal_scan (es_scan_state state)"
      "sc_Clean result \<longrightarrow> exact_identity_check (canonical_row env ''evidence_version''
         (cm_AggregateID claimed) (wk_canonicalBucket worker) key record promoted result)"
      "db' = db\<lparr>object_metadata := objects,
         evidence_version_states := modify es_evidence_version_id (cm_AggregateID claimed)
           (scanned_state env (sc_Clean result) canonicalID (sc_Reason result)) (evidence_version_states db),
         findings := modify f_id (f_id finding) (scanned_finding env (fst (scan_outcome (sc_Clean result)))
           (snd (scan_outcome (sc_Clean result))) (f_revision finding + 1)) (findings db),
         ledger := l\<rparr>"
      "\<forall>f \<in> set (findings db). f_id f = f_id finding \<and> f_status f = FStatusEvidenceSubmitted \<longrightarrow>
       0 < sint (f_revision finding + 1)"
      "ledger_grows (ledger db) l" "ledger_wf (ledger db) \<longrightarrow> ledger_wf l"
      "\<exists>m \<in> set (l_outbox (ledger db')). o_id m = cm_ID claimed \<and> o_delivered_at m \<noteq> None"
proof -
  from assms obtain version state finding where
    ctx: "scan_context (cm_AggregateID claimed) db = Some (version, state, finding)"
    by (auto simp: finalizeEvidence_def split: option.splits)
  show thesis
  proof (cases "terminal_scan (es_scan_state state)")
    case True
    with assms ctx markDeliveredTx_Inr show thesis
      by (intro delivered [OF ctx]) (auto simp: finalizeEvidence_def)
  next
    case False
    let ?status = "if sc_Clean result then ScanClean else ScanQuarantined"
    from assms ctx False obtain db1 db2 where
      r: "(if sc_Clean result then record_clean worker env claimed record key promoted result finding db
           else record_quarantined env claimed result finding db) = Inr db1"
      and e: "evidence_events env claimed record (sc_Clean result) (scan_source record ?status result db1) = Inr db2"
      and m: "markDeliveredTx (cm_ID claimed) (wk_workerID worker) (env_clock env 0) db2 = Inr db'"
      by (auto simp: finalizeEvidence_def bind_result_Inr split: if_splits)
    from record_outcome [OF r] obtain canonicalID objects where
      d1: "db1 = db\<lparr>object_metadata := objects,
         evidence_version_states := modify es_evidence_version_id (cm_AggregateID claimed)
           (scanned_state env (sc_Clean result) canonicalID (sc_Reason result)) (evidence_version_states db),
         findings := modify f_id (f_id finding) (scanned_finding env (fst (scan_outcome (sc_Clean result)))
           (snd (scan_outcome (sc_Clean result))) (f_revision finding + 1)) (findings db)\<rparr>"
      and c: "sc_Clean result \<longrightarrow> exact_identity_check (canonical_row env ''evidence_version''
         (cm_AggregateID claimed) (wk_canonicalBucket worker) key record promoted result)"
      and pos: "\<forall>f \<in> set (findings db). f_id f = f_id finding \<and> f_status f = FStatusEvidenceSubmitted \<longrightarrow>
       0 < sint (f_revision finding + 1)" by blast
    from evidence_events_ledger [OF e] d1 obtain l1 where
      d2: "db2 = (scan_source record ?status result db1)\<lparr>ledger := l1\<rparr>"
      and l1: "ledger_grows (ledger db) l1" "ledger_wf (ledger db) \<longrightarrow> ledger_wf l1"
      by (auto simp: scan_source_def)
    from markDeliveredTx_Inr [OF m] obtain msg where msg: "msg \<in> set (l_outbox (ledger db2))"
      "holds_lease (cm_ID claimed) (wk_workerID worker) msg"
      and d3: "db' = markDelivered (cm_ID claimed) (env_clock env 0) db2" by blast
    from markDelivered_ledger [where db = db2 and mid = "cm_ID claimed" and now = "env_clock env 0"] d2 d3 obtain l where
      d4: "db' = db2\<lparr>ledger := l\<rparr>" and l: "ledger_grows l1 l" "ledger_wf l1 \<longrightarrow> ledger_wf l"
      by (auto simp: scan_source_def)
    have "\<exists>m \<in> set (l_outbox (ledger db')). o_id m = cm_ID claimed \<and> o_delivered_at m \<noteq> None"
      unfolding d3 by (rule markDelivered_delivers [OF msg(1)]) (use msg(2) in \<open>simp add: holds_lease_def\<close>)
    then show thesis
      using l l1 by (intro scanned [OF ctx False c _ pos, where canonicalID = canonicalID and objects = "object_metadata db'" and l = l])
        (auto simp: d4 d2 d1 scan_source_def intro: ledger_grows_trans)
  qed
qed

section \<open>The other transactions\<close>

lemma update_attachment_Inr:
  "update_attachment matches g db = Inr db' \<Longrightarrow> \<exists>rows. db' = db\<lparr>inspection_attachments := rows\<rparr>"
  by (auto simp: update_attachment_def split: if_splits)

lemma attachment_events_ledger:
  assumes "attachment_events env claimed record revision status db = Inr db'"
  shows "ledger_grows (ledger db) (ledger db')" "ledger_wf (ledger db) \<Longrightarrow> ledger_wf (ledger db')"
    "\<exists>l. db' = db\<lparr>ledger := l\<rparr>"
proof -
  from assms obtain event change message where
    a: "append_system event change message db = Inr db'" and s: "\<And>n. sy_sequence_id (change n) = n"
    by (auto simp: attachment_events_def Let_def system_change_def)
  from append_system_ledger [OF a s] show "ledger_grows (ledger db) (ledger db')"
    "ledger_wf (ledger db) \<Longrightarrow> ledger_wf (ledger db')" "\<exists>l. db' = db\<lparr>ledger := l\<rparr>" by auto
qed

lemma attachment_failure_events_ledger:
  assumes "attachment_failure_events env claimed attachment version reason db = Inr db'"
  shows "ledger_grows (ledger db) (ledger db')" "ledger_wf (ledger db) \<Longrightarrow> ledger_wf (ledger db')"
    "\<exists>l. db' = db\<lparr>ledger := l\<rparr>"
proof -
  from assms obtain event change message where
    a: "append_system event change message db = Inr db'" and s: "\<And>n. sy_sequence_id (change n) = n"
    by (auto simp: attachment_failure_events_def Let_def system_change_def)
  from append_system_ledger [OF a s] show "ledger_grows (ledger db) (ledger db')"
    "ledger_wf (ledger db) \<Longrightarrow> ledger_wf (ledger db')" "\<exists>l. db' = db\<lparr>ledger := l\<rparr>" by auto
qed

lemma evidence_failure_events_ledger:
  assumes "evidence_failure_events env vid version state findingStatus reason db = Inr db'"
  shows "ledger_grows (ledger db) (ledger db')" "ledger_wf (ledger db) \<Longrightarrow> ledger_wf (ledger db')"
    "\<exists>l. db' = db\<lparr>ledger := l\<rparr>"
proof -
  from assms obtain event change message where
    a: "append_system event change message db = Inr db'" and s: "\<And>n. sy_sequence_id (change n) = n"
    by (auto simp: evidence_failure_events_def Let_def system_change_def)
  from append_system_ledger [OF a s] show "ledger_grows (ledger db) (ledger db')"
    "ledger_wf (ledger db) \<Longrightarrow> ledger_wf (ledger db')" "\<exists>l. db' = db\<lparr>ledger := l\<rparr>" by auto
qed

text \<open>What a transaction that leaves Findings and Evidence alone may change.\<close>

definition attachment_frame :: "DB \<Rightarrow> DB \<Rightarrow> bool" where
  "attachment_frame db db' \<longleftrightarrow>
     (\<exists>objects rows l. db' = db\<lparr>object_metadata := objects, inspection_attachments := rows, ledger := l\<rparr> \<and>
        ledger_grows (ledger db) l \<and> (ledger_wf (ledger db) \<longrightarrow> ledger_wf l))"

lemma attachment_frameI:
  assumes "db' = db\<lparr>object_metadata := object_metadata db',
      inspection_attachments := inspection_attachments db', ledger := ledger db'\<rparr>"
    and "ledger_grows (ledger db) (ledger db')" "ledger_wf (ledger db) \<Longrightarrow> ledger_wf (ledger db')"
  shows "attachment_frame db db'"
  unfolding attachment_frame_def using assms by blast

lemma attachment_frame_trans:
  assumes "attachment_frame db db'" "attachment_frame db' db''"
  shows "attachment_frame db db''"
proof -
  from assms(1) obtain objects rows l where d: "db' = db\<lparr>object_metadata := objects,
      inspection_attachments := rows, ledger := l\<rparr>"
    "ledger_grows (ledger db) l" "ledger_wf (ledger db) \<longrightarrow> ledger_wf l"
    by (auto simp only: attachment_frame_def)
  from assms(2) obtain objects' rows' l' where e: "db'' = db'\<lparr>object_metadata := objects',
      inspection_attachments := rows', ledger := l'\<rparr>"
    "ledger_grows (ledger db') l'" "ledger_wf (ledger db') \<longrightarrow> ledger_wf l'"
    by (auto simp only: attachment_frame_def)
  have "db'' = db\<lparr>object_metadata := objects', inspection_attachments := rows', ledger := l'\<rparr>"
    using d(1) e(1) by simp
  moreover have "ledger_grows (ledger db) l'" using d e(2) ledger_grows_trans by simp
  moreover have "ledger_wf (ledger db) \<longrightarrow> ledger_wf l'" using d e(3) by simp
  ultimately show ?thesis unfolding attachment_frame_def by blast
qed

lemma attachment_frame_ledger:
  assumes "\<exists>l. db' = db\<lparr>ledger := l\<rparr>" "ledger_grows (ledger db) (ledger db')"
    "ledger_wf (ledger db) \<Longrightarrow> ledger_wf (ledger db')"
  shows "attachment_frame db db'"
  using assms by (intro attachment_frameI) auto

lemma update_outbox_frame: "delivery_update g \<Longrightarrow> attachment_frame db (update_outbox mid g db)"
  by (intro attachment_frame_ledger update_outbox_ledger) (auto simp: update_outbox_def)

lemma markDelivered_frame: "attachment_frame db (markDelivered mid now db)"
  unfolding markDelivered_def by (rule update_outbox_frame) blast

lemma markDeliveredTx_frame: "markDeliveredTx mid w now db = Inr db' \<Longrightarrow> attachment_frame db db'"
  using markDeliveredTx_Inr [of mid w now db db'] markDelivered_frame by simp

lemma rows_frame:
  "attachment_frame db (db\<lparr>inspection_attachments := rows\<rparr>)"
  "attachment_frame db (db\<lparr>object_metadata := objects\<rparr>)"
  by (intro attachment_frameI; simp)+

lemma finalizeAttachment_Inr:
  assumes "finalizeAttachment worker env claimed record key promoted result db = Inr db'"
  shows "attachment_frame db db'"
proof -
  from assms obtain attachment version where
    ctx: "attachment_context (cm_AggregateID claimed) db = Some (attachment, version)"
    by (auto simp: finalizeAttachment_def split: option.splits)
  show ?thesis
  proof (cases "terminal_scan (at_scan_state attachment)")
    case True
    with assms ctx show ?thesis by (auto simp: finalizeAttachment_def if_Inl_Inr intro: markDeliveredTx_frame)
  next
    case False
    with assms ctx obtain db1 status canonicalID db2 db3 where
      b: "(if sc_Clean result
           then bind_result (upsert_canonical (canonical_row env ''inspection_attachment'' (cm_AggregateID claimed)
               (wk_attachmentBucket worker) key record promoted result) db)
             (\<lambda>(db1, canonicalID). Inr (db1, ScanClean, Some canonicalID))
           else Inr (db, ScanQuarantined, None)) = (Inr (db1, status, canonicalID) :: go_error + _)"
      and u: "update_attachment (\<lambda>a. attachment_pending (cm_AggregateID claimed) a \<and>
              at_current_version_id a = Some (or_AttachmentVersionID record))
              (scanned_attachment env status canonicalID) db1 = Inr db2"
      and e: "attachment_events env claimed record (at_revision attachment) status
            (scan_source record status result db2) = Inr db3"
      and m: "markDeliveredTx (cm_ID claimed) (wk_workerID worker) (env_clock env 0) db3 = Inr db'"
      by (clarsimp simp: finalizeAttachment_def bind_result_Inr if_Inl_Inr)
    have "attachment_frame db db1"
      using b upsert_canonical_Inr(1) rows_frame(2) [of db]
      by (auto simp: bind_result_Inr intro: attachment_frameI split: if_splits) (metis rows_frame(2))
    moreover have "attachment_frame db1 db2" using update_attachment_Inr [OF u] rows_frame(1) by metis
    moreover have "attachment_frame db2 (scan_source record status result db2)"
      unfolding scan_source_def by (rule rows_frame)
    moreover have "attachment_frame (scan_source record status result db2) db3"
      using attachment_events_ledger [OF e] by (intro attachment_frame_ledger) auto
    moreover have "attachment_frame db3 db'" using m by (rule markDeliveredTx_frame)
    ultimately show ?thesis by (blast intro: attachment_frame_trans)
  qed
qed

lemma recordAttachmentTerminalFailure_Inr:
  assumes "recordAttachmentTerminalFailure env claimed reason db = Inr db'"
  shows "attachment_frame db db'"
proof -
  from assms obtain attachment version object where
    ctx: "attachment_context (cm_AggregateID claimed) db = Some (attachment, version)"
    "lookup om_id (iv_source_object_metadata_id version) (object_metadata db) = Some object"
    by (auto simp: recordAttachmentTerminalFailure_def split: option.splits)
  show ?thesis
  proof (cases "at_scan_state attachment = ScanPending")
    case False
    with assms ctx show ?thesis by (auto simp: recordAttachmentTerminalFailure_def intro: attachment_frameI)
  next
    case True
    with assms ctx obtain db1 where
      u: "update_attachment (attachment_pending (cm_AggregateID claimed)) (failed_attachment env) db = Inr db1"
      and e: "attachment_failure_events env claimed attachment version reason (fail_object (om_id object) db1) = Inr db'"
      by (auto simp: recordAttachmentTerminalFailure_def bind_result_Inr)
    have "attachment_frame db db1" using update_attachment_Inr [OF u] rows_frame(1) by metis
    moreover have "attachment_frame db1 (fail_object (om_id object) db1)"
      unfolding fail_object_def by (rule rows_frame)
    moreover have "attachment_frame (fail_object (om_id object) db1) db'"
      using attachment_failure_events_ledger [OF e] by (intro attachment_frame_ledger) auto
    ultimately show ?thesis by (blast intro: attachment_frame_trans)
  qed
qed

lemma claimNext_Some:
  assumes "claimNext worker now db = Some (claimed, db')"
  obtains m where "m \<in> set (l_outbox (ledger db))" "claimable now m" "claimed = claim_of m"
    "db' = update_outbox (o_id m) (take_lease worker now) db" "attachment_frame db db'"
proof -
  from assms obtain m where m: "next_message now db = Some m" "claimed = claim_of m"
    "db' = update_outbox (o_id m) (take_lease worker now) db"
    by (auto simp: claimNext_def split: option.splits)
  from m(1) obtain rest where "sort_key (\<lambda>m. (o_available_at m, o_created_at m, o_id m))
      (filter (claimable now) (l_outbox (ledger db))) = m # rest"
    by (auto simp: next_message_def split: list.splits)
  then have "m \<in> set (sort_key (\<lambda>m. (o_available_at m, o_created_at m, o_id m))
      (filter (claimable now) (l_outbox (ledger db))))" by simp
  then have "m \<in> set (l_outbox (ledger db))" "claimable now m" by (simp_all only: set_sort) auto
  moreover have "attachment_frame db db'" using m by (simp add: update_outbox_frame)
  ultimately show thesis using m that by blast
qed

section \<open>recordFailure\<close>

text \<open>The Findings after a failed scan: a submitted one goes back to the auditee.\<close>

definition failed_findings :: "Env \<Rightarrow> Finding \<Rightarrow> Finding list \<Rightarrow> Finding list" where
  "failed_findings env finding rows =
     (if f_status finding = FStatusEvidenceSubmitted
      then modify f_id (f_id finding) (scanned_finding env FStatusEvidenceMoreInformationRequested
        ''Auditee submits replacement Evidence'' (f_revision finding + 1)) rows
      else rows)"

lemma recordEvidenceTerminalFailure_Inr:
  assumes "recordEvidenceTerminalFailure env claimed reason db = Inr db'"
  obtains (kept) "db' = db"
  | (failed) version state finding objects l where
      "scan_context (cm_AggregateID claimed) db = Some (version, state, finding)"
      "es_scan_state state = ScanPending"
      "f_status finding = FStatusEvidenceSubmitted \<longrightarrow>
         (\<forall>f \<in> set (findings db). f_id f = f_id finding \<and> f_status f = FStatusEvidenceSubmitted \<longrightarrow>
            0 < sint (f_revision finding + 1))"
      "db' = db\<lparr>object_metadata := objects,
         evidence_version_states := modify es_evidence_version_id (cm_AggregateID claimed)
           (failed_state env reason) (evidence_version_states db),
         findings := failed_findings env finding (findings db), ledger := l\<rparr>"
      "ledger_grows (ledger db) l" "ledger_wf (ledger db) \<longrightarrow> ledger_wf l"
proof -
  from assms obtain version state finding object where
    ctx: "scan_context (cm_AggregateID claimed) db = Some (version, state, finding)"
    "(case e_object_metadata_id version of None \<Rightarrow> None
      | Some object \<Rightarrow> lookup om_id object (object_metadata db)) = Some object"
    by (auto simp: recordEvidenceTerminalFailure_def split: option.splits)
  show thesis
  proof (cases "es_scan_state state = ScanPending")
    case False
    with assms ctx show thesis by (intro kept) (simp add: recordEvidenceTerminalFailure_def)
  next
    case True
    let ?submitted = "f_status finding = FStatusEvidenceSubmitted"
    let ?status = "if ?submitted then FStatusEvidenceMoreInformationRequested else f_status finding"
    from assms ctx True obtain db1 db2 where
      u: "update_state (cm_AggregateID claimed) (failed_state env reason) db = Inr db1"
      and f: "(if ?submitted then update_submitted_finding env (f_id finding) ?status
          ''Auditee submits replacement Evidence'' (f_revision finding + 1) (fail_object (om_id object) db1)
        else Inr (fail_object (om_id object) db1)) = Inr db2"
      and e: "evidence_failure_events env (cm_AggregateID claimed) version state ?status reason db2 = Inr db'"
      by (auto simp: recordEvidenceTerminalFailure_def bind_result_Inr Let_def)
    have d2: "db2 = (fail_object (om_id object) db1)\<lparr>findings := failed_findings env finding (findings db)\<rparr>"
      using f u by (auto simp: row_simps failed_findings_def fail_object_def split: if_splits)
    have pos: "?submitted \<longrightarrow> (\<forall>f \<in> set (findings db). f_id f = f_id finding \<and> f_status f = FStatusEvidenceSubmitted
        \<longrightarrow> 0 < sint (f_revision finding + 1))"
      using f u by (auto simp: row_simps fail_object_def split: if_splits)
    from evidence_failure_events_ledger [OF e] d2 u obtain l where
      "db' = db2\<lparr>ledger := l\<rparr>" "ledger_grows (ledger db) l" "ledger_wf (ledger db) \<longrightarrow> ledger_wf l"
      by (auto simp: row_simps fail_object_def)
    with d2 u show thesis
      by (intro failed [OF ctx(1) True pos, where objects = "object_metadata db2" and l = l])
        (auto simp: row_simps fail_object_def)
  qed
qed

lemma scan_context_outbox [simp]: "scan_context vid (update_outbox mid g db) = scan_context vid db"
  by (simp add: scan_context_def update_outbox_def cong: option.case_cong)

lemma update_outbox_fields [simp]:
  "findings (update_outbox mid g db) = findings db"
  "evidence_version_states (update_outbox mid g db) = evidence_version_states db"
  "(update_outbox mid g db)\<lparr>object_metadata := objects, evidence_version_states := states,
     findings := fs, ledger := l\<rparr> =
   db\<lparr>object_metadata := objects, evidence_version_states := states, findings := fs, ledger := l\<rparr>"
  by (simp_all add: update_outbox_def)

lemma recordFailure_Inr:
  assumes "recordFailure worker env claimed reason db = Inr db'"
  obtains (other) "attachment_frame db db'"
  | (failed) version state finding objects l where
      "scan_context (cm_AggregateID claimed) db = Some (version, state, finding)"
      "es_scan_state state = ScanPending"
      "f_status finding = FStatusEvidenceSubmitted \<longrightarrow>
         (\<forall>f \<in> set (findings db). f_id f = f_id finding \<and> f_status f = FStatusEvidenceSubmitted \<longrightarrow>
            0 < sint (f_revision finding + 1))"
      "db' = db\<lparr>object_metadata := objects,
         evidence_version_states := modify es_evidence_version_id (cm_AggregateID claimed)
           (failed_state env reason) (evidence_version_states db),
         findings := failed_findings env finding (findings db), ledger := l\<rparr>"
      "ledger_grows (ledger db) l" "ledger_wf (ledger db) \<longrightarrow> ledger_wf l"
proof -
  let ?failed = "update_outbox (cm_ID claimed) (fail_message reason) db"
  have frame: "attachment_frame db ?failed" by (rule update_outbox_frame) simp
  consider (retry) "db' = update_outbox (cm_ID claimed) (retry_message worker (env_clock env 0) reason) db"
    | (evidence) "recordEvidenceTerminalFailure env claimed reason ?failed = Inr db'"
    | (attachment) "recordAttachmentTerminalFailure env claimed reason ?failed = Inr db'"
    | (none) "db' = ?failed"
  proof (cases "wk_maximumAttempts worker \<le> cm_AttemptCount claimed")
    case False
    with assms have "update_outbox (cm_ID claimed) (retry_message worker (env_clock env 0) reason) db = db'"
      unfolding recordFailure_def by simp
    then show ?thesis by (rule retry [OF sym])
  next
    case True
    with assms have "(if cm_Topic claimed = ''evidence.scan_requested''
        then recordEvidenceTerminalFailure env claimed reason ?failed
        else if cm_Topic claimed = ''inspection_attachment.scan_requested''
        then recordAttachmentTerminalFailure env claimed reason ?failed else Inr ?failed) = Inr db'"
      unfolding recordFailure_def Let_def by simp
    then show ?thesis using evidence attachment none by (metis sum.inject(2))
  qed
  then show thesis
  proof cases
    case retry
    then show thesis by (intro other) (simp add: update_outbox_frame)
  next
    case attachment
    from recordAttachmentTerminalFailure_Inr [OF this] frame show thesis
      by (blast intro: other attachment_frame_trans)
  next
    case none
    with frame other show thesis by simp
  next
    case evidence
    then show thesis
    proof (cases rule: recordEvidenceTerminalFailure_Inr)
      case kept
      with frame other show thesis by simp
    next
      case (failed version state finding objects l)
      have grows: "ledger_grows (ledger db) (ledger ?failed)"
        "ledger_wf (ledger db) \<longrightarrow> ledger_wf (ledger ?failed)"
        using update_outbox_ledger by auto
      show thesis
        by (rule that(2) [where version = version and state = state and finding = finding
              and objects = objects and l = l])
          (use failed grows in \<open>simp_all add: ledger_grows_trans [of _ "ledger ?failed"]\<close>)
    qed
  qed
qed

end
