(* ===== verification/KeyedTable.thy ===== *)
theory KeyedTable
  imports Store
begin

text \<open>
  Tables with a key whose rows change only by lawful steps and that only grow: the interface through
  which the system theories use the tables of Findings, of Evidence processing states and of report
  approvals.
\<close>

definition table_evolves :: "('r \<Rightarrow> 'k) \<Rightarrow> ('r \<Rightarrow> 'r \<Rightarrow> bool) \<Rightarrow> ('r \<Rightarrow> bool) \<Rightarrow> 'r list \<Rightarrow> 'r list \<Rightarrow> bool" where
  "table_evolves key step fresh rows rows' \<longleftrightarrow>
     list_all2 step rows (take (length rows) rows') \<and> list_all fresh (drop (length rows) rows') \<and>
     (distinct (map key rows) \<longrightarrow> distinct (map key rows'))"

locale keyed_table =
  fixes key :: "'r \<Rightarrow> 'k" and step :: "'r \<Rightarrow> 'r \<Rightarrow> bool" and fresh :: "'r \<Rightarrow> bool"
  assumes step_refl: "step r r" and step_key: "step r r' \<Longrightarrow> key r' = key r"
begin

abbreviation evolves :: "'r list \<Rightarrow> 'r list \<Rightarrow> bool" where
  "evolves \<equiv> table_evolves key step fresh"

lemma steps_keys: "list_all2 step rows rows' \<Longrightarrow> map key rows' = map key rows"
  by (induction rule: list_all2_induct) (auto simp: step_key)

lemma evolves_refl: "evolves rows rows"
  by (simp add: table_evolves_def list_all2_refl step_refl)

text \<open>An update by key changes only the row that was read, when keys are distinct.\<close>

lemma steps_modify:
  assumes "lookup key k rows = Some r" "distinct (map key rows)" "step r (g r)"
  shows "list_all2 step rows (modify key k g rows)"
proof -
  have "step x (if key x = k then g x else x)" if "x \<in> set rows" for x
  proof (cases "key x = k")
    case True
    moreover from assms(1) have "r \<in> set rows" "key r = k" by (auto dest: lookup_Some)
    ultimately have "x = r" using that assms(2) by (metis distinct_map inj_onD)
    with True assms(3) show ?thesis by simp
  qed (simp add: step_refl)
  then show ?thesis by (simp add: modify_def list_all2_map2 list_all2_same)
qed

lemma evolves_modify:
  assumes "lookup key k rows = Some r" "distinct (map key rows)" "step r (g r)"
  shows "evolves rows (modify key k g rows)"
proof -
  have steps: "list_all2 step rows (modify key k g rows)" by (rule steps_modify) (fact assms)+
  have "length (modify key k g rows) = length rows" by (simp add: modify_def)
  with steps steps_keys [OF steps] show ?thesis by (simp add: table_evolves_def)
qed

lemma evolves_modify_all:
  assumes "\<And>r. step r (g r)"
  shows "evolves rows (modify key k g rows)"
proof -
  have steps: "list_all2 step rows (modify key k g rows)"
    using assms step_refl by (auto simp: modify_def list_all2_map2 list_all2_same)
  have "length (modify key k g rows) = length rows" by (simp add: modify_def)
  with steps steps_keys [OF steps] show ?thesis by (simp add: table_evolves_def)
qed

lemma evolves_append: "fresh r \<Longrightarrow> key r \<notin> key ` set rows \<Longrightarrow> evolves rows (rows @ [r])"
  by (simp add: table_evolves_def list_all2_refl step_refl)

lemma evolves_row:
  assumes "evolves rows rows'" "r \<in> set rows"
  obtains r' where "r' \<in> set rows'" "step r r'"
proof -
  from assms obtain i where i: "i < length rows" "r = rows ! i" by (metis in_set_conv_nth)
  with assms have "i < length (take (length rows) rows')" "step r (take (length rows) rows' ! i)"
    by (auto simp: table_evolves_def list_all2_conv_all_nth)
  then show thesis using that by (metis in_set_takeD nth_mem)
qed

lemma evolves_old:
  assumes "evolves rows rows'" "r' \<in> set rows'"
  obtains (new) "fresh r'" | (old) r where "r \<in> set rows" "step r r'"
proof -
  from assms(2) have "r' \<in> set (take (length rows) rows') \<union> set (drop (length rows) rows')"
    using set_append [of "take (length rows) rows'" "drop (length rows) rows'"] by simp
  then consider "r' \<in> set (take (length rows) rows')" | "r' \<in> set (drop (length rows) rows')" by blast
  then show thesis
  proof cases
    case 1
    then obtain i where i: "i < length (take (length rows) rows')" "r' = take (length rows) rows' ! i"
      unfolding in_set_conv_nth by blast
    have steps: "list_all2 step rows (take (length rows) rows')" using assms(1) by (simp add: table_evolves_def)
    have "i < length rows" using i(1) by simp
    moreover have "step (rows ! i) r'" unfolding i(2) by (rule list_all2_nthD2 [OF steps i(1)])
    ultimately show thesis by (intro old [of "rows ! i"] nth_mem)
  next
    case 2
    with assms(1) new show thesis by (auto simp: table_evolves_def list_all_iff)
  qed
qed

text \<open>A property of fresh rows that steps keep holds of every row.\<close>

lemma evolves_all:
  assumes "evolves rows rows'" "\<forall>r \<in> set rows. P r" "\<And>r. fresh r \<Longrightarrow> P r"
    "\<And>r r'. step r r' \<Longrightarrow> P r \<Longrightarrow> P r'"
  shows "\<forall>r \<in> set rows'. P r"
  using assms by (metis evolves_old)

text \<open>With distinct keys a row is found again under its key, changed by one step.\<close>

lemma evolves_lookup:
  assumes ev: "evolves rows rows'" and dist: "distinct (map key rows)" and look: "lookup key k rows = Some r"
  obtains r' where "lookup key k rows' = Some r'" "step r r'"
proof -
  from look have r: "r \<in> set rows" "key r = k" by (auto dest: lookup_Some)
  from evolves_row [OF ev r(1)] obtain r' where r': "r' \<in> set rows'" "step r r'" by blast
  with r have k: "key r' = k" by (simp add: step_key)
  from ev dist have "distinct (map key rows')" by (simp add: table_evolves_def)
  moreover obtain r'' where r'': "lookup key k rows' = Some r''"
    using r'(1) k by (cases "lookup key k rows'") (auto simp: lookup_None)
  moreover from r'' have "r'' \<in> set rows'" "key r'' = k" by (auto dest: lookup_Some)
  ultimately have "r'' = r'" using r'(1) k by (auto simp: distinct_map dest: inj_onD)
  with r'' r' that show thesis by blast
qed

end

end
