(* ===== verification/Numbering.thy ===== *)
theory Numbering
  imports Store
begin

text \<open>
  Append-only version families: the rows of one owner are numbered 1, 2, ... and share a group
  identifier. CAP revisions and Evidence versions of a Finding are such families.
\<close>

section \<open>Numbered families\<close>

text \<open>The rows of one owner are numbered 1, 2, ... in the order they were appended and share a group.\<close>

definition numbered :: "('r \<Rightarrow> i64) \<Rightarrow> ('r \<Rightarrow> 'g) \<Rightarrow> 'r list \<Rightarrow> bool" where
  "numbered num grp rows \<longleftrightarrow> map (\<lambda>r. sint (num r)) rows = [1..int (length rows)] \<and>
     (\<forall>r \<in> set rows. \<forall>r' \<in> set rows. grp r = grp r')"

definition families :: "('r \<Rightarrow> 'o) \<Rightarrow> ('r \<Rightarrow> i64) \<Rightarrow> ('r \<Rightarrow> 'g) \<Rightarrow> 'r list \<Rightarrow> bool" where
  "families owner num grp rows \<longleftrightarrow> (\<forall>k. numbered num grp (filter (\<lambda>r. owner r = k) rows))"

lemma sint_succ_pos:
  fixes x :: i64
  assumes "0 < sint (x + 1)"
  shows "sint (x + 1) = sint x + 1"
proof (cases "sint x < 2 ^ 63 - 1")
  case True
  then show ?thesis by (rule sint_succ)
next
  case False
  moreover have "sint x < 2 ^ 63" using sint_lt [of x] by simp
  ultimately have "sint x = 2 ^ 63 - 1" by linarith
  then have "sint (x + 1) < 0" by (simp add: sint_word_ariths signed_take_bit_eq_if_negative)
  with assms show ?thesis by simp
qed

lemma upto_snoc: "0 \<le> n \<Longrightarrow> [1..n + 1] = [1..n] @ [n + 1]"
  using upto_rec2 [of 1 "n + 1"] by simp

lemma latest_greatest:
  assumes "rows \<noteq> []" "\<forall>r \<in> set (butlast rows). version r < version (last rows)"
  shows "latest version rows = Some (last rows)"
  using assms
proof (induction rows)
  case (Cons r rows)
  then show ?case by (cases "rows = []") auto
qed simp

lemma numbered_snoc:
  "numbered num grp (rows @ [r]) \<longleftrightarrow> numbered num grp rows \<and>
     sint (num r) = int (length rows) + 1 \<and> (\<forall>q \<in> set rows. grp q = grp r)"
  by (auto simp: numbered_def upto_snoc add.commute [of 1])

lemma numbered_le: "numbered num grp rows \<Longrightarrow> r \<in> set rows \<Longrightarrow> sint (num r) \<le> int (length rows)"
  by (induction rows rule: rev_induct) (auto simp: numbered_snoc)

lemma numbered_last:
  assumes "numbered num grp rows" "rows \<noteq> []"
  shows "latest (\<lambda>r. sint (num r)) rows = Some (last rows)" "sint (num (last rows)) = int (length rows)"
    "\<forall>q \<in> set rows. grp q = grp (last rows)"
proof -
  from assms(2) obtain init l where rows: "rows = init @ [l]" by (cases rows rule: rev_cases) auto
  with assms(1) have n: "numbered num grp init" "sint (num l) = int (length init) + 1"
    "\<forall>q \<in> set init. grp q = grp l" by (auto simp: numbered_snoc)
  then show "sint (num (last rows)) = int (length rows)" "\<forall>q \<in> set rows. grp q = grp (last rows)"
    by (auto simp: rows)
  have "\<forall>r \<in> set init. sint (num r) < sint (num l)" using n numbered_le by fastforce
  then show "latest (\<lambda>r. sint (num r)) rows = Some (last rows)"
    by (intro latest_greatest) (auto simp: rows)
qed

lemma numbered_append:
  assumes "numbered num grp rows"
    and "num r = (case latest (\<lambda>r. sint (num r)) rows of None \<Rightarrow> 0 | Some p \<Rightarrow> num p) + 1"
    and "\<And>p. latest (\<lambda>r. sint (num r)) rows = Some p \<Longrightarrow> grp r = grp p"
    and "0 < sint (num r)"
  shows "numbered num grp (rows @ [r])"
proof (cases "rows = []")
  case True
  with assms(2) show ?thesis by (simp add: numbered_def)
next
  case False
  note last = numbered_last [OF assms(1) False]
  have r: "num r = num (last rows) + 1" "grp r = grp (last rows)" using assms(2,3) last by auto
  have "sint (num r) = int (length rows) + 1"
    using sint_succ_pos [of "num (last rows)"] assms(4) by (simp add: r last)
  with assms(1) last(3) show ?thesis by (simp add: numbered_snoc r(2))
qed

lemma families_append:
  assumes "families owner num grp rows"
    and "num r = (case latest (\<lambda>r. sint (num r)) (filter (\<lambda>q. owner q = owner r) rows) of
        None \<Rightarrow> 0 | Some p \<Rightarrow> num p) + 1"
    and "\<And>p. latest (\<lambda>r. sint (num r)) (filter (\<lambda>q. owner q = owner r) rows) = Some p \<Longrightarrow> grp r = grp p"
    and "0 < sint (num r)"
  shows "families owner num grp (rows @ [r])"
  unfolding families_def
proof
  fix k
  let ?rows = "filter (\<lambda>q. owner q = owner r) rows"
  have "numbered num grp (?rows @ [r])"
    by (rule numbered_append) (use assms in \<open>auto simp: families_def\<close>)
  with assms(1) show "numbered num grp (filter (\<lambda>r. owner r = k) (rows @ [r]))"
    by (cases "owner r = k") (auto simp: families_def)
qed

end
