(* ===== verification/FindingSystem.thy ===== *)
theory FindingSystem
  imports FieldLaws ScanLaws KeyedTable Numbering
begin

text \<open>
  The Finding system as a whole: the contract every transaction keeps over the tables of Findings,
  CAP revisions, Evidence and reports (\<open>lawful\<close>), the invariant it preserves (\<open>system_wf\<close>), and the
  step relation of all modelled transactions. The contract is the abstract specification: each handler,
  upload and worker transaction refines it, and the histories of reachable states follow from it.
\<close>

section \<open>One Finding\<close>

text \<open>The columns no transition changes.\<close>

definition same_identity :: "Finding \<Rightarrow> Finding \<Rightarrow> bool" where
  "same_identity f f' \<longleftrightarrow> f' = f\<lparr>f_status := f_status f', f_next_action := f_next_action f',
     f_closure_basis := f_closure_basis f', f_closure_reason := f_closure_reason f',
     f_revision := f_revision f', f_closed_at := f_closed_at f', f_updated_at := f_updated_at f'\<rparr>"

definition finding_wf :: "Finding \<Rightarrow> bool" where
  "finding_wf f \<longleftrightarrow> 0 < sint (f_revision f) \<and>
     (f_status f = FStatusClosed \<longleftrightarrow> f_closed_at f \<noteq> None) \<and>
     (f_status f = FStatusClosed \<longleftrightarrow> f_closure_basis f \<noteq> None)"

text \<open>A transition: along an edge of the lifecycle, with the next revision.\<close>

definition finding_transition :: "Finding \<Rightarrow> Finding \<Rightarrow> bool" where
  "finding_transition f f' \<longleftrightarrow> same_identity f f' \<and> finding_edge (f_status f) (f_status f') \<and>
     f_revision f' = f_revision f + 1 \<and> 0 < sint (f_revision f') \<and> (finding_wf f \<longrightarrow> finding_wf f')"

definition finding_step :: "Finding \<Rightarrow> Finding \<Rightarrow> bool" where
  "finding_step f f' \<longleftrightarrow> f' = f \<or> finding_transition f f'"

definition new_finding :: "Finding \<Rightarrow> bool" where
  "new_finding f \<longleftrightarrow> finding_wf f \<and> f_revision f = 1 \<and> f_status f \<noteq> FStatusClosed"

lemma same_identity_id: "same_identity f f' \<Longrightarrow> f_id f' = f_id f"
  by (metis same_identity_def Finding.select_convs(1) Finding.surjective Finding.update_convs)

interpretation finding_table: keyed_table f_id finding_step new_finding
  by unfold_locales (auto simp: finding_step_def finding_transition_def same_identity_id)

lemma finding_step_wf: "finding_step f f' \<Longrightarrow> finding_wf f \<Longrightarrow> finding_wf f'"
  by (auto simp: finding_step_def finding_transition_def)

section \<open>Evidence processing states\<close>

text \<open>A terminal scan result, with its canonical object, is never changed.\<close>

definition state_step :: "EvidenceVersionState \<Rightarrow> EvidenceVersionState \<Rightarrow> bool" where
  "state_step s s' \<longleftrightarrow> es_evidence_version_id s' = es_evidence_version_id s \<and>
     (terminal_scan (es_scan_state s) \<longrightarrow> es_scan_state s' = es_scan_state s \<and>
        es_canonical_object_metadata_id s' = es_canonical_object_metadata_id s)"

definition new_state :: "EvidenceVersionState \<Rightarrow> bool" where
  "new_state s \<longleftrightarrow> es_scan_state s = ScanPending"

interpretation state_table: keyed_table es_evidence_version_id state_step new_state
  by unfold_locales (auto simp: state_step_def)

section \<open>Report approvals\<close>

text \<open>An approval follows an edge of the approval chain, with the next revision; a new one waits for
  the Department Manager or is recorded as returned.\<close>

definition approval_step :: "ReportApprovalState \<Rightarrow> ReportApprovalState \<Rightarrow> bool" where
  "approval_step a a' \<longleftrightarrow> a' = a \<or>
     ra_report_version_id a' = ra_report_version_id a \<and> ra_revision a' = ra_revision a + 1 \<and>
     (\<exists>r. report_edge r (ra_status a) (ra_status a'))"

definition new_approval :: "ReportApprovalState \<Rightarrow> bool" where
  "new_approval a \<longleftrightarrow> ra_status a \<in> {RStatusReturned, RStatusDepartmentReview} \<and> ra_revision a = 1"

interpretation approval_table: keyed_table ra_report_version_id approval_step new_approval
  by unfold_locales (auto simp: approval_step_def)

definition issued :: "ReportApprovalState \<Rightarrow> bool" where
  "issued a \<longleftrightarrow> ra_status a = RStatusIssued \<or> ra_status a = RStatusLocked"

inductive_simps report_edge_from_issued [simp]: "report_edge r RStatusIssued t"

lemma approval_step_issued: "approval_step a a' \<Longrightarrow> issued a \<Longrightarrow> a' = a"
  by (auto simp: approval_step_def issued_def)

lemma PreliminaryIssued_cong:
  "report_versions db' = report_versions db \<Longrightarrow> report_approval_states db' = report_approval_states db \<Longrightarrow>
   PreliminaryIssued i db' = PreliminaryIssued i db"
  by (simp add: PreliminaryIssued_def)

lemma PreliminaryIssued_mono:
  assumes "prefix (report_versions db) (report_versions db')"
    and "table_evolves ra_report_version_id approval_step new_approval
      (report_approval_states db) (report_approval_states db')"
    and "PreliminaryIssued i db"
  shows "PreliminaryIssued i db'"
proof -
  from assms(3) obtain v a where v: "v \<in> set (report_versions db)" "rv_inspection_id v = i"
    "rs_kind (rv_snapshot v) = Some KindPreliminary" "a \<in> set (report_approval_states db)"
    "ra_report_version_id a = rv_id v" "issued a"
    by (auto simp: PreliminaryIssued_def list_ex_iff issued_def)
  from approval_table.evolves_row [OF assms(2) v(4)] v(6) have "a \<in> set (report_approval_states db')"
    by (metis approval_step_issued)
  moreover have "v \<in> set (report_versions db')" using assms(1) v(1) by (auto dest: set_mono_prefix)
  ultimately show ?thesis using v by (auto simp: PreliminaryIssued_def list_ex_iff issued_def)
qed

section \<open>The contract of a transaction\<close>

definition lawful :: "DB \<Rightarrow> DB \<Rightarrow> bool" where
  "lawful db db' \<longleftrightarrow>
     table_evolves f_id finding_step new_finding (findings db) (findings db') \<and>
     table_evolves es_evidence_version_id state_step new_state
       (evidence_version_states db) (evidence_version_states db') \<and>
     table_evolves ra_report_version_id approval_step new_approval
       (report_approval_states db) (report_approval_states db') \<and>
     prefix (report_versions db) (report_versions db') \<and>
     prefix (cap_revisions db) (cap_revisions db') \<and>
     prefix (review_decisions db) (review_decisions db') \<and>
     prefix (evidence_versions db) (evidence_versions db') \<and>
     prefix (report_decisions db) (report_decisions db') \<and>
     (\<forall>f \<in> set (findings db'). f_id f \<notin> f_id ` set (findings db) \<longrightarrow>
        PreliminaryIssued (f_inspection_id f) db)"

definition numbering :: "DB \<Rightarrow> bool" where
  "numbering db \<longleftrightarrow> families c_finding_id c_revision c_cap_id (cap_revisions db) \<and>
     families e_finding_id e_version e_evidence_id (evidence_versions db)"

definition system_wf :: "DB \<Rightarrow> bool" where
  "system_wf db \<longleftrightarrow> distinct (map f_id (findings db)) \<and>
     distinct (map es_evidence_version_id (evidence_version_states db)) \<and>
     distinct (map ra_report_version_id (report_approval_states db)) \<and>
     (\<forall>f \<in> set (findings db). finding_wf f \<and> PreliminaryIssued (f_inspection_id f) db) \<and>
     numbering db \<and> ledger_wf (ledger db)"

lemma lawful_refl [simp, intro]: "lawful db db"
  by (simp add: lawful_def finding_table.evolves_refl state_table.evolves_refl approval_table.evolves_refl)

lemma lawful_ledger [simp]:
  "lawful db (db'\<lparr>ledger := l\<rparr>) \<longleftrightarrow> lawful db db'"
  "numbering (db'\<lparr>ledger := l\<rparr>) \<longleftrightarrow> numbering db'"
  by (simp_all add: lawful_def numbering_def)

text \<open>A transaction that writes none of these tables.\<close>

lemma lawful_same:
  assumes "findings db' = findings db" "evidence_version_states db' = evidence_version_states db"
    "report_approval_states db' = report_approval_states db" "report_versions db' = report_versions db"
    "cap_revisions db' = cap_revisions db" "evidence_versions db' = evidence_versions db"
    "report_decisions db' = report_decisions db"
    "prefix (review_decisions db) (review_decisions db')"
  shows "lawful db db'" "numbering db \<Longrightarrow> numbering db'"
  using assms
  by (auto simp: lawful_def numbering_def finding_table.evolves_refl state_table.evolves_refl
      approval_table.evolves_refl)

lemma same_identity_inspection: "same_identity f f' \<Longrightarrow> f_inspection_id f' = f_inspection_id f"
  by (metis same_identity_def Finding.select_convs(4) Finding.surjective Finding.update_convs)

lemma finding_step_inspection: "finding_step f f' \<Longrightarrow> f_inspection_id f' = f_inspection_id f"
  by (auto simp: finding_step_def finding_transition_def same_identity_inspection)

theorem lawful_keeps_wf:
  assumes law: "lawful db db'" and wf: "system_wf db" and num: "numbering db'" and l: "ledger_wf (ledger db')"
  shows "system_wf db'"
proof -
  have ev: "table_evolves f_id finding_step new_finding (findings db) (findings db')"
    and reports: "prefix (report_versions db) (report_versions db')"
    and approvals: "table_evolves ra_report_version_id approval_step new_approval
       (report_approval_states db) (report_approval_states db')"
    using law by (simp_all add: lawful_def)
  have "finding_wf f'" if "f' \<in> set (findings db')" for f'
    using finding_table.evolves_all [OF ev, of finding_wf] wf that finding_step_wf
    by (auto simp: system_wf_def new_finding_def)
  moreover have "PreliminaryIssued (f_inspection_id f') db'" if f': "f' \<in> set (findings db')" for f'
  proof (rule PreliminaryIssued_mono [OF reports approvals])
    show "PreliminaryIssued (f_inspection_id f') db"
    proof (cases "f_id f' \<in> f_id ` set (findings db)")
      case False
      with law f' show ?thesis by (auto simp: lawful_def)
    next
      case True
      then obtain f where f: "f \<in> set (findings db)" "f_id f = f_id f'" by auto
      from finding_table.evolves_row [OF ev f(1)] obtain f'' where
        f'': "f'' \<in> set (findings db')" "finding_step f f''" by blast
      moreover have "distinct (map f_id (findings db'))"
        using ev wf by (simp add: table_evolves_def system_wf_def)
      ultimately have "f'' = f'" using f f' finding_table.step_key [OF f''(2)]
        by (auto simp: distinct_map dest: inj_onD)
      with f f'' wf show ?thesis by (auto simp: system_wf_def finding_step_inspection)
    qed
  qed
  ultimately show ?thesis
    using law wf num l by (auto simp: system_wf_def lawful_def table_evolves_def)
qed

locale transaction =
  fixes step :: "DB \<Rightarrow> DB \<Rightarrow> bool"
  assumes step_lawful: "step db db' \<Longrightarrow> system_wf db \<Longrightarrow> lawful db db' \<and> numbering db'"
    and step_ledger: "step db db' \<Longrightarrow> ledger_wf (ledger db) \<Longrightarrow>
      ledger_wf (ledger db') \<and> ledger_grows (ledger db) (ledger db')"
begin

lemma step_wf: "step db db' \<Longrightarrow> system_wf db \<Longrightarrow> system_wf db'"
  using step_lawful [of db db'] step_ledger [of db db'] lawful_keeps_wf [of db db']
  by (simp add: system_wf_def [of db])

lemma step_specification:
  "step db db' \<Longrightarrow> system_wf db \<Longrightarrow> lawful db db' \<and> ledger_grows (ledger db) (ledger db') \<and> system_wf db'"
  using step_lawful [of db db'] step_ledger [of db db'] step_wf [of db db'] by (simp add: system_wf_def [of db])

end

text \<open>A command handler that keeps the contract makes the whole command keep it.\<close>

locale finding_handler = command_handler +
  assumes handler_lawful: "handler db = Inr (db', result) \<Longrightarrow> system_wf db \<Longrightarrow> lawful db db' \<and> numbering db'"

sublocale finding_handler \<subseteq> command: transaction
  "\<lambda>db db'. \<exists>env actor envelope resp. executeTransition env actor envelope handler db = Inr (db', resp)"
proof
  fix db db'
  assume "\<exists>env actor envelope resp. executeTransition env actor envelope handler db = Inr (db', resp)"
  then obtain env actor envelope resp where
    run: "executeTransition env actor envelope handler db = Inr (db', resp)" by blast
  show "lawful db db' \<and> numbering db'" if wf: "system_wf db"
    using run
  proof (cases rule: executeTransition_cases)
    case replayed
    with wf show ?thesis by (simp add: system_wf_def)
  next
    case (executed semanticHash mid result l)
    with handler_lawful [OF executed(3) wf] show ?thesis by simp
  qed
  show "ledger_wf (ledger db') \<and> ledger_grows (ledger db) (ledger db')" if wf: "ledger_wf (ledger db)"
    using run
  proof (cases rule: executeTransition_cases)
    case replayed
    with wf show ?thesis by simp
  next
    case (executed semanticHash mid result l)
    have "ledger_grows (ledger db) (ledger mid)" by (intro keeps_ledger_grows handler_ledger) fact
    moreover have "ledger_grows (ledger mid) l" by (rule persistCommandTransaction_grows) fact
    ultimately have "ledger_grows (ledger db) (ledger db')" using executed ledger_grows_trans by simp
    with envelope_wf [OF run wf] show ?thesis by simp
  qed
qed

context finding_handler
begin

lemma command_lawful:
  "executeTransition env actor envelope handler db = Inr (db', resp) \<Longrightarrow> system_wf db \<Longrightarrow>
   lawful db db' \<and> numbering db'"
  by (rule command.step_lawful) blast

lemma command_ledger:
  "executeTransition env actor envelope handler db = Inr (db', resp) \<Longrightarrow> ledger_wf (ledger db) \<Longrightarrow>
   ledger_wf (ledger db') \<and> ledger_grows (ledger db) (ledger db')"
  by (rule command.step_ledger) blast

end

end
