(* ===== verification/CleanState.thy ===== *)
theory CleanState
  imports ReportWorkflow
begin

text \<open>
  The commands that create records (\<open>internal/application/clean_state_creation.go\<close>): an organization, a
  reminder rule and an immutable report version. \<open>CreatePlanningIntakeDraft\<close> is not modelled.
\<close>

section \<open>Organizations and reminder rules\<close>

definition Organization_row :: "Env \<Rightarrow> CreateAdminOrganizationCommand \<Rightarrow> Organization" where
  "Organization_row env command =
     \<lparr>g_id = ko_OrganizationID command, g_legal_name = ko_LegalName command,
      g_organization_type = ko_OrganizationType command, g_status = ''ACTIVE'', g_revision = 1,
      g_created_at = env_clock env 0, g_updated_at = env_clock env 0, g_tombstoned_at = None\<rparr>"

definition CreateAdminOrganization_handler :: "Env \<Rightarrow> CreateAdminOrganizationCommand \<Rightarrow> handler" where
  "CreateAdminOrganization_handler env command db =
     (let row = Organization_row env command in
      if list_ex (\<lambda>g. g_id g = g_id row) (organizations db) then Inl (AppError ErrConflict '''')
      else Inr (db\<lparr>organizations := organizations db @ [row]\<rparr>,
        \<lparr>tn_Response = AdminOrganizationResponse
           \<lparr>no_ID = g_id row, no_LegalName = g_legal_name row,
            no_OrganizationType = g_organization_type row, no_Status = g_status row\<rparr>,
         tn_OrganizationID = ko_OrganizationID command, tn_Action = ''admin.organization_created'',
         tn_EntityType = ''organization'', tn_EntityID = ko_OrganizationID command, tn_EntityVersion = 1,
         tn_BeforeStatus = '''', tn_AfterStatus = ''ACTIVE'',
         tn_Reason = ''Created organization master record.'', tn_ClosureBasis = '''',
         tn_SyncKind = ''organization'', tn_OutboxTopic = ''admin.organization_created''\<rparr>))"

definition CreateAdminOrganization_envelope :: "CreateAdminOrganizationCommand \<Rightarrow> commandEnvelope" where
  "CreateAdminOrganization_envelope command =
     \<lparr>ce_OperationID = ko_OperationID command, ce_IdempotencyKey = ko_IdempotencyKey command,
      ce_CorrelationID = ko_OperationID command, ce_Kind = ''create_admin_organization'',
      ce_EntityID = ko_OrganizationID command, ce_Semantic = CreateAdminOrganizationSemantic command\<rparr>"

definition trim_organization :: "CreateAdminOrganizationCommand \<Rightarrow> CreateAdminOrganizationCommand" where
  "trim_organization command = command\<lparr>ko_OrganizationID := TrimSpace (ko_OrganizationID command),
     ko_LegalName := TrimSpace (ko_LegalName command),
     ko_OrganizationType := TrimSpace (ko_OrganizationType command)\<rparr>"

definition CreateAdminOrganization :: "Env \<Rightarrow> Principal \<Rightarrow> CreateAdminOrganizationCommand \<Rightarrow> DB \<Rightarrow>
    app_error + (DB \<times> Response)" where
  "CreateAdminOrganization env actor input db =
     (let command = trim_organization input in
      if \<not> HasRole actor [RoleAdmin] then Inl (AppError ErrForbidden ''Admin authority is required'')
      else if ko_OperationID command = '''' \<or> ko_IdempotencyKey command = '''' \<or>
              ko_OrganizationID command = '''' \<or> ko_LegalName command = '''' \<or>
              ko_OrganizationType command \<notin> {''AUTHORITY'', ''OPERATOR'', ''SERVICE_PROVIDER''}
      then Inl (AppError ErrInvalid '''')
      else executeTransition env actor (CreateAdminOrganization_envelope command)
        (CreateAdminOrganization_handler env command) db)"

definition ReminderRule_row :: "Env \<Rightarrow> CreateReminderRuleCommand \<Rightarrow> ReminderRuleRow" where
  "ReminderRule_row env command =
     \<lparr>rm_id = km_RuleID command, rm_label = km_Label command, rm_offset_days = km_OffsetDays command,
      rm_channel = km_Channel command, rm_status = ''ACTIVE'', rm_revision = 1,
      rm_created_at = env_clock env 0, rm_updated_at = env_clock env 0\<rparr>"

text \<open>\<open>reminder_rules.offset_days\<close> and \<open>report_versions.version\<close> are 32-bit columns.\<close>

definition fits_int4 :: "i64 \<Rightarrow> bool" where
  "fits_int4 n \<longleftrightarrow> - (2 ^ 31) \<le> sint n \<and> sint n < 2 ^ 31"

definition CreateReminderRule_handler :: "Env \<Rightarrow> Principal \<Rightarrow> CreateReminderRuleCommand \<Rightarrow> handler" where
  "CreateReminderRule_handler env actor command db =
     (let row = ReminderRule_row env command in
      if \<not> fits_int4 (rm_offset_days row) then Inl (AppError ErrInternal ''insert reminder_rules'')
      else if list_ex (\<lambda>r. rm_id r = rm_id row) (reminder_rules db) then Inl (AppError ErrConflict '''')
      else Inr (db\<lparr>reminder_rules := reminder_rules db @ [row]\<rparr>,
        \<lparr>tn_Response = ReminderRuleResponse
           \<lparr>nm_ID = km_RuleID command, nm_Label = km_Label command, nm_OffsetDays = km_OffsetDays command,
            nm_Channel = km_Channel command, nm_Status = ''ACTIVE'', nm_Revision = 1\<rparr>,
         tn_OrganizationID = OrganizationID actor, tn_Action = ''admin.reminder_rule_created'',
         tn_EntityType = ''reminder_rule'', tn_EntityID = km_RuleID command, tn_EntityVersion = 1,
         tn_BeforeStatus = '''', tn_AfterStatus = ''ACTIVE'', tn_Reason = ''Created reminder rule.'',
         tn_ClosureBasis = '''', tn_SyncKind = ''reminder_rule'',
         tn_OutboxTopic = ''admin.reminder_rule_created''\<rparr>))"

definition CreateReminderRule_envelope :: "CreateReminderRuleCommand \<Rightarrow> commandEnvelope" where
  "CreateReminderRule_envelope command =
     \<lparr>ce_OperationID = km_OperationID command, ce_IdempotencyKey = km_IdempotencyKey command,
      ce_CorrelationID = km_OperationID command, ce_Kind = ''create_reminder_rule'',
      ce_EntityID = km_RuleID command, ce_Semantic = CreateReminderRuleSemantic command\<rparr>"

definition CreateReminderRule :: "Env \<Rightarrow> Principal \<Rightarrow> CreateReminderRuleCommand \<Rightarrow> DB \<Rightarrow>
    app_error + (DB \<times> Response)" where
  "CreateReminderRule env actor command db =
     (if \<not> HasRole actor [RoleAdmin] then Inl (AppError ErrForbidden ''Admin authority is required'')
      else if km_OperationID command = '''' \<or> km_IdempotencyKey command = '''' \<or>
              blank (km_RuleID command) \<or> blank (km_Label command) \<or>
              km_Channel command \<notin> {''IN_APP'', ''EMAIL'', ''IN_APP_AND_EMAIL''}
      then Inl (AppError ErrInvalid '''')
      else executeTransition env actor (CreateReminderRule_envelope command)
        (CreateReminderRule_handler env actor command) db)"

section \<open>Report versions\<close>

definition live_assignments :: "string \<Rightarrow> DB \<Rightarrow> AuditAssignment list" where
  "live_assignments inspectionID db =
     filter (\<lambda>a. aa_inspection_id a = Some inspectionID \<and> aa_tombstoned_at a = None) (audit_assignments db)"

definition recorded_lead :: "string \<Rightarrow> string \<Rightarrow> DB \<Rightarrow> bool" where
  "recorded_lead inspectionID subject db \<longleftrightarrow>
     list_ex (\<lambda>a. aa_lead_subject_id a = Some subject \<and>
         list_ex (\<lambda>m. tm_assignment_id m = aa_id a \<and> tm_subject_id m = subject \<and>
             tm_member_role m = ''LEAD_INSPECTOR'' \<and> tm_removed_at m = None) (audit_team_members db))
       (live_assignments inspectionID db)"

definition lead_guard :: "Principal \<Rightarrow> string \<Rightarrow> DB \<Rightarrow> app_error option" where
  "lead_guard actor inspectionID db =
     (if live_assignments inspectionID db = []
      then Some (AppError ErrForbidden ''report requires a canonical Audit assignment'')
      else if \<not> recorded_lead inspectionID (SubjectID actor) db
      then Some (AppError ErrForbidden ''report authority belongs to the assigned Lead Inspector'')
      else None)"

definition kind_guard :: "ReportKind \<Rightarrow> string \<Rightarrow> DB \<Rightarrow> app_error option" where
  "kind_guard kind inspectionID db =
     (if kind = KindPreliminary
      then (case lookup k_inspection_id inspectionID (inspection_checklists db) of
          None \<Rightarrow> Some (AppError ErrConflict ''checklist execution is required before Preliminary Report'')
        | Some checklist \<Rightarrow> if k_status checklist \<noteq> KStatusSubmitted
            then Some (AppError ErrConflict ''checklist must be submitted before Preliminary Report'')
            else None)
      else if kind = KindFinal
      then (if \<not> PreliminaryIssued inspectionID db
          then Some (AppError ErrConflict ''Preliminary Report must be approved and issued before Final Report'')
          else if list_ex (\<lambda>f. f_inspection_id f = inspectionID \<and> f_status f \<noteq> FStatusClosed) (findings db)
          then Some (AppError ErrConflict ''all Findings must be closed before Final Report'')
          else None)
      else None)"

definition exact_set_guard :: "string list \<Rightarrow> string \<Rightarrow> DB \<Rightarrow> app_error option" where
  "exact_set_guard ids inspectionID db =
     (let linked = length (linked_findings inspectionID ids db) in
      if linked \<noteq> length (filter (\<lambda>f. f_inspection_id f = inspectionID) (findings db)) \<or> linked \<noteq> length ids
      then Some (AppError ErrConflict ''report must link the exact immutable Finding set for this Audit'')
      else None)"

text \<open>The roots frozen into the snapshot: \<open>array_agg(id ORDER BY id)\<close>.\<close>

definition potential_roots :: "string \<Rightarrow> DB \<Rightarrow> string list" where
  "potential_roots inspectionID db =
     sort (map p_id (filter (\<lambda>p. p_inspection_id p = inspectionID) (potential_findings db)))"

definition potentialFindingRootDigest :: "Env \<Rightarrow> string list \<Rightarrow> string" where
  "potentialFindingRootDigest env ids = env_root_digest env (sort ids)"

definition CreateReport_version :: "Env \<Rightarrow> Principal \<Rightarrow> CreateReportVersionCommand \<Rightarrow> string list \<Rightarrow>
    ReportContent \<Rightarrow> ReportVersion" where
  "CreateReport_version env actor command roots content =
     \<lparr>rv_id = kv_ReportVersionID command, rv_report_id = kv_ReportID command,
      rv_inspection_id = kv_AuditID command, rv_version = kv_Version command,
      rv_status = report_status_text (kv_Status command),
      rv_snapshot = \<lparr>rs_decodes = True, rs_kind = Some (kv_Kind command), rs_ready = True,
        rs_finding_ids = kv_FindingIDs command, rs_potential_finding_ids = roots,
        rs_potential_finding_root_digest = potentialFindingRootDigest env roots,
        rs_content_hash = env_content_digest env content, rs_created_by_subject = SubjectID actor,
        rs_content = content\<rparr>,
      rv_created_at = env_clock env 0\<rparr>"

definition CreateReport_approval :: "Env \<Rightarrow> CreateReportVersionCommand \<Rightarrow> ReportApprovalState" where
  "CreateReport_approval env command =
     \<lparr>ra_report_version_id = kv_ReportVersionID command, ra_status = kv_Status command, ra_revision = 1,
      ra_issued_at = None, ra_updated_at = env_clock env 0\<rparr>"

definition insert_report_version :: "ReportVersion \<Rightarrow> DB \<Rightarrow> app_error + DB" where
  "insert_report_version row db =
     (if \<not> fits_int4 (rv_version row) then Inl (AppError ErrInternal ''insert report_versions'')
      else if list_ex (\<lambda>r. rv_id r = rv_id row \<or>
               rv_report_id r = rv_report_id row \<and> rv_version r = rv_version row) (report_versions db)
      then Inl (AppError ErrConflict '''')
      else Inr (db\<lparr>report_versions := report_versions db @ [row]\<rparr>))"

definition CreateReport_result :: "Env \<Rightarrow> CreateReportVersionCommand \<Rightarrow> string \<Rightarrow> string list \<Rightarrow>
    ReportContent \<Rightarrow> transition" where
  "CreateReport_result env command organizationID roots content =
     \<lparr>tn_Response = CreatedReportVersionResponse
        \<lparr>nv_ReportVersionID = kv_ReportVersionID command, nv_ReportID = kv_ReportID command,
         nv_Kind = kv_Kind command, nv_OrganizationID = organizationID, nv_AuditID = kv_AuditID command,
         nv_FindingIDs = kv_FindingIDs command, nv_PotentialFindingIDs = roots,
         nv_PotentialFindingRootDigest = potentialFindingRootDigest env roots,
         nv_ContentHash = env_content_digest env content, nv_Version = kv_Version command,
         nv_Status = kv_Status command, nv_Revision = 1, nv_IssuedAt = None\<rparr>,
      tn_OrganizationID = organizationID, tn_Action = ''report.version_created'',
      tn_EntityType = ''report_version'', tn_EntityID = kv_ReportVersionID command, tn_EntityVersion = 1,
      tn_BeforeStatus = '''', tn_AfterStatus = report_status_text (kv_Status command),
      tn_Reason = ''Created immutable report version.'', tn_ClosureBasis = '''',
      tn_SyncKind = ''report_version'', tn_OutboxTopic = ''report.version_created''\<rparr>"

text \<open>The content of the command is encoded and decoded again.\<close>

definition report_content :: "Env \<Rightarrow> json \<Rightarrow> app_error + ReportContent" where
  "report_content env value =
     (case jt_marshal (env_json env) value of
        None \<Rightarrow> Inl (AppError ErrInvalid '''')
      | Some raw \<Rightarrow>
        (case DecodeReportContent (env_json env) (env_parse_tag env) (env_nfc env) raw of
           Inl e \<Rightarrow> Inl (AppError ErrInvalid (''canonical report content: '' @ e))
         | Inr content \<Rightarrow> Inr content))"

lemma report_content_Inr:
  "report_content env value = Inr content \<longleftrightarrow>
     (\<exists>raw. jt_marshal (env_json env) value = Some raw \<and>
        DecodeReportContent (env_json env) (env_parse_tag env) (env_nfc env) raw = Inr content)"
  by (auto simp: report_content_def split: option.split sum.split)

definition CreateReportVersion_handler :: "Env \<Rightarrow> Principal \<Rightarrow> CreateReportVersionCommand \<Rightarrow> handler" where
  "CreateReportVersion_handler env actor command db =
     (case find (\<lambda>i. in_id i = kv_AuditID command \<and> in_tombstoned_at i = None) (inspections db) of
        None \<Rightarrow> Inl (AppError ErrNotFound '''')
      | Some inspection \<Rightarrow>
        check_error (lead_guard actor (kv_AuditID command) db)
        (check_error (kind_guard (kv_Kind command) (kv_AuditID command) db)
        (check_error (exact_set_guard (kv_FindingIDs command) (kv_AuditID command) db)
        (let roots = potential_roots (kv_AuditID command) db in
         bind_result (report_content env (kv_Content command)) (\<lambda>content.
         bind_result (wrap_error ErrInvalid (Prepare
           \<lparr>pi_ReportID = kv_ReportID command, pi_Kind = kv_Kind command, pi_Version = kv_Version command,
            pi_FindingIDs = kv_FindingIDs command, pi_ContentHash = env_content_digest env content,
            pi_Ready = True\<rparr>)) (\<lambda>_.
         bind_result (insert_report_version (CreateReport_version env actor command roots content) db) (\<lambda>db1.
         bind_result (insert_row ''insert report_approval_states''
           (list_ex (\<lambda>a. ra_report_version_id a = kv_ReportVersionID command) (report_approval_states db1))
           (CreateReport_approval env command) (report_approval_states db1)) (\<lambda>approvals.
         Inr (db1\<lparr>report_approval_states := approvals\<rparr>,
           CreateReport_result env command (in_organization_id inspection) roots content)))))))))"

definition CreateReportVersion_envelope :: "CreateReportVersionCommand \<Rightarrow> commandEnvelope" where
  "CreateReportVersion_envelope command =
     \<lparr>ce_OperationID = kv_OperationID command, ce_IdempotencyKey = kv_IdempotencyKey command,
      ce_CorrelationID = kv_OperationID command, ce_Kind = ''create_report_version'',
      ce_EntityID = kv_ReportVersionID command, ce_Semantic = CreateReportVersionSemantic command\<rparr>"

text \<open>The guards before the transaction; they also normalise the Finding identities.\<close>

definition CreateReport_input :: "Principal \<Rightarrow> CreateReportVersionCommand \<Rightarrow>
    app_error + CreateReportVersionCommand" where
  "CreateReport_input actor command =
     (if \<not> HasRole actor [RoleLeadInspector]
      then Inl (AppError ErrForbidden ''Lead Inspector authority is required'')
      else if kv_OperationID command = '''' \<or> kv_IdempotencyKey command = '''' \<or>
              kv_ReportVersionID command = '''' \<or> kv_ReportID command = '''' \<or> kv_AuditID command = '''' \<or>
              sint (kv_Version command) \<le> 0 \<or> kv_Kind command \<notin> {KindPreliminary, KindFinal} \<or>
              kv_Status command \<notin> {RStatusReturned, RStatusDepartmentReview}
      then Inl (AppError ErrInvalid '''')
      else (case normalizedUniqueIDs (kv_FindingIDs command) of
          Inl _ \<Rightarrow> Inl (AppError ErrInvalid ''Finding IDs must be unique'')
        | Inr ids \<Rightarrow> Inr (command\<lparr>kv_FindingIDs := ids\<rparr>)))"

definition CreateReportVersion :: "Env \<Rightarrow> Principal \<Rightarrow> CreateReportVersionCommand \<Rightarrow> DB \<Rightarrow>
    app_error + (DB \<times> Response)" where
  "CreateReportVersion env actor input db =
     bind_result (CreateReport_input actor input) (\<lambda>command.
       executeTransition env actor (CreateReportVersion_envelope command)
         (CreateReportVersion_handler env actor command) db)"

section \<open>What a created version has\<close>

lemma insert_report_version_Inr:
  "insert_report_version row db = Inr db' \<longleftrightarrow> fits_int4 (rv_version row) \<and>
     (\<forall>r \<in> set (report_versions db). rv_id r \<noteq> rv_id row \<and>
        \<not> (rv_report_id r = rv_report_id row \<and> rv_version r = rv_version row)) \<and>
     db' = db\<lparr>report_versions := report_versions db @ [row]\<rparr>"
  by (auto simp: insert_report_version_def list_ex_iff)

lemma CreateReportVersion_handler_Inr:
  assumes "CreateReportVersion_handler env actor command db = Inr (db', result)"
  obtains content where
    "recorded_lead (kv_AuditID command) (SubjectID actor) db"
    "kind_guard (kv_Kind command) (kv_AuditID command) db = None"
    "exact_set_guard (kv_FindingIDs command) (kv_AuditID command) db = None"
    "report_content env (kv_Content command) = Inr content"
    "\<forall>r \<in> set (report_versions db). rv_id r \<noteq> kv_ReportVersionID command"
    "\<forall>a \<in> set (report_approval_states db). ra_report_version_id a \<noteq> kv_ReportVersionID command"
    "db' = db\<lparr>report_versions := report_versions db @ [CreateReport_version env actor command
         (potential_roots (kv_AuditID command) db) content],
       report_approval_states := report_approval_states db @ [CreateReport_approval env command]\<rparr>"
proof -
  have lead: "lead_guard actor i db = None \<Longrightarrow> recorded_lead i (SubjectID actor) db" for i
    by (simp add: lead_guard_def split: if_splits)
  show thesis
    using assms that lead
    by (auto simp: CreateReportVersion_handler_def check_error_Inr bind_result_Inr row_simps
        insert_report_version_Inr list_ex_iff Let_def CreateReport_version_def split: option.splits)
qed

end
