(* ===== verification/FindingContracts.thy ===== *)
theory FindingContracts
  imports FindingSystem CleanState
begin

text \<open>
  Every modelled transaction keeps the contract of \<open>FindingSystem\<close>: the interpretations of
  \<open>finding_handler\<close> for the twelve commands, of \<open>transaction\<close> for the Evidence uploads and the scan
  worker.
\<close>

section \<open>Updates of one Finding\<close>

text \<open>A handler that read the Finding under its key and updates it along an edge.\<close>

lemma lawful_finding_update:
  assumes wf: "system_wf db" and look: "lookup f_id k (findings db) = Some f"
    and trans: "finding_transition f (g f)"
    and rows: "findings db' = modify f_id k g (findings db)"
    and states: "table_evolves es_evidence_version_id state_step new_state
       (evidence_version_states db) (evidence_version_states db')"
    and same: "report_approval_states db' = report_approval_states db" "report_versions db' = report_versions db"
      "report_decisions db' = report_decisions db"
    and grow: "prefix (cap_revisions db) (cap_revisions db')" "prefix (review_decisions db) (review_decisions db')"
      "prefix (evidence_versions db) (evidence_versions db')"
  shows "lawful db db'"
proof -
  have dist: "distinct (map f_id (findings db))" using wf by (simp add: system_wf_def)
  have ev: "table_evolves f_id finding_step new_finding (findings db) (findings db')"
    unfolding rows by (rule finding_table.evolves_modify [OF look dist]) (simp add: finding_step_def trans)
  have "f_id ` set (findings db') \<subseteq> f_id ` set (findings db)"
  proof -
    have "list_all2 finding_step (findings db) (findings db')"
      unfolding rows by (rule finding_table.steps_modify [OF look dist]) (simp add: finding_step_def trans)
    from finding_table.steps_keys [OF this] show ?thesis by (metis list.set_map order_refl)
  qed
  with ev states same grow show ?thesis
    by (auto simp: lawful_def approval_table.evolves_refl)
qed

lemma modified_revision:
  assumes "lookup f_id k fs = Some f" "\<forall>x \<in> set fs. f_id x = k \<longrightarrow> 0 < sint (f_revision (g x))"
  shows "0 < sint (f_revision (g f))"
  using assms by (auto dest: lookup_Some)

section \<open>The canonical transitions\<close>

lemma SubmitCAP_transition:
  assumes "caps_Submit input = Inr decision" "cs_FindingStatus input = f_status f"
    "0 < sint (f_revision f + 1)"
  shows "finding_transition f (SubmitCAP_update env (csr_FindingStatus decision) (f_revision f + 1) f)"
proof -
  have "finding_edge (f_status f) (csr_FindingStatus decision)"
    using caps_Submit_edge [OF assms(1)] assms(2) by simp
  moreover have "csr_FindingStatus decision \<noteq> FStatusClosed" "f_status f \<noteq> FStatusClosed"
    using assms(1,2) by (auto simp: caps_Submit_Inr)
  ultimately show ?thesis
    using assms(3) by (auto simp: finding_transition_def same_identity_def SubmitCAP_update_def finding_wf_def)
qed

lemma SubmitCAP_row_numbered:
  assumes "families c_finding_id c_revision c_cap_id (cap_revisions db)"
    and "row = SubmitCAP_row env actor command finding status db"
    and "\<not> cap_revision_conflict row (cap_revisions db)"
  shows "families c_finding_id c_revision c_cap_id (cap_revisions db @ [row])"
  by (rule families_append)
    (use assms in \<open>auto simp: SubmitCAP_row_def latest_cap_def GetLatestCAPRevisionForFinding_def
      cap_revision_conflict_def split: option.splits\<close>)

interpretation submit_cap: finding_handler "SubmitCAP_handler env actor command" for env actor command
proof unfold_locales
  fix db db' result
  assume run: "SubmitCAP_handler env actor command db = Inr (db', result)" and wf: "system_wf db"
  from run obtain finding decision row where
    look: "lookup f_id (sc_FindingID command) (findings db) = Some finding"
    and guard: "caps_Submit \<lparr>cs_Actor = actor, cs_FindingOrganizationID = f_organization_id finding,
       cs_FindingStatus = f_status finding, cs_FindingRevision = f_revision finding,
       cs_ExpectedFindingRevision = sc_ExpectedFindingRevision command\<rparr> = Inr decision"
    and row: "row = SubmitCAP_row env actor command finding (csr_CAPStatus decision) db"
      "\<not> cap_revision_conflict row (cap_revisions db)"
    and pos: "\<forall>f \<in> set (findings db). f_id f = sc_FindingID command \<longrightarrow> 0 < sint (f_revision finding + 1)"
    and db': "db' = db\<lparr>cap_revisions := cap_revisions db @ [row],
       findings := modify f_id (sc_FindingID command)
         (SubmitCAP_update env (csr_FindingStatus decision) (f_revision finding + 1)) (findings db)\<rparr>"
    by (rule SubmitCAP_handler_Inr) (rule that; assumption)
  have "0 < sint (f_revision finding + 1)" using pos look by (auto dest: lookup_Some)
  then have "finding_transition finding
      (SubmitCAP_update env (csr_FindingStatus decision) (f_revision finding + 1) finding)"
    by (intro SubmitCAP_transition [OF guard]) simp_all
  then have "lawful db db'"
    by (rule lawful_finding_update [OF wf look]) (simp_all add: db' state_table.evolves_refl)
  moreover have "numbering db'"
    using wf SubmitCAP_row_numbered [OF _ row] by (simp add: db' numbering_def system_wf_def)
  ultimately show "lawful db db' \<and> numbering db'" ..
qed

lemma ReviewCAP_transition:
  assumes "caps_Review input = Inr decision" "cr_FindingStatus input = f_status f"
    "0 < sint (f_revision f + 1)"
  shows "finding_transition f (ReviewCAP_update env (crr_FindingStatus decision) (f_revision f + 1) f)"
proof -
  have "finding_edge (f_status f) (crr_FindingStatus decision)" "f_status f = FStatusCAPSubmitted"
    using caps_Review_edge [OF assms(1)] assms(2) by simp_all
  then show ?thesis
    using assms(3) by (auto simp: finding_transition_def same_identity_def ReviewCAP_update_def
        finding_wf_def finding_edge_into_closed)
qed

interpretation review_cap: finding_handler "ReviewCAP_handler env actor command" for env actor command
proof unfold_locales
  fix db db' result
  assume run: "ReviewCAP_handler env actor command db = Inr (db', result)" and wf: "system_wf db"
  from run obtain cap :: CAPRevision and finding decision where
    look: "lookup f_id (rc_FindingID command) (findings db) = Some finding"
    and guard: "caps_Review \<lparr>cr_Actor = actor, cr_CAPStatus = c_status cap, cr_CAPRevision = c_revision cap,
       cr_ExpectedCAPRevision = rc_ExpectedCAPRevision command, cr_FindingStatus = f_status finding,
       cr_EvidenceRequired = f_evidence_required finding, cr_Decision = rc_Decision command,
       cr_Reason = TrimSpace (rc_CommentToAuditee command)\<rparr> = Inr decision"
    and db': "db' = db\<lparr>review_decisions := review_decisions db @ [ReviewCAP_decision env actor command],
       findings := modify f_id (f_id finding)
         (ReviewCAP_update env (crr_FindingStatus decision) (f_revision finding + 1)) (findings db)\<rparr>"
    and pos: "\<forall>f \<in> set (findings db). f_id f = f_id finding \<longrightarrow> 0 < sint (f_revision finding + 1)"
    by (rule ReviewCAP_handler_Inr) (rule that; assumption)
  have fid: "f_id finding = rc_FindingID command" using look by (auto dest: lookup_Some)
  have "0 < sint (f_revision finding + 1)" using pos look by (auto dest: lookup_Some)
  then have "finding_transition finding
      (ReviewCAP_update env (crr_FindingStatus decision) (f_revision finding + 1) finding)"
    by (intro ReviewCAP_transition [OF guard]) simp_all
  then have "lawful db db'"
    by (rule lawful_finding_update [OF wf look]) (simp_all add: db' fid state_table.evolves_refl)
  with wf show "lawful db db' \<and> numbering db'" by (simp add: db' numbering_def system_wf_def)
qed

lemma ReviewEvidence_transition:
  assumes "evidence_Review input = Inr decision" "er_FindingStatus input = f_status f"
    "0 < sint (f_revision f + 1)"
  shows "finding_transition f (ReviewEvidence_update env command decision (f_revision f + 1) f)"
proof -
  have "finding_edge (f_status f) (err_FindingStatus decision)"
    "err_FindingStatus decision = FStatusClosed \<longleftrightarrow> err_ClosureBasis decision \<noteq> ClosureBasisNone"
    using evidence_Review_edge [OF assms(1)] assms(2)
    by (auto simp: ClosureBasisNone_def)
  then show ?thesis
    using assms(3) by (auto simp: finding_transition_def same_identity_def ReviewEvidence_update_def
        finding_wf_def null_if_no_basis_def)
qed

lemma ReviewEvidence_state_step: "state_step s (ReviewEvidence_state_update env decision s)"
  by (simp add: state_step_def ReviewEvidence_state_update_def)

interpretation review_evidence: finding_handler "ReviewEvidence_handler env actor command"
  for env actor command
proof unfold_locales
  fix db db' result
  assume run: "ReviewEvidence_handler env actor command db = Inr (db', result)" and wf: "system_wf db"
  from run obtain version :: EvidenceVersion and finding decision states where
    look: "lookup f_id (re_FindingID command) (findings db) = Some finding"
    and guard: "evidence_Review \<lparr>er_Actor = actor, er_VersionID = e_id version,
       er_VersionRevision = snd (evidence_status version db),
       er_ExpectedVersionRevision = re_ExpectedEvidenceVersionRevision command,
       er_ScanStatus = fst (evidence_status version db), er_FindingStatus = f_status finding,
       er_Decision = re_Decision command\<rparr> = Inr decision"
    and db': "db' = db\<lparr>review_decisions := review_decisions db @ [ReviewEvidence_decision env actor command],
       evidence_version_states := states,
       findings := modify f_id (f_id finding)
         (ReviewEvidence_update env command decision (f_revision finding + 1)) (findings db)\<rparr>"
    and st: "states = evidence_version_states db \<or> states = modify es_evidence_version_id (e_id version)
       (ReviewEvidence_state_update env (re_Decision command)) (evidence_version_states db)"
    and pos: "0 < sint (f_revision finding + 1)"
    by (rule ReviewEvidence_handler_Inr) (rule that; assumption)
  have fid: "f_id finding = re_FindingID command" using look by (auto dest: lookup_Some)
  have states: "table_evolves es_evidence_version_id state_step new_state (evidence_version_states db) states"
    using st state_table.evolves_refl state_table.evolves_modify_all ReviewEvidence_state_step by metis
  have "finding_transition finding
      (ReviewEvidence_update env command decision (f_revision finding + 1) finding)"
    using pos by (intro ReviewEvidence_transition [OF guard]) simp_all
  then have "lawful db db'"
    by (rule lawful_finding_update [OF wf look]) (simp_all add: db' fid states)
  with wf show "lawful db db' \<and> numbering db'" by (simp add: db' numbering_def system_wf_def)
qed

lemma AuthorizedClose_transition:
  assumes "AuthorizedClose input = Inr decision" "ac_Status input = f_status f" "ac_Revision input = f_revision f"
    "0 < sint (tr_Revision decision)"
  shows "finding_transition f (AuthorizedClose_update env decision f)"
  using assms AuthorizedClose_edge [OF assms(1)]
  by (auto simp: AuthorizedClose_Inr finding_transition_def same_identity_def AuthorizedClose_update_def
      finding_wf_def)

interpretation authorized_close: finding_handler "AuthorizedCloseFinding_handler env actor command"
  for env actor command
proof unfold_locales
  fix db db' result
  assume run: "AuthorizedCloseFinding_handler env actor command db = Inr (db', result)" and wf: "system_wf db"
  from run obtain finding decision where
    look: "lookup f_id (cl_FindingID command) (findings db) = Some finding"
    and guard: "AuthorizedClose \<lparr>ac_Actor = actor, ac_Status = f_status finding,
       ac_Revision = f_revision finding, ac_ExpectedRevision = cl_ExpectedFindingRevision command,
       ac_Reason = TrimSpace (cl_Reason command)\<rparr> = Inr decision"
    and db': "db' = db\<lparr>findings := modify f_id (cl_FindingID command) (AuthorizedClose_update env decision)
       (findings db)\<rparr>"
    and pos: "\<forall>f \<in> set (findings db). f_id f = cl_FindingID command \<longrightarrow> 0 < sint (tr_Revision decision)"
    by (rule AuthorizedCloseFinding_handler_Inr) (rule that; assumption)
  have "0 < sint (tr_Revision decision)" using pos look by (auto dest: lookup_Some)
  then have "finding_transition finding (AuthorizedClose_update env decision finding)"
    by (intro AuthorizedClose_transition [OF guard]) simp_all
  then have "lawful db db'"
    by (rule lawful_finding_update [OF wf look]) (simp_all add: db' state_table.evolves_refl)
  with wf show "lawful db db' \<and> numbering db'" by (simp add: db' numbering_def system_wf_def)
qed

lemma LineageIssued_PreliminaryIssued: "LineageIssued i ids db \<Longrightarrow> PreliminaryIssued i db"
  by (auto simp: LineageIssued_def PreliminaryIssued_def list_ex_iff)

lemma Convert_row_new: "new_finding (Convert_row env command pending)"
  by (simp add: new_finding_def finding_wf_def Convert_row_def initialFindingStatus_def)

interpretation convert_finding: finding_handler "ConvertPotentialFinding_handler env actor command"
  for env actor command
proof unfold_locales
  fix db db' result
  assume run: "ConvertPotentialFinding_handler env actor command db = Inr (db', result)" and wf: "system_wf db"
  from run obtain pending ids decision row where
    lineage: "LineageIssued (p_inspection_id pending) ids db"
    and row: "row = Convert_row env command pending" "\<not> finding_conflict row (findings db)"
    and db': "db' = db\<lparr>findings := findings db @ [row],
       potential_findings := modify p_id (cp_PotentialFindingID command)
         (Convert_update env decision (f_id row)) (potential_findings db)\<rparr>"
    by (rule ConvertPotentialFinding_handler_Inr) (rule that; assumption)
  have "f_id row \<notin> f_id ` set (findings db)" using row(2) by (auto simp: finding_conflict_def list_ex_iff)
  then have "table_evolves f_id finding_step new_finding (findings db) (findings db @ [row])"
    by (intro finding_table.evolves_append) (simp_all add: row(1) Convert_row_new)
  moreover have "PreliminaryIssued (f_inspection_id row) db"
    using LineageIssued_PreliminaryIssued [OF lineage] by (simp add: row(1) Convert_row_def)
  ultimately have "lawful db db'"
    by (auto simp: lawful_def db' state_table.evolves_refl approval_table.evolves_refl)
  with wf show "lawful db db' \<and> numbering db'" by (simp add: db' numbering_def system_wf_def)
qed

section \<open>Field work\<close>

text \<open>
  \<open>settled\<close> transactions leave Findings, Evidence and reports alone; \<open>untouched\<close> ones also leave the
  preparation of audits, the inspections and their packages alone.
\<close>

definition settled :: "DB \<Rightarrow> DB \<Rightarrow> bool" where
  "settled db db' \<longleftrightarrow> findings db' = findings db \<and> evidence_version_states db' = evidence_version_states db \<and>
     report_approval_states db' = report_approval_states db \<and> report_versions db' = report_versions db \<and>
     cap_revisions db' = cap_revisions db \<and> evidence_versions db' = evidence_versions db \<and>
     report_decisions db' = report_decisions db \<and> prefix (review_decisions db) (review_decisions db')"

definition same_desk :: "DB \<Rightarrow> DB \<Rightarrow> bool" where
  "same_desk db db' \<longleftrightarrow> audit_assignments db' = audit_assignments db \<and>
     audit_team_members db' = audit_team_members db \<and>
     audit_question_assignments db' = audit_question_assignments db \<and> preparation db' = preparation db \<and>
     inspections db' = inspections db \<and> inspection_packages db' = inspection_packages db \<and>
     question_assignments db' = question_assignments db \<and> snapshot_questions db' = snapshot_questions db"

definition untouched :: "DB \<Rightarrow> DB \<Rightarrow> bool" where
  "untouched db db' \<longleftrightarrow> findings db' = findings db \<and> evidence_version_states db' = evidence_version_states db \<and>
     report_approval_states db' = report_approval_states db \<and> report_versions db' = report_versions db \<and>
     cap_revisions db' = cap_revisions db \<and> evidence_versions db' = evidence_versions db \<and>
     report_decisions db' = report_decisions db \<and> prefix (review_decisions db) (review_decisions db') \<and>
     audit_assignments db' = audit_assignments db \<and> audit_team_members db' = audit_team_members db \<and>
     audit_question_assignments db' = audit_question_assignments db \<and> preparation db' = preparation db \<and>
     inspections db' = inspections db \<and> inspection_packages db' = inspection_packages db \<and>
     question_assignments db' = question_assignments db \<and> snapshot_questions db' = snapshot_questions db"

lemma untouched_iff: "untouched db db' \<longleftrightarrow> settled db db' \<and> same_desk db db'"
  by (simp add: untouched_def settled_def same_desk_def)

lemma settled_contract: "settled db db' \<Longrightarrow> system_wf db \<Longrightarrow> lawful db db' \<and> numbering db'"
  using lawful_same [of db' db] by (simp add: settled_def system_wf_def)

lemma untouched_contract: "untouched db db' \<Longrightarrow> system_wf db \<Longrightarrow> lawful db db' \<and> numbering db'"
  using settled_contract [of db db'] by (simp add: untouched_iff)

lemma UpsertChecklistResponse_untouched:
  "UpsertChecklistResponse_handler env actor command db = Inr (db', result) \<Longrightarrow> untouched db db'"
  by (erule UpsertChecklistResponse_handler_Inr) (simp add: untouched_def)

lemma SubmitChecklist_untouched:
  "SubmitChecklist_handler env actor command db = Inr (db', result) \<Longrightarrow> untouched db db'"
  by (erule SubmitChecklist_handler_Inr) (simp add: untouched_def)

lemma ReopenChecklist_untouched:
  "ReopenChecklist_handler env actor command db = Inr (db', result) \<Longrightarrow> untouched db db'"
  by (erule ReopenChecklist_handler_Inr) (simp add: untouched_def)

lemma CreatePotentialFinding_untouched:
  "CreatePotentialFinding_handler env actor command ids db = Inr (db', result) \<Longrightarrow> untouched db db'"
  by (erule CreatePotentialFinding_handler_Inr) (simp add: untouched_def)

lemma DecidePotentialFinding_untouched:
  "DecidePotentialFinding_handler env actor command db = Inr (db', result) \<Longrightarrow> untouched db db'"
  by (erule DecidePotentialFinding_handler_Inr) (simp add: untouched_def)

lemma StartInspection_settled:
  "StartInspection_handler env actor command db = Inr (db', result) \<Longrightarrow> settled db db'"
  by (erule StartInspection_handler_Inr) (simp add: settled_def)

interpretation upsert_response: finding_handler "UpsertChecklistResponse_handler env actor command"
  for env actor command
  by unfold_locales (rule untouched_contract, rule UpsertChecklistResponse_untouched)

interpretation submit_checklist: finding_handler "SubmitChecklist_handler env actor command"
  for env actor command
  by unfold_locales (rule untouched_contract, rule SubmitChecklist_untouched)

interpretation reopen_checklist: finding_handler "ReopenChecklist_handler env actor command"
  for env actor command
  by unfold_locales (rule untouched_contract, rule ReopenChecklist_untouched)

interpretation create_potential: finding_handler "CreatePotentialFinding_handler env actor command ids"
  for env actor command ids
  by unfold_locales (rule untouched_contract, rule CreatePotentialFinding_untouched)

interpretation decide_potential: finding_handler "DecidePotentialFinding_handler env actor command"
  for env actor command
  by unfold_locales (rule untouched_contract, rule DecidePotentialFinding_untouched)

interpretation start_inspection: finding_handler "StartInspection_handler env actor command"
  for env actor command
  by unfold_locales (rule settled_contract, rule StartInspection_settled)

section \<open>Reports\<close>

lemma Approval_step:
  assumes "reports_Decide input = Inr status" "rd_Status input = ra_status a"
  shows "approval_step a (Approval_update env status (ra_revision a + 1) a)"
  using reports_Decide_edge [OF assms(1)] assms(2)
  by (auto simp: approval_step_def Approval_update_def)

interpretation decide_report: finding_handler "DecideReport_handler env actor command"
  for env actor command
proof unfold_locales
  fix db db' result
  assume run: "DecideReport_handler env actor command db = Inr (db', result)" and wf: "system_wf db"
  from run obtain state status docs jobs l where
    look: "lookup ra_report_version_id (dc_ReportVersionID command) (report_approval_states db) = Some state"
    and guard: "reports_Decide \<lparr>rd_Actor = actor, rd_Status = ra_status state, rd_Version = ra_revision state,
       rd_ExpectedVersion = dc_ExpectedRevision command, rd_Decision = dc_Decision command,
       rd_Reason = dc_Reason command\<rparr> = Inr status"
    and db': "db' = db\<lparr>report_approval_states := modify ra_report_version_id (dc_ReportVersionID command)
         (Approval_update env status (ra_revision state + 1)) (report_approval_states db),
       report_decisions := report_decisions db @ [ReportDecision_row env actor command],
       document_records := docs, document_render_jobs := jobs, ledger := l\<rparr>"
    by (rule DecideReport_handler_Inr) (rule that; assumption)
  have "table_evolves ra_report_version_id approval_step new_approval (report_approval_states db)
      (modify ra_report_version_id (dc_ReportVersionID command)
         (Approval_update env status (ra_revision state + 1)) (report_approval_states db))"
    by (rule approval_table.evolves_modify [OF look])
      (use wf Approval_step [OF guard] in \<open>auto simp: system_wf_def\<close>)
  then have "lawful db db'"
    by (auto simp: lawful_def db' state_table.evolves_refl finding_table.evolves_refl)
  with wf show "lawful db db' \<and> numbering db'" by (simp add: db' numbering_def system_wf_def)
qed

section \<open>Creation\<close>

interpretation create_organization: finding_handler "CreateAdminOrganization_handler env command"
  for env command
proof unfold_locales
  fix db db' result
  assume "CreateAdminOrganization_handler env command db = Inr (db', result)"
  then obtain rows where db': "db' = db\<lparr>organizations := rows\<rparr>"
    by (auto simp: CreateAdminOrganization_handler_def Let_def if_Inl_Inr)
  then show "keeps_ledger (ledger db) (ledger db')" by simp
  show "lawful db db' \<and> numbering db'" if "system_wf db"
    using that by (intro untouched_contract) (simp_all add: db' untouched_def)
qed

interpretation create_reminder_rule: finding_handler "CreateReminderRule_handler env actor command"
  for env actor command
proof unfold_locales
  fix db db' result
  assume "CreateReminderRule_handler env actor command db = Inr (db', result)"
  then obtain rows where db': "db' = db\<lparr>reminder_rules := rows\<rparr>"
    by (auto simp: CreateReminderRule_handler_def Let_def if_Inl_Inr)
  then show "keeps_ledger (ledger db) (ledger db')" by simp
  show "lawful db db' \<and> numbering db'" if "system_wf db"
    using that by (intro untouched_contract) (simp_all add: db' untouched_def)
qed

text \<open>The status of a new version was checked before the transaction.\<close>

lemma CreateReportVersion_contract:
  assumes run: "CreateReportVersion_handler env actor command db = Inr (db', result)" and wf: "system_wf db"
    and status: "kv_Status command \<in> {RStatusReturned, RStatusDepartmentReview}"
  shows "lawful db db' \<and> numbering db'"
  using run
proof (rule CreateReportVersion_handler_Inr)
  fix content
  assume fresh: "\<forall>a \<in> set (report_approval_states db). ra_report_version_id a \<noteq> kv_ReportVersionID command"
    and db': "db' = db\<lparr>report_versions := report_versions db @ [CreateReport_version env actor command
         (potential_roots (kv_AuditID command) db) content],
       report_approval_states := report_approval_states db @ [CreateReport_approval env command]\<rparr>"
  have "table_evolves ra_report_version_id approval_step new_approval (report_approval_states db)
      (report_approval_states db @ [CreateReport_approval env command])"
    by (rule approval_table.evolves_append)
      (use fresh status in \<open>auto simp: new_approval_def CreateReport_approval_def\<close>)
  then have "lawful db db'"
    by (auto simp: lawful_def db' finding_table.evolves_refl state_table.evolves_refl)
  with wf show "lawful db db' \<and> numbering db'" by (simp add: db' numbering_def system_wf_def)
qed

lemma CreateReportVersion_ledger:
  "CreateReportVersion_handler env actor command db = Inr (db', result) \<Longrightarrow> ledger db' = ledger db"
  by (erule CreateReportVersion_handler_Inr) simp

lemma CreateReport_input_Inr:
  assumes "CreateReport_input actor input = Inr command"
  shows "HasRole actor [RoleLeadInspector]" "kv_Status command \<in> {RStatusReturned, RStatusDepartmentReview}"
    "kv_Kind command \<in> {KindPreliminary, KindFinal}"
    "command = input\<lparr>kv_FindingIDs := kv_FindingIDs command\<rparr>"
  using assms by (auto simp: CreateReport_input_def split: if_splits sum.splits)

interpretation create_report: finding_handler
  "if kv_Status command \<in> {RStatusReturned, RStatusDepartmentReview}
   then CreateReportVersion_handler env actor command else (\<lambda>db. Inl e)" for env actor command e
  by unfold_locales
    (auto dest: CreateReportVersion_ledger CreateReportVersion_contract split: if_splits)

end
