(* ===== verification/UploadContracts.thy ===== *)
theory UploadContracts
  imports FindingContracts
begin

text \<open>The Evidence uploads and the scan worker keep the contract of \<open>FindingSystem\<close>.\<close>

section \<open>Begin and expiry\<close>

lemma lookup_distinct:
  assumes "distinct (map key rows)" "r \<in> set rows"
  shows "lookup key (key r) rows = Some r"
proof (cases "lookup key (key r) rows")
  case (Some r')
  then have "r' \<in> set rows" "key r' = key r" by (auto dest: lookup_Some)
  with assms Some show ?thesis by (metis distinct_map inj_onD)
qed (use assms in \<open>auto simp: lookup_None\<close>)

lemma evidence_Begin_Inr:
  assumes "evidence_Begin service env actor input db = Inr (db', output)"
  obtains (replayed) "db' = db"
  | (executed) finding session sessions envelope where
      "BeginUpload_finding actor input db = Inr finding"
      "PreliminaryIssued (f_inspection_id finding) db"
      "session = BeginUpload_session service env actor input finding"
      "sessions = upload_sessions db @ [session]"
      "persistUploadTransaction envelope (db\<lparr>upload_sessions := sessions\<rparr>) = Inr db'"
proof -
  let ?replayed = "loadIdempotent (begin_scope actor) (bi_OperationID input)
    (sv_SemanticHash service (BeginEvidence input)) db"
  from assms obtain replay where
    r: "(case replay of Some out \<Rightarrow> Inr (db, out) | None \<Rightarrow> BeginUpload_body service env actor input db) =
      Inr (db', output)"
    unfolding evidence_Begin_def
    by (cases ?replayed; cases "ValidateDeclaration (bi_FileName input) (bi_DeclaredMediaType input)
        (bi_ByteSize input) (sv_maximumByteSize service) (bi_SHA256 input)")
      (auto simp: at_stage_def if_Inl_Inr simp del: not_None_eq)
  show thesis
  proof (cases replay)
    case (Some out)
    with r replayed show thesis by simp
  next
    case None
    with r have "BeginUpload_body service env actor input db = Inr (db', output)" by simp
    then show thesis
      by (auto simp: BeginUpload_body_def bind_result_Inr row_simps check_error_Inr
          require_preliminary_None Let_def split: option.splits intro: executed)
  qed
qed

lemma evidence_Begin_untouched:
  "evidence_Begin service env actor input db = Inr (db', output) \<Longrightarrow> untouched db db'"
  by (erule evidence_Begin_Inr) (auto simp: untouched_def dest!: persistUploadTransaction_Inr)

lemma evidence_Begin_ledger:
  assumes "evidence_Begin service env actor input db = Inr (db', output)" "ledger_wf (ledger db)"
  shows "ledger_wf (ledger db') \<and> ledger_grows (ledger db) (ledger db')"
  using assms(1)
proof (cases rule: evidence_Begin_Inr)
  case (executed finding session sessions envelope)
  with persistUpload_wf persistUploadTransaction_grows assms(2) show ?thesis by fastforce
qed (use assms in simp)

interpretation evidence_begin: transaction
  "\<lambda>db db'. \<exists>service env actor input output. evidence_Begin service env actor input db = Inr (db', output)"
  by unfold_locales (auto dest: untouched_contract [OF evidence_Begin_untouched] evidence_Begin_ledger)

lemma ReconcileExpired_untouched: "untouched db (fst (ReconcileExpired env db))"
  by (simp add: untouched_def ReconcileExpired_def)

interpretation reconcile: transaction "\<lambda>db db'. \<exists>env. db' = fst (ReconcileExpired env db)"
proof unfold_locales
  fix db db'
  assume run: "\<exists>env. db' = fst (ReconcileExpired env db)"
  then show "system_wf db \<Longrightarrow> lawful db db' \<and> numbering db'"
    using untouched_contract [OF ReconcileExpired_untouched] by blast
  from run show "ledger_wf (ledger db) \<Longrightarrow> ledger_wf (ledger db') \<and> ledger_grows (ledger db) (ledger db')"
    by (auto simp: ReconcileExpired_def)
qed

section \<open>Complete\<close>

lemma Complete_finding_transition:
  assumes "evidence_boundary (f_status f)" "0 < sint (f_revision f + 1)"
  shows "finding_transition f (Complete_finding env (f_revision f + 1) f)"
  using assms
  by (auto simp: evidence_boundary_def finding_transition_def same_identity_def Complete_finding_def
      finding_wf_def intro: finding_edge.intros)

lemma Complete_version_numbered:
  assumes "families e_finding_id e_version e_evidence_id (evidence_versions db)"
    and "\<not> evidence_version_conflict (Complete_version env actor session db) (evidence_versions db)"
  shows "families e_finding_id e_version e_evidence_id
    (evidence_versions db @ [Complete_version env actor session db])"
  by (rule families_append)
    (use assms in \<open>auto simp: Complete_version_def latest_evidence_def evidence_version_conflict_def
      split: option.splits\<close>)

lemma Complete_writes_contract:
  assumes wf: "system_wf db" and run: "Complete_writes env actor session identity finding db = Inr db'"
    and f: "finding \<in> set (findings db)" "f_id finding = us_aggregate_id session"
    and bound: "evidence_boundary (f_status finding)"
  shows "lawful db db' \<and> numbering db'"
  using run
proof (rule Complete_writes_Inr)
  fix object
  assume c: "\<not> evidence_version_conflict (Complete_version env actor session db) (evidence_versions db)"
    "\<forall>s \<in> set (evidence_version_states db). es_evidence_version_id s \<noteq> env_new_id env ''evidence-version''"
    "\<forall>f \<in> set (findings db). f_id f = us_aggregate_id session \<longrightarrow> 0 < sint (f_revision finding + 1)"
    and db': "db' = db\<lparr>object_metadata := object_metadata db @ [object],
       evidence_versions := evidence_versions db @ [Complete_version env actor session db],
       evidence_version_states := evidence_version_states db @ [Complete_state env],
       upload_sessions := modify us_id (us_id session) (Complete_session env) (upload_sessions db),
       findings := modify f_id (us_aggregate_id session)
         (Complete_finding env (f_revision finding + 1)) (findings db)\<rparr>"
  have "distinct (map f_id (findings db))" using wf by (simp add: system_wf_def)
  then have look: "lookup f_id (us_aggregate_id session) (findings db) = Some finding"
    using f by (metis lookup_distinct)
  have states: "table_evolves es_evidence_version_id state_step new_state
      (evidence_version_states db) (evidence_version_states db @ [Complete_state env])"
    by (rule state_table.evolves_append) (use c(2) in \<open>auto simp: new_state_def Complete_state_def\<close>)
  have "finding_transition finding (Complete_finding env (f_revision finding + 1) finding)"
    using c(3) f bound by (intro Complete_finding_transition) auto
  then have "lawful db db'"
    by (rule lawful_finding_update [OF wf look]) (simp_all add: db' states)
  moreover have "numbering db'"
    using wf Complete_version_numbered [OF _ c(1)] by (simp add: db' numbering_def system_wf_def)
  ultimately show ?thesis ..
qed

lemma Complete_writes_ledger:
  "Complete_writes env actor session identity finding db = Inr db' \<Longrightarrow> ledger db' = ledger db"
  by (erule Complete_writes_Inr) simp

lemma evidence_Complete_cases:
  assumes "evidence_Complete service env actor input db = Inr (db', output)"
  obtains (replayed) "db' = db" | (executed) "Complete_body service env actor input db = Inr (db', output)"
  using assms by (auto simp: evidence_Complete_def if_Inl_Inr elim!: idempotent_upload_cases)

lemma Complete_body_contract:
  assumes run: "Complete_body service env actor input db = Inr (db', output)"
  shows "system_wf db \<Longrightarrow> lawful db db' \<and> numbering db'"
    and "ledger_wf (ledger db) \<Longrightarrow> ledger_wf (ledger db') \<and> ledger_grows (ledger db) (ledger db')"
proof -
  from run obtain session identity finding mid envelope where
    f: "finding \<in> set (findings db)" "f_id finding = us_aggregate_id session"
      "evidence_boundary (f_status finding)"
    and w: "Complete_writes env actor session identity finding db = Inr mid"
    and p: "persistUploadTransaction envelope mid = Inr db'"
    by (rule Complete_body_Inr)
  show "lawful db db' \<and> numbering db'" if wf: "system_wf db"
    using Complete_writes_contract [OF wf w f] persistUploadTransaction_Inr [OF p] by auto
  show "ledger_wf (ledger db') \<and> ledger_grows (ledger db) (ledger db')" if "ledger_wf (ledger db)"
    using that Complete_writes_ledger [OF w] persistUpload_wf [OF p] persistUploadTransaction_grows [OF p]
    by simp
qed

interpretation evidence_complete: transaction
  "\<lambda>db db'. \<exists>service env actor input output. evidence_Complete service env actor input db = Inr (db', output)"
proof unfold_locales
  fix db db'
  assume "\<exists>service env actor input out. evidence_Complete service env actor input db = Inr (db', out)"
  then obtain service env actor input out where
    run: "evidence_Complete service env actor input db = Inr (db', out)" by blast
  show "lawful db db' \<and> numbering db'" if "system_wf db"
    using run that
    by (cases rule: evidence_Complete_cases) (auto simp: system_wf_def dest: Complete_body_contract)
  show "ledger_wf (ledger db') \<and> ledger_grows (ledger db) (ledger db')" if "ledger_wf (ledger db)"
    using run that by (cases rule: evidence_Complete_cases) (auto dest: Complete_body_contract)
qed

end
