(* ===== verification/ScanContracts.thy ===== *)
theory ScanContracts
  imports UploadContracts
begin

text \<open>
  The transactions of the scan worker keep the contract of \<open>FindingSystem\<close>, whatever the claim, the
  record read before the scan, the scan result and the promoted object they are called with: scanning
  and promotion run outside the transaction, so none of them is current when it starts.
\<close>

section \<open>Transactions that leave Findings and Evidence alone\<close>

lemma attachment_frame_untouched: "attachment_frame db db' \<Longrightarrow> untouched db db'"
  by (auto simp: attachment_frame_def untouched_def)

lemma attachment_frame_grows:
  "attachment_frame db db' \<Longrightarrow> ledger_wf (ledger db) \<Longrightarrow>
   ledger_wf (ledger db') \<and> ledger_grows (ledger db) (ledger db')"
  by (auto simp: attachment_frame_def)

lemma attachment_frame_contract: "attachment_frame db db' \<Longrightarrow> system_wf db \<Longrightarrow> lawful db db' \<and> numbering db'"
  by (rule untouched_contract [OF attachment_frame_untouched])

interpretation claim_next: transaction
  "\<lambda>db db'. \<exists>worker now claimed. claimNext worker now db = Some (claimed, db')"
  by unfold_locales
    (auto elim!: claimNext_Some dest: attachment_frame_contract attachment_frame_grows)

interpretation mark_delivered: transaction "\<lambda>db db'. \<exists>mid now. db' = markDelivered mid now db"
  by unfold_locales
    (auto dest: attachment_frame_contract [OF markDelivered_frame] attachment_frame_grows [OF markDelivered_frame])

interpretation finalize_attachment: transaction "\<lambda>db db'. \<exists>worker env claimed record key promoted result.
    finalizeAttachment worker env claimed record key promoted result db = Inr db'"
  by unfold_locales
    (auto dest!: finalizeAttachment_Inr dest: attachment_frame_contract attachment_frame_grows)

section \<open>Results of Evidence scans\<close>

text \<open>A scan moves the Finding only when it still waits for the scan.\<close>

lemma scanned_finding_step:
  assumes "f_status f = FStatusEvidenceSubmitted \<longrightarrow> 0 < sint (f_revision f + 1)"
    and "status \<in> {FStatusPendingCAAReview, FStatusEvidenceMoreInformationRequested}"
  shows "finding_step f (scanned_finding env status nextAction (f_revision f + 1) f)"
  using assms
  by (auto simp: finding_step_def finding_transition_def scanned_finding_def same_identity_def finding_wf_def
      intro: finding_edge.scan_evidence)

lemma scanned_findings_evolve:
  assumes wf: "system_wf db" and look: "lookup f_id k (findings db) = Some finding"
    and pos: "\<forall>f \<in> set (findings db). f_id f = f_id finding \<and> f_status f = FStatusEvidenceSubmitted \<longrightarrow>
      0 < sint (f_revision finding + 1)"
    and status: "status \<in> {FStatusPendingCAAReview, FStatusEvidenceMoreInformationRequested}"
  shows "list_all2 finding_step (findings db) (modify f_id (f_id finding)
      (scanned_finding env status nextAction (f_revision finding + 1)) (findings db))"
proof (rule finding_table.steps_modify)
  from look show "lookup f_id (f_id finding) (findings db) = Some finding" by (auto dest: lookup_Some)
  show "distinct (map f_id (findings db))" using wf by (simp add: system_wf_def)
  show "finding_step finding (scanned_finding env status nextAction (f_revision finding + 1) finding)"
    using pos look by (intro scanned_finding_step [OF _ status]) (auto dest: lookup_Some)
qed

lemma scanned_state_step:
  "\<not> terminal_scan (es_scan_state s) \<Longrightarrow> state_step s (scanned_state env clean canonicalID reason s)"
  by (auto simp: state_step_def scanned_state_def)

lemma failed_state_step: "state_step s (failed_state env reason s)"
  by (auto simp: state_step_def failed_state_def terminal_scan_def)

lemma scan_contract:
  assumes wf: "system_wf db"
    and fs: "list_all2 finding_step (findings db) fs"
    and states: "table_evolves es_evidence_version_id state_step new_state (evidence_version_states db) states"
  shows "lawful db (db\<lparr>object_metadata := objects, evidence_version_states := states, findings := fs,
      ledger := l\<rparr>)"
    "numbering (db\<lparr>object_metadata := objects, evidence_version_states := states, findings := fs,
      ledger := l\<rparr>)"
proof -
  have keys: "map f_id fs = map f_id (findings db)" by (rule finding_table.steps_keys [OF fs])
  then have "f_id ` set fs = f_id ` set (findings db)" by (metis list.set_map)
  moreover have "table_evolves f_id finding_step new_finding (findings db) fs"
    using fs keys list_all2_lengthD [OF fs] by (simp add: table_evolves_def)
  ultimately show "lawful db (db\<lparr>object_metadata := objects, evidence_version_states := states,
      findings := fs, ledger := l\<rparr>)"
    using states by (auto simp: lawful_def approval_table.evolves_refl)
  from wf show "numbering (db\<lparr>object_metadata := objects, evidence_version_states := states,
      findings := fs, ledger := l\<rparr>)" by (simp add: numbering_def system_wf_def)
qed

lemma finalizeEvidence_contract:
  assumes run: "finalizeEvidence worker env claimed record key promoted result db = Inr db'"
    and wf: "system_wf db"
  shows "lawful db db' \<and> numbering db'"
  using run
proof (cases rule: finalizeEvidence_Inr)
  case (delivered version state finding)
  with wf attachment_frame_contract [OF markDelivered_frame] show ?thesis by simp
next
  case (scanned version state finding canonicalID objects l)
  note ctx = scan_context_Some [OF scanned(1)]
  have "table_evolves es_evidence_version_id state_step new_state (evidence_version_states db)
      (modify es_evidence_version_id (cm_AggregateID claimed)
        (scanned_state env (sc_Clean result) canonicalID (sc_Reason result)) (evidence_version_states db))"
    by (rule state_table.evolves_modify [OF ctx(3)])
      (use wf scanned(2) in \<open>simp_all add: system_wf_def scanned_state_step\<close>)
  moreover have "fst (scan_outcome (sc_Clean result)) \<in>
      {FStatusPendingCAAReview, FStatusEvidenceMoreInformationRequested}"
    by (simp add: scan_outcome_def)
  note scanned_findings_evolve [OF wf ctx(4) scanned(5) this]
  ultimately show ?thesis using scan_contract [OF wf] unfolding scanned(4) by blast
qed

lemma finalizeEvidence_ledger:
  assumes "finalizeEvidence worker env claimed record key promoted result db = Inr db'" "ledger_wf (ledger db)"
  shows "ledger_wf (ledger db') \<and> ledger_grows (ledger db) (ledger db')"
  using assms(1)
proof (cases rule: finalizeEvidence_Inr)
  case (delivered version state finding)
  with assms(2) show ?thesis by (simp add: markDelivered_ledger)
qed (use assms(2) in simp)

interpretation finalize_evidence: transaction "\<lambda>db db'. \<exists>worker env claimed record key promoted result.
    finalizeEvidence worker env claimed record key promoted result db = Inr db'"
  by unfold_locales (auto dest: finalizeEvidence_contract finalizeEvidence_ledger)

section \<open>Failures\<close>

lemma failed_findings_evolve:
  assumes wf: "system_wf db" and look: "lookup f_id k (findings db) = Some finding"
    and pos: "f_status finding = FStatusEvidenceSubmitted \<longrightarrow>
      (\<forall>f \<in> set (findings db). f_id f = f_id finding \<and> f_status f = FStatusEvidenceSubmitted \<longrightarrow>
         0 < sint (f_revision finding + 1))"
  shows "list_all2 finding_step (findings db) (failed_findings env finding (findings db))"
proof (cases "f_status finding = FStatusEvidenceSubmitted")
  case True
  with pos scanned_findings_evolve [OF wf look, of FStatusEvidenceMoreInformationRequested] show ?thesis
    by (simp add: failed_findings_def)
qed (simp add: failed_findings_def list_all2_refl finding_table.step_refl)

lemma recordFailure_contract:
  assumes run: "recordFailure worker env claimed reason db = Inr db'" and wf: "system_wf db"
  shows "lawful db db' \<and> numbering db'"
  using run
proof (cases rule: recordFailure_Inr)
  case other
  with wf show ?thesis by (simp add: attachment_frame_contract)
next
  case (failed version state finding objects l)
  note ctx = scan_context_Some [OF failed(1)]
  have "table_evolves es_evidence_version_id state_step new_state (evidence_version_states db)
      (modify es_evidence_version_id (cm_AggregateID claimed) (failed_state env reason)
        (evidence_version_states db))"
    by (rule state_table.evolves_modify_all) (rule failed_state_step)
  with failed_findings_evolve [OF wf ctx(4) failed(3)] show ?thesis
    using scan_contract [OF wf] unfolding failed(4) by blast
qed

lemma recordFailure_ledger:
  assumes "recordFailure worker env claimed reason db = Inr db'" "ledger_wf (ledger db)"
  shows "ledger_wf (ledger db') \<and> ledger_grows (ledger db) (ledger db')"
  using assms(1)
proof (cases rule: recordFailure_Inr)
  case other
  with assms(2) show ?thesis by (simp add: attachment_frame_grows)
qed (use assms(2) in simp)

interpretation record_failure: transaction "\<lambda>db db'. \<exists>worker env claimed reason.
    recordFailure worker env claimed reason db = Inr db'"
  by unfold_locales (auto dest: recordFailure_contract recordFailure_ledger)

end
