(* ===== verification/Codecs.thy ===== *)
theory Codecs
  imports Json
begin

text \<open>
  The byte encodings of the standard library that several components use: \<open>hex.EncodeToString\<close>,
  \<open>base64.RawURLEncoding.DecodeString\<close>, big-endian numbers, and \<open>idempotency.SemanticHash\<close>
  (\<open>internal/platform/idempotency/idempotency.go\<close>), the lower-case hexadecimal digits of a digest.
\<close>

section \<open>Hexadecimal\<close>

definition hex_char :: "nat \<Rightarrow> char" where
  "hex_char n = ''0123456789abcdef'' ! (n mod 16)"

definition hex_byte :: "char \<Rightarrow> string" where
  "hex_byte c = (let n = of_char c :: nat in [hex_char (n div 16), hex_char (n mod 16)])"

definition hex_encode :: "string \<Rightarrow> string" where
  "hex_encode bytes = concat (map hex_byte bytes)"

lemma hex_char_digit: "hex_char n \<in> set ''0123456789abcdef''"
proof -
  have "n mod 16 < length ''0123456789abcdef''" by simp
  then show ?thesis unfolding hex_char_def by (rule nth_mem)
qed

lemma hex_encode_digits: "set (hex_encode bytes) \<subseteq> set ''0123456789abcdef''"
  using hex_char_digit by (fastforce simp: hex_encode_def hex_byte_def Let_def)

lemma length_hex_encode [simp]: "length (hex_encode bytes) = 2 * length bytes"
  by (induction bytes) (simp_all add: hex_encode_def hex_byte_def Let_def)

text \<open>
  \<open>SemanticHash\<close> is applied to the SHA-256 digest of the JSON form of a payload; the digest is a
  parameter of its callers.
\<close>

definition SemanticHash :: "string \<Rightarrow> string" where
  "SemanticHash digest = hex_encode digest"

text \<open>A semantic hash never carries the prefix of a tagged digest.\<close>

lemma SemanticHash_untagged: "\<not> HasPrefix (SemanticHash digest) ''sha256:''"
proof
  assume "HasPrefix (SemanticHash digest) ''sha256:''"
  then obtain rest where "SemanticHash digest = ''sha256:'' @ rest"
    unfolding HasPrefix_def by (metis append_take_drop_id)
  then have "CHR ''s'' \<in> set (SemanticHash digest)" by simp
  with hex_encode_digits [of digest] show False by (auto simp: SemanticHash_def)
qed

section \<open>Base64\<close>

definition base64_alphabet :: string where
  "base64_alphabet = ''ABCDEFGHIJKLMNOPQRSTUVWXYZabcdefghijklmnopqrstuvwxyz0123456789-_''"

fun index_of :: "'a \<Rightarrow> 'a list \<Rightarrow> nat option" where
  "index_of x [] = None"
| "index_of x (y # ys) = (if x = y then Some 0 else map_option Suc (index_of x ys))"

text \<open>Every group of four digits gives three bytes; two or three digits at the end give one or two.\<close>

fun base64_groups :: "nat list \<Rightarrow> nat list option" where
  "base64_groups (a # b # c # d # rest) = map_option
     (\<lambda>bytes. (a * 4 + b div 16) # (b mod 16 * 16 + c div 4) # (c mod 4 * 64 + d) # bytes) (base64_groups rest)"
| "base64_groups [a, b, c] = Some [a * 4 + b div 16, b mod 16 * 16 + c div 4]"
| "base64_groups [a, b] = Some [a * 4 + b div 16]"
| "base64_groups [a] = None"
| "base64_groups [] = Some []"

fun collect :: "'a option list \<Rightarrow> 'a list option" where
  "collect [] = Some []"
| "collect (None # xs) = None"
| "collect (Some x # xs) = map_option (Cons x) (collect xs)"

text \<open>The decoder skips carriage returns and line feeds.\<close>

definition base64_decode :: "string \<Rightarrow> string option" where
  "base64_decode s =
     (case collect (map (\<lambda>c. index_of c base64_alphabet)
             (filter (\<lambda>c. c \<noteq> CHR 0x0A \<and> c \<noteq> CHR 0x0D) s)) of
        None \<Rightarrow> None
      | Some ds \<Rightarrow> map_option (map char_of) (base64_groups ds))"

lemma index_of_less: "index_of x ys = Some i \<Longrightarrow> i < length ys \<and> ys ! i = x"
  by (induction ys arbitrary: i) (auto split: if_splits)

lemma collect_Some: "collect xs = Some ys \<longleftrightarrow> xs = map Some ys"
  by (induction xs arbitrary: ys rule: collect.induct) auto

lemma base64_groups_length: "base64_groups ds = Some bs \<Longrightarrow> length bs = 3 * length ds div 4"
  by (induction ds arbitrary: bs rule: base64_groups.induct) auto

lemma base64_groups_bytes:
  "base64_groups ds = Some bs \<Longrightarrow> \<forall>d \<in> set ds. d < 64 \<Longrightarrow> \<forall>b \<in> set bs. b < 256"
proof (induction ds arbitrary: bs rule: base64_groups.induct)
  case (1 a b c d rest)
  from "1.prems"(1) obtain bytes where "base64_groups rest = Some bytes"
    "bs = (a * 4 + b div 16) # (b mod 16 * 16 + c div 4) # (c mod 4 * 64 + d) # bytes" by auto
  with "1.IH" "1.prems"(2) show ?case by (auto; presburger)
qed (auto; presburger)+

section \<open>Numbers\<close>

text \<open>\<open>big.Int.SetBytes\<close>.\<close>

definition big_endian :: "string \<Rightarrow> int" where
  "big_endian bytes = fold (\<lambda>c n. n * 256 + int (of_char c)) bytes 0"

lemma big_endian_bounds: "0 \<le> big_endian bytes \<and> big_endian bytes < 256 ^ length bytes"
proof -
  have "0 \<le> n \<Longrightarrow> n < 256 ^ k \<Longrightarrow>
      0 \<le> fold (\<lambda>c n. n * 256 + int (of_char c)) bytes n \<and>
      fold (\<lambda>c n. n * 256 + int (of_char c)) bytes n < 256 ^ (k + length bytes)" for n :: int and k
  proof (induction bytes arbitrary: n k)
    case (Cons c bytes)
    have "int (of_char c) < 256" using nat_of_char_less_256 [of c] by linarith
    moreover have "n + 1 \<le> 256 ^ k" using Cons.prems by simp
    ultimately have "n * 256 + int (of_char c) < 256 * 256 ^ k" by linarith
    then have "0 \<le> n * 256 + int (of_char c)" "n * 256 + int (of_char c) < 256 ^ Suc k"
      using Cons.prems by simp_all
    from Cons.IH [OF this] show ?case by simp
  qed simp
  from this [of 0 0] show ?thesis by (simp add: big_endian_def)
qed

end
