(* ===== verification/ProfileAuthority.thy ===== *)
theory ProfileAuthority
  imports Codecs
begin

text \<open>
  The authority of an offline profile (\<open>internal/sync/profile_authority.go\<close>): a device registers the
  public half of a P-256 key under its thumbprint and proves every operation with a signature of the
  request hash. The JSON parser, SHA-256 and the signature equation are parameters; the curve, the
  encodings and the guards are the code's.
\<close>

text \<open>
  \<open>cr_parse\<close> reads the first JSON value of a text, \<open>cr_unmarshal\<close> the only one. \<open>cr_object_sum\<close> is the digest of the canonical
  form of a decoded object, \<open>cr_text_sum\<close> that of a text; \<open>cr_verify\<close> is \<open>ecdsa.Verify\<close> on a public
  point, a digest and the two numbers of a signature.
\<close>

record Crypto =
  cr_parse :: "string \<Rightarrow> json option"
  cr_unmarshal :: "string \<Rightarrow> json option"
  cr_object_sum :: "(string \<times> json) list \<Rightarrow> string"
  cr_text_sum :: "string \<Rightarrow> string"
  cr_verify :: "int \<times> int \<Rightarrow> string \<Rightarrow> int \<Rightarrow> int \<Rightarrow> bool"

section \<open>The curve P-256\<close>

definition p256_p :: int where
  "p256_p = 2 ^ 256 - 2 ^ 224 + 2 ^ 192 + 2 ^ 96 - 1"

definition p256_b :: int where
  "p256_b = 0x5AC635D8AA3A93E7B3EBBD55769886BC651D06B0CC53B0F63BCE3C3E27D2604B"

definition IsOnCurve :: "int \<Rightarrow> int \<Rightarrow> bool" where
  "IsOnCurve x y \<longleftrightarrow> 0 \<le> x \<and> x < p256_p \<and> 0 \<le> y \<and> y < p256_p \<and>
     y * y mod p256_p = (x * x * x - 3 * x + p256_b) mod p256_p"

section \<open>Keys\<close>

text \<open>A decoded object is a Go map: the last member with a key counts.\<close>

definition member :: "string \<Rightarrow> (string \<times> json) list \<Rightarrow> json option" where
  "member k members = map_of (rev members) k"

definition text_member :: "string \<Rightarrow> (string \<times> json) list \<Rightarrow> string" where
  "text_member k members = (case member k members of Some (JString s) \<Rightarrow> s | _ \<Rightarrow> '''')"

definition coordinate :: "string \<Rightarrow> string \<Rightarrow> go_error + int" where
  "coordinate name text =
     (let invalid = ''profile public JWK '' @ name @ '' coordinate is invalid'' in
      case base64_decode text of
        None \<Rightarrow> Inl invalid
      | Some bytes \<Rightarrow> if length bytes \<noteq> 32 then Inl invalid else Inr (big_endian bytes))"

definition profilePublicJWKThumbprint :: "Crypto \<Rightarrow> string \<Rightarrow> go_error + string" where
  "profilePublicJWKThumbprint crypto raw =
     (case cr_parse crypto raw of
        None \<Rightarrow> Inl ''decode profile public JWK''
      | Some JNull \<Rightarrow> Inl ''profile public JWK must be an object''
      | Some (JObject jwk) \<Rightarrow>
          if member ''d'' jwk \<noteq> None then Inl ''profile public JWK must not contain a private key''
          else if text_member ''kty'' jwk \<noteq> ''EC'' \<or> text_member ''crv'' jwk \<noteq> ''P-256''
          then Inl ''profile public JWK must be an EC P-256 key''
          else if text_member ''x'' jwk = '''' then Inl ''profile public JWK x coordinate is required''
          else if text_member ''y'' jwk = '''' then Inl ''profile public JWK y coordinate is required''
          else bind_result (coordinate ''x'' (text_member ''x'' jwk)) (\<lambda>x.
            bind_result (coordinate ''y'' (text_member ''y'' jwk)) (\<lambda>y.
            if \<not> IsOnCurve x y then Inl ''profile public JWK point is not on P-256''
            else Inr (''sha256:'' @ SemanticHash (cr_object_sum crypto jwk))))
      | Some _ \<Rightarrow> Inl ''decode profile public JWK'')"

definition validateProfilePublicJWK :: "Crypto \<Rightarrow> string \<Rightarrow> string \<Rightarrow> go_error option" where
  "validateProfilePublicJWK crypto profileKeyID raw =
     (if profileKeyID = '''' then Some ''profile key id is required''
      else (case profilePublicJWKThumbprint crypto raw of
        Inl e \<Rightarrow> Some e
      | Inr thumbprint \<Rightarrow>
          if thumbprint \<noteq> profileKeyID
          then Some ''profile key id does not match the public JWK thumbprint'' else None))"

section \<open>Proofs of authority\<close>

text \<open>
  The second decoding is into a struct, whose keys are matched up to case folding and whose repeated
  members overwrite each other; a member that is neither a string nor \<open>null\<close> is an error.
\<close>

record PublicPoint =
  pt_X :: string
  pt_Y :: string

fun decode_point :: "PublicPoint \<Rightarrow> (string \<times> json) list \<Rightarrow> go_error + PublicPoint" where
  "decode_point point [] = Inr point"
| "decode_point point ((k, v) # members) =
     (if fold_name k = ''X''
      then bind_result (decode_text (pt_X point) v) (\<lambda>x. decode_point (point\<lparr>pt_X := x\<rparr>) members)
      else if fold_name k = ''Y''
      then bind_result (decode_text (pt_Y point) v) (\<lambda>y. decode_point (point\<lparr>pt_Y := y\<rparr>) members)
      else decode_point point members)"

definition profile_point :: "Crypto \<Rightarrow> string \<Rightarrow> go_error + PublicPoint" where
  "profile_point crypto raw =
     (case cr_unmarshal crypto raw of
        Some (JObject jwk) \<Rightarrow> decode_point \<lparr>pt_X = '''', pt_Y = ''''\<rparr> jwk
      | _ \<Rightarrow> Inl ''decode profile public JWK'')"

definition verifyProfileAuthorityProof :: "Crypto \<Rightarrow> string \<Rightarrow> string \<Rightarrow> string \<Rightarrow> string \<Rightarrow> go_error option" where
  "verifyProfileAuthorityProof crypto raw profileKeyID requestHash proof =
     (case validateProfilePublicJWK crypto profileKeyID raw of
        Some e \<Rightarrow> Some e
      | None \<Rightarrow>
        (case profile_point crypto raw of
           Inl e \<Rightarrow> Some e
         | Inr point \<Rightarrow>
           (case (base64_decode (pt_X point), base64_decode (pt_Y point), base64_decode proof) of
              (None, _) \<Rightarrow> Some ''profile proof x coordinate is invalid''
            | (_, None, _) \<Rightarrow> Some ''profile proof y coordinate is invalid''
            | (Some x, Some y, signature) \<Rightarrow>
                (case signature of
                   None \<Rightarrow> Some ''profile authority proof is not a P-256 IEEE signature''
                 | Some bytes \<Rightarrow>
                     if length bytes \<noteq> 64
                     then Some ''profile authority proof is not a P-256 IEEE signature''
                     else if \<not> cr_verify crypto (big_endian x, big_endian y) (cr_text_sum crypto requestHash)
                                 (big_endian (take 32 bytes)) (big_endian (drop 32 bytes))
                     then Some ''profile authority proof does not verify'' else None))))"

section \<open>What an accepted key is\<close>

lemma profilePublicJWKThumbprint_Inr:
  assumes "profilePublicJWKThumbprint crypto raw = Inr thumbprint"
  obtains jwk x y where "cr_parse crypto raw = Some (JObject jwk)" "member ''d'' jwk = None"
    "text_member ''kty'' jwk = ''EC''" "text_member ''crv'' jwk = ''P-256''"
    "coordinate ''x'' (text_member ''x'' jwk) = Inr x" "coordinate ''y'' (text_member ''y'' jwk) = Inr y" "IsOnCurve x y"
    "thumbprint = ''sha256:'' @ SemanticHash (cr_object_sum crypto jwk)"
  using assms
  by (auto simp: profilePublicJWKThumbprint_def bind_result_Inr split: option.splits json.splits if_splits)

lemma validateProfilePublicJWK_None [guard_defs]:
  "validateProfilePublicJWK crypto profileKeyID raw = None \<longleftrightarrow>
     profileKeyID \<noteq> '''' \<and> profilePublicJWKThumbprint crypto raw = Inr profileKeyID"
  by (auto simp: validateProfilePublicJWK_def split: sum.splits)

lemma verifyProfileAuthorityProof_None:
  assumes "verifyProfileAuthorityProof crypto raw profileKeyID requestHash proof = None"
  obtains point x y signature where "validateProfilePublicJWK crypto profileKeyID raw = None"
    "profile_point crypto raw = Inr point" "base64_decode (pt_X point) = Some x" "base64_decode (pt_Y point) = Some y"
    "base64_decode proof = Some signature" "length signature = 64"
    "cr_verify crypto (big_endian x, big_endian y) (cr_text_sum crypto requestHash)
       (big_endian (take 32 signature)) (big_endian (drop 32 signature))"
  using assms
  by (auto simp: verifyProfileAuthorityProof_def split: option.splits sum.splits if_splits)

end
