(* ===== verification/SyncWire.thy ===== *)
theory SyncWire
  imports ProfileAuthority Commands UploadPolicy
begin

text \<open>
  The wire format of the offline synchronisation (\<open>internal/sync/service.go\<close>): an operation is
  decoded strictly, first with an opaque payload to find the command, then again with the payload of
  that command. Members are taken in the order of the document, so a repeated member overwrites, and
  a repeated payload is decoded into the fields the first one left.
\<close>

section \<open>Decoders of the field types\<close>

text \<open>
  \<open>strconv.ParseInt\<close> of the literal of a JSON number: a fraction or an exponent is no integer.
\<close>

definition digit_value :: "char \<Rightarrow> nat option" where
  "digit_value c = index_of c ''0123456789''"

definition parse_int64 :: "string \<Rightarrow> i64 option" where
  "parse_int64 literal =
     (let negative = HasPrefix literal ''-''; ds = (if negative then tl literal else literal) in
      case collect (map digit_value ds) of
        None \<Rightarrow> None
      | Some ns \<Rightarrow>
          (let n = fold (\<lambda>d acc. acc * 10 + int d) ns 0; i = (if negative then - n else n) in
           if ds = [] \<or> i < - (2 ^ 63) \<or> 2 ^ 63 \<le> i then None else Some (word_of_int i)))"

definition decode_int :: "i64 \<Rightarrow> json \<Rightarrow> go_error + i64" where
  "decode_int current v = (case v of
     JNull \<Rightarrow> Inr current
   | JNumber literal \<Rightarrow>
       (case parse_int64 literal of
          None \<Rightarrow> Inl ''json: cannot unmarshal number into Go value of type int64''
        | Some i \<Rightarrow> Inr i)
   | _ \<Rightarrow> Inl ''json: cannot unmarshal value into Go value of type int64'')"

text \<open>A pointer: \<open>null\<close> makes it nil, another value is decoded into what it points to.\<close>

definition decode_pointer :: "('a \<Rightarrow> json \<Rightarrow> go_error + 'a) \<Rightarrow> 'a \<Rightarrow> 'a option \<Rightarrow> json \<Rightarrow> go_error + 'a option" where
  "decode_pointer dec zero current v =
     (if v = JNull then Inr None
      else bind_result (dec (case current of None \<Rightarrow> zero | Some x \<Rightarrow> x) v) (\<lambda>x. Inr (Some x)))"

text \<open>A slice of texts whose absence (nil) is visible in its JSON form.\<close>

definition decode_slice :: "string list option \<Rightarrow> json \<Rightarrow> go_error + string list option" where
  "decode_slice current v =
     (if v = JNull then Inr None
      else bind_result (decode_array decode_text '''' (case current of None \<Rightarrow> [] | Some xs \<Rightarrow> xs) v)
        (\<lambda>xs. Inr (Some xs)))"

text \<open>\<open>json.RawMessage\<close> keeps the value.\<close>

definition decode_raw :: "json \<Rightarrow> json \<Rightarrow> go_error + json" where
  "decode_raw current v = Inr v"

text \<open>A struct with the members in the order of the document.\<close>

definition decode_object :: "'c fields \<Rightarrow> 'c \<Rightarrow> json \<Rightarrow> go_error + 'c" where
  "decode_object table c v = (case v of
     JNull \<Rightarrow> Inr c
   | JObject members \<Rightarrow> decode_members table c members
   | _ \<Rightarrow> Inl ''json: cannot unmarshal value into Go value of struct type'')"

section \<open>Operations\<close>

record 'p wireOperation =
  wo_OperationID :: string
  wo_ProtocolVersion :: i64
  wo_OfflineGrantID :: string
  wo_PackageID :: string
  wo_PackageVersion :: i64
  wo_PackageRevision :: i64
  wo_EntityID :: string
  wo_CommandType :: string
  wo_BaseRevision :: "i64 option"
  wo_DeviceInstanceID :: string
  wo_ActorSubject :: string
  wo_OperationSequence :: i64
  wo_PayloadHash :: string
  wo_RequestHash :: string
  wo_ProfileKeyID :: string
  wo_AuthorityProof :: string
  wo_Dependencies :: "string list"
  wo_ClientOccurredAt :: string
  wo_Payload :: 'p

record upsertResponsePayload =
  ur_AuditID :: string
  ur_QuestionID :: string
  ur_Answer :: string
  ur_Comment :: string

record createPotentialFindingPayload =
  cf_AuditID :: string
  cf_QuestionID :: string
  cf_ChecklistResponseID :: string
  cf_ExpectedChecklistResponseRevision :: "i64 option"
  cf_Title :: string
  cf_Description :: string
  cf_RequiredComment :: string
  cf_InspectionAttachmentIDs :: "string list option"

record submitChecklistPayload =
  sb_AuditID :: string

record registerAttachmentPayload =
  ra_AuditID :: string
  ra_ChecklistResponseID :: string
  ra_PotentialFindingOperationID :: "string option"
  ra_FileName :: string
  ra_MediaType :: string
  ra_ByteSize :: i64
  ra_SHA256 :: string

record resolveFieldConflictPayload =
  rc_ConflictOperationID :: string
  rc_Resolution :: string
  rc_Reason :: string
  rc_AuthoritativeRevision :: "i64 option"
  rc_LocalPayloadHash :: string

datatype FieldPayload =
    UpsertResponsePayload upsertResponsePayload
  | CreatePotentialPayload createPotentialFindingPayload
  | SubmitChecklistPayload submitChecklistPayload
  | RegisterAttachmentPayload registerAttachmentPayload
  | ResolveConflictPayload resolveFieldConflictPayload

type_synonym operation = "FieldPayload wireOperation"

section \<open>Field tables\<close>

definition wire_fields :: "('p \<Rightarrow> json \<Rightarrow> go_error + 'p) \<Rightarrow> 'p wireOperation fields" where
  "wire_fields payload name = map_of
     [(''OPERATIONID'', decode_into decode_text wo_OperationID (\<lambda>x. wo_OperationID_update (\<lambda>_. x))),
      (''PROTOCOLVERSION'', decode_into decode_int wo_ProtocolVersion (\<lambda>x. wo_ProtocolVersion_update (\<lambda>_. x))),
      (''OFFLINEGRANTID'', decode_into decode_text wo_OfflineGrantID (\<lambda>x. wo_OfflineGrantID_update (\<lambda>_. x))),
      (''PACKAGEID'', decode_into decode_text wo_PackageID (\<lambda>x. wo_PackageID_update (\<lambda>_. x))),
      (''PACKAGEVERSION'', decode_into decode_int wo_PackageVersion (\<lambda>x. wo_PackageVersion_update (\<lambda>_. x))),
      (''PACKAGEREVISION'', decode_into decode_int wo_PackageRevision (\<lambda>x. wo_PackageRevision_update (\<lambda>_. x))),
      (''ENTITYID'', decode_into decode_text wo_EntityID (\<lambda>x. wo_EntityID_update (\<lambda>_. x))),
      (''COMMANDTYPE'', decode_into decode_text wo_CommandType (\<lambda>x. wo_CommandType_update (\<lambda>_. x))),
      (''BASEREVISION'', decode_into (decode_pointer decode_int 0) wo_BaseRevision
         (\<lambda>x. wo_BaseRevision_update (\<lambda>_. x))),
      (''DEVICEINSTANCEID'', decode_into decode_text wo_DeviceInstanceID
         (\<lambda>x. wo_DeviceInstanceID_update (\<lambda>_. x))),
      (''ACTORSUBJECT'', decode_into decode_text wo_ActorSubject (\<lambda>x. wo_ActorSubject_update (\<lambda>_. x))),
      (''OPERATIONSEQUENCE'', decode_into decode_int wo_OperationSequence
         (\<lambda>x. wo_OperationSequence_update (\<lambda>_. x))),
      (''PAYLOADHASH'', decode_into decode_text wo_PayloadHash (\<lambda>x. wo_PayloadHash_update (\<lambda>_. x))),
      (''REQUESTHASH'', decode_into decode_text wo_RequestHash (\<lambda>x. wo_RequestHash_update (\<lambda>_. x))),
      (''PROFILEKEYID'', decode_into decode_text wo_ProfileKeyID (\<lambda>x. wo_ProfileKeyID_update (\<lambda>_. x))),
      (''AUTHORITYPROOF'', decode_into decode_text wo_AuthorityProof (\<lambda>x. wo_AuthorityProof_update (\<lambda>_. x))),
      (''DEPENDENCIES'', decode_into (decode_array decode_text '''') wo_Dependencies
         (\<lambda>x. wo_Dependencies_update (\<lambda>_. x))),
      (''CLIENTOCCURREDAT'', decode_into decode_text wo_ClientOccurredAt
         (\<lambda>x. wo_ClientOccurredAt_update (\<lambda>_. x))),
      (''PAYLOAD'', decode_into payload wo_Payload (\<lambda>x. wo_Payload_update (\<lambda>_. x)))] name"

definition upsert_fields :: "upsertResponsePayload fields" where
  "upsert_fields name = map_of
     [(''AUDITID'', decode_into decode_text ur_AuditID (\<lambda>x. ur_AuditID_update (\<lambda>_. x))),
      (''QUESTIONID'', decode_into decode_text ur_QuestionID (\<lambda>x. ur_QuestionID_update (\<lambda>_. x))),
      (''ANSWER'', decode_into decode_text ur_Answer (\<lambda>x. ur_Answer_update (\<lambda>_. x))),
      (''COMMENT'', decode_into decode_text ur_Comment (\<lambda>x. ur_Comment_update (\<lambda>_. x)))] name"

definition potential_fields :: "createPotentialFindingPayload fields" where
  "potential_fields name = map_of
     [(''AUDITID'', decode_into decode_text cf_AuditID (\<lambda>x. cf_AuditID_update (\<lambda>_. x))),
      (''QUESTIONID'', decode_into decode_text cf_QuestionID (\<lambda>x. cf_QuestionID_update (\<lambda>_. x))),
      (''CHECKLISTRESPONSEID'', decode_into decode_text cf_ChecklistResponseID
         (\<lambda>x. cf_ChecklistResponseID_update (\<lambda>_. x))),
      (''EXPECTEDCHECKLISTRESPONSEREVISION'', decode_into (decode_pointer decode_int 0)
         cf_ExpectedChecklistResponseRevision (\<lambda>x. cf_ExpectedChecklistResponseRevision_update (\<lambda>_. x))),
      (''TITLE'', decode_into decode_text cf_Title (\<lambda>x. cf_Title_update (\<lambda>_. x))),
      (''DESCRIPTION'', decode_into decode_text cf_Description (\<lambda>x. cf_Description_update (\<lambda>_. x))),
      (''REQUIREDCOMMENT'', decode_into decode_text cf_RequiredComment
         (\<lambda>x. cf_RequiredComment_update (\<lambda>_. x))),
      (''INSPECTIONATTACHMENTIDS'', decode_into decode_slice cf_InspectionAttachmentIDs
         (\<lambda>x. cf_InspectionAttachmentIDs_update (\<lambda>_. x)))] name"

definition submit_fields :: "submitChecklistPayload fields" where
  "submit_fields name = map_of
     [(''AUDITID'', decode_into decode_text sb_AuditID (\<lambda>x. sb_AuditID_update (\<lambda>_. x)))] name"

definition attachment_fields :: "registerAttachmentPayload fields" where
  "attachment_fields name = map_of
     [(''AUDITID'', decode_into decode_text ra_AuditID (\<lambda>x. ra_AuditID_update (\<lambda>_. x))),
      (''CHECKLISTRESPONSEID'', decode_into decode_text ra_ChecklistResponseID
         (\<lambda>x. ra_ChecklistResponseID_update (\<lambda>_. x))),
      (''POTENTIALFINDINGOPERATIONID'', decode_into (decode_pointer decode_text '''')
         ra_PotentialFindingOperationID (\<lambda>x. ra_PotentialFindingOperationID_update (\<lambda>_. x))),
      (''FILENAME'', decode_into decode_text ra_FileName (\<lambda>x. ra_FileName_update (\<lambda>_. x))),
      (''MEDIATYPE'', decode_into decode_text ra_MediaType (\<lambda>x. ra_MediaType_update (\<lambda>_. x))),
      (''BYTESIZE'', decode_into decode_int ra_ByteSize (\<lambda>x. ra_ByteSize_update (\<lambda>_. x))),
      (''SHA256'', decode_into decode_text ra_SHA256 (\<lambda>x. ra_SHA256_update (\<lambda>_. x)))] name"

definition conflict_fields :: "resolveFieldConflictPayload fields" where
  "conflict_fields name = map_of
     [(''CONFLICTOPERATIONID'', decode_into decode_text rc_ConflictOperationID
         (\<lambda>x. rc_ConflictOperationID_update (\<lambda>_. x))),
      (''RESOLUTION'', decode_into decode_text rc_Resolution (\<lambda>x. rc_Resolution_update (\<lambda>_. x))),
      (''REASON'', decode_into decode_text rc_Reason (\<lambda>x. rc_Reason_update (\<lambda>_. x))),
      (''AUTHORITATIVEREVISION'', decode_into (decode_pointer decode_int 0) rc_AuthoritativeRevision
         (\<lambda>x. rc_AuthoritativeRevision_update (\<lambda>_. x))),
      (''LOCALPAYLOADHASH'', decode_into decode_text rc_LocalPayloadHash
         (\<lambda>x. rc_LocalPayloadHash_update (\<lambda>_. x)))] name"

section \<open>Decoding an operation\<close>

definition zero_wire :: "'p \<Rightarrow> 'p wireOperation" where
  "zero_wire payload =
     \<lparr>wo_OperationID = '''', wo_ProtocolVersion = 0, wo_OfflineGrantID = '''', wo_PackageID = '''',
      wo_PackageVersion = 0, wo_PackageRevision = 0, wo_EntityID = '''', wo_CommandType = '''',
      wo_BaseRevision = None, wo_DeviceInstanceID = '''', wo_ActorSubject = '''',
      wo_OperationSequence = 0, wo_PayloadHash = '''', wo_RequestHash = '''', wo_ProfileKeyID = '''',
      wo_AuthorityProof = '''', wo_Dependencies = [], wo_ClientOccurredAt = '''', wo_Payload = payload\<rparr>"

definition convert :: "'p wireOperation \<Rightarrow> 'q \<Rightarrow> 'q wireOperation" where
  "convert base payload =
     \<lparr>wo_OperationID = wo_OperationID base, wo_ProtocolVersion = wo_ProtocolVersion base,
      wo_OfflineGrantID = wo_OfflineGrantID base, wo_PackageID = wo_PackageID base,
      wo_PackageVersion = wo_PackageVersion base, wo_PackageRevision = wo_PackageRevision base,
      wo_EntityID = wo_EntityID base, wo_CommandType = wo_CommandType base,
      wo_BaseRevision = wo_BaseRevision base, wo_DeviceInstanceID = wo_DeviceInstanceID base,
      wo_ActorSubject = wo_ActorSubject base, wo_OperationSequence = wo_OperationSequence base,
      wo_PayloadHash = wo_PayloadHash base, wo_RequestHash = wo_RequestHash base,
      wo_ProfileKeyID = wo_ProfileKeyID base, wo_AuthorityProof = wo_AuthorityProof base,
      wo_Dependencies = wo_Dependencies base, wo_ClientOccurredAt = wo_ClientOccurredAt base,
      wo_Payload = payload\<rparr>"

definition decode_wire :: "'p fields \<Rightarrow> 'p \<Rightarrow> json \<Rightarrow> go_error + 'p" where
  "decode_wire table zero document =
     bind_result (decode_object (wire_fields (decode_object table)) (zero_wire zero) document)
       (\<lambda>wire. Inr (wo_Payload wire))"

text \<open>\<open>unmarshal\<close> reads the one JSON value of a text.\<close>

definition decodeOperation :: "(string \<Rightarrow> json option) \<Rightarrow> string \<Rightarrow> go_error + operation" where
  "decodeOperation unmarshal raw =
     (case unmarshal raw of
        None \<Rightarrow> Inl ''invalid JSON''
      | Some document \<Rightarrow>
        bind_result (decode_object (wire_fields decode_raw) (zero_wire JNull) document) (\<lambda>base.
        if wo_CommandType base = ''UPSERT_CHECKLIST_RESPONSE'' then
          map_sum id (\<lambda>p. convert base (UpsertResponsePayload p)) (decode_wire upsert_fields
            \<lparr>ur_AuditID = '''', ur_QuestionID = '''', ur_Answer = '''', ur_Comment = ''''\<rparr> document)
        else if wo_CommandType base = ''CREATE_POTENTIAL_FINDING'' then
          map_sum id (\<lambda>p. convert base (CreatePotentialPayload p)) (decode_wire potential_fields
            \<lparr>cf_AuditID = '''', cf_QuestionID = '''', cf_ChecklistResponseID = '''',
             cf_ExpectedChecklistResponseRevision = None, cf_Title = '''', cf_Description = '''',
             cf_RequiredComment = '''', cf_InspectionAttachmentIDs = None\<rparr> document)
        else if wo_CommandType base = ''SUBMIT_CHECKLIST'' then
          map_sum id (\<lambda>p. convert base (SubmitChecklistPayload p)) (decode_wire submit_fields
            \<lparr>sb_AuditID = ''''\<rparr> document)
        else if wo_CommandType base = ''REGISTER_INSPECTION_ATTACHMENT'' then
          map_sum id (\<lambda>p. convert base (RegisterAttachmentPayload p)) (decode_wire attachment_fields
            \<lparr>ra_AuditID = '''', ra_ChecklistResponseID = '''', ra_PotentialFindingOperationID = None,
             ra_FileName = '''', ra_MediaType = '''', ra_ByteSize = 0, ra_SHA256 = ''''\<rparr> document)
        else if wo_CommandType base = ''RESOLVE_FIELD_CONFLICT'' then
          map_sum id (\<lambda>p. convert base (ResolveConflictPayload p)) (decode_wire conflict_fields
            \<lparr>rc_ConflictOperationID = '''', rc_Resolution = '''', rc_Reason = '''',
             rc_AuthoritativeRevision = None, rc_LocalPayloadHash = ''''\<rparr> document)
        else Inl (''unsupported field command '' @ wo_CommandType base)))"

text \<open>
  The identifier of an operation that was not decoded: the decoder goes on after a member of a wrong
  type and ignores unknown members.
\<close>

definition extractOperationID :: "(string \<Rightarrow> json option) \<Rightarrow> string \<Rightarrow> string" where
  "extractOperationID unmarshal raw =
     (case unmarshal raw of
        Some (JObject members) \<Rightarrow>
          fold (\<lambda>(k, v) current. if fold_name k = ''OPERATIONID''
                 then (case v of JString s \<Rightarrow> s | _ \<Rightarrow> current) else current) members ''''
      | _ \<Rightarrow> '''')"

text \<open>\<open>rfc3339\<close> is whether \<open>time.Parse\<close> accepts a text as an RFC 3339 instant.\<close>

definition validateOperation :: "(string \<Rightarrow> bool) \<Rightarrow> operation \<Rightarrow> go_error option" where
  "validateOperation rfc3339 input =
     (if wo_OperationID input = '''' \<or> wo_OfflineGrantID input = '''' \<or> wo_PackageID input = '''' \<or>
         wo_EntityID input = '''' \<or> wo_DeviceInstanceID input = '''' \<or> wo_ActorSubject input = '''' \<or>
         wo_ProtocolVersion input \<noteq> 1 \<or> sint (wo_PackageVersion input) < 1 \<or>
         sint (wo_PackageRevision input) < 1 \<or> sint (wo_OperationSequence input) < 1 \<or>
         \<not> sha256Pattern (wo_PayloadHash input) \<or> \<not> sha256Pattern (wo_RequestHash input) \<or>
         \<not> sha256Pattern (wo_ProfileKeyID input) \<or> wo_AuthorityProof input = ''''
      then Some ''complete protocol, operation, grant, package, entity, and device scope is required''
      else if \<not> rfc3339 (wo_ClientOccurredAt input)
      then Some ''clientOccurredAt must be an RFC3339 instant''
      else None)"

text \<open>
  The hashed views of an operation: the request leaves out the hashes and the proof and sorts the
  dependencies, the operation leaves out the proof; neither holds the client's time.
\<close>

definition request_view :: "operation \<Rightarrow> operation" where
  "request_view input = input\<lparr>wo_RequestHash := '''', wo_AuthorityProof := '''', wo_ClientOccurredAt := '''',
     wo_Dependencies := sort (wo_Dependencies input)\<rparr>"

definition operation_view :: "operation \<Rightarrow> operation" where
  "operation_view input = input\<lparr>wo_AuthorityProof := '''', wo_ClientOccurredAt := ''''\<rparr>"

section \<open>What a valid operation is\<close>

lemma validateOperation_None [guard_defs]:
  "validateOperation rfc3339 input = None \<longleftrightarrow>
     wo_OperationID input \<noteq> '''' \<and> wo_OfflineGrantID input \<noteq> '''' \<and> wo_PackageID input \<noteq> '''' \<and>
     wo_EntityID input \<noteq> '''' \<and> wo_DeviceInstanceID input \<noteq> '''' \<and> wo_ActorSubject input \<noteq> '''' \<and>
     wo_ProtocolVersion input = 1 \<and> 1 \<le> sint (wo_PackageVersion input) \<and>
     1 \<le> sint (wo_PackageRevision input) \<and> 1 \<le> sint (wo_OperationSequence input) \<and>
     sha256Pattern (wo_PayloadHash input) \<and> sha256Pattern (wo_RequestHash input) \<and>
     sha256Pattern (wo_ProfileKeyID input) \<and> wo_AuthorityProof input \<noteq> '''' \<and>
     rfc3339 (wo_ClientOccurredAt input)"
  by (auto simp: validateOperation_def)

text \<open>The payload hash of a valid operation carries the prefix that a semantic hash never has.\<close>

lemma valid_payload_hash:
  assumes "validateOperation rfc3339 input = None"
  shows "wo_PayloadHash input \<noteq> SemanticHash digest"
  using assms SemanticHash_untagged [of digest] by (auto simp: validateOperation_None sha256Pattern_def)

end
