(* ===== verification/OfflineGrant.thy ===== *)
theory OfflineGrant
  imports ProfileAuthority HandlerContract
begin

text \<open>
  Offline grants (\<open>internal/sync/grant.go\<close>): \<open>Issue\<close> checks out an inspection package for one
  device of an inspector, \<open>Authorize\<close> checks a later use of the grant against the current rows, and
  \<open>Revoke\<close> withdraws it.
\<close>

section \<open>Errors and the writers of the ledger\<close>

datatype sync_error =
    ErrGrantExpired | ErrGrantRevoked | ErrGrantScope | ErrAssignmentChanged | ErrPackageRevoked
  | ErrSessionRevoked | ErrCursorScope | SyncOperationIDReuse | SyncFailed string

definition insert_sync :: "string \<Rightarrow> bool \<Rightarrow> 'r \<Rightarrow> 'r list \<Rightarrow> sync_error + 'r list" where
  "insert_sync context violates r rows = (if violates then Inl (SyncFailed context) else Inr (rows @ [r]))"

lemma insert_sync_Inr [row_simps]:
  "insert_sync context violates r rows = Inr rows' \<longleftrightarrow> \<not> violates \<and> rows' = rows @ [r]"
  by (auto simp: insert_sync_def)

definition sync_audit :: "AuditEvent \<Rightarrow> Ledger \<Rightarrow> sync_error + Ledger" where
  "sync_audit event l =
     bind_result (insert_sync ''append sync audit event'' (audit_conflict event (l_audit_events l)) event
       (l_audit_events l)) (\<lambda>rows. Inr (l\<lparr>l_audit_events := rows\<rparr>))"

definition sync_publish :: "(int \<Rightarrow> SyncChange) \<Rightarrow> Ledger \<Rightarrow> sync_error + Ledger" where
  "sync_publish change l =
     (let n = l_next_sequence l in
      bind_result (insert_sync ''append authorized sync change''
        (list_ex (\<lambda>s. sy_sequence_id s = n) (l_sync_changes l)) (change n) (l_sync_changes l)) (\<lambda>rows.
      Inr (l\<lparr>l_sync_changes := rows, l_next_sequence := n + 1\<rparr>)))"

definition sync_enqueue :: "OutboxMessage \<Rightarrow> Ledger \<Rightarrow> sync_error + Ledger" where
  "sync_enqueue message l =
     bind_result (insert_sync ''enqueue sync outbox'' (outbox_conflict message (l_outbox l)) message (l_outbox l))
       (\<lambda>rows. Inr (l\<lparr>l_outbox := rows\<rparr>))"

definition sync_store :: "IdempotencyResponse \<Rightarrow> Ledger \<Rightarrow> sync_error + Ledger" where
  "sync_store response l =
     bind_result (insert_sync ''store sync idempotent response'' (response_conflict response (l_responses l))
       response (l_responses l)) (\<lambda>rows. Inr (l\<lparr>l_responses := rows\<rparr>))"

definition actor_role :: "Principal \<Rightarrow> string" where
  "actor_role actor = (case Roles actor of [] \<Rightarrow> '''' | r # _ \<Rightarrow> role_text r)"

section \<open>Checking out a package\<close>

record CheckoutInput =
  xk_OperationID :: string
  xk_CorrelationID :: string
  xk_PackageID :: string
  xk_ExpectedPackageVersion :: i64
  xk_DeviceInstanceID :: string
  xk_ProfileKeyID :: string
  xk_ProfilePublicJWK :: string

text \<open>\<open>gs_checkout_sum\<close> is the digest of the JSON form of the input without its identifiers.\<close>

record GrantService =
  gs_crypto :: Crypto
  gs_checkout_sum :: "CheckoutInput \<Rightarrow> string"

definition grantDuration :: int where "grantDuration = 7 * 24 * hour"
definition clockSkewTolerance :: int where "clockSkewTolerance = 5 * (60 * second)"

definition defaultAllowedCommands :: "string list" where
  "defaultAllowedCommands =
     [''UPSERT_CHECKLIST_RESPONSE'', ''CREATE_POTENTIAL_FINDING'', ''SUBMIT_CHECKLIST'',
      ''REGISTER_INSPECTION_ATTACHMENT'', ''RESOLVE_FIELD_CONFLICT'']"

text \<open>
  The join of a subject's question assignments with the current team of the audit: one question
  identifier per joined row.
\<close>

definition team_rows :: "string \<Rightarrow> string \<Rightarrow> DB \<Rightarrow> AuditTeamMember list" where
  "team_rows inspectionID subject db =
     concat (map (\<lambda>a. filter (\<lambda>m. tm_assignment_id m = aa_id a \<and> tm_subject_id m = subject \<and>
         tm_removed_at m = None) (audit_team_members db))
       (filter (\<lambda>a. aa_inspection_id a = Some inspectionID \<and> aa_tombstoned_at a = None)
         (audit_assignments db)))"

definition checkout_questions :: "string \<Rightarrow> string \<Rightarrow> DB \<Rightarrow> string list" where
  "checkout_questions inspectionID subject db =
     concat (map (\<lambda>q. map (\<lambda>_. qa_question_id q) (team_rows inspectionID subject db))
       (filter (\<lambda>q. qa_inspection_id q = inspectionID \<and> qa_subject_id q = subject)
         (question_assignments db)))"

text \<open>
  The package with its inspection and checklist. A package of a released canonical scope only; the
  assigned inspector and the expiry are scanned into values that cannot be \<open>NULL\<close>.
\<close>

definition package_context :: "string \<Rightarrow> DB \<Rightarrow> sync_error + InspectionPackage \<times> Inspection \<times> InspectionChecklist \<times> instant" where
  "package_context packageID db =
     (case find (\<lambda>p. pk_id p = packageID \<and> pk_canonical_scope_snapshot_id p \<noteq> None) (inspection_packages db) of
        None \<Rightarrow> Inl (SyncFailed ''no rows in result set'')
      | Some package \<Rightarrow>
        (case (lookup in_id (pk_inspection_id package) (inspections db),
               lookup k_inspection_id (pk_inspection_id package) (inspection_checklists db)) of
           (Some inspection, Some checklist) \<Rightarrow>
             (case (in_assigned_inspector_subject_id inspection, pk_expires_at package) of
                (Some _, Some expiry) \<Rightarrow> Inr (package, inspection, checklist, expiry)
              | _ \<Rightarrow> Inl (SyncFailed ''cannot scan NULL''))
         | _ \<Rightarrow> Inl (SyncFailed ''no rows in result set'')))"

definition session_active :: "instant \<Rightarrow> SessionReference \<Rightarrow> bool" where
  "session_active now s \<longleftrightarrow> ses_revoked_at s = None \<and> now < ses_expires_at s \<and>
     (case ses_absolute_expires_at s of None \<Rightarrow> True | Some t \<Rightarrow> now < t)"

definition checkout_session :: "Principal \<Rightarrow> instant \<Rightarrow> DB \<Rightarrow> bool" where
  "checkout_session actor now db \<longleftrightarrow>
     (case lookup ses_id (SessionID actor) (session_references db) of
        None \<Rightarrow> False
      | Some s \<Rightarrow> ses_subject_id s = SubjectID actor \<and> session_active now s)"

definition checkout_scope :: "Principal \<Rightarrow> string" where
  "checkout_scope actor = SubjectID actor @ '':checkout_inspection_package''"

definition new_grant :: "Env \<Rightarrow> Principal \<Rightarrow> CheckoutInput \<Rightarrow> InspectionPackage \<Rightarrow> Inspection \<Rightarrow> instant \<Rightarrow>
    string list \<Rightarrow> OfflineGrant" where
  "new_grant env actor input package inspection packageExpiry questions =
     (let now = env_clock env 0; expiresAt = min (now + grantDuration) packageExpiry in
      \<lparr>og_ID = env_new_id env ''grant'', og_SubjectID = SubjectID actor,
       og_OrganizationID = in_organization_id inspection, og_PackageID = xk_PackageID input,
       og_PackageVersion = pk_package_version package, og_PackageDigest = pk_package_digest package,
       og_AllowedCommandTypes = defaultAllowedCommands, og_QuestionIDs = questions,
       og_DeviceInstanceID = xk_DeviceInstanceID input, og_ProfileKeyID = xk_ProfileKeyID input,
       og_AssignmentRevision = in_revision inspection, og_IssuedAt = now, og_ExpiresAt = expiresAt,
       og_LeaseIssuedAt = now, og_LeaseExpiresAt = expiresAt\<rparr>)"

definition grant_row :: "Principal \<Rightarrow> CheckoutInput \<Rightarrow> string \<Rightarrow> OfflineGrant \<Rightarrow> OfflineGrantRow" where
  "grant_row actor input inspectionID g =
     \<lparr>gr_id = og_ID g, gr_subject_id = og_SubjectID g, gr_device_id = og_DeviceInstanceID g,
      gr_package_id = og_PackageID g, gr_inspection_id = inspectionID,
      gr_assignment_revision = og_AssignmentRevision g, gr_granted_at = og_IssuedAt g,
      gr_expires_at = og_ExpiresAt g, gr_revoked_at = None, gr_revoke_reason = None,
      gr_session_id = SessionID actor, gr_package_version = og_PackageVersion g,
      gr_package_digest = og_PackageDigest g, gr_allowed_command_types = defaultAllowedCommands,
      gr_assignment_scope = og_QuestionIDs g, gr_profile_key_id = og_ProfileKeyID g,
      gr_profile_public_jwk = xk_ProfilePublicJWK input, gr_lease_issued_at = og_LeaseIssuedAt g,
      gr_lease_expires_at = og_LeaseExpiresAt g\<rparr>"

text \<open>The keys of \<open>offline_grants\<close>: the identifier, and one grant per subject, device and package.\<close>

definition grant_conflict :: "OfflineGrantRow \<Rightarrow> OfflineGrantRow list \<Rightarrow> bool" where
  "grant_conflict row rows = list_ex (\<lambda>g. gr_id g = gr_id row \<or>
     gr_subject_id g = gr_subject_id row \<and> gr_device_id g = gr_device_id row \<and>
     gr_package_id g = gr_package_id row) rows"

definition grant_audit :: "Env \<Rightarrow> Principal \<Rightarrow> CheckoutInput \<Rightarrow> OfflineGrant \<Rightarrow> AuditEvent" where
  "grant_audit env actor input g =
     \<lparr>ae_event_id = env_new_id env ''audit'', ae_occurred_at = env_clock env 0,
      ae_actor_subject_id = Some (SubjectID actor), ae_actor_role = actor_role actor,
      ae_organization_id = og_OrganizationID g, ae_action = ''offline_grant.issued'',
      ae_entity_type = ''offline_grant'', ae_entity_id = og_ID g, ae_entity_version = 1,
      ae_before_status = None, ae_after_status = ''ACTIVE'', ae_reason = None,
      ae_operation_id = Some (xk_OperationID input), ae_correlation_id = xk_CorrelationID input,
      ae_closure_basis = None, ae_details = []\<rparr>"

definition grant_change :: "Env \<Rightarrow> Principal \<Rightarrow> CheckoutInput \<Rightarrow> OfflineGrant \<Rightarrow> int \<Rightarrow> SyncChange" where
  "grant_change env actor input g n =
     \<lparr>sy_sequence_id = n, sy_subject_id = SubjectID actor, sy_organization_id = og_OrganizationID g,
      sy_package_id = Some (xk_PackageID input), sy_kind = ''offline_grant'', sy_entity_id = og_ID g,
      sy_entity_revision = 1, sy_payload = ResponsePayload (OfflineGrantResponse g),
      sy_changed_at = env_clock env 0, sy_operation_id = None, sy_correlation_id = None\<rparr>"

definition sync_message :: "string \<Rightarrow> string \<Rightarrow> string \<Rightarrow> string \<Rightarrow> Payload \<Rightarrow> instant \<Rightarrow> string option \<Rightarrow> instant \<Rightarrow>
    OutboxMessage" where
  "sync_message mid topic entityType entityID payload availableAt key now =
     \<lparr>o_id = mid, o_topic = topic, o_aggregate_type = entityType, o_aggregate_id = entityID,
      o_payload = payload, o_available_at = availableAt, o_idempotency_key = key, o_operation_id = None,
      o_correlation_id = None, o_lease_owner = None, o_lease_expires_at = None, o_claimed_at = None,
      o_delivered_at = None, o_terminal_state = None, o_attempt_count = 0, o_last_error = None,
      o_created_at = now\<rparr>"

definition sync_response :: "string \<Rightarrow> string \<Rightarrow> string \<Rightarrow> Response \<Rightarrow> instant \<Rightarrow> IdempotencyResponse" where
  "sync_response scope operationID semanticHash body now =
     \<lparr>ir_scope = scope, ir_operation_id = operationID, ir_semantic_hash = semanticHash,
      ir_response_body = body, ir_created_at = now\<rparr>"

definition persist_grant :: "Env \<Rightarrow> Principal \<Rightarrow> CheckoutInput \<Rightarrow> string \<Rightarrow> OfflineGrant \<Rightarrow> Ledger \<Rightarrow> sync_error + Ledger" where
  "persist_grant env actor input semanticHash g l =
     bind_result (sync_audit (grant_audit env actor input g) l) (\<lambda>l1.
     bind_result (sync_publish (grant_change env actor input g) l1) (\<lambda>l2.
     bind_result (sync_enqueue (sync_message (env_new_id env ''outbox'') ''offline_grant.issued'' ''offline_grant''
       (og_ID g) (ResponsePayload (OfflineGrantResponse g)) (env_clock env 0) None (env_now env)) l2) (\<lambda>l3.
     sync_store (sync_response (checkout_scope actor) (xk_OperationID input) semanticHash
       (OfflineGrantResponse g) (env_clock env 0)) l3)))"

text \<open>The public key is stored in a \<open>jsonb\<close> column, which refuses a text that is not one JSON value.\<close>

definition issue_grant :: "GrantService \<Rightarrow> Env \<Rightarrow> Principal \<Rightarrow> CheckoutInput \<Rightarrow> string \<Rightarrow> DB \<Rightarrow> sync_error + (DB \<times> Response)" where
  "issue_grant service env actor input semanticHash db =
     bind_result (package_context (xk_PackageID input) db) (\<lambda>(package, inspection, checklist, packageExpiry).
     let now = env_clock env 0;
         questions = sort (checkout_questions (in_id inspection) (SubjectID actor) db) in
     if questions = [] \<or> pk_package_version package \<noteq> xk_ExpectedPackageVersion input \<or>
        in_status inspection \<noteq> ''IN_PROGRESS'' \<or> k_status checklist \<noteq> KStatusInProgress
     then Inl ErrGrantScope
     else if pk_revoked_at package \<noteq> None \<or> packageExpiry < now then Inl ErrPackageRevoked
     else if \<not> checkout_session actor now db then Inl ErrSessionRevoked
     else let g = new_grant env actor input package inspection packageExpiry questions;
              row = grant_row actor input (in_id inspection) g in
       bind_result (insert_sync ''insert offline_grants''
         (cr_unmarshal (gs_crypto service) (xk_ProfilePublicJWK input) = None \<or> grant_conflict row (offline_grants db)) row
         (offline_grants db)) (\<lambda>grants.
       bind_result (persist_grant env actor input semanticHash g (ledger db)) (\<lambda>l.
       Inr (db\<lparr>offline_grants := grants, ledger := l\<rparr>, OfflineGrantResponse g))))"

definition Issue :: "GrantService \<Rightarrow> Env \<Rightarrow> Principal \<Rightarrow> CheckoutInput \<Rightarrow> DB \<Rightarrow> sync_error + (DB \<times> Response)" where
  "Issue service env actor input db =
     (if \<not> HasRole actor [RoleInspector] \<or> SubjectID actor = '''' \<or> SessionID actor = ''''
      then Inl ErrGrantScope
      else if xk_OperationID input = '''' \<or> xk_CorrelationID input = '''' \<or> xk_PackageID input = '''' \<or>
              xk_DeviceInstanceID input = '''' \<or> xk_ProfileKeyID input = '''' \<or> xk_ProfilePublicJWK input = ''''
      then Inl (SyncFailed ''checkout operation, correlation, package, and device are required'')
      else (case validateProfilePublicJWK (gs_crypto service) (xk_ProfileKeyID input) (xk_ProfilePublicJWK input) of
        Some e \<Rightarrow> Inl (SyncFailed (''profile authority registration failed: '' @ e))
      | None \<Rightarrow>
        (let semanticHash = SemanticHash (gs_checkout_sum service input) in
         case stored_response (checkout_scope actor) (xk_OperationID input) (ledger db) of
           Some stored \<Rightarrow>
             if ir_semantic_hash stored \<noteq> semanticHash then Inl SyncOperationIDReuse
             else Inr (db, ir_response_body stored)
         | None \<Rightarrow> issue_grant service env actor input semanticHash db)))"

section \<open>Authorizing a use\<close>

record AuthorizationInput =
  xa_GrantID :: string
  xa_PackageID :: string
  xa_DeviceInstanceID :: string
  xa_ServerNow :: instant
  xa_CommandType :: string

text \<open>The grant with the rows it is joined with; the package expiry is scanned into a value.\<close>

definition grant_context :: "string \<Rightarrow> DB \<Rightarrow>
    (OfflineGrantRow \<times> Inspection \<times> InspectionChecklist \<times> InspectionPackage \<times> instant) option" where
  "grant_context grantID db =
     (case lookup gr_id grantID (offline_grants db) of
        None \<Rightarrow> None
      | Some g \<Rightarrow>
        (case (lookup in_id (gr_inspection_id g) (inspections db),
               lookup k_inspection_id (gr_inspection_id g) (inspection_checklists db),
               lookup pk_id (gr_package_id g) (inspection_packages db)) of
           (Some inspection, Some checklist, Some package) \<Rightarrow>
             map_option (\<lambda>expiry. (g, inspection, checklist, package, expiry)) (pk_expires_at package)
         | _ \<Rightarrow> None))"

definition Authorize :: "Env \<Rightarrow> Principal \<Rightarrow> AuthorizationInput \<Rightarrow> DB \<Rightarrow> sync_error option" where
  "Authorize env actor input db =
     (let now = (if is_zero_time (xa_ServerNow input) then env_clock env 0 else xa_ServerNow input) in
      case grant_context (xa_GrantID input) db of
        None \<Rightarrow> Some ErrGrantScope
      | Some (g, inspection, checklist, package, packageExpires) \<Rightarrow>
        (case lookup ses_id (gr_session_id g) (session_references db) of
           None \<Rightarrow> Some ErrGrantScope
         | Some session \<Rightarrow>
           if gr_subject_id g \<noteq> SubjectID actor \<or> gr_session_id g \<noteq> SessionID actor \<or>
              gr_device_id g \<noteq> xa_DeviceInstanceID input \<or> gr_package_id g \<noteq> xa_PackageID input
           then Some ErrGrantScope
           else if gr_revoked_at g \<noteq> None then Some ErrGrantRevoked
           else if gr_expires_at g + clockSkewTolerance < now then Some ErrGrantExpired
           else if pk_revoked_at package \<noteq> None \<or> packageExpires + clockSkewTolerance < now
           then Some ErrPackageRevoked
           else if in_status inspection \<noteq> ''IN_PROGRESS'' \<or> k_status checklist \<noteq> KStatusInProgress
           then Some ErrAssignmentChanged
           else if team_rows (in_id inspection) (SubjectID actor) db = [] \<or>
                   in_revision inspection \<noteq> gr_assignment_revision g
           then Some ErrAssignmentChanged
           else if ses_revoked_at session \<noteq> None \<or> \<not> now < ses_expires_at session + clockSkewTolerance \<or>
                   (case ses_absolute_expires_at session of None \<Rightarrow> False
                    | Some t \<Rightarrow> \<not> now < t + clockSkewTolerance)
           then Some ErrSessionRevoked
           else if xa_CommandType input \<noteq> '''' \<and> xa_CommandType input \<notin> set (gr_allowed_command_types g)
           then Some ErrGrantScope
           else None))"

section \<open>Revoking\<close>

definition Revoke :: "Env \<Rightarrow> Principal \<Rightarrow> string \<Rightarrow> string \<Rightarrow> DB \<Rightarrow> sync_error + DB" where
  "Revoke env actor grantID reason db =
     (let matches = (\<lambda>g. gr_id g = grantID \<and> gr_subject_id g = SubjectID actor \<and> gr_revoked_at g = None) in
      if length (filter matches (offline_grants db)) \<noteq> 1 then Inl ErrGrantScope
      else Inr (db\<lparr>offline_grants := map (\<lambda>g. if matches g
        then g\<lparr>gr_revoked_at := Some (env_clock env 0), gr_revoke_reason := Some reason\<rparr> else g)
        (offline_grants db)\<rparr>))"

end
