(* ===== verification/OfflineSync.thy ===== *)
theory OfflineSync
  imports SyncWire OfflineGrant FieldWorkflow
begin

text \<open>
  Offline synchronisation (\<open>internal/sync/service.go\<close>): \<open>Push\<close> applies one operation of a device
  under its grant, \<open>Pull\<close> hands out the authorized changes of a package page by page.
\<close>

text \<open>
  The digests of a payload, of the request and of the operation; \<open>os_rfc3339\<close> is whether a text is an
  RFC 3339 instant.
\<close>

record OperationService =
  os_crypto :: Crypto
  os_rfc3339 :: "string \<Rightarrow> bool"
  os_payload_sum :: "FieldPayload \<Rightarrow> string"
  os_request_sum :: "operation \<Rightarrow> string"
  os_operation_sum :: "operation \<Rightarrow> string"

section \<open>Results\<close>

definition forbiddenResult :: "string \<Rightarrow> string \<Rightarrow> instant \<Rightarrow> PushResult" where
  "forbiddenResult operationID code now =
     \<lparr>px_OperationID = operationID, px_Status = PushForbidden, px_AuthoritativeEntityID = None,
      px_AuthoritativeRevision = None, px_ErrorCode = code, px_Conflict = None, px_AcknowledgedAt = now\<rparr>"

definition invalidResult :: "string \<Rightarrow> instant \<Rightarrow> PushResult" where
  "invalidResult operationID now =
     \<lparr>px_OperationID = operationID, px_Status = PushInvalid, px_AuthoritativeEntityID = None,
      px_AuthoritativeRevision = None, px_ErrorCode = ''VALIDATION_FAILED'', px_Conflict = None,
      px_AcknowledgedAt = now\<rparr>"

definition conflictResult :: "string \<Rightarrow> string \<Rightarrow> string \<Rightarrow> i64 option \<Rightarrow> string option \<Rightarrow> instant option \<Rightarrow>
    instant \<Rightarrow> PushResult" where
  "conflictResult operationID code entityID revision status changedAt now =
     \<lparr>px_OperationID = operationID, px_Status = PushConflict, px_AuthoritativeEntityID = None,
      px_AuthoritativeRevision = None, px_ErrorCode = '''',
      px_Conflict = Some \<lparr>cd_Code = code, cd_EntityID = entityID, cd_AuthoritativeRevision = revision,
        cd_AuthoritativeStatus = status, cd_ChangedAt = changedAt\<rparr>,
      px_AcknowledgedAt = now\<rparr>"

definition acceptedResult :: "string \<Rightarrow> string \<Rightarrow> i64 \<Rightarrow> instant \<Rightarrow> PushResult" where
  "acceptedResult operationID entityID revision now =
     \<lparr>px_OperationID = operationID, px_Status = PushAccepted, px_AuthoritativeEntityID = Some entityID,
      px_AuthoritativeRevision = Some revision, px_ErrorCode = '''', px_Conflict = None,
      px_AcknowledgedAt = now\<rparr>"

record mutation =
  mu_Result :: PushResult
  mu_OrganizationID :: string
  mu_AuditAction :: string
  mu_EntityType :: string
  mu_EntityID :: string
  mu_EntityRevision :: i64
  mu_BeforeStatus :: string
  mu_AfterStatus :: string
  mu_ChangeKind :: string
  mu_ChangePayload :: "FieldChange option"
  mu_OutboxTopic :: string

definition rejected :: "PushResult \<Rightarrow> mutation" where
  "rejected result =
     \<lparr>mu_Result = result, mu_OrganizationID = '''', mu_AuditAction = '''', mu_EntityType = '''',
      mu_EntityID = '''', mu_EntityRevision = 0, mu_BeforeStatus = '''', mu_AfterStatus = '''',
      mu_ChangeKind = '''', mu_ChangePayload = None, mu_OutboxTopic = ''''\<rparr>"

section \<open>The authority of a grant\<close>

record grantAuthority =
  ga_GrantID :: string
  ga_DeviceID :: string
  ga_ProfileKeyID :: string
  ga_ProfilePublicJWK :: string
  ga_PackageID :: string
  ga_InspectionID :: string
  ga_OrganizationID :: string
  ga_QuestionIDs :: "string list"

definition loadGrantAuthority :: "Principal \<Rightarrow> string \<Rightarrow> string \<Rightarrow> string \<Rightarrow> string \<Rightarrow> i64 \<Rightarrow> instant \<Rightarrow> bool \<Rightarrow> DB \<Rightarrow>
    PushResult + grantAuthority" where
  "loadGrantAuthority actor grantID packageID deviceID command expectedPackageVersion now allowPackageRevoked db =
     (let scope_mismatch = Inl (forbiddenResult '''' ''GRANT_SCOPE_MISMATCH'' now) in
      if \<not> HasRole actor [RoleInspector] \<or> SubjectID actor = '''' \<or> SessionID actor = ''''
      then scope_mismatch
      else (case grant_context grantID db of
        None \<Rightarrow> scope_mismatch
      | Some (g, inspection, checklist, package, packageExpires) \<Rightarrow>
          if pk_canonical_scope_snapshot_id package = None \<or> in_assigned_inspector_subject_id inspection = None
          then scope_mismatch
          else if gr_subject_id g \<noteq> SubjectID actor \<or> gr_package_id g \<noteq> packageID \<or>
                  deviceID \<noteq> '''' \<and> gr_device_id g \<noteq> deviceID
          then scope_mismatch
          else if in_status inspection \<noteq> ''IN_PROGRESS'' \<or> k_status checklist \<noteq> KStatusInProgress
          then Inl (conflictResult '''' ''ASSIGNMENT_CHANGED'' (in_id inspection)
                 (Some (in_revision inspection)) (Some (in_status inspection)) (Some now) now)
          else if gr_revoked_at g \<noteq> None then Inl (forbiddenResult '''' ''GRANT_REVOKED'' now)
          else if gr_expires_at g + clockSkewTolerance < now
          then Inl (forbiddenResult '''' ''GRANT_EXPIRED'' now)
          else if checkout_questions (in_id inspection) (SubjectID actor) db = [] \<or>
                  in_revision inspection \<noteq> gr_assignment_revision g
          then Inl (conflictResult '''' ''ASSIGNMENT_CHANGED'' (in_id inspection)
                 (Some (in_revision inspection)) None (Some now) now)
          else if (pk_revoked_at package \<noteq> None \<or> packageExpires + clockSkewTolerance < now) \<and>
                  \<not> allowPackageRevoked
          then Inl (conflictResult '''' ''PACKAGE_REVOKED'' (gr_package_id g) None None
                 (Some (case pk_revoked_at package of None \<Rightarrow> now | Some t \<Rightarrow> t)) now)
          else if 0 < sint expectedPackageVersion \<and>
                  (gr_package_version g \<noteq> expectedPackageVersion \<or>
                   pk_package_version package \<noteq> expectedPackageVersion)
          then scope_mismatch
          else if gr_package_digest g = '''' \<or> gr_package_digest g \<noteq> pk_package_digest package
          then scope_mismatch
          else if command \<noteq> '''' \<and> command \<notin> set (gr_allowed_command_types g) then scope_mismatch
          else Inr \<lparr>ga_GrantID = gr_id g, ga_DeviceID = gr_device_id g,
                 ga_ProfileKeyID = gr_profile_key_id g, ga_ProfilePublicJWK = gr_profile_public_jwk g,
                 ga_PackageID = gr_package_id g, ga_InspectionID = in_id inspection,
                 ga_OrganizationID = in_organization_id inspection,
                 ga_QuestionIDs = gr_assignment_scope g\<rparr>))"

section \<open>Checklist responses\<close>

definition sync_response_row :: "instant \<Rightarrow> Principal \<Rightarrow> grantAuthority \<Rightarrow> operation \<Rightarrow> upsertResponsePayload \<Rightarrow>
    ChecklistResponse" where
  "sync_response_row now actor authority input payload =
     \<lparr>cr_id = wo_EntityID input, cr_inspection_id = ga_InspectionID authority,
      cr_package_id = ga_PackageID authority, cr_question_id = ur_QuestionID payload,
      cr_assigned_inspector_subject_id = SubjectID actor, cr_response_value = ur_Answer payload,
      cr_comment_to_auditee = null_if_empty (TrimSpace (ur_Comment payload)),
      cr_internal_caa_note = None, cr_revision = 1, cr_updated_at = now\<rparr>"

definition sync_response_update :: "instant \<Rightarrow> upsertResponsePayload \<Rightarrow> i64 \<Rightarrow> ChecklistResponse \<Rightarrow> ChecklistResponse" where
  "sync_response_update now payload revision r =
     r\<lparr>cr_response_value := ur_Answer payload,
       cr_comment_to_auditee := null_if_empty (TrimSpace (ur_Comment payload)),
       cr_revision := revision, cr_updated_at := now\<rparr>"

definition response_mutation :: "instant \<Rightarrow> grantAuthority \<Rightarrow> operation \<Rightarrow> upsertResponsePayload \<Rightarrow> string \<Rightarrow> i64 \<Rightarrow>
    mutation" where
  "response_mutation now authority input payload beforeAnswer revision =
     \<lparr>mu_Result = acceptedResult (wo_OperationID input) (wo_EntityID input) revision now,
      mu_OrganizationID = ga_OrganizationID authority, mu_AuditAction = ''checklist_response.recorded'',
      mu_EntityType = ''checklist_response'', mu_EntityID = wo_EntityID input,
      mu_EntityRevision = revision, mu_BeforeStatus = beforeAnswer, mu_AfterStatus = ur_Answer payload,
      mu_ChangeKind = ''checklist_response'',
      mu_ChangePayload = Some (ResponseChange
        \<lparr>fc_id = wo_EntityID input, fc_questionId = ur_QuestionID payload, fc_answer = ur_Answer payload,
         fc_comment = TrimSpace (ur_Comment payload), fc_revision = revision, fc_updatedAt = now\<rparr>),
      mu_OutboxTopic = ''checklist_response.recorded''\<rparr>"

definition sync_upsertResponse :: "Principal \<Rightarrow> grantAuthority \<Rightarrow> operation \<Rightarrow> upsertResponsePayload \<Rightarrow> instant \<Rightarrow> DB \<Rightarrow>
    sync_error + (DB \<times> mutation)" where
  "sync_upsertResponse actor authority input payload now db =
     (let inspectionID = ga_InspectionID authority; questionID = ur_QuestionID payload in
      if ur_AuditID payload \<noteq> inspectionID \<or> questionID = '''' \<or> questionID \<notin> set (ga_QuestionIDs authority) \<or>
         \<not> validChecklistAnswer (ur_Answer payload) \<or>
         (ur_Answer payload = ''NON_COMPLIANT'' \<or> ur_Answer payload = ''OBSERVATION'') \<and>
         TrimSpace (ur_Comment payload) = ''''
      then Inr (db, rejected (invalidResult (wo_OperationID input) now))
      else (case lookup k_inspection_id inspectionID (inspection_checklists db) of
        None \<Rightarrow> Inr (db, rejected (forbiddenResult (wo_OperationID input) ''GRANT_SCOPE_MISMATCH'' now))
      | Some checklist \<Rightarrow>
        if \<not> assigned_question inspectionID questionID (SubjectID actor) db
        then Inr (db, rejected (forbiddenResult (wo_OperationID input) ''GRANT_SCOPE_MISMATCH'' now))
        else if k_status checklist \<noteq> KStatusInProgress
        then Inr (db, rejected (conflictResult (wo_OperationID input) ''STALE_REVISION'' (wo_EntityID input)
               None (Some (checklist_status_text (k_status checklist))) None now))
        else (case find (\<lambda>r. cr_inspection_id r = inspectionID \<and> cr_question_id r = questionID)
                (checklist_responses db) of
          None \<Rightarrow>
            if wo_BaseRevision input \<noteq> None
            then Inr (db, rejected (conflictResult (wo_OperationID input) ''STALE_REVISION''
                   (wo_EntityID input) None None None now))
            else let row = sync_response_row now actor authority input payload in
              bind_result (insert_sync ''insert checklist_responses''
                (response_row_conflict row (checklist_responses db)) row (checklist_responses db)) (\<lambda>rows.
              Inr (db\<lparr>checklist_responses := rows\<rparr>, response_mutation now authority input payload '''' 1))
        | Some r \<Rightarrow>
            if cr_id r \<noteq> wo_EntityID input \<or> wo_BaseRevision input \<noteq> Some (cr_revision r)
            then Inr (db, rejected (conflictResult (wo_OperationID input) ''STALE_REVISION'' (cr_id r)
                   (Some (cr_revision r)) (Some (cr_response_value r)) (Some now) now))
            else if sint (cr_revision r + 1) \<le> 0 then Inl (SyncFailed ''update checklist_responses'')
            else Inr (db\<lparr>checklist_responses := modify cr_id (cr_id r)
                     (sync_response_update now payload (cr_revision r + 1)) (checklist_responses db)\<rparr>,
                   response_mutation now authority input payload (cr_response_value r) (cr_revision r + 1)))))"

section \<open>Potential findings\<close>

fun unique_non_blank :: "string list \<Rightarrow> string list \<Rightarrow> string list" where
  "unique_non_blank seen [] = []"
| "unique_non_blank seen (value # values) =
     (let v = TrimSpace value in
      if v = '''' \<or> v \<in> set seen then unique_non_blank seen values
      else v # unique_non_blank (v # seen) values)"

definition uniqueNonBlank :: "string list \<Rightarrow> string list" where
  "uniqueNonBlank values = unique_non_blank [] values"

definition clean_attachment :: "string list \<Rightarrow> grantAuthority \<Rightarrow> string \<Rightarrow> InspectionAttachment \<Rightarrow> bool" where
  "clean_attachment ids authority responseID a \<longleftrightarrow>
     at_id a \<in> set ids \<and> at_inspection_id a = ga_InspectionID authority \<and>
     at_organization_id a = ga_OrganizationID authority \<and>
     at_checklist_response_id a = Some responseID \<and> at_upload_state a = ''UPLOADED'' \<and>
     at_scan_state a = ScanClean \<and> at_canonical_object_metadata_id a \<noteq> None"

definition linkable_attachment :: "string list \<Rightarrow> grantAuthority \<Rightarrow> string \<Rightarrow> InspectionAttachment \<Rightarrow> bool" where
  "linkable_attachment ids authority responseID a \<longleftrightarrow>
     at_id a \<in> set ids \<and> at_inspection_id a = ga_InspectionID authority \<and>
     at_checklist_response_id a = Some responseID \<and> at_potential_finding_id a = None"

definition sync_link :: "instant \<Rightarrow> string \<Rightarrow> string list \<Rightarrow> grantAuthority \<Rightarrow> string \<Rightarrow> InspectionAttachment list \<Rightarrow>
    sync_error + InspectionAttachment list" where
  "sync_link now potentialFindingID ids authority responseID rows =
     (if ids = [] then Inr rows
      else if list_ex (\<lambda>a. linkable_attachment ids authority responseID a \<and> sint (at_revision a + 1) \<le> 0) rows
      then Inl (SyncFailed ''update inspection_attachments'')
      else Inr (map (\<lambda>a. if linkable_attachment ids authority responseID a
             then a\<lparr>at_potential_finding_id := Some potentialFindingID, at_revision := at_revision a + 1,
                    at_updated_at := now\<rparr> else a) rows))"

definition sync_potential_row :: "Env \<Rightarrow> Principal \<Rightarrow> grantAuthority \<Rightarrow> createPotentialFindingPayload \<Rightarrow>
    string option \<Rightarrow> PotentialFinding" where
  "sync_potential_row env actor authority payload predecessor =
     \<lparr>p_id = env_new_id env ''potential-finding'', p_inspection_id = ga_InspectionID authority,
      p_checklist_response_id = cf_ChecklistResponseID payload,
      p_organization_id = ga_OrganizationID authority, p_status = PStatusPendingLeadReview,
      p_finding_basis = TrimSpace (cf_Description payload), p_expected_evidence = Some '''',
      p_comment_to_auditee = TrimSpace (cf_RequiredComment payload), p_internal_caa_note = None,
      p_converted_finding_id = None, p_revision = 1, p_created_at = env_clock env 0,
      p_updated_at = env_clock env 0, p_question_id = cf_QuestionID payload,
      p_title = TrimSpace (cf_Title payload), p_description = TrimSpace (cf_Description payload),
      p_created_by_subject_id = SubjectID actor, p_supersedes_potential_finding_id = predecessor\<rparr>"

definition potential_mutation :: "instant \<Rightarrow> operation \<Rightarrow> PotentialFinding \<Rightarrow> mutation" where
  "potential_mutation now input p =
     \<lparr>mu_Result = acceptedResult (wo_OperationID input) (p_id p) 1 now,
      mu_OrganizationID = p_organization_id p, mu_AuditAction = ''potential_finding.created'',
      mu_EntityType = ''potential_finding'', mu_EntityID = p_id p, mu_EntityRevision = 1,
      mu_BeforeStatus = '''', mu_AfterStatus = ''PENDING_LEAD_REVIEW'',
      mu_ChangeKind = ''potential_finding'',
      mu_ChangePayload = Some (PotentialChange
        \<lparr>pq_id = p_id p, pq_auditId = p_inspection_id p, pq_questionId = p_question_id p,
         pq_organizationId = p_organization_id p, pq_title = p_title p, pq_description = p_description p,
         pq_status = ''PENDING_LEAD_REVIEW'', pq_revision = 1, pq_convertedFindingId = None\<rparr>),
      mu_OutboxTopic = ''potential_finding.created''\<rparr>"

definition sync_insert_potential :: "Env \<Rightarrow> Principal \<Rightarrow> grantAuthority \<Rightarrow> operation \<Rightarrow>
    createPotentialFindingPayload \<Rightarrow> string list \<Rightarrow> string option \<Rightarrow> DB \<Rightarrow> sync_error + (DB \<times> mutation)" where
  "sync_insert_potential env actor authority input payload attachmentIDs predecessor db =
     (let row = sync_potential_row env actor authority payload predecessor in
      bind_result (insert_sync ''insert potential_findings'' (potential_conflict row (potential_findings db)) row
        (potential_findings db)) (\<lambda>rows.
      bind_result (sync_link (env_clock env 0) (p_id row) attachmentIDs authority
        (cf_ChecklistResponseID payload) (inspection_attachments db)) (\<lambda>attachments.
      Inr (db\<lparr>potential_findings := rows, inspection_attachments := attachments\<rparr>,
           potential_mutation (env_clock env 0) input row))))"

definition sync_createPotentialFinding :: "Env \<Rightarrow> Principal \<Rightarrow> grantAuthority \<Rightarrow> operation \<Rightarrow>
    createPotentialFindingPayload \<Rightarrow> DB \<Rightarrow> sync_error + (DB \<times> mutation)" where
  "sync_createPotentialFinding env actor authority input payload db =
     (let now = env_clock env 0; inspectionID = ga_InspectionID authority;
          responseID = cf_ChecklistResponseID payload;
          invalid = Inr (db, rejected (invalidResult (wo_OperationID input) now)) in
      if cf_AuditID payload \<noteq> inspectionID \<or> cf_QuestionID payload \<notin> set (ga_QuestionIDs authority) \<or>
         responseID = '''' \<or> cf_ExpectedChecklistResponseRevision payload = None \<or>
         TrimSpace (cf_Title payload) = '''' \<or> TrimSpace (cf_Description payload) = '''' \<or>
         TrimSpace (cf_RequiredComment payload) = ''''
      then invalid
      else (case find (\<lambda>r. cr_id r = responseID \<and> cr_inspection_id r = inspectionID \<and>
              cr_question_id r = cf_QuestionID payload) (checklist_responses db) of
        None \<Rightarrow> Inr (db, rejected (forbiddenResult (wo_OperationID input) ''GRANT_SCOPE_MISMATCH'' now))
      | Some r \<Rightarrow>
        if \<not> assigned_question inspectionID (cf_QuestionID payload) (SubjectID actor) db \<or>
           \<not> current_team_member inspectionID (SubjectID actor) db
        then Inr (db, rejected (forbiddenResult (wo_OperationID input) ''GRANT_SCOPE_MISMATCH'' now))
        else if cf_ExpectedChecklistResponseRevision payload \<noteq> Some (cr_revision r)
        then Inr (db, rejected (conflictResult (wo_OperationID input) ''STALE_REVISION'' responseID
               (Some (cr_revision r)) (Some (cr_response_value r)) None now))
        else if cr_response_value r \<noteq> ''NON_COMPLIANT'' \<and> cr_response_value r \<noteq> ''OBSERVATION'' then invalid
        else
          (let declared = (case cf_InspectionAttachmentIDs payload of None \<Rightarrow> [] | Some ids \<Rightarrow> ids);
               attachmentIDs = uniqueNonBlank declared in
           if length attachmentIDs \<noteq> length declared then invalid
           else if attachmentIDs \<noteq> [] \<and>
             length (filter (clean_attachment attachmentIDs authority responseID) (inspection_attachments db)) \<noteq>
               length attachmentIDs then invalid
           else (case latest_potential responseID db of
             Some existing \<Rightarrow>
               if p_status existing \<noteq> PStatusReturned
               then Inr (db, rejected (conflictResult (wo_OperationID input) ''STALE_REVISION'' (p_id existing)
                      (Some (p_revision existing)) (Some (potential_status_text (p_status existing))) None now))
               else sync_insert_potential env actor authority input payload attachmentIDs (Some (p_id existing)) db
           | None \<Rightarrow> sync_insert_potential env actor authority input payload attachmentIDs None db))))"

section \<open>Submitting the checklist\<close>

text \<open>The questions of a released scope, and what the subqueries count of them.\<close>

definition scoped_questions :: "string \<Rightarrow> DB \<Rightarrow> string list" where
  "scoped_questions snapshotID db =
     map sq_question_version_id (filter (\<lambda>q. sq_snapshot_id q = snapshotID) (snapshot_questions db))"

definition scope_answered :: "string \<Rightarrow> DB \<Rightarrow> string \<Rightarrow> bool" where
  "scope_answered inspectionID db questionID = list_ex (\<lambda>r. cr_inspection_id r = inspectionID \<and>
     cr_question_id r = questionID \<and> cr_response_value r \<noteq> '''') (checklist_responses db)"

definition scope_uncommented :: "string \<Rightarrow> DB \<Rightarrow> string \<Rightarrow> bool" where
  "scope_uncommented inspectionID db questionID = list_ex (\<lambda>r. cr_inspection_id r = inspectionID \<and>
     cr_question_id r = questionID \<and>
     (cr_response_value r = ''NON_COMPLIANT'' \<or> cr_response_value r = ''OBSERVATION'') \<and> no_comment r)
     (checklist_responses db)"

definition scope_incomplete :: "string \<Rightarrow> string \<Rightarrow> DB \<Rightarrow> bool" where
  "scope_incomplete snapshotID inspectionID db =
     (let scoped = scoped_questions snapshotID db; assigned = assigned_questions inspectionID db in
      length scoped = 0 \<or> length assigned \<noteq> length scoped \<or>
      length (filter (\<lambda>q. q \<notin> set assigned) scoped) \<noteq> 0 \<or>
      length (filter (scope_answered inspectionID db) scoped) \<noteq> length scoped \<or>
      length (filter (scope_uncommented inspectionID db) scoped) \<noteq> 0)"

definition released_snapshot :: "grantAuthority \<Rightarrow> DB \<Rightarrow> string option" where
  "released_snapshot authority db =
     (case find (\<lambda>p. pk_id p = ga_PackageID authority \<and> pk_inspection_id p = ga_InspectionID authority \<and>
           pk_canonical_scope_snapshot_id p \<noteq> None \<and> pk_checklist_template_version_id p = None)
         (inspection_packages db) of
        None \<Rightarrow> None
      | Some package \<Rightarrow> pk_canonical_scope_snapshot_id package)"

definition sync_submit_update :: "instant \<Rightarrow> i64 \<Rightarrow> InspectionChecklist \<Rightarrow> InspectionChecklist" where
  "sync_submit_update now revision k =
     k\<lparr>k_status := KStatusSubmitted, k_revision := revision, k_submitted_at := Some now\<rparr>"

definition submit_mutation :: "instant \<Rightarrow> grantAuthority \<Rightarrow> operation \<Rightarrow> ChecklistStatus \<Rightarrow> i64 \<Rightarrow> mutation" where
  "submit_mutation now authority input status revision =
     \<lparr>mu_Result = acceptedResult (wo_OperationID input) (ga_InspectionID authority) revision now,
      mu_OrganizationID = ga_OrganizationID authority, mu_AuditAction = ''checklist.submitted'',
      mu_EntityType = ''inspection_checklist'', mu_EntityID = ga_InspectionID authority,
      mu_EntityRevision = revision, mu_BeforeStatus = checklist_status_text status,
      mu_AfterStatus = ''SUBMITTED'', mu_ChangeKind = ''inspection_checklist'',
      mu_ChangePayload = Some (ChecklistChange (ga_InspectionID authority) ''SUBMITTED'' revision),
      mu_OutboxTopic = ''checklist.submitted''\<rparr>"

definition sync_submitChecklist :: "grantAuthority \<Rightarrow> operation \<Rightarrow> submitChecklistPayload \<Rightarrow> instant \<Rightarrow> DB \<Rightarrow>
    sync_error + (DB \<times> mutation)" where
  "sync_submitChecklist authority input payload now db =
     (let inspectionID = ga_InspectionID authority;
          invalid = Inr (db, rejected (invalidResult (wo_OperationID input) now)) in
      if sb_AuditID payload \<noteq> inspectionID \<or> wo_EntityID input \<noteq> inspectionID \<or> wo_BaseRevision input = None
      then invalid
      else (case lookup k_inspection_id inspectionID (inspection_checklists db) of
        None \<Rightarrow> Inl (SyncFailed ''no rows in result set'')
      | Some k \<Rightarrow>
        if k_status k \<noteq> KStatusInProgress \<or> wo_BaseRevision input \<noteq> Some (k_revision k)
        then Inr (db, rejected (conflictResult (wo_OperationID input) ''STALE_REVISION'' (wo_EntityID input)
               (Some (k_revision k)) (Some (checklist_status_text (k_status k))) None now))
        else (case released_snapshot authority db of
          None \<Rightarrow> invalid
        | Some snapshotID \<Rightarrow>
          if snapshotID = '''' \<or> uncleared_attachment inspectionID db \<or>
             scope_incomplete snapshotID inspectionID db then invalid
          else if sint (k_revision k + 1) \<le> 0 then Inl (SyncFailed ''update inspection_checklists'')
          else Inr (db\<lparr>inspection_checklists := modify k_inspection_id inspectionID
                   (sync_submit_update now (k_revision k + 1)) (inspection_checklists db)\<rparr>,
                 submit_mutation now authority input (k_status k) (k_revision k + 1)))))"

section \<open>Attachments\<close>

definition sync_attachment_row :: "Env \<Rightarrow> Principal \<Rightarrow> grantAuthority \<Rightarrow> registerAttachmentPayload \<Rightarrow> string \<Rightarrow>
    string option \<Rightarrow> InspectionAttachment" where
  "sync_attachment_row env actor authority payload questionID potentialFindingID =
     \<lparr>at_id = env_new_id env ''inspection-attachment'', at_inspection_id = ga_InspectionID authority,
      at_package_id = ga_PackageID authority, at_question_id = questionID,
      at_checklist_response_id = Some (ra_ChecklistResponseID payload),
      at_organization_id = ga_OrganizationID authority, at_created_by_subject_id = SubjectID actor,
      at_offline_grant_id = ga_GrantID authority, at_device_instance_id = ga_DeviceID authority,
      at_file_name = TrimSpace (ra_FileName payload), at_declared_media_type = ra_MediaType payload,
      at_declared_size_bytes = ra_ByteSize payload, at_declared_sha256 = ra_SHA256 payload,
      at_object_metadata_id = None, at_upload_state = ''PENDING'', at_scan_state = ScanPending,
      at_current_version_id = None, at_revision = 1, at_updated_at = env_clock env 0,
      at_canonical_object_metadata_id = None, at_potential_finding_id = potentialFindingID\<rparr>"

definition attachment_mutation :: "instant \<Rightarrow> operation \<Rightarrow> InspectionAttachment \<Rightarrow> mutation" where
  "attachment_mutation now input a =
     \<lparr>mu_Result = acceptedResult (wo_OperationID input) (at_id a) 1 now,
      mu_OrganizationID = at_organization_id a, mu_AuditAction = ''inspection_attachment.registered'',
      mu_EntityType = ''inspection_attachment'', mu_EntityID = at_id a, mu_EntityRevision = 1,
      mu_BeforeStatus = '''', mu_AfterStatus = ''PENDING'', mu_ChangeKind = ''inspection_attachment'',
      mu_ChangePayload = Some (AttachmentChange (at_id a) ''PENDING'' 1),
      mu_OutboxTopic = ''inspection_attachment.registered''\<rparr>"

text \<open>
  The potential finding an earlier accepted operation of the subject created: \<open>Inl\<close> is the result
  that refuses the attachment.
\<close>

definition prerequisite_potential :: "Principal \<Rightarrow> operation \<Rightarrow> registerAttachmentPayload \<Rightarrow> instant \<Rightarrow> DB \<Rightarrow>
    PushResult + string option" where
  "prerequisite_potential actor input payload now db =
     (case ra_PotentialFindingOperationID payload of
        None \<Rightarrow> Inr None
      | Some operationID \<Rightarrow>
        (case stored_response (SubjectID actor @ '':field_sync'') operationID (ledger db) of
           None \<Rightarrow> Inl (invalidResult (wo_OperationID input) now)
         | Some stored \<Rightarrow>
           (case ir_response_body stored of
              PushResponse prerequisite \<Rightarrow>
                (case px_AuthoritativeEntityID prerequisite of
                   None \<Rightarrow> Inl (invalidResult (wo_OperationID input) now)
                 | Some entityID \<Rightarrow>
                     if px_Status prerequisite \<noteq> PushAccepted
                     then Inl (invalidResult (wo_OperationID input) now)
                     else if map_option p_checklist_response_id (lookup p_id entityID (potential_findings db)) \<noteq>
                             Some (ra_ChecklistResponseID payload)
                     then Inl (forbiddenResult (wo_OperationID input) ''GRANT_SCOPE_MISMATCH'' now)
                     else Inr (Some entityID))
            | _ \<Rightarrow> Inl (invalidResult (wo_OperationID input) now))))"

definition sync_registerAttachment :: "Env \<Rightarrow> Principal \<Rightarrow> grantAuthority \<Rightarrow> operation \<Rightarrow>
    registerAttachmentPayload \<Rightarrow> DB \<Rightarrow> sync_error + (DB \<times> mutation)" where
  "sync_registerAttachment env actor authority input payload db =
     (let now = env_clock env 0; inspectionID = ga_InspectionID authority;
          fileName = TrimSpace (ra_FileName payload);
          forbidden = Inr (db, rejected (forbiddenResult (wo_OperationID input) ''GRANT_SCOPE_MISMATCH'' now)) in
      if ra_AuditID payload \<noteq> inspectionID \<or> ra_ChecklistResponseID payload = '''' \<or> fileName = '''' \<or>
         ContainsAny fileName [CHR ''/'', CHR 0x5C] \<or> sint (ra_ByteSize payload) \<le> 0 \<or>
         25 * 1024 * 1024 < sint (ra_ByteSize payload) \<or> ra_MediaType payload \<notin> set allowedMediaTypes \<or>
         \<not> sha256Pattern (ra_SHA256 payload)
      then Inr (db, rejected (invalidResult (wo_OperationID input) now))
      else (case find (\<lambda>r. cr_id r = ra_ChecklistResponseID payload \<and> cr_inspection_id r = inspectionID)
              (checklist_responses db) of
        None \<Rightarrow> forbidden
      | Some r \<Rightarrow>
        if \<not> assigned_question inspectionID (cr_question_id r) (SubjectID actor) db \<or>
           \<not> current_team_member inspectionID (SubjectID actor) db \<or>
           cr_question_id r \<notin> set (ga_QuestionIDs authority)
        then forbidden
        else (case prerequisite_potential actor input payload now db of
          Inl result \<Rightarrow> Inr (db, rejected result)
        | Inr potentialFindingID \<Rightarrow>
          (let row = sync_attachment_row env actor authority payload (cr_question_id r) potentialFindingID in
           bind_result (insert_sync ''insert inspection_attachments''
             (list_ex (\<lambda>a. at_id a = at_id row) (inspection_attachments db)) row (inspection_attachments db))
             (\<lambda>rows. Inr (db\<lparr>inspection_attachments := rows\<rparr>, attachment_mutation now input row))))))"

section \<open>Conflicts\<close>

definition sync_resolveFieldConflict :: "grantAuthority \<Rightarrow> operation \<Rightarrow> resolveFieldConflictPayload \<Rightarrow> instant \<Rightarrow> DB \<Rightarrow>
    sync_error + (DB \<times> mutation)" where
  "sync_resolveFieldConflict authority input payload now db =
     (if rc_ConflictOperationID payload = '''' \<or> TrimSpace (rc_Reason payload) = '''' \<or>
         rc_Resolution payload \<notin> {''ACCEPT_SERVER'', ''KEEP_LOCAL_AS_NEW_REVISION'', ''AUTHORIZED_REVIEWER''} \<or>
         \<not> sha256Pattern (rc_LocalPayloadHash payload) \<or> wo_EntityID input = ''''
      then Inr (db, rejected (invalidResult (wo_OperationID input) now))
      else let revision = (case rc_AuthoritativeRevision payload of None \<Rightarrow> 0 | Some r \<Rightarrow> r) in
        Inr (db, \<lparr>mu_Result = acceptedResult (wo_OperationID input) (wo_EntityID input) revision now,
          mu_OrganizationID = ga_OrganizationID authority, mu_AuditAction = ''field_conflict.resolved'',
          mu_EntityType = ''field_conflict'', mu_EntityID = wo_EntityID input, mu_EntityRevision = revision,
          mu_BeforeStatus = ''CONFLICT'', mu_AfterStatus = rc_Resolution payload, mu_ChangeKind = '''',
          mu_ChangePayload = None, mu_OutboxTopic = ''''\<rparr>))"

section \<open>Push\<close>

definition applyMutation :: "Env \<Rightarrow> Principal \<Rightarrow> grantAuthority \<Rightarrow> operation \<Rightarrow> DB \<Rightarrow> sync_error + (DB \<times> mutation)" where
  "applyMutation env actor authority input db =
     (case wo_Payload input of
        UpsertResponsePayload payload \<Rightarrow>
          sync_upsertResponse actor authority input payload (env_clock env 0) db
      | CreatePotentialPayload payload \<Rightarrow> sync_createPotentialFinding env actor authority input payload db
      | SubmitChecklistPayload payload \<Rightarrow>
          sync_submitChecklist authority input payload (env_clock env 0) db
      | RegisterAttachmentPayload payload \<Rightarrow> sync_registerAttachment env actor authority input payload db
      | ResolveConflictPayload payload \<Rightarrow>
          sync_resolveFieldConflict authority input payload (env_clock env 0) db)"

definition push_scope :: "Principal \<Rightarrow> string" where
  "push_scope actor = SubjectID actor @ '':field_sync''"

definition mutation_audit :: "Env \<Rightarrow> Principal \<Rightarrow> operation \<Rightarrow> mutation \<Rightarrow> AuditEvent" where
  "mutation_audit env actor input m =
     \<lparr>ae_event_id = env_new_id env ''audit'', ae_occurred_at = env_clock env 0,
      ae_actor_subject_id = Some (SubjectID actor), ae_actor_role = actor_role actor,
      ae_organization_id = mu_OrganizationID m, ae_action = mu_AuditAction m,
      ae_entity_type = mu_EntityType m, ae_entity_id = mu_EntityID m, ae_entity_version = mu_EntityRevision m,
      ae_before_status = null_if_empty (mu_BeforeStatus m), ae_after_status = mu_AfterStatus m,
      ae_reason = None, ae_operation_id = Some (wo_OperationID input),
      ae_correlation_id = wo_OperationID input, ae_closure_basis = None, ae_details = []\<rparr>"

definition mutation_change :: "Env \<Rightarrow> Principal \<Rightarrow> operation \<Rightarrow> mutation \<Rightarrow> FieldChange \<Rightarrow> int \<Rightarrow> SyncChange" where
  "mutation_change env actor input m change n =
     \<lparr>sy_sequence_id = n, sy_subject_id = SubjectID actor, sy_organization_id = mu_OrganizationID m,
      sy_package_id = Some (wo_PackageID input), sy_kind = mu_ChangeKind m, sy_entity_id = mu_EntityID m,
      sy_entity_revision = mu_EntityRevision m, sy_payload = FieldChangePayload change,
      sy_changed_at = env_clock env 0, sy_operation_id = None, sy_correlation_id = None\<rparr>"

definition persistIdempotencyResponse :: "Env \<Rightarrow> Principal \<Rightarrow> operation \<Rightarrow> string \<Rightarrow> PushResult \<Rightarrow> Ledger \<Rightarrow>
    sync_error + Ledger" where
  "persistIdempotencyResponse env actor input semanticHash output l =
     sync_store (sync_response (push_scope actor) (wo_OperationID input) semanticHash (PushResponse output)
       (env_clock env 0)) l"

text \<open>The audit event only for a changed status, the change and the message only for a published kind.\<close>

definition persistAppliedOperation :: "Env \<Rightarrow> Principal \<Rightarrow> operation \<Rightarrow> string \<Rightarrow> mutation \<Rightarrow> Ledger \<Rightarrow>
    sync_error + Ledger" where
  "persistAppliedOperation env actor input semanticHash m l =
     bind_result (if mu_BeforeStatus m \<noteq> mu_AfterStatus m
                  then sync_audit (mutation_audit env actor input m) l else Inr l) (\<lambda>l1.
     bind_result (case mu_ChangePayload m of
         Some change \<Rightarrow> if mu_ChangeKind m \<noteq> '''' then sync_publish (mutation_change env actor input m change) l1
                        else Inr l1
       | None \<Rightarrow> Inr l1) (\<lambda>l2.
     bind_result (if mu_OutboxTopic m \<noteq> ''''
         then sync_enqueue (sync_message (env_new_id env ''outbox'') (mu_OutboxTopic m) (mu_EntityType m)
                (mu_EntityID m) (FieldChangePayload (case mu_ChangePayload m of None \<Rightarrow> NoChange | Some c \<Rightarrow> c))
                (env_clock env 0) (Some (''field_sync:'' @ wo_OperationID input)) (env_now env)) l2
         else Inr l2) (\<lambda>l3.
     persistIdempotencyResponse env actor input semanticHash (mu_Result m) l3)))"

definition refuse :: "Env \<Rightarrow> Principal \<Rightarrow> operation \<Rightarrow> string \<Rightarrow> PushResult \<Rightarrow> DB \<Rightarrow> sync_error + (DB \<times> PushResult)" where
  "refuse env actor input semanticHash output db =
     bind_result (persistIdempotencyResponse env actor input semanticHash output (ledger db))
       (\<lambda>l. Inr (db\<lparr>ledger := l\<rparr>, output))"

text \<open>A rejection takes the identifier of the operation, and its entity where it names none.\<close>

definition name_rejection :: "operation \<Rightarrow> PushResult \<Rightarrow> PushResult" where
  "name_rejection input rejection =
     rejection\<lparr>px_OperationID := wo_OperationID input,
       px_Conflict := map_option (\<lambda>c. if cd_EntityID c = '''' then c\<lparr>cd_EntityID := wo_EntityID input\<rparr> else c)
         (px_Conflict rejection)\<rparr>"

definition push_operation :: "OperationService \<Rightarrow> Env \<Rightarrow> Principal \<Rightarrow> operation \<Rightarrow> string \<Rightarrow> DB \<Rightarrow>
    sync_error + (DB \<times> PushResult)" where
  "push_operation service env actor input semanticHash db =
     (let now = env_clock env 0;
          loaded = loadGrantAuthority actor (wo_OfflineGrantID input) (wo_PackageID input)
            (wo_DeviceInstanceID input) (wo_CommandType input) (wo_PackageVersion input) now False db in
      if wo_ActorSubject input \<noteq> SubjectID actor
      then refuse env actor input semanticHash
             (forbiddenResult (wo_OperationID input) ''GRANT_SCOPE_MISMATCH'' now) db
      else (case loaded of
        Inl rejection \<Rightarrow> refuse env actor input semanticHash (name_rejection input rejection) db
      | Inr authority \<Rightarrow>
        if wo_ProfileKeyID input \<noteq> ga_ProfileKeyID authority \<or>
           verifyProfileAuthorityProof (os_crypto service) (ga_ProfilePublicJWK authority)
             (ga_ProfileKeyID authority) (wo_RequestHash input) (wo_AuthorityProof input) \<noteq> None
        then refuse env actor input semanticHash
               (forbiddenResult (wo_OperationID input) ''PROFILE_AUTHORITY_INVALID'' now) db
        else bind_result (applyMutation env actor authority input db) (\<lambda>(db', m).
          if px_Status (mu_Result m) \<noteq> PushAccepted
          then (if px_Status (mu_Result m) = PushRetryable then Inr (db', mu_Result m)
                else refuse env actor input semanticHash (mu_Result m) db')
          else bind_result (persistAppliedOperation env actor input semanticHash m (ledger db'))
                 (\<lambda>l. Inr (db'\<lparr>ledger := l\<rparr>, mu_Result m)))))"

text \<open>The transaction of an operation whose hashes were checked: a stored response is replayed.\<close>

definition push_transaction :: "OperationService \<Rightarrow> Env \<Rightarrow> Principal \<Rightarrow> operation \<Rightarrow> DB \<Rightarrow>
    sync_error + (DB \<times> PushResult)" where
  "push_transaction service env actor input db =
     (let semanticHash = SemanticHash (os_operation_sum service (operation_view input)) in
      case stored_response (push_scope actor) (wo_OperationID input) (ledger db) of
        Some stored \<Rightarrow>
          if ir_semantic_hash stored \<noteq> semanticHash then Inl SyncOperationIDReuse
          else (case ir_response_body stored of
            PushResponse output \<Rightarrow> Inr (db, output)
          | _ \<Rightarrow> Inl (SyncFailed ''decode stored response''))
      | None \<Rightarrow> push_operation service env actor input semanticHash db)"

definition Push :: "OperationService \<Rightarrow> Env \<Rightarrow> Principal \<Rightarrow> string \<Rightarrow> DB \<Rightarrow> sync_error + (DB \<times> PushResult)" where
  "Push service env actor raw db =
     (let now = env_clock env 0; unmarshal = cr_unmarshal (os_crypto service) in
      case decodeOperation unmarshal raw of
        Inl _ \<Rightarrow> Inr (db, invalidResult (extractOperationID unmarshal raw) now)
      | Inr input \<Rightarrow>
        if validateOperation (os_rfc3339 service) input \<noteq> None
        then Inr (db, invalidResult (wo_OperationID input) now)
        else if SemanticHash (os_payload_sum service (wo_Payload input)) \<noteq> wo_PayloadHash input
        then Inr (db, invalidResult (wo_OperationID input) now)
        else if SemanticHash (os_request_sum service (request_view input)) \<noteq> wo_RequestHash input
        then Inr (db, invalidResult (wo_OperationID input) now)
        else push_transaction service env actor input db)"

section \<open>Pull\<close>

record PullInput =
  pu_PackageID :: string
  pu_OfflineGrantID :: string
  pu_DeviceInstanceID :: string
  pu_ProfileKeyID :: string
  pu_Cursor :: "string option"
  pu_Limit :: int

record PullResult =
  pl_Changes :: "FieldChange list"
  pl_NextCursor :: "string option"
  pl_HasMore :: bool
  pl_ResnapshotRequired :: bool
  pl_ProjectionVersion :: i64

definition projectionVersion :: i64 where "projectionVersion = 1"

definition rejectionError :: "PushResult \<Rightarrow> sync_error" where
  "rejectionError result =
     (let by_code = (if px_ErrorCode result = ''GRANT_EXPIRED'' then ErrGrantExpired
        else if px_ErrorCode result = ''GRANT_REVOKED'' then ErrGrantRevoked
        else if px_ErrorCode result = ''SESSION_REVOKED'' then ErrSessionRevoked else ErrGrantScope) in
      case px_Conflict result of
        None \<Rightarrow> by_code
      | Some c \<Rightarrow> if cd_Code c = ''ASSIGNMENT_CHANGED'' then ErrAssignmentChanged
                  else if cd_Code c = ''PACKAGE_REVOKED'' then ErrPackageRevoked else by_code)"

definition cursorToken :: "Crypto \<Rightarrow> string \<Rightarrow> grantAuthority \<Rightarrow> string \<Rightarrow> i64 \<Rightarrow> int \<Rightarrow> string" where
  "cursorToken crypto subjectID authority profileKeyID version highWater =
     (let nul = [CHR 0x00] in
      ''sync_'' @ hex_encode (cr_text_sum crypto
        (subjectID @ nul @ ga_OrganizationID authority @ nul @ ga_PackageID authority @ nul @
         ga_GrantID authority @ nul @ ga_DeviceID authority @ nul @ profileKeyID @ nul @
         decimal (sint version) @ nul @ decimal highWater)))"

text \<open>
  Strict decoding of a stored change by its kind. A payload of another shape, such as the response of
  a command, has members the projection does not know.
\<close>

definition safeAuthorizedChange :: "string \<Rightarrow> Payload \<Rightarrow> go_error + FieldChange" where
  "safeAuthorizedChange kind payload =
     (if kind = ''checklist_response'' then
        (case payload of
           FieldChangePayload (ResponseChange value) \<Rightarrow>
             if validChecklistAnswer (fc_answer value) then Inr (ResponseChange value)
             else Inl ''invalid checklist response projection''
         | _ \<Rightarrow> Inl ''invalid checklist response projection'')
      else if kind = ''potential_finding'' then
        (case payload of
           FieldChangePayload (PotentialChange value) \<Rightarrow>
             if pq_id value \<noteq> '''' then Inr (PotentialChange value)
             else Inl ''invalid Potential Finding projection''
         | _ \<Rightarrow> Inl ''invalid Potential Finding projection'')
      else if kind = ''package_revoked'' then
        (case payload of
           FieldChangePayload (PackageRevokedChange packageID reasonCode revokedAt) \<Rightarrow>
             if packageID \<noteq> '''' then Inr (PackageRevokedChange packageID reasonCode revokedAt)
             else Inl ''invalid package revocation projection''
         | _ \<Rightarrow> Inl ''invalid package revocation projection'')
      else if kind = ''tombstone'' then
        (case payload of
           FieldChangePayload (TombstoneChange entityType entityID revision) \<Rightarrow>
             if entityType \<in> {''checklist_response'', ''potential_finding''} \<and> entityID \<noteq> ''''
             then Inr (TombstoneChange entityType entityID revision)
             else Inl ''invalid tombstone projection''
         | _ \<Rightarrow> Inl ''invalid tombstone projection'')
      else Inl ''unrecognized authorized change kind'')"

definition pull_kinds :: "string list" where
  "pull_kinds = [''checklist_response'', ''potential_finding'', ''package_revoked'', ''tombstone'']"

definition visible_change :: "Principal \<Rightarrow> grantAuthority \<Rightarrow> SyncChange \<Rightarrow> bool" where
  "visible_change actor authority c \<longleftrightarrow>
     sy_subject_id c = SubjectID actor \<and> sy_organization_id c = ga_OrganizationID authority \<and>
     sy_package_id c = Some (ga_PackageID authority) \<and> sy_kind c \<in> set pull_kinds"

definition pending_changes :: "Principal \<Rightarrow> grantAuthority \<Rightarrow> int \<Rightarrow> DB \<Rightarrow> SyncChange list" where
  "pending_changes actor authority highWater db =
     sort_key sy_sequence_id (filter (\<lambda>c. visible_change actor authority c \<and> highWater < sy_sequence_id c)
       (l_sync_changes (ledger db)))"

definition retained_change :: "Principal \<Rightarrow> grantAuthority \<Rightarrow> int \<Rightarrow> DB \<Rightarrow> bool" where
  "retained_change actor authority highWater db =
     list_ex (\<lambda>c. sy_sequence_id c = highWater \<and> visible_change actor authority c) (l_sync_changes (ledger db))"

text \<open>The high-water mark of a cursor of exactly this scope.\<close>

definition cursor_mark :: "Principal \<Rightarrow> grantAuthority \<Rightarrow> string \<Rightarrow> string \<Rightarrow> DB \<Rightarrow> int option" where
  "cursor_mark actor authority profileKeyID token db =
     map_option ct_high_water_mark (find (\<lambda>t. ct_token t = token \<and> ct_subject_id t = SubjectID actor \<and>
       ct_organization_id t = ga_OrganizationID authority \<and> ct_package_id t = ga_PackageID authority \<and>
       ct_grant_id t = ga_GrantID authority \<and> ct_device_id t = ga_DeviceID authority \<and>
       ct_profile_key_id t = profileKeyID \<and> ct_projection_version t = projectionVersion)
       (sync_cursor_tokens db))"

definition cursor_row :: "instant \<Rightarrow> Principal \<Rightarrow> grantAuthority \<Rightarrow> string \<Rightarrow> string \<Rightarrow> int \<Rightarrow> CursorToken" where
  "cursor_row now actor authority profileKeyID token highWater =
     \<lparr>ct_token = token, ct_subject_id = SubjectID actor, ct_organization_id = ga_OrganizationID authority,
      ct_package_id = ga_PackageID authority, ct_grant_id = ga_GrantID authority,
      ct_device_id = ga_DeviceID authority, ct_profile_key_id = profileKeyID,
      ct_projection_version = projectionVersion, ct_high_water_mark = highWater, ct_issued_at = now\<rparr>"

definition cursor_conflict :: "CursorToken \<Rightarrow> CursorToken list \<Rightarrow> bool" where
  "cursor_conflict row rows = list_ex (\<lambda>t. ct_token t = ct_token row \<or>
     ct_subject_id t = ct_subject_id row \<and> ct_organization_id t = ct_organization_id row \<and>
     ct_package_id t = ct_package_id row \<and> ct_grant_id t = ct_grant_id row \<and>
     ct_device_id t = ct_device_id row \<and> ct_projection_version t = ct_projection_version row \<and>
     ct_high_water_mark t = ct_high_water_mark row) rows"

definition upsert_cursor :: "SyncCursorRow \<Rightarrow> SyncCursorRow list \<Rightarrow> SyncCursorRow list" where
  "upsert_cursor row rows =
     (let same = (\<lambda>x. sx_subject_id x = sx_subject_id row \<and> sx_device_id x = sx_device_id row) in
      if list_ex same rows
      then map (\<lambda>x. if same x then row\<lparr>sx_cursor_sequence := max (sx_cursor_sequence x) (sx_cursor_sequence row)\<rparr>
             else x) rows
      else rows @ [row])"

definition pull_limit :: "int \<Rightarrow> nat" where
  "pull_limit requested = nat (if requested \<le> 0 then 100 else min requested 250)"

text \<open>One page after a mark.\<close>

definition pull_page :: "Crypto \<Rightarrow> Env \<Rightarrow> Principal \<Rightarrow> grantAuthority \<Rightarrow> PullInput \<Rightarrow> int \<Rightarrow> DB \<Rightarrow>
    sync_error + (DB \<times> PullResult)" where
  "pull_page crypto env actor authority input mark db =
     (let limit = pull_limit (pu_Limit input); now = env_clock env 0;
          rows = take (limit + 1) (pending_changes actor authority mark db);
          page = take limit rows in
      case collect (map (\<lambda>c. case safeAuthorizedChange (sy_kind c) (sy_payload c) of
             Inl _ \<Rightarrow> None | Inr change \<Rightarrow> Some change) page) of
        None \<Rightarrow> Inl (SyncFailed ''reject unsafe authorized change'')
      | Some changes \<Rightarrow>
        if page = []
        then Inr (db, \<lparr>pl_Changes = changes, pl_NextCursor = pu_Cursor input, pl_HasMore = limit < length rows,
               pl_ResnapshotRequired = False, pl_ProjectionVersion = projectionVersion\<rparr>)
        else (let highWater = sy_sequence_id (last page);
                  token = cursorToken crypto (SubjectID actor) authority (pu_ProfileKeyID input)
                    projectionVersion highWater;
                  row = cursor_row now actor authority (pu_ProfileKeyID input) token highWater in
          if highWater < 0 then Inl (SyncFailed ''insert sync_cursor_tokens'')
          else Inr (db\<lparr>sync_cursor_tokens := (if cursor_conflict row (sync_cursor_tokens db)
                   then sync_cursor_tokens db else sync_cursor_tokens db @ [row]),
                 sync_cursors := upsert_cursor
                   \<lparr>sx_subject_id = SubjectID actor, sx_device_id = ga_DeviceID authority,
                    sx_profile_key_id = pu_ProfileKeyID input, sx_cursor_sequence = highWater,
                    sx_projection_version = projectionVersion, sx_updated_at = now\<rparr> (sync_cursors db)\<rparr>,
               \<lparr>pl_Changes = changes, pl_NextCursor = Some token, pl_HasMore = limit < length rows,
                pl_ResnapshotRequired = False, pl_ProjectionVersion = projectionVersion\<rparr>)))"

definition Pull :: "OperationService \<Rightarrow> Env \<Rightarrow> Principal \<Rightarrow> PullInput \<Rightarrow> DB \<Rightarrow> sync_error + (DB \<times> PullResult)" where
  "Pull service env actor input db =
     (let now = env_clock env 0 in
      if pu_PackageID input = '''' \<or> pu_OfflineGrantID input = '''' \<or> pu_DeviceInstanceID input = '''' \<or>
         pu_ProfileKeyID input = '''' then Inl ErrCursorScope
      else (case loadGrantAuthority actor (pu_OfflineGrantID input) (pu_PackageID input)
              (pu_DeviceInstanceID input) '''' 0 now True db of
        Inl rejection \<Rightarrow> Inl (rejectionError rejection)
      | Inr authority \<Rightarrow>
        if ga_ProfileKeyID authority \<noteq> pu_ProfileKeyID input then Inl ErrCursorScope
        else (case pu_Cursor input of
          None \<Rightarrow> pull_page (os_crypto service) env actor authority input 0 db
        | Some token \<Rightarrow>
          (case cursor_mark actor authority (pu_ProfileKeyID input) token db of
             None \<Rightarrow> Inl ErrCursorScope
           | Some mark \<Rightarrow>
               if 0 < mark \<and> \<not> retained_change actor authority mark db
               then Inr (db, \<lparr>pl_Changes = [], pl_NextCursor = Some token, pl_HasMore = False,
                      pl_ResnapshotRequired = True, pl_ProjectionVersion = projectionVersion\<rparr>)
               else pull_page (os_crypto service) env actor authority input mark db))))"

end
