(* ===== verification/AttachmentUpload.thy ===== *)
theory AttachmentUpload
  imports EvidenceUpload OfflineGrant
begin

text \<open>
  The resumable upload of Inspection Attachments
  (\<open>internal/inspections/attachments/upload_service.go\<close>): \<open>Begin\<close> opens a session under an offline
  grant, \<open>BeginPart\<close> and \<open>AcknowledgePart\<close> upload one part each, \<open>Complete\<close> joins the parts, appends an
  immutable version and requests its scan; \<open>Get\<close> and \<open>Download\<close> read.
\<close>

section \<open>The layout of the parts\<close>

definition defaultPartSize :: i64 where "defaultPartSize = 5 * 1024 * 1024"

definition i64_div :: "i64 \<Rightarrow> i64 \<Rightarrow> i64" where
  "i64_div a b = word_of_int (trunc_div (sint a) (sint b))"

definition expectedPartCount :: "i64 \<Rightarrow> i64 \<Rightarrow> i64" where
  "expectedPartCount byteSize partSize =
     (if sint byteSize \<le> 0 \<or> sint partSize \<le> 0 then 0 else i64_div (byteSize + partSize - 1) partSize)"

text \<open>The loop over the ordered receipts: the index of the next one, their number and the offset so far.\<close>

fun part_loop :: "i64 \<Rightarrow> i64 \<Rightarrow> nat \<Rightarrow> nat \<Rightarrow> i64 \<Rightarrow> UploadPartReceipt list \<Rightarrow> i64 option" where
  "part_loop totalSize partSize count index offset [] = Some offset"
| "part_loop totalSize partSize count index offset (r # rs) =
     (let expectedSize = (if index + 1 = count then totalSize - offset else partSize) in
      if pr_PartNumber r \<noteq> of_nat (index + 1) \<or> pr_ByteSize r \<noteq> expectedSize \<or>
         pr_AcknowledgedOffset r \<noteq> offset + pr_ByteSize r \<or> pr_SHA256 r = '''' \<or> pr_ObjectVersion r = ''''
      then None
      else part_loop totalSize partSize count (index + 1) (offset + pr_ByteSize r) rs)"

definition ordered_receipts :: "UploadPartReceipt list \<Rightarrow> UploadPartReceipt list" where
  "ordered_receipts receipts = sort_key (\<lambda>r. sint (pr_PartNumber r)) receipts"

definition validateResumablePartLayout :: "i64 \<Rightarrow> i64 \<Rightarrow> UploadPartReceipt list \<Rightarrow> evidence_error option" where
  "validateResumablePartLayout totalSize partSize receipts =
     (if sint totalSize < 0 \<or> sint partSize \<le> 0 \<or>
         int (length receipts) \<noteq> sint (expectedPartCount totalSize partSize)
      then Some ErrObjectMismatch
      else (case part_loop totalSize partSize (length receipts) 0 0 (ordered_receipts receipts) of
        None \<Rightarrow> Some ErrObjectMismatch
      | Some offset \<Rightarrow> if offset \<noteq> totalSize then Some ErrObjectMismatch else None))"

section \<open>Begin\<close>

definition inspection_of :: "string \<Rightarrow> DB \<Rightarrow> (Inspection \<times> InspectionChecklist) option" where
  "inspection_of inspectionID db =
     (case (lookup in_id inspectionID (inspections db), lookup k_inspection_id inspectionID (inspection_checklists db)) of
        (Some inspection, Some checklist) \<Rightarrow> Some (inspection, checklist) | _ \<Rightarrow> None)"

definition inspection_running :: "string \<Rightarrow> DB \<Rightarrow> bool" where
  "inspection_running inspectionID db \<longleftrightarrow>
     (case inspection_of inspectionID db of
        None \<Rightarrow> False
      | Some (inspection, checklist) \<Rightarrow>
          in_status inspection = ''IN_PROGRESS'' \<and> k_status checklist = KStatusInProgress)"

definition attachment_sessions :: "string \<Rightarrow> DB \<Rightarrow> UploadSession list" where
  "attachment_sessions attachmentID db =
     filter (\<lambda>u. us_aggregate_id u = attachmentID \<and> us_upload_kind u = ''INSPECTION_ATTACHMENT'')
       (upload_sessions db)"

definition live_states :: "string list" where
  "live_states = [''PENDING'', ''OPEN'', ''UPLOADING'', ''PARTIALLY_COMMITTED'', ''COMPLETING'']"

definition active_upload :: "instant \<Rightarrow> string \<Rightarrow> DB \<Rightarrow> bool" where
  "active_upload now attachmentID db =
     list_ex (\<lambda>u. us_upload_state u \<in> set live_states \<and> now < us_expires_at u) (attachment_sessions attachmentID db)"

text \<open>\<open>COALESCE(MAX(...), 0) + 1\<close>.\<close>

definition next_number :: "i64 list \<Rightarrow> int" where
  "next_number numbers = (case latest sint numbers of None \<Rightarrow> 0 | Some n \<Rightarrow> sint n) + 1"

definition expire_attachment :: "instant \<Rightarrow> string \<Rightarrow> UploadSession \<Rightarrow> UploadSession" where
  "expire_attachment now attachmentID u =
     (if us_aggregate_id u = attachmentID \<and> us_upload_kind u = ''INSPECTION_ATTACHMENT'' \<and>
         us_expires_at u \<le> now \<and> us_upload_state u \<in> set live_states
      then u\<lparr>us_upload_state := ''EXPIRED''\<rparr> else u)"

definition attachment_staging_key :: "string \<Rightarrow> string \<Rightarrow> string \<Rightarrow> string" where
  "attachment_staging_key organizationID attachmentID uploadID =
     ''organizations/'' @ organizationID @ ''/inspection-attachments/'' @ attachmentID @ ''/'' @ uploadID"

definition attachment_session :: "UploadService \<Rightarrow> Env \<Rightarrow> Principal \<Rightarrow> BeginAttachmentInput \<Rightarrow> string \<Rightarrow> i64 \<Rightarrow>
    UploadSession" where
  "attachment_session service env actor input organizationID sessionEpoch =
     \<lparr>us_id = env_new_id env ''upload'', us_upload_kind = ''INSPECTION_ATTACHMENT'',
      us_aggregate_id = ai_InspectionAttachmentID input, us_organization_id = organizationID,
      us_initiated_by_subject_id = SubjectID actor, us_bucket_name = sv_quarantineBucket service,
      us_staging_object_key = attachment_staging_key organizationID (ai_InspectionAttachmentID input) (env_new_id env ''upload''),
      us_file_name = ai_FileName input, us_declared_media_type = ai_DeclaredMediaType input,
      us_declared_size_bytes = ai_ByteSize input, us_declared_sha256 = ai_SHA256 input,
      us_expected_aggregate_revision = None, us_upload_state = ''OPEN'',
      us_expires_at = env_clock env 2 + sv_instructionTTL service, us_object_metadata_id = None,
      us_created_at = env_clock env 2, us_completed_at = None, us_session_epoch = sessionEpoch,
      us_part_size_bytes = Some defaultPartSize, us_whole_file_sha256 = Some (ai_SHA256 input),
      us_object_version_id = None, us_object_etag = None\<rparr>"

definition attachment_output :: "UploadService \<Rightarrow> UploadSession \<Rightarrow> BeginAttachmentUploadOutput" where
  "attachment_output service session =
     \<lparr>ab_UploadID = us_id session, ab_StagingObjectKey = us_staging_object_key session,
      ab_ExpiresAt = us_expires_at session, ab_MaximumByteSize = sv_maximumByteSize service,
      ab_SessionEpoch = us_session_epoch session, ab_PartSize = defaultPartSize, ab_ReceivedParts = [],
      ab_AcknowledgedOffsets = [], ab_PartHashes = [], ab_WholeFileSHA256 = us_declared_sha256 session\<rparr>"

definition declare_attachment :: "instant \<Rightarrow> BeginAttachmentInput \<Rightarrow> InspectionAttachment \<Rightarrow> InspectionAttachment" where
  "declare_attachment now input a =
     a\<lparr>at_file_name := ai_FileName input, at_declared_media_type := ai_DeclaredMediaType input,
       at_declared_size_bytes := ai_ByteSize input, at_declared_sha256 := ai_SHA256 input, at_updated_at := now\<rparr>"

definition attachment_begin_scope :: "Principal \<Rightarrow> string" where
  "attachment_begin_scope actor = SubjectID actor @ '':begin_inspection_attachment_upload''"

definition begin_attachment_body :: "UploadService \<Rightarrow> Env \<Rightarrow> Principal \<Rightarrow> BeginAttachmentInput \<Rightarrow>
    InspectionAttachment \<Rightarrow> DB \<Rightarrow> evidence_error + (DB \<times> Response)" where
  "begin_attachment_body service env actor input attachment db =
     (case lookup at_id (ai_InspectionAttachmentID input) (inspection_attachments db) of
        None \<Rightarrow> Inl UploadForbidden
      | Some current \<Rightarrow>
        if at_organization_id current \<noteq> at_organization_id attachment \<or>
           at_package_id current \<noteq> ai_PackageID input \<or> at_upload_state current \<noteq> ''PENDING'' \<or>
           \<not> inspection_running (at_inspection_id current) db \<or>
           active_upload (env_clock env 1) (ai_InspectionAttachmentID input) db
        then Inl UploadForbidden
        else (let epoch = next_number (map us_session_epoch
                  (attachment_sessions (ai_InspectionAttachmentID input) db));
                now = env_clock env 2;
                session = attachment_session service env actor input (at_organization_id attachment) (word_of_int epoch);
                expired = map (expire_attachment now (ai_InspectionAttachmentID input)) (upload_sessions db);
                output = BeginAttachmentUploadResponse (attachment_output service session) in
          if 2 ^ 63 \<le> epoch then Inl (UploadFailed ''bigint out of range'')
          else bind_result (sql_insert ''insert upload_sessions'' (upload_session_conflict session expired)
              session expired) (\<lambda>sessions.
            bind_result (saveIdempotent (attachment_begin_scope actor) (ai_OperationID input)
              (sv_SemanticHash service (BeginAttachment input)) output now
              (db\<lparr>upload_sessions := sessions,
                 inspection_attachments := modify at_id (ai_InspectionAttachmentID input)
                   (declare_attachment now input) (inspection_attachments db)\<rparr>)) (\<lambda>db'.
            Inr (db', output)))))"

text \<open>
  A replay answers with the state of the session and the parts acknowledged since; a part size or a
  digest that is \<open>NULL\<close> fails the scan.
\<close>

definition acknowledged_parts :: "string \<Rightarrow> i64 \<Rightarrow> DB \<Rightarrow> UploadPart list" where
  "acknowledged_parts uploadID epoch db =
     sort_key (\<lambda>p. sint (up_part_number p))
       (filter (\<lambda>p. up_upload_session_id p = uploadID \<and> up_session_epoch p = epoch \<and>
          up_part_state p = ''ACKNOWLEDGED'') (inspection_attachment_upload_parts db))"

fun running_offsets :: "i64 \<Rightarrow> i64 list \<Rightarrow> i64 list" where
  "running_offsets offset [] = []"
| "running_offsets offset (n # ns) = (offset + n) # running_offsets (offset + n) ns"

definition refreshBeginUploadState :: "BeginAttachmentUploadOutput \<Rightarrow> DB \<Rightarrow>
    evidence_error + BeginAttachmentUploadOutput" where
  "refreshBeginUploadState output db =
     (if ab_UploadID output = '''' then Inl UploadForbidden
      else (case find (\<lambda>u. us_id u = ab_UploadID output \<and> us_upload_kind u = ''INSPECTION_ATTACHMENT'')
              (upload_sessions db) of
        None \<Rightarrow> Inl UploadForbidden
      | Some session \<Rightarrow>
        (case (us_part_size_bytes session, us_whole_file_sha256 session) of
           (Some partSize, Some digest) \<Rightarrow>
             (let parts = acknowledged_parts (ab_UploadID output) (us_session_epoch session) db in
              Inr (output\<lparr>ab_SessionEpoch := us_session_epoch session, ab_PartSize := partSize,
                ab_WholeFileSHA256 := digest, ab_ExpiresAt := us_expires_at session,
                ab_ReceivedParts := map up_part_number parts,
                ab_AcknowledgedOffsets := running_offsets 0 (map up_byte_size parts),
                ab_PartHashes := map (\<lambda>p. (decimal (sint (up_part_number p)), up_part_sha256 p)) parts\<rparr>))
         | _ \<Rightarrow> Inl UploadForbidden)))"

definition begin_attachment_answer :: "UploadService \<Rightarrow> Env \<Rightarrow> Principal \<Rightarrow> BeginAttachmentInput \<Rightarrow>
    InspectionAttachment \<Rightarrow> Response option \<Rightarrow> DB \<Rightarrow> evidence_error + (DB \<times> Response)" where
  "begin_attachment_answer service env actor input attachment replayed db =
     (case replayed of
        None \<Rightarrow> begin_attachment_body service env actor input attachment db
      | Some (BeginAttachmentUploadResponse output) \<Rightarrow>
          bind_result (refreshBeginUploadState output db)
            (\<lambda>refreshed. Inr (db, BeginAttachmentUploadResponse refreshed))
      | Some _ \<Rightarrow> Inl (UploadFailed ''decode stored response''))"

definition attachments_Begin :: "UploadService \<Rightarrow> Env \<Rightarrow> Principal \<Rightarrow> BeginAttachmentInput \<Rightarrow> DB \<Rightarrow>
    evidence_error + (DB \<times> Response)" where
  "attachments_Begin service env actor input db =
     (if \<not> HasRole actor [RoleInspector] \<or> SubjectID actor = '''' \<or> SessionID actor = '''' then Inl UploadForbidden
      else if ai_OperationID input = '''' \<or> ai_CorrelationID input = '''' \<or>
              ai_InspectionAttachmentID input = '''' \<or> ai_PackageID input = ''''
      then Inl (ErrInvalidUpload (InvalidReason ''''))
      else (case lookup at_id (ai_InspectionAttachmentID input) (inspection_attachments db) of
        None \<Rightarrow> Inl UploadForbidden
      | Some attachment \<Rightarrow>
        if at_created_by_subject_id attachment \<noteq> SubjectID actor \<or>
           at_package_id attachment \<noteq> ai_PackageID input \<or> at_upload_state attachment \<noteq> ''PENDING''
        then Inl UploadForbidden
        else if Authorize env actor \<lparr>xa_GrantID = at_offline_grant_id attachment,
               xa_PackageID = at_package_id attachment, xa_DeviceInstanceID = at_device_instance_id attachment,
               xa_ServerNow = env_clock env 0, xa_CommandType = ''REGISTER_INSPECTION_ATTACHMENT''\<rparr> db \<noteq> None
        then Inl UploadForbidden
        else (case ValidateDeclaration (ai_FileName input) (ai_DeclaredMediaType input) (ai_ByteSize input)
                 (sv_maximumByteSize service) (ai_SHA256 input) of
          Some e \<Rightarrow> Inl (ErrInvalidUpload (InvalidDeclaration e))
        | None \<Rightarrow>
          bind_result (loadIdempotent (attachment_begin_scope actor) (ai_OperationID input)
            (sv_SemanticHash service (BeginAttachment input)) db) (\<lambda>replayed.
          begin_attachment_answer service env actor input attachment replayed db))))"

section \<open>Parts\<close>

definition part_key :: "UploadSession \<Rightarrow> i64 \<Rightarrow> i64 \<Rightarrow> string" where
  "part_key session epoch number =
     us_staging_object_key session @ ''/epoch-'' @ decimal (sint epoch) @ ''/part-'' @ decimal (sint number)"

definition find_part :: "string \<Rightarrow> i64 \<Rightarrow> i64 \<Rightarrow> DB \<Rightarrow> UploadPart option" where
  "find_part uploadID epoch number db =
     find (\<lambda>p. up_upload_session_id p = uploadID \<and> up_session_epoch p = epoch \<and> up_part_number p = number)
       (inspection_attachment_upload_parts db)"

definition part_conflict :: "UploadPart \<Rightarrow> UploadPart list \<Rightarrow> bool" where
  "part_conflict row rows \<longleftrightarrow> sint (up_session_epoch row) \<le> 0 \<or> sint (up_part_number row) \<le> 0 \<or>
     sint (up_byte_size row) < 0 \<or>
     list_ex (\<lambda>p. up_id p = up_id row \<or> up_upload_session_id p = up_upload_session_id row \<and>
       up_session_epoch p = up_session_epoch row \<and> up_part_number p = up_part_number row) rows"

definition new_part :: "Env \<Rightarrow> BeginPartInput \<Rightarrow> string \<Rightarrow> UploadPart" where
  "new_part env input key =
     \<lparr>up_id = env_new_id env ''upload-part'', up_upload_session_id = pi_UploadID input,
      up_session_epoch = pi_SessionEpoch input, up_part_number = pi_PartNumber input,
      up_byte_size = pi_ByteSize input, up_part_sha256 = pi_SHA256 input, up_part_object_key = key,
      up_part_state = ''OPEN'', up_object_version_id = None, up_object_etag = None,
      up_acknowledged_at = None, up_created_at = env_clock env 0\<rparr>"

definition expected_size :: "i64 \<Rightarrow> i64 \<Rightarrow> i64 \<Rightarrow> i64" where
  "expected_size totalSize partSize number =
     (if number = expectedPartCount totalSize partSize then totalSize - (number - 1) * partSize else partSize)"

definition set_session_state :: "string \<Rightarrow> string \<Rightarrow> DB \<Rightarrow> DB" where
  "set_session_state uploadID state db =
     db\<lparr>upload_sessions := modify us_id uploadID (us_upload_state_update (\<lambda>_. state)) (upload_sessions db)\<rparr>"

definition part_scope :: "Principal \<Rightarrow> string" where
  "part_scope actor = SubjectID actor @ '':begin_inspection_attachment_part''"

definition begin_part_body :: "UploadService \<Rightarrow> Env \<Rightarrow> Principal \<Rightarrow> BeginPartInput \<Rightarrow> DB \<Rightarrow>
    evidence_error + (DB \<times> Response)" where
  "begin_part_body service env actor input db =
     (case find (\<lambda>u. us_id u = pi_UploadID input \<and> us_upload_kind u = ''INSPECTION_ATTACHMENT'')
             (upload_sessions db) of
        None \<Rightarrow> Inl UploadForbidden
      | Some session \<Rightarrow>
        (case us_part_size_bytes session of
           None \<Rightarrow> Inl UploadForbidden
         | Some partSize \<Rightarrow>
           (let now = env_clock env 0; total = us_declared_size_bytes session;
                key = part_key session (pi_SessionEpoch input) (pi_PartNumber input) in
            if us_initiated_by_subject_id session \<noteq> SubjectID actor \<or>
               us_session_epoch session \<noteq> pi_SessionEpoch input \<or> us_expires_at session < now \<or>
               sint partSize \<le> 0
            then Inl UploadForbidden
            else if sint (expectedPartCount total partSize) < sint (pi_PartNumber input)
            then Inl (ErrInvalidUpload (InvalidReason ''''))
            else if pi_ByteSize input \<noteq> expected_size total partSize (pi_PartNumber input)
            then Inl ErrObjectMismatch
            else bind_result
              (case find_part (pi_UploadID input) (pi_SessionEpoch input) (pi_PartNumber input) db of
                 Some existing \<Rightarrow>
                   if up_part_sha256 existing \<noteq> pi_SHA256 input \<or> up_part_object_key existing \<noteq> key
                   then Inl ErrObjectMismatch else Inr (inspection_attachment_upload_parts db)
               | None \<Rightarrow> sql_insert ''insert inspection_attachment_upload_parts''
                   (part_conflict (new_part env input key) (inspection_attachment_upload_parts db))
                   (new_part env input key) (inspection_attachment_upload_parts db)) (\<lambda>parts.
              (case os_put_instruction (sv_objects service) (us_bucket_name session) key
                      (now + sv_instructionTTL service) of
                 None \<Rightarrow> Inl (UploadFailed ''create put instruction'')
               | Some (url, expiresAt) \<Rightarrow>
                   (let output = BeginPartResponse
                          \<lparr>bp_UploadID = pi_UploadID input, bp_SessionEpoch = pi_SessionEpoch input,
                           bp_PartNumber = pi_PartNumber input, bp_PartObjectKey = key, bp_UploadURL = url,
                           bp_RequiredHeaders = \<lparr>rh_ContentType = ''application/octet-stream'',
                             rh_SHA256 = pi_SHA256 input, rh_IfNoneMatch = ''*''\<rparr>,
                           bp_ExpiresAt = expiresAt\<rparr> in
                    bind_result (saveIdempotent (part_scope actor) (pi_OperationID input)
                      (sv_SemanticHash service (BeginPartOf input)) output now
                      (set_session_state (pi_UploadID input) ''UPLOADING''
                        (db\<lparr>inspection_attachment_upload_parts := parts\<rparr>)))
                      (\<lambda>db'. Inr (db', output))))))))"

definition attachments_BeginPart :: "UploadService \<Rightarrow> Env \<Rightarrow> Principal \<Rightarrow> BeginPartInput \<Rightarrow> DB \<Rightarrow>
    evidence_error + (DB \<times> Response)" where
  "attachments_BeginPart service env actor input db =
     (if \<not> HasRole actor [RoleInspector] \<or> SubjectID actor = '''' \<or> SessionID actor = '''' then Inl UploadForbidden
      else if pi_OperationID input = '''' \<or> pi_CorrelationID input = '''' \<or> pi_UploadID input = '''' \<or>
              sint (pi_SessionEpoch input) < 1 \<or> sint (pi_PartNumber input) < 1 \<or>
              sint (pi_ByteSize input) < 0 \<or> pi_SHA256 input = ''''
      then Inl (ErrInvalidUpload (InvalidReason ''''))
      else idempotent_upload (part_scope actor) (pi_OperationID input)
        (sv_SemanticHash service (BeginPartOf input)) (begin_part_body service env actor input) db)"

section \<open>Acknowledging a part\<close>

text \<open>\<open>COALESCE(object_version_id, object_etag, part_object_key)\<close>.\<close>

definition part_object_version :: "UploadPart \<Rightarrow> string" where
  "part_object_version p =
     (case up_object_version_id p of
        Some v \<Rightarrow> v
      | None \<Rightarrow> (case up_object_etag p of Some e \<Rightarrow> e | None \<Rightarrow> up_part_object_key p))"

definition acknowledged_offset :: "BeginPartInput \<Rightarrow> UploadPart list \<Rightarrow> i64" where
  "acknowledged_offset input parts =
     sum_list (map up_byte_size (filter (\<lambda>p. up_upload_session_id p = pi_UploadID input \<and>
       up_session_epoch p = pi_SessionEpoch input \<and> sint (up_part_number p) \<le> sint (pi_PartNumber input) \<and>
       up_part_state p = ''ACKNOWLEDGED'') parts))"

definition part_receipt :: "BeginPartInput \<Rightarrow> i64 \<Rightarrow> string \<Rightarrow> Response" where
  "part_receipt input offset objectVersion = PartReceiptResponse
     \<lparr>pr_PartNumber = pi_PartNumber input, pr_ByteSize = pi_ByteSize input, pr_SHA256 = pi_SHA256 input,
      pr_AcknowledgedOffset = offset, pr_ObjectVersion = objectVersion\<rparr>"

definition ack_scope :: "Principal \<Rightarrow> string" where
  "ack_scope actor = SubjectID actor @ '':ack_inspection_attachment_part''"

text \<open>The stored part is read back: complete, of the declared size and digest, as an octet stream.\<close>

definition observed_part :: "UploadService \<Rightarrow> BeginPartInput \<Rightarrow> string \<Rightarrow> string \<Rightarrow> evidence_error + (string \<times> string)" where
  "observed_part service input bucket key =
     (case os_open (sv_objects service) bucket key of
        None \<Rightarrow> Inl ErrObjectMismatch
      | Some (reader, info) \<Rightarrow>
        (case Observe (sv_observer service) reader (sv_maximumByteSize service) of
           Inl _ \<Rightarrow> Inl ErrObjectMismatch
         | Inr observation \<Rightarrow>
             if oi_Size info \<noteq> pi_ByteSize input \<or>
                \<not> MatchesDeclaration observation ''application/octet-stream'' (pi_SHA256 input) (pi_ByteSize input)
             then Inl ErrObjectMismatch
             else (case ExactIdentityForPersistence (sv_objects service) info of
                     None \<Rightarrow> Inl ErrObjectMismatch
                   | Some (versionID, etag) \<Rightarrow>
                       Inr (if versionID \<noteq> '''' then versionID else if etag \<noteq> '''' then etag else key, etag))))"

definition acknowledge :: "Env \<Rightarrow> string \<times> string \<Rightarrow> UploadPart \<Rightarrow> UploadPart" where
  "acknowledge env identity p =
     p\<lparr>up_part_state := ''ACKNOWLEDGED'', up_object_version_id := null_if_empty (fst identity),
       up_object_etag := null_if_empty (snd identity), up_acknowledged_at := Some (env_clock env 0)\<rparr>"

definition ack_part_body :: "UploadService \<Rightarrow> Env \<Rightarrow> Principal \<Rightarrow> BeginPartInput \<Rightarrow> DB \<Rightarrow>
    evidence_error + (DB \<times> Response)" where
  "ack_part_body service env actor input db =
     (let now = env_clock env 0;
          hash = sv_SemanticHash service (BeginPartOf input) in
      case (lookup us_id (pi_UploadID input) (upload_sessions db),
            find_part (pi_UploadID input) (pi_SessionEpoch input) (pi_PartNumber input) db) of
        (Some session, Some part) \<Rightarrow>
          if us_initiated_by_subject_id session \<noteq> SubjectID actor \<or>
             us_session_epoch session \<noteq> pi_SessionEpoch input \<or> us_expires_at session < now \<or>
             up_part_sha256 part \<noteq> pi_SHA256 input \<or> up_byte_size part \<noteq> pi_ByteSize input
          then Inl ErrObjectMismatch
          else if up_part_state part = ''ACKNOWLEDGED'' then
            (let output = part_receipt input (acknowledged_offset input (inspection_attachment_upload_parts db))
                   (part_object_version part) in
             bind_result (saveIdempotent (ack_scope actor) (pi_OperationID input) hash output now db)
               (\<lambda>db'. Inr (db', output)))
          else bind_result (observed_part service input (us_bucket_name session) (up_part_object_key part))
            (\<lambda>identity.
             let parts = map (\<lambda>p. if up_upload_session_id p = pi_UploadID input \<and>
                     up_session_epoch p = pi_SessionEpoch input \<and> up_part_number p = pi_PartNumber input
                   then acknowledge env identity p else p) (inspection_attachment_upload_parts db);
                 output = part_receipt input (acknowledged_offset input parts) (fst identity) in
             bind_result (saveIdempotent (ack_scope actor) (pi_OperationID input) hash output now
                 (set_session_state (pi_UploadID input) ''PARTIALLY_COMMITTED''
                   (db\<lparr>inspection_attachment_upload_parts := parts\<rparr>)))
               (\<lambda>db'. Inr (db', output)))
      | _ \<Rightarrow> Inl UploadForbidden)"

definition AcknowledgePart :: "UploadService \<Rightarrow> Env \<Rightarrow> Principal \<Rightarrow> BeginPartInput \<Rightarrow> DB \<Rightarrow>
    evidence_error + (DB \<times> Response)" where
  "AcknowledgePart service env actor input db =
     (if \<not> HasRole actor [RoleInspector] \<or> SubjectID actor = '''' \<or> SessionID actor = '''' then Inl UploadForbidden
      else if pi_OperationID input = '''' \<or> pi_CorrelationID input = '''' \<or> pi_UploadID input = '''' \<or>
              sint (pi_SessionEpoch input) < 1 \<or> sint (pi_PartNumber input) < 1
      then Inl (ErrInvalidUpload (InvalidReason ''''))
      else idempotent_upload (ack_scope actor) (pi_OperationID input)
        (sv_SemanticHash service (BeginPartOf input)) (ack_part_body service env actor input) db)"

section \<open>Complete\<close>

definition inspecting_member :: "string \<Rightarrow> string \<Rightarrow> DB \<Rightarrow> bool" where
  "inspecting_member inspectionID subject db =
     list_ex (\<lambda>a. aa_inspection_id a = Some inspectionID \<and> aa_tombstoned_at a = None \<and>
         list_ex (\<lambda>m. tm_assignment_id m = aa_id a \<and> tm_subject_id m = subject \<and>
             tm_member_role m \<in> {''INSPECTOR'', ''LEAD_INSPECTOR''} \<and> tm_removed_at m = None)
           (audit_team_members db)) (audit_assignments db)"

text \<open>One stored part, checked against its receipt and read from the store.\<close>

definition stored_part_bytes :: "UploadService \<Rightarrow> string \<Rightarrow> UploadPart list \<Rightarrow> UploadPartReceipt \<Rightarrow> string option" where
  "stored_part_bytes service bucket parts receipt =
     (case find (\<lambda>p. up_part_number p = pr_PartNumber receipt) parts of
        None \<Rightarrow> None
      | Some part \<Rightarrow>
        if up_part_state part \<noteq> ''ACKNOWLEDGED'' \<or> up_byte_size part \<noteq> pr_ByteSize receipt \<or>
           up_part_sha256 part \<noteq> pr_SHA256 receipt \<or> part_object_version part \<noteq> pr_ObjectVersion receipt
        then None
        else (case os_open (sv_objects service) bucket (up_part_object_key part) of
          None \<Rightarrow> None
        | Some (reader, info) \<Rightarrow>
          if rd_fails reader \<or> (of_nat (length (rd_bytes reader)) :: i64) \<noteq> pr_ByteSize receipt then None
          else (case Observe (sv_observer service) \<lparr>rd_bytes = rd_bytes reader, rd_fails = False\<rparr>
                  (sv_maximumByteSize service) of
            Inl _ \<Rightarrow> None
          | Inr observation \<Rightarrow>
              if oi_Size info \<noteq> pr_ByteSize receipt \<or> ob_Size observation \<noteq> pr_ByteSize receipt \<or>
                 ob_SHA256 observation \<noteq> pr_SHA256 receipt
              then None else Some (rd_bytes reader))))"

text \<open>The whole object: the one already there, checked, or the joined parts, written.\<close>

definition final_object :: "UploadService \<Rightarrow> UploadSession \<Rightarrow> string \<Rightarrow> evidence_error + ObjectInfo" where
  "final_object service session joined =
     (case os_open (sv_objects service) (us_bucket_name session) (us_staging_object_key session) of
        Some (reader, info) \<Rightarrow>
          (case Observe (sv_observer service) \<lparr>rd_bytes = rd_bytes reader, rd_fails = False\<rparr>
                  (sv_maximumByteSize service) of
             Inl _ \<Rightarrow> Inl ErrObjectMismatch
           | Inr observation \<Rightarrow>
               if rd_fails reader \<or> (of_nat (length (rd_bytes reader)) :: i64) \<noteq> us_declared_size_bytes session \<or>
                  \<not> MatchesDeclaration observation (us_declared_media_type session)
                      (us_declared_sha256 session) (us_declared_size_bytes session)
               then Inl ErrObjectMismatch else Inr info)
      | None \<Rightarrow>
          (case os_write (sv_objects service) (us_bucket_name session) (us_staging_object_key session)
                  (us_declared_media_type session) (us_declared_sha256 session) joined of
             None \<Rightarrow> Inl ErrObjectMismatch
           | Some info \<Rightarrow> Inr info))"

text \<open>A store without exact identities still gets a version identifier, from what the object has.\<close>

definition attachment_identity :: "UploadService \<Rightarrow> UploadSession \<Rightarrow> ObjectInfo \<Rightarrow> evidence_error + (string \<times> string)" where
  "attachment_identity service session info =
     (case ExactIdentityForPersistence (sv_objects service) info of
        None \<Rightarrow> Inl ErrObjectMismatch
      | Some (versionID, etag) \<Rightarrow>
          Inr (if versionID \<noteq> '''' then versionID
               else if oi_VersionID info \<noteq> '''' then oi_VersionID info
               else if oi_ETag info \<noteq> '''' then oi_ETag info
               else us_staging_object_key session, etag))"

definition attachment_version_row :: "Env \<Rightarrow> Principal \<Rightarrow> UploadSession \<Rightarrow> i64 \<Rightarrow> InspectionAttachmentVersion" where
  "attachment_version_row env actor session version =
     \<lparr>iv_id = env_new_id env ''inspection-attachment-version'',
      iv_inspection_attachment_id = us_aggregate_id session, iv_version = version,
      iv_organization_id = us_organization_id session,
      iv_source_object_metadata_id = env_new_id env ''object'', iv_upload_session_id = us_id session,
      iv_file_name = us_file_name session, iv_media_type = us_declared_media_type session,
      iv_sha256 = us_declared_sha256 session, iv_size_bytes = us_declared_size_bytes session,
      iv_submitted_by_subject_id = SubjectID actor, iv_submitted_at = env_clock env 0\<rparr>"

definition attachment_version_conflict :: "InspectionAttachmentVersion \<Rightarrow> InspectionAttachmentVersion list \<Rightarrow> bool" where
  "attachment_version_conflict row rows \<longleftrightarrow> sint (iv_version row) \<le> 0 \<or> sint (iv_size_bytes row) < 0 \<or>
     list_ex (\<lambda>v. iv_id v = iv_id row \<or>
       iv_inspection_attachment_id v = iv_inspection_attachment_id row \<and> iv_version v = iv_version row \<or>
       iv_upload_session_id v = iv_upload_session_id row) rows"

definition uploaded_attachment :: "Env \<Rightarrow> InspectionAttachment \<Rightarrow> InspectionAttachment" where
  "uploaded_attachment env a =
     a\<lparr>at_object_metadata_id := Some (env_new_id env ''object''), at_upload_state := ''UPLOADED'',
       at_scan_state := ScanPending,
       at_current_version_id := Some (env_new_id env ''inspection-attachment-version''),
       at_revision := at_revision a + 1, at_updated_at := env_clock env 0\<rparr>"

definition completed_session :: "Env \<Rightarrow> string \<times> string \<Rightarrow> UploadSession \<Rightarrow> UploadSession" where
  "completed_session env identity u =
     u\<lparr>us_upload_state := ''COMPLETED'', us_object_metadata_id := Some (env_new_id env ''object''),
       us_object_version_id := null_if_empty (fst identity), us_object_etag := null_if_empty (snd identity),
       us_completed_at := Some (env_clock env 0)\<rparr>"

definition complete_attachment_scope :: "Principal \<Rightarrow> string" where
  "complete_attachment_scope actor = SubjectID actor @ '':complete_inspection_attachment_upload''"

definition attachment_completion :: "InspectionAttachmentVersion \<Rightarrow> string \<Rightarrow> Response" where
  "attachment_completion version objectVersion = CompleteAttachmentUploadResponse
     \<lparr>ao_InspectionAttachmentID = iv_inspection_attachment_id version,
      ao_InspectionAttachmentVersionID = iv_id version, ao_Version = iv_version version,
      ao_UploadState = ''UPLOADED'', ao_ScanState = ''PENDING'', ao_ByteSize = iv_size_bytes version,
      ao_SHA256 = iv_sha256 version, ao_ObjectVersion = objectVersion\<rparr>"

text \<open>The statements of \<open>Complete\<close> after its checks.\<close>

definition complete_attachment_writes :: "UploadService \<Rightarrow> Env \<Rightarrow> Principal \<Rightarrow> CompleteAttachmentInput \<Rightarrow>
    UploadSession \<Rightarrow> string \<times> string \<Rightarrow> DB \<Rightarrow> evidence_error + (DB \<times> Response)" where
  "complete_attachment_writes service env actor input session identity db =
     (let attachmentID = us_aggregate_id session; now = env_clock env 0;
          object = quarantined_object (env_new_id env ''object'') ''inspection_attachment'' session identity now;
          number = next_number (map iv_version (filter (\<lambda>v. iv_inspection_attachment_id v = attachmentID)
            (inspection_attachment_versions db)));
          version = attachment_version_row env actor session (word_of_int number);
          output = attachment_completion version (fst identity);
          message = new_message (env_new_id env ''outbox'') ''inspection_attachment.scan_requested''
            ''inspection_attachment'' attachmentID (ResponsePayload output) now
            (Some (''inspection_attachment.scan_requested:'' @ attachmentID)) None None (env_now env) in
      bind_result (sql_insert ''insert object_metadata'' (object_metadata_conflict object (object_metadata db))
        object (object_metadata db)) (\<lambda>objects.
      if 2 ^ 63 \<le> number then Inl (UploadFailed ''bigint out of range'')
      else bind_result (sql_insert ''append immutable Inspection Attachment version''
        (attachment_version_conflict version (inspection_attachment_versions db)) version
        (inspection_attachment_versions db)) (\<lambda>versions.
      if list_ex (\<lambda>a. at_id a = attachmentID \<and> sint (at_revision a + 1) \<le> 0) (inspection_attachments db)
      then Inl (UploadFailed ''update inspection_attachments'')
      else bind_result (sql_insert ''insert outbox_messages'' (outbox_conflict message (l_outbox (ledger db)))
        message (l_outbox (ledger db))) (\<lambda>outbox.
      bind_result (saveIdempotent (complete_attachment_scope actor) (ki_OperationID input)
        (sv_SemanticHash service (CompleteAttachment input)) output now
        (db\<lparr>object_metadata := objects, inspection_attachment_versions := versions,
           inspection_attachments := modify at_id attachmentID (uploaded_attachment env) (inspection_attachments db),
           upload_sessions := modify us_id (us_id session) (completed_session env identity) (upload_sessions db),
           ledger := (ledger db)\<lparr>l_outbox := outbox\<rparr>\<rparr>)) (\<lambda>db'. Inr (db', output))))))"

definition complete_attachment_body :: "UploadService \<Rightarrow> Env \<Rightarrow> Principal \<Rightarrow> CompleteAttachmentInput \<Rightarrow> DB \<Rightarrow>
    evidence_error + (DB \<times> Response)" where
  "complete_attachment_body service env actor input db =
     (case find (\<lambda>u. us_id u = ki_UploadID input \<and> us_upload_kind u = ''INSPECTION_ATTACHMENT'')
             (upload_sessions db) of
        None \<Rightarrow> Inl UploadForbidden
      | Some session \<Rightarrow>
        (case (us_part_size_bytes session, lookup at_id (us_aggregate_id session) (inspection_attachments db)) of
           (Some partSize, Some attachment) \<Rightarrow>
             if us_initiated_by_subject_id session \<noteq> SubjectID actor \<or>
                ki_SessionEpoch input \<noteq> us_session_epoch session \<or> sint partSize \<le> 0 \<or>
                us_expires_at session < env_clock env 0 \<or>
                us_upload_state session \<notin> {''OPEN'', ''UPLOADING'', ''PARTIALLY_COMMITTED'', ''COMPLETING''}
             then Inl UploadForbidden
             else if \<not> inspecting_member (at_inspection_id attachment) (SubjectID actor) db \<or>
                at_package_id attachment = '''' \<or> at_upload_state attachment \<noteq> ''PENDING'' \<or>
                \<not> inspection_running (at_inspection_id attachment) db
             then Inl UploadForbidden
             else if us_bucket_name session \<noteq> sv_quarantineBucket service \<or>
                ki_ByteSize input \<noteq> us_declared_size_bytes session \<or>
                ki_SHA256 input \<noteq> us_declared_sha256 session \<or> ki_Parts input = []
             then Inl ErrObjectMismatch
             else (let receipts = ordered_receipts (ki_Parts input);
                       parts = filter (\<lambda>p. up_upload_session_id p = ki_UploadID input \<and>
                         up_session_epoch p = ki_SessionEpoch input) (inspection_attachment_upload_parts db) in
               check_error (validateResumablePartLayout (us_declared_size_bytes session) partSize receipts)
               (if length parts \<noteq> length receipts then Inl ErrObjectMismatch
                else (case collect (map (stored_part_bytes service (us_bucket_name session) parts) receipts) of
                  None \<Rightarrow> Inl ErrObjectMismatch
                | Some contents \<Rightarrow>
                  bind_result (final_object service session (concat contents)) (\<lambda>info.
                  bind_result (attachment_identity service session info) (\<lambda>identity.
                  complete_attachment_writes service env actor input session identity db)))))
         | _ \<Rightarrow> Inl UploadForbidden))"

definition attachments_Complete :: "UploadService \<Rightarrow> Env \<Rightarrow> Principal \<Rightarrow> CompleteAttachmentInput \<Rightarrow> DB \<Rightarrow>
    evidence_error + (DB \<times> Response)" where
  "attachments_Complete service env actor input db =
     (if \<not> HasRole actor [RoleInspector] \<or> SubjectID actor = '''' \<or> ki_OperationID input = '''' \<or>
         ki_UploadID input = ''''
      then Inl UploadForbidden
      else idempotent_upload (complete_attachment_scope actor) (ki_OperationID input)
        (sv_SemanticHash service (CompleteAttachment input)) (complete_attachment_body service env actor input) db)"

section \<open>Reads\<close>

definition canAccessAttachment :: "Principal \<Rightarrow> bool" where
  "canAccessAttachment actor \<longleftrightarrow>
     SubjectID actor \<noteq> '''' \<and> (HasRole actor [RoleInspector] \<or> HasRole actor [RoleLeadInspector])"

record AttachmentVersionView =
  vv_ID :: string
  vv_Version :: i64
  vv_SourceObjectMetadataID :: string
  vv_FileName :: string
  vv_MediaType :: string
  vv_SHA256 :: string
  vv_SizeBytes :: i64
  vv_SubmittedBySubjectID :: string
  vv_SubmittedAt :: instant
  vv_Current :: bool

record AttachmentView =
  av_ID :: string
  av_InspectionID :: string
  av_PackageID :: string
  av_QuestionID :: string
  av_ChecklistResponseID :: string
  av_FileName :: string
  av_UploadState :: string
  av_ScanState :: ScanStatus
  av_Revision :: i64
  av_CurrentVersionID :: "string option"
  av_CurrentVersion :: i64
  av_Versions :: "AttachmentVersionView list"

text \<open>
  Reading the comparison with a current version that is \<open>NULL\<close> into a truth value fails, so such an
  attachment is only readable while it has no version at all.
\<close>

definition attachment_version_view :: "string \<Rightarrow> InspectionAttachmentVersion \<Rightarrow> AttachmentVersionView" where
  "attachment_version_view current v =
     \<lparr>vv_ID = iv_id v, vv_Version = iv_version v,
      vv_SourceObjectMetadataID = iv_source_object_metadata_id v, vv_FileName = iv_file_name v,
      vv_MediaType = iv_media_type v, vv_SHA256 = iv_sha256 v, vv_SizeBytes = iv_size_bytes v,
      vv_SubmittedBySubjectID = iv_submitted_by_subject_id v, vv_SubmittedAt = iv_submitted_at v,
      vv_Current = (iv_id v = current)\<rparr>"

definition attachment_versions :: "string \<Rightarrow> DB \<Rightarrow> InspectionAttachmentVersion list" where
  "attachment_versions attachmentID db =
     rev (sort_key (\<lambda>v. sint (iv_version v))
       (filter (\<lambda>v. iv_inspection_attachment_id v = attachmentID) (inspection_attachment_versions db)))"

definition current_version_number :: "InspectionAttachment \<Rightarrow> DB \<Rightarrow> i64" where
  "current_version_number a db =
     (case find (\<lambda>v. Some (iv_id v) = at_current_version_id a \<and> iv_inspection_attachment_id v = at_id a)
             (inspection_attachment_versions db) of
        None \<Rightarrow> 0 | Some v \<Rightarrow> iv_version v)"

definition attachments_Get :: "Principal \<Rightarrow> string \<Rightarrow> DB \<Rightarrow> evidence_error + AttachmentView" where
  "attachments_Get actor attachmentID db =
     (if \<not> canAccessAttachment actor \<or> attachmentID = '''' then Inl UploadForbidden
      else (case lookup at_id attachmentID (inspection_attachments db) of
        None \<Rightarrow> Inl UploadForbidden
      | Some a \<Rightarrow>
        if \<not> inspecting_member (at_inspection_id a) (SubjectID actor) db then Inl UploadForbidden
        else if at_current_version_id a = None \<and> attachment_versions attachmentID db \<noteq> []
        then Inl (UploadFailed ''cannot scan NULL'')
        else Inr \<lparr>av_ID = at_id a, av_InspectionID = at_inspection_id a, av_PackageID = at_package_id a,
               av_QuestionID = at_question_id a,
               av_ChecklistResponseID = (case at_checklist_response_id a of None \<Rightarrow> '''' | Some r \<Rightarrow> r),
               av_FileName = at_file_name a, av_UploadState = at_upload_state a,
               av_ScanState = at_scan_state a, av_Revision = at_revision a,
               av_CurrentVersionID = at_current_version_id a,
               av_CurrentVersion = current_version_number a db,
               av_Versions = map (attachment_version_view
                   (case at_current_version_id a of None \<Rightarrow> '''' | Some v \<Rightarrow> v))
                 (attachment_versions attachmentID db)\<rparr>))"

definition clean_canonical :: "InspectionAttachment \<Rightarrow> DB \<Rightarrow> ObjectMetadata option" where
  "clean_canonical a db =
     (case at_canonical_object_metadata_id a of
        None \<Rightarrow> None
      | Some object \<Rightarrow> find (\<lambda>m. om_id m = object \<and> om_scan_status m = ScanClean \<and>
          om_object_state m = ''CANONICAL'') (object_metadata db))"

definition attachments_Download :: "UploadService \<Rightarrow> Env \<Rightarrow> Principal \<Rightarrow> string \<Rightarrow> DB \<Rightarrow>
    evidence_error + (string \<times> instant)" where
  "attachments_Download service env actor attachmentID db =
     (if \<not> canAccessAttachment actor \<or> attachmentID = '''' then Inl UploadForbidden
      else (case lookup at_id attachmentID (inspection_attachments db) of
        None \<Rightarrow> Inl UploadForbidden
      | Some a \<Rightarrow>
        if \<not> inspecting_member (at_inspection_id a) (SubjectID actor) db \<or>
           at_upload_state a \<noteq> ''UPLOADED'' \<or> at_scan_state a \<noteq> ScanClean \<or>
           \<not> list_ex (\<lambda>v. Some (iv_id v) = at_current_version_id a \<and> iv_inspection_attachment_id v = at_id a)
               (inspection_attachment_versions db)
        then Inl UploadForbidden
        else (case clean_canonical a db of
          None \<Rightarrow> Inl UploadForbidden
        | Some object \<Rightarrow>
          (case om_bucket_name object of
             None \<Rightarrow> Inl (UploadFailed ''cannot scan NULL'')
           | Some bucket \<Rightarrow>
             if at_organization_id a = '''' \<or> bucket = '''' \<or> om_object_key object = '''' then Inl UploadForbidden
             else (case os_get_instruction (sv_objects service) bucket (om_object_key object)
                          (env_clock env 0 + 5 * (60 * second)) of
                     None \<Rightarrow> Inl (UploadFailed ''create get instruction'')
                   | Some instruction \<Rightarrow> Inr instruction)))))"

end
