(* ===== verification/FieldFrames.thy ===== *)
theory FieldFrames
  imports ScanContracts OfflineSync AttachmentUpload
begin

text \<open>
  The transactions of the field clients leave Findings, Evidence and reports alone and only append to
  the ledger: \<open>Issue\<close> and \<open>Revoke\<close> of offline grants, \<open>Push\<close> and \<open>Pull\<close>, and the attachment
  uploads. Each is a \<open>transaction\<close> of the system, through the frame \<open>side_frame\<close>.
\<close>

section \<open>Frames\<close>

definition ledger_step :: "Ledger \<Rightarrow> Ledger \<Rightarrow> bool" where
  "ledger_step l l' \<longleftrightarrow> ledger_grows l l' \<and> (ledger_wf l \<longrightarrow> ledger_wf l')"

definition side_frame :: "DB \<Rightarrow> DB \<Rightarrow> bool" where
  "side_frame db db' \<longleftrightarrow> untouched db db' \<and> ledger_step (ledger db) (ledger db')"

lemma ledger_step_refl [simp, intro]: "ledger_step l l"
  by (simp add: ledger_step_def)

lemma ledger_step_trans: "ledger_step l l' \<Longrightarrow> ledger_step l' l'' \<Longrightarrow> ledger_step l l''"
  by (auto simp: ledger_step_def intro: ledger_grows_trans)

lemma side_frame_refl [simp, intro]: "side_frame db db"
  by (simp add: side_frame_def untouched_def)

lemma side_frame_trans: "side_frame db db' \<Longrightarrow> side_frame db' db'' \<Longrightarrow> side_frame db db''"
  by (auto simp: side_frame_def untouched_def intro: ledger_step_trans prefix_order.trans)

lemma side_frame_ledger: "ledger_step (ledger db) l \<Longrightarrow> side_frame db (db\<lparr>ledger := l\<rparr>)"
  by (simp add: side_frame_def untouched_def)

interpretation side: transaction side_frame
  by unfold_locales (auto simp: side_frame_def ledger_step_def dest: untouched_contract)

text \<open>A family of transactions inside the frame keeps the contract.\<close>

lemma framed_transaction: "(\<And>db db'. step db db' \<Longrightarrow> side_frame db db') \<Longrightarrow> transaction step"
  by unfold_locales (auto dest: side.step_lawful side.step_ledger)

section \<open>The ledger writers of the field clients\<close>

text \<open>Rows with new keys may be appended to any table but the links.\<close>

lemma ledger_step_append:
  assumes "prefix (l_audit_events l) (l_audit_events l')" "prefix (l_sync_changes l) (l_sync_changes l')"
    "prefix (l_outbox l) (l_outbox l')" "prefix (l_responses l) (l_responses l')" "l_links l' = l_links l"
    "l_next_sequence l \<le> l_next_sequence l'"
    and wf: "ledger_wf l \<Longrightarrow> distinct (map ae_event_id (l_audit_events l')) \<and> distinct (map o_id (l_outbox l')) \<and>
      distinct (map sy_sequence_id (l_sync_changes l')) \<and>
      (\<forall>s \<in> set (l_sync_changes l'). sy_sequence_id s < l_next_sequence l') \<and>
      distinct (map response_key (l_responses l'))"
  shows "ledger_step l l'"
proof -
  note sub = assms(1-4) [THEN set_mono_prefix]
  have "ledger_grows l l'" using assms(1-6) by (auto simp: ledger_grows_def prefix_def)
  moreover have "ledger_wf l'" if "ledger_wf l"
    using wf [OF that] that assms(5) image_mono [OF sub(4), of response_key] link_resolves_append [OF _ sub(1-3)]
    by (fastforce simp: ledger_wf_def)
  ultimately show ?thesis by (simp add: ledger_step_def)
qed

lemma fresh_rows:
  "\<not> audit_conflict event events \<Longrightarrow> ae_event_id event \<notin> ae_event_id ` set events"
  "\<not> outbox_conflict message messages \<Longrightarrow> o_id message \<notin> o_id ` set messages"
  "\<not> response_conflict response responses \<Longrightarrow> response_key response \<notin> response_key ` set responses"
  by (force simp: audit_conflict_def outbox_conflict_def response_conflict_def response_key_def list_ex_iff)+

lemma sync_audit_step: "sync_audit event l = Inr l' \<Longrightarrow> ledger_step l l'"
  by (rule ledger_step_append)
    (auto simp: sync_audit_def bind_result_Inr insert_sync_Inr ledger_wf_def dest: fresh_rows(1))

lemma sync_publish_step:
  assumes run: "sync_publish change l = Inr l'" and seq: "\<And>n. sy_sequence_id (change n) = n"
  shows "ledger_step l l'"
proof -
  have l': "l' = l\<lparr>l_sync_changes := l_sync_changes l @ [change (l_next_sequence l)],
      l_next_sequence := l_next_sequence l + 1\<rparr>"
    using run by (simp add: sync_publish_def bind_result_Inr insert_sync_Inr Let_def)
  have "sy_sequence_id s < l_next_sequence l + 1 \<and> sy_sequence_id s \<noteq> l_next_sequence l"
    if "\<forall>s \<in> set (l_sync_changes l). sy_sequence_id s < l_next_sequence l" "s \<in> set (l_sync_changes l)" for s
    using bspec [OF that] by simp
  then show ?thesis by (intro ledger_step_append) (auto simp: l' seq ledger_wf_def)
qed

lemma enqueue_step:
  "\<not> outbox_conflict message (l_outbox l) \<Longrightarrow> ledger_step l (l\<lparr>l_outbox := l_outbox l @ [message]\<rparr>)"
  by (rule ledger_step_append) (auto simp: ledger_wf_def dest: fresh_rows(2))

lemma sync_enqueue_step: "sync_enqueue message l = Inr l' \<Longrightarrow> ledger_step l l'"
  by (auto simp: sync_enqueue_def bind_result_Inr insert_sync_Inr enqueue_step)

lemma sync_store_step: "sync_store response l = Inr l' \<Longrightarrow> ledger_step l l'"
  by (rule ledger_step_append)
    (auto simp: sync_store_def bind_result_Inr insert_sync_Inr ledger_wf_def dest: fresh_rows(3))

lemma saveIdempotent_step: "saveIdempotent scope op h output now db = Inr db' \<Longrightarrow>
    ledger_step (ledger db) (ledger db')"
  by (auto simp: ledger_step_def intro: saveIdempotent_grows saveIdempotent_wf)

lemma saveIdempotent_untouched: "saveIdempotent scope op h output now db = Inr db' \<Longrightarrow> untouched db db'"
  by (drule saveIdempotent_Inr) (auto simp: untouched_def)

lemma saveIdempotent_frame: "saveIdempotent scope op h output now db = Inr db' \<Longrightarrow> side_frame db db'"
  by (simp add: side_frame_def saveIdempotent_step saveIdempotent_untouched)

section \<open>Grants\<close>

lemma persist_grant_step:
  assumes "persist_grant env actor input h g l = Inr l'"
  shows "ledger_step l l'"
proof -
  from assms obtain l1 l2 l3 where steps: "sync_audit (grant_audit env actor input g) l = Inr l1"
    "sync_publish (grant_change env actor input g) l1 = Inr l2"
    "sync_enqueue (sync_message (env_new_id env ''outbox'') ''offline_grant.issued'' ''offline_grant''
       (og_ID g) (ResponsePayload (OfflineGrantResponse g)) (env_clock env 0) None (env_now env)) l2 = Inr l3"
    "sync_store (sync_response (checkout_scope actor) (xk_OperationID input) h
       (OfflineGrantResponse g) (env_clock env 0)) l3 = Inr l'"
    by (auto simp: persist_grant_def bind_result_Inr)
  have "ledger_step l1 l2" by (rule sync_publish_step [OF steps(2)]) (simp add: grant_change_def)
  with sync_audit_step [OF steps(1)] sync_enqueue_step [OF steps(3)] sync_store_step [OF steps(4)]
  show ?thesis by (blast intro: ledger_step_trans)
qed

lemma issue_grant_frame: "issue_grant service env actor input h db = Inr (db', resp) \<Longrightarrow> side_frame db db'"
  by (auto simp: issue_grant_def bind_result_Inr insert_sync_Inr Let_def side_frame_def untouched_def
      dest: persist_grant_step split: if_splits)

lemma Issue_frame: "Issue service env actor input db = Inr (db', resp) \<Longrightarrow> side_frame db db'"
  by (auto simp: Issue_def Let_def dest: issue_grant_frame split: if_splits option.splits)

lemma Revoke_frame: "Revoke env actor grantID reason db = Inr db' \<Longrightarrow> side_frame db db'"
  by (auto simp: Revoke_def Let_def side_frame_def untouched_def split: if_splits)

section \<open>Push and Pull\<close>

definition fields_only :: "DB \<Rightarrow> DB \<Rightarrow> bool" where
  "fields_only db db' \<longleftrightarrow> untouched db db' \<and> ledger db' = ledger db"

lemma fields_only_refl [simp]: "fields_only db db"
  by (simp add: fields_only_def untouched_def)

lemma sync_upsertResponse_fields:
  "sync_upsertResponse actor authority input payload now db = Inr (db', m) \<Longrightarrow> fields_only db db'"
  by (auto simp: sync_upsertResponse_def Let_def bind_result_Inr fields_only_def untouched_def
      split: if_splits option.splits)

lemma sync_insert_potential_fields:
  "sync_insert_potential env actor authority input payload ids predecessor db = Inr (db', m) \<Longrightarrow> fields_only db db'"
  by (auto simp: sync_insert_potential_def Let_def bind_result_Inr fields_only_def untouched_def)

lemma sync_createPotentialFinding_fields:
  "sync_createPotentialFinding env actor authority input payload db = Inr (db', m) \<Longrightarrow> fields_only db db'"
  by (auto simp: sync_createPotentialFinding_def Let_def 
      intro: sync_insert_potential_fields split: if_splits option.splits)

lemma sync_submitChecklist_fields:
  "sync_submitChecklist authority input payload now db = Inr (db', m) \<Longrightarrow> fields_only db db'"
  by (auto simp: sync_submitChecklist_def Let_def fields_only_def untouched_def split: if_splits option.splits)

lemma sync_registerAttachment_fields:
  "sync_registerAttachment env actor authority input payload db = Inr (db', m) \<Longrightarrow> fields_only db db'"
  by (auto simp: sync_registerAttachment_def Let_def bind_result_Inr fields_only_def untouched_def
      split: if_splits option.splits sum.splits)

lemma sync_resolveFieldConflict_fields:
  "sync_resolveFieldConflict authority input payload now db = Inr (db', m) \<Longrightarrow> fields_only db db'"
  by (auto simp: sync_resolveFieldConflict_def Let_def split: if_splits)

lemma applyMutation_fields:
  "applyMutation env actor authority input db = Inr (db', m) \<Longrightarrow> fields_only db db'"
  by (auto simp: applyMutation_def split: FieldPayload.splits
      intro: sync_upsertResponse_fields sync_createPotentialFinding_fields sync_submitChecklist_fields
        sync_registerAttachment_fields sync_resolveFieldConflict_fields)

lemma fields_only_frame: "fields_only db mid \<Longrightarrow> ledger_step (ledger mid) l \<Longrightarrow> side_frame db (mid\<lparr>ledger := l\<rparr>)"
  by (auto simp: fields_only_def side_frame_def untouched_def)

lemma persistAppliedOperation_step:
  assumes "persistAppliedOperation env actor input h m l = Inr l'"
  shows "ledger_step l l'"
proof -
  from assms obtain l1 l2 l3 where steps:
    "(if mu_BeforeStatus m \<noteq> mu_AfterStatus m then sync_audit (mutation_audit env actor input m) l
      else Inr l) = Inr l1"
    "(case mu_ChangePayload m of
         Some change \<Rightarrow> if mu_ChangeKind m \<noteq> '''' then sync_publish (mutation_change env actor input m change) l1
                        else Inr l1
       | None \<Rightarrow> Inr l1) = Inr l2"
    "(if mu_OutboxTopic m \<noteq> ''''
         then sync_enqueue (sync_message (env_new_id env ''outbox'') (mu_OutboxTopic m) (mu_EntityType m)
                (mu_EntityID m) (FieldChangePayload (case mu_ChangePayload m of None \<Rightarrow> NoChange | Some c \<Rightarrow> c))
                (env_clock env 0) (Some (''field_sync:'' @ wo_OperationID input)) (env_now env)) l2
         else Inr l2) = Inr l3"
    "persistIdempotencyResponse env actor input h (mu_Result m) l3 = Inr l'"
    by (auto simp: persistAppliedOperation_def bind_result_Inr)
  from steps(1) have "ledger_step l l1" by (auto intro: sync_audit_step split: if_splits)
  moreover from steps(2) have "ledger_step l1 l2"
    by (auto intro!: sync_publish_step simp: mutation_change_def split: if_splits option.splits)
  moreover from steps(3) have "ledger_step l2 l3" by (auto intro: sync_enqueue_step split: if_splits)
  moreover from steps(4) have "ledger_step l3 l'"
    by (auto simp: persistIdempotencyResponse_def intro: sync_store_step)
  ultimately show ?thesis by (blast intro: ledger_step_trans)
qed

lemma refuse_frame: "refuse env actor input h out db = Inr (db', r) \<Longrightarrow> side_frame db db'"
  by (auto simp: refuse_def persistIdempotencyResponse_def bind_result_Inr
      intro: side_frame_ledger sync_store_step)

lemma refuse_fields_frame: "fields_only db mid \<Longrightarrow> refuse env actor input h out mid = Inr (db', r) \<Longrightarrow> side_frame db db'"
  by (auto simp: refuse_def persistIdempotencyResponse_def bind_result_Inr
      intro: fields_only_frame sync_store_step)

lemma push_operation_frame:
  "push_operation service env actor input h db = Inr (db', r) \<Longrightarrow> side_frame db db'"
  by (auto simp: push_operation_def Let_def bind_result_Inr split: if_splits sum.splits prod.splits
      intro: refuse_frame fields_only_frame refuse_fields_frame persistAppliedOperation_step applyMutation_fields
        fields_only_frame [of db db' "ledger db'", simplified])

lemma push_transaction_frame:
  "push_transaction service env actor input db = Inr (db', r) \<Longrightarrow> side_frame db db'"
  by (auto simp: push_transaction_def Let_def split: if_splits option.splits Response.splits
      intro: push_operation_frame)

lemma Push_frame: "Push service env actor raw db = Inr (db', r) \<Longrightarrow> side_frame db db'"
  by (auto simp: Push_def Let_def split: if_splits sum.splits intro: push_transaction_frame)

lemma pull_page_frame: "pull_page crypto env actor authority input mark db = Inr (db', r) \<Longrightarrow> side_frame db db'"
  by (auto simp: pull_page_def Let_def side_frame_def untouched_def split: option.splits if_splits)

lemma Pull_frame: "Pull service env actor input db = Inr (db', r) \<Longrightarrow> side_frame db db'"
  by (auto simp: Pull_def Let_def split: if_splits sum.splits option.splits intro: pull_page_frame)

section \<open>Attachment uploads\<close>

lemma idempotent_upload_frame:
  assumes "idempotent_upload scope op h body db = Inr (db', resp)"
    and "\<And>db db' resp. body db = Inr (db', resp) \<Longrightarrow> side_frame db db'"
  shows "side_frame db db'"
  using assms(1) by (cases rule: idempotent_upload_cases) (auto intro: assms(2))

lemma saved_frame:
  "saveIdempotent scope op h out now mid = Inr db' \<Longrightarrow> fields_only db mid \<Longrightarrow> side_frame db db'"
  using saveIdempotent_step [of scope op h out now mid db'] saveIdempotent_untouched [of scope op h out now mid db']
  by (auto simp: fields_only_def side_frame_def untouched_def)

lemma begin_attachment_frame:
  "begin_attachment_body service env actor input attachment db = Inr (db', resp) \<Longrightarrow> side_frame db db'"
  by (auto simp: begin_attachment_body_def Let_def bind_result_Inr fields_only_def untouched_def
      elim!: saved_frame split: option.splits if_splits)

lemma begin_answer_frame:
  assumes "begin_attachment_answer service env actor input attachment replayed db = Inr (db', resp)"
  shows "side_frame db db'"
proof (cases replayed)
  case None
  with assms show ?thesis by (simp add: begin_attachment_answer_def begin_attachment_frame)
next
  case (Some out)
  with assms show ?thesis by (cases out) (auto simp: begin_attachment_answer_def bind_result_Inr)
qed

lemma attachments_Begin_frame: "attachments_Begin service env actor input db = Inr (db', resp) \<Longrightarrow> side_frame db db'"
  by (auto simp: attachments_Begin_def Let_def bind_result_Inr if_Inl_Inr
      split: option.split_asm intro: begin_answer_frame)

lemma begin_part_frame: "begin_part_body service env actor input db = Inr (db', resp) \<Longrightarrow> side_frame db db'"
  by (auto simp: begin_part_body_def Let_def bind_result_Inr fields_only_def untouched_def set_session_state_def
      elim!: saved_frame split: option.splits if_splits prod.splits)

lemma BeginPart_frame: "attachments_BeginPart service env actor input db = Inr (db', resp) \<Longrightarrow> side_frame db db'"
  by (auto simp: attachments_BeginPart_def split: if_splits
      elim!: idempotent_upload_frame intro: begin_part_frame)

lemma ack_part_frame: "ack_part_body service env actor input db = Inr (db', resp) \<Longrightarrow> side_frame db db'"
  by (auto simp: ack_part_body_def Let_def bind_result_Inr fields_only_def untouched_def set_session_state_def
      elim!: saved_frame split: option.splits if_splits)

lemma AcknowledgePart_frame: "AcknowledgePart service env actor input db = Inr (db', resp) \<Longrightarrow> side_frame db db'"
  by (auto simp: AcknowledgePart_def split: if_splits elim!: idempotent_upload_frame intro: ack_part_frame)

lemma complete_writes_frame:
  assumes "complete_attachment_writes service env actor input session identity db = Inr (db', resp)"
  shows "side_frame db db'"
proof -
  from assms obtain objects versions rows sessions and message :: OutboxMessage and scope op h out now where
    fresh: "\<not> outbox_conflict message (l_outbox (ledger db))"
    and save: "saveIdempotent scope op h out now (db\<lparr>object_metadata := objects,
      inspection_attachment_versions := versions, inspection_attachments := rows, upload_sessions := sessions,
      ledger := (ledger db)\<lparr>l_outbox := l_outbox (ledger db) @ [message]\<rparr>\<rparr>) = Inr db'"
    by (auto simp: complete_attachment_writes_def Let_def bind_result_Inr sql_insert_Inr split: if_splits)
  let ?mid = "db\<lparr>object_metadata := objects, inspection_attachment_versions := versions,
      inspection_attachments := rows, upload_sessions := sessions,
      ledger := (ledger db)\<lparr>l_outbox := l_outbox (ledger db) @ [message]\<rparr>\<rparr>"
  have "side_frame db ?mid" using enqueue_step [OF fresh] by (simp add: side_frame_def untouched_def)
  with saveIdempotent_frame [OF save] show ?thesis by (blast intro: side_frame_trans)
qed

lemma complete_attachment_frame:
  "complete_attachment_body service env actor input db = Inr (db', resp) \<Longrightarrow> side_frame db db'"
  by (auto simp: complete_attachment_body_def Let_def bind_result_Inr check_error_Inr
      intro: complete_writes_frame split: option.splits if_splits)

lemma attachments_Complete_frame:
  "attachments_Complete service env actor input db = Inr (db', resp) \<Longrightarrow> side_frame db db'"
  by (auto simp: attachments_Complete_def split: if_splits
      elim!: idempotent_upload_frame intro: complete_attachment_frame)

section \<open>The transactions\<close>

lemmas field_frames = Issue_frame Revoke_frame push_transaction_frame Pull_frame attachments_Begin_frame
  BeginPart_frame AcknowledgePart_frame attachments_Complete_frame

interpretation issue_offline: transaction
  "\<lambda>db db'. \<exists>service env actor input resp. Issue service env actor input db = Inr (db', resp)"
  by (rule framed_transaction) (auto dest: Issue_frame)

interpretation revoke_offline: transaction
  "\<lambda>db db'. \<exists>env actor grantID reason. Revoke env actor grantID reason db = Inr db'"
  by (rule framed_transaction) (auto dest: Revoke_frame)

interpretation push_offline: transaction
  "\<lambda>db db'. \<exists>service env actor input r. push_transaction service env actor input db = Inr (db', r)"
  by (rule framed_transaction) (auto dest: push_transaction_frame)

interpretation pull_offline: transaction
  "\<lambda>db db'. \<exists>service env actor input r. Pull service env actor input db = Inr (db', r)"
  by (rule framed_transaction) (auto dest: Pull_frame)

interpretation attachment_begin: transaction
  "\<lambda>db db'. \<exists>service env actor input resp. attachments_Begin service env actor input db = Inr (db', resp)"
  by (rule framed_transaction) (auto dest: attachments_Begin_frame)

interpretation attachment_part: transaction
  "\<lambda>db db'. \<exists>service env actor input resp. attachments_BeginPart service env actor input db = Inr (db', resp)"
  by (rule framed_transaction) (auto dest: BeginPart_frame)

interpretation attachment_ack: transaction
  "\<lambda>db db'. \<exists>service env actor input resp. AcknowledgePart service env actor input db = Inr (db', resp)"
  by (rule framed_transaction) (auto dest: AcknowledgePart_frame)

interpretation attachment_complete: transaction
  "\<lambda>db db'. \<exists>service env actor input resp. attachments_Complete service env actor input db = Inr (db', resp)"
  by (rule framed_transaction) (auto dest: attachments_Complete_frame)

end
