(* ===== verification/AssignmentEnvelope.thy ===== *)
theory AssignmentEnvelope
  imports HandlerContract
begin

text \<open>
  The frame of the preparation commands (\<open>internal/assignments/service.go\<close>): who may issue them,
  \<open>executeCommand\<close> with its five records, and the queries and statements on assignments that the
  commands share.
\<close>

section \<open>Authority\<close>

definition CanPrepare :: "Principal \<Rightarrow> bool" where
  "CanPrepare actor \<longleftrightarrow> HasRole actor [RoleDepartmentManager]"

definition CanAssignLead :: "Principal \<Rightarrow> bool" where
  "CanAssignLead actor \<longleftrightarrow> HasRole actor [RoleDepartmentManager]"

definition CanConfigureTeam :: "Principal \<Rightarrow> string \<Rightarrow> bool" where
  "CanConfigureTeam actor leadSubjectID \<longleftrightarrow>
     HasRole actor [RoleLeadInspector] \<and> SubjectID actor = leadSubjectID"

definition CanViewWorkload :: "Principal \<Rightarrow> bool" where
  "CanViewWorkload actor \<longleftrightarrow> HasRole actor [RoleDepartmentManager, RoleLeadInspector]"

definition CanViewAuditeeCoordination :: "Principal \<Rightarrow> bool" where
  "CanViewAuditeeCoordination actor \<longleftrightarrow> HasRole actor [RoleAuditee] \<and> OrganizationID actor \<noteq> ''''"

definition any_blank :: "string list \<Rightarrow> bool" where
  "any_blank values = list_ex blank values"

section \<open>The envelope\<close>

text \<open>
  The digests of the service: \<open>hash_command\<close> and \<open>hash_edit\<close> are \<open>idempotency.SemanticHash\<close> of a command
  and of an edit snapshot (\<open>None\<close> when it fails), \<open>digest_preparation\<close> and \<open>digest_package\<close> are
  \<open>sha256:\<close> and the hash of the JSON of a payload, and \<open>digest_selection\<close> is \<open>questioncatalog.SelectionDigest\<close>.
\<close>

record Digests =
  hash_command :: "AssignmentSemantic \<Rightarrow> string option"
  hash_edit :: "EditSnapshot \<Rightarrow> string option"
  digest_preparation :: "PreparationPayload \<Rightarrow> string"
  digest_package :: "PackageSnapshot \<Rightarrow> string"
  digest_selection :: "string list \<Rightarrow> string"

record commandResult =
  cx_Response :: Response
  cx_OrganizationID :: string
  cx_Action :: string
  cx_EntityType :: string
  cx_EntityID :: string
  cx_EntityVersion :: i64
  cx_BeforeStatus :: string
  cx_AfterStatus :: string

type_synonym assignment_handler = "DB \<Rightarrow> app_error + (DB \<times> commandResult)"

record assignmentCall =
  xc_kind :: string
  xc_operationID :: string
  xc_idempotencyKey :: string
  xc_entityID :: string
  xc_semantic :: AssignmentSemantic

definition call_scope :: "Principal \<Rightarrow> assignmentCall \<Rightarrow> string" where
  "call_scope actor call = SubjectID actor @ '':'' @ xc_kind call"

definition call_record :: "Env \<Rightarrow> Principal \<Rightarrow> assignmentCall \<Rightarrow> string \<Rightarrow> commandResult \<Rightarrow>
    transactionEnvelopeRecord" where
  "call_record env actor call semanticHash result = \<lparr>
     te_OperationID = xc_operationID call, te_CorrelationID = xc_operationID call,
     te_IdempotencyKey = xc_idempotencyKey call, te_IdempotencyScope = call_scope actor call,
     te_SemanticHash = semanticHash, te_ResponseBody = cx_Response result,
     te_ActorSubjectID = SubjectID actor,
     te_ActorRole = (case Roles actor of [] \<Rightarrow> '''' | r # _ \<Rightarrow> role_text r),
     te_OrganizationID = cx_OrganizationID result, te_Action = cx_Action result,
     te_EntityType = cx_EntityType result, te_EntityID = cx_EntityID result,
     te_EntityVersion = cx_EntityVersion result, te_BeforeStatus = cx_BeforeStatus result,
     te_AfterStatus = cx_AfterStatus result, te_Reason = '''', te_ClosureBasis = '''',
     te_SyncKind = cx_EntityType result, te_OutboxTopic = cx_Action result,
     te_AuditEventID = env_new_id env ''audit-assignment'',
     te_OutboxMessageID = env_new_id env ''outbox-assignment'', te_OccurredAt = env_commit_clock env,
     te_now = env_now env\<rparr>"

text \<open>
  The five rows are those of \<open>persistCommandTransaction\<close>, but an empty status before is \<open>NULL\<close> and the
  outbox names the entity of the call. (The status after is never empty.)
\<close>

definition call_audit_row :: "transactionEnvelopeRecord \<Rightarrow> AuditEvent" where
  "call_audit_row r = (audit_row r)\<lparr>ae_before_status := null_if_empty (te_BeforeStatus r)\<rparr>"

definition call_outbox_row :: "string \<Rightarrow> transactionEnvelopeRecord \<Rightarrow> OutboxMessage" where
  "call_outbox_row entityID r = (outbox_row r)\<lparr>o_aggregate_id := entityID\<rparr>"

definition persist_call :: "string \<Rightarrow> transactionEnvelopeRecord \<Rightarrow> Ledger \<Rightarrow> app_error + Ledger" where
  "persist_call entityID r l =
     bind_result (insert_row '''' (audit_conflict (call_audit_row r) (l_audit_events l))
       (call_audit_row r) (l_audit_events l)) (\<lambda>audit_events.
     let changeID = l_next_sequence l in
     bind_result (insert_row '''' (list_ex (\<lambda>s. sy_sequence_id s = changeID) (l_sync_changes l))
       (sync_row r changeID) (l_sync_changes l)) (\<lambda>sync_changes.
     bind_result (insert_row '''' (outbox_conflict (call_outbox_row entityID r) (l_outbox l))
       (call_outbox_row entityID r) (l_outbox l)) (\<lambda>outbox.
     bind_result (insert_row '''' (response_conflict (response_row r) (l_responses l))
       (response_row r) (l_responses l)) (\<lambda>responses.
     bind_result (insert_row '''' (link_conflict (link_row r changeID) (l_links l))
       (link_row r changeID) (l_links l)) (\<lambda>links.
     Inr \<lparr>l_audit_events = audit_events, l_sync_changes = sync_changes,
          l_next_sequence = changeID + 1, l_outbox = outbox, l_responses = responses,
          l_links = links\<rparr>)))))"

definition executeCommand :: "Digests \<Rightarrow> Env \<Rightarrow> Principal \<Rightarrow> assignmentCall \<Rightarrow> assignment_handler \<Rightarrow> DB \<Rightarrow>
    app_error + (DB \<times> Response)" where
  "executeCommand digests env actor call handler db =
     (case hash_command digests (xc_semantic call) of
        None \<Rightarrow> Inl (AppError ErrInternal '''')
      | Some semanticHash \<Rightarrow>
        (case stored_response (call_scope actor call) (xc_operationID call) (ledger db) of
          Some stored \<Rightarrow>
            if ir_semantic_hash stored \<noteq> semanticHash
            then Inl (AppError ErrOperationIDReuse '''')
            else Inr (db, ir_response_body stored)
        | None \<Rightarrow>
            if list_ex (\<lambda>m. o_idempotency_key m =
                 Some (outbox_key (call_scope actor call) (xc_idempotencyKey call))) (l_outbox (ledger db))
            then Inl (AppError ErrOperationIDReuse '''')
            else bind_result (handler db) (\<lambda>(db', result).
              bind_result (persist_call (xc_entityID call)
                  (call_record env actor call semanticHash result) (ledger db')) (\<lambda>l.
              Inr (db'\<lparr>ledger := l\<rparr>, cx_Response result)))))"

section \<open>Assignments\<close>

text \<open>A date column that may be \<open>NULL\<close>, with \<open>CURRENT_DATE\<close> instead, in the layout \<open>2006-01-02\<close>.\<close>

definition date_text :: "Env \<Rightarrow> instant option \<Rightarrow> string" where
  "date_text env d = format_date (case d of None \<Rightarrow> env_today env * day | Some t \<Rightarrow> t)"

definition assignment_view :: "Env \<Rightarrow> AuditAssignment \<Rightarrow> Assignment" where
  "assignment_view env a = \<lparr>an_ID = aa_id a, an_PlanningItemID = or_empty (aa_planning_item_id a),
     an_ReleasedScopeSnapshotID = or_empty (aa_released_scope_snapshot_id a),
     an_InspectionID = or_empty (aa_inspection_id a), an_OrganizationID = aa_organization_id a,
     an_LeadSubjectID = or_empty (aa_lead_subject_id a), an_MemberSubjectIDs = [],
     an_QuestionAssignments = [], an_SelectedQuestionVersionIDs = [], an_Status = aa_status a,
     an_ScheduledStartDate = date_text env (aa_scheduled_start_date a),
     an_ScheduledEndDate = date_text env (aa_scheduled_end_date a), an_Revision = aa_revision a,
     an_PreparationID = '''', an_PreparationDigest = '''', an_PreparationConfirmedAt = None,
     an_PreparationConfirmedAssignmentRevision = 0\<rparr>"

definition current_assignment :: "string \<Rightarrow> DB \<Rightarrow> AuditAssignment option" where
  "current_assignment assignmentID db =
     find (\<lambda>a. aa_id a = assignmentID \<and> aa_tombstoned_at a = None) (audit_assignments db)"

definition getAssignmentForUpdate :: "Env \<Rightarrow> string \<Rightarrow> DB \<Rightarrow> app_error + Assignment" where
  "getAssignmentForUpdate env assignmentID db =
     (case current_assignment assignmentID db of
        None \<Rightarrow> Inl (AppError ErrNotFound '''')
      | Some a \<Rightarrow> Inr (assignment_view env a))"

text \<open>
  The checks of the table: a positive revision, and the shape of the references in each status
  (\<open>audit_assignments_canonical_preparation_shape\<close>).
\<close>

definition preparation_statuses :: "string list" where
  "preparation_statuses = [StatusLeadAssigned, StatusTeamAssigned, StatusQuestionsAssigned]"

definition assignment_shape :: "AuditAssignment \<Rightarrow> bool" where
  "assignment_shape a \<longleftrightarrow>
     (if aa_status a = StatusPreparation then aa_inspection_id a = None \<and> aa_lead_subject_id a = None
      else if aa_status a \<in> set preparation_statuses
      then aa_inspection_id a = None \<and> aa_lead_subject_id a \<noteq> None
      else aa_inspection_id a \<noteq> None \<and> aa_lead_subject_id a \<noteq> None)"

definition assignment_check :: "AuditAssignment \<Rightarrow> bool" where
  "assignment_check a \<longleftrightarrow> 0 < sint (aa_revision a) \<and> assignment_shape a"

text \<open>\<open>UPDATE audit_assignments SET ... WHERE id = $1 AND ...\<close>; the flag tells whether a row was affected.\<close>

definition update_assignment :: "string \<Rightarrow> (AuditAssignment \<Rightarrow> bool) \<Rightarrow> (AuditAssignment \<Rightarrow> AuditAssignment) \<Rightarrow>
    DB \<Rightarrow> app_error + (bool \<times> DB)" where
  "update_assignment assignmentID matches change db =
     (let affected = (\<lambda>a. aa_id a = assignmentID \<and> matches a) in
      if list_ex (\<lambda>a. affected a \<and> \<not> assignment_check (change a)) (audit_assignments db)
      then Inl (AppError ErrInternal ''check constraint'')
      else Inr (list_ex affected (audit_assignments db),
        db\<lparr>audit_assignments := map (\<lambda>a. if affected a then change a else a) (audit_assignments db)\<rparr>))"

definition updateAssignmentStatus :: "Env \<Rightarrow> Assignment \<Rightarrow> string \<Rightarrow> instant \<Rightarrow> DB \<Rightarrow> app_error + (Assignment \<times> DB)" where
  "updateAssignmentStatus env current status now db =
     bind_result (update_assignment (an_ID current)
       (\<lambda>a. aa_revision a = an_Revision current \<and> aa_tombstoned_at a = None)
       (\<lambda>a. a\<lparr>aa_status := status, aa_revision := aa_revision a + 1, aa_updated_at := now\<rparr>) db)
     (\<lambda>(updated, db').
       if \<not> updated then Inl (AppError ErrConflict '''')
       else bind_result (getAssignmentForUpdate env (an_ID current) db') (\<lambda>output. Inr (output, db')))"

section \<open>Shared queries\<close>

text \<open>The newest desired membership of the subject is active, effective and in sync with the provider.\<close>

definition active_membership :: "Env \<Rightarrow> string \<Rightarrow> string \<Rightarrow> PreparationTables \<Rightarrow> DesiredMembership \<Rightarrow> bool" where
  "active_membership env subjectID role t m \<longleftrightarrow>
     dm_subject_id m = subjectID \<and>
     map_option dm_revision (latest (\<lambda>m. sint (dm_revision m))
       (filter (\<lambda>m. dm_subject_id m = subjectID) (desired_memberships t))) = Some (dm_revision m) \<and>
     dm_membership_state m = ''ACTIVE'' \<and> dm_effective_at m \<le> env_now env \<and>
     role \<in> set (dm_roles m) \<and>
     list_ex (\<lambda>s. ms_membership_id s = dm_membership_id m \<and> ms_subject_id s = dm_subject_id m \<and>
        ms_desired_revision s = dm_revision m \<and> ms_observed_provider_enabled s \<and>
        ms_drift_state s = ''IN_SYNC'' \<and> ms_observed_organization_id s = Some (dm_organization_id m) \<and>
        set (dm_roles m) = set (ms_observed_roles s)) (membership_sync t) \<and>
     list_ex (\<lambda>i. id_subject_id i = dm_subject_id m \<and> id_tombstoned_at i = None \<and> id_deactivated_at i = None)
       (identity_references t)"

definition requireActiveRole :: "Env \<Rightarrow> string \<Rightarrow> Role \<Rightarrow> DB \<Rightarrow> app_error option" where
  "requireActiveRole env subjectID role db =
     (if list_ex (active_membership env subjectID (role_text role) (preparation db))
           (desired_memberships (preparation db))
      then None else Some (AppError ErrInvalid ''''))"

definition require_scope :: "Env \<Rightarrow> Principal \<Rightarrow> string \<Rightarrow> string \<Rightarrow> DB \<Rightarrow> app_error option" where
  "require_scope env actor planningItemID inspectionID db =
     requireCurrentDepartmentScopeAuthority (scope_tables db) (audit_assignments db) (env_today env)
       actor planningItemID inspectionID"

definition has_confirmed_preparation :: "string \<Rightarrow> DB \<Rightarrow> bool" where
  "has_confirmed_preparation assignmentID db \<longleftrightarrow>
     list_ex (\<lambda>p. ph_assignment_id p = Some assignmentID \<and> ph_status p = ''CONFIRMED'')
       (preparation_snapshots (preparation db))"

definition active_member :: "string \<Rightarrow> string \<Rightarrow> DB \<Rightarrow> bool" where
  "active_member assignmentID subjectID db \<longleftrightarrow>
     list_ex (\<lambda>m. tm_assignment_id m = assignmentID \<and> tm_subject_id m = subjectID \<and> tm_removed_at m = None)
       (audit_team_members db)"

definition listMemberIDs :: "string \<Rightarrow> DB \<Rightarrow> string list" where
  "listMemberIDs assignmentID db =
     map tm_subject_id (sort_key (\<lambda>m. (if tm_member_role m = ''LEAD_INSPECTOR'' then 0 else 1 :: int, tm_subject_id m))
       (filter (\<lambda>m. tm_assignment_id m = assignmentID \<and> tm_removed_at m = None) (audit_team_members db)))"

definition snapshot_question_ids :: "string \<Rightarrow> DB \<Rightarrow> string list" where
  "snapshot_question_ids snapshotID db =
     map sq_question_version_id (sort_key sq_position
       (filter (\<lambda>q. sq_snapshot_id q = snapshotID) (snapshot_questions db)))"

definition listReleasedQuestionVersionIDs :: "string \<Rightarrow> DB \<Rightarrow> string list" where
  "listReleasedQuestionVersionIDs snapshotID db =
     (if blank snapshotID then [] else snapshot_question_ids snapshotID db)"

definition coverage_of :: "AuditQuestionAssignment \<Rightarrow> Coverage" where
  "coverage_of q = \<lparr>qc_QuestionID = aq_question_id q, qc_SubjectID = aq_subject_id q\<rparr>"

definition coverage_order :: "Coverage \<Rightarrow> string \<times> string" where
  "coverage_order c = (qc_QuestionID c, qc_SubjectID c)"

definition listQuestionAssignments :: "string \<Rightarrow> DB \<Rightarrow> Coverage list" where
  "listQuestionAssignments assignmentID db =
     sort_key coverage_order (map coverage_of
       (filter (\<lambda>q. aq_assignment_id q = assignmentID) (audit_question_assignments db)))"

end
