(* ===== verification/AssignmentCommands.thy ===== *)
theory AssignmentCommands
  imports AssignmentEnvelope
begin

text \<open>
  The opening of a preparation (\<open>internal/assignments/service.go\<close>): \<open>Prepare\<close> creates the assignment of
  a released planning item and \<open>AssignLead\<close> names its Lead Inspector.
\<close>

section \<open>Prepare\<close>

definition Prepare_call :: "PrepareCommand \<Rightarrow> assignmentCall" where
  "Prepare_call command = \<lparr>xc_kind = ''prepare_audit'', xc_operationID = ac_OperationID command,
     xc_idempotencyKey = ac_IdempotencyKey command,
     xc_entityID = ''assignment:'' @ ac_PlanningItemID command, xc_semantic = PrepareSemantic command\<rparr>"

text \<open>The newest released scope snapshot of the planning item, by its intake draft or its proposal.\<close>

definition scope_of_item :: "ScopeTables \<Rightarrow> string \<Rightarrow> ScopeDraft \<Rightarrow> bool" where
  "scope_of_item t planningItemID scope \<longleftrightarrow>
     (case sd_planning_intake_draft_id scope of
        None \<Rightarrow> False
      | Some draftID \<Rightarrow> list_ex (\<lambda>d. pid_id d = draftID \<and>
          pid_submitted_planning_item_id d = Some planningItemID \<and> \<not> pid_tombstoned d) (t_intake_drafts t)) \<or>
     (case sd_planning_proposal_snapshot_id scope of
        None \<Rightarrow> False
      | Some proposalID \<Rightarrow> list_ex (\<lambda>p. pp_id p = proposalID \<and> pp_planning_item_id p = planningItemID)
          (t_proposals t))"

definition released_snapshot_of_item :: "string \<Rightarrow> DB \<Rightarrow> string option" where
  "released_snapshot_of_item planningItemID db =
     map_option ss_id (latest (\<lambda>s. (sint (ss_revision s), ss_id s))
       (filter (\<lambda>s. ss_stage s = ''RELEASED'' \<and>
          list_ex (\<lambda>scope. sd_id scope = ss_scope_draft_id s \<and> scope_of_item (scope_tables db) planningItemID scope)
            (t_scope_drafts (scope_tables db)))
        (t_scope_snapshots (scope_tables db))))"

definition current_plan_item :: "string \<Rightarrow> DB \<Rightarrow> PlanItem option" where
  "current_plan_item planningItemID db =
     find (\<lambda>i. it_id i = planningItemID \<and> it_tombstoned_at i = None) (plan_items (preparation db))"

definition prepared_assignment :: "Env \<Rightarrow> PlanItem \<Rightarrow> string option \<Rightarrow> AuditAssignment" where
  "prepared_assignment env item snapshotID = \<lparr>aa_id = ''assignment:'' @ it_id item, aa_inspection_id = None,
     aa_lead_subject_id = None, aa_planning_item_id = Some (it_id item), aa_status = StatusPreparation,
     aa_revision = 1, aa_tombstoned_at = None, aa_updated_at = env_clock env 0,
     aa_organization_id = it_organization_id item, aa_scheduled_start_date = Some (it_scheduled_date item),
     aa_scheduled_end_date = Some (it_scheduled_date item), aa_released_scope_snapshot_id = snapshotID,
     aa_created_at = env_clock env 0\<rparr>"

text \<open>The primary key, the unique inspection and the unique planning item.\<close>

definition assignment_conflict :: "AuditAssignment \<Rightarrow> AuditAssignment list \<Rightarrow> bool" where
  "assignment_conflict a rows \<longleftrightarrow>
     list_ex (\<lambda>b. aa_id b = aa_id a \<or>
        aa_inspection_id a \<noteq> None \<and> aa_inspection_id b = aa_inspection_id a \<or>
        aa_planning_item_id a \<noteq> None \<and> aa_planning_item_id b = aa_planning_item_id a) rows"

definition Prepare_result :: "PlanItem \<Rightarrow> commandResult" where
  "Prepare_result item = \<lparr>cx_Response = PreparationResponse
       \<lparr>pn_AssignmentID = ''assignment:'' @ it_id item, pn_PlanningItemID = it_id item, pn_InspectionID = '''',
        pn_OrganizationID = it_organization_id item, pn_Status = StatusPreparation, pn_Revision = 1,
        pn_PreparationID = '''', pn_PreparationDigest = '''', pn_SelectedQuestionCount = 0,
        pn_ConfirmedAt = 0, pn_ConfirmedAssignmentRevision = 0\<rparr>,
     cx_OrganizationID = it_organization_id item, cx_Action = ''planning.preparation_started'',
     cx_EntityType = ''audit_assignment'', cx_EntityID = ''assignment:'' @ it_id item, cx_EntityVersion = 1,
     cx_BeforeStatus = '''', cx_AfterStatus = StatusPreparation\<rparr>"

definition Prepare_handler :: "Env \<Rightarrow> Principal \<Rightarrow> PrepareCommand \<Rightarrow> assignment_handler" where
  "Prepare_handler env actor command db =
     (case current_plan_item (ac_PlanningItemID command) db of
        None \<Rightarrow> Inl (AppError ErrNotFound '''')
      | Some item \<Rightarrow>
        if it_revision item \<noteq> ac_ExpectedPlanningRevision command \<or> it_status item \<noteq> ''RELEASED''
        then Inl (AppError ErrConflict '''')
        else check_error (require_scope env actor (ac_PlanningItemID command) '''' db)
          (let row = prepared_assignment env item (released_snapshot_of_item (ac_PlanningItemID command) db) in
           bind_result (insert_row '''' (assignment_conflict row (audit_assignments db) \<or> \<not> assignment_check row)
             row (audit_assignments db)) (\<lambda>rows.
           Inr (db\<lparr>audit_assignments := rows\<rparr>, Prepare_result item))))"

definition Prepare :: "Digests \<Rightarrow> Env \<Rightarrow> Principal \<Rightarrow> PrepareCommand \<Rightarrow> DB \<Rightarrow> app_error + (DB \<times> Response)" where
  "Prepare digests env actor command db =
     (if \<not> CanPrepare actor then Inl (AppError ErrForbidden '''')
      else if any_blank [ac_OperationID command, ac_IdempotencyKey command, ac_PlanningItemID command] \<or>
              sint (ac_ExpectedPlanningRevision command) \<le> 0
      then Inl (AppError ErrInvalid '''')
      else executeCommand digests env actor (Prepare_call command) (Prepare_handler env actor command) db)"

section \<open>AssignLead\<close>

definition AssignLead_call :: "AssignLeadCommand \<Rightarrow> assignmentCall" where
  "AssignLead_call command = \<lparr>xc_kind = ''assign_lead'', xc_operationID = al_OperationID command,
     xc_idempotencyKey = al_IdempotencyKey command, xc_entityID = al_AssignmentID command,
     xc_semantic = AssignLeadSemantic command\<rparr>"

text \<open>The planned date, by the newest intake draft of the planning item.\<close>

definition intake_planned_date :: "string \<Rightarrow> DB \<Rightarrow> instant option" where
  "intake_planned_date planningItemID db =
     map_option (\<lambda>(d, item). it_scheduled_date item)
       (latest (\<lambda>(d, item). (sint (pid_revision d), pid_updated_at d, pid_id d))
         (concat (map (\<lambda>d. map (Pair d) (filter (\<lambda>item. pid_submitted_planning_item_id d = Some (it_id item))
             (plan_items (preparation db))))
           (filter (\<lambda>d. pid_submitted_planning_item_id d = Some planningItemID \<and> \<not> pid_tombstoned d)
             (t_intake_drafts (scope_tables db))))))"

definition lead_update :: "Env \<Rightarrow> string \<Rightarrow> instant \<Rightarrow> AuditAssignment \<Rightarrow> AuditAssignment" where
  "lead_update env leadSubjectID planned a =
     a\<lparr>aa_lead_subject_id := Some leadSubjectID, aa_status := StatusLeadAssigned,
       aa_scheduled_start_date := Some planned, aa_scheduled_end_date := Some planned,
       aa_revision := aa_revision a + 1, aa_updated_at := env_clock env 0\<rparr>"

definition member_conflict :: "AuditTeamMember \<Rightarrow> AuditTeamMember list \<Rightarrow> bool" where
  "member_conflict m rows \<longleftrightarrow>
     list_ex (\<lambda>n. tm_assignment_id n = tm_assignment_id m \<and> tm_subject_id n = tm_subject_id m) rows"

definition lead_member :: "Env \<Rightarrow> AssignLeadCommand \<Rightarrow> AuditTeamMember" where
  "lead_member env command = \<lparr>tm_assignment_id = al_AssignmentID command,
     tm_subject_id = al_LeadSubjectID command, tm_member_role = ''LEAD_INSPECTOR'', tm_removed_at = None,
     tm_revision = 1, tm_created_at = env_clock env 0\<rparr>"

definition AssignLead_output :: "AssignLeadCommand \<Rightarrow> Assignment \<Rightarrow> instant \<Rightarrow> DB \<Rightarrow> Assignment" where
  "AssignLead_output command current planned db = \<lparr>an_ID = al_AssignmentID command,
     an_PlanningItemID = an_PlanningItemID current,
     an_ReleasedScopeSnapshotID = an_ReleasedScopeSnapshotID current, an_InspectionID = '''',
     an_OrganizationID = an_OrganizationID current, an_LeadSubjectID = al_LeadSubjectID command,
     an_MemberSubjectIDs = [al_LeadSubjectID command], an_QuestionAssignments = [],
     an_SelectedQuestionVersionIDs = listReleasedQuestionVersionIDs (an_ReleasedScopeSnapshotID current) db,
     an_Status = StatusLeadAssigned, an_ScheduledStartDate = format_date planned,
     an_ScheduledEndDate = format_date planned, an_Revision = an_Revision current + 1,
     an_PreparationID = '''', an_PreparationDigest = '''', an_PreparationConfirmedAt = None,
     an_PreparationConfirmedAssignmentRevision = 0\<rparr>"

definition AssignLead_handler :: "Env \<Rightarrow> Principal \<Rightarrow> AssignLeadCommand \<Rightarrow> assignment_handler" where
  "AssignLead_handler env actor command db =
     bind_result (getAssignmentForUpdate env (al_AssignmentID command) db) (\<lambda>current.
     if an_Revision current \<noteq> al_ExpectedInspectionRevision command \<or> an_Status current \<noteq> StatusPreparation \<or>
        an_PlanningItemID current = ''''
     then Inl (AppError ErrConflict '''')
     else (case intake_planned_date (an_PlanningItemID current) db of
        None \<Rightarrow> Inl (AppError ErrNotFound '''')
      | Some planned \<Rightarrow>
        check_error (require_scope env actor (an_PlanningItemID current) '''' db) (
        check_error (requireActiveRole env (al_LeadSubjectID command) RoleLeadInspector db) (
        if an_ReleasedScopeSnapshotID current = ''''
        then Inl (AppError ErrConflict ''canonical released scope snapshot is required before Lead assignment'')
        else bind_result (update_assignment (al_AssignmentID command)
            (\<lambda>a. aa_status a = StatusPreparation \<and> aa_revision a = an_Revision current)
            (lead_update env (al_LeadSubjectID command) planned) db) (\<lambda>(updated, db').
          if \<not> updated then Inl (AppError ErrConflict '''')
          else bind_result (insert_row '''' (member_conflict (lead_member env command) (audit_team_members db'))
              (lead_member env command) (audit_team_members db')) (\<lambda>members.
            let output = AssignLead_output command current planned db' in
            Inr (db'\<lparr>audit_team_members := members\<rparr>,
              \<lparr>cx_Response = AssignmentResponse output, cx_OrganizationID = an_OrganizationID current,
               cx_Action = ''assignment.lead_assigned'', cx_EntityType = ''audit_assignment'',
               cx_EntityID = al_AssignmentID command, cx_EntityVersion = an_Revision output,
               cx_BeforeStatus = '''', cx_AfterStatus = StatusLeadAssigned\<rparr>)))))))"

definition AssignLead :: "Digests \<Rightarrow> Env \<Rightarrow> Principal \<Rightarrow> AssignLeadCommand \<Rightarrow> DB \<Rightarrow> app_error + (DB \<times> Response)" where
  "AssignLead digests env actor command db =
     (if \<not> CanAssignLead actor then Inl (AppError ErrForbidden '''')
      else if any_blank [al_OperationID command, al_IdempotencyKey command, al_AssignmentID command,
                al_LeadSubjectID command] \<or> sint (al_ExpectedInspectionRevision command) \<le> 0
      then Inl (AppError ErrInvalid '''')
      else executeCommand digests env actor (AssignLead_call command) (AssignLead_handler env actor command) db)"

end
