(* ===== verification/CoverageCommands.thy ===== *)
theory CoverageCommands
  imports AssignmentCommands
begin

text \<open>
  The work of the Lead Inspector (\<open>internal/assignments/service.go\<close>): a preview pins a set of members or
  of question coverage for ten minutes, and \<open>AssignTeam\<close> or \<open>AssignQuestions\<close> consumes it once.
\<close>

section \<open>Normalized input\<close>

fun normalize_ids :: "string list \<Rightarrow> string list \<Rightarrow> app_error + string list" where
  "normalize_ids seen [] = Inr seen"
| "normalize_ids seen (value # values) =
     (let v = TrimSpace value in
      if v = '''' \<or> v \<in> set seen then Inl (AppError ErrInvalid '''')
      else normalize_ids (seen @ [v]) values)"

definition normalizedIDs :: "string list \<Rightarrow> app_error + string list" where
  "normalizedIDs values =
     (if values = [] \<or> length values > 500 then Inl (AppError ErrInvalid '''')
      else bind_result (normalize_ids [] values) (\<lambda>ids. Inr (sort ids)))"

definition trim_coverage :: "Coverage \<Rightarrow> Coverage" where
  "trim_coverage c = \<lparr>qc_QuestionID = TrimSpace (qc_QuestionID c), qc_SubjectID = TrimSpace (qc_SubjectID c)\<rparr>"

definition coverage_key :: "Coverage \<Rightarrow> string" where
  "coverage_key c = qc_QuestionID c @ [CHR 0x00] @ qc_SubjectID c"

fun normalize_coverage :: "Coverage list \<Rightarrow> Coverage list \<Rightarrow> app_error + Coverage list" where
  "normalize_coverage seen [] = Inr seen"
| "normalize_coverage seen (value # values) =
     (let v = trim_coverage value in
      if qc_QuestionID v = '''' \<or> qc_SubjectID v = '''' \<or> coverage_key v \<in> set (map coverage_key seen)
      then Inl (AppError ErrInvalid '''')
      else normalize_coverage (seen @ [v]) values)"

definition normalizedQuestionAssignments :: "Coverage list \<Rightarrow> app_error + Coverage list" where
  "normalizedQuestionAssignments values =
     (if values = [] \<or> length values > 500 then Inl (AppError ErrInvalid '''')
      else bind_result (normalize_coverage [] values) (\<lambda>cs. Inr (sort_key coverage_order cs)))"

definition validQuestionCoverageOperation :: "CoverageKind \<Rightarrow> bool" where
  "validQuestionCoverageOperation k \<longleftrightarrow> k = CoverageAdd \<or> k = CoverageRemove \<or> k = CoverageReplace"

text \<open>The reference for the effect of an operation on a coverage; the map of the code is keyed by \<open>coverage_key\<close>.\<close>

fun index_coverage :: "(string \<times> Coverage) list \<Rightarrow> Coverage list \<Rightarrow> app_error + (string \<times> Coverage) list" where
  "index_coverage result [] = Inr result"
| "index_coverage result (item # items) =
     (let c = trim_coverage item in
      if qc_QuestionID c = '''' \<or> qc_SubjectID c = '''' \<or> coverage_key c \<in> fst ` set result
      then Inl (AppError ErrInvalid '''')
      else index_coverage (result @ [(coverage_key c, c)]) items)"

definition apply_coverage :: "CoverageKind \<Rightarrow> Coverage \<Rightarrow> (string \<times> Coverage) list \<Rightarrow> (string \<times> Coverage) list" where
  "apply_coverage k c result =
     (if k = CoverageRemove then AList.delete (coverage_key c) result
      else AList.update (coverage_key c) c result)"

definition applyQuestionCoverageOperation :: "Coverage list \<Rightarrow> Coverage list \<Rightarrow> CoverageKind \<Rightarrow>
    app_error + Coverage list" where
  "applyQuestionCoverageOperation current affected k =
     (if \<not> validQuestionCoverageOperation k then Inl (AppError ErrInvalid '''')
      else bind_result (normalizedQuestionAssignments affected) (\<lambda>normalized.
        bind_result (if k \<noteq> CoverageReplace then index_coverage [] current else Inr []) (\<lambda>result.
        Inr (sort_key coverage_order (map snd (fold (apply_coverage k) normalized result))))))"

section \<open>Questions that may be covered\<close>

definition draft_of_audit :: "string \<Rightarrow> string \<Rightarrow> PlanningIntakeDraft \<Rightarrow> bool" where
  "draft_of_audit inspectionID planningItemID d \<longleftrightarrow>
     inspectionID \<noteq> '''' \<and> pid_prepared_audit_id d = Some inspectionID \<or>
     planningItemID \<noteq> '''' \<and> pid_submitted_planning_item_id d = Some planningItemID"

definition template_of_audit :: "string \<Rightarrow> string \<Rightarrow> DB \<Rightarrow> TemplateVersion option" where
  "template_of_audit inspectionID planningItemID db =
     find (\<lambda>template. list_ex (\<lambda>d. draft_of_audit inspectionID planningItemID d \<and> \<not> pid_tombstoned d \<and>
         json_text_at ''templateVersionId'' (pid_values d) = Some (tv_id template))
       (t_intake_drafts (scope_tables db))) (template_versions (preparation db))"

definition released_snapshot_of_audit :: "string \<Rightarrow> string \<Rightarrow> DB \<Rightarrow> string option" where
  "released_snapshot_of_audit inspectionID planningItemID db =
     map_option ss_id (latest (\<lambda>s. (sint (ss_revision s), ss_id s))
       (filter (\<lambda>s. ss_stage s = ''RELEASED'' \<and>
          list_ex (\<lambda>scope. sd_id scope = ss_scope_draft_id s \<and>
            list_ex (\<lambda>d. sd_planning_intake_draft_id scope = Some (pid_id d) \<and>
                draft_of_audit inspectionID planningItemID d) (t_intake_drafts (scope_tables db)))
            (t_scope_drafts (scope_tables db)))
        (t_scope_snapshots (scope_tables db))))"

definition templateQuestionIDs :: "string \<Rightarrow> string \<Rightarrow> DB \<Rightarrow> app_error + string list" where
  "templateQuestionIDs inspectionID planningItemID db =
     (case template_of_audit inspectionID planningItemID db of
        Some template \<Rightarrow>
          (case tv_question_ids template of None \<Rightarrow> Inl (AppError ErrInvalid '''') | Some ids \<Rightarrow> Inr ids)
      | None \<Rightarrow>
          (let ids = (case released_snapshot_of_audit inspectionID planningItemID db of
                 None \<Rightarrow> [] | Some snapshotID \<Rightarrow> snapshot_question_ids snapshotID db) in
           if ids = [] then Inl (AppError ErrNotFound '''') else Inr ids))"

section \<open>Previews\<close>

definition preparationPreviewTTL :: int where
  "preparationPreviewTTL = 600 * second"

definition preview_row :: "Digests \<Rightarrow> Env \<Rightarrow> Principal \<Rightarrow> string \<Rightarrow> i64 \<Rightarrow> string \<Rightarrow> string \<Rightarrow> string \<Rightarrow>
    EditSnapshot \<Rightarrow> string \<Rightarrow> EditPreview" where
  "preview_row digests env actor assignmentID revision kind operationID idempotencyKey snapshot digest = \<lparr>
     ep_id = ''preparation-preview:'' @ assignmentID @ '':'' @ kind @ '':'' @ operationID,
     ep_assignment_id = assignmentID, ep_assignment_revision = revision, ep_edit_kind = kind,
     ep_operation_id = operationID, ep_idempotency_key = idempotencyKey, ep_edit_digest = digest,
     ep_snapshot = snapshot, ep_actor_subject_id = SubjectID actor,
     ep_expires_at = env_clock env 0 + preparationPreviewTTL\<rparr>"

text \<open>
  \<open>INSERT ... ON CONFLICT (assignment_id, edit_kind, operation_id) DO NOTHING\<close>: another violated
  constraint (the identifier, the idempotency key, a blank digest, a revision below 1) is an error.
\<close>

definition same_preview :: "EditPreview \<Rightarrow> EditPreview \<Rightarrow> bool" where
  "same_preview p q \<longleftrightarrow> ep_assignment_id p = ep_assignment_id q \<and> ep_edit_kind p = ep_edit_kind q \<and>
     ep_operation_id p = ep_operation_id q"

definition insert_preview :: "EditPreview \<Rightarrow> EditPreview list \<Rightarrow> app_error + EditPreview list" where
  "insert_preview p rows =
     (if sint (ep_assignment_revision p) \<le> 0 \<or> blank (ep_edit_digest p)
      then Inl (AppError ErrInternal ''check constraint'')
      else if list_ex (same_preview p) rows then Inr rows
      else insert_row '''' (list_ex (\<lambda>q. ep_id q = ep_id p \<or>
             ep_assignment_id q = ep_assignment_id p \<and> ep_edit_kind q = ep_edit_kind p \<and>
             ep_idempotency_key q = ep_idempotency_key p) rows) p rows)"

text \<open>Decoding the stored snapshot into a struct with the one list leaves an absent list empty.\<close>

fun snapshot_members :: "EditSnapshot \<Rightarrow> string list" where
  "snapshot_members (TeamSnapshot members) = members"
| "snapshot_members (TeamEdit members _) = members"
| "snapshot_members _ = []"

fun snapshot_coverage :: "EditSnapshot \<Rightarrow> Coverage list" where
  "snapshot_coverage (CoverageSnapshot _ coverage) = coverage"
| "snapshot_coverage (CoverageEdit _ _ coverage) = coverage"
| "snapshot_coverage _ = []"

definition preview_view :: "EditPreview \<Rightarrow> string list \<Rightarrow> Coverage list \<Rightarrow> PreparationEditPreview" where
  "preview_view p members coverage = \<lparr>pe_PreviewID = ep_id p, pe_AssignmentID = ep_assignment_id p,
     pe_AssignmentRevision = ep_assignment_revision p, pe_EditKind = ep_edit_kind p, pe_Digest = ep_edit_digest p,
     pe_ExpiresAt = ep_expires_at p, pe_MemberSubjectIDs = members, pe_QuestionAssignments = coverage\<rparr>"

text \<open>The insertion of a preview, the row that is then stored, and the result of the command.\<close>

definition store_preview :: "Digests \<Rightarrow> Env \<Rightarrow> Principal \<Rightarrow> Assignment \<Rightarrow> string \<Rightarrow> i64 \<Rightarrow> string \<Rightarrow> string \<Rightarrow> string \<Rightarrow>
    EditSnapshot \<Rightarrow> DB \<Rightarrow> app_error + (DB \<times> EditPreview)" where
  "store_preview digests env actor current assignmentID revision kind operationID idempotencyKey snapshot db =
     (case hash_edit digests snapshot of
        None \<Rightarrow> Inl (AppError ErrInternal '''')
      | Some digest \<Rightarrow>
        (let row = preview_row digests env actor assignmentID revision kind operationID idempotencyKey snapshot digest in
         bind_result (insert_preview row (edit_previews (preparation db))) (\<lambda>rows.
         (case find (same_preview row) rows of
            None \<Rightarrow> Inl (AppError ErrInternal ''no rows'')
          | Some stored \<Rightarrow> Inr (db\<lparr>preparation := (preparation db)\<lparr>edit_previews := rows\<rparr>\<rparr>, stored)))))"

definition preview_result :: "Assignment \<Rightarrow> PreparationEditPreview \<Rightarrow> string \<Rightarrow> commandResult" where
  "preview_result current stored action = \<lparr>cx_Response = EditPreviewResponse stored,
     cx_OrganizationID = an_OrganizationID current, cx_Action = action, cx_EntityType = ''audit_assignment'',
     cx_EntityID = an_ID current, cx_EntityVersion = an_Revision current,
     cx_BeforeStatus = an_Status current, cx_AfterStatus = an_Status current\<rparr>"

definition PreviewTeam_call :: "PreviewTeamCommand \<Rightarrow> string list \<Rightarrow> assignmentCall" where
  "PreviewTeam_call command members = \<lparr>xc_kind = ''preview_assign_team'', xc_operationID = vt_OperationID command,
     xc_idempotencyKey = vt_IdempotencyKey command, xc_entityID = vt_AssignmentID command,
     xc_semantic = PreviewTeamSemantic (command\<lparr>vt_MemberSubjectIDs := members\<rparr>)\<rparr>"

definition first_error :: "app_error option list \<Rightarrow> app_error option" where
  "first_error checks = (case filter (\<lambda>c. c \<noteq> None) checks of [] \<Rightarrow> None | c # _ \<Rightarrow> c)"

definition require_lead_role :: "Env \<Rightarrow> Principal \<Rightarrow> DB \<Rightarrow> app_error option" where
  "require_lead_role env actor db =
     (case requireActiveRole env (SubjectID actor) RoleLeadInspector db of
        None \<Rightarrow> None | Some _ \<Rightarrow> Some (AppError ErrForbidden ''''))"

definition require_inspectors :: "Env \<Rightarrow> string list \<Rightarrow> DB \<Rightarrow> app_error option" where
  "require_inspectors env members db =
     first_error (map (\<lambda>s. requireActiveRole env s RoleInspector db) members)"

definition PreviewTeam_handler :: "Digests \<Rightarrow> Env \<Rightarrow> Principal \<Rightarrow> PreviewTeamCommand \<Rightarrow> string list \<Rightarrow>
    assignment_handler" where
  "PreviewTeam_handler digests env actor command members db =
     bind_result (getAssignmentForUpdate env (vt_AssignmentID command) db) (\<lambda>current.
     if an_Revision current \<noteq> vt_ExpectedRevision command \<or> an_Status current \<notin> set preparation_statuses \<or>
        \<not> CanConfigureTeam actor (an_LeadSubjectID current)
     then Inl (AppError ErrConflict '''')
     else if an_Status current = StatusQuestionsAssigned \<and> has_confirmed_preparation (vt_AssignmentID command) db
     then Inl (AppError ErrConflict ''confirmed preparation is immutable'')
     else check_error (require_lead_role env actor db) (
       check_error (require_inspectors env members db) (
       bind_result (store_preview digests env actor current (vt_AssignmentID command) (vt_ExpectedRevision command)
         ''TEAM'' (vt_OperationID command) (vt_IdempotencyKey command) (TeamSnapshot members) db) (\<lambda>(db', stored).
       Inr (db', preview_result current (preview_view stored (snapshot_members (ep_snapshot stored)) [])
         ''assignment.team_previewed'')))))"

definition PreviewTeam :: "Digests \<Rightarrow> Env \<Rightarrow> Principal \<Rightarrow> PreviewTeamCommand \<Rightarrow> DB \<Rightarrow> app_error + (DB \<times> Response)" where
  "PreviewTeam digests env actor command db =
     (if \<not> HasRole actor [RoleLeadInspector] then Inl (AppError ErrForbidden '''')
      else (case normalizedIDs (vt_MemberSubjectIDs command) of
        Inl _ \<Rightarrow> Inl (AppError ErrInvalid '''')
      | Inr members \<Rightarrow>
        if any_blank [vt_OperationID command, vt_IdempotencyKey command, vt_AssignmentID command] \<or>
           sint (vt_ExpectedRevision command) \<le> 0
        then Inl (AppError ErrInvalid '''')
        else executeCommand digests env actor (PreviewTeam_call command members)
          (PreviewTeam_handler digests env actor command members) db))"

definition PreviewQuestions_call :: "PreviewQuestionsCommand \<Rightarrow> Coverage list \<Rightarrow> assignmentCall" where
  "PreviewQuestions_call command coverage = \<lparr>xc_kind = ''preview_assign_questions'',
     xc_operationID = vq_OperationID command, xc_idempotencyKey = vq_IdempotencyKey command,
     xc_entityID = vq_AssignmentID command,
     xc_semantic = PreviewQuestionsSemantic (command\<lparr>vq_QuestionAssignments := coverage\<rparr>)\<rparr>"

text \<open>
  The checks of the loop over the coverage: the question is allowed, and its subject is an active member,
  or already covers the question when the preview is to remove it.
\<close>

definition previewable :: "string \<Rightarrow> CoverageKind \<Rightarrow> string list \<Rightarrow> DB \<Rightarrow> Coverage \<Rightarrow> bool" where
  "previewable assignmentID k allowed db c \<longleftrightarrow>
     qc_QuestionID c \<in> set allowed \<and>
     (if k = CoverageRemove
      then list_ex (\<lambda>q. aq_assignment_id q = assignmentID \<and> aq_subject_id q = qc_SubjectID c \<and>
             aq_question_id q = qc_QuestionID c) (audit_question_assignments db)
      else active_member assignmentID (qc_SubjectID c) db)"

definition PreviewQuestions_handler :: "Digests \<Rightarrow> Env \<Rightarrow> Principal \<Rightarrow> PreviewQuestionsCommand \<Rightarrow> Coverage list \<Rightarrow>
    assignment_handler" where
  "PreviewQuestions_handler digests env actor command coverage db =
     bind_result (getAssignmentForUpdate env (vq_AssignmentID command) db) (\<lambda>current.
     if an_Revision current \<noteq> vq_ExpectedRevision command \<or>
        an_Status current \<notin> {StatusTeamAssigned, StatusQuestionsAssigned} \<or>
        \<not> CanConfigureTeam actor (an_LeadSubjectID current)
     then Inl (AppError ErrConflict '''')
     else check_error (require_lead_role env actor db) (
       if an_Status current = StatusQuestionsAssigned \<and> has_confirmed_preparation (vq_AssignmentID command) db
       then Inl (AppError ErrConflict ''confirmed preparation is immutable'')
       else bind_result (templateQuestionIDs (an_InspectionID current) (an_PlanningItemID current) db) (\<lambda>allowed.
         if \<not> list_all (previewable (vq_AssignmentID command) (vq_OperationKind command) allowed db) coverage
         then Inl (AppError ErrInvalid '''')
         else bind_result (store_preview digests env actor current (vq_AssignmentID command)
             (vq_ExpectedRevision command) ''QUESTION_COVERAGE'' (vq_OperationID command) (vq_IdempotencyKey command)
             (CoverageSnapshot (vq_OperationKind command) coverage) db) (\<lambda>(db', stored).
           Inr (db', preview_result current (preview_view stored [] (snapshot_coverage (ep_snapshot stored)))
             ''assignment.questions_previewed'')))))"

definition PreviewQuestions :: "Digests \<Rightarrow> Env \<Rightarrow> Principal \<Rightarrow> PreviewQuestionsCommand \<Rightarrow> DB \<Rightarrow>
    app_error + (DB \<times> Response)" where
  "PreviewQuestions digests env actor command db =
     (if \<not> HasRole actor [RoleLeadInspector] then Inl (AppError ErrForbidden '''')
      else (case normalizedQuestionAssignments (vq_QuestionAssignments command) of
        Inl _ \<Rightarrow> Inl (AppError ErrInvalid '''')
      | Inr coverage \<Rightarrow>
        if \<not> validQuestionCoverageOperation (vq_OperationKind command) \<or>
           any_blank [vq_OperationID command, vq_IdempotencyKey command, vq_AssignmentID command] \<or>
           sint (vq_ExpectedRevision command) \<le> 0
        then Inl (AppError ErrInvalid '''')
        else executeCommand digests env actor (PreviewQuestions_call command coverage)
          (PreviewQuestions_handler digests env actor command coverage) db))"

section \<open>Consuming a preview\<close>

definition consumePreparationPreview :: "Digests \<Rightarrow> string \<Rightarrow> string \<Rightarrow> string \<Rightarrow> i64 \<Rightarrow> string \<Rightarrow> string \<Rightarrow>
    EditSnapshot \<Rightarrow> instant \<Rightarrow> DB \<Rightarrow> app_error + DB" where
  "consumePreparationPreview digests previewID previewDigest assignmentID revision kind actorSubjectID snapshot now db =
     (if any_blank [previewID, previewDigest]
      then Inl (AppError ErrInvalid ''a server-issued preparation preview is required'')
      else (case lookup ep_id previewID (edit_previews (preparation db)) of
        None \<Rightarrow> Inl (AppError ErrConflict ''preparation preview is not found'')
      | Some stored \<Rightarrow>
        (case hash_edit digests snapshot of
           None \<Rightarrow> Inl (AppError ErrInternal '''')
         | Some digest \<Rightarrow>
           if ep_assignment_id stored \<noteq> assignmentID \<or> ep_assignment_revision stored \<noteq> revision \<or>
              ep_edit_kind stored \<noteq> kind \<or> ep_edit_digest stored \<noteq> previewDigest \<or>
              ep_edit_digest stored \<noteq> digest \<or> ep_actor_subject_id stored \<noteq> actorSubjectID \<or>
              \<not> now < ep_expires_at stored
           then Inl (AppError ErrConflict ''preparation preview is stale or does not match the command'')
           else if list_ex (\<lambda>c. ec_preview_id c = previewID) (preview_consumptions (preparation db))
           then Inl (AppError ErrConflict ''preparation preview has already been consumed'')
           else Inr (db\<lparr>preparation := (preparation db)\<lparr>preview_consumptions :=
             preview_consumptions (preparation db) @ [\<lparr>ec_preview_id = previewID,
               ec_consumed_by_subject_id = actorSubjectID, ec_consumed_at = now\<rparr>]\<rparr>\<rparr>))))"

definition edit_kind_text :: "string \<Rightarrow> string" where
  "edit_kind_text kind = (if kind = ''TEAM'' then ''team'' else ''question_coverage'')"

definition recordPreparationEdit :: "Digests \<Rightarrow> string \<Rightarrow> i64 \<Rightarrow> string \<Rightarrow> Principal \<Rightarrow> EditSnapshot \<Rightarrow> DB \<Rightarrow>
    app_error + DB" where
  "recordPreparationEdit digests assignmentID revision kind actor snapshot db =
     (case hash_edit digests snapshot of
        None \<Rightarrow> Inl (AppError ErrInternal '''')
      | Some digest \<Rightarrow>
        (let row = \<lparr>ev_id = ''preparation-edit:'' @ assignmentID @ '':'' @ decimal (sint revision) @ '':'' @
               edit_kind_text kind, ev_assignment_id = assignmentID, ev_assignment_revision = revision,
             ev_edit_kind = kind, ev_edit_digest = digest, ev_snapshot = snapshot,
             ev_actor_subject_id = SubjectID actor\<rparr>;
             rows = edit_events (preparation db) in
         bind_result (insert_row '''' (list_ex (\<lambda>e. ev_id e = ev_id row \<or>
             ev_assignment_id e = assignmentID \<and> ev_assignment_revision e = revision \<and> ev_edit_kind e = kind) rows \<or>
             sint revision \<le> 0 \<or> blank digest) row rows) (\<lambda>rows'.
         Inr (db\<lparr>preparation := (preparation db)\<lparr>edit_events := rows'\<rparr>\<rparr>))))"

section \<open>AssignTeam\<close>

definition AssignTeam_call :: "AssignTeamCommand \<Rightarrow> string list \<Rightarrow> assignmentCall" where
  "AssignTeam_call command members = \<lparr>xc_kind = ''assign_team'', xc_operationID = mt_OperationID command,
     xc_idempotencyKey = mt_IdempotencyKey command, xc_entityID = mt_AssignmentID command,
     xc_semantic = AssignTeamSemantic (command\<lparr>mt_MemberSubjectIDs := members\<rparr>)\<rparr>"

text \<open>\<open>INSERT ... ON CONFLICT (assignment_id, subject_id) DO UPDATE\<close>: a member comes back as an inspector.\<close>

definition upsert_member :: "string \<Rightarrow> instant \<Rightarrow> string \<Rightarrow> AuditTeamMember list \<Rightarrow> AuditTeamMember list" where
  "upsert_member assignmentID now subjectID rows =
     (if list_ex (\<lambda>m. tm_assignment_id m = assignmentID \<and> tm_subject_id m = subjectID) rows
      then map (\<lambda>m. if tm_assignment_id m = assignmentID \<and> tm_subject_id m = subjectID
             then m\<lparr>tm_member_role := ''INSPECTOR'', tm_removed_at := None, tm_revision := tm_revision m + 1\<rparr>
             else m) rows
      else rows @ [\<lparr>tm_assignment_id = assignmentID, tm_subject_id = subjectID, tm_member_role = ''INSPECTOR'',
             tm_removed_at = None, tm_revision = 1, tm_created_at = now\<rparr>])"

definition remove_members :: "string \<Rightarrow> instant \<Rightarrow> string list \<Rightarrow> AuditTeamMember list \<Rightarrow> AuditTeamMember list" where
  "remove_members assignmentID now members rows =
     map (\<lambda>m. if tm_assignment_id m = assignmentID \<and> tm_member_role m = ''INSPECTOR'' \<and>
                tm_removed_at m = None \<and> tm_subject_id m \<notin> set members
              then m\<lparr>tm_removed_at := Some now, tm_revision := tm_revision m + 1\<rparr> else m) rows"

definition team_rows :: "string \<Rightarrow> instant \<Rightarrow> string list \<Rightarrow> AuditTeamMember list \<Rightarrow> AuditTeamMember list" where
  "team_rows assignmentID now members rows =
     remove_members assignmentID now members (fold (upsert_member assignmentID now) members rows)"

text \<open>The coverage of removed inspectors is deleted.\<close>

definition drop_removed :: "string \<Rightarrow> AuditTeamMember list \<Rightarrow> AuditQuestionAssignment list \<Rightarrow>
    AuditQuestionAssignment list" where
  "drop_removed assignmentID team rows =
     filter (\<lambda>q. \<not> (aq_assignment_id q = assignmentID \<and>
        list_ex (\<lambda>m. tm_assignment_id m = assignmentID \<and> tm_subject_id m = aq_subject_id q \<and>
           tm_member_role m = ''INSPECTOR'' \<and> tm_removed_at m \<noteq> None) team)) rows"

text \<open>A bigint that wraps around is an error of the statement (\<open>CHECK (revision > 0)\<close>).\<close>

definition team_in_range :: "AuditTeamMember list \<Rightarrow> bool" where
  "team_in_range rows \<longleftrightarrow> list_all (\<lambda>m. 0 < sint (tm_revision m)) rows"

definition AssignTeam_rows :: "Env \<Rightarrow> AssignTeamCommand \<Rightarrow> string list \<Rightarrow> DB \<Rightarrow> DB" where
  "AssignTeam_rows env command members db =
     (let team = team_rows (mt_AssignmentID command) (env_clock env 1) members (audit_team_members db) in
      db\<lparr>audit_team_members := team,
         audit_question_assignments := drop_removed (mt_AssignmentID command) team (audit_question_assignments db)\<rparr>)"

definition AssignTeam_handler :: "Digests \<Rightarrow> Env \<Rightarrow> Principal \<Rightarrow> AssignTeamCommand \<Rightarrow> string list \<Rightarrow>
    assignment_handler" where
  "AssignTeam_handler digests env actor command members db =
     bind_result (getAssignmentForUpdate env (mt_AssignmentID command) db) (\<lambda>current.
     if \<not> CanConfigureTeam actor (an_LeadSubjectID current) then Inl (AppError ErrForbidden '''')
     else check_error (require_lead_role env actor db) (
     if an_Revision current \<noteq> mt_ExpectedRevision command \<or> an_Status current \<notin> set preparation_statuses
     then Inl (AppError ErrConflict '''')
     else if an_Status current = StatusQuestionsAssigned \<and> has_confirmed_preparation (mt_AssignmentID command) db
     then Inl (AppError ErrConflict ''confirmed preparation is immutable'')
     else bind_result (consumePreparationPreview digests (mt_PreviewID command) (mt_PreviewDigest command)
         (mt_AssignmentID command) (mt_ExpectedRevision command) ''TEAM'' (SubjectID actor)
         (TeamSnapshot members) (env_clock env 0) db) (\<lambda>consumed.
       check_error (require_inspectors env members consumed) (
       let teamed = AssignTeam_rows env command members consumed in
       if \<not> team_in_range (audit_team_members teamed) then Inl (AppError ErrInternal ''check constraint'')
       else bind_result (updateAssignmentStatus env current StatusTeamAssigned (env_clock env 1) teamed)
         (\<lambda>(updated, db').
         let output = updated\<lparr>an_MemberSubjectIDs := an_LeadSubjectID updated # members,
               an_SelectedQuestionVersionIDs := listReleasedQuestionVersionIDs (an_ReleasedScopeSnapshotID updated) db',
               an_QuestionAssignments := listQuestionAssignments (mt_AssignmentID command) db'\<rparr> in
         bind_result (recordPreparationEdit digests (mt_AssignmentID command) (an_Revision output) ''TEAM'' actor
           (TeamEdit members (an_QuestionAssignments output)) db') (\<lambda>db''.
         Inr (db'', \<lparr>cx_Response = AssignmentResponse output, cx_OrganizationID = an_OrganizationID output,
           cx_Action = ''assignment.team_assigned'', cx_EntityType = ''audit_assignment'',
           cx_EntityID = an_ID output, cx_EntityVersion = an_Revision output,
           cx_BeforeStatus = an_Status current, cx_AfterStatus = an_Status output\<rparr>)))))))"

definition AssignTeam :: "Digests \<Rightarrow> Env \<Rightarrow> Principal \<Rightarrow> AssignTeamCommand \<Rightarrow> DB \<Rightarrow> app_error + (DB \<times> Response)" where
  "AssignTeam digests env actor command db =
     (if \<not> HasRole actor [RoleLeadInspector] then Inl (AppError ErrForbidden '''')
      else (case normalizedIDs (mt_MemberSubjectIDs command) of
        Inl _ \<Rightarrow> Inl (AppError ErrInvalid '''')
      | Inr members \<Rightarrow>
        if any_blank [mt_OperationID command, mt_IdempotencyKey command, mt_AssignmentID command] \<or>
           sint (mt_ExpectedRevision command) \<le> 0 \<or> members = []
        then Inl (AppError ErrInvalid '''')
        else executeCommand digests env actor (AssignTeam_call command members)
          (AssignTeam_handler digests env actor command members) db))"

section \<open>AssignQuestions\<close>

definition AssignQuestions_call :: "AssignQuestionsCommand \<Rightarrow> Coverage list \<Rightarrow> assignmentCall" where
  "AssignQuestions_call command coverage = \<lparr>xc_kind = ''assign_questions'', xc_operationID = mq_OperationID command,
     xc_idempotencyKey = mq_IdempotencyKey command, xc_entityID = mq_AssignmentID command,
     xc_semantic = AssignQuestionsSemantic (command\<lparr>mq_QuestionAssignments := coverage\<rparr>)\<rparr>"

definition assignable :: "string \<Rightarrow> CoverageKind \<Rightarrow> string list \<Rightarrow> DB \<Rightarrow> Coverage \<Rightarrow> bool" where
  "assignable assignmentID k allowed db c \<longleftrightarrow>
     qc_QuestionID c \<in> set allowed \<and> (k = CoverageRemove \<or> active_member assignmentID (qc_SubjectID c) db)"

definition covers :: "string \<Rightarrow> Coverage \<Rightarrow> AuditQuestionAssignment \<Rightarrow> bool" where
  "covers assignmentID c q \<longleftrightarrow> aq_assignment_id q = assignmentID \<and> coverage_of q = c"

definition cover_row :: "string \<Rightarrow> CoverageKind \<Rightarrow> instant \<Rightarrow> Coverage \<Rightarrow> AuditQuestionAssignment list \<Rightarrow>
    AuditQuestionAssignment list" where
  "cover_row assignmentID k now c rows =
     (if k = CoverageRemove then filter (\<lambda>q. \<not> covers assignmentID c q) rows
      else if list_ex (covers assignmentID c) rows then rows
      else rows @ [\<lparr>aq_assignment_id = assignmentID, aq_question_id = qc_QuestionID c,
             aq_subject_id = qc_SubjectID c, aq_revision = 1, aq_created_at = now\<rparr>])"

definition cover_rows :: "string \<Rightarrow> CoverageKind \<Rightarrow> instant \<Rightarrow> Coverage list \<Rightarrow> AuditQuestionAssignment list \<Rightarrow>
    AuditQuestionAssignment list" where
  "cover_rows assignmentID k now coverage rows =
     fold (cover_row assignmentID k now) coverage
       (if k = CoverageReplace then filter (\<lambda>q. aq_assignment_id q \<noteq> assignmentID) rows else rows)"

definition AssignQuestions_handler :: "Digests \<Rightarrow> Env \<Rightarrow> Principal \<Rightarrow> AssignQuestionsCommand \<Rightarrow> Coverage list \<Rightarrow>
    assignment_handler" where
  "AssignQuestions_handler digests env actor command coverage db =
     bind_result (getAssignmentForUpdate env (mq_AssignmentID command) db) (\<lambda>current.
     if \<not> CanConfigureTeam actor (an_LeadSubjectID current) then Inl (AppError ErrForbidden '''')
     else check_error (require_lead_role env actor db) (
     if an_Revision current \<noteq> mq_ExpectedRevision command \<or>
        an_Status current \<notin> {StatusTeamAssigned, StatusQuestionsAssigned}
     then Inl (AppError ErrConflict '''')
     else bind_result (consumePreparationPreview digests (mq_PreviewID command) (mq_PreviewDigest command)
         (mq_AssignmentID command) (mq_ExpectedRevision command) ''QUESTION_COVERAGE'' (SubjectID actor)
         (CoverageSnapshot (mq_OperationKind command) coverage) (env_clock env 0) db) (\<lambda>consumed.
       if an_Status current = StatusQuestionsAssigned \<and> has_confirmed_preparation (mq_AssignmentID command) db
       then Inl (AppError ErrConflict
         ''confirmed preparation is immutable; reopen preparation before changing coverage'')
       else bind_result (templateQuestionIDs (an_InspectionID current) (an_PlanningItemID current) consumed) (\<lambda>allowed.
         if \<not> list_all (assignable (mq_AssignmentID command) (mq_OperationKind command) allowed consumed) coverage
         then Inl (AppError ErrInvalid '''')
         else
           let covered = consumed\<lparr>audit_question_assignments := cover_rows (mq_AssignmentID command)
                 (mq_OperationKind command) (env_clock env 1) coverage (audit_question_assignments consumed)\<rparr>;
               resulting = listQuestionAssignments (mq_AssignmentID command) covered in
           bind_result (updateAssignmentStatus env current StatusQuestionsAssigned (env_clock env 1) covered)
             (\<lambda>(updated, db').
           bind_result (recordPreparationEdit digests (mq_AssignmentID command) (an_Revision updated)
             ''QUESTION_COVERAGE'' actor (CoverageEdit (mq_OperationKind command) coverage resulting) db') (\<lambda>db''.
           let output = updated\<lparr>an_QuestionAssignments := resulting,
                 an_MemberSubjectIDs := listMemberIDs (mq_AssignmentID command) db'',
                 an_SelectedQuestionVersionIDs := listReleasedQuestionVersionIDs (an_ReleasedScopeSnapshotID updated) db''\<rparr> in
           Inr (db'', \<lparr>cx_Response = AssignmentResponse output, cx_OrganizationID = an_OrganizationID output,
             cx_Action = ''assignment.questions_assigned'', cx_EntityType = ''audit_assignment'',
             cx_EntityID = an_ID output, cx_EntityVersion = an_Revision output,
             cx_BeforeStatus = an_Status current, cx_AfterStatus = an_Status output\<rparr>)))))))"

definition AssignQuestions :: "Digests \<Rightarrow> Env \<Rightarrow> Principal \<Rightarrow> AssignQuestionsCommand \<Rightarrow> DB \<Rightarrow>
    app_error + (DB \<times> Response)" where
  "AssignQuestions digests env actor command db =
     (if \<not> HasRole actor [RoleLeadInspector] then Inl (AppError ErrForbidden '''')
      else (case normalizedQuestionAssignments (mq_QuestionAssignments command) of
        Inl _ \<Rightarrow> Inl (AppError ErrInvalid '''')
      | Inr coverage \<Rightarrow>
        if \<not> validQuestionCoverageOperation (mq_OperationKind command) \<or>
           any_blank [mq_OperationID command, mq_IdempotencyKey command, mq_AssignmentID command] \<or>
           sint (mq_ExpectedRevision command) \<le> 0 \<or> coverage = []
        then Inl (AppError ErrInvalid '''')
        else executeCommand digests env actor (AssignQuestions_call command coverage)
          (AssignQuestions_handler digests env actor command coverage) db))"

end
