(* ===== verification/PreparationGate.thy ===== *)
theory PreparationGate
  imports CoverageCommands
begin

text \<open>
  The gate of the Department Manager (\<open>internal/assignments/service.go\<close>): \<open>ConfirmPreparation\<close> pins the
  coverage of the released scope in an append-only snapshot, and the projections show a preparation to
  its lead and to its manager.
\<close>

section \<open>ConfirmPreparation\<close>

definition ConfirmPreparation_call :: "ConfirmPreparationCommand \<Rightarrow> assignmentCall" where
  "ConfirmPreparation_call command = \<lparr>xc_kind = ''confirm_preparation'', xc_operationID = cf_OperationID command,
     xc_idempotencyKey = cf_IdempotencyKey command, xc_entityID = cf_AssignmentID command,
     xc_semantic = ConfirmPreparationSemantic command\<rparr>"

text \<open>The joined row: the assignment, its intake draft and the released snapshot it was prepared from.\<close>

definition confirmation_context :: "string \<Rightarrow> DB \<Rightarrow> (AuditAssignment \<times> PlanningIntakeDraft \<times> ScopeSnapshot) option" where
  "confirmation_context assignmentID db =
     (case concat (map (\<lambda>a. concat (map (\<lambda>d. map (\<lambda>s. (a, d, s))
         (filter (\<lambda>s. Some (ss_id s) = aa_released_scope_snapshot_id a \<and> ss_stage s = ''RELEASED'' \<and>
            list_ex (\<lambda>scope. sd_planning_intake_draft_id scope = Some (pid_id d) \<and> sd_id scope = ss_scope_draft_id s)
              (t_scope_drafts (scope_tables db))) (t_scope_snapshots (scope_tables db))))
       (filter (\<lambda>d. pid_submitted_planning_item_id d \<noteq> None \<and>
            pid_submitted_planning_item_id d = aa_planning_item_id a \<and> \<not> pid_tombstoned d)
          (t_intake_drafts (scope_tables db)))))
      (filter (\<lambda>a. aa_id a = assignmentID) (audit_assignments db))) of
        [] \<Rightarrow> None
      | row # _ \<Rightarrow> Some row)"

text \<open>The rows of the coverage in the order of the query, and the map the loop fills from them.\<close>

definition coverage_rows :: "string \<Rightarrow> DB \<Rightarrow> Coverage list" where
  "coverage_rows assignmentID db = listQuestionAssignments assignmentID db"

definition subjects_of :: "Coverage list \<Rightarrow> string \<Rightarrow> string list" where
  "subjects_of coverage questionID = map qc_SubjectID (filter (\<lambda>c. qc_QuestionID c = questionID) coverage)"

definition coverage_entries :: "Coverage list \<Rightarrow> string list \<Rightarrow> (string \<times> string list) list" where
  "coverage_entries coverage selectedIDs = map (\<lambda>q. (q, sort (subjects_of coverage q))) selectedIDs"

definition preparation_payload :: "Assignment \<Rightarrow> string \<Rightarrow> ScopeSnapshot \<Rightarrow> (string \<times> string list) list \<Rightarrow>
    PreparationPayload" where
  "preparation_payload current assignmentID snapshot entries = \<lparr>py_assignmentId = assignmentID,
     py_releasedScopeSnapshotId = ss_id snapshot, py_selectionDigest = ss_selection_digest snapshot,
     py_leadSubjectId = an_LeadSubjectID current, py_coverage = entries\<rparr>"

text \<open>\<open>COALESCE(MAX(revision), 0) + 1\<close>.\<close>

definition next_preparation_revision :: "string \<Rightarrow> DB \<Rightarrow> i64" where
  "next_preparation_revision snapshotID db =
     (case latest (\<lambda>p. sint (ph_revision p))
         (filter (\<lambda>p. ph_released_scope_snapshot_id p = snapshotID) (preparation_snapshots (preparation db))) of
        None \<Rightarrow> 1
      | Some p \<Rightarrow> ph_revision p + 1)"

definition preparation_conflict :: "PreparationSnapshot \<Rightarrow> PreparationSnapshot list \<Rightarrow> bool" where
  "preparation_conflict p rows \<longleftrightarrow>
     list_ex (\<lambda>q. ph_id q = ph_id p \<or>
        ph_released_scope_snapshot_id q = ph_released_scope_snapshot_id p \<and> ph_revision q = ph_revision p \<or>
        ph_assignment_id p \<noteq> None \<and> ph_assignment_id q = ph_assignment_id p \<and> ph_revision q = ph_revision p) rows"

text \<open>The checks of the table: positive revisions, a digest, the owner, and the shape of a confirmation.\<close>

definition preparation_check :: "PreparationSnapshot \<Rightarrow> bool" where
  "preparation_check p \<longleftrightarrow>
     0 < sint (ph_revision p) \<and> \<not> blank (ph_preparation_digest p) \<and> ph_assignment_id p \<noteq> None \<and>
     (ph_status p = ''CONFIRMED'' \<longrightarrow>
        (case ph_confirmed_assignment_revision p of None \<Rightarrow> False | Some r \<Rightarrow> 0 < sint r))"

text \<open>
  A covered question: one row per subject. The foreign key on question and position pins every row
  to the released scope.
\<close>

definition question_conflict :: "DB \<Rightarrow> PreparationQuestion \<Rightarrow> PreparationQuestion list \<Rightarrow> bool" where
  "question_conflict db q rows \<longleftrightarrow>
     list_ex (\<lambda>r. pz_preparation_id r = pz_preparation_id q \<and> pz_subject_id r = pz_subject_id q \<and>
        (pz_question_version_id r = pz_question_version_id q \<or> pz_position r = pz_position q)) rows \<or>
     \<not> list_ex (\<lambda>s. sq_snapshot_id s = pz_released_scope_snapshot_id q \<and>
        sq_question_version_id s = pz_question_version_id q \<and> sq_position s = pz_position q) (snapshot_questions db)"

definition question_rows :: "string \<Rightarrow> string \<Rightarrow> (string \<times> string list) list \<Rightarrow> PreparationQuestion list" where
  "question_rows preparationID snapshotID entries =
     concat (map (\<lambda>(position, q, subjects). map (\<lambda>s. \<lparr>pz_preparation_id = preparationID,
         pz_released_scope_snapshot_id = snapshotID, pz_question_version_id = q, pz_subject_id = s,
         pz_position = int position\<rparr>) subjects)
       (enumerate 0 entries))"

fun insert_questions :: "DB \<Rightarrow> PreparationQuestion list \<Rightarrow> PreparationQuestion list \<Rightarrow>
    app_error + PreparationQuestion list" where
  "insert_questions db [] rows = Inr rows"
| "insert_questions db (q # qs) rows =
     bind_result (insert_row '''' (question_conflict db q rows) q rows) (\<lambda>rows'. insert_questions db qs rows')"

definition confirmed_snapshot :: "Digests \<Rightarrow> Env \<Rightarrow> Principal \<Rightarrow> Assignment \<Rightarrow> string \<Rightarrow> i64 \<Rightarrow> PreparationPayload \<Rightarrow>
    PreparationSnapshot" where
  "confirmed_snapshot digests env actor current preparationID revision payload = \<lparr>ph_id = preparationID,
     ph_assignment_id = Some (py_assignmentId payload),
     ph_released_scope_snapshot_id = py_releasedScopeSnapshotId payload,
     ph_lead_subject_id = an_LeadSubjectID current, ph_revision = revision, ph_status = ''CONFIRMED'',
     ph_preparation_digest = digest_preparation digests payload,
     ph_confirmed_by_subject_id = Some (SubjectID actor), ph_confirmed_at = Some (env_clock env 0),
     ph_confirmed_assignment_revision = Some (an_Revision current + 1), ph_snapshot = payload,
     ph_created_at = env_clock env 0\<rparr>"

text \<open>The statements behind the checks: the snapshot, its questions and the new assignment revision.\<close>

definition confirm_writes :: "Digests \<Rightarrow> Env \<Rightarrow> Principal \<Rightarrow> Assignment \<Rightarrow> AuditAssignment \<Rightarrow> ScopeSnapshot \<Rightarrow>
    (string \<times> string list) list \<Rightarrow> assignment_handler" where
  "confirm_writes digests env actor current assignment snapshot entries db =
     (let payload = preparation_payload current (an_ID current) snapshot entries;
          revision = next_preparation_revision (ss_id snapshot) db;
          preparationID = ''preparation:'' @ an_ID current @ '':'' @ decimal (sint revision);
          row = confirmed_snapshot digests env actor current preparationID revision payload;
          t = preparation db in
      bind_result (insert_row '''' (preparation_conflict row (preparation_snapshots t) \<or> \<not> preparation_check row)
        row (preparation_snapshots t)) (\<lambda>snapshots.
      bind_result (insert_questions db (question_rows preparationID (ss_id snapshot) entries)
        (preparation_questions t)) (\<lambda>questions.
      bind_result (update_assignment (an_ID current)
        (\<lambda>a. aa_status a = StatusQuestionsAssigned \<and> aa_revision a = an_Revision current)
        (\<lambda>a. a\<lparr>aa_revision := aa_revision a + 1, aa_updated_at := env_clock env 0\<rparr>)
        (db\<lparr>preparation := t\<lparr>preparation_snapshots := snapshots, preparation_questions := questions\<rparr>\<rparr>))
      (\<lambda>(updated, db').
      if \<not> updated then Inl (AppError ErrConflict '''')
      else Inr (db', \<lparr>cx_Response = PreparationResponse
          \<lparr>pn_AssignmentID = an_ID current, pn_PlanningItemID = or_empty (aa_planning_item_id assignment),
           pn_InspectionID = or_empty (aa_inspection_id assignment), pn_OrganizationID = an_OrganizationID current,
           pn_Status = an_Status current, pn_Revision = an_Revision current + 1, pn_PreparationID = preparationID,
           pn_PreparationDigest = ph_preparation_digest row,
           pn_SelectedQuestionCount = ss_selected_question_count snapshot, pn_ConfirmedAt = env_clock env 0,
           pn_ConfirmedAssignmentRevision = an_Revision current + 1\<rparr>,
        cx_OrganizationID = an_OrganizationID current, cx_Action = ''planning.preparation_confirmed'',
        cx_EntityType = ''audit_assignment'', cx_EntityID = an_ID current,
        cx_EntityVersion = an_Revision current + 1, cx_BeforeStatus = an_Status current,
        cx_AfterStatus = an_Status current\<rparr>)))))"

definition ConfirmPreparation_handler :: "Digests \<Rightarrow> Env \<Rightarrow> Principal \<Rightarrow> ConfirmPreparationCommand \<Rightarrow>
    assignment_handler" where
  "ConfirmPreparation_handler digests env actor command db =
     bind_result (getAssignmentForUpdate env (cf_AssignmentID command) db) (\<lambda>current.
     if an_Revision current \<noteq> cf_ExpectedAssignmentRevision command \<or> an_Status current \<noteq> StatusQuestionsAssigned
     then Inl (AppError ErrConflict '''')
     else check_error (require_scope env actor (an_PlanningItemID current) '''' db) (
     case confirmation_context (cf_AssignmentID command) db of
       None \<Rightarrow> Inl (AppError ErrConflict '''')
     | Some (assignment, draft, snapshot) \<Rightarrow>
       let coverage = coverage_rows (cf_AssignmentID command) db;
           selectedIDs = snapshot_question_ids (ss_id snapshot) db;
           selectedCount = ss_selected_question_count snapshot in
       if or_empty (pid_submitted_planning_item_id draft) = '''' \<or> ss_id snapshot = '''' \<or>
          ss_selection_digest snapshot = '''' \<or> selectedCount \<le> 0
       then Inl (AppError ErrConflict '''')
       else if list_ex (\<lambda>p. ph_assignment_id p = Some (cf_AssignmentID command) \<and>
           ph_released_scope_snapshot_id p = ss_id snapshot \<and> ph_status p = ''CONFIRMED'')
           (preparation_snapshots (preparation db))
       then Inl (AppError ErrConflict ''preparation is already confirmed for this released scope'')
       else if list_ex (\<lambda>c. \<not> active_member (cf_AssignmentID command) (qc_SubjectID c) db) coverage
       then Inl (AppError ErrConflict ''question coverage includes a removed team member'')
       else if list_ex (\<lambda>q. subjects_of coverage q = []) selectedIDs
       then Inl (AppError ErrConflict ''every released question needs team coverage'')
       else if int (length selectedIDs) \<noteq> selectedCount \<or>
          int (length (remdups (map qc_QuestionID coverage))) \<noteq> selectedCount
       then Inl (AppError ErrConflict ''preparation coverage does not match released scope'')
       else confirm_writes digests env actor current assignment snapshot (coverage_entries coverage selectedIDs) db))"

definition ConfirmPreparation :: "Digests \<Rightarrow> Env \<Rightarrow> Principal \<Rightarrow> ConfirmPreparationCommand \<Rightarrow> DB \<Rightarrow>
    app_error + (DB \<times> Response)" where
  "ConfirmPreparation digests env actor command db =
     (if \<not> CanPrepare actor then Inl (AppError ErrForbidden '''')
      else if any_blank [cf_OperationID command, cf_IdempotencyKey command, cf_AssignmentID command] \<or>
              sint (cf_ExpectedAssignmentRevision command) \<le> 0
      then Inl (AppError ErrInvalid '''')
      else executeCommand digests env actor (ConfirmPreparation_call command)
        (ConfirmPreparation_handler digests env actor command) db)"

section \<open>Projections\<close>

definition loadPreparationConfirmation :: "Assignment \<Rightarrow> DB \<Rightarrow> app_error + Assignment" where
  "loadPreparationConfirmation output db =
     (case latest (\<lambda>p. (sint (ph_revision p), ph_id p))
         (filter (\<lambda>p. ph_assignment_id p = Some (an_ID output) \<and> ph_status p = ''CONFIRMED'')
           (preparation_snapshots (preparation db))) of
        None \<Rightarrow> Inr output
      | Some p \<Rightarrow>
        (let confirmed = (case ph_confirmed_assignment_revision p of None \<Rightarrow> 0 | Some r \<Rightarrow> r) in
         if ph_confirmed_at p = None then Inl (AppError ErrInternal ''scan'')
         else if sint confirmed \<le> 0
         then Inl (AppError ErrConflict ''legacy preparation confirmation requires immutable assignment binding'')
         else Inr (output\<lparr>an_PreparationID := ph_id p, an_PreparationDigest := ph_preparation_digest p,
           an_PreparationConfirmedAssignmentRevision := confirmed,
           an_PreparationConfirmedAt := ph_confirmed_at p\<rparr>)))"

definition preparation_projection :: "Env \<Rightarrow> AuditAssignment \<Rightarrow> DB \<Rightarrow> app_error + Assignment" where
  "preparation_projection env a db =
     bind_result (loadPreparationConfirmation ((assignment_view env a)
       \<lparr>an_MemberSubjectIDs := listMemberIDs (aa_id a) db,
        an_QuestionAssignments := listQuestionAssignments (aa_id a) db\<rparr>) db) (\<lambda>output.
     Inr (if an_ReleasedScopeSnapshotID output = '''' then output
       else output\<lparr>an_SelectedQuestionVersionIDs := snapshot_question_ids (an_ReleasedScopeSnapshotID output) db\<rparr>))"

definition newest_assignment :: "(AuditAssignment \<Rightarrow> bool) \<Rightarrow> string \<Rightarrow> string \<Rightarrow> DB \<Rightarrow> AuditAssignment option" where
  "newest_assignment matches assignmentID planningItemID db =
     latest (\<lambda>a. (aa_updated_at a, aa_id a))
       (filter (\<lambda>a. matches a \<and> aa_tombstoned_at a = None \<and> (assignmentID = '''' \<or> aa_id a = assignmentID) \<and>
          (planningItemID = '''' \<or> aa_planning_item_id a = Some planningItemID)) (audit_assignments db))"

definition getPreparationForManager :: "Env \<Rightarrow> Principal \<Rightarrow> string \<Rightarrow> string \<Rightarrow> DB \<Rightarrow> app_error + Assignment" where
  "getPreparationForManager env actor assignmentID planningItemID db =
     (if assignmentID = '''' \<and> planningItemID = '''' then Inl (AppError ErrInvalid '''')
      else (case newest_assignment (\<lambda>a. aa_status a = StatusPreparation \<or> aa_status a \<in> set preparation_statuses)
          assignmentID planningItemID db of
        None \<Rightarrow> Inl (AppError ErrNotFound '''')
      | Some a \<Rightarrow> check_error (require_scope env actor (or_empty (aa_planning_item_id a)) '''' db)
          (preparation_projection env a db)))"

definition GetPreparationForLead :: "Env \<Rightarrow> Principal \<Rightarrow> string \<Rightarrow> string list \<Rightarrow> DB \<Rightarrow> app_error + Assignment" where
  "GetPreparationForLead env actor assignmentID planningItemIDs db =
     (let planningItemID = (case planningItemIDs of [] \<Rightarrow> '''' | p # _ \<Rightarrow> TrimSpace p) in
      if \<not> HasRole actor [RoleLeadInspector]
      then (if HasRole actor [RoleDepartmentManager]
            then getPreparationForManager env actor assignmentID planningItemID db
            else Inl (AppError ErrForbidden ''''))
      else (case newest_assignment (\<lambda>a. aa_lead_subject_id a = Some (SubjectID actor) \<and>
             aa_status a \<in> set preparation_statuses) (TrimSpace assignmentID) planningItemID db of
        None \<Rightarrow> Inl (AppError ErrNotFound '''')
      | Some a \<Rightarrow> preparation_projection env a db))"

section \<open>Workload\<close>

definition workload_statuses :: "string list" where
  "workload_statuses = preparation_statuses @ [StatusAwaitingAuditeeConfirmation, StatusConfirmed,
     StatusScheduled, StatusReady]"

text \<open>The number of open assignments of every inspector, by subject.\<close>

definition ListWorkload :: "Principal \<Rightarrow> DB \<Rightarrow> app_error + (string \<times> int) list" where
  "ListWorkload actor db =
     (if \<not> CanViewWorkload actor then Inl (AppError ErrForbidden '''')
      else
        let open_members = filter (\<lambda>m. tm_removed_at m = None \<and> tm_member_role m = ''INSPECTOR'' \<and>
              list_ex (\<lambda>a. aa_id a = tm_assignment_id m \<and> aa_tombstoned_at a = None \<and>
                aa_status a \<in> set workload_statuses) (audit_assignments db)) (audit_team_members db) in
        Inr (map (\<lambda>s. (s, int (card (tm_assignment_id ` {m \<in> set open_members. tm_subject_id m = s}))))
          (sort (remdups (map tm_subject_id open_members)))))"

end
