(* ===== verification/Coordination.thy ===== *)
theory Coordination
  imports PreparationGate
begin

text \<open>
  Agreement on the date of an announced audit (\<open>internal/assignments/service.go\<close>): the Auditee confirms the
  date or proposes another, and only the Department Manager accepts or returns the proposal.
\<close>

definition coordinationNextAction :: "string \<Rightarrow> string" where
  "coordinationNextAction status =
     (if status = StatusAwaitingAuditeeConfirmation then ''Confirm proposed date or provide an alternative date''
      else if status = StatusAlternativeProposed then ''CAA to accept or return the proposed alternative date''
      else if status = StatusConfirmed then ''CAA prepares the confirmed inspection for execution''
      else '''')"

definition parseSchedule :: "string \<Rightarrow> string \<Rightarrow> (instant \<times> instant) option" where
  "parseSchedule startValue endValue =
     (case parse_date startValue of
        None \<Rightarrow> None
      | Some s \<Rightarrow> (case parse_date endValue of
          None \<Rightarrow> None
        | Some e \<Rightarrow> if e < s then None else Some (s, e)))"

text \<open>The joined row of the three queries: assignment, inspection, organization and intake draft.\<close>

record CoordinationRow =
  cw_assignment :: AuditAssignment
  cw_inspection :: Inspection
  cw_organization :: Organization
  cw_draft :: PlanningIntakeDraft

definition draft_of_assignment :: "AuditAssignment \<Rightarrow> string \<Rightarrow> PlanningIntakeDraft \<Rightarrow> bool" where
  "draft_of_assignment a inspectionID d \<longleftrightarrow>
     pid_prepared_audit_id d = Some inspectionID \<or>
     pid_submitted_planning_item_id d \<noteq> None \<and> pid_submitted_planning_item_id d = aa_planning_item_id a"

definition coordination_rows :: "DB \<Rightarrow> CoordinationRow list" where
  "coordination_rows db =
     concat (map (\<lambda>a. concat (map (\<lambda>i. concat (map (\<lambda>g. map (\<lambda>d. \<lparr>cw_assignment = a, cw_inspection = i,
         cw_organization = g, cw_draft = d\<rparr>)
       (filter (\<lambda>d. draft_of_assignment a (in_id i) d \<and>
           json_text_at ''noticePolicy'' (pid_values d) = Some ''ADVANCE'') (t_intake_drafts (scope_tables db))))
      (filter (\<lambda>g. g_id g = in_organization_id i) (organizations db))))
     (filter (\<lambda>i. aa_inspection_id a = Some (in_id i)) (inspections db))))
    (audit_assignments db))"

definition draft_alternative :: "PlanningIntakeDraft \<Rightarrow> string option" where
  "draft_alternative d = (case json_text_at ''alternativeDate'' (pid_values d) of
     None \<Rightarrow> None | Some s \<Rightarrow> null_if_empty s)"

text \<open>\<open>Scan\<close> into a \<open>string\<close> or a \<open>time.Time\<close> fails on \<open>NULL\<close>.\<close>

definition coordination_view :: "CoordinationRow \<Rightarrow> app_error + AuditeeCoordination" where
  "coordination_view row =
     (case (json_text_at ''inspectionCategory'' (pid_values (cw_draft row)),
            aa_scheduled_start_date (cw_assignment row)) of
        (Some category, Some scheduled) \<Rightarrow> Inr \<lparr>co_InspectionID = in_id (cw_inspection row),
          co_OrganizationID = in_organization_id (cw_inspection row),
          co_OrganizationName = g_legal_name (cw_organization row), co_Title = in_title (cw_inspection row),
          co_InspectionCategory = category, co_ScheduledStartDate = format_date scheduled,
          co_Status = aa_status (cw_assignment row), co_AlternativeDate = draft_alternative (cw_draft row),
          co_NextAction = coordinationNextAction (aa_status (cw_assignment row)),
          co_Revision = aa_revision (cw_assignment row)\<rparr>
      | _ \<Rightarrow> Inl (AppError ErrInternal ''scan''))"

definition coordination_statuses :: "string list" where
  "coordination_statuses = [StatusAwaitingAuditeeConfirmation, StatusConfirmed, StatusAlternativeProposed]"

text \<open>\<open>SELECT DISTINCT\<close> on the columns that are shown, ordered by date and inspection; a missing date is last.\<close>

definition schedule_order :: "CoordinationRow \<Rightarrow> bool \<times> instant \<times> string" where
  "schedule_order row = (case aa_scheduled_start_date (cw_assignment row) of
       None \<Rightarrow> (True, 0, in_id (cw_inspection row)) | Some d \<Rightarrow> (False, d, in_id (cw_inspection row)))"

definition ListAuditeeCoordination :: "Principal \<Rightarrow> DB \<Rightarrow> app_error + AuditeeCoordination list" where
  "ListAuditeeCoordination actor db =
     (if \<not> CanViewAuditeeCoordination actor then Inl (AppError ErrForbidden '''')
      else
        let rows = filter (\<lambda>row. in_organization_id (cw_inspection row) = OrganizationID actor \<and>
              aa_status (cw_assignment row) \<in> set coordination_statuses \<and>
              aa_tombstoned_at (cw_assignment row) = None \<and> in_tombstoned_at (cw_inspection row) = None)
              (coordination_rows db) in
        bind_result (map_result coordination_view
          (sort_key schedule_order rows)) (\<lambda>items. Inr (remdups items)))"

section \<open>RespondAuditeeCoordination\<close>

definition RespondCoordination_call :: "RespondCoordinationCommand \<Rightarrow> assignmentCall" where
  "RespondCoordination_call command = \<lparr>xc_kind = ''respond_auditee_coordination'',
     xc_operationID = rp_OperationID command, xc_idempotencyKey = rp_IdempotencyKey command,
     xc_entityID = rp_InspectionID command, xc_semantic = RespondCoordinationSemantic command\<rparr>"

definition respond_decision_check :: "RespondCoordinationCommand \<Rightarrow> bool" where
  "respond_decision_check command \<longleftrightarrow>
     (case rp_Decision command of
        CoordinationConfirm \<Rightarrow> rp_AlternativeDate command = None
      | CoordinationProposeAlternative \<Rightarrow>
          (case rp_AlternativeDate command of None \<Rightarrow> False | Some d \<Rightarrow> parse_date d \<noteq> None)
      | CoordinationOther _ \<Rightarrow> False)"

definition coordination_context :: "(CoordinationRow \<Rightarrow> bool) \<Rightarrow> string \<Rightarrow> string \<Rightarrow> DB \<Rightarrow> CoordinationRow option" where
  "coordination_context matches inspectionID organizationID db =
     find (\<lambda>row. in_id (cw_inspection row) = inspectionID \<and>
       in_organization_id (cw_inspection row) = organizationID \<and> matches row) (coordination_rows db)"

text \<open>\<open>UPDATE inspections SET status = 'SCHEDULED' ... WHERE status = 'AWAITING_AUDITEE_CONFIRMATION'\<close>.\<close>

definition schedule_inspection :: "Env \<Rightarrow> string \<Rightarrow> DB \<Rightarrow> app_error + (bool \<times> DB)" where
  "schedule_inspection env inspectionID db =
     (let affected = (\<lambda>i. in_id i = inspectionID \<and> in_status i = ''AWAITING_AUDITEE_CONFIRMATION'');
          change = (\<lambda>i. i\<lparr>in_status := ''SCHEDULED'', in_revision := in_revision i + 1, in_updated_at := env_clock env 0\<rparr>) in
      if list_ex (\<lambda>i. affected i \<and> sint (in_revision (change i)) \<le> 0) (inspections db)
      then Inl (AppError ErrInternal ''check constraint'')
      else Inr (list_ex affected (inspections db),
        db\<lparr>inspections := map (\<lambda>i. if affected i then change i else i) (inspections db)\<rparr>))"

text \<open>\<open>jsonb_set(values, '{alternativeDate}', ...)\<close> on every draft of the audit.\<close>

definition set_alternative :: "Env \<Rightarrow> AuditAssignment \<Rightarrow> string \<Rightarrow> string \<Rightarrow> DB \<Rightarrow> DB" where
  "set_alternative env a inspectionID date db =
     db\<lparr>scope_tables := (scope_tables db)\<lparr>t_intake_drafts := map (\<lambda>d.
        if draft_of_assignment a inspectionID d
        then d\<lparr>pid_values := AList.update ''alternativeDate'' (JString date) (pid_values d),
               pid_updated_at := env_clock env 0\<rparr>
        else d) (t_intake_drafts (scope_tables db))\<rparr>\<rparr>"

definition coordination_result :: "string \<Rightarrow> AuditAssignment \<Rightarrow> string \<Rightarrow> string \<Rightarrow> AuditeeCoordination \<Rightarrow> commandResult" where
  "coordination_result action a nextStatus organizationID output = \<lparr>cx_Response = CoordinationResponse output,
     cx_OrganizationID = organizationID, cx_Action = action, cx_EntityType = ''audit_assignment'',
     cx_EntityID = aa_id a, cx_EntityVersion = aa_revision a + 1, cx_BeforeStatus = aa_status a,
     cx_AfterStatus = nextStatus\<rparr>"

definition RespondCoordination_handler :: "Env \<Rightarrow> RespondCoordinationCommand \<Rightarrow> assignment_handler" where
  "RespondCoordination_handler env command db =
     (case coordination_context (\<lambda>_. True) (rp_InspectionID command) (rp_OrganizationID command) db of
        None \<Rightarrow> Inl (AppError ErrNotFound '''')
      | Some row \<Rightarrow> bind_result (coordination_view row) (\<lambda>view.
        let a = cw_assignment row;
            nextStatus = (if rp_Decision command = CoordinationProposeAlternative then StatusAlternativeProposed
              else StatusConfirmed) in
        if aa_revision a \<noteq> rp_ExpectedRevision command \<or>
           aa_status a \<notin> {StatusAwaitingAuditeeConfirmation, StatusAlternativeProposed}
        then Inl (AppError ErrConflict '''')
        else if rp_Decision command = CoordinationConfirm \<and> aa_status a \<noteq> StatusAwaitingAuditeeConfirmation
        then Inl (AppError ErrForbidden ''CAA must accept or return the proposed alternative date'')
        else bind_result (update_assignment (aa_id a) (\<lambda>b. aa_revision b = aa_revision a)
            (\<lambda>b. b\<lparr>aa_status := nextStatus, aa_revision := aa_revision b + 1, aa_updated_at := env_clock env 0\<rparr>) db)
          (\<lambda>(updated, db').
          if \<not> updated then Inl (AppError ErrConflict '''')
          else bind_result (if rp_Decision command = CoordinationConfirm
              then bind_result (schedule_inspection env (rp_InspectionID command) db') (\<lambda>(scheduled, db'').
                if scheduled then Inr db'' else Inl (AppError ErrConflict ''''))
              else Inr db') (\<lambda>db''.
            let final = (case rp_AlternativeDate command of
                None \<Rightarrow> db'' | Some date \<Rightarrow> set_alternative env a (rp_InspectionID command) date db'');
                output = view\<lparr>co_InspectionID := rp_InspectionID command,
                  co_OrganizationID := rp_OrganizationID command, co_Status := nextStatus,
                  co_AlternativeDate := rp_AlternativeDate command,
                  co_NextAction := coordinationNextAction nextStatus, co_Revision := aa_revision a + 1\<rparr> in
            Inr (final, coordination_result ''auditee.coordination_responded'' a nextStatus
              (rp_OrganizationID command) output)))))"

definition RespondAuditeeCoordination :: "Digests \<Rightarrow> Env \<Rightarrow> Principal \<Rightarrow> RespondCoordinationCommand \<Rightarrow> DB \<Rightarrow>
    app_error + (DB \<times> Response)" where
  "RespondAuditeeCoordination digests env actor command db =
     (if \<not> CanViewAuditeeCoordination actor \<or> OrganizationID actor \<noteq> rp_OrganizationID command
      then Inl (AppError ErrForbidden '''')
      else if any_blank [rp_OperationID command, rp_IdempotencyKey command, rp_InspectionID command,
                rp_OrganizationID command] \<or> sint (rp_ExpectedRevision command) \<le> 0
      then Inl (AppError ErrInvalid '''')
      else if \<not> respond_decision_check command then Inl (AppError ErrInvalid '''')
      else executeCommand digests env actor (RespondCoordination_call command)
        (RespondCoordination_handler env command) db)"

section \<open>ReviewAuditeeCoordination\<close>

definition ReviewCoordination_call :: "ReviewCoordinationCommand \<Rightarrow> assignmentCall" where
  "ReviewCoordination_call command = \<lparr>xc_kind = ''review_auditee_coordination'',
     xc_operationID = rw_OperationID command, xc_idempotencyKey = rw_IdempotencyKey command,
     xc_entityID = rw_InspectionID command, xc_semantic = ReviewCoordinationSemantic command\<rparr>"

definition accept_update :: "Env \<Rightarrow> instant \<Rightarrow> AuditAssignment \<Rightarrow> AuditAssignment" where
  "accept_update env alternative a =
     a\<lparr>aa_status := StatusConfirmed, aa_scheduled_start_date := Some alternative,
       aa_scheduled_end_date := Some (max (case aa_scheduled_end_date a of None \<Rightarrow> alternative | Some d \<Rightarrow> d) alternative),
       aa_revision := aa_revision a + 1, aa_updated_at := env_clock env 0\<rparr>"

text \<open>Neither update checks the number of rows it affected.\<close>

definition review_writes :: "Env \<Rightarrow> ReviewCoordinationCommand \<Rightarrow> AuditAssignment \<Rightarrow> instant \<Rightarrow> DB \<Rightarrow> app_error + DB" where
  "review_writes env command a alternative db =
     (if rw_Decision command = ReviewCoordinationAccept
      then bind_result (update_assignment (aa_id a) (\<lambda>b. aa_revision b = aa_revision a)
          (accept_update env alternative) db) (\<lambda>(_, db').
        bind_result (schedule_inspection env (rw_InspectionID command) db') (\<lambda>(_, db''). Inr db''))
      else bind_result (update_assignment (aa_id a) (\<lambda>b. aa_revision b = aa_revision a)
          (\<lambda>b. b\<lparr>aa_status := StatusAwaitingAuditeeConfirmation, aa_revision := aa_revision b + 1,
             aa_updated_at := env_clock env 0\<rparr>) db) (\<lambda>(_, db'). Inr db'))"

definition ReviewCoordination_handler :: "Env \<Rightarrow> Principal \<Rightarrow> ReviewCoordinationCommand \<Rightarrow> assignment_handler" where
  "ReviewCoordination_handler env actor command db =
     (case coordination_context (\<lambda>row. aa_status (cw_assignment row) = StatusAlternativeProposed \<and>
          aa_tombstoned_at (cw_assignment row) = None) (rw_InspectionID command) (rw_OrganizationID command) db of
        None \<Rightarrow> Inl (AppError ErrNotFound '''')
      | Some row \<Rightarrow> bind_result (coordination_view row) (\<lambda>view.
        let a = cw_assignment row;
            accepted = (rw_Decision command = ReviewCoordinationAccept);
            nextStatus = (if accepted then StatusConfirmed else StatusAwaitingAuditeeConfirmation) in
        if aa_revision a \<noteq> rw_ExpectedRevision command then Inl (AppError ErrConflict '''')
        else check_error (require_scope env actor '''' (rw_InspectionID command) db) (
        case draft_alternative (cw_draft row) of
          None \<Rightarrow> Inl (AppError ErrConflict ''an Auditee alternative date is required'')
        | Some date \<Rightarrow>
          if blank date then Inl (AppError ErrConflict ''an Auditee alternative date is required'')
          else (case parse_date date of
            None \<Rightarrow> Inl (AppError ErrConflict '''')
          | Some alternative \<Rightarrow> bind_result (review_writes env command a alternative db) (\<lambda>db'.
              let output = view\<lparr>co_InspectionID := rw_InspectionID command,
                  co_OrganizationID := rw_OrganizationID command, co_Status := nextStatus,
                  co_ScheduledStartDate := (if accepted then format_date alternative else co_ScheduledStartDate view),
                  co_NextAction := coordinationNextAction nextStatus, co_Revision := aa_revision a + 1\<rparr> in
              Inr (db', coordination_result ''caa.coordination_reviewed'' a nextStatus
                (rw_OrganizationID command) output))))))"

definition ReviewAuditeeCoordination :: "Digests \<Rightarrow> Env \<Rightarrow> Principal \<Rightarrow> ReviewCoordinationCommand \<Rightarrow> DB \<Rightarrow>
    app_error + (DB \<times> Response)" where
  "ReviewAuditeeCoordination digests env actor command db =
     (if \<not> HasRole actor [RoleDepartmentManager] \<or>
         any_blank [rw_OperationID command, rw_IdempotencyKey command, rw_InspectionID command,
           rw_OrganizationID command, rw_Reason command] \<or> sint (rw_ExpectedRevision command) \<le> 0
      then Inl (AppError ErrForbidden '''')
      else if rw_Decision command \<notin> {ReviewCoordinationAccept, ReviewCoordinationReturn}
      then Inl (AppError ErrInvalid '''')
      else executeCommand digests env actor (ReviewCoordination_call command)
        (ReviewCoordination_handler env actor command) db)"

end
