(* ===== verification/CanonicalScope.thy ===== *)
theory CanonicalScope
  imports AssignmentEnvelope
begin

text \<open>
  The validation of the scope of an audit (\<open>internal/application/canonical_scope.go\<close>): the execution
  type, the normalized planning values (a \<open>map[string]any\<close>), the sealed catalog, the provider scope
  and its target, the authority of the manager's department and the exact selection of questions.
\<close>

section \<open>Execution types\<close>

text \<open>
  \<open>strings.ToUpper\<close> on a string that is compared with ASCII names: besides the ASCII letters, the
  dotless i and the long s become ASCII letters, and no other rune does.
\<close>

fun upper_text :: "string \<Rightarrow> string" where
  "upper_text [] = []"
| "upper_text (c # s) =
     (if c = CHR 0xC4 \<and> take 1 s = [CHR 0xB1] then CHR ''I'' # upper_text (drop 1 s)
      else if c = CHR 0xC5 \<and> take 1 s = [CHR 0xBF] then CHR ''S'' # upper_text (drop 1 s)
      else upper_ascii c # upper_text s)"

declare upper_text.simps [simp del]

definition canonicalLifecycleTypes :: "string list" where
  "canonicalLifecycleTypes = [''CHANGE_APPROVAL'', ''DOCUMENT_AND_RECORD_REVIEW'', ''FOLLOW_UP'',
     ''INITIAL_CERTIFICATION'', ''ON_SITE_INSPECTION'', ''PERIODIC_SURVEILLANCE'', ''RENEWAL'', ''SPECIAL_PURPOSE'']"

definition canonicalAuditTypes :: "(string \<times> string) list" where
  "canonicalAuditTypes = [(''RAMP'', ''RAMP_INSPECTION''), (''RAMP_INSPECTION'', ''RAMP_INSPECTION''),
     (''CABIN'', ''CABIN_INSPECTION''), (''CABIN_INSPECTION'', ''CABIN_INSPECTION'')] @
     map (\<lambda>t. (t, t)) canonicalLifecycleTypes"

definition CanonicalExecutionType :: "string \<Rightarrow> app_error + string" where
  "CanonicalExecutionType value =
     (case map_of canonicalAuditTypes (upper_text (TrimSpace value)) of
        None \<Rightarrow> Inl (AppError ErrInvalid ''unsupported exact inspection type'')
      | Some canonical \<Rightarrow> Inr canonical)"

definition isCanonicalLifecycleType :: "string \<Rightarrow> bool" where
  "isCanonicalLifecycleType value \<longleftrightarrow> value \<in> set canonicalLifecycleTypes"

definition canonicalAuditTypeAllowedForProvider :: "string \<Rightarrow> string \<Rightarrow> bool" where
  "canonicalAuditTypeAllowedForProvider providerTypeID auditType \<longleftrightarrow>
     (case CanonicalExecutionType auditType of
        Inl _ \<Rightarrow> False
      | Inr canonical \<Rightarrow>
        let provider = TrimSpace providerTypeID in
        if provider = ''AIR_OPERATOR''
        then canonical = ''RAMP_INSPECTION'' \<or> canonical = ''CABIN_INSPECTION'' \<or> isCanonicalLifecycleType canonical
        else if provider = ''AERODROME_OPERATOR''
        then canonical = ''RAMP_INSPECTION'' \<or> isCanonicalLifecycleType canonical
        else provider = ''FUEL_PROVIDER'' \<and> isCanonicalLifecycleType canonical)"

section \<open>Planning values\<close>

type_synonym planning_values = "(string \<times> json) list"

definition stringValue :: "json option \<Rightarrow> string" where
  "stringValue v = (case v of Some (JString s) \<Rightarrow> s | _ \<Rightarrow> '''')"

definition value_text :: "string \<Rightarrow> planning_values \<Rightarrow> string" where
  "value_text key values = stringValue (map_of values key)"

fun selectedIDs :: "json option \<Rightarrow> string list" where
  "selectedIDs (Some (JArray items)) =
     concat (map (\<lambda>item. case item of JString s \<Rightarrow> [TrimSpace s] | _ \<Rightarrow> []) items)"
| "selectedIDs _ = []"

definition normalized_keys :: "string list" where
  "normalized_keys = [''organizationId'', ''applicationType'', ''catalogVersion'', ''scopeDraftId'',
     ''selectionDigest'', ''providerScopeId'', ''regulatedTargetId'', ''noticePolicy'', ''currency'']"

definition text_key :: "string \<Rightarrow> planning_values \<Rightarrow> planning_values" where
  "text_key key values = (case map_of values key of
     None \<Rightarrow> values | Some v \<Rightarrow> AList.update key (JString (stringValue (Some v))) values)"

definition NormalizeCanonicalPlanningValues :: "planning_values \<Rightarrow> string \<Rightarrow> planning_values" where
  "NormalizeCanonicalPlanningValues values draftID =
     (let texts = fold text_key normalized_keys values;
          typed = (case CanonicalExecutionType (value_text ''applicationType'' texts) of
             Inl _ \<Rightarrow> texts | Inr canonical \<Rightarrow> AList.update ''applicationType'' (JString canonical) texts) in
      if value_text ''catalogVersion'' typed \<noteq> '''' \<and> value_text ''scopeDraftId'' typed = '''' \<and> \<not> blank draftID
      then AList.update ''scopeDraftId'' (JString (''scope-draft-'' @ TrimSpace draftID)) typed
      else typed)"

section \<open>Validation\<close>

record CanonicalScopeFacts =
  cs_ScopeID :: string
  cs_CatalogID :: string
  cs_CatalogVersion :: string
  cs_CatalogRootDigest :: string
  cs_UsageClass :: string
  cs_ProviderScopeID :: string
  cs_RegulatedTargetID :: string
  cs_SelectedCount :: int
  cs_SelectionDigest :: string
  cs_AuditType :: string

definition no_facts :: CanonicalScopeFacts where
  "no_facts = \<lparr>cs_ScopeID = '''', cs_CatalogID = '''', cs_CatalogVersion = '''', cs_CatalogRootDigest = '''',
     cs_UsageClass = '''', cs_ProviderScopeID = '''', cs_RegulatedTargetID = '''', cs_SelectedCount = 0,
     cs_SelectionDigest = '''', cs_AuditType = ''''\<rparr>"

definition sealed_catalog :: "string \<Rightarrow> PreparationTables \<Rightarrow> QuestionCatalog option" where
  "sealed_catalog version t =
     latest (\<lambda>c. (ca_created_at c, ca_id c))
       (filter (\<lambda>c. ca_catalog_version c = version \<and> ca_usage_class c = ''GOVERNED_OPERATIONAL'' \<and>
          ca_status c = ''SEALED'' \<and> ca_source_origin c = ''IMPORTED_APPROVED_SOURCE'') (question_catalogs t))"

text \<open>The current provider scope and a target that belongs to it.\<close>

definition provider_pair :: "ScopeTables \<Rightarrow> int \<Rightarrow> string \<Rightarrow> string \<Rightarrow> (ProviderScope \<times> RegulatedTarget) option" where
  "provider_pair t today providerScopeID targetID =
     (case find (\<lambda>s. ps_id s = providerScopeID \<and> ps_effective_from s \<le> today \<and> effective_at today (ps_effective_to s) \<and>
         map_option ps_id (current_provider_scope t today s) = Some (ps_id s)) (t_provider_scopes t) of
        None \<Rightarrow> None
      | Some scope \<Rightarrow> map_option (Pair scope) (find (\<lambda>target. rt_id target = targetID \<and>
          (ps_primary_target_id scope = Some (rt_id target) \<or>
           list_ex (\<lambda>l. l = (ps_id scope, rt_id target)) (t_scope_targets t))) (t_targets t)))"

definition target_organization :: "RegulatedTarget \<Rightarrow> string option" where
  "target_organization target = (case rt_organization_id target of
     None \<Rightarrow> rt_owner_organization_id target | Some org \<Rightarrow> Some org)"

definition department_match :: "ScopeTables \<Rightarrow> int \<Rightarrow> string \<Rightarrow> string \<Rightarrow> bool" where
  "department_match t today subject providerScopeID \<longleftrightarrow>
     list_ex (\<lambda>m. mb_membership_role m = ''DEPARTMENT_MANAGER'' \<and> mb_status m = ''ACTIVE'' \<and>
        effective_at today (mb_effective_to m) \<and>
        current_status (t_department_facts t) today (mb_department_id m) = Some ''ACTIVE'' \<and>
        current_status (t_unit_facts t) today (mb_organizational_unit_id m) = Some ''ACTIVE'' \<and>
        list_ex (\<lambda>(provider_type, unit). unit = mb_organizational_unit_id m \<and>
          list_ex (\<lambda>s. ps_id s = providerScopeID \<and> ps_service_provider_type_id s = provider_type) (t_provider_scopes t))
          (t_responsibilities t))
       (current_memberships t today subject)"

definition available_member :: "PreparationTables \<Rightarrow> CatalogMembership \<Rightarrow> bool" where
  "available_member t m \<longleftrightarrow>
     (case latest (\<lambda>e. (me_occurred_at e, me_event_id e))
         (filter (\<lambda>e. me_catalog_id e = cm_catalog_id m \<and> me_question_version_id e = cm_question_version_id m)
           (membership_events t)) of
        None \<Rightarrow> True
      | Some e \<Rightarrow> me_status e = ''AVAILABLE'')"

definition member_count :: "PreparationTables \<Rightarrow> QuestionCatalog \<Rightarrow> string list \<Rightarrow> int" where
  "member_count t catalog ids = int (length (filter (\<lambda>m. cm_catalog_id m = ca_id catalog \<and>
     cm_usage_class m = ca_usage_class catalog \<and> cm_question_version_id m \<in> set ids \<and> available_member t m)
     (catalog_memberships t)))"

definition eligible_count :: "PreparationTables \<Rightarrow> QuestionCatalog \<Rightarrow> string \<Rightarrow> string \<Rightarrow> string list \<Rightarrow> int" where
  "eligible_count t catalog providerScopeID targetID ids = int (length (filter (\<lambda>a. ap_catalog_id a = ca_id catalog \<and>
     ap_provider_scope_id a = providerScopeID \<and> ap_regulated_target_id a = targetID \<and> ap_status a = ''ELIGIBLE'' \<and>
     ap_question_version_id a \<in> set ids \<and>
     list_ex (\<lambda>c. ca_id c = ap_catalog_id a \<and> ca_source_origin c = ''IMPORTED_APPROVED_SOURCE'') (question_catalogs t))
     (applicabilities t)))"

text \<open>The checks of the selected identifiers, and the facts they complete.\<close>

definition selection_facts :: "Digests \<Rightarrow> PreparationTables \<Rightarrow> QuestionCatalog \<Rightarrow> planning_values \<Rightarrow>
    CanonicalScopeFacts \<Rightarrow> string list \<Rightarrow> app_error + CanonicalScopeFacts" where
  "selection_facts digests t catalog values facts ids =
     (if list_ex (\<lambda>i. i = '''') ids then Inl (AppError ErrInvalid ''question version identity is empty'')
      else if \<not> distinct ids
      then Inl (AppError ErrInvalid ''question selection contains a duplicate identity'')
      else if member_count t catalog ids \<noteq> int (length ids)
      then Inl (AppError ErrInvalid ''selected question is outside the sealed catalog'')
      else if eligible_count t catalog (cs_ProviderScopeID facts) (cs_RegulatedTargetID facts) ids \<noteq> int (length ids)
      then Inl (AppError ErrForbidden ''selection contains a question without provider-scope/target eligibility'')
      else
        let digest = digest_selection digests ids; supplied = value_text ''selectionDigest'' values in
        if supplied \<noteq> '''' \<and> supplied \<noteq> digest
        then Inl (AppError ErrConflict ''selection digest does not match the exact question identities'')
        else Inr (facts\<lparr>cs_SelectedCount := int (length ids), cs_SelectionDigest := digest\<rparr>))"

definition scope_requested :: "planning_values \<Rightarrow> bool" where
  "scope_requested values \<longleftrightarrow> \<not> (value_text ''catalogVersion'' values = '''' \<and>
     value_text ''scopeDraftId'' values = '''' \<and> value_text ''providerScopeId'' values = '''' \<and>
     value_text ''regulatedTargetId'' values = '''')"

definition ValidateCanonicalScopeMap :: "Digests \<Rightarrow> Env \<Rightarrow> Principal \<Rightarrow> planning_values \<Rightarrow> bool \<Rightarrow> DB \<Rightarrow>
    app_error + CanonicalScopeFacts" where
  "ValidateCanonicalScopeMap digests env actor values complete db =
     (let catalogVersion = value_text ''catalogVersion'' values;
          providerScopeID = value_text ''providerScopeId'' values;
          regulatedTargetID = value_text ''regulatedTargetId'' values;
          scopes = scope_tables db; t = preparation db; today = env_today env in
      if \<not> scope_requested values then Inr no_facts
      else if catalogVersion = '''' \<or> providerScopeID = '''' \<or> regulatedTargetID = ''''
      then Inl (AppError ErrInvalid ''catalog, provider scope, and regulated target are required'')
      else bind_result (CanonicalExecutionType (value_text ''applicationType'' values)) (\<lambda>auditType.
      (case sealed_catalog catalogVersion t of
        None \<Rightarrow> Inl (AppError ErrNotFound '''')
      | Some catalog \<Rightarrow>
        if blank (ca_catalog_root_digest catalog)
        then Inl (AppError ErrForbidden ''catalog source is not the approved Aviation source'')
        else (case provider_pair scopes today providerScopeID regulatedTargetID of
          None \<Rightarrow> Inl (AppError ErrForbidden
            ''provider scope and target are not a compatible server-authorized pair'')
        | Some (scope, target) \<Rightarrow>
          (case target_organization target of
            None \<Rightarrow> Inl (AppError ErrInternal ''scan'')
          | Some targetOrganizationID \<Rightarrow>
            if ps_status scope \<noteq> ''ACTIVE'' \<or>
               \<not> blank targetOrganizationID \<and> targetOrganizationID \<noteq> ps_organization_id scope
            then Inl (AppError ErrForbidden ''provider scope is not active for the regulated target'')
            else if \<not> canonicalAuditTypeAllowedForProvider (ps_service_provider_type_id scope) auditType
            then Inl (AppError ErrForbidden ''audit type is not authorized for provider scope'')
            else if \<not> HasRole actor [RoleDepartmentManager]
            then Inl (AppError ErrForbidden ''Department Manager authority is required'')
            else if \<not> department_match scopes today (SubjectID actor) providerScopeID
            then Inl (AppError ErrForbidden ''provider scope is outside the manager department authority'')
            else if ps_organization_id scope \<noteq> value_text ''organizationId'' values
            then Inl (AppError ErrConflict ''organization does not match the provider scope'')
            else
              let facts = \<lparr>cs_ScopeID = value_text ''scopeDraftId'' values, cs_CatalogID = ca_id catalog,
                    cs_CatalogVersion = ca_catalog_version catalog,
                    cs_CatalogRootDigest = ca_catalog_root_digest catalog,
                    cs_UsageClass = ca_usage_class catalog, cs_ProviderScopeID = providerScopeID,
                    cs_RegulatedTargetID = regulatedTargetID, cs_SelectedCount = 0, cs_SelectionDigest = '''',
                    cs_AuditType = auditType\<rparr>;
                  ids = selectedIDs (map_of values ''selectedQuestionVersionIds'') in
              if complete \<and> (cs_ScopeID facts = '''' \<or> value_text ''selectionDigest'' values = '''' \<or> ids = [])
              then Inl (AppError ErrInvalid ''exact question selection is required before Finance submission'')
              else if ids = [] then Inr facts
              else selection_facts digests t catalog values facts ids)))))"

section \<open>The saved scope draft\<close>

text \<open>\<open>ValidateCanonicalScopeDraft\<close>: the audit type may still change while nothing is selected.\<close>

definition ValidateCanonicalScopeDraft :: "Env \<Rightarrow> string \<Rightarrow> CanonicalScopeFacts \<Rightarrow> DB \<Rightarrow> app_error + DB" where
  "ValidateCanonicalScopeDraft env draftID facts db =
     (if cs_ScopeID facts = '''' then Inr db
      else
        let scopes = scope_tables db;
            pairs = concat (map (\<lambda>s. map (Pair s) (filter (\<lambda>c. ca_id c = sd_catalog_id s)
                (question_catalogs (preparation db))))
              (filter (\<lambda>s. sd_id s = cs_ScopeID facts \<and> sd_planning_intake_draft_id s = Some draftID)
                (t_scope_drafts scopes))) in
        (case pairs of
          [] \<Rightarrow> Inl (AppError ErrConflict '''')
        | (scope, catalog) # _ \<Rightarrow>
          if sd_catalog_id scope \<noteq> cs_CatalogID facts \<or> ca_catalog_version catalog \<noteq> cs_CatalogVersion facts \<or>
             sd_catalog_root_digest scope \<noteq> cs_CatalogRootDigest facts \<or> sd_usage_class scope \<noteq> cs_UsageClass facts \<or>
             sd_provider_scope_id scope \<noteq> cs_ProviderScopeID facts \<or>
             sd_regulated_target_id scope \<noteq> cs_RegulatedTargetID facts
          then Inl (AppError ErrConflict ''canonical scope identity changed'')
          else if sd_audit_type scope \<noteq> cs_AuditType facts \<and>
             (sd_status scope \<noteq> ''DRAFT'' \<or> sd_selected_question_count scope \<noteq> 0 \<or> sd_selection_digest scope \<noteq> '''')
          then Inl (AppError ErrConflict
            ''audit type can change only before exact question selection is committed'')
          else if sd_selected_question_count scope \<noteq> cs_SelectedCount facts \<or>
             cs_SelectedCount facts > 0 \<and> sd_selection_digest scope \<noteq> cs_SelectionDigest facts \<or>
             cs_SelectedCount facts = 0 \<and> sd_selection_digest scope \<noteq> ''''
          then Inl (AppError ErrConflict
            ''selection must be committed through the canonical scope CAS operation'')
          else Inr (if sd_audit_type scope = cs_AuditType facts then db
            else db\<lparr>scope_tables := scopes\<lparr>t_scope_drafts := map (\<lambda>s.
              if sd_id s = cs_ScopeID facts \<and> sd_planning_intake_draft_id s = Some draftID \<and> sd_status s = ''DRAFT''
              then s\<lparr>sd_audit_type := cs_AuditType facts, sd_updated_at := env_now env\<rparr> else s)
              (t_scope_drafts scopes)\<rparr>\<rparr>)))"

end
