(* ===== verification/Materialization.thy ===== *)
theory Materialization
  imports PreparationGate CanonicalScope
begin

text \<open>
  The materialization of a confirmed preparation (\<open>MaterializeInspection\<close> and
  \<open>materializeCanonicalInspection\<close> of \<open>internal/application/service.go\<close>): one transaction creates the
  inspection, its package, its checklist and its question assignments from the immutable snapshots.
\<close>

definition MaterializeInspection_envelope :: "MaterializeInspectionCommand \<Rightarrow> commandEnvelope" where
  "MaterializeInspection_envelope command = \<lparr>ce_OperationID = mi_OperationID command,
     ce_IdempotencyKey = mi_IdempotencyKey command, ce_CorrelationID = mi_CorrelationID command,
     ce_Kind = ''materialize_inspection'', ce_EntityID = mi_AssignmentID command,
     ce_Semantic = MaterializeSemantic (mi_ExpectedAssignmentRevision command) (mi_TemplateVersionID command)
       (mi_PackageID command) (mi_PackageVersion command) (mi_ExpiresAt command)\<rparr>"

section \<open>The released scope\<close>

text \<open>The confirmed preparations of the assignment at its current revision.\<close>

definition current_confirmations :: "string \<Rightarrow> string \<Rightarrow> i64 \<Rightarrow> DB \<Rightarrow> PreparationSnapshot list" where
  "current_confirmations assignmentID snapshotID revision db =
     filter (\<lambda>p. ph_assignment_id p = Some assignmentID \<and> ph_released_scope_snapshot_id p = snapshotID \<and>
        ph_status p = ''CONFIRMED'' \<and> ph_confirmed_assignment_revision p = Some revision)
       (preparation_snapshots (preparation db))"

text \<open>The questions of the preparation that are at their place in the released scope.\<close>

definition prepared_question_count :: "string \<Rightarrow> string \<Rightarrow> DB \<Rightarrow> int" where
  "prepared_question_count preparationID snapshotID db =
     int (length (remdups (map pz_question_version_id (filter (\<lambda>q. pz_preparation_id q = preparationID \<and>
        pz_released_scope_snapshot_id q = snapshotID \<and>
        list_ex (\<lambda>s. sq_snapshot_id s = snapshotID \<and> sq_question_version_id s = pz_question_version_id q \<and>
          sq_position s = pz_position q) (snapshot_questions db)) (preparation_questions (preparation db))))))"

text \<open>The questions of the package in the order of the scope, each with the subjects that cover it.\<close>

definition package_subjects :: "string \<Rightarrow> SnapshotQuestion \<Rightarrow> DB \<Rightarrow> string list" where
  "package_subjects preparationID s db =
     sort (map pz_subject_id (filter (\<lambda>q. pz_preparation_id q = preparationID \<and>
        pz_released_scope_snapshot_id q = sq_snapshot_id s \<and>
        pz_question_version_id q = sq_question_version_id s \<and> pz_position q = sq_position s)
       (preparation_questions (preparation db))))"

definition package_questions :: "string \<Rightarrow> string \<Rightarrow> string \<Rightarrow> DB \<Rightarrow> PackageQuestion list" where
  "package_questions catalogID snapshotID preparationID db =
     concat (map (\<lambda>s. concat (map (\<lambda>m. map (\<lambda>v. \<lparr>kq_id = qv_id v, kq_sectionId = cm_form_code m,
          kq_prompt = qv_prompt v, kq_regulatoryReference = qv_configured_reference v,
          kq_expectedEvidence = qv_expected_evidence v,
          kq_assignedInspectorUserIds = package_subjects preparationID s db\<rparr>)
        (filter (\<lambda>v. qv_id v = sq_question_version_id s) (question_versions db)))
       (filter (\<lambda>m. cm_catalog_id m = catalogID \<and> cm_question_version_id m = sq_question_version_id s)
         (catalog_memberships (preparation db)))))
      (sort_key sq_position (filter (\<lambda>s. sq_snapshot_id s = snapshotID) (snapshot_questions db))))"

definition package_snapshot :: "ScopeSnapshot \<Rightarrow> PreparationSnapshot \<Rightarrow> PackageQuestion list \<Rightarrow> PackageSnapshot" where
  "package_snapshot snapshot confirmed questions = \<lparr>ks_schemaVersion = 1, ks_protocolVersion = 1,
     ks_catalogId = ss_catalog_id snapshot, ks_usageClass = ss_usage_class snapshot,
     ks_releasedScopeSnapshotId = ss_id snapshot, ks_selectionDigest = ss_selection_digest snapshot,
     ks_preparationId = ph_id confirmed, ks_preparationDigest = ph_preparation_digest confirmed,
     ks_questions = questions\<rparr>"

definition released_scope :: "string \<Rightarrow> DB \<Rightarrow> ScopeSnapshot option" where
  "released_scope snapshotID db =
     find (\<lambda>s. ss_id s = snapshotID \<and> ss_stage s = ''RELEASED'') (t_scope_snapshots (scope_tables db))"

section \<open>The statements\<close>

definition package_conflict :: "InspectionPackage \<Rightarrow> InspectionPackage list \<Rightarrow> bool" where
  "package_conflict p rows \<longleftrightarrow>
     list_ex (\<lambda>q. pk_id q = pk_id p \<or>
        pk_inspection_id q = pk_inspection_id p \<and> pk_package_version q = pk_package_version p) rows"

fun insert_assignments :: "QuestionAssignment list \<Rightarrow> QuestionAssignment list \<Rightarrow> app_error + QuestionAssignment list" where
  "insert_assignments [] rows = Inr rows"
| "insert_assignments (q # qs) rows =
     bind_result (insert_row '''' (list_ex (\<lambda>r. qa_inspection_id r = qa_inspection_id q \<and>
       qa_question_id r = qa_question_id q \<and> qa_subject_id r = qa_subject_id q) rows) q rows) (insert_assignments qs)"

definition materialized_assignments :: "string \<Rightarrow> i64 \<Rightarrow> PackageQuestion list \<Rightarrow> QuestionAssignment list" where
  "materialized_assignments inspectionID revision questions =
     concat (map (\<lambda>q. map (\<lambda>s. \<lparr>qa_inspection_id = inspectionID, qa_question_id = kq_id q, qa_subject_id = s,
       qa_assignment_revision = revision\<rparr>) (kq_assignedInspectorUserIds q)) questions)"

text \<open>\<open>UPDATE inspections ... WHERE status = 'PREPARATION' RETURNING revision\<close>; no row is an error.\<close>

definition plan_inspection :: "Env \<Rightarrow> string \<Rightarrow> string \<Rightarrow> DB \<Rightarrow> app_error + (i64 \<times> DB)" where
  "plan_inspection env inspectionID status db =
     (case find (\<lambda>i. in_id i = inspectionID \<and> in_status i = ''PREPARATION'') (inspections db) of
        None \<Rightarrow> Inl (AppError ErrInternal ''no rows'')
      | Some i \<Rightarrow>
        if sint (in_revision i + 1) \<le> 0 then Inl (AppError ErrInternal ''check constraint'')
        else Inr (in_revision i + 1, db\<lparr>inspections := map (\<lambda>i.
          if in_id i = inspectionID \<and> in_status i = ''PREPARATION''
          then i\<lparr>in_status := status, in_revision := in_revision i + 1, in_updated_at := env_clock env 2\<rparr>
          else i) (inspections db)\<rparr>))"

definition materialized_preparation :: "Env \<Rightarrow> PreparationSnapshot \<Rightarrow> PreparationSnapshot" where
  "materialized_preparation env p = p\<lparr>ph_id := ph_id p @ '':materialized'', ph_revision := ph_revision p + 1,
     ph_status := ''MATERIALIZED'', ph_confirmed_assignment_revision := None, ph_created_at := env_clock env 2\<rparr>"

definition copy_questions :: "string \<Rightarrow> string \<Rightarrow> DB \<Rightarrow> app_error + PreparationQuestion list" where
  "copy_questions copyID preparationID db =
     insert_questions db (map (\<lambda>q. q\<lparr>pz_preparation_id := copyID\<rparr>)
       (filter (\<lambda>q. pz_preparation_id q = preparationID) (preparation_questions (preparation db))))
       (preparation_questions (preparation db))"

section \<open>materializeCanonicalInspection\<close>

definition package_of :: "Digests \<Rightarrow> Env \<Rightarrow> MaterializeInspectionCommand \<Rightarrow> string \<Rightarrow> PackageSnapshot \<Rightarrow> InspectionPackage" where
  "package_of digests env command inspectionID content = \<lparr>pk_id = mi_PackageID command,
     pk_inspection_id = inspectionID, pk_checklist_template_version_id = None,
     pk_canonical_scope_snapshot_id = Some (ks_releasedScopeSnapshotId content),
     pk_package_version = mi_PackageVersion command, pk_expires_at = Some (mi_ExpiresAt command),
     pk_revoked_at = None, pk_package_digest = digest_package digests content,
     pk_snapshot = Some content, pk_created_at = env_clock env 2\<rparr>"

definition materialize_status :: "string \<Rightarrow> string" where
  "materialize_status noticePolicy =
     (if noticePolicy = ''WITHHELD'' then StatusScheduled else StatusAwaitingAuditeeConfirmation)"

text \<open>Every write of the function, in its order.\<close>

definition materialize_writes :: "Digests \<Rightarrow> Env \<Rightarrow> MaterializeInspectionCommand \<Rightarrow> string \<Rightarrow> string \<Rightarrow> i64 \<Rightarrow>
    PreparationSnapshot \<Rightarrow> PackageSnapshot \<Rightarrow> DB \<Rightarrow> app_error + (i64 \<times> DB)" where
  "materialize_writes digests env command inspectionID noticePolicy revision confirmed content db =
     (let package = package_of digests env command inspectionID content in
      bind_result (insert_row '''' (package_conflict package (inspection_packages db) \<or>
        sint (pk_package_version package) \<le> 0) package (inspection_packages db)) (\<lambda>packages.
      bind_result (insert_row '''' (list_ex (\<lambda>k. k_inspection_id k = inspectionID) (inspection_checklists db))
        \<lparr>k_inspection_id = inspectionID, k_status = KStatusNotStarted, k_revision = 1, k_submitted_at = None,
         k_reopened_at = None, k_reopen_reason = None\<rparr> (inspection_checklists db)) (\<lambda>checklists.
      bind_result (insert_assignments (materialized_assignments inspectionID (revision + 1) (ks_questions content))
        (question_assignments db)) (\<lambda>assigned.
      bind_result (update_assignment (mi_AssignmentID command) (\<lambda>a. aa_revision a = revision)
        (\<lambda>a. a\<lparr>aa_inspection_id := Some inspectionID, aa_status := materialize_status noticePolicy,
           aa_revision := aa_revision a + 1, aa_updated_at := env_clock env 2\<rparr>)
        (db\<lparr>inspection_packages := packages, inspection_checklists := checklists,
            question_assignments := assigned\<rparr>)) (\<lambda>(updated, db').
      if \<not> updated then Inl (AppError ErrConflict '''')
      else bind_result (plan_inspection env inspectionID (materialize_status noticePolicy) db') (\<lambda>(planned, db'').
      if sint planned \<le> 1 then Inl (AppError ErrConflict '''')
      else
        let t = preparation db''; copy = materialized_preparation env confirmed in
        bind_result (insert_row '''' (preparation_conflict copy (preparation_snapshots t) \<or> \<not> preparation_check copy)
          copy (preparation_snapshots t)) (\<lambda>snapshots.
        bind_result (copy_questions (ph_id copy) (ph_id confirmed) db'') (\<lambda>questions.
        Inr (planned, db''\<lparr>preparation := t\<lparr>preparation_snapshots := snapshots,
          preparation_questions := questions\<rparr>\<rparr>)))))))))"

definition materializeCanonicalInspection :: "Digests \<Rightarrow> Env \<Rightarrow> MaterializeInspectionCommand \<Rightarrow> string \<Rightarrow> string \<Rightarrow>
    string \<Rightarrow> i64 \<Rightarrow> string \<Rightarrow> handler" where
  "materializeCanonicalInspection digests env command inspectionID organizationID inspectionStatus revision snapshotID db =
     (case released_scope snapshotID db of
        None \<Rightarrow> Inl (AppError ErrConflict '''')
      | Some snapshot \<Rightarrow>
        if ss_id snapshot = '''' \<or> ss_catalog_id snapshot = '''' \<or> ss_usage_class snapshot = '''' \<or>
           ss_selection_digest snapshot = '''' \<or> ss_planning_snapshot_digest snapshot = '''' \<or>
           ss_selected_question_count snapshot \<le> 0
        then Inl (AppError ErrConflict '''')
        else if \<not> list_ex (\<lambda>scope. sd_id scope = ss_scope_draft_id snapshot) (t_scope_drafts (scope_tables db))
        then Inl (AppError ErrInternal ''no rows'')
        else (case decode_text '''' (case map_of (ss_snapshot snapshot) ''noticePolicy'' of None \<Rightarrow> JNull | Some v \<Rightarrow> v) of
          Inl _ \<Rightarrow> Inl (AppError ErrInvalid ''decode released scope snapshot'')
        | Inr policy \<Rightarrow>
          let noticePolicy = TrimSpace policy;
              confirmations = current_confirmations (mi_AssignmentID command) (ss_id snapshot) revision db in
          if noticePolicy \<noteq> ''ADVANCE'' \<and> noticePolicy \<noteq> ''WITHHELD''
          then Inl (AppError ErrConflict ''released scope snapshot notice policy is invalid'')
          else (case confirmations of
            [confirmed] \<Rightarrow>
              if ph_id confirmed = '''' \<or> ph_preparation_digest confirmed = ''''
              then Inl (AppError ErrConflict ''preparation is not confirmed'')
              else if sint revision \<le> 0
              then Inl (AppError ErrConflict
                ''confirmed preparation is not bound to the current assignment revision'')
              else if prepared_question_count (ph_id confirmed) (ss_id snapshot) db \<noteq> ss_selected_question_count snapshot
              then Inl (AppError ErrConflict
                ''confirmed preparation coverage does not match the released question scope'')
              else
                let questions = package_questions (ss_catalog_id snapshot) (ss_id snapshot) (ph_id confirmed) db;
                    content = package_snapshot snapshot confirmed questions in
                if list_ex (\<lambda>q. kq_id q = '''' \<or> kq_assignedInspectorUserIds q = []) questions
                then Inl (AppError ErrConflict '''')
                else if int (length questions) \<noteq> ss_selected_question_count snapshot
                then Inl (AppError ErrConflict ''released canonical scope and assignment set differ'')
                else bind_result (materialize_writes digests env command inspectionID noticePolicy revision confirmed
                    content db) (\<lambda>(planned, db').
                  Inr (db', \<lparr>tn_Response = MaterializedResponse
                      \<lparr>mz_InspectionID = inspectionID, mz_AssignmentID = mi_AssignmentID command,
                       mz_PackageID = mi_PackageID command, mz_TemplateVersionID = '''',
                       mz_PackageVersion = mi_PackageVersion command,
                       mz_PackageDigest = digest_package digests content,
                       mz_Status = materialize_status noticePolicy, mz_NoticeWithheld = (noticePolicy = ''WITHHELD''),
                       mz_AssignmentRevision = revision + 1, mz_ExpiresAt = mi_ExpiresAt command\<rparr>,
                    tn_OrganizationID = organizationID, tn_Action = ''audit.planned'',
                    tn_EntityType = ''inspection'', tn_EntityID = inspectionID, tn_EntityVersion = planned,
                    tn_BeforeStatus = inspectionStatus, tn_AfterStatus = materialize_status noticePolicy,
                    tn_Reason = ''Inspection materialized from the immutable released scope snapshot; no external data-feed event is emitted.'',
                    tn_ClosureBasis = '''', tn_SyncKind = ''inspection'', tn_OutboxTopic = ''audit.planned''\<rparr>))
          | _ \<Rightarrow> Inl (AppError ErrConflict
              ''exactly one current confirmed preparation is required for this released scope''))))"

section \<open>MaterializeInspection\<close>

definition materialized_inspection :: "Env \<Rightarrow> string \<Rightarrow> string \<Rightarrow> PlanItem \<Rightarrow> Inspection" where
  "materialized_inspection env inspectionID organizationID item = \<lparr>in_id = inspectionID,
     in_organization_id = organizationID, in_inspection_type = it_inspection_type item,
     in_status = ''PREPARATION'', in_revision = 1, in_tombstoned_at = None, in_updated_at = env_clock env 0,
     in_assigned_inspector_subject_id = None, in_title = it_title item,
     in_due_date = Some (it_scheduled_date item), in_created_at = env_clock env 0\<rparr>"

text \<open>The values of the intake draft with the identity and the selection of the released scope.\<close>

definition hydrated_values :: "PlanningIntakeDraft \<Rightarrow> ScopeDraft \<Rightarrow> QuestionCatalog \<Rightarrow> ScopeSnapshot \<Rightarrow> planning_values" where
  "hydrated_values draft scope catalog snapshot =
     (let values = AList.update ''selectionDigest'' (JString (ss_selection_digest snapshot))
            (AList.update ''catalogVersion'' (JString (ca_catalog_version catalog))
            (AList.update ''regulatedTargetId'' (JString (sd_regulated_target_id scope))
            (AList.update ''providerScopeId'' (JString (sd_provider_scope_id scope))
            (AList.update ''scopeDraftId'' (JString (sd_id scope)) (pid_values draft)))));
          selected = (case map_of (ss_snapshot snapshot) ''selectedQuestionVersionIds'' of
            None \<Rightarrow> values | Some v \<Rightarrow> AList.update ''selectedQuestionVersionIds'' v values) in
      NormalizeCanonicalPlanningValues selected (pid_id draft))"

definition scope_context :: "string \<Rightarrow> DB \<Rightarrow> (ScopeSnapshot \<times> ScopeDraft \<times> QuestionCatalog) option" where
  "scope_context snapshotID db =
     (case concat (map (\<lambda>s. concat (map (\<lambda>d. map (\<lambda>c. (s, d, c))
         (filter (\<lambda>c. ca_id c = ss_catalog_id s) (question_catalogs (preparation db))))
        (filter (\<lambda>d. sd_id d = ss_scope_draft_id s) (t_scope_drafts (scope_tables db)))))
       (filter (\<lambda>s. ss_id s = snapshotID \<and> ss_stage s = ''RELEASED'') (t_scope_snapshots (scope_tables db)))) of
        [] \<Rightarrow> None
      | row # _ \<Rightarrow> Some row)"

definition validate_released :: "Digests \<Rightarrow> Env \<Rightarrow> Principal \<Rightarrow> PlanningIntakeDraft \<Rightarrow> string option \<Rightarrow> DB \<Rightarrow>
    app_error option" where
  "validate_released digests env actor draft snapshotID db =
     (let catalogVersion = or_empty (json_text_at ''catalogVersion'' (pid_values draft)) in
      if blank catalogVersion \<and> blank (or_empty snapshotID) then None
      else if blank catalogVersion \<or> blank (or_empty snapshotID)
      then Some (AppError ErrConflict ''canonical materialization requires a released scope snapshot'')
      else (case scope_context (or_empty snapshotID) db of
        None \<Rightarrow> Some (AppError ErrConflict '''')
      | Some (snapshot, scope, catalog) \<Rightarrow>
        (case ValidateCanonicalScopeMap digests env actor (hydrated_values draft scope catalog snapshot) True db of
           Inl e \<Rightarrow> Some e | Inr _ \<Rightarrow> None)))"

definition next_package_version :: "string \<Rightarrow> DB \<Rightarrow> i64" where
  "next_package_version inspectionID db =
     (case latest (\<lambda>p. sint (pk_package_version p))
         (filter (\<lambda>p. pk_inspection_id p = inspectionID) (inspection_packages db)) of
        None \<Rightarrow> 1 | Some p \<Rightarrow> pk_package_version p + 1)"

definition server_command :: "Env \<Rightarrow> MaterializeInspectionCommand \<Rightarrow> string \<Rightarrow> DB \<Rightarrow> MaterializeInspectionCommand" where
  "server_command env command inspectionID db =
     (let version = next_package_version inspectionID db in
      command\<lparr>mi_PackageVersion := version,
        mi_PackageID := ''inspection-package:'' @ inspectionID @ '':'' @ decimal (sint version),
        mi_ExpiresAt := env_clock env 1 + 7 * 24 * hour\<rparr>)"

text \<open>
  The joined row of the first query: the assignment and its inspection, when it has one that is not
  tombstoned (\<open>FOR UPDATE OF assignment\<close>).
\<close>

definition materialize_context :: "string \<Rightarrow> DB \<Rightarrow> (AuditAssignment \<times> Inspection option) option" where
  "materialize_context assignmentID db =
     (case current_assignment assignmentID db of
        None \<Rightarrow> None
      | Some a \<Rightarrow>
        (case aa_inspection_id a of
           None \<Rightarrow> Some (a, None)
         | Some inspectionID \<Rightarrow>
           (case lookup in_id inspectionID (inspections db) of
              None \<Rightarrow> Some (a, None)
            | Some i \<Rightarrow> if in_tombstoned_at i = None then Some (a, Some i) else None)))"

definition released_item :: "string \<Rightarrow> DB \<Rightarrow> PlanItem option" where
  "released_item planningItemID db =
     find (\<lambda>i. it_id i = planningItemID \<and> it_status i = ''RELEASED'' \<and> it_tombstoned_at i = None)
       (plan_items (preparation db))"

definition MaterializeInspection_handler :: "Digests \<Rightarrow> Env \<Rightarrow> Principal \<Rightarrow> MaterializeInspectionCommand \<Rightarrow> handler" where
  "MaterializeInspection_handler digests env actor command db =
     (if \<not> HasRole actor [RoleDepartmentManager]
      then Inl (AppError ErrForbidden ''Department Manager authority is required'')
      else if sint (mi_ExpectedAssignmentRevision command) \<le> 0 then Inl (AppError ErrInvalid '''')
      else (case materialize_context (mi_AssignmentID command) db of
        None \<Rightarrow> Inl (AppError ErrNotFound '''')
      | Some (assignment, inspection) \<Rightarrow>
        let planningItemID = or_empty (aa_planning_item_id assignment);
            inspectionStatus = (case inspection of None \<Rightarrow> ''PREPARATION'' | Some i \<Rightarrow> in_status i) in
        if aa_revision assignment \<noteq> mi_ExpectedAssignmentRevision command \<or>
           aa_status assignment \<noteq> StatusQuestionsAssigned
        then Inl (AppError ErrConflict '''')
        else if planningItemID = ''''
        then Inl (AppError ErrConflict ''canonical materialization requires a planning-owned assignment'')
        else check_error (require_scope env actor planningItemID '''' db) (
        case find (\<lambda>d. pid_submitted_planning_item_id d = Some planningItemID \<and> \<not> pid_tombstoned d)
            (t_intake_drafts (scope_tables db)) of
          None \<Rightarrow> Inl (AppError ErrNotFound '''')
        | Some draft \<Rightarrow>
          (case released_item planningItemID db of
            None \<Rightarrow> Inl (AppError ErrConflict '''')
          | Some item \<Rightarrow>
            let inspectionID = (case aa_inspection_id assignment of
                  None \<Rightarrow> ''inspection:'' @ mi_AssignmentID command
                | Some i \<Rightarrow> if i = '''' then ''inspection:'' @ mi_AssignmentID command else i);
                row = materialized_inspection env inspectionID (aa_organization_id assignment) item in
            bind_result (if or_empty (aa_inspection_id assignment) = ''''
                then bind_result (insert_row '''' (list_ex (\<lambda>i. in_id i = inspectionID) (inspections db)) row
                    (inspections db)) (\<lambda>rows. Inr (db\<lparr>inspections := rows\<rparr>))
                else Inr db) (\<lambda>created.
            check_error (validate_released digests env actor draft (aa_released_scope_snapshot_id assignment) created) (
            let server = server_command env command inspectionID created;
                snapshotID = or_empty (aa_released_scope_snapshot_id assignment) in
            if snapshotID = ''''
            then Inl (AppError ErrConflict ''released canonical scope is required'')
            else if mi_TemplateVersionID command \<noteq> '''' \<or>
                or_empty (json_text_at ''templateVersionId'' (pid_values draft)) \<noteq> ''''
            then Inl (AppError ErrConflict
              ''canonical materialization cannot accept a checklist-template source'')
            else materializeCanonicalInspection digests env server inspectionID (aa_organization_id assignment)
              inspectionStatus (aa_revision assignment) snapshotID created))))))"

definition MaterializeInspection :: "Digests \<Rightarrow> Env \<Rightarrow> Principal \<Rightarrow> MaterializeInspectionCommand \<Rightarrow> DB \<Rightarrow>
    app_error + (DB \<times> Response)" where
  "MaterializeInspection digests env actor command db =
     executeTransition env actor (MaterializeInspection_envelope command)
       (MaterializeInspection_handler digests env actor command) db"

end
