(* ===== verification/PreparationFrames.thy ===== *)
theory PreparationFrames
  imports FieldFrames Coordination Materialization
begin

text \<open>
  The contract between \<open>executeCommand\<close> and the handlers of the preparation: a handler leaves Findings,
  Evidence, reports and the ledger alone, so the envelope appends its five records, replays them under
  the same operation and refuses a reused key. Every handler is interpreted.
\<close>

section \<open>The records of a call\<close>

lemma persist_call_Inr:
  "persist_call entityID r l = Inr l' \<longleftrightarrow>
     \<not> audit_conflict (call_audit_row r) (l_audit_events l) \<and>
     (\<forall>s \<in> set (l_sync_changes l). sy_sequence_id s \<noteq> l_next_sequence l) \<and>
     \<not> outbox_conflict (call_outbox_row entityID r) (l_outbox l) \<and>
     \<not> response_conflict (response_row r) (l_responses l) \<and>
     \<not> link_conflict (link_row r (l_next_sequence l)) (l_links l) \<and>
     l' = \<lparr>l_audit_events = l_audit_events l @ [call_audit_row r],
           l_sync_changes = l_sync_changes l @ [sync_row r (l_next_sequence l)],
           l_next_sequence = l_next_sequence l + 1,
           l_outbox = l_outbox l @ [call_outbox_row entityID r],
           l_responses = l_responses l @ [response_row r],
           l_links = l_links l @ [link_row r (l_next_sequence l)]\<rparr>"
  by (auto simp: persist_call_def bind_result_Inr insert_row_Inr list_ex_iff Let_def)

lemma persist_call_step:
  assumes run: "persist_call entityID r l = Inr l'"
  shows "ledger_step l l'"
proof -
  from run have fresh: "\<not> audit_conflict (call_audit_row r) (l_audit_events l)"
    "\<not> outbox_conflict (call_outbox_row entityID r) (l_outbox l)" "\<not> response_conflict (response_row r) (l_responses l)"
    and l': "l' = \<lparr>l_audit_events = l_audit_events l @ [call_audit_row r],
           l_sync_changes = l_sync_changes l @ [sync_row r (l_next_sequence l)],
           l_next_sequence = l_next_sequence l + 1, l_outbox = l_outbox l @ [call_outbox_row entityID r],
           l_responses = l_responses l @ [response_row r], l_links = l_links l @ [link_row r (l_next_sequence l)]\<rparr>"
    by (simp_all add: persist_call_Inr)
  have "ledger_grows l l'" by (simp add: l' ledger_grows_def)
  moreover have "ledger_wf l'" if "ledger_wf l"
    unfolding l' by (rule ledger_wf_append [OF that])
      (use fresh in \<open>auto simp: call_audit_row_def call_outbox_row_def audit_conflict_def
        outbox_conflict_def response_conflict_def list_ex_iff response_key_def link_key_def audit_row_def
        sync_row_def outbox_row_def response_row_def link_row_def\<close>)
  ultimately show ?thesis by (simp add: ledger_step_def)
qed

lemma executeCommand_cases:
  assumes "executeCommand digests env actor call handler db = Inr (db', resp)"
  obtains (replayed) stored semanticHash where
      "hash_command digests (xc_semantic call) = Some semanticHash"
      "stored_response (call_scope actor call) (xc_operationID call) (ledger db) = Some stored"
      "ir_semantic_hash stored = semanticHash" "db' = db" "resp = ir_response_body stored"
  | (executed) semanticHash mid result l where
      "hash_command digests (xc_semantic call) = Some semanticHash"
      "stored_response (call_scope actor call) (xc_operationID call) (ledger db) = None"
      "handler db = Inr (mid, result)"
      "persist_call (xc_entityID call) (call_record env actor call semanticHash result) (ledger mid) = Inr l"
      "db' = mid\<lparr>ledger := l\<rparr>" "resp = cx_Response result"
  using assms
  by (auto simp: executeCommand_def bind_result_Inr split: if_splits option.splits prod.splits)

section \<open>The contract\<close>

definition work_frame :: "DB \<Rightarrow> DB \<Rightarrow> bool" where
  "work_frame db db' \<longleftrightarrow> settled db db' \<and> ledger_step (ledger db) (ledger db')"

lemma work_frame_refl [simp, intro]: "work_frame db db"
  by (simp add: work_frame_def settled_def)

interpretation work: transaction work_frame
  by unfold_locales (auto simp: work_frame_def ledger_step_def dest: settled_contract)

lemma working_transaction: "(\<And>db db'. step db db' \<Longrightarrow> work_frame db db') \<Longrightarrow> transaction step"
  by unfold_locales (auto dest: work.step_lawful work.step_ledger)

definition desk_only :: "DB \<Rightarrow> DB \<Rightarrow> bool" where
  "desk_only db db' \<longleftrightarrow> settled db db' \<and> ledger db' = ledger db"

lemma desk_only_refl [simp]: "desk_only db db"
  by (simp add: desk_only_def settled_def)

lemma desk_only_frame: "desk_only db mid \<Longrightarrow> ledger_step (ledger mid) l \<Longrightarrow> work_frame db (mid\<lparr>ledger := l\<rparr>)"
  by (simp add: desk_only_def work_frame_def settled_def)

locale assignment_service =
  fixes handler :: assignment_handler
  assumes handler_fields: "handler db = Inr (db', result) \<Longrightarrow> desk_only db db'"
begin

lemma call_frame:
  assumes "executeCommand digests env actor call handler db = Inr (db', resp)"
  shows "work_frame db db'"
  using assms by (cases rule: executeCommand_cases) (auto intro: desk_only_frame persist_call_step handler_fields)

lemma call_stored:
  assumes "executeCommand digests env actor call handler db = Inr (db', resp)"
  shows "\<exists>stored. stored_response (call_scope actor call) (xc_operationID call) (ledger db') = Some stored \<and>
    ir_response_body stored = resp \<and> hash_command digests (xc_semantic call) = Some (ir_semantic_hash stored)"
  using assms
proof (cases rule: executeCommand_cases)
  case (executed semanticHash mid result l)
  then have "ledger mid = ledger db" using handler_fields by (simp add: desk_only_def)
  with executed show ?thesis
    by (auto simp: persist_call_Inr stored_response_def lookup_append response_row_def call_record_def)
qed simp

lemma call_replay:
  assumes "executeCommand digests env actor call handler db = Inr (db', resp)"
    and "hash_command digests' = hash_command digests"
  shows "executeCommand digests' env' actor call handler' db' = Inr (db', resp)"
  using call_stored [OF assms(1)] assms(2) by (auto simp: executeCommand_def)

text \<open>One audit event per accepted call, with the actor, the action and the entity of the result.\<close>

lemma call_audited:
  assumes "executeCommand digests env actor call handler db = Inr (db', resp)"
    and "stored_response (call_scope actor call) (xc_operationID call) (ledger db) = None"
  obtains mid result event where "handler db = Inr (mid, result)" "resp = cx_Response result"
    "db' = mid\<lparr>ledger := ledger db'\<rparr>" "l_audit_events (ledger db') = l_audit_events (ledger db) @ [event]"
    "ae_operation_id event = Some (xc_operationID call)" "ae_actor_subject_id event = Some (SubjectID actor)"
    "ae_action event = cx_Action result" "ae_entity_id event = cx_EntityID result"
    "ae_entity_version event = cx_EntityVersion result" "ae_after_status event = cx_AfterStatus result"
  using assms(1)
proof (cases rule: executeCommand_cases)
  case replayed
  with assms(2) show thesis by simp
next
  case (executed semanticHash mid result l)
  then have "ledger mid = ledger db" using handler_fields by (simp add: desk_only_def)
  with executed show thesis
    by (intro that [of mid result "call_audit_row (call_record env actor call semanticHash result)"])
      (auto simp: persist_call_Inr call_audit_row_def audit_row_def call_record_def)
qed

end

section \<open>The statements\<close>

lemma desk_only_trans: "desk_only db mid \<Longrightarrow> desk_only mid db' \<Longrightarrow> desk_only db db'"
  by (auto simp: desk_only_def settled_def intro: prefix_order.trans)

lemma update_assignment_Inr:
  "update_assignment assignmentID matches change db = Inr (updated, db') \<longleftrightarrow>
     (\<forall>a \<in> set (audit_assignments db). aa_id a = assignmentID \<longrightarrow> matches a \<longrightarrow> assignment_check (change a)) \<and>
     updated = (\<exists>a \<in> set (audit_assignments db). aa_id a = assignmentID \<and> matches a) \<and>
     db' = db\<lparr>audit_assignments := map (\<lambda>a. if aa_id a = assignmentID \<and> matches a then change a else a)
       (audit_assignments db)\<rparr>"
  by (auto simp: update_assignment_def Let_def list_ex_iff)

lemma updateAssignmentStatus_Inr:
  assumes "updateAssignmentStatus env current status now db = Inr (output, db')"
  obtains "update_assignment (an_ID current)
       (\<lambda>a. aa_revision a = an_Revision current \<and> aa_tombstoned_at a = None)
       (\<lambda>a. a\<lparr>aa_status := status, aa_revision := aa_revision a + 1, aa_updated_at := now\<rparr>) db = Inr (True, db')"
    "getAssignmentForUpdate env (an_ID current) db' = Inr output"
  using assms by (auto simp: updateAssignmentStatus_def bind_result_Inr if_Inl_Inr)

lemma getAssignment_Inr:
  "getAssignmentForUpdate env assignmentID db = Inr current \<longleftrightarrow>
     (\<exists>a. current_assignment assignmentID db = Some a \<and> current = assignment_view env a)"
  by (auto simp: getAssignmentForUpdate_def split: option.splits)

lemma consume_Inr:
  assumes "consumePreparationPreview digests previewID previewDigest assignmentID revision kind subject snapshot now db = Inr db'"
  obtains p where "lookup ep_id previewID (edit_previews (preparation db)) = Some p"
    "hash_edit digests snapshot = Some (ep_edit_digest p)" "ep_edit_digest p = previewDigest"
    "ep_assignment_id p = assignmentID" "ep_assignment_revision p = revision" "ep_edit_kind p = kind"
    "ep_actor_subject_id p = subject" "now < ep_expires_at p"
    "\<forall>c \<in> set (preview_consumptions (preparation db)). ec_preview_id c \<noteq> previewID"
    "db' = db\<lparr>preparation := (preparation db)\<lparr>preview_consumptions := preview_consumptions (preparation db) @
       [\<lparr>ec_preview_id = previewID, ec_consumed_by_subject_id = subject, ec_consumed_at = now\<rparr>]\<rparr>\<rparr>"
  using assms by (auto simp: consumePreparationPreview_def list_ex_iff if_Inl_Inr split: option.splits)

lemma record_edit_Inr:
  assumes "recordPreparationEdit digests assignmentID revision kind actor snapshot db = Inr db'"
  obtains rows where "db' = db\<lparr>preparation := (preparation db)\<lparr>edit_events := rows\<rparr>\<rparr>"
    "prefix (edit_events (preparation db)) rows"
  using assms by (auto simp: recordPreparationEdit_def Let_def bind_result_Inr insert_row_Inr split: option.splits)

lemma store_preview_Inr:
  assumes "store_preview digests env actor current assignmentID revision kind op key snapshot db = Inr (db', stored)"
  obtains digest rows where "hash_edit digests snapshot = Some digest"
    "insert_preview (preview_row digests env actor assignmentID revision kind op key snapshot digest)
       (edit_previews (preparation db)) = Inr rows"
    "find (same_preview (preview_row digests env actor assignmentID revision kind op key snapshot digest)) rows =
       Some stored"
    "db' = db\<lparr>preparation := (preparation db)\<lparr>edit_previews := rows\<rparr>\<rparr>"
  using assms by (auto simp: store_preview_def Let_def bind_result_Inr split: option.split_asm)

section \<open>The handlers\<close>

lemma Prepare_fields: "Prepare_handler env actor command db = Inr (db', result) \<Longrightarrow> desk_only db db'"
  by (auto simp: Prepare_handler_def check_error_Inr Let_def bind_result_Inr insert_row_Inr if_Inl_Inr
      desk_only_def settled_def split: option.splits)

lemma AssignLead_fields: "AssignLead_handler env actor command db = Inr (db', result) \<Longrightarrow> desk_only db db'"
  by (auto simp: AssignLead_handler_def check_error_Inr Let_def bind_result_Inr insert_row_Inr if_Inl_Inr
      update_assignment_Inr desk_only_def settled_def split: option.splits)

lemma PreviewTeam_fields:
  "PreviewTeam_handler digests env actor command members db = Inr (db', result) \<Longrightarrow> desk_only db db'"
  by (auto simp: PreviewTeam_handler_def check_error_Inr bind_result_Inr if_Inl_Inr desk_only_def settled_def
      elim!: store_preview_Inr)

lemma PreviewQuestions_fields:
  "PreviewQuestions_handler digests env actor command coverage db = Inr (db', result) \<Longrightarrow> desk_only db db'"
  by (auto simp: PreviewQuestions_handler_def check_error_Inr bind_result_Inr if_Inl_Inr desk_only_def settled_def
      elim!: store_preview_Inr)

text \<open>What a successful run of each later handler went through.\<close>

lemma assignment_view_fields [simp]:
  "an_ID (assignment_view env a) = aa_id a"
  "an_PlanningItemID (assignment_view env a) = or_empty (aa_planning_item_id a)"
  "an_ReleasedScopeSnapshotID (assignment_view env a) = or_empty (aa_released_scope_snapshot_id a)"
  "an_InspectionID (assignment_view env a) = or_empty (aa_inspection_id a)"
  "an_OrganizationID (assignment_view env a) = aa_organization_id a"
  "an_LeadSubjectID (assignment_view env a) = or_empty (aa_lead_subject_id a)"
  "an_Status (assignment_view env a) = aa_status a"
  "an_Revision (assignment_view env a) = aa_revision a"
  by (simp_all add: assignment_view_def)

lemma AssignTeam_handler_Inr:
  assumes "AssignTeam_handler digests env actor command members db = Inr (db', result)"
  obtains a consumed updated mid where
    "current_assignment (mt_AssignmentID command) db = Some a"
    "CanConfigureTeam actor (or_empty (aa_lead_subject_id a))" "require_lead_role env actor db = None"
    "aa_revision a = mt_ExpectedRevision command" "aa_status a \<in> set preparation_statuses"
    "aa_status a = StatusQuestionsAssigned \<Longrightarrow> \<not> has_confirmed_preparation (mt_AssignmentID command) db"
    "consumePreparationPreview digests (mt_PreviewID command) (mt_PreviewDigest command)
       (mt_AssignmentID command) (mt_ExpectedRevision command) ''TEAM'' (SubjectID actor)
       (TeamSnapshot members) (env_clock env 0) db = Inr consumed"
    "require_inspectors env members consumed = None"
    "updateAssignmentStatus env (assignment_view env a) StatusTeamAssigned (env_clock env 1)
       (AssignTeam_rows env command members consumed) = Inr (updated, mid)"
    "recordPreparationEdit digests (mt_AssignmentID command) (an_Revision updated) ''TEAM'' actor
       (TeamEdit members (listQuestionAssignments (mt_AssignmentID command) mid)) mid = Inr db'"
    "cx_Action result = ''assignment.team_assigned''"
  using assms
  by (clarsimp simp: AssignTeam_handler_def getAssignment_Inr bind_result_Inr check_error_Inr if_Inl_Inr Let_def)

lemma AssignQuestions_handler_Inr:
  assumes "AssignQuestions_handler digests env actor command coverage db = Inr (db', result)"
  obtains a consumed allowed updated mid where
    "current_assignment (mq_AssignmentID command) db = Some a"
    "CanConfigureTeam actor (or_empty (aa_lead_subject_id a))" "require_lead_role env actor db = None"
    "aa_revision a = mq_ExpectedRevision command" "aa_status a \<in> {StatusTeamAssigned, StatusQuestionsAssigned}"
    "aa_status a = StatusQuestionsAssigned \<Longrightarrow> \<not> has_confirmed_preparation (mq_AssignmentID command) db"
    "consumePreparationPreview digests (mq_PreviewID command) (mq_PreviewDigest command)
       (mq_AssignmentID command) (mq_ExpectedRevision command) ''QUESTION_COVERAGE'' (SubjectID actor)
       (CoverageSnapshot (mq_OperationKind command) coverage) (env_clock env 0) db = Inr consumed"
    "templateQuestionIDs (or_empty (aa_inspection_id a)) (or_empty (aa_planning_item_id a)) consumed = Inr allowed"
    "list_all (assignable (mq_AssignmentID command) (mq_OperationKind command) allowed consumed) coverage"
    "updateAssignmentStatus env (assignment_view env a) StatusQuestionsAssigned (env_clock env 1)
       (consumed\<lparr>audit_question_assignments := cover_rows (mq_AssignmentID command) (mq_OperationKind command)
          (env_clock env 1) coverage (audit_question_assignments consumed)\<rparr>) = Inr (updated, mid)"
    "recordPreparationEdit digests (mq_AssignmentID command) (an_Revision updated) ''QUESTION_COVERAGE'' actor
       (CoverageEdit (mq_OperationKind command) coverage (listQuestionAssignments (mq_AssignmentID command)
          (consumed\<lparr>audit_question_assignments := cover_rows (mq_AssignmentID command) (mq_OperationKind command)
             (env_clock env 1) coverage (audit_question_assignments consumed)\<rparr>))) mid = Inr db'"
    "cx_Action result = ''assignment.questions_assigned''"
  using assms
  by (clarsimp simp: AssignQuestions_handler_def getAssignment_Inr bind_result_Inr check_error_Inr if_Inl_Inr Let_def)

lemma AssignTeam_fields:
  "AssignTeam_handler digests env actor command members db = Inr (db', result) \<Longrightarrow> desk_only db db'"
  by (erule AssignTeam_handler_Inr, erule consume_Inr, erule updateAssignmentStatus_Inr, erule record_edit_Inr)
    (simp add: update_assignment_Inr AssignTeam_rows_def Let_def desk_only_def settled_def)

lemma AssignQuestions_fields:
  "AssignQuestions_handler digests env actor command coverage db = Inr (db', result) \<Longrightarrow> desk_only db db'"
  by (erule AssignQuestions_handler_Inr, erule consume_Inr, erule updateAssignmentStatus_Inr, erule record_edit_Inr)
    (simp add: update_assignment_Inr desk_only_def settled_def)

lemma ConfirmPreparation_handler_Inr:
  assumes "ConfirmPreparation_handler digests env actor command db = Inr (db', result)"
  obtains a joined draft snapshot where
    "current_assignment (cf_AssignmentID command) db = Some a"
    "aa_revision a = cf_ExpectedAssignmentRevision command" "aa_status a = StatusQuestionsAssigned"
    "require_scope env actor (or_empty (aa_planning_item_id a)) '''' db = None"
    "confirmation_context (cf_AssignmentID command) db = Some (joined, draft, snapshot)"
    "0 < ss_selected_question_count snapshot"
    "\<not> list_ex (\<lambda>p. ph_assignment_id p = Some (cf_AssignmentID command) \<and>
       ph_released_scope_snapshot_id p = ss_id snapshot \<and> ph_status p = ''CONFIRMED'')
       (preparation_snapshots (preparation db))"
    "\<forall>c \<in> set (coverage_rows (cf_AssignmentID command) db). active_member (cf_AssignmentID command) (qc_SubjectID c) db"
    "\<forall>q \<in> set (snapshot_question_ids (ss_id snapshot) db).
       subjects_of (coverage_rows (cf_AssignmentID command) db) q \<noteq> []"
    "int (length (snapshot_question_ids (ss_id snapshot) db)) = ss_selected_question_count snapshot"
    "int (length (remdups (map qc_QuestionID (coverage_rows (cf_AssignmentID command) db)))) =
       ss_selected_question_count snapshot"
    "confirm_writes digests env actor (assignment_view env a) joined snapshot
       (coverage_entries (coverage_rows (cf_AssignmentID command) db) (snapshot_question_ids (ss_id snapshot) db)) db =
       Inr (db', result)"
  using assms
  by (clarsimp simp: ConfirmPreparation_handler_def getAssignment_Inr bind_result_Inr check_error_Inr if_Inl_Inr Let_def
      list_ex_iff split: option.splits)

lemma confirm_writes_Inr:
  assumes "confirm_writes digests env actor current assignment snapshot entries db = Inr (db', result)"
  obtains payload revision preparationID row questions where
    "payload = preparation_payload current (an_ID current) snapshot entries"
    "revision = next_preparation_revision (ss_id snapshot) db"
    "preparationID = ''preparation:'' @ an_ID current @ '':'' @ decimal (sint revision)"
    "row = confirmed_snapshot digests env actor current preparationID revision payload"
    "\<not> preparation_conflict row (preparation_snapshots (preparation db))" "preparation_check row"
    "insert_questions db (question_rows preparationID (ss_id snapshot) entries) (preparation_questions (preparation db)) =
       Inr questions"
    "update_assignment (an_ID current)
       (\<lambda>a. aa_status a = StatusQuestionsAssigned \<and> aa_revision a = an_Revision current)
       (\<lambda>a. a\<lparr>aa_revision := aa_revision a + 1, aa_updated_at := env_clock env 0\<rparr>)
       (db\<lparr>preparation := (preparation db)\<lparr>preparation_snapshots := preparation_snapshots (preparation db) @ [row],
          preparation_questions := questions\<rparr>\<rparr>) = Inr (True, db')"
    "cx_Action result = ''planning.preparation_confirmed''"
  using assms
  by (auto simp: confirm_writes_def Let_def bind_result_Inr insert_row_Inr if_Inl_Inr)

lemma ConfirmPreparation_fields:
  "ConfirmPreparation_handler digests env actor command db = Inr (db', result) \<Longrightarrow> desk_only db db'"
  by (erule ConfirmPreparation_handler_Inr, erule confirm_writes_Inr)
    (simp add: update_assignment_Inr desk_only_def settled_def)

lemma schedule_fields: "schedule_inspection env inspectionID db = Inr (scheduled, db') \<Longrightarrow> desk_only db db'"
  by (auto simp: schedule_inspection_def Let_def if_Inl_Inr desk_only_def settled_def)

lemma update_assignment_fields: "update_assignment assignmentID matches change db = Inr (updated, db') \<Longrightarrow> desk_only db db'"
  by (simp add: update_assignment_Inr desk_only_def settled_def)

lemma set_alternative_fields: "desk_only db (set_alternative env a inspectionID date db)"
  by (simp add: set_alternative_def desk_only_def settled_def)

text \<open>An accepted response: one assignment changes, then the inspection or the alternative date.\<close>

lemma RespondCoordination_handler_Inr:
  assumes "RespondCoordination_handler env command db = Inr (db', result)"
  obtains row mid scheduled nextStatus where
    "coordination_context (\<lambda>_. True) (rp_InspectionID command) (rp_OrganizationID command) db = Some row"
    "nextStatus = (if rp_Decision command = CoordinationProposeAlternative then StatusAlternativeProposed
       else StatusConfirmed)"
    "aa_revision (cw_assignment row) = rp_ExpectedRevision command"
    "aa_status (cw_assignment row) \<in> {StatusAwaitingAuditeeConfirmation, StatusAlternativeProposed}"
    "rp_Decision command = CoordinationConfirm \<Longrightarrow> aa_status (cw_assignment row) = StatusAwaitingAuditeeConfirmation"
    "update_assignment (aa_id (cw_assignment row)) (\<lambda>b. aa_revision b = aa_revision (cw_assignment row))
       (\<lambda>b. b\<lparr>aa_status := nextStatus, aa_revision := aa_revision b + 1, aa_updated_at := env_clock env 0\<rparr>) db =
       Inr (True, mid)"
    "if rp_Decision command = CoordinationConfirm
     then schedule_inspection env (rp_InspectionID command) mid = Inr (True, scheduled) else scheduled = mid"
    "db' = (case rp_AlternativeDate command of None \<Rightarrow> scheduled
       | Some date \<Rightarrow> set_alternative env (cw_assignment row) (rp_InspectionID command) date scheduled)"
  using assms
  by (cases "rp_Decision command = CoordinationConfirm"; cases "rp_Decision command = CoordinationProposeAlternative")
    (clarsimp simp: RespondCoordination_handler_def Let_def bind_result_Inr if_Inl_Inr if_Inr_Inl case_option_Inr)+

lemma RespondCoordination_fields:
  assumes "RespondCoordination_handler env command db = Inr (db', result)"
  shows "desk_only db db'"
  using assms
  by (rule RespondCoordination_handler_Inr)
    (auto split: option.splits if_split_asm
      intro: desk_only_trans set_alternative_fields dest!: update_assignment_fields schedule_fields)

lemma review_writes_fields: "review_writes env command a alternative db = Inr db' \<Longrightarrow> desk_only db db'"
  by (auto simp: review_writes_def Let_def bind_result_Inr update_assignment_Inr schedule_inspection_def if_Inl_Inr
      desk_only_def settled_def split: if_split_asm)

lemma ReviewCoordination_fields:
  "ReviewCoordination_handler env actor command db = Inr (db', result) \<Longrightarrow> desk_only db db'"
  by (auto simp: ReviewCoordination_handler_def Let_def bind_result_Inr if_Inl_Inr check_error_Inr
      case_option_Inr split: if_split_asm dest: review_writes_fields)

end
