(* ===== verification/PreparationContracts.thy ===== *)
theory PreparationContracts
  imports PreparationFrames
begin

text \<open>
  Every handler of the preparation keeps the contract of \<open>PreparationFrames\<close>, and the materialization of
  an inspection keeps the contract of the command envelope: the interpretations that put these commands
  into the runs of the system.
\<close>

section \<open>The preparation commands\<close>

interpretation prepare_audit: assignment_service "Prepare_handler env actor command" for env actor command
  by unfold_locales (rule Prepare_fields)

interpretation assign_lead: assignment_service "AssignLead_handler env actor command" for env actor command
  by unfold_locales (rule AssignLead_fields)

interpretation preview_team: assignment_service "PreviewTeam_handler digests env actor command members"
  for digests env actor command members
  by unfold_locales (rule PreviewTeam_fields)

interpretation preview_questions: assignment_service "PreviewQuestions_handler digests env actor command coverage"
  for digests env actor command coverage
  by unfold_locales (rule PreviewQuestions_fields)

interpretation assign_team: assignment_service "AssignTeam_handler digests env actor command members"
  for digests env actor command members
  by unfold_locales (rule AssignTeam_fields)

interpretation assign_questions: assignment_service "AssignQuestions_handler digests env actor command coverage"
  for digests env actor command coverage
  by unfold_locales (rule AssignQuestions_fields)

interpretation confirm_preparation: assignment_service "ConfirmPreparation_handler digests env actor command"
  for digests env actor command
  by unfold_locales (rule ConfirmPreparation_fields)

interpretation respond_coordination: assignment_service "RespondCoordination_handler env command" for env command
  by unfold_locales (rule RespondCoordination_fields)

interpretation review_coordination: assignment_service "ReviewCoordination_handler env actor command"
  for env actor command
  by unfold_locales (rule ReviewCoordination_fields)

text \<open>The calls of the service, and what each runs after its checks.\<close>

datatype AssignmentCommand =
    CmdPrepare PrepareCommand
  | CmdAssignLead AssignLeadCommand
  | CmdPreviewTeam PreviewTeamCommand
  | CmdAssignTeam AssignTeamCommand
  | CmdPreviewQuestions PreviewQuestionsCommand
  | CmdAssignQuestions AssignQuestionsCommand
  | CmdConfirmPreparation ConfirmPreparationCommand
  | CmdRespondCoordination RespondCoordinationCommand
  | CmdReviewCoordination ReviewCoordinationCommand

fun assignment_dispatch :: "Digests \<Rightarrow> Env \<Rightarrow> Principal \<Rightarrow> AssignmentCommand \<Rightarrow> DB \<Rightarrow> app_error + (DB \<times> Response)" where
  "assignment_dispatch digests env actor (CmdPrepare c) db = Prepare digests env actor c db"
| "assignment_dispatch digests env actor (CmdAssignLead c) db = AssignLead digests env actor c db"
| "assignment_dispatch digests env actor (CmdPreviewTeam c) db = PreviewTeam digests env actor c db"
| "assignment_dispatch digests env actor (CmdAssignTeam c) db = AssignTeam digests env actor c db"
| "assignment_dispatch digests env actor (CmdPreviewQuestions c) db = PreviewQuestions digests env actor c db"
| "assignment_dispatch digests env actor (CmdAssignQuestions c) db = AssignQuestions digests env actor c db"
| "assignment_dispatch digests env actor (CmdConfirmPreparation c) db = ConfirmPreparation digests env actor c db"
| "assignment_dispatch digests env actor (CmdRespondCoordination c) db = RespondAuditeeCoordination digests env actor c db"
| "assignment_dispatch digests env actor (CmdReviewCoordination c) db = ReviewAuditeeCoordination digests env actor c db"

text \<open>The call that an accepted command makes and the handler inside it.\<close>

inductive assignment_run :: "Digests \<Rightarrow> Env \<Rightarrow> Principal \<Rightarrow> AssignmentCommand \<Rightarrow> assignmentCall \<Rightarrow>
    assignment_handler \<Rightarrow> bool" for digests env actor where
  prepare: "CanPrepare actor \<Longrightarrow>
    assignment_run digests env actor (CmdPrepare c) (Prepare_call c) (Prepare_handler env actor c)"
| lead: "CanAssignLead actor \<Longrightarrow>
    assignment_run digests env actor (CmdAssignLead c) (AssignLead_call c) (AssignLead_handler env actor c)"
| preview_team: "normalizedIDs (vt_MemberSubjectIDs c) = Inr members \<Longrightarrow>
    assignment_run digests env actor (CmdPreviewTeam c) (PreviewTeam_call c members)
      (PreviewTeam_handler digests env actor c members)"
| team: "normalizedIDs (mt_MemberSubjectIDs c) = Inr members \<Longrightarrow>
    assignment_run digests env actor (CmdAssignTeam c) (AssignTeam_call c members)
      (AssignTeam_handler digests env actor c members)"
| preview_questions: "normalizedQuestionAssignments (vq_QuestionAssignments c) = Inr coverage \<Longrightarrow>
    validQuestionCoverageOperation (vq_OperationKind c) \<Longrightarrow>
    assignment_run digests env actor (CmdPreviewQuestions c) (PreviewQuestions_call c coverage)
      (PreviewQuestions_handler digests env actor c coverage)"
| questions: "normalizedQuestionAssignments (mq_QuestionAssignments c) = Inr coverage \<Longrightarrow>
    validQuestionCoverageOperation (mq_OperationKind c) \<Longrightarrow>
    assignment_run digests env actor (CmdAssignQuestions c) (AssignQuestions_call c coverage)
      (AssignQuestions_handler digests env actor c coverage)"
| confirm: "CanPrepare actor \<Longrightarrow>
    assignment_run digests env actor (CmdConfirmPreparation c) (ConfirmPreparation_call c)
      (ConfirmPreparation_handler digests env actor c)"
| respond: "CanViewAuditeeCoordination actor \<Longrightarrow> OrganizationID actor = rp_OrganizationID c \<Longrightarrow>
    respond_decision_check c \<Longrightarrow>
    assignment_run digests env actor (CmdRespondCoordination c) (RespondCoordination_call c)
      (RespondCoordination_handler env c)"
| review: "HasRole actor [RoleDepartmentManager] \<Longrightarrow>
    rw_Decision c \<in> {ReviewCoordinationAccept, ReviewCoordinationReturn} \<Longrightarrow>
    assignment_run digests env actor (CmdReviewCoordination c) (ReviewCoordination_call c)
      (ReviewCoordination_handler env actor c)"

lemma assignment_dispatch_Inr:
  assumes "assignment_dispatch digests env actor c db = Inr (db', resp)"
  obtains call handler where "assignment_run digests env actor c call handler"
    "executeCommand digests env actor call handler db = Inr (db', resp)"
  using assms
  by (cases c)
    (auto simp: Prepare_def AssignLead_def PreviewTeam_def AssignTeam_def PreviewQuestions_def AssignQuestions_def
      ConfirmPreparation_def RespondAuditeeCoordination_def ReviewAuditeeCoordination_def
      intro: assignment_run.intros that split: if_split_asm sum.split_asm)

lemma assignment_run_service: "assignment_run digests env actor c call handler \<Longrightarrow> assignment_service handler"
  by (induction rule: assignment_run.induct)
    (simp_all add: prepare_audit.assignment_service_axioms assign_lead.assignment_service_axioms
      preview_team.assignment_service_axioms preview_questions.assignment_service_axioms
      assign_team.assignment_service_axioms assign_questions.assignment_service_axioms
      confirm_preparation.assignment_service_axioms respond_coordination.assignment_service_axioms
      review_coordination.assignment_service_axioms)

lemma assignment_dispatch_frame:
  assumes "assignment_dispatch digests env actor c db = Inr (db', resp)"
  shows "work_frame db db'"
  using assms
  by (rule assignment_dispatch_Inr) (rule assignment_service.call_frame [OF assignment_run_service])

interpretation assignment_command: transaction
  "\<lambda>db db'. \<exists>digests env actor c resp. assignment_dispatch digests env actor c db = Inr (db', resp)"
  by (rule working_transaction) (auto dest: assignment_dispatch_frame)


section \<open>Materialization\<close>

text \<open>What the writes of a materialization store.\<close>

lemma materialize_writes_Inr:
  assumes "materialize_writes digests env command inspectionID noticePolicy revision confirmed content db = Inr (planned, db')"
  obtains assigned mid planned_db questions where
    "\<not> package_conflict (package_of digests env command inspectionID content) (inspection_packages db)"
    "\<forall>k \<in> set (inspection_checklists db). k_inspection_id k \<noteq> inspectionID"
    "insert_assignments (materialized_assignments inspectionID (revision + 1) (ks_questions content))
       (question_assignments db) = Inr assigned"
    "update_assignment (mi_AssignmentID command) (\<lambda>a. aa_revision a = revision)
       (\<lambda>a. a\<lparr>aa_inspection_id := Some inspectionID, aa_status := materialize_status noticePolicy,
           aa_revision := aa_revision a + 1, aa_updated_at := env_clock env 2\<rparr>)
       (db\<lparr>inspection_packages := inspection_packages db @ [package_of digests env command inspectionID content],
           inspection_checklists := inspection_checklists db @ [\<lparr>k_inspection_id = inspectionID,
             k_status = KStatusNotStarted, k_revision = 1, k_submitted_at = None, k_reopened_at = None,
             k_reopen_reason = None\<rparr>], question_assignments := assigned\<rparr>) = Inr (True, mid)"
    "plan_inspection env inspectionID (materialize_status noticePolicy) mid = Inr (planned, planned_db)"
    "\<not> preparation_conflict (materialized_preparation env confirmed) (preparation_snapshots (preparation planned_db))"
    "copy_questions (ph_id (materialized_preparation env confirmed)) (ph_id confirmed) planned_db = Inr questions"
    "db' = planned_db\<lparr>preparation := (preparation planned_db)\<lparr>preparation_snapshots :=
       preparation_snapshots (preparation planned_db) @ [materialized_preparation env confirmed],
       preparation_questions := questions\<rparr>\<rparr>"
  using assms
  by (clarsimp simp: materialize_writes_def Let_def bind_result_Inr insert_row_Inr if_Inl_Inr list_ex_iff)

lemma plan_inspection_Inr:
  assumes "plan_inspection env inspectionID status db = Inr (planned, db')"
  obtains i rows where "find (\<lambda>i. in_id i = inspectionID \<and> in_status i = ''PREPARATION'') (inspections db) = Some i"
    "planned = in_revision i + 1" "db' = db\<lparr>inspections := rows\<rparr>"
    "rows = map (\<lambda>i. if in_id i = inspectionID \<and> in_status i = ''PREPARATION''
          then i\<lparr>in_status := status, in_revision := in_revision i + 1, in_updated_at := env_clock env 2\<rparr>
          else i) (inspections db)"
  using assms by (auto simp: plan_inspection_def if_Inl_Inr split: option.splits)

lemma materializeCanonical_Inr:
  assumes "materializeCanonicalInspection digests env command inspectionID organizationID inspectionStatus revision
    snapshotID db = Inr (db', result)"
  obtains snapshot noticePolicy confirmed planned where
    "released_scope snapshotID db = Some snapshot"
    "noticePolicy \<in> {''ADVANCE'', ''WITHHELD''}"
    "current_confirmations (mi_AssignmentID command) (ss_id snapshot) revision db = [confirmed]"
    "prepared_question_count (ph_id confirmed) (ss_id snapshot) db = ss_selected_question_count snapshot"
    "\<forall>q \<in> set (package_questions (ss_catalog_id snapshot) (ss_id snapshot) (ph_id confirmed) db).
       kq_id q \<noteq> '''' \<and> kq_assignedInspectorUserIds q \<noteq> []"
    "int (length (package_questions (ss_catalog_id snapshot) (ss_id snapshot) (ph_id confirmed) db)) =
       ss_selected_question_count snapshot"
    "materialize_writes digests env command inspectionID noticePolicy revision confirmed
       (package_snapshot snapshot confirmed
         (package_questions (ss_catalog_id snapshot) (ss_id snapshot) (ph_id confirmed) db)) db = Inr (planned, db')"
    "tn_Action result = ''audit.planned''" "tn_EntityID result = inspectionID"
  using assms
  by (clarsimp simp: materializeCanonicalInspection_def Let_def bind_result_Inr if_Inl_Inr case_option_Inr case_sum_Inr case_singleton_Inr
      list_ex_iff)


text \<open>The identifier of the inspection and the database in which it exists.\<close>

definition inspection_id_of :: "MaterializeInspectionCommand \<Rightarrow> AuditAssignment \<Rightarrow> string" where
  "inspection_id_of command a =
     (if or_empty (aa_inspection_id a) = '''' then ''inspection:'' @ mi_AssignmentID command
      else or_empty (aa_inspection_id a))"

lemma inspection_id_of_case:
  "(case aa_inspection_id a of None \<Rightarrow> ''inspection:'' @ mi_AssignmentID command
    | Some i \<Rightarrow> if i = '''' then ''inspection:'' @ mi_AssignmentID command else i) = inspection_id_of command a"
  by (simp add: inspection_id_of_def or_empty_def split: option.split)

lemma materialize_context_Some:
  "materialize_context assignmentID db = Some (a, i) \<Longrightarrow> current_assignment assignmentID db = Some a"
  by (auto simp: materialize_context_def split: option.splits if_splits)

lemma Materialize_handler_Inr:
  assumes "MaterializeInspection_handler digests env actor command db = Inr (db', result)"
  obtains a item created server snapshotID inspectionStatus where
    "HasRole actor [RoleDepartmentManager]"
    "current_assignment (mi_AssignmentID command) db = Some a" "aa_status a = StatusQuestionsAssigned"
    "aa_revision a = mi_ExpectedAssignmentRevision command"
    "require_scope env actor (or_empty (aa_planning_item_id a)) '''' db = None"
    "released_item (or_empty (aa_planning_item_id a)) db = Some item"
    "if or_empty (aa_inspection_id a) = ''''
     then (\<forall>i \<in> set (inspections db). in_id i \<noteq> inspection_id_of command a) \<and>
       created = db\<lparr>inspections := inspections db @
         [materialized_inspection env (inspection_id_of command a) (aa_organization_id a) item]\<rparr>
     else created = db"
    "aa_released_scope_snapshot_id a = Some snapshotID"
    "server = server_command env command (inspection_id_of command a) created"
    "materializeCanonicalInspection digests env server (inspection_id_of command a) (aa_organization_id a)
       inspectionStatus (aa_revision a) snapshotID created = Inr (db', result)"
  using assms
proof -
  from assms obtain a inspection draft item where
    h: "materialize_context (mi_AssignmentID command) db = Some (a, inspection)" "aa_status a = StatusQuestionsAssigned"
      "aa_revision a = mi_ExpectedAssignmentRevision command" "HasRole actor [RoleDepartmentManager]"
      "require_scope env actor (or_empty (aa_planning_item_id a)) '''' db = None"
      "released_item (or_empty (aa_planning_item_id a)) db = Some item"
    and rest: "bind_result (if or_empty (aa_inspection_id a) = ''''
        then bind_result (insert_row '''' (list_ex (\<lambda>i. in_id i = inspection_id_of command a) (inspections db))
          (materialized_inspection env (inspection_id_of command a) (aa_organization_id a) item) (inspections db))
          (\<lambda>rows. Inr (db\<lparr>inspections := rows\<rparr>))
        else Inr db) (\<lambda>created.
      check_error (validate_released digests env actor draft (aa_released_scope_snapshot_id a) created)
        (if or_empty (aa_released_scope_snapshot_id a) = ''''
         then Inl (AppError ErrConflict ''released canonical scope is required'')
         else if mi_TemplateVersionID command \<noteq> '''' \<or>
           or_empty (json_text_at ''templateVersionId'' (pid_values draft)) \<noteq> ''''
         then Inl (AppError ErrConflict ''canonical materialization cannot accept a checklist-template source'')
         else materializeCanonicalInspection digests env (server_command env command (inspection_id_of command a) created)
           (inspection_id_of command a) (aa_organization_id a)
           (case inspection of None \<Rightarrow> ''PREPARATION'' | Some i \<Rightarrow> in_status i) (aa_revision a)
           (or_empty (aa_released_scope_snapshot_id a)) created)) = Inr (db', result)"
    by (clarsimp simp: MaterializeInspection_handler_def Let_def if_Inl_Inr check_error_Inr case_option_Inr
        inspection_id_of_case split: prod.split_asm)
  have snap: "aa_released_scope_snapshot_id a = Some s" if "or_empty (aa_released_scope_snapshot_id a) = s" "s \<noteq> ''''" for s
    using that by (auto simp: or_empty_def split: option.splits)
  from rest show thesis
    by (clarsimp simp: bind_result_Inr check_error_Inr if_Inl_Inr insert_row_Inr list_ex_iff split: if_split_asm)
      (use h materialize_context_Some [OF h(1)] snap in \<open>auto intro!: that\<close>)
qed

lemma insert_questions_Inr:
  "insert_questions db qs rows = Inr rows' \<Longrightarrow> rows' = rows @ qs"
  by (induction qs arbitrary: rows) (fastforce simp: bind_result_Inr insert_row_Inr)+

lemma materialize_writes_fields:
  assumes "materialize_writes digests env command inspectionID noticePolicy revision confirmed content db = Inr (planned, db')"
  shows "desk_only db db'"
  using assms
  by (rule materialize_writes_Inr)
    (auto elim!: plan_inspection_Inr simp: update_assignment_Inr desk_only_def settled_def)

lemma Materialize_fields:
  assumes "MaterializeInspection_handler digests env actor command db = Inr (db', result)"
  shows "desk_only db db'"
proof (rule Materialize_handler_Inr [OF assms])
  fix a item created server snapshotID inspectionStatus
  assume created: "if or_empty (aa_inspection_id a) = ''''
     then (\<forall>i \<in> set (inspections db). in_id i \<noteq> inspection_id_of command a) \<and>
       created = db\<lparr>inspections := inspections db @
         [materialized_inspection env (inspection_id_of command a) (aa_organization_id a) item]\<rparr>
     else created = db"
    and run: "materializeCanonicalInspection digests env server (inspection_id_of command a) (aa_organization_id a)
       inspectionStatus (aa_revision a) snapshotID created = Inr (db', result)"
  have "desk_only db created" using created by (auto simp: desk_only_def settled_def split: if_split_asm)
  moreover have "desk_only created db'"
    using run by (rule materializeCanonical_Inr) (rule materialize_writes_fields)
  ultimately show "desk_only db db'" by (rule desk_only_trans)
qed

interpretation materialize: finding_handler "MaterializeInspection_handler digests env actor command"
  for digests env actor command
  by unfold_locales (auto dest!: Materialize_fields simp: desk_only_def intro: settled_contract [THEN conjunct1]
      settled_contract [THEN conjunct2])

lemma persist_step: "persistCommandTransaction r l = Inr l' \<Longrightarrow> ledger_step l l'"
  using persist_wf [of r l l'] by (auto simp: ledger_step_def persistCommandTransaction_Inr ledger_grows_def)

lemma Materialize_frame:
  assumes "MaterializeInspection digests env actor command db = Inr (db', resp)"
  shows "work_frame db db'"
  using assms unfolding MaterializeInspection_def
proof (cases rule: executeTransition_cases)
  case (executed semanticHash mid result l)
  then have "desk_only db mid" by (intro Materialize_fields)
  with executed persist_step show ?thesis by (auto intro: desk_only_frame)
qed simp

interpretation materialize_command: transaction
  "\<lambda>db db'. \<exists>digests env actor c resp. MaterializeInspection digests env actor c db = Inr (db', resp)"
  by (rule working_transaction) (auto dest: Materialize_frame)


end
