(* ===== verification/SystemRuns.thy ===== *)
theory SystemRuns
  imports PreparationContracts
begin

text \<open>
  Runs of the whole system: any interleaving of the commands of \<open>internal/application\<close>, the Evidence
  uploads, the transactions of the scan worker and of the field clients (offline grants, synchronisation,
  attachment uploads), the preparation of audits and the materialization of inspections. One step is one
  committed transaction.
\<close>

section \<open>Commands\<close>

datatype Command =
    CmdSubmitCAP SubmitCAPCommand
  | CmdReviewCAP ReviewCAPCommand
  | CmdReviewEvidence ReviewEvidenceCommand
  | CmdAuthorizedClose AuthorizedCloseFindingCommand
  | CmdConvert ConvertPotentialFindingCommand
  | CmdDecideReport DecideReportCommand
  | CmdUpsertResponse UpsertChecklistResponseCommand
  | CmdSubmitChecklist SubmitChecklistCommand
  | CmdReopenChecklist ReopenChecklistCommand
  | CmdCreatePotential CreatePotentialFindingCommand
  | CmdDecidePotential DecidePotentialFindingCommand
  | CmdStartInspection StartInspectionCommand
  | CmdCreateOrganization CreateAdminOrganizationCommand
  | CmdCreateReminderRule CreateReminderRuleCommand
  | CmdCreateReport CreateReportVersionCommand

text \<open>\<open>parses\<close> and \<open>fresh\<close> are the two functions of the UUID package that \<open>StartInspection\<close> calls.\<close>

fun dispatch :: "(string \<Rightarrow> bool) \<Rightarrow> string \<Rightarrow> Env \<Rightarrow> Principal \<Rightarrow> Command \<Rightarrow> DB \<Rightarrow> app_error + (DB \<times> Response)" where
  "dispatch parses fresh env actor (CmdSubmitCAP c) db = SubmitCAP env actor c db"
| "dispatch parses fresh env actor (CmdReviewCAP c) db = ReviewCAP env actor c db"
| "dispatch parses fresh env actor (CmdReviewEvidence c) db = ReviewEvidence env actor c db"
| "dispatch parses fresh env actor (CmdAuthorizedClose c) db = AuthorizedCloseFinding env actor c db"
| "dispatch parses fresh env actor (CmdConvert c) db = ConvertPotentialFinding env actor c db"
| "dispatch parses fresh env actor (CmdDecideReport c) db = DecideReport env actor c db"
| "dispatch parses fresh env actor (CmdUpsertResponse c) db = UpsertChecklistResponse env actor c db"
| "dispatch parses fresh env actor (CmdSubmitChecklist c) db = SubmitChecklist env actor c db"
| "dispatch parses fresh env actor (CmdReopenChecklist c) db = ReopenChecklist env actor c db"
| "dispatch parses fresh env actor (CmdCreatePotential c) db = CreatePotentialFinding env actor c db"
| "dispatch parses fresh env actor (CmdDecidePotential c) db = DecidePotentialFinding env actor c db"
| "dispatch parses fresh env actor (CmdStartInspection c) db = StartInspection parses fresh env actor c db"
| "dispatch parses fresh env actor (CmdCreateOrganization c) db = CreateAdminOrganization env actor c db"
| "dispatch parses fresh env actor (CmdCreateReminderRule c) db = CreateReminderRule env actor c db"
| "dispatch parses fresh env actor (CmdCreateReport c) db = CreateReportVersion env actor c db"

text \<open>
  Every command is an envelope around a handler: \<open>prepare\<close> are the checks before the transaction, and
  the handler keeps the contract, so what the envelope guarantees holds of every command.
\<close>

fun prepare :: "(string \<Rightarrow> bool) \<Rightarrow> string \<Rightarrow> Principal \<Rightarrow> Command \<Rightarrow>
    app_error + (commandEnvelope \<times> (Env \<Rightarrow> handler))" where
  "prepare parses fresh actor (CmdSubmitCAP c) =
     Inr (SubmitCAP_envelope c, \<lambda>env. SubmitCAP_handler env actor c)"
| "prepare parses fresh actor (CmdReviewCAP c) =
     Inr (ReviewCAP_envelope c, \<lambda>env. ReviewCAP_handler env actor c)"
| "prepare parses fresh actor (CmdReviewEvidence c) =
     Inr (ReviewEvidence_envelope c, \<lambda>env. ReviewEvidence_handler env actor c)"
| "prepare parses fresh actor (CmdAuthorizedClose c) =
     Inr (AuthorizedCloseFinding_envelope c, \<lambda>env. AuthorizedCloseFinding_handler env actor c)"
| "prepare parses fresh actor (CmdConvert c) =
     Inr (ConvertPotentialFinding_envelope c, \<lambda>env. ConvertPotentialFinding_handler env actor c)"
| "prepare parses fresh actor (CmdDecideReport c) =
     Inr (DecideReport_envelope c, \<lambda>env. DecideReport_handler env actor c)"
| "prepare parses fresh actor (CmdUpsertResponse c) =
     Inr (UpsertChecklistResponse_envelope c, \<lambda>env. UpsertChecklistResponse_handler env actor c)"
| "prepare parses fresh actor (CmdSubmitChecklist c) =
     Inr (SubmitChecklist_envelope c, \<lambda>env. SubmitChecklist_handler env actor c)"
| "prepare parses fresh actor (CmdReopenChecklist c) =
     Inr (ReopenChecklist_envelope c, \<lambda>env. ReopenChecklist_handler env actor c)"
| "prepare parses fresh actor (CmdCreatePotential c) =
     bind_result (wrap_error ErrInvalid (normalizedUniqueIDs (pf_InspectionAttachmentIDs c)))
       (\<lambda>ids. Inr (CreatePotentialFinding_envelope c ids, \<lambda>env. CreatePotentialFinding_handler env actor c ids))"
| "prepare parses fresh actor (CmdDecidePotential c) =
     Inr (DecidePotentialFinding_envelope c, \<lambda>env. DecidePotentialFinding_handler env actor c)"
| "prepare parses fresh actor (CmdStartInspection c) =
     (if si_CorrelationID c = ''''
      then Inr (StartInspection_envelope c fresh, \<lambda>env. StartInspection_handler env actor c)
      else if \<not> parses (si_CorrelationID c)
      then Inl (AppError ErrInvalid ''correlation ID must be a UUID'')
      else Inr (StartInspection_envelope c (si_CorrelationID c), \<lambda>env. StartInspection_handler env actor c))"
| "prepare parses fresh actor (CmdCreateOrganization input) =
     (let c = trim_organization input in
      if \<not> HasRole actor [RoleAdmin] then Inl (AppError ErrForbidden ''Admin authority is required'')
      else if ko_OperationID c = '''' \<or> ko_IdempotencyKey c = '''' \<or> ko_OrganizationID c = '''' \<or>
              ko_LegalName c = '''' \<or>
              ko_OrganizationType c \<notin> {''AUTHORITY'', ''OPERATOR'', ''SERVICE_PROVIDER''}
      then Inl (AppError ErrInvalid '''')
      else Inr (CreateAdminOrganization_envelope c, \<lambda>env. CreateAdminOrganization_handler env c))"
| "prepare parses fresh actor (CmdCreateReminderRule c) =
     (if \<not> HasRole actor [RoleAdmin] then Inl (AppError ErrForbidden ''Admin authority is required'')
      else if km_OperationID c = '''' \<or> km_IdempotencyKey c = '''' \<or> blank (km_RuleID c) \<or>
              blank (km_Label c) \<or> km_Channel c \<notin> {''IN_APP'', ''EMAIL'', ''IN_APP_AND_EMAIL''}
      then Inl (AppError ErrInvalid '''')
      else Inr (CreateReminderRule_envelope c, \<lambda>env. CreateReminderRule_handler env actor c))"
| "prepare parses fresh actor (CmdCreateReport input) =
     bind_result (CreateReport_input actor input) (\<lambda>c.
       Inr (CreateReportVersion_envelope c, \<lambda>env. CreateReportVersion_handler env actor c))"

lemmas command_defs = SubmitCAP_def ReviewCAP_def ReviewEvidence_def AuthorizedCloseFinding_def
  ConvertPotentialFinding_def DecideReport_def UpsertChecklistResponse_def SubmitChecklist_def
  ReopenChecklist_def CreatePotentialFinding_def DecidePotentialFinding_def StartInspection_def
  CreateAdminOrganization_def CreateReminderRule_def CreateReportVersion_def

lemma bind_result_assoc: "bind_result (bind_result m f) g = bind_result m (\<lambda>x. bind_result (f x) g)"
  by (cases m) simp_all

lemma dispatch_prepare:
  "dispatch parses fresh env actor c db = bind_result (prepare parses fresh actor c)
     (\<lambda>(envelope, handler). executeTransition env actor envelope (handler env) db)"
  by (cases c) (simp_all add: command_defs bind_result_assoc Let_def)

lemma create_report_checked:
  assumes "CreateReport_input actor input = Inr c"
  shows "finding_handler (CreateReportVersion_handler env actor c)"
  using create_report.finding_handler_axioms [of c env actor] CreateReport_input_Inr(2) [OF assms] by simp

lemma prepare_handler:
  "prepare parses fresh actor c = Inr (envelope, handler) \<Longrightarrow> finding_handler (handler env)"
  by (cases c)
    (auto simp: bind_result_Inr Let_def create_report_checked
      submit_cap.finding_handler_axioms review_cap.finding_handler_axioms
      review_evidence.finding_handler_axioms authorized_close.finding_handler_axioms
      convert_finding.finding_handler_axioms decide_report.finding_handler_axioms
      upsert_response.finding_handler_axioms submit_checklist.finding_handler_axioms
      reopen_checklist.finding_handler_axioms create_potential.finding_handler_axioms
      decide_potential.finding_handler_axioms start_inspection.finding_handler_axioms
      create_organization.finding_handler_axioms create_reminder_rule.finding_handler_axioms
      split: if_splits)

lemma dispatch_Inr:
  assumes "dispatch parses fresh env actor c db = Inr (db', resp)"
  obtains envelope handler where "prepare parses fresh actor c = Inr (envelope, handler)"
    "finding_handler (handler env)" "executeTransition env actor envelope (handler env) db = Inr (db', resp)"
  using assms prepare_handler by (auto simp: dispatch_prepare bind_result_Inr)

interpretation command: transaction
  "\<lambda>db db'. \<exists>parses fresh env actor c resp. dispatch parses fresh env actor c db = Inr (db', resp)"
proof unfold_locales
  fix db db'
  assume "\<exists>parses fresh env actor c resp. dispatch parses fresh env actor c db = Inr (db', resp)"
  then obtain parses fresh env actor c resp where
    "dispatch parses fresh env actor c db = Inr (db', resp)" by blast
  then obtain envelope handler where h: "finding_handler (handler env)"
    and run: "executeTransition env actor envelope (handler env) db = Inr (db', resp)"
    by (rule dispatch_Inr)
  show "system_wf db \<Longrightarrow> lawful db db' \<and> numbering db'"
    by (rule finding_handler.command_lawful [OF h run])
  show "ledger_wf (ledger db) \<Longrightarrow> ledger_wf (ledger db') \<and> ledger_grows (ledger db) (ledger db')"
    by (rule finding_handler.command_ledger [OF h run])
qed

section \<open>Steps and runs\<close>

inductive system_step :: "DB \<Rightarrow> DB \<Rightarrow> bool" where
  command: "dispatch parses fresh env actor c db = Inr (db', resp) \<Longrightarrow> system_step db db'"
| preparation: "assignment_dispatch digests env actor call db = Inr (db', resp) \<Longrightarrow> system_step db db'"
| materialize: "MaterializeInspection digests env actor materialization db = Inr (db', resp) \<Longrightarrow>
     system_step db db'"
| begin_upload: "evidence_Begin service env actor input db = Inr (db', uploaded) \<Longrightarrow> system_step db db'"
| complete_upload: "evidence_Complete service env actor completion db = Inr (db', completed) \<Longrightarrow> system_step db db'"
| expire_uploads: "system_step db (fst (ReconcileExpired env db))"
| claim: "claimNext worker now db = Some (claimed, db') \<Longrightarrow> system_step db db'"
| deliver: "system_step db (markDelivered mid now db)"
| finalize_evidence: "finalizeEvidence worker env claimed record key promoted result db = Inr db' \<Longrightarrow>
     system_step db db'"
| finalize_attachment: "finalizeAttachment worker env claimed record key promoted result db = Inr db' \<Longrightarrow>
     system_step db db'"
| scan_failure: "recordFailure worker env claimed reason db = Inr db' \<Longrightarrow> system_step db db'"
| issue_offline: "Issue grants env actor checkout db = Inr (db', resp) \<Longrightarrow> system_step db db'"
| revoke_offline: "Revoke env actor grantID reason db = Inr db' \<Longrightarrow> system_step db db'"
| push: "push_transaction sync env actor operation db = Inr (db', pushed) \<Longrightarrow> system_step db db'"
| pull: "Pull sync env actor page db = Inr (db', pulled) \<Longrightarrow> system_step db db'"
| begin_attachment: "attachments_Begin service env actor declared db = Inr (db', resp) \<Longrightarrow> system_step db db'"
| begin_part: "attachments_BeginPart service env actor part db = Inr (db', resp) \<Longrightarrow> system_step db db'"
| acknowledge_part: "AcknowledgePart service env actor part db = Inr (db', resp) \<Longrightarrow> system_step db db'"
| complete_attachment: "attachments_Complete service env actor whole db = Inr (db', resp) \<Longrightarrow> system_step db db'"

abbreviation system_run :: "DB \<Rightarrow> DB \<Rightarrow> bool" where
  "system_run \<equiv> system_step\<^sup>*\<^sup>*"

lemmas steps_lawful = command.step_lawful assignment_command.step_lawful materialize_command.step_lawful
  evidence_begin.step_lawful evidence_complete.step_lawful
  reconcile.step_lawful claim_next.step_lawful mark_delivered.step_lawful finalize_evidence.step_lawful
  finalize_attachment.step_lawful record_failure.step_lawful issue_offline.step_lawful
  revoke_offline.step_lawful push_offline.step_lawful pull_offline.step_lawful
  attachment_begin.step_lawful attachment_part.step_lawful attachment_ack.step_lawful
  attachment_complete.step_lawful

lemmas steps_ledger = command.step_ledger assignment_command.step_ledger materialize_command.step_ledger
  evidence_begin.step_ledger evidence_complete.step_ledger
  reconcile.step_ledger claim_next.step_ledger mark_delivered.step_ledger finalize_evidence.step_ledger
  finalize_attachment.step_ledger record_failure.step_ledger issue_offline.step_ledger
  revoke_offline.step_ledger push_offline.step_ledger pull_offline.step_ledger
  attachment_begin.step_ledger attachment_part.step_ledger attachment_ack.step_ledger
  attachment_complete.step_ledger

interpretation system: transaction system_step
proof unfold_locales
  fix db db'
  assume step: "system_step db db'"
  from step show "lawful db db' \<and> numbering db'" if "system_wf db"
    by cases (rule steps_lawful, blast, rule that)+
  from step show "ledger_wf (ledger db') \<and> ledger_grows (ledger db) (ledger db')" if "ledger_wf (ledger db)"
    by cases (rule steps_ledger, blast, rule that)+
qed

end
