(* ===== verification/PreparationDesk.thy ===== *)
theory PreparationDesk
  imports SystemRuns
begin

text \<open>
  The desk of a preparation: the lifecycle of an assignment, the receipts of confirmed preparations and
  the inspections made of them. \<open>desk_wf\<close> is the invariant, \<open>desk_step\<close> what one transaction may change,
  and the locale \<open>desk_transaction\<close> carries both over runs.
\<close>

section \<open>The lifecycle of an assignment\<close>

definition assignment_statuses :: "string list" where
  "assignment_statuses = [StatusPreparation, StatusLeadAssigned, StatusTeamAssigned, StatusQuestionsAssigned,
     StatusAwaitingAuditeeConfirmation, StatusConfirmed, StatusAlternativeProposed, StatusScheduled, StatusReady]"

text \<open>The lead, team and coverage may be reworked until materialization, the date until it is confirmed.\<close>

inductive assignment_edge :: "string \<Rightarrow> string \<Rightarrow> bool" where
  lead: "assignment_edge StatusPreparation StatusLeadAssigned"
| team: "s \<in> set preparation_statuses \<Longrightarrow> assignment_edge s StatusTeamAssigned"
| questions: "s \<in> {StatusTeamAssigned, StatusQuestionsAssigned} \<Longrightarrow> assignment_edge s StatusQuestionsAssigned"
| withheld: "assignment_edge StatusQuestionsAssigned StatusScheduled"
| advance: "assignment_edge StatusQuestionsAssigned StatusAwaitingAuditeeConfirmation"
| confirmed: "s \<in> {StatusAwaitingAuditeeConfirmation, StatusAlternativeProposed} \<Longrightarrow> assignment_edge s StatusConfirmed"
| proposed: "s \<in> {StatusAwaitingAuditeeConfirmation, StatusAlternativeProposed} \<Longrightarrow>
    assignment_edge s StatusAlternativeProposed"
| returned: "assignment_edge StatusAlternativeProposed StatusAwaitingAuditeeConfirmation"
| started: "s \<in> {StatusConfirmed, StatusScheduled} \<Longrightarrow> assignment_edge s StatusReady"

text \<open>The columns that no command changes.\<close>

definition same_audit :: "AuditAssignment \<Rightarrow> AuditAssignment \<Rightarrow> bool" where
  "same_audit a a' \<longleftrightarrow> aa_id a' = aa_id a \<and> aa_planning_item_id a' = aa_planning_item_id a \<and>
     aa_organization_id a' = aa_organization_id a \<and>
     aa_released_scope_snapshot_id a' = aa_released_scope_snapshot_id a \<and>
     aa_tombstoned_at a' = aa_tombstoned_at a \<and> aa_created_at a' = aa_created_at a"

definition assignment_transition :: "AuditAssignment \<Rightarrow> AuditAssignment \<Rightarrow> bool" where
  "assignment_transition a a' \<longleftrightarrow> same_audit a a' \<and> assignment_edge (aa_status a) (aa_status a') \<and>
     aa_revision a' = aa_revision a + 1 \<and> 0 < sint (aa_revision a') \<and>
     (aa_lead_subject_id a \<noteq> None \<longrightarrow> aa_lead_subject_id a' = aa_lead_subject_id a) \<and>
     (aa_inspection_id a \<noteq> None \<longrightarrow> aa_inspection_id a' = aa_inspection_id a)"

definition assignment_step :: "AuditAssignment \<Rightarrow> AuditAssignment \<Rightarrow> bool" where
  "assignment_step a a' \<longleftrightarrow> a' = a \<or> assignment_transition a a'"

definition new_assignment :: "AuditAssignment \<Rightarrow> bool" where
  "new_assignment a \<longleftrightarrow> aa_status a = StatusPreparation \<and> aa_revision a = 1 \<and> aa_inspection_id a = None \<and>
     aa_lead_subject_id a = None"

interpretation assignment_table: keyed_table aa_id assignment_step new_assignment
  by unfold_locales (auto simp: assignment_step_def assignment_transition_def same_audit_def)

text \<open>A run of steps moves along the edges and raises the revision with every change.\<close>

lemma assignment_history:
  assumes "assignment_step\<^sup>*\<^sup>* a a'"
  shows "same_audit a a' \<and> assignment_edge\<^sup>*\<^sup>* (aa_status a) (aa_status a') \<and>
    (a' = a \<or> sint (aa_revision a) < sint (aa_revision a')) \<and>
    (aa_lead_subject_id a \<noteq> None \<longrightarrow> aa_lead_subject_id a' = aa_lead_subject_id a) \<and>
    (aa_inspection_id a \<noteq> None \<longrightarrow> aa_inspection_id a' = aa_inspection_id a)"
  using assms
proof (induction rule: rtranclp_induct)
  case base
  show ?case by (simp add: same_audit_def)
next
  case (step b c)
  show ?case
  proof (cases "c = b")
    case False
    with step.hyps(2) have t: "assignment_transition b c" by (simp add: assignment_step_def)
    then have "sint (aa_revision b) < sint (aa_revision c)"
      using sint_succ_pos [of "aa_revision b"] by (auto simp: assignment_transition_def)
    moreover have "assignment_edge\<^sup>*\<^sup>* (aa_status a) (aa_status c)"
      using step.IH t by (auto simp: assignment_transition_def)
    ultimately show ?thesis using step.IH t by (auto simp: assignment_transition_def same_audit_def)
  qed (use step.IH in simp)
qed

section \<open>Receipts\<close>

definition confirmed_statuses :: "string list" where
  "confirmed_statuses = [StatusQuestionsAssigned, StatusAwaitingAuditeeConfirmation, StatusConfirmed,
     StatusAlternativeProposed, StatusScheduled, StatusReady]"

text \<open>
  What a confirmed preparation attests of its assignment: the scope, the lead and the coverage, which is
  the live one, by active members of the team, and stored question by question.
\<close>

definition receipt_of :: "DB \<Rightarrow> AuditAssignment \<Rightarrow> PreparationSnapshot \<Rightarrow> bool" where
  "receipt_of db a p \<longleftrightarrow>
     aa_status a \<in> set confirmed_statuses \<and>
     (aa_status a = StatusQuestionsAssigned \<longrightarrow> ph_confirmed_assignment_revision p = Some (aa_revision a)) \<and>
     aa_released_scope_snapshot_id a = Some (ph_released_scope_snapshot_id p) \<and>
     aa_lead_subject_id a = Some (ph_lead_subject_id p) \<and>
     py_coverage (ph_snapshot p) = coverage_entries (listQuestionAssignments (aa_id a) db)
       (snapshot_question_ids (ph_released_scope_snapshot_id p) db) \<and>
     (\<forall>e \<in> set (py_coverage (ph_snapshot p)). snd e \<noteq> []) \<and>
     (\<forall>c \<in> set (listQuestionAssignments (aa_id a) db). active_member (aa_id a) (qc_SubjectID c) db) \<and>
     filter (\<lambda>z. pz_preparation_id z = ph_id p) (preparation_questions (preparation db)) =
       question_rows (ph_id p) (ph_released_scope_snapshot_id p) (py_coverage (ph_snapshot p))"

definition receipt_holds :: "DB \<Rightarrow> PreparationSnapshot \<Rightarrow> bool" where
  "receipt_holds db p \<longleftrightarrow>
     (\<exists>a \<in> set (audit_assignments db). ph_assignment_id p = Some (aa_id a) \<and> receipt_of db a p)"

text \<open>The foreign key on question and position.\<close>

definition question_placed :: "DB \<Rightarrow> PreparationQuestion \<Rightarrow> bool" where
  "question_placed db z \<longleftrightarrow> list_ex (\<lambda>s. sq_snapshot_id s = pz_released_scope_snapshot_id z \<and>
     sq_question_version_id s = pz_question_version_id z \<and> sq_position s = pz_position z) (snapshot_questions db)"

definition questions_placed :: "DB \<Rightarrow> bool" where
  "questions_placed db \<longleftrightarrow> (\<forall>z \<in> set (preparation_questions (preparation db)). question_placed db z)"

section \<open>The inspection of an assignment\<close>

definition scheduled_as :: "string \<Rightarrow> string" where
  "scheduled_as s =
     (if s \<in> {StatusAwaitingAuditeeConfirmation, StatusAlternativeProposed} then ''AWAITING_AUDITEE_CONFIRMATION''
      else if s = StatusReady then ''IN_PROGRESS'' else ''SCHEDULED'')"

definition inspection_agrees :: "DB \<Rightarrow> AuditAssignment \<Rightarrow> bool" where
  "inspection_agrees db a \<longleftrightarrow> (case aa_inspection_id a of
       None \<Rightarrow> True
     | Some i \<Rightarrow> map_option in_status (lookup in_id i (inspections db)) = Some (scheduled_as (aa_status a)))"

lemma inspection_agrees_cong:
  "inspections db' = inspections db \<Longrightarrow> inspection_agrees db' = inspection_agrees db"
  by (rule ext) (simp add: inspection_agrees_def split: option.split)

section \<open>The invariant\<close>

definition assignments_wf :: "DB \<Rightarrow> bool" where
  "assignments_wf db \<longleftrightarrow> distinct (map aa_id (audit_assignments db)) \<and>
     (\<forall>a \<in> set (audit_assignments db). assignment_check a \<and> aa_status a \<in> set assignment_statuses)"

definition keys_wf :: "PreparationTables \<Rightarrow> bool" where
  "keys_wf t \<longleftrightarrow> distinct (map ph_id (preparation_snapshots t)) \<and>
     (\<forall>z \<in> set (preparation_questions t). pz_preparation_id z \<in> ph_id ` set (preparation_snapshots t)) \<and>
     distinct (map ec_preview_id (preview_consumptions t))"

definition receipts_wf :: "DB \<Rightarrow> bool" where
  "receipts_wf db \<longleftrightarrow> (\<forall>p \<in> set (preparation_snapshots (preparation db)).
     ph_status p = ''CONFIRMED'' \<longrightarrow> receipt_holds db p)"

definition inspections_wf :: "DB \<Rightarrow> bool" where
  "inspections_wf db \<longleftrightarrow> (\<forall>a \<in> set (audit_assignments db). inspection_agrees db a) \<and>
     (\<forall>a \<in> set (audit_assignments db). \<forall>b \<in> set (audit_assignments db).
        aa_inspection_id a \<noteq> None \<longrightarrow> aa_inspection_id b = aa_inspection_id a \<longrightarrow> aa_id b = aa_id a)"

lemma inspections_same:
  "audit_assignments db' = audit_assignments db \<Longrightarrow> inspections db' = inspections db \<Longrightarrow>
     inspections_wf db' \<longleftrightarrow> inspections_wf db"
  unfolding inspections_wf_def by (simp only: inspection_agrees_cong [of db' db])

text \<open>Every covered question and subject is stored as it is normalized.\<close>

definition clean_coverage :: "Coverage \<Rightarrow> bool" where
  "clean_coverage c \<longleftrightarrow> trim_coverage c = c \<and> qc_QuestionID c \<noteq> '''' \<and> qc_SubjectID c \<noteq> ''''"

definition coverage_wf :: "AuditQuestionAssignment list \<Rightarrow> bool" where
  "coverage_wf rows \<longleftrightarrow> distinct (map (\<lambda>q. (aq_assignment_id q, coverage_of q)) rows) \<and>
     (\<forall>q \<in> set rows. clean_coverage (coverage_of q))"

definition desk_wf :: "DB \<Rightarrow> bool" where
  "desk_wf db \<longleftrightarrow> assignments_wf db \<and> keys_wf (preparation db) \<and> receipts_wf db \<and> inspections_wf db \<and>
     coverage_wf (audit_question_assignments db) \<and> questions_placed db"

section \<open>The contract\<close>

definition desk_appended :: "DB \<Rightarrow> DB \<Rightarrow> bool" where
  "desk_appended db db' \<longleftrightarrow>
     prefix (preparation_snapshots (preparation db)) (preparation_snapshots (preparation db')) \<and>
     prefix (preparation_questions (preparation db)) (preparation_questions (preparation db')) \<and>
     prefix (edit_previews (preparation db)) (edit_previews (preparation db')) \<and>
     prefix (preview_consumptions (preparation db)) (preview_consumptions (preparation db')) \<and>
     prefix (edit_events (preparation db)) (edit_events (preparation db')) \<and>
     prefix (inspection_packages db) (inspection_packages db') \<and> snapshot_questions db' = snapshot_questions db"

definition desk_step :: "DB \<Rightarrow> DB \<Rightarrow> bool" where
  "desk_step db db' \<longleftrightarrow> desk_appended db db' \<and>
     table_evolves aa_id assignment_step new_assignment (audit_assignments db) (audit_assignments db')"

lemma desk_appended_refl [simp, intro]: "desk_appended db db"
  by (simp add: desk_appended_def)

lemma desk_appended_trans: "desk_appended db db' \<Longrightarrow> desk_appended db' db'' \<Longrightarrow> desk_appended db db''"
  by (auto simp: desk_appended_def intro: prefix_order.trans)

definition keeps_desk :: "DB \<Rightarrow> DB \<Rightarrow> bool" where
  "keeps_desk db db' \<longleftrightarrow> (desk_wf db \<longrightarrow> desk_step db db' \<and> desk_wf db')"

lemma same_desk_refl [simp, intro]: "same_desk db db"
  by (simp add: same_desk_def)

lemma same_desk_trans: "same_desk db db' \<Longrightarrow> same_desk db' db'' \<Longrightarrow> same_desk db db''"
  by (simp add: same_desk_def)

lemma untouched_desk: "untouched db db' \<Longrightarrow> same_desk db db'"
  by (simp add: untouched_iff)

lemma same_desk_ledger [simp]: "same_desk db (db'\<lparr>ledger := l\<rparr>) \<longleftrightarrow> same_desk db db'"
  by (simp add: same_desk_def)

text \<open>The invariant and the contract read the tables of the desk only.\<close>

lemma same_desk_wf:
  assumes "same_desk db db'"
  shows "desk_wf db' \<longleftrightarrow> desk_wf db"
proof -
  have "receipt_holds db' p \<longleftrightarrow> receipt_holds db p" for p
    using assms by (simp add: same_desk_def receipt_holds_def receipt_of_def listQuestionAssignments_def
        active_member_def snapshot_question_ids_def)
  moreover have "inspections_wf db' \<longleftrightarrow> inspections_wf db"
    by (rule inspections_same) (use assms in \<open>simp_all add: same_desk_def\<close>)
  ultimately show ?thesis
    using assms by (simp add: desk_wf_def same_desk_def assignments_wf_def receipts_wf_def questions_placed_def
        question_placed_def)
qed

lemma same_desk_step: "same_desk db db' \<Longrightarrow> desk_step db db'"
  by (simp add: desk_step_def desk_appended_def same_desk_def assignment_table.evolves_refl)

lemma same_desk_keeps: "same_desk db db' \<Longrightarrow> keeps_desk db db'"
  by (simp add: keeps_desk_def same_desk_wf same_desk_step)

lemma keeps_desk_ledger: "keeps_desk db (db'\<lparr>ledger := l\<rparr>) \<longleftrightarrow> keeps_desk db db'"
  using same_desk_wf [of db' "db'\<lparr>ledger := l\<rparr>"]
  by (simp add: keeps_desk_def desk_step_def desk_appended_def)

locale desk_transaction =
  fixes step :: "DB \<Rightarrow> DB \<Rightarrow> bool"
  assumes step_keeps: "step db db' \<Longrightarrow> keeps_desk db db'"
begin

lemma run_desk: "step\<^sup>*\<^sup>* db db' \<Longrightarrow> desk_wf db \<Longrightarrow> desk_wf db' \<and> desk_appended db db'"
  by (induction rule: rtranclp_induct)
    (auto simp: keeps_desk_def desk_step_def dest!: step_keeps intro: desk_appended_trans)

lemma run_assignment:
  assumes "step\<^sup>*\<^sup>* db db'" "desk_wf db" "lookup aa_id k (audit_assignments db) = Some a"
  shows "\<exists>a'. lookup aa_id k (audit_assignments db') = Some a' \<and> assignment_step\<^sup>*\<^sup>* a a'"
  using assms(1)
proof (induction rule: rtranclp_induct)
  case base
  with assms(3) show ?case by blast
next
  case (step db1 db2)
  then obtain a1 where a1: "lookup aa_id k (audit_assignments db1) = Some a1" "assignment_step\<^sup>*\<^sup>* a a1" by blast
  have wf1: "desk_wf db1" using run_desk step.hyps(1) assms(2) by blast
  then have "table_evolves aa_id assignment_step new_assignment (audit_assignments db1) (audit_assignments db2)"
    using step_keeps [OF step.hyps(2)] by (simp add: keeps_desk_def desk_step_def)
  from assignment_table.evolves_lookup [OF this _ a1(1)] wf1
  obtain a2 where "lookup aa_id k (audit_assignments db2) = Some a2" "assignment_step a1 a2"
    by (auto simp: desk_wf_def assignments_wf_def)
  with a1(2) show ?case by (blast intro: rtranclp.rtrancl_into_rtrancl)
qed

text \<open>A confirmed receipt stays, word for word, and goes on attesting the live coverage.\<close>

lemma run_receipt:
  assumes "step\<^sup>*\<^sup>* db db'" "desk_wf db" "p \<in> set (preparation_snapshots (preparation db))"
    "ph_status p = ''CONFIRMED''"
  shows "p \<in> set (preparation_snapshots (preparation db')) \<and> receipt_holds db' p"
  using run_desk [OF assms(1,2)] assms(3,4)
  by (auto simp: desk_appended_def desk_wf_def receipts_wf_def dest: set_mono_prefix)

end

end
