(* ===== verification/PreparationSteps.thy ===== *)
theory PreparationSteps
  imports PreparationDesk
begin

text \<open>
  The commands of the preparation keep the desk: each accepted handler moves one assignment along its
  lifecycle, only adds to the histories, and leaves the receipts of every confirmed preparation true.
\<close>

section \<open>One assignment changes\<close>

abbreviation replaced :: "AuditAssignment \<Rightarrow> AuditAssignment list \<Rightarrow> AuditAssignment list" where
  "replaced a' \<equiv> modify aa_id (aa_id a') (\<lambda>_. a')"

lemma set_replaced: "b \<in> set rows \<Longrightarrow> aa_id b \<noteq> aa_id a' \<Longrightarrow> b \<in> set (replaced a' rows)"
  "b \<in> set (replaced a' rows) \<Longrightarrow> b = a' \<or> b \<in> set rows \<and> aa_id b \<noteq> aa_id a'"
  "a \<in> set rows \<Longrightarrow> aa_id a = aa_id a' \<Longrightarrow> a' \<in> set (replaced a' rows)"
  by (auto simp: modify_def)

lemma assignments_key:
  assumes "assignments_wf db" "a \<in> set (audit_assignments db)" "b \<in> set (audit_assignments db)" "aa_id b = aa_id a"
  shows "b = a"
  using assms by (auto simp: assignments_wf_def distinct_map dest: inj_onD)

lemma current_assignment_Some:
  "current_assignment k db = Some a \<Longrightarrow> a \<in> set (audit_assignments db) \<and> aa_id a = k \<and> aa_tombstoned_at a = None"
  by (auto simp: current_assignment_def find_Some_iff)

lemma current_lookup:
  assumes "assignments_wf db" "a \<in> set (audit_assignments db)"
  shows "lookup aa_id (aa_id a) (audit_assignments db) = Some a"
proof (cases "lookup aa_id (aa_id a) (audit_assignments db)")
  case None
  with assms(2) show ?thesis by (auto simp: lookup_None)
next
  case (Some b)
  with assms show ?thesis by (metis assignments_key lookup_Some)
qed

text \<open>An update of the assignment that was read replaces its row.\<close>

lemma update_one:
  assumes run: "update_assignment (aa_id a) matches change db = Inr (updated, db')"
    and wf: "assignments_wf db" and a: "a \<in> set (audit_assignments db)" "matches a" "aa_id (change a) = aa_id a"
  shows "db' = db\<lparr>audit_assignments := replaced (change a) (audit_assignments db)\<rparr>" "assignment_check (change a)"
proof -
  from run have db': "db' = db\<lparr>audit_assignments := map (\<lambda>b. if aa_id b = aa_id a \<and> matches b then change b else b)
       (audit_assignments db)\<rparr>"
    and check: "\<forall>b \<in> set (audit_assignments db). aa_id b = aa_id a \<longrightarrow> matches b \<longrightarrow> assignment_check (change b)"
    by (simp_all add: update_assignment_Inr)
  from check a show "assignment_check (change a)" by blast
  have "map (\<lambda>b. if aa_id b = aa_id a \<and> matches b then change b else b) (audit_assignments db) =
      replaced (change a) (audit_assignments db)"
    using assignments_key [OF wf a(1)] a(2,3) by (auto simp: modify_def)
  with db' show "db' = db\<lparr>audit_assignments := replaced (change a) (audit_assignments db)\<rparr>" by simp
qed

lemma assignment_edge_status: "assignment_edge s t \<Longrightarrow> t \<in> set assignment_statuses"
  by (induction rule: assignment_edge.induct) (auto simp: assignment_statuses_def)

lemma assignment_replaced:
  assumes wf: "assignments_wf db" and a: "a \<in> set (audit_assignments db)"
    and t: "assignment_transition a a'" "assignment_check a'"
    and rows: "audit_assignments db' = replaced a' (audit_assignments db)"
  shows "assignments_wf db'"
    "table_evolves aa_id assignment_step new_assignment (audit_assignments db) (audit_assignments db')"
proof -
  have id: "aa_id a' = aa_id a" using t(1) by (simp add: assignment_transition_def same_audit_def)
  have look: "lookup aa_id (aa_id a') (audit_assignments db) = Some a" using current_lookup [OF wf a] id by simp
  have "aa_status a' \<in> set assignment_statuses"
    using t(1) assignment_edge_status by (auto simp: assignment_transition_def)
  with wf t(2) show "assignments_wf db'"
    by (auto simp: assignments_wf_def rows keys_modify dest!: set_replaced(2))
  show "table_evolves aa_id assignment_step new_assignment (audit_assignments db) (audit_assignments db')"
    unfolding rows
    by (rule assignment_table.evolves_modify [OF look]) (use wf t(1) in \<open>auto simp: assignments_wf_def assignment_step_def\<close>)
qed

section \<open>Receipts of other assignments\<close>

text \<open>The coverage and the team of one assignment, and the stored questions of one receipt.\<close>

definition same_work :: "string \<Rightarrow> DB \<Rightarrow> DB \<Rightarrow> bool" where
  "same_work k db db' \<longleftrightarrow>
     filter (\<lambda>q. aq_assignment_id q = k) (audit_question_assignments db') =
       filter (\<lambda>q. aq_assignment_id q = k) (audit_question_assignments db) \<and>
     filter (\<lambda>m. tm_assignment_id m = k) (audit_team_members db') =
       filter (\<lambda>m. tm_assignment_id m = k) (audit_team_members db)"

definition same_questions :: "string \<Rightarrow> DB \<Rightarrow> DB \<Rightarrow> bool" where
  "same_questions k db db' \<longleftrightarrow>
     filter (\<lambda>z. pz_preparation_id z = k) (preparation_questions (preparation db')) =
       filter (\<lambda>z. pz_preparation_id z = k) (preparation_questions (preparation db))"

lemma active_member_filter:
  "active_member k s db \<longleftrightarrow> list_ex (\<lambda>m. tm_subject_id m = s \<and> tm_removed_at m = None)
     (filter (\<lambda>m. tm_assignment_id m = k) (audit_team_members db))"
  by (auto simp: active_member_def list_ex_iff)

lemma same_work_views:
  assumes "same_work k db db'"
  shows "listQuestionAssignments k db' = listQuestionAssignments k db"
    "active_member k s db' \<longleftrightarrow> active_member k s db"
  using assms by (simp_all add: same_work_def listQuestionAssignments_def active_member_filter)

lemma receipt_moved:
  assumes "receipt_of db a p" "same_work (aa_id a) db db'" "same_questions (ph_id p) db db'"
    and "snapshot_questions db' = snapshot_questions db"
    and "a' = a \<or> aa_status a' \<in> set confirmed_statuses - {StatusQuestionsAssigned} \<and>
      assignment_transition a a'"
  shows "receipt_of db' a' p"
  using assms same_work_views [OF assms(2)]
  by (auto simp: receipt_of_def same_questions_def assignment_transition_def same_audit_def snapshot_question_ids_def)

text \<open>Receipts stay true when every assignment that has one is only moved on.\<close>

lemma receipts_kept:
  assumes wf: "receipts_wf db"
    and olds: "\<And>p a. p \<in> set (preparation_snapshots (preparation db)) \<Longrightarrow> ph_status p = ''CONFIRMED'' \<Longrightarrow>
      ph_assignment_id p = Some (aa_id a) \<Longrightarrow> a \<in> set (audit_assignments db) \<Longrightarrow> receipt_of db a p \<Longrightarrow>
      receipt_holds db' p"
    and news: "\<And>p. p \<in> set (preparation_snapshots (preparation db')) \<Longrightarrow>
      p \<notin> set (preparation_snapshots (preparation db)) \<Longrightarrow> ph_status p = ''CONFIRMED'' \<Longrightarrow> receipt_holds db' p"
  shows "receipts_wf db'"
  unfolding receipts_wf_def
proof (intro ballI impI)
  fix p
  assume p: "p \<in> set (preparation_snapshots (preparation db'))" "ph_status p = ''CONFIRMED''"
  show "receipt_holds db' p"
  proof (cases "p \<in> set (preparation_snapshots (preparation db))")
    case True
    with wf p(2) obtain a where "a \<in> set (audit_assignments db)" "ph_assignment_id p = Some (aa_id a)" "receipt_of db a p"
      by (auto simp: receipts_wf_def receipt_holds_def)
    with True p(2) show ?thesis by (blast intro: olds)
  qed (use p in \<open>blast intro: news\<close>)
qed

definition unconfirmed :: "string \<Rightarrow> DB \<Rightarrow> bool" where
  "unconfirmed k db \<longleftrightarrow> (\<forall>p \<in> set (preparation_snapshots (preparation db)).
     ph_status p = ''CONFIRMED'' \<longrightarrow> ph_assignment_id p \<noteq> Some k)"

text \<open>An assignment that is still in preparation has no receipt yet, unless its questions are assigned.\<close>

lemma draft_unconfirmed:
  assumes "receipts_wf db" "assignments_wf db" "a \<in> set (audit_assignments db)"
    and "aa_status a \<notin> set confirmed_statuses \<or> \<not> has_confirmed_preparation (aa_id a) db"
  shows "unconfirmed (aa_id a) db"
  unfolding unconfirmed_def
proof (intro ballI impI notI)
  fix p
  assume p: "p \<in> set (preparation_snapshots (preparation db))" "ph_status p = ''CONFIRMED''"
    "ph_assignment_id p = Some (aa_id a)"
  then have "has_confirmed_preparation (aa_id a) db" by (auto simp: has_confirmed_preparation_def list_ex_iff)
  moreover from assms(1) p obtain b where "b \<in> set (audit_assignments db)" "aa_id b = aa_id a" "receipt_of db b p"
    by (auto simp: receipts_wf_def receipt_holds_def)
  then have "aa_status a \<in> set confirmed_statuses"
    using assignments_key [OF assms(2,3)] by (auto simp: receipt_of_def)
  ultimately show False using assms(4) by blast
qed

text \<open>Work on an assignment without a receipt.\<close>

lemma receipts_draft:
  assumes "receipts_wf db" "unconfirmed (aa_id a') db"
    and "set (preparation_snapshots (preparation db')) = set (preparation_snapshots (preparation db))"
    and "preparation_questions (preparation db') = preparation_questions (preparation db)"
    and "\<And>k. k \<noteq> aa_id a' \<Longrightarrow> same_work k db db'"
    and "audit_assignments db' = replaced a' (audit_assignments db)" "snapshot_questions db' = snapshot_questions db"
  shows "receipts_wf db'"
proof (rule receipts_kept [OF assms(1)])
  fix p a
  assume p: "p \<in> set (preparation_snapshots (preparation db))" "ph_status p = ''CONFIRMED''"
    "ph_assignment_id p = Some (aa_id a)" and a: "a \<in> set (audit_assignments db)" "receipt_of db a p"
  with assms(2) have other: "aa_id a \<noteq> aa_id a'" by (auto simp: unconfirmed_def)
  with a(2) assms(4,5,7) have "receipt_of db' a p" by (auto intro: receipt_moved simp: same_questions_def)
  with p(3) a(1) other assms(6) show "receipt_holds db' p" by (auto simp: receipt_holds_def intro: set_replaced(1))
qed (use assms(3) in simp)

text \<open>An assignment moves on, and only receipts of other kinds are added.\<close>

lemma receipts_advance:
  assumes "receipts_wf db" "assignments_wf db" "a \<in> set (audit_assignments db)" "assignment_transition a a'"
    and "aa_status a' \<in> set confirmed_statuses - {StatusQuestionsAssigned}"
    and "\<And>p. p \<in> set (preparation_snapshots (preparation db')) \<Longrightarrow> ph_status p = ''CONFIRMED'' \<Longrightarrow>
      p \<in> set (preparation_snapshots (preparation db))"
    and "\<And>p. p \<in> set (preparation_snapshots (preparation db)) \<Longrightarrow> same_questions (ph_id p) db db'"
    and "audit_question_assignments db' = audit_question_assignments db" "audit_team_members db' = audit_team_members db"
    and "audit_assignments db' = replaced a' (audit_assignments db)" "snapshot_questions db' = snapshot_questions db"
  shows "receipts_wf db'"
proof (rule receipts_kept [OF assms(1)])
  fix p b
  assume p: "p \<in> set (preparation_snapshots (preparation db))" "ph_status p = ''CONFIRMED''"
    "ph_assignment_id p = Some (aa_id b)" and b: "b \<in> set (audit_assignments db)" "receipt_of db b p"
  have id: "aa_id a' = aa_id a" using assms(4) by (simp add: assignment_transition_def same_audit_def)
  have work: "same_work (aa_id b) db db'" using assms(8,9) by (simp add: same_work_def)
  show "receipt_holds db' p"
  proof (cases "aa_id b = aa_id a")
    case True
    with assignments_key [OF assms(2,3) b(1)] have "b = a" by simp
    with receipt_moved [OF b(2) work assms(7) [OF p(1)] assms(11), of a'] assms(4,5) have "receipt_of db' a' p" by simp
    moreover have "a' \<in> set (audit_assignments db')" unfolding assms(10) using assms(3) id by (intro set_replaced(3)) auto
    ultimately show ?thesis using p(3) True id unfolding receipt_holds_def by (intro bexI [of _ a']) simp_all
  next
    case False
    with b(1) id have "b \<in> set (audit_assignments db')" unfolding assms(10) by (intro set_replaced(1)) simp_all
    with receipt_moved [OF b(2) work assms(7) [OF p(1)] assms(11), of b] p(3) show ?thesis by (auto simp: receipt_holds_def)
  qed
qed (use assms(6) in blast)

section \<open>Inspections\<close>

lemma inspections_unique:
  "inspections_wf db \<Longrightarrow> a \<in> set (audit_assignments db) \<Longrightarrow> b \<in> set (audit_assignments db) \<Longrightarrow>
     aa_inspection_id a = Some i \<Longrightarrow> aa_inspection_id b = Some i \<Longrightarrow> aa_id b = aa_id a"
  unfolding inspections_wf_def by (metis option.distinct(1))

lemma inspections_replaced:
  assumes wf: "inspections_wf db" and rows: "audit_assignments db' = replaced a' (audit_assignments db)"
    and agrees: "inspection_agrees db' a'"
    and others: "\<And>b i. b \<in> set (audit_assignments db) \<Longrightarrow> aa_id b \<noteq> aa_id a' \<Longrightarrow> aa_inspection_id b = Some i \<Longrightarrow>
      aa_inspection_id a' \<noteq> Some i \<and>
      map_option in_status (lookup in_id i (inspections db')) = map_option in_status (lookup in_id i (inspections db))"
  shows "inspections_wf db'"
proof -
  have "inspection_agrees db' b" if "b \<in> set (audit_assignments db')" for b
  proof (cases "b = a'")
    case False
    with that rows have b: "b \<in> set (audit_assignments db)" "aa_id b \<noteq> aa_id a'" by (auto dest: set_replaced(2))
    with wf have "inspection_agrees db b" by (simp add: inspections_wf_def)
    with others [OF b] show ?thesis by (auto simp: inspection_agrees_def split: option.splits)
  qed (use agrees in simp)
  moreover have "aa_id c = aa_id b" if b: "b \<in> set (audit_assignments db')" "aa_inspection_id b = Some i"
    and c: "c \<in> set (audit_assignments db')" "aa_inspection_id c = Some i" for b c i
  proof (cases "b = a' \<or> c = a'")
    case True
    with b c others [of b i] others [of c i] show ?thesis unfolding rows by (metis set_replaced(2))
  next
    case False
    with b c have "b \<in> set (audit_assignments db)" "c \<in> set (audit_assignments db)"
      unfolding rows by (metis set_replaced(2))+
    with b c wf show ?thesis by (blast intro: inspections_unique)
  qed
  ultimately show ?thesis unfolding inspections_wf_def by (metis option.exhaust)
qed

lemma inspections_draft:
  assumes "inspections_wf db" "audit_assignments db' = replaced a' (audit_assignments db)"
    "aa_inspection_id a' = None" "inspections db' = inspections db"
  shows "inspections_wf db'"
  by (rule inspections_replaced [OF assms(1,2)]) (simp_all add: assms inspection_agrees_def)

lemma inspections_append:
  assumes wf: "inspections_wf db" and rows: "audit_assignments db' = audit_assignments db @ [row]"
    "aa_inspection_id row = None" "inspections db' = inspections db"
  shows "inspections_wf db'"
  unfolding inspections_wf_def
proof (intro conjI ballI impI)
  fix a
  assume "a \<in> set (audit_assignments db')"
  then show "inspection_agrees db' a"
    using wf rows(2) unfolding rows(1) inspection_agrees_cong [OF rows(3)] by (auto simp: inspections_wf_def inspection_agrees_def)
next
  fix a b
  assume "a \<in> set (audit_assignments db')" "b \<in> set (audit_assignments db')" "aa_inspection_id a \<noteq> None"
    "aa_inspection_id b = aa_inspection_id a"
  moreover from this obtain i where "aa_inspection_id a = Some i" by blast
  ultimately show "aa_id b = aa_id a"
    using rows(2) by (intro inspections_unique [OF wf, of a b i]) (auto simp: rows(1))
qed

text \<open>The rows of one inspection change: the inspections of other assignments are as before.\<close>

lemma inspections_scheduled:
  assumes wf: "inspections_wf db" and a: "a \<in> set (audit_assignments db)" "aa_inspection_id a = Some i"
    and a': "aa_id a' = aa_id a" "aa_inspection_id a' = Some i"
    and rows: "audit_assignments db' = replaced a' (audit_assignments db)"
    and status: "map_option in_status (lookup in_id i (inspections db')) = Some (scheduled_as (aa_status a'))"
    and others: "\<And>j. j \<noteq> i \<Longrightarrow> lookup in_id j (inspections db') = lookup in_id j (inspections db)"
  shows "inspections_wf db'"
proof (rule inspections_replaced [OF wf rows])
  show "inspection_agrees db' a'" using status by (simp add: inspection_agrees_def a')
  fix b j
  assume b: "b \<in> set (audit_assignments db)" "aa_id b \<noteq> aa_id a'" "aa_inspection_id b = Some j"
  then have "j \<noteq> i" using inspections_unique [OF wf a(1) b(1) a(2)] a'(1) by metis
  with others a'(2) show "aa_inspection_id a' \<noteq> Some j \<and>
      map_option in_status (lookup in_id j (inspections db')) = map_option in_status (lookup in_id j (inspections db))"
    by auto
qed

end
