(* ===== verification/DeskCommands.thy ===== *)
theory DeskCommands
  imports PreparationSteps
begin

text \<open>
  Every handler of the preparation, the materialization of an inspection and its start keep the desk
  (\<open>keeps_desk\<close>).
\<close>

section \<open>Drafts\<close>

lemma desk_replaced:
  assumes wf: "desk_wf db" and a: "a \<in> set (audit_assignments db)"
    and t: "assignment_transition a a'" "assignment_check a'"
    and rows: "audit_assignments db' = replaced a' (audit_assignments db)"
    and app: "desk_appended db db'" and keys: "keys_wf (preparation db')"
    and coverage: "coverage_wf (audit_question_assignments db')"
    and receipts: "receipts_wf db'" and inspections: "inspections_wf db'" and placed: "questions_placed db'"
  shows "desk_step db db' \<and> desk_wf db'"
proof -
  from wf have "assignments_wf db" by (simp add: desk_wf_def)
  from assignment_replaced [OF this a t rows] app keys coverage receipts inspections placed
  show ?thesis by (simp add: desk_step_def desk_wf_def)
qed

text \<open>A handler that reworks an assignment before it has a receipt or an inspection.\<close>

lemma desk_draft:
  assumes wf: "desk_wf db" and a: "a \<in> set (audit_assignments db)" "unconfirmed (aa_id a) db"
    and t: "assignment_transition a a'" "assignment_check a'" "aa_status a' \<in> set preparation_statuses"
    and rows: "audit_assignments db' = replaced a' (audit_assignments db)"
    and tables: "desk_appended db db'" "keys_wf (preparation db')" "coverage_wf (audit_question_assignments db')"
      "preparation_snapshots (preparation db') = preparation_snapshots (preparation db)"
      "preparation_questions (preparation db') = preparation_questions (preparation db)"
      "inspections db' = inspections db" "\<And>k. k \<noteq> aa_id a \<Longrightarrow> same_work k db db'"
  shows "desk_step db db' \<and> desk_wf db'"
proof (rule desk_replaced [OF wf a(1) t(1,2) rows tables(1-3)])
  have id: "aa_id a' = aa_id a" using t(1) by (simp add: assignment_transition_def same_audit_def)
  show "receipts_wf db'"
    using wf a(2) tables by (intro receipts_draft [OF _ _ _ _ _ rows]) (simp_all add: desk_wf_def id desk_appended_def)
  show "questions_placed db'"
    using wf tables by (simp add: desk_wf_def questions_placed_def question_placed_def desk_appended_def)
  have "aa_inspection_id a' = None"
    using t(2,3) by (auto simp: assignment_check_def assignment_shape_def split: if_split_asm)
  with wf tables(6) show "inspections_wf db'" by (intro inspections_draft [OF _ rows]) (simp_all add: desk_wf_def)
qed

lemma assignment_wf_shape: "assignments_wf db \<Longrightarrow> a \<in> set (audit_assignments db) \<Longrightarrow> assignment_shape a"
  by (simp add: assignments_wf_def assignment_check_def)

subsection \<open>Prepare\<close>

lemma Prepare_handler_Inr:
  assumes "Prepare_handler env actor command db = Inr (db', result)"
  obtains item row where "current_plan_item (ac_PlanningItemID command) db = Some item" "it_status item = ''RELEASED''"
    "it_revision item = ac_ExpectedPlanningRevision command"
    "row = prepared_assignment env item (released_snapshot_of_item (ac_PlanningItemID command) db)"
    "\<not> assignment_conflict row (audit_assignments db)" "assignment_check row"
    "db' = db\<lparr>audit_assignments := audit_assignments db @ [row]\<rparr>"
  using assms
  by (clarsimp simp: Prepare_handler_def check_error_Inr Let_def bind_result_Inr insert_row_Inr if_Inl_Inr case_option_Inr)

lemma Prepare_keeps:
  assumes "Prepare_handler env actor command db = Inr (db', result)"
  shows "keeps_desk db db'"
  unfolding keeps_desk_def
proof (intro impI)
  assume wf: "desk_wf db"
  from assms obtain item row where
    row: "row = prepared_assignment env item (released_snapshot_of_item (ac_PlanningItemID command) db)"
      "\<not> assignment_conflict row (audit_assignments db)" "assignment_check row"
    and db': "db' = db\<lparr>audit_assignments := audit_assignments db @ [row]\<rparr>"
    by (rule Prepare_handler_Inr) (rule that; assumption)
  have new: "aa_status row = StatusPreparation" "aa_revision row = 1" "aa_inspection_id row = None"
    "aa_lead_subject_id row = None" by (simp_all add: row(1) prepared_assignment_def)
  have key: "aa_id row \<notin> aa_id ` set (audit_assignments db)" using row(2) by (auto simp: assignment_conflict_def list_ex_iff)
  have "receipts_wf db'"
  proof (rule receipts_kept)
    fix p a
    assume p: "ph_assignment_id p = Some (aa_id a)" "a \<in> set (audit_assignments db)" "receipt_of db a p"
    then have "receipt_of db' a p"
      by (auto intro: receipt_moved simp: same_work_def same_questions_def db')
    with p show "receipt_holds db' p" by (auto simp: receipt_holds_def db')
  qed (use wf in \<open>simp_all add: desk_wf_def db'\<close>)
  moreover have "inspections_wf db'"
    by (rule inspections_append [of db _ row]) (use wf new(3) in \<open>simp_all add: desk_wf_def db'\<close>)
  moreover have "assignments_wf db'"
    using wf key row(3) new(1) by (simp add: desk_wf_def assignments_wf_def db' assignment_statuses_def)
  moreover have "table_evolves aa_id assignment_step new_assignment (audit_assignments db) (audit_assignments db')"
    unfolding db' using key new by (simp add: assignment_table.evolves_append new_assignment_def)
  ultimately show "desk_step db db' \<and> desk_wf db'"
    using wf by (simp add: desk_wf_def desk_step_def db' desk_appended_def questions_placed_def question_placed_def)
qed

subsection \<open>AssignLead\<close>

lemma AssignLead_handler_Inr:
  assumes "AssignLead_handler env actor command db = Inr (db', result)"
  obtains a planned mid where "current_assignment (al_AssignmentID command) db = Some a"
    "aa_revision a = al_ExpectedInspectionRevision command" "aa_status a = StatusPreparation"
    "intake_planned_date (or_empty (aa_planning_item_id a)) db = Some planned"
    "requireActiveRole env (al_LeadSubjectID command) RoleLeadInspector db = None"
    "or_empty (aa_released_scope_snapshot_id a) \<noteq> ''''"
    "update_assignment (al_AssignmentID command) (\<lambda>b. aa_status b = StatusPreparation \<and> aa_revision b = aa_revision a)
       (lead_update env (al_LeadSubjectID command) planned) db = Inr (True, mid)"
    "db' = mid\<lparr>audit_team_members := audit_team_members mid @ [lead_member env command]\<rparr>"
  using assms
  by (clarsimp simp: AssignLead_handler_def getAssignment_Inr check_error_Inr Let_def bind_result_Inr insert_row_Inr
      if_Inl_Inr case_option_Inr)

lemma AssignLead_keeps:
  assumes "AssignLead_handler env actor command db = Inr (db', result)"
  shows "keeps_desk db db'"
  unfolding keeps_desk_def
proof (intro impI)
  assume wf: "desk_wf db"
  then have rows: "assignments_wf db" by (simp add: desk_wf_def)
  from assms obtain a planned mid where look: "current_assignment (al_AssignmentID command) db = Some a"
    and status: "aa_status a = StatusPreparation"
    and run: "update_assignment (al_AssignmentID command) (\<lambda>b. aa_status b = StatusPreparation \<and> aa_revision b = aa_revision a)
       (lead_update env (al_LeadSubjectID command) planned) db = Inr (True, mid)"
    and db': "db' = mid\<lparr>audit_team_members := audit_team_members mid @ [lead_member env command]\<rparr>"
    by (rule AssignLead_handler_Inr) (rule that; assumption)
  let ?a = "lead_update env (al_LeadSubjectID command) planned a"
  from look have a: "a \<in> set (audit_assignments db)" "aa_id a = al_AssignmentID command"
    by (auto dest: current_assignment_Some)
  have mid: "mid = db\<lparr>audit_assignments := replaced ?a (audit_assignments db)\<rparr>" "assignment_check ?a"
    using update_one [OF run [folded a(2)] rows a(1)] status by (simp_all add: lead_update_def)
  have shape: "aa_lead_subject_id a = None" "aa_inspection_id a = None"
    using assignment_wf_shape [OF rows a(1)] status by (simp_all add: assignment_shape_def)
  have t: "assignment_transition a ?a"
    using mid(2) status shape
    by (auto simp: assignment_transition_def same_audit_def lead_update_def assignment_check_def intro: assignment_edge.lead)
  show "desk_step db db' \<and> desk_wf db'"
  proof (rule desk_draft [OF wf a(1) _ t mid(2)])
    show "unconfirmed (aa_id a) db"
      by (rule draft_unconfirmed [OF _ rows a(1)]) (use wf status in \<open>simp_all add: desk_wf_def confirmed_statuses_def\<close>)
  qed (use wf in \<open>simp_all add: db' mid(1) desk_wf_def desk_appended_def lead_update_def preparation_statuses_def
      same_work_def lead_member_def a(2)\<close>)
qed

subsection \<open>Previews\<close>

lemma previews_keep:
  assumes db': "db' = db\<lparr>preparation := (preparation db)\<lparr>edit_previews := rows\<rparr>\<rparr>"
    and rows: "prefix (edit_previews (preparation db)) rows"
  shows "keeps_desk db db'"
proof -
  have "receipt_holds db' p \<longleftrightarrow> receipt_holds db p" for p
    by (simp add: db' receipt_holds_def receipt_of_def listQuestionAssignments_def active_member_def
        snapshot_question_ids_def)
  moreover have "inspections_wf db' \<longleftrightarrow> inspections_wf db" by (rule inspections_same) (simp_all add: db')
  ultimately show ?thesis
    using rows by (simp add: keeps_desk_def desk_step_def desk_appended_def desk_wf_def db' assignments_wf_def keys_wf_def
        receipts_wf_def questions_placed_def question_placed_def assignment_table.evolves_refl)
qed

lemma insert_preview_prefix: "insert_preview p rows = Inr rows' \<Longrightarrow> prefix rows rows'"
  by (auto simp: insert_preview_def insert_row_Inr split: if_split_asm)

lemma store_preview_keeps:
  "store_preview digests env actor current assignmentID revision kind op key snapshot db = Inr (db', stored) \<Longrightarrow>
     keeps_desk db db'"
  by (erule store_preview_Inr) (auto intro: previews_keep dest: insert_preview_prefix)

lemma PreviewTeam_keeps:
  "PreviewTeam_handler digests env actor command members db = Inr (db', result) \<Longrightarrow> keeps_desk db db'"
  by (auto simp: PreviewTeam_handler_def check_error_Inr bind_result_Inr if_Inl_Inr dest: store_preview_keeps)

lemma PreviewQuestions_keeps:
  "PreviewQuestions_handler digests env actor command coverage db = Inr (db', result) \<Longrightarrow> keeps_desk db db'"
  by (auto simp: PreviewQuestions_handler_def check_error_Inr bind_result_Inr if_Inl_Inr dest: store_preview_keeps)


section \<open>Team and coverage\<close>

lemma assignments_wf_cong: "audit_assignments db' = audit_assignments db \<Longrightarrow> assignments_wf db' \<longleftrightarrow> assignments_wf db"
  by (simp add: assignments_wf_def)

text \<open>The next status of the assignment that was read, on a database with the same assignments.\<close>

definition moved_to :: "string \<Rightarrow> instant \<Rightarrow> AuditAssignment \<Rightarrow> AuditAssignment" where
  "moved_to status now a = a\<lparr>aa_status := status, aa_revision := aa_revision a + 1, aa_updated_at := now\<rparr>"

lemma moved_to_fields [simp]:
  "aa_id (moved_to status now a) = aa_id a" "aa_status (moved_to status now a) = status"
  "aa_revision (moved_to status now a) = aa_revision a + 1"
  "aa_inspection_id (moved_to status now a) = aa_inspection_id a"
  "aa_lead_subject_id (moved_to status now a) = aa_lead_subject_id a"
  "aa_released_scope_snapshot_id (moved_to status now a) = aa_released_scope_snapshot_id a"
  by (simp_all add: moved_to_def)

lemma update_status_one:
  assumes "updateAssignmentStatus env (assignment_view env a) status now db = Inr (output, db')"
    and "assignments_wf db" "a \<in> set (audit_assignments db)" "aa_tombstoned_at a = None"
  shows "db' = db\<lparr>audit_assignments := replaced (moved_to status now a) (audit_assignments db)\<rparr>"
    "assignment_check (moved_to status now a)" "output = assignment_view env (moved_to status now a)"
proof -
  from assms(1) have "update_assignment (aa_id a) (\<lambda>b. aa_revision b = aa_revision a \<and> aa_tombstoned_at b = None)
      (moved_to status now) db = Inr (True, db')"
    and get: "getAssignmentForUpdate env (aa_id a) db' = Inr output"
    by (auto elim!: updateAssignmentStatus_Inr simp: moved_to_def [abs_def])
  from update_one [OF this(1) assms(2,3)] assms(4)
  show db': "db' = db\<lparr>audit_assignments := replaced (moved_to status now a) (audit_assignments db)\<rparr>"
    and "assignment_check (moved_to status now a)" by (simp_all add: moved_to_def)
  from get obtain b where b: "b \<in> set (audit_assignments db')" "aa_id b = aa_id a" "output = assignment_view env b"
    by (auto simp: getAssignment_Inr dest!: current_assignment_Some)
  with set_replaced(2) [of b "moved_to status now a"] show "output = assignment_view env (moved_to status now a)"
    by (auto simp: db' moved_to_def)
qed

lemma moved_transition:
  assumes "assignment_check (moved_to status now a)" "assignment_edge (aa_status a) status"
  shows "assignment_transition a (moved_to status now a)"
  using assms by (simp add: assignment_transition_def same_audit_def moved_to_def assignment_check_def)

lemma filter_map_other:
  "(\<And>x. Q x \<Longrightarrow> \<not> P x \<and> \<not> P (g x)) \<Longrightarrow> filter P (map (\<lambda>x. if Q x then g x else x) rows) = filter P rows"
  by (induction rows) auto

lemma filter_upsert_member:
  "k \<noteq> i \<Longrightarrow> filter (\<lambda>m. tm_assignment_id m = k) (upsert_member i now s rows) =
     filter (\<lambda>m. tm_assignment_id m = k) rows"
  by (auto simp: upsert_member_def intro!: filter_map_other)

lemma filter_upsert_members:
  "k \<noteq> i \<Longrightarrow> filter (\<lambda>m. tm_assignment_id m = k) (fold (upsert_member i now) members rows) =
     filter (\<lambda>m. tm_assignment_id m = k) rows"
  by (induction members arbitrary: rows) (simp_all add: filter_upsert_member)

lemma filter_team_rows:
  assumes "k \<noteq> i"
  shows "filter (\<lambda>m. tm_assignment_id m = k) (CoverageCommands.team_rows i now members rows) =
    filter (\<lambda>m. tm_assignment_id m = k) rows"
proof -
  have "filter (\<lambda>m. tm_assignment_id m = k) (remove_members i now members rows') =
      filter (\<lambda>m. tm_assignment_id m = k) rows'" for rows'
    using assms by (auto simp: remove_members_def intro!: filter_map_other)
  with assms show ?thesis by (simp add: CoverageCommands.team_rows_def filter_upsert_members)
qed

lemma filter_drop_removed:
  "k \<noteq> i \<Longrightarrow> filter (\<lambda>q. aq_assignment_id q = k) (drop_removed i team rows) = filter (\<lambda>q. aq_assignment_id q = k) rows"
  by (auto simp: drop_removed_def intro: filter_cong)

lemma drop_removed_wf: "coverage_wf rows \<Longrightarrow> coverage_wf (drop_removed i team rows)"
  by (simp add: coverage_wf_def drop_removed_def distinct_map_filter)

lemma filter_cover_row:
  "k \<noteq> i \<Longrightarrow> filter (\<lambda>q. aq_assignment_id q = k) (cover_row i kind now c rows) =
     filter (\<lambda>q. aq_assignment_id q = k) rows"
  by (auto simp: cover_row_def covers_def intro: filter_cong)

lemma filter_cover_rows:
  assumes "k \<noteq> i"
  shows "filter (\<lambda>q. aq_assignment_id q = k) (cover_rows i kind now coverage rows) =
    filter (\<lambda>q. aq_assignment_id q = k) rows"
proof -
  have "filter (\<lambda>q. aq_assignment_id q = k) (fold (cover_row i kind now) coverage rows') =
      filter (\<lambda>q. aq_assignment_id q = k) rows'" for rows'
    using assms by (induction coverage arbitrary: rows') (simp_all add: filter_cover_row)
  moreover have "filter (\<lambda>q. aq_assignment_id q = k) (filter (\<lambda>q. aq_assignment_id q \<noteq> i) rows) =
      filter (\<lambda>q. aq_assignment_id q = k) rows"
    using assms by (auto intro: filter_cong)
  ultimately show ?thesis by (simp add: cover_rows_def)
qed

lemma cover_row_wf:
  assumes "coverage_wf rows" "clean_coverage c"
  shows "coverage_wf (cover_row i kind now c rows)"
proof -
  have "coverage_of \<lparr>aq_assignment_id = i, aq_question_id = qc_QuestionID c, aq_subject_id = qc_SubjectID c,
      aq_revision = 1, aq_created_at = now\<rparr> = c"
    by (cases c) (simp add: coverage_of_def)
  with assms show ?thesis
    by (auto simp: cover_row_def coverage_wf_def distinct_map_filter covers_def list_ex_iff)
qed

lemma cover_rows_wf:
  assumes "coverage_wf rows" "\<forall>c \<in> set coverage. clean_coverage c"
  shows "coverage_wf (cover_rows i kind now coverage rows)"
proof -
  have "coverage_wf (fold (cover_row i kind now) coverage rows')" if "coverage_wf rows'" for rows'
    using assms(2) that by (induction coverage arbitrary: rows') (simp_all add: cover_row_wf)
  moreover have "coverage_wf (filter P rows)" for P
    using assms(1) by (simp add: coverage_wf_def distinct_map_filter)
  ultimately show ?thesis using assms(1) by (simp add: cover_rows_def)
qed

lemma clean_trim:
  "qc_QuestionID (trim_coverage c) \<noteq> '''' \<Longrightarrow> qc_SubjectID (trim_coverage c) \<noteq> '''' \<Longrightarrow>
     clean_coverage (trim_coverage c)"
  by (simp add: clean_coverage_def trim_coverage_def)

lemma normalize_coverage_Inr:
  assumes "normalize_coverage seen vs = Inr out" "\<forall>c \<in> set seen. clean_coverage c"
    "distinct (map coverage_key seen)"
  shows "(\<forall>c \<in> set out. clean_coverage c) \<and> distinct (map coverage_key out)"
  using assms
proof (induction seen vs rule: normalize_coverage.induct)
  case (2 seen v vs)
  let ?v = "trim_coverage v"
  from 2(2) have ok: "\<not> (qc_QuestionID ?v = '''' \<or> qc_SubjectID ?v = '''' \<or> coverage_key ?v \<in> set (map coverage_key seen))"
    and run: "normalize_coverage (seen @ [?v]) vs = Inr out"
    by (simp_all only: normalize_coverage.simps Let_def if_Inl_Inr not_False_eq_True)
  from ok have "clean_coverage ?v" by (simp add: clean_trim)
  with ok 2(3,4) show ?case by (intro 2(1) [OF refl ok run]) simp_all
qed simp

lemma normalized_clean:
  assumes "normalizedQuestionAssignments vs = Inr coverage"
  shows "\<forall>c \<in> set coverage. clean_coverage c"
  using assms normalize_coverage_Inr [of "[]" vs]
  by (auto simp: normalizedQuestionAssignments_def bind_result_Inr split: if_split_asm)

lemma AssignTeam_keeps:
  assumes "AssignTeam_handler digests env actor command members db = Inr (db', result)"
  shows "keeps_desk db db'"
  unfolding keeps_desk_def
proof (intro impI)
  assume wf: "desk_wf db"
  then have rows: "assignments_wf db" "receipts_wf db" by (simp_all add: desk_wf_def)
  from assms obtain a consumed updated mid where look: "current_assignment (mt_AssignmentID command) db = Some a"
    and status: "aa_status a \<in> set preparation_statuses"
      "aa_status a = StatusQuestionsAssigned \<Longrightarrow> \<not> has_confirmed_preparation (mt_AssignmentID command) db"
    and consume: "consumePreparationPreview digests (mt_PreviewID command) (mt_PreviewDigest command)
       (mt_AssignmentID command) (mt_ExpectedRevision command) ''TEAM'' (SubjectID actor)
       (TeamSnapshot members) (env_clock env 0) db = Inr consumed"
    and run: "updateAssignmentStatus env (assignment_view env a) StatusTeamAssigned (env_clock env 1)
       (AssignTeam_rows env command members consumed) = Inr (updated, mid)"
    and edit: "recordPreparationEdit digests (mt_AssignmentID command) (an_Revision updated) ''TEAM'' actor
       (TeamEdit members (listQuestionAssignments (mt_AssignmentID command) mid)) mid = Inr db'"
    by (rule AssignTeam_handler_Inr) (rule that; assumption)
  from look have a: "a \<in> set (audit_assignments db)" "aa_id a = mt_AssignmentID command" "aa_tombstoned_at a = None"
    by (auto dest: current_assignment_Some)
  from consume obtain consumed_row where fresh: "\<forall>c \<in> set (preview_consumptions (preparation db)).
      ec_preview_id c \<noteq> ec_preview_id consumed_row"
    and consumed: "consumed = db\<lparr>preparation := (preparation db)\<lparr>preview_consumptions :=
      preview_consumptions (preparation db) @ [consumed_row]\<rparr>\<rparr>"
    by (rule consume_Inr) (rule that [of "\<lparr>ec_preview_id = _, ec_consumed_by_subject_id = _, ec_consumed_at = _\<rparr>"], simp_all)
  let ?a = "moved_to StatusTeamAssigned (env_clock env 1) a"
  have same: "audit_assignments (AssignTeam_rows env command members consumed) = audit_assignments db"
    by (simp add: consumed AssignTeam_rows_def Let_def)
  have mid: "mid = (AssignTeam_rows env command members consumed)\<lparr>audit_assignments := replaced ?a (audit_assignments db)\<rparr>"
    and check: "assignment_check ?a"
    using update_status_one [OF run _ _ a(3)] rows(1) a(1) same assignments_wf_cong [OF same] by auto
  from edit obtain edits where db': "db' = mid\<lparr>preparation := (preparation mid)\<lparr>edit_events := edits\<rparr>\<rparr>"
    and edits: "prefix (edit_events (preparation mid)) edits" by (rule record_edit_Inr)
  have t: "assignment_transition a ?a" by (rule moved_transition [OF check assignment_edge.team [OF status(1)]])
  show "desk_step db db' \<and> desk_wf db'"
  proof (rule desk_draft [OF wf a(1) _ t check])
    show "unconfirmed (aa_id a) db"
      by (rule draft_unconfirmed [OF rows(2,1) a(1)])
        (use status a(2) in \<open>auto simp: preparation_statuses_def confirmed_statuses_def\<close>)
    show "same_work k db db'" if "k \<noteq> aa_id a" for k
      using that by (simp add: same_work_def db' mid consumed AssignTeam_rows_def Let_def a(2) [symmetric]
          filter_team_rows filter_drop_removed)
    show "keys_wf (preparation db')"
      using wf fresh by (auto simp: desk_wf_def keys_wf_def db' mid consumed AssignTeam_rows_def Let_def)
    show "coverage_wf (audit_question_assignments db')"
      using wf by (simp add: desk_wf_def db' mid consumed AssignTeam_rows_def Let_def drop_removed_wf)
    show "desk_appended db db'"
      using edits by (simp add: desk_appended_def db' mid consumed AssignTeam_rows_def Let_def)
  qed (simp_all add: db' mid consumed AssignTeam_rows_def Let_def moved_to_def preparation_statuses_def)
qed

lemma AssignQuestions_keeps:
  assumes "AssignQuestions_handler digests env actor command coverage db = Inr (db', result)"
    and clean: "\<forall>c \<in> set coverage. clean_coverage c"
  shows "keeps_desk db db'"
  unfolding keeps_desk_def
proof (intro impI)
  assume wf: "desk_wf db"
  then have rows: "assignments_wf db" "receipts_wf db" by (simp_all add: desk_wf_def)
  let ?cover = "cover_rows (mq_AssignmentID command) (mq_OperationKind command) (env_clock env 1) coverage"
  from assms(1) obtain a consumed allowed updated mid where
    look: "current_assignment (mq_AssignmentID command) db = Some a"
    and status: "aa_status a \<in> {StatusTeamAssigned, StatusQuestionsAssigned}"
      "aa_status a = StatusQuestionsAssigned \<Longrightarrow> \<not> has_confirmed_preparation (mq_AssignmentID command) db"
    and consume: "consumePreparationPreview digests (mq_PreviewID command) (mq_PreviewDigest command)
       (mq_AssignmentID command) (mq_ExpectedRevision command) ''QUESTION_COVERAGE'' (SubjectID actor)
       (CoverageSnapshot (mq_OperationKind command) coverage) (env_clock env 0) db = Inr consumed"
    and run: "updateAssignmentStatus env (assignment_view env a) StatusQuestionsAssigned (env_clock env 1)
       (consumed\<lparr>audit_question_assignments := ?cover (audit_question_assignments consumed)\<rparr>) = Inr (updated, mid)"
    and edit: "recordPreparationEdit digests (mq_AssignmentID command) (an_Revision updated) ''QUESTION_COVERAGE'' actor
       (CoverageEdit (mq_OperationKind command) coverage (listQuestionAssignments (mq_AssignmentID command)
          (consumed\<lparr>audit_question_assignments := ?cover (audit_question_assignments consumed)\<rparr>))) mid = Inr db'"
    by (rule AssignQuestions_handler_Inr) (rule that; assumption)
  from look have a: "a \<in> set (audit_assignments db)" "aa_id a = mq_AssignmentID command" "aa_tombstoned_at a = None"
    by (auto dest: current_assignment_Some)
  from consume obtain consumed_row where fresh: "\<forall>c \<in> set (preview_consumptions (preparation db)).
      ec_preview_id c \<noteq> ec_preview_id consumed_row"
    and consumed: "consumed = db\<lparr>preparation := (preparation db)\<lparr>preview_consumptions :=
      preview_consumptions (preparation db) @ [consumed_row]\<rparr>\<rparr>"
    by (rule consume_Inr) (rule that [of "\<lparr>ec_preview_id = _, ec_consumed_by_subject_id = _, ec_consumed_at = _\<rparr>"], simp_all)
  let ?a = "moved_to StatusQuestionsAssigned (env_clock env 1) a"
  let ?covered = "consumed\<lparr>audit_question_assignments := ?cover (audit_question_assignments consumed)\<rparr>"
  have same: "audit_assignments ?covered = audit_assignments db" by (simp add: consumed)
  have mid: "mid = ?covered\<lparr>audit_assignments := replaced ?a (audit_assignments db)\<rparr>" and check: "assignment_check ?a"
    using update_status_one [OF run _ _ a(3)] rows(1) a(1) same assignments_wf_cong [OF same] by auto
  from edit obtain edits where db': "db' = mid\<lparr>preparation := (preparation mid)\<lparr>edit_events := edits\<rparr>\<rparr>"
    and edits: "prefix (edit_events (preparation mid)) edits" by (rule record_edit_Inr)
  have t: "assignment_transition a ?a" by (rule moved_transition [OF check assignment_edge.questions [OF status(1)]])
  show "desk_step db db' \<and> desk_wf db'"
  proof (rule desk_draft [OF wf a(1) _ t check])
    show "unconfirmed (aa_id a) db"
      by (rule draft_unconfirmed [OF rows(2,1) a(1)]) (use status a(2) in \<open>auto simp: confirmed_statuses_def\<close>)
    show "same_work k db db'" if "k \<noteq> aa_id a" for k
      using that by (simp add: same_work_def db' mid consumed a(2) [symmetric] filter_cover_rows)
    show "keys_wf (preparation db')" using wf fresh by (auto simp: desk_wf_def keys_wf_def db' mid consumed)
    show "coverage_wf (audit_question_assignments db')"
      using wf clean by (simp add: desk_wf_def db' mid consumed cover_rows_wf)
    show "desk_appended db db'" using edits by (simp add: desk_appended_def db' mid consumed)
  qed (simp_all add: db' mid consumed moved_to_def preparation_statuses_def)
qed

end
