(* ===== verification/DeskDecisions.thy ===== *)
theory DeskDecisions
  imports DeskCommands
begin

text \<open>
  The decisions on a preparation keep the desk: its confirmation, the coordination of the date, the
  materialization of the inspection and its start.
\<close>

section \<open>ConfirmPreparation\<close>

lemma first_row: "(case rows of [] \<Rightarrow> None | r # _ \<Rightarrow> Some r) = Some r \<Longrightarrow> r \<in> set rows"
  by (auto split: list.split_asm)

lemma confirmation_context_Some:
  assumes "confirmation_context k db = Some (a, d, s)"
  shows "a \<in> set (audit_assignments db)" "aa_id a = k" "aa_released_scope_snapshot_id a = Some (ss_id s)"
    "s \<in> set (t_scope_snapshots (scope_tables db))" "ss_stage s = ''RELEASED''"
  using first_row [OF assms [unfolded confirmation_context_def]] by auto

lemma fst_coverage_entries [simp]: "map fst (coverage_entries coverage ids) = ids"
  by (simp add: coverage_entries_def comp_def)

lemma sort_Nil_iff [simp]: "sort xs = [] \<longleftrightarrow> xs = []"
  by (metis length_0_conv length_sort)

lemma question_rows_id: "z \<in> set (question_rows k s entries) \<Longrightarrow> pz_preparation_id z = k"
  by (auto simp: question_rows_def)

lemma filter_question_rows:
  "filter (\<lambda>z. pz_preparation_id z = j) (question_rows k s entries) = (if j = k then question_rows k s entries else [])"
  by (auto simp: filter_empty_conv filter_id_conv dest: question_rows_id)

lemma insert_questions_placed:
  "insert_questions db qs rows = Inr rows' \<Longrightarrow> \<forall>q \<in> set qs. question_placed db q"
  by (induction qs arbitrary: rows)
    (fastforce simp: bind_result_Inr insert_row_Inr question_conflict_def question_placed_def)+

lemma ConfirmPreparation_keeps:
  assumes "ConfirmPreparation_handler digests env actor command db = Inr (db', result)"
  shows "keeps_desk db db'"
  unfolding keeps_desk_def
proof (intro impI)
  assume wf: "desk_wf db"
  then have rows: "assignments_wf db" "receipts_wf db" "keys_wf (preparation db)" by (simp_all add: desk_wf_def)
  let ?k = "cf_AssignmentID command"
  let ?t = "preparation db"
  from assms obtain a joined draft snapshot where look: "current_assignment ?k db = Some a"
    and status: "aa_status a = StatusQuestionsAssigned"
    and found: "confirmation_context ?k db = Some (joined, draft, snapshot)"
    and once: "\<not> list_ex (\<lambda>p. ph_assignment_id p = Some ?k \<and> ph_released_scope_snapshot_id p = ss_id snapshot \<and>
      ph_status p = ''CONFIRMED'') (preparation_snapshots ?t)"
    and active: "\<forall>c \<in> set (coverage_rows ?k db). active_member ?k (qc_SubjectID c) db"
    and covered: "\<forall>q \<in> set (snapshot_question_ids (ss_id snapshot) db). subjects_of (coverage_rows ?k db) q \<noteq> []"
    and writes: "confirm_writes digests env actor (assignment_view env a) joined snapshot
       (coverage_entries (coverage_rows ?k db) (snapshot_question_ids (ss_id snapshot) db)) db = Inr (db', result)"
    by (rule ConfirmPreparation_handler_Inr) (rule that; assumption)
  from look have a: "a \<in> set (audit_assignments db)" "aa_id a = ?k" "aa_tombstoned_at a = None"
    by (auto dest: current_assignment_Some)
  have scope: "aa_released_scope_snapshot_id a = Some (ss_id snapshot)"
    using confirmation_context_Some [OF found] assignments_key [OF rows(1) a(1)] a(2) by metis
  let ?entries = "coverage_entries (coverage_rows ?k db) (snapshot_question_ids (ss_id snapshot) db)"
  from writes obtain payload revision preparationID row questions where
    payload: "payload = preparation_payload (assignment_view env a) (an_ID (assignment_view env a)) snapshot ?entries"
    and row: "row = confirmed_snapshot digests env actor (assignment_view env a) preparationID revision payload"
      "\<not> preparation_conflict row (preparation_snapshots ?t)"
    and insert: "insert_questions db (question_rows preparationID (ss_id snapshot) ?entries) (preparation_questions ?t) =
      Inr questions"
    and run: "update_assignment (an_ID (assignment_view env a))
       (\<lambda>b. aa_status b = StatusQuestionsAssigned \<and> aa_revision b = an_Revision (assignment_view env a))
       (\<lambda>b. b\<lparr>aa_revision := aa_revision b + 1, aa_updated_at := env_clock env 0\<rparr>)
       (db\<lparr>preparation := ?t\<lparr>preparation_snapshots := preparation_snapshots ?t @ [row],
          preparation_questions := questions\<rparr>\<rparr>) = Inr (True, db')"
    by (rule confirm_writes_Inr) (rule that; assumption)
  let ?mid = "db\<lparr>preparation := ?t\<lparr>preparation_snapshots := preparation_snapshots ?t @ [row],
          preparation_questions := questions\<rparr>\<rparr>"
  let ?a = "moved_to StatusQuestionsAssigned (env_clock env 0) a"
  have a': "a\<lparr>aa_revision := aa_revision a + 1, aa_updated_at := env_clock env 0\<rparr> = ?a"
    using status by (cases a) (simp add: moved_to_def)
  have mid: "assignments_wf ?mid" "a \<in> set (audit_assignments ?mid)"
    using rows(1) a(1) assignments_wf_cong [of ?mid db] by simp_all
  from run have run': "update_assignment (aa_id a)
       (\<lambda>b. aa_status b = StatusQuestionsAssigned \<and> aa_revision b = aa_revision a)
       (\<lambda>b. b\<lparr>aa_revision := aa_revision b + 1, aa_updated_at := env_clock env 0\<rparr>) ?mid = Inr (True, db')"
    by simp
  from update_one [OF run' mid] status a'
  have db': "db' = ?mid\<lparr>audit_assignments := replaced ?a (audit_assignments db)\<rparr>" and check: "assignment_check ?a"
    by simp_all
  have questions: "questions = preparation_questions ?t @ question_rows preparationID (ss_id snapshot) ?entries"
    by (rule insert_questions_Inr [OF insert])
  have t: "assignment_transition a ?a"
    using status by (intro moved_transition [OF check]) (auto intro: assignment_edge.questions)
  have id: "ph_id row = preparationID" "ph_status row = ''CONFIRMED''" "ph_assignment_id row = Some ?k"
    "ph_released_scope_snapshot_id row = ss_id snapshot" "ph_confirmed_assignment_revision row = Some (aa_revision a + 1)"
    "ph_lead_subject_id row = or_empty (aa_lead_subject_id a)" "py_coverage (ph_snapshot row) = ?entries"
    by (simp_all add: row(1) confirmed_snapshot_def payload preparation_payload_def a(2))
  have fresh: "ph_id p \<noteq> preparationID" if "p \<in> set (preparation_snapshots ?t)" for p
    using that row(2) by (auto simp: preparation_conflict_def list_ex_iff id(1))
  have unknown: "filter (\<lambda>z. pz_preparation_id z = preparationID) (preparation_questions ?t) = []"
    using rows(3) fresh by (fastforce simp: keys_wf_def filter_empty_conv)
  have unconf: "unconfirmed ?k db"
    unfolding unconfirmed_def
  proof (intro ballI impI notI)
    fix p
    assume p: "p \<in> set (preparation_snapshots ?t)" "ph_status p = ''CONFIRMED''" "ph_assignment_id p = Some ?k"
    with rows(2) obtain b where "b \<in> set (audit_assignments db)" "aa_id b = ?k" "receipt_of db b p"
      by (auto simp: receipts_wf_def receipt_holds_def)
    with assignments_key [OF rows(1) a(1)] a(2) scope have "ph_released_scope_snapshot_id p = ss_id snapshot"
      by (auto simp: receipt_of_def)
    with p once show False by (auto simp: list_ex_iff)
  qed
  have work: "same_work k db db'" for k by (simp add: same_work_def db')
  have new: "receipt_of db' ?a row"
  proof -
    obtain lead where "aa_lead_subject_id a = Some lead"
      using assignment_wf_shape [OF rows(1) a(1)] status by (auto simp: assignment_shape_def preparation_statuses_def)
    moreover have "listQuestionAssignments ?k db' = coverage_rows ?k db"
      using same_work_views(1) [OF work] by (simp add: coverage_rows_def)
    moreover have "filter (\<lambda>z. pz_preparation_id z = preparationID) (preparation_questions (preparation db')) =
        question_rows preparationID (ss_id snapshot) ?entries"
      by (simp add: db' questions unknown filter_question_rows)
    moreover have "snapshot_question_ids k db' = snapshot_question_ids k db" for k
      by (simp add: db' snapshot_question_ids_def)
    ultimately show ?thesis
      using active covered same_work_views(2) [OF work]
      by (auto simp: receipt_of_def id moved_to_def confirmed_statuses_def scope a(2) or_empty_def coverage_entries_def
          comp_def)
  qed
  have "?a \<in> set (audit_assignments db')" using set_replaced(3) [OF a(1), of ?a] by (simp add: db' moved_to_def)
  with new id(3) a(2) have held: "receipt_holds db' row" unfolding receipt_holds_def by (intro bexI [of _ ?a]) simp_all
  show "desk_step db db' \<and> desk_wf db'"
  proof (rule desk_replaced [OF wf a(1) t check])
    show "receipts_wf db'"
    proof (rule receipts_kept [OF rows(2)])
      fix p b
      assume p: "p \<in> set (preparation_snapshots ?t)" "ph_status p = ''CONFIRMED''" "ph_assignment_id p = Some (aa_id b)"
        and b: "b \<in> set (audit_assignments db)" "receipt_of db b p"
      have "same_questions (ph_id p) db db'"
        using fresh [OF p(1)] by (simp add: same_questions_def db' questions filter_question_rows)
      from receipt_moved [OF b(2) work this] have "receipt_of db' b p" by (simp add: db')
      moreover have "b \<in> set (audit_assignments db')"
        using p unconf b(1) a(2) set_replaced(1) [of b _ ?a] by (auto simp: unconfirmed_def db' moved_to_def)
      ultimately show "receipt_holds db' p" using p(3) by (auto simp: receipt_holds_def)
    qed (use held in \<open>auto simp: db'\<close>)
    have "\<forall>z \<in> set (question_rows preparationID (ss_id snapshot) ?entries). question_placed db z"
      by (rule insert_questions_placed [OF insert])
    then show "questions_placed db'"
      using wf by (simp add: desk_wf_def questions_placed_def question_placed_def db' questions ball_Un)
    have none: "aa_inspection_id ?a = None"
      using assignment_wf_shape [OF rows(1) a(1)] status by (simp add: assignment_shape_def preparation_statuses_def)
    have "inspections_wf db" using wf by (simp add: desk_wf_def)
    then show "inspections_wf db'" by (rule inspections_draft [OF _ _ none]) (simp_all add: db')
    have "preparationID \<notin> ph_id ` set (preparation_snapshots ?t)" using fresh by blast
    moreover have "\<forall>z \<in> set (question_rows preparationID (ss_id snapshot) ?entries). pz_preparation_id z = preparationID"
      by (blast dest: question_rows_id)
    ultimately show "keys_wf (preparation db')"
      using rows(3) by (simp add: keys_wf_def db' questions id(1) ball_Un)
  qed (use wf in \<open>simp_all add: db' desk_wf_def desk_appended_def questions\<close>)
qed

section \<open>Decisions after the inspection exists\<close>

lemma coordination_row:
  assumes "row \<in> set (coordination_rows db)"
  shows "cw_assignment row \<in> set (audit_assignments db)"
    "aa_inspection_id (cw_assignment row) = Some (in_id (cw_inspection row))"
    "cw_inspection row \<in> set (inspections db)"
  using assms by (auto simp: coordination_rows_def)

lemma coordination_context_Some:
  assumes "coordination_context matches inspectionID organizationID db = Some row"
  shows "cw_assignment row \<in> set (audit_assignments db)" "aa_inspection_id (cw_assignment row) = Some inspectionID"
    "in_organization_id (cw_inspection row) = organizationID" "in_id (cw_inspection row) = inspectionID" "matches row"
proof -
  from assms have "row \<in> set (coordination_rows db) \<and> in_id (cw_inspection row) = inspectionID \<and>
      in_organization_id (cw_inspection row) = organizationID \<and> matches row"
    by (auto simp: coordination_context_def find_Some_iff)
  with coordination_row [of row db] show "cw_assignment row \<in> set (audit_assignments db)"
    "aa_inspection_id (cw_assignment row) = Some inspectionID"
    "in_organization_id (cw_inspection row) = organizationID" "in_id (cw_inspection row) = inspectionID" "matches row"
    by auto
qed

lemma lookup_map_rows: "(\<And>r. key (g r) = key r) \<Longrightarrow> lookup key k (map g rows) = map_option g (lookup key k rows)"
  by (induction rows) (auto simp: lookup_def)

text \<open>Scheduling an inspection that awaits its date.\<close>

lemma schedule_inspection_Inr:
  assumes "schedule_inspection env i db = Inr (scheduled, db')"
  shows "db' = db\<lparr>inspections := inspections db'\<rparr>"
    "map_option in_status (lookup in_id i (inspections db)) = Some ''AWAITING_AUDITEE_CONFIRMATION'' \<Longrightarrow>
       map_option in_status (lookup in_id i (inspections db')) = Some ''SCHEDULED''"
    "j \<noteq> i \<Longrightarrow> lookup in_id j (inspections db') = lookup in_id j (inspections db)"
proof -
  let ?g = "\<lambda>n. if in_id n = i \<and> in_status n = ''AWAITING_AUDITEE_CONFIRMATION''
    then n\<lparr>in_status := ''SCHEDULED'', in_revision := in_revision n + 1, in_updated_at := env_clock env 0\<rparr> else n"
  from assms have db': "db' = db\<lparr>inspections := map ?g (inspections db)\<rparr>"
    by (simp add: schedule_inspection_def Let_def if_Inl_Inr)
  then show "db' = db\<lparr>inspections := inspections db'\<rparr>" by simp
  have look: "lookup in_id k (inspections db') = map_option ?g (lookup in_id k (inspections db))" for k
    by (simp add: db' lookup_map_rows)
  show "map_option in_status (lookup in_id i (inspections db')) = Some ''SCHEDULED''"
    if "map_option in_status (lookup in_id i (inspections db)) = Some ''AWAITING_AUDITEE_CONFIRMATION''"
  proof -
    from that obtain n where n: "lookup in_id i (inspections db) = Some n"
      "in_status n = ''AWAITING_AUDITEE_CONFIRMATION''" by auto
    with look [of i] lookup_Some [OF n(1)] show ?thesis by simp
  qed
  show "lookup in_id j (inspections db') = lookup in_id j (inspections db)" if "j \<noteq> i"
    using that look [of j] by (cases "lookup in_id j (inspections db)") (auto dest!: lookup_Some)
qed

text \<open>
  A handler that moves the assignment of an inspection on: the receipts are kept, and it is left to show
  that the inspection follows.
\<close>

lemma desk_advanced:
  assumes wf: "desk_wf db" and a: "a \<in> set (audit_assignments db)" "aa_inspection_id a = Some i"
    and t: "assignment_transition a a'" "assignment_check a'"
    and status: "aa_status a' \<in> set confirmed_statuses - {StatusQuestionsAssigned}"
    and rows: "audit_assignments db' = replaced a' (audit_assignments db)"
    and tables: "preparation db' = preparation db" "audit_question_assignments db' = audit_question_assignments db"
      "audit_team_members db' = audit_team_members db" "inspection_packages db' = inspection_packages db"
      "snapshot_questions db' = snapshot_questions db"
    and inspection: "map_option in_status (lookup in_id i (inspections db')) = Some (scheduled_as (aa_status a'))"
      "\<And>j. j \<noteq> i \<Longrightarrow> lookup in_id j (inspections db') = lookup in_id j (inspections db)"
  shows "desk_step db db' \<and> desk_wf db'"
proof (rule desk_replaced [OF wf a(1) t rows])
  have moved: "aa_id a' = aa_id a" "aa_inspection_id a' = Some i"
    using t(1) a(2) by (simp_all add: assignment_transition_def same_audit_def)
  show "receipts_wf db'"
    by (rule receipts_advance [OF _ _ a(1) t(1) status _ _ tables(2,3) rows])
      (use wf in \<open>simp_all add: desk_wf_def tables same_questions_def\<close>)
  show "inspections_wf db'"
    by (rule inspections_scheduled [OF _ a moved rows inspection]) (use wf in \<open>simp add: desk_wf_def\<close>)
qed (use wf tables in \<open>simp_all add: desk_wf_def desk_appended_def questions_placed_def question_placed_def\<close>)

lemma agreed_status:
  "desk_wf db \<Longrightarrow> a \<in> set (audit_assignments db) \<Longrightarrow> aa_inspection_id a = Some i \<Longrightarrow>
     map_option in_status (lookup in_id i (inspections db)) = Some (scheduled_as (aa_status a))"
  by (auto simp: desk_wf_def inspections_wf_def inspection_agrees_def split: option.splits)

lemma RespondCoordination_keeps:
  assumes "RespondCoordination_handler env command db = Inr (db', result)" and valid: "respond_decision_check command"
  shows "keeps_desk db db'"
  unfolding keeps_desk_def
proof (intro impI)
  assume wf: "desk_wf db"
  then have rows: "assignments_wf db" by (simp add: desk_wf_def)
  from assms(1) obtain row mid scheduled nextStatus where
    look: "coordination_context (\<lambda>_. True) (rp_InspectionID command) (rp_OrganizationID command) db = Some row"
    and nextStatus: "nextStatus = (if rp_Decision command = CoordinationProposeAlternative then StatusAlternativeProposed
       else StatusConfirmed)"
    and status: "aa_status (cw_assignment row) \<in> {StatusAwaitingAuditeeConfirmation, StatusAlternativeProposed}"
      "rp_Decision command = CoordinationConfirm \<Longrightarrow> aa_status (cw_assignment row) = StatusAwaitingAuditeeConfirmation"
    and run: "update_assignment (aa_id (cw_assignment row)) (\<lambda>b. aa_revision b = aa_revision (cw_assignment row))
       (\<lambda>b. b\<lparr>aa_status := nextStatus, aa_revision := aa_revision b + 1, aa_updated_at := env_clock env 0\<rparr>) db =
       Inr (True, mid)"
    and sched: "if rp_Decision command = CoordinationConfirm
     then schedule_inspection env (rp_InspectionID command) mid = Inr (True, scheduled) else scheduled = mid"
    and db': "db' = (case rp_AlternativeDate command of None \<Rightarrow> scheduled
       | Some date \<Rightarrow> set_alternative env (cw_assignment row) (rp_InspectionID command) date scheduled)"
    by (rule RespondCoordination_handler_Inr) (rule that; assumption)
  let ?a = "cw_assignment row" and ?i = "rp_InspectionID command"
  let ?a' = "moved_to nextStatus (env_clock env 0) ?a"
  note a = coordination_context_Some(1,2) [OF look]
  have mid: "mid = db\<lparr>audit_assignments := replaced ?a' (audit_assignments db)\<rparr>" and check: "assignment_check ?a'"
    using update_one [OF run rows a(1)] by (simp_all add: moved_to_def)
  have kind: "rp_Decision command = CoordinationConfirm \<or> rp_Decision command = CoordinationProposeAlternative"
    using valid by (auto simp: respond_decision_check_def split: CoordinationDecision.splits)
  have t: "assignment_transition ?a ?a'"
    using status(1) kind by (intro moved_transition [OF check])
      (auto simp: nextStatus intro: assignment_edge.confirmed assignment_edge.proposed)
  have agreed: "map_option in_status (lookup in_id ?i (inspections mid)) = Some ''AWAITING_AUDITEE_CONFIRMATION''"
    using agreed_status [OF wf a] status(1) by (auto simp: mid scheduled_as_def)
  have final: "audit_assignments db' = audit_assignments scheduled" "preparation db' = preparation scheduled"
    "audit_question_assignments db' = audit_question_assignments scheduled" "inspections db' = inspections scheduled"
    "audit_team_members db' = audit_team_members scheduled" "inspection_packages db' = inspection_packages scheduled"
    "snapshot_questions db' = snapshot_questions scheduled"
    by (simp_all add: db' set_alternative_def split: option.split)
  obtain ins where scheduled: "scheduled = mid\<lparr>inspections := ins\<rparr>"
    and ins: "map_option in_status (lookup in_id ?i ins) = Some (scheduled_as nextStatus)"
      "\<And>j. j \<noteq> ?i \<Longrightarrow> lookup in_id j ins = lookup in_id j (inspections mid)"
  proof (cases "rp_Decision command = CoordinationConfirm")
    case True
    with sched have "schedule_inspection env ?i mid = Inr (True, scheduled)" by simp
    from schedule_inspection_Inr [OF this] agreed True show thesis
      by (intro that [of "inspections scheduled"]) (simp_all add: nextStatus scheduled_as_def)
  next
    case False
    with sched kind agreed show thesis
      by (intro that [of "inspections mid"]) (simp_all add: nextStatus scheduled_as_def)
  qed
  show "desk_step db db' \<and> desk_wf db'"
    by (rule desk_advanced [OF wf a t check])
      (use ins in \<open>simp_all add: final scheduled mid nextStatus confirmed_statuses_def\<close>)
qed

text \<open>A review: the assignment whose alternative date was proposed is confirmed or goes back.\<close>

lemma ReviewCoordination_handler_Inr:
  assumes "ReviewCoordination_handler env actor command db = Inr (db', result)"
  obtains row date alternative where
    "coordination_context (\<lambda>row. aa_status (cw_assignment row) = StatusAlternativeProposed \<and>
       aa_tombstoned_at (cw_assignment row) = None) (rw_InspectionID command) (rw_OrganizationID command) db = Some row"
    "aa_revision (cw_assignment row) = rw_ExpectedRevision command"
    "require_scope env actor '''' (rw_InspectionID command) db = None"
    "draft_alternative (cw_draft row) = Some date" "parse_date date = Some alternative"
    "review_writes env command (cw_assignment row) alternative db = Inr db'"
  using assms
  by (clarsimp simp: ReviewCoordination_handler_def Let_def bind_result_Inr check_error_Inr if_Inl_Inr case_option_Inr)

lemma ReviewCoordination_keeps:
  assumes "ReviewCoordination_handler env actor command db = Inr (db', result)"
  shows "keeps_desk db db'"
  unfolding keeps_desk_def
proof (intro impI)
  assume wf: "desk_wf db"
  then have rows: "assignments_wf db" by (simp add: desk_wf_def)
  from assms obtain row alternative where
    look: "coordination_context (\<lambda>row. aa_status (cw_assignment row) = StatusAlternativeProposed \<and>
       aa_tombstoned_at (cw_assignment row) = None) (rw_InspectionID command) (rw_OrganizationID command) db = Some row"
    and writes: "review_writes env command (cw_assignment row) alternative db = Inr db'"
    by (rule ReviewCoordination_handler_Inr) (rule that; assumption)
  let ?a = "cw_assignment row" and ?i = "rw_InspectionID command"
  note a = coordination_context_Some(1,2) [OF look]
  from coordination_context_Some(5) [OF look] have status: "aa_status ?a = StatusAlternativeProposed" by simp
  have awaits: "map_option in_status (lookup in_id ?i (inspections db)) = Some ''AWAITING_AUDITEE_CONFIRMATION''"
    using agreed_status [OF wf a] status by (simp add: scheduled_as_def)
  show "desk_step db db' \<and> desk_wf db'"
  proof (cases "rw_Decision command = ReviewCoordinationAccept")
    case True
    with writes obtain updated mid scheduled where
      run: "update_assignment (aa_id ?a) (\<lambda>b. aa_revision b = aa_revision ?a) (accept_update env alternative) db =
        Inr (updated, mid)"
      and sched: "schedule_inspection env ?i mid = Inr (scheduled, db')"
      by (auto simp: review_writes_def bind_result_Inr)
    let ?a' = "accept_update env alternative ?a"
    have mid: "mid = db\<lparr>audit_assignments := replaced ?a' (audit_assignments db)\<rparr>" and check: "assignment_check ?a'"
      using update_one [OF run rows a(1)] by (simp_all add: accept_update_def)
    have t: "assignment_transition ?a ?a'"
      using check status assignment_edge.confirmed [of StatusAlternativeProposed]
      by (simp add: assignment_transition_def same_audit_def accept_update_def assignment_check_def)
    note ins = schedule_inspection_Inr [OF sched]
    have db': "audit_assignments db' = audit_assignments mid" "preparation db' = preparation mid"
      "audit_question_assignments db' = audit_question_assignments mid"
      "audit_team_members db' = audit_team_members mid" "inspection_packages db' = inspection_packages mid"
      "snapshot_questions db' = snapshot_questions mid"
      by (subst ins(1), simp)+
    show ?thesis
      by (rule desk_advanced [OF wf a t check])
        (use ins(2,3) awaits in \<open>simp_all add: db' mid accept_update_def confirmed_statuses_def scheduled_as_def\<close>)
  next
    case False
    with writes obtain updated where
      run: "update_assignment (aa_id ?a) (\<lambda>b. aa_revision b = aa_revision ?a)
        (\<lambda>b. b\<lparr>aa_status := StatusAwaitingAuditeeConfirmation, aa_revision := aa_revision b + 1,
             aa_updated_at := env_clock env 0\<rparr>) db = Inr (updated, db')"
      by (auto simp: review_writes_def bind_result_Inr)
    let ?a' = "moved_to StatusAwaitingAuditeeConfirmation (env_clock env 0) ?a"
    have db': "db' = db\<lparr>audit_assignments := replaced ?a' (audit_assignments db)\<rparr>" and check: "assignment_check ?a'"
      using update_one [OF run rows a(1)] by (simp_all add: moved_to_def)
    have t: "assignment_transition ?a ?a'"
      using status assignment_edge.returned by (intro moved_transition [OF check]) simp
    show ?thesis
      by (rule desk_advanced [OF wf a t check])
        (use awaits in \<open>simp_all add: db' confirmed_statuses_def scheduled_as_def\<close>)
  qed
qed

section \<open>The start of an inspection\<close>

lemma Start_guards:
  assumes "StartInspection_handler env actor command db = Inr (db', result)"
    "start_context (si_InspectionID command) db = Some (a, i, k)"
  shows "aa_status a \<in> {StatusConfirmed, StatusScheduled}" "0 < sint (aa_revision a + 1)"
  using assms
  by (auto simp: StartInspection_handler_def start_updates_def bind_result_Inr if_Inl_Inr not_le split: option.splits)

lemma start_context_Some:
  assumes "start_context inspectionID db = Some (a, i, k)"
  shows "a \<in> set (audit_assignments db)" "aa_inspection_id a = Some inspectionID" "in_id i = inspectionID"
    "i \<in> set (inspections db)"
  using assms by (auto simp: start_context_def find_Some_iff split: option.splits)

lemma StartInspection_keeps:
  assumes run: "StartInspection_handler env actor command db = Inr (db', result)"
  shows "keeps_desk db db'"
  unfolding keeps_desk_def
proof (intro impI)
  assume wf: "desk_wf db"
  then have rows: "assignments_wf db" by (simp add: desk_wf_def)
  from run obtain a i k where look: "start_context (si_InspectionID command) db = Some (a, i, k)"
    and db': "db' = db\<lparr>inspections := modify in_id (in_id i) (Start_inspection_update env) (inspections db),
        inspection_checklists :=
          modify k_inspection_id (k_inspection_id k) Start_checklist_update (inspection_checklists db),
        audit_assignments := modify aa_id (aa_id a) (Start_assignment_update env) (audit_assignments db)\<rparr>"
    by (rule StartInspection_handler_Inr) (rule that; assumption)
  let ?i = "si_InspectionID command"
  note a = start_context_Some(1,2) [OF look] and i = start_context_Some(3,4) [OF look]
  note guards = Start_guards [OF run look]
  let ?a' = "moved_to StatusReady (env_clock env 0) a"
  have start: "Start_assignment_update env a = ?a'" by (simp add: Start_assignment_update_def moved_to_def)
  have assignments: "modify aa_id (aa_id a) (Start_assignment_update env) (audit_assignments db) =
      replaced ?a' (audit_assignments db)"
    using assignments_key [OF rows a(1)] start by (auto simp: modify_def)
  have check: "assignment_check ?a'"
    using assignment_wf_shape [OF rows a(1)] guards a(2)
    by (auto simp: assignment_check_def assignment_shape_def preparation_statuses_def)
  have t: "assignment_transition a ?a'" using guards(1) by (intro moved_transition [OF check] assignment_edge.started)
  have key: "in_id (Start_inspection_update env n) = in_id n" for n by (simp add: Start_inspection_update_def)
  have looks: "lookup in_id j (modify in_id (in_id i) (Start_inspection_update env) (inspections db)) =
      (if j = ?i then map_option (Start_inspection_update env) (lookup in_id ?i (inspections db))
       else lookup in_id j (inspections db))" for j
    using key i(1) by (simp add: lookup_modify)
  obtain n where "lookup in_id ?i (inspections db) = Some n"
    using i by (cases "lookup in_id ?i (inspections db)") (auto simp: lookup_None)
  with looks have started: "map_option in_status (lookup in_id ?i (inspections db')) = Some ''IN_PROGRESS''"
    by (simp add: db' Start_inspection_update_def)
  show "desk_step db db' \<and> desk_wf db'"
    by (rule desk_advanced [OF wf a t check])
      (use started looks in \<open>simp_all add: db' assignments confirmed_statuses_def scheduled_as_def\<close>)
qed

section \<open>Materialization\<close>

lemma server_command_fields [simp]:
  "mi_AssignmentID (server_command env command inspectionID db) = mi_AssignmentID command"
  by (simp add: server_command_def Let_def)

lemma insert_assignments_Inr: "insert_assignments qs rows = Inr rows' \<Longrightarrow> rows' = rows @ qs"
  by (induction qs arbitrary: rows) (fastforce simp: bind_result_Inr insert_row_Inr)+

lemma materialize_status_cases: "materialize_status p \<in> {StatusScheduled, StatusAwaitingAuditeeConfirmation}"
  by (simp add: materialize_status_def)

text \<open>The update of the assignment, and the inspection that is planned with the same status.\<close>

definition materialized :: "Env \<Rightarrow> string \<Rightarrow> string \<Rightarrow> AuditAssignment \<Rightarrow> AuditAssignment" where
  "materialized env inspectionID status a = a\<lparr>aa_inspection_id := Some inspectionID, aa_status := status,
     aa_revision := aa_revision a + 1, aa_updated_at := env_clock env 2\<rparr>"

lemma plan_inspection_lookup:
  assumes "plan_inspection env i status db = Inr (planned, db')"
  shows "map_option in_status (lookup in_id i (inspections db)) = Some StatusPreparation \<Longrightarrow>
      map_option in_status (lookup in_id i (inspections db')) = Some status"
    "j \<noteq> i \<Longrightarrow> lookup in_id j (inspections db') = lookup in_id j (inspections db)"
    "\<exists>rows. db' = db\<lparr>inspections := rows\<rparr>"
proof -
  let ?g = "\<lambda>n. if in_id n = i \<and> in_status n = ''PREPARATION''
    then n\<lparr>in_status := status, in_revision := in_revision n + 1, in_updated_at := env_clock env 2\<rparr> else n"
  from assms have db': "db' = db\<lparr>inspections := map ?g (inspections db)\<rparr>"
    by (auto elim: plan_inspection_Inr)
  then show "\<exists>rows. db' = db\<lparr>inspections := rows\<rparr>" by blast
  have look: "lookup in_id k (inspections db') = map_option ?g (lookup in_id k (inspections db))" for k
    by (simp add: db' lookup_map_rows)
  show "map_option in_status (lookup in_id i (inspections db')) = Some status"
    if "map_option in_status (lookup in_id i (inspections db)) = Some StatusPreparation"
  proof -
    from that obtain n where n: "lookup in_id i (inspections db) = Some n" "in_status n = StatusPreparation" by auto
    with look [of i] lookup_Some [OF n(1)] show ?thesis by simp
  qed
  show "lookup in_id j (inspections db') = lookup in_id j (inspections db)" if "j \<noteq> i"
    using that look [of j] by (cases "lookup in_id j (inspections db)") (auto dest!: lookup_Some)
qed

text \<open>What an accepted materialization has written, from the state of the desk.\<close>

lemma Materialize_desk:
  assumes wf: "desk_wf db" and run: "MaterializeInspection_handler digests env actor command db = Inr (db', result)"
  obtains a inspectionID snapshot noticePolicy confirmed content where
    "HasRole actor [RoleDepartmentManager]"
    "a \<in> set (audit_assignments db)" "aa_id a = mi_AssignmentID command" "aa_status a = StatusQuestionsAssigned"
    "aa_inspection_id a = None" "aa_revision a = mi_ExpectedAssignmentRevision command"
    "aa_released_scope_snapshot_id a = Some (ss_id snapshot)"
    "released_scope (ss_id snapshot) db = Some snapshot"
    "\<forall>n \<in> set (inspections db). in_id n \<noteq> inspectionID"
    "current_confirmations (aa_id a) (ss_id snapshot) (aa_revision a) db = [confirmed]"
    "content = package_snapshot snapshot confirmed
       (package_questions (ss_catalog_id snapshot) (ss_id snapshot) (ph_id confirmed) db)"
    "prepared_question_count (ph_id confirmed) (ss_id snapshot) db = ss_selected_question_count snapshot"
    "int (length (ks_questions content)) = ss_selected_question_count snapshot"
    "assignment_check (materialized env inspectionID (materialize_status noticePolicy) a)"
    "audit_assignments db' =
       replaced (materialized env inspectionID (materialize_status noticePolicy) a) (audit_assignments db)"
    "\<exists>package. inspection_packages db' = inspection_packages db @ [package] \<and> pk_inspection_id package = inspectionID \<and>
       pk_snapshot package = Some content \<and> pk_package_digest package = digest_package digests content"
    "map_option in_status (lookup in_id inspectionID (inspections db')) = Some (materialize_status noticePolicy)"
    "\<forall>j. j \<noteq> inspectionID \<longrightarrow> lookup in_id j (inspections db') = lookup in_id j (inspections db)"
    "ph_id (materialized_preparation env confirmed) \<notin> ph_id ` set (preparation_snapshots (preparation db))"
    "preparation_snapshots (preparation db') =
       preparation_snapshots (preparation db) @ [materialized_preparation env confirmed]"
    "preparation_questions (preparation db') = preparation_questions (preparation db) @
       map (\<lambda>q. q\<lparr>pz_preparation_id := ph_id (materialized_preparation env confirmed)\<rparr>)
         (filter (\<lambda>q. pz_preparation_id q = ph_id confirmed) (preparation_questions (preparation db)))"
    "preparation db' = (preparation db)\<lparr>preparation_snapshots := preparation_snapshots (preparation db'),
       preparation_questions := preparation_questions (preparation db')\<rparr>"
    "audit_question_assignments db' = audit_question_assignments db" "audit_team_members db' = audit_team_members db"
    "snapshot_questions db' = snapshot_questions db"
    "question_assignments db' = question_assignments db @
       materialized_assignments inspectionID (aa_revision a + 1) (ks_questions content)"
proof -
  from wf have rows: "assignments_wf db" by (simp add: desk_wf_def)
  from run obtain a item created server snapshotID inspectionStatus where
    role: "HasRole actor [RoleDepartmentManager]"
    and look: "current_assignment (mi_AssignmentID command) db = Some a" and status: "aa_status a = StatusQuestionsAssigned"
    and revision: "aa_revision a = mi_ExpectedAssignmentRevision command"
    and created: "if or_empty (aa_inspection_id a) = ''''
       then (\<forall>i \<in> set (inspections db). in_id i \<noteq> inspection_id_of command a) \<and> created = db\<lparr>inspections := inspections db @
         [materialized_inspection env (inspection_id_of command a) (aa_organization_id a) item]\<rparr>
       else created = db"
    and scope: "aa_released_scope_snapshot_id a = Some snapshotID"
    and server: "server = server_command env command (inspection_id_of command a) created"
    and canonical: "materializeCanonicalInspection digests env server (inspection_id_of command a) (aa_organization_id a)
       inspectionStatus (aa_revision a) snapshotID created = Inr (db', result)"
    by (rule Materialize_handler_Inr) (rule that; assumption)
  let ?i = "inspection_id_of command a"
  from look have a: "a \<in> set (audit_assignments db)" "aa_id a = mi_AssignmentID command"
    by (auto dest: current_assignment_Some)
  have none: "aa_inspection_id a = None"
    using assignment_wf_shape [OF rows a(1)] status by (simp add: assignment_shape_def preparation_statuses_def)
  with created have fresh: "\<forall>n \<in> set (inspections db). in_id n \<noteq> ?i"
    and created: "created = db\<lparr>inspections := inspections db @
         [materialized_inspection env ?i (aa_organization_id a) item]\<rparr>"
    by (simp_all add: or_empty_def)
  have server_id: "mi_AssignmentID server = aa_id a" by (simp add: server a(2))
  from canonical obtain snapshot noticePolicy confirmed planned where
    released: "released_scope snapshotID created = Some snapshot"
    and confirmed: "current_confirmations (mi_AssignmentID server) (ss_id snapshot) (aa_revision a) created = [confirmed]"
    and prepared: "prepared_question_count (ph_id confirmed) (ss_id snapshot) created = ss_selected_question_count snapshot"
    and count: "int (length (package_questions (ss_catalog_id snapshot) (ss_id snapshot) (ph_id confirmed) created)) =
       ss_selected_question_count snapshot"
    and writes: "materialize_writes digests env server ?i noticePolicy (aa_revision a) confirmed
       (package_snapshot snapshot confirmed
         (package_questions (ss_catalog_id snapshot) (ss_id snapshot) (ph_id confirmed) created)) created =
       Inr (planned, db')"
    by (rule materializeCanonical_Inr) (rule that; assumption)
  let ?content = "package_snapshot snapshot confirmed
         (package_questions (ss_catalog_id snapshot) (ss_id snapshot) (ph_id confirmed) created)"
  let ?status = "materialize_status noticePolicy" and ?copy = "materialized_preparation env confirmed"
  let ?a = "materialized env ?i ?status a"
  have same: "package_questions c s p created = package_questions c s p db" for c s p
    by (simp add: created package_questions_def package_subjects_def)
  from writes obtain assigned mid planned_db questions where
    assigned: "insert_assignments (materialized_assignments ?i (aa_revision a + 1) (ks_questions ?content))
       (question_assignments created) = Inr assigned"
    and update: "update_assignment (mi_AssignmentID server) (\<lambda>b. aa_revision b = aa_revision a)
       (\<lambda>b. b\<lparr>aa_inspection_id := Some ?i, aa_status := ?status, aa_revision := aa_revision b + 1,
           aa_updated_at := env_clock env 2\<rparr>)
       (created\<lparr>inspection_packages := inspection_packages created @ [package_of digests env server ?i ?content],
           inspection_checklists := inspection_checklists created @ [\<lparr>k_inspection_id = ?i,
             k_status = KStatusNotStarted, k_revision = 1, k_submitted_at = None, k_reopened_at = None,
             k_reopen_reason = None\<rparr>], question_assignments := assigned\<rparr>) = Inr (True, mid)"
    and plan: "plan_inspection env ?i ?status mid = Inr (planned, planned_db)"
    and new: "\<not> preparation_conflict ?copy (preparation_snapshots (preparation planned_db))"
    and copied: "copy_questions (ph_id ?copy) (ph_id confirmed) planned_db = Inr questions"
    and db': "db' = planned_db\<lparr>preparation := (preparation planned_db)\<lparr>preparation_snapshots :=
       preparation_snapshots (preparation planned_db) @ [?copy], preparation_questions := questions\<rparr>\<rparr>"
    by (rule materialize_writes_Inr) (rule that; assumption)
  let ?base = "created\<lparr>inspection_packages := inspection_packages created @ [package_of digests env server ?i ?content],
           inspection_checklists := inspection_checklists created @ [\<lparr>k_inspection_id = ?i,
             k_status = KStatusNotStarted, k_revision = 1, k_submitted_at = None, k_reopened_at = None,
             k_reopen_reason = None\<rparr>], question_assignments := assigned\<rparr>"
  have base: "assignments_wf ?base" "a \<in> set (audit_assignments ?base)"
    using rows a(1) assignments_wf_cong [of ?base db] by (simp_all add: created)
  have mid: "mid = ?base\<lparr>audit_assignments := replaced ?a (audit_assignments ?base)\<rparr>" and check: "assignment_check ?a"
    using update_one [OF update [unfolded server_id] base] by (simp_all add: materialized_def)
  note planned = plan_inspection_lookup [OF plan]
  from planned(3) obtain ins where planned_db: "planned_db = mid\<lparr>inspections := ins\<rparr>" by blast
  have created_lookup: "lookup in_id j (inspections created) = (if j = ?i then Some (materialized_inspection env ?i
      (aa_organization_id a) item) else lookup in_id j (inspections db))" for j
  proof -
    have "lookup in_id ?i (inspections db) = None" using fresh by (simp add: lookup_None)
    then show ?thesis
      by (auto simp: created lookup_append materialized_inspection_def split: option.split)
  qed
  have questions: "questions = preparation_questions (preparation db) @
       map (\<lambda>q. q\<lparr>pz_preparation_id := ph_id ?copy\<rparr>)
         (filter (\<lambda>q. pz_preparation_id q = ph_id confirmed) (preparation_questions (preparation db)))"
    using insert_questions_Inr [OF copied [unfolded copy_questions_def]] by (simp add: planned_db mid created)
  have inserted: "assigned = question_assignments db @
       materialized_assignments ?i (aa_revision a + 1) (ks_questions ?content)"
    using insert_assignments_Inr [OF assigned] by (simp add: created)
  have released': "released_scope snapshotID db = Some snapshot" using released by (simp add: created released_scope_def)
  then have id: "ss_id snapshot = snapshotID" by (auto simp: released_scope_def find_Some_iff)
  show thesis
  proof (rule that [of a snapshot ?i confirmed ?content noticePolicy])
    show "map_option in_status (lookup in_id ?i (inspections db')) = Some ?status"
      using planned(1) created_lookup [of ?i] by (simp add: db' mid materialized_inspection_def)
    show "\<forall>j. j \<noteq> ?i \<longrightarrow> lookup in_id j (inspections db') = lookup in_id j (inspections db)"
      using planned(2) created_lookup by (simp add: db' mid)
    show "ph_id ?copy \<notin> ph_id ` set (preparation_snapshots (preparation db))"
      using new by (auto simp: preparation_conflict_def list_ex_iff planned_db mid created)
    show "\<exists>package. inspection_packages db' = inspection_packages db @ [package] \<and> pk_inspection_id package = ?i \<and>
       pk_snapshot package = Some ?content \<and> pk_package_digest package = digest_package digests ?content"
      by (simp add: db' planned_db mid created package_of_def)
    show "prepared_question_count (ph_id confirmed) (ss_id snapshot) db = ss_selected_question_count snapshot"
      using prepared by (simp add: prepared_question_count_def created)
  qed (use role a status none revision scope id released' fresh confirmed count check in
      \<open>simp_all add: same [unfolded created] server_id db' planned_db mid created questions inserted package_snapshot_def
        current_confirmations_def\<close>)
qed

lemma Materialize_keeps:
  assumes "MaterializeInspection_handler digests env actor command db = Inr (db', result)"
  shows "keeps_desk db db'"
  unfolding keeps_desk_def
proof (intro impI)
  assume wf: "desk_wf db"
  then have rows: "assignments_wf db" "keys_wf (preparation db)" by (simp_all add: desk_wf_def)
  obtain a inspectionID noticePolicy confirmed and content :: PackageSnapshot where
    a: "a \<in> set (audit_assignments db)" "aa_status a = StatusQuestionsAssigned" "aa_inspection_id a = None"
    and fresh: "\<forall>n \<in> set (inspections db). in_id n \<noteq> inspectionID"
    and check: "assignment_check (materialized env inspectionID (materialize_status noticePolicy) a)"
    and assignments: "audit_assignments db' =
       replaced (materialized env inspectionID (materialize_status noticePolicy) a) (audit_assignments db)"
    and packages: "\<exists>package. inspection_packages db' = inspection_packages db @ [package] \<and>
       pk_inspection_id package = inspectionID \<and> pk_snapshot package = Some content \<and>
       pk_package_digest package = digest_package digests content"
    and look: "map_option in_status (lookup in_id inspectionID (inspections db')) = Some (materialize_status noticePolicy)"
      "\<forall>j. j \<noteq> inspectionID \<longrightarrow> lookup in_id j (inspections db') = lookup in_id j (inspections db)"
    and new: "ph_id (materialized_preparation env confirmed) \<notin> ph_id ` set (preparation_snapshots (preparation db))"
    and snapshots: "preparation_snapshots (preparation db') =
       preparation_snapshots (preparation db) @ [materialized_preparation env confirmed]"
    and questions: "preparation_questions (preparation db') = preparation_questions (preparation db) @
       map (\<lambda>q. q\<lparr>pz_preparation_id := ph_id (materialized_preparation env confirmed)\<rparr>)
         (filter (\<lambda>q. pz_preparation_id q = ph_id confirmed) (preparation_questions (preparation db)))"
    and others: "preparation db' = (preparation db)\<lparr>preparation_snapshots := preparation_snapshots (preparation db'),
       preparation_questions := preparation_questions (preparation db')\<rparr>"
    and work: "audit_question_assignments db' = audit_question_assignments db" "audit_team_members db' = audit_team_members db"
    and released: "snapshot_questions db' = snapshot_questions db"
    by (rule Materialize_desk [OF wf assms]) (rule that; assumption)
  let ?status = "materialize_status noticePolicy" and ?copy = "materialized_preparation env confirmed"
  let ?a = "materialized env inspectionID ?status a"
  have fields: "aa_id ?a = aa_id a" "aa_status ?a = ?status" "aa_inspection_id ?a = Some inspectionID"
    by (simp_all add: materialized_def)
  have status: "?status \<in> set confirmed_statuses - {StatusQuestionsAssigned}" "assignment_edge StatusQuestionsAssigned ?status"
    using materialize_status_cases [of noticePolicy]
    by (auto simp: confirmed_statuses_def intro: assignment_edge.withheld assignment_edge.advance)
  have t: "assignment_transition a ?a"
    using check status(2) a(2,3) by (simp add: assignment_transition_def same_audit_def materialized_def assignment_check_def)
  have others': "edit_previews (preparation db') = edit_previews (preparation db)"
    "preview_consumptions (preparation db') = preview_consumptions (preparation db)"
    "edit_events (preparation db') = edit_events (preparation db)"
    by (subst others, simp)+
  show "desk_step db db' \<and> desk_wf db'"
  proof (rule desk_replaced [OF wf a(1) t check assignments])
    show "desk_appended db db'" using packages by (auto simp: desk_appended_def others' snapshots questions released)
    show "keys_wf (preparation db')"
      using rows(2) new by (auto simp: keys_wf_def others' snapshots questions)
    show "questions_placed db'"
      using wf by (auto simp: desk_wf_def questions_placed_def question_placed_def questions released)
    show "receipts_wf db'"
    proof (rule receipts_advance [OF _ rows(1) a(1) t _ _ _ work assignments released])
      show "same_questions (ph_id p) db db'" if "p \<in> set (preparation_snapshots (preparation db))" for p
        using that new by (auto simp: same_questions_def questions filter_empty_conv)
    qed (use wf status(1) in \<open>auto simp: desk_wf_def fields snapshots materialized_preparation_def\<close>)
    show "inspections_wf db'"
    proof (rule inspections_replaced [OF _ assignments])
      show "inspection_agrees db' ?a"
        using look(1) materialize_status_cases [of noticePolicy] by (auto simp: inspection_agrees_def fields scheduled_as_def)
      fix b j
      assume b: "b \<in> set (audit_assignments db)" "aa_inspection_id b = Some j"
      from agreed_status [OF wf b] have "j \<noteq> inspectionID" using fresh by (auto dest!: lookup_Some)
      with look(2) show "aa_inspection_id ?a \<noteq> Some j \<and>
          map_option in_status (lookup in_id j (inspections db')) = map_option in_status (lookup in_id j (inspections db))"
        by (simp add: fields)
    qed (use wf in \<open>simp add: desk_wf_def\<close>)
  qed (use wf work in \<open>simp_all add: desk_wf_def\<close>)
qed

end
