(* ===== verification/DeskRuns.thy ===== *)
theory DeskRuns
  imports DeskDecisions
begin

text \<open>
  The desk over runs of the whole system: every step of \<open>system_step\<close> keeps it, most of them because
  they do not write its tables.
\<close>

section \<open>The commands\<close>

lemma handler_same_desk:
  "SubmitCAP_handler env actor c1 db = Inr (db', result) \<Longrightarrow> same_desk db db'"
  "ReviewCAP_handler env actor c2 db = Inr (db', result) \<Longrightarrow> same_desk db db'"
  "ReviewEvidence_handler env actor c3 db = Inr (db', result) \<Longrightarrow> same_desk db db'"
  "AuthorizedCloseFinding_handler env actor c4 db = Inr (db', result) \<Longrightarrow> same_desk db db'"
  "ConvertPotentialFinding_handler env actor c5 db = Inr (db', result) \<Longrightarrow> same_desk db db'"
  "DecideReport_handler env actor c6 db = Inr (db', result) \<Longrightarrow> same_desk db db'"
  "CreateReportVersion_handler env actor c7 db = Inr (db', result) \<Longrightarrow> same_desk db db'"
  "CreateAdminOrganization_handler env c8 db = Inr (db', result) \<Longrightarrow> same_desk db db'"
  "CreateReminderRule_handler env actor c9 db = Inr (db', result) \<Longrightarrow> same_desk db db'"
          apply (erule SubmitCAP_handler_Inr, simp add: same_desk_def)
         apply (erule ReviewCAP_handler_Inr, simp add: same_desk_def)
        apply (erule ReviewEvidence_handler_Inr, simp add: same_desk_def)
       apply (erule AuthorizedCloseFinding_handler_Inr, simp add: same_desk_def)
      apply (erule ConvertPotentialFinding_handler_Inr, simp add: same_desk_def)
     apply (erule DecideReport_handler_Inr, simp add: same_desk_def)
    apply (erule CreateReportVersion_handler_Inr, simp add: same_desk_def)
   apply (auto simp: CreateAdminOrganization_handler_def CreateReminderRule_handler_def Let_def if_Inl_Inr same_desk_def)
  done

lemmas field_same_desk = UpsertChecklistResponse_untouched [THEN untouched_desk]
  SubmitChecklist_untouched [THEN untouched_desk] ReopenChecklist_untouched [THEN untouched_desk]
  CreatePotentialFinding_untouched [THEN untouched_desk] DecidePotentialFinding_untouched [THEN untouched_desk]

lemma prepare_keeps:
  assumes "prepare parses fresh actor c = Inr (envelope, handler)" "handler env db = Inr (mid, result)"
  shows "keeps_desk db mid"
  using assms
  by (cases c) (auto simp: bind_result_Inr Let_def split: if_splits
      intro: same_desk_keeps [OF handler_same_desk(1)] same_desk_keeps [OF handler_same_desk(2)]
        same_desk_keeps [OF handler_same_desk(3)] same_desk_keeps [OF handler_same_desk(4)]
        same_desk_keeps [OF handler_same_desk(5)] same_desk_keeps [OF handler_same_desk(6)]
        same_desk_keeps [OF handler_same_desk(7)] same_desk_keeps [OF handler_same_desk(8)]
        same_desk_keeps [OF handler_same_desk(9)] field_same_desk [THEN same_desk_keeps] StartInspection_keeps)

lemma keeps_desk_refl [simp, intro]: "keeps_desk db db"
  by (simp add: same_desk_keeps)

lemma dispatch_keeps:
  assumes "dispatch parses fresh env actor c db = Inr (db', resp)"
  shows "keeps_desk db db'"
proof -
  from assms obtain envelope handler where p: "prepare parses fresh actor c = Inr (envelope, handler)"
    and e: "executeTransition env actor envelope (handler env) db = Inr (db', resp)"
    by (rule dispatch_Inr)
  from e show ?thesis
    by (cases rule: executeTransition_cases) (auto simp: keeps_desk_ledger intro: prepare_keeps [OF p])
qed

lemma assignment_run_keeps:
  assumes "assignment_run digests env actor c call handler" "handler db = Inr (mid, result)"
  shows "keeps_desk db mid"
  using assms
  by (cases rule: assignment_run.cases)
    (auto intro: Prepare_keeps AssignLead_keeps PreviewTeam_keeps AssignTeam_keeps PreviewQuestions_keeps
      AssignQuestions_keeps [OF _ normalized_clean] ConfirmPreparation_keeps RespondCoordination_keeps
      ReviewCoordination_keeps)

lemma assignment_dispatch_keeps:
  assumes "assignment_dispatch digests env actor c db = Inr (db', resp)"
  shows "keeps_desk db db'"
proof -
  from assms obtain call handler where r: "assignment_run digests env actor c call handler"
    and e: "executeCommand digests env actor call handler db = Inr (db', resp)"
    by (rule assignment_dispatch_Inr)
  from e show ?thesis
    by (cases rule: executeCommand_cases) (auto simp: keeps_desk_ledger intro: assignment_run_keeps [OF r])
qed

lemma MaterializeInspection_keeps:
  assumes "MaterializeInspection digests env actor command db = Inr (db', resp)"
  shows "keeps_desk db db'"
  using assms unfolding MaterializeInspection_def
  by (cases rule: executeTransition_cases) (auto simp: keeps_desk_ledger intro: Materialize_keeps)

section \<open>Uploads and scans\<close>

lemma Complete_same_desk:
  assumes "evidence_Complete service env actor input db = Inr (db', output)"
  shows "same_desk db db'"
  using assms
proof (cases rule: evidence_Complete_cases)
  case executed
  then obtain session identity finding mid envelope where
    w: "Complete_writes env actor session identity finding db = Inr mid"
    and p: "persistUploadTransaction envelope mid = Inr db'"
    by (rule Complete_body_Inr)
  from w have "same_desk db mid" by (rule Complete_writes_Inr) (simp add: same_desk_def)
  with persistUploadTransaction_Inr [OF p] show ?thesis by auto
qed simp

lemma finalizeEvidence_same_desk:
  assumes "finalizeEvidence worker env claimed record key promoted result db = Inr db'"
  shows "same_desk db db'"
  using assms
  by (cases rule: finalizeEvidence_Inr)
    (use untouched_desk [OF attachment_frame_untouched [OF markDelivered_frame]] in \<open>auto simp: same_desk_def\<close>)

lemma recordFailure_same_desk:
  assumes "recordFailure worker env claimed reason db = Inr db'"
  shows "same_desk db db'"
  using assms
  by (cases rule: recordFailure_Inr)
    (auto simp: same_desk_def dest: untouched_desk [OF attachment_frame_untouched])

lemmas desk_frames = evidence_Begin_untouched [THEN untouched_desk] ReconcileExpired_untouched [THEN untouched_desk]
  attachment_frame_untouched [THEN untouched_desk] Complete_same_desk finalizeEvidence_same_desk recordFailure_same_desk

lemma side_frame_desk: "side_frame db db' \<Longrightarrow> same_desk db db'"
  by (simp add: side_frame_def untouched_desk)

section \<open>Runs\<close>

interpretation desk: desk_transaction system_step
proof unfold_locales
  fix db db'
  assume "system_step db db'"
  then show "keeps_desk db db'"
  proof cases
    case (claim worker now claimed)
    then have "attachment_frame db db'" by (rule claimNext_Some)
    then show ?thesis by (intro same_desk_keeps desk_frames)
  next
    case (deliver mid now)
    then show ?thesis by (simp add: same_desk_keeps desk_frames markDelivered_frame)
  next
    case (finalize_attachment worker env claimed stored key promoted result)
    then have "attachment_frame db db'" by (rule finalizeAttachment_Inr)
    then show ?thesis by (intro same_desk_keeps desk_frames)
  next
    case (expire_uploads env)
    then show ?thesis by (simp add: same_desk_keeps desk_frames)
  qed (blast intro: dispatch_keeps assignment_dispatch_keeps MaterializeInspection_keeps
      same_desk_keeps desk_frames field_frames [THEN side_frame_desk])+
qed

end
