(* ===== verification/SyncLaws.thy ===== *)
theory SyncLaws
  imports FieldFrames
begin

text \<open>
  What the requests of an offline device have checked: the authority of a grant, an accepted push, an
  issued grant, and how the pages of \<open>Pull\<close> cut the pending changes.
\<close>

section \<open>The authority of a grant\<close>

lemma grant_context_Some:
  assumes "grant_context grantID db = Some (g, inspection, checklist, package, expiry)"
  shows "lookup gr_id grantID (offline_grants db) = Some g"
    "lookup in_id (gr_inspection_id g) (inspections db) = Some inspection"
    "lookup k_inspection_id (gr_inspection_id g) (inspection_checklists db) = Some checklist"
    "lookup pk_id (gr_package_id g) (inspection_packages db) = Some package"
    "pk_expires_at package = Some expiry"
  using assms by (auto simp: grant_context_def split: option.splits)

text \<open>A grant that is in force for an actor, a package, a device and a command at a time.\<close>

definition grant_in_force :: "Principal \<Rightarrow> operation \<Rightarrow> instant \<Rightarrow> DB \<Rightarrow> OfflineGrantRow \<Rightarrow> bool" where
  "grant_in_force actor input now db g \<longleftrightarrow>
     lookup gr_id (wo_OfflineGrantID input) (offline_grants db) = Some g \<and>
     gr_subject_id g = SubjectID actor \<and> gr_device_id g = wo_DeviceInstanceID input \<and>
     gr_package_id g = wo_PackageID input \<and> gr_revoked_at g = None \<and>
     now \<le> gr_expires_at g + clockSkewTolerance \<and> wo_CommandType input \<in> set (gr_allowed_command_types g) \<and>
     gr_profile_key_id g = wo_ProfileKeyID input \<and> gr_package_version g = wo_PackageVersion input \<and>
     (\<exists>inspection package. lookup in_id (gr_inspection_id g) (inspections db) = Some inspection \<and>
        in_status inspection = ''IN_PROGRESS'' \<and> in_revision inspection = gr_assignment_revision g \<and>
        lookup pk_id (wo_PackageID input) (inspection_packages db) = Some package \<and>
        pk_revoked_at package = None \<and> pk_package_digest package = gr_package_digest g)"

lemma loadGrantAuthority_Inr:
  assumes "loadGrantAuthority actor grantID packageID deviceID command version now allow db = Inr authority"
  obtains g inspection checklist package expiry
    where "grant_context grantID db = Some (g, inspection, checklist, package, expiry)"
    and "gr_subject_id g = SubjectID actor" "gr_package_id g = packageID"
    and "deviceID \<noteq> '''' \<Longrightarrow> gr_device_id g = deviceID"
    and "in_status inspection = ''IN_PROGRESS''" "k_status checklist = KStatusInProgress"
    and "gr_revoked_at g = None" "now \<le> gr_expires_at g + clockSkewTolerance"
    and "checkout_questions (in_id inspection) (SubjectID actor) db \<noteq> []"
    and "in_revision inspection = gr_assignment_revision g"
    and "\<not> allow \<Longrightarrow> pk_revoked_at package = None"
    and "0 < sint version \<Longrightarrow> gr_package_version g = version"
    and "pk_package_digest package = gr_package_digest g"
    and "command \<noteq> '''' \<Longrightarrow> command \<in> set (gr_allowed_command_types g)"
    and "in_assigned_inspector_subject_id inspection \<noteq> None"
    and "ga_ProfileKeyID authority = gr_profile_key_id g" "ga_ProfilePublicJWK authority = gr_profile_public_jwk g"
    and "ga_InspectionID authority = in_id inspection" "ga_QuestionIDs authority = gr_assignment_scope g"
    and "ga_PackageID authority = packageID" "ga_OrganizationID authority = in_organization_id inspection"
    and "HasRole actor [RoleInspector]"
  using assms
  by (auto simp: loadGrantAuthority_def Let_def not_less split: if_splits option.split_asm prod.splits)

section \<open>An accepted push\<close>

lemma refuse_Inr:
  "refuse env actor input h output db = Inr (db', r) \<Longrightarrow>
     r = output \<and> (\<exists>l. persistIdempotencyResponse env actor input h output (ledger db) = Inr l \<and> db' = db\<lparr>ledger := l\<rparr>)"
  by (auto simp: refuse_def bind_result_Inr)

lemma forbidden_not_accepted [simp]:
  "px_Status (forbiddenResult operationID code now) = PushForbidden" by (simp add: forbiddenResult_def)

lemma conflict_not_accepted [simp]:
  "px_Status (conflictResult operationID code entityID revision status changedAt now) = PushConflict"
  by (simp add: conflictResult_def)

lemma loadGrantAuthority_Inl:
  "loadGrantAuthority actor grantID packageID deviceID command version now allow db = Inl rejection \<Longrightarrow>
     px_Status rejection \<in> {PushForbidden, PushConflict}"
  by (auto simp: loadGrantAuthority_def Let_def split: if_splits option.split_asm prod.splits)

lemma name_rejection_status [simp]: "px_Status (name_rejection input rejection) = px_Status rejection"
  by (simp add: name_rejection_def)

lemma push_operation_accepted:
  assumes run: "push_operation service env actor input h db = Inr (db', r)" and acc: "px_Status r = PushAccepted"
  obtains authority dbm m l where "wo_ActorSubject input = SubjectID actor"
    and "loadGrantAuthority actor (wo_OfflineGrantID input) (wo_PackageID input) (wo_DeviceInstanceID input)
      (wo_CommandType input) (wo_PackageVersion input) (env_clock env 0) False db = Inr authority"
    and "wo_ProfileKeyID input = ga_ProfileKeyID authority"
    and "verifyProfileAuthorityProof (os_crypto service) (ga_ProfilePublicJWK authority)
      (ga_ProfileKeyID authority) (wo_RequestHash input) (wo_AuthorityProof input) = None"
    and "applyMutation env actor authority input db = Inr (dbm, m)" "mu_Result m = r"
    and "persistAppliedOperation env actor input h m (ledger dbm) = Inr l" "db' = dbm\<lparr>ledger := l\<rparr>"
proof (cases "loadGrantAuthority actor (wo_OfflineGrantID input) (wo_PackageID input) (wo_DeviceInstanceID input)
      (wo_CommandType input) (wo_PackageVersion input) (env_clock env 0) False db")
  case (Inl rejection)
  with run acc loadGrantAuthority_Inl [OF Inl] show ?thesis
    by (auto simp: push_operation_def Let_def dest!: refuse_Inr split: if_splits)
next
  case (Inr authority)
  have actor: "wo_ActorSubject input = SubjectID actor"
    using run acc by (auto simp: push_operation_def Let_def dest!: refuse_Inr split: if_splits)
  note run = run [unfolded push_operation_def Let_def Inr sum.case, simplified actor if_cancel if_False simp_thms]
  let ?bad = "wo_ProfileKeyID input \<noteq> ga_ProfileKeyID authority \<or>
    verifyProfileAuthorityProof (os_crypto service) (ga_ProfilePublicJWK authority)
      (ga_ProfileKeyID authority) (wo_RequestHash input) (wo_AuthorityProof input) \<noteq> None"
  have good: "\<not> ?bad"
  proof
    assume ?bad
    with run have "refuse env actor input h (forbiddenResult (wo_OperationID input)
        ''PROFILE_AUTHORITY_INVALID'' (env_clock env 0)) db = Inr (db', r)" by (simp only: if_True)
    with acc show False by (auto dest!: refuse_Inr)
  qed
  from run good obtain dbm m where m: "applyMutation env actor authority input db = Inr (dbm, m)"
    and rest: "(if px_Status (mu_Result m) \<noteq> PushAccepted
        then (if px_Status (mu_Result m) = PushRetryable then Inr (dbm, mu_Result m)
              else refuse env actor input h (mu_Result m) dbm)
        else bind_result (persistAppliedOperation env actor input h m (ledger dbm))
               (\<lambda>l. Inr (dbm\<lparr>ledger := l\<rparr>, mu_Result m))) = Inr (db', r)"
    by (auto simp: bind_result_Inr)
  from rest acc have "bind_result (persistAppliedOperation env actor input h m (ledger dbm))
               (\<lambda>l. Inr (dbm\<lparr>ledger := l\<rparr>, mu_Result m)) = Inr (db', r)"
    by (auto dest!: refuse_Inr split: if_splits)
  then obtain l where "persistAppliedOperation env actor input h m (ledger dbm) = Inr l"
    "db' = dbm\<lparr>ledger := l\<rparr>" "mu_Result m = r" by (auto simp: bind_result_Inr)
  with that actor Inr good m show ?thesis by simp
qed

lemma push_transaction_fresh:
  assumes "push_transaction service env actor input db = Inr (db', r)"
    and "stored_response (push_scope actor) (wo_OperationID input) (ledger db) = None"
  shows "push_operation service env actor input
     (SemanticHash (os_operation_sum service (operation_view input))) db = Inr (db', r)"
  using assms by (simp add: push_transaction_def Let_def)

lemma push_grant_in_force:
  assumes "push_operation service env actor input h db = Inr (db', r)" "px_Status r = PushAccepted"
    and "validateOperation rfc3339 input = None" "wo_CommandType input \<noteq> ''''"
  shows "\<exists>g. grant_in_force actor input (env_clock env 0) db g \<and>
    verifyProfileAuthorityProof (os_crypto service) (gr_profile_public_jwk g) (gr_profile_key_id g)
      (wo_RequestHash input) (wo_AuthorityProof input) = None"
proof -
  from assms(1,2) obtain authority where
    load: "loadGrantAuthority actor (wo_OfflineGrantID input) (wo_PackageID input) (wo_DeviceInstanceID input)
      (wo_CommandType input) (wo_PackageVersion input) (env_clock env 0) False db = Inr authority"
    and key: "wo_ProfileKeyID input = ga_ProfileKeyID authority"
    and verified: "verifyProfileAuthorityProof (os_crypto service) (ga_ProfilePublicJWK authority)
      (ga_ProfileKeyID authority) (wo_RequestHash input) (wo_AuthorityProof input) = None"
    by (rule push_operation_accepted)
  from assms(3) have device: "wo_DeviceInstanceID input \<noteq> ''''" and version: "0 < sint (wo_PackageVersion input)"
    by (simp_all add: validateOperation_None)
  from load obtain g inspection checklist package expiry
    where c: "grant_context (wo_OfflineGrantID input) db = Some (g, inspection, checklist, package, expiry)"
    and g: "gr_subject_id g = SubjectID actor" "gr_package_id g = wo_PackageID input"
      "wo_DeviceInstanceID input \<noteq> '''' \<Longrightarrow> gr_device_id g = wo_DeviceInstanceID input"
      "in_status inspection = ''IN_PROGRESS''" "gr_revoked_at g = None"
      "env_clock env 0 \<le> gr_expires_at g + clockSkewTolerance"
      "in_revision inspection = gr_assignment_revision g"
      "\<not> False \<Longrightarrow> pk_revoked_at package = None"
      "0 < sint (wo_PackageVersion input) \<Longrightarrow> gr_package_version g = wo_PackageVersion input"
      "pk_package_digest package = gr_package_digest g"
      "wo_CommandType input \<noteq> '''' \<Longrightarrow> wo_CommandType input \<in> set (gr_allowed_command_types g)"
      "ga_ProfileKeyID authority = gr_profile_key_id g" "ga_ProfilePublicJWK authority = gr_profile_public_jwk g"
    by (rule loadGrantAuthority_Inr) (rule that; assumption)
  show ?thesis
    using grant_context_Some [OF c] g device version key verified assms(4)
    by (intro exI [of _ g]) (auto simp: grant_in_force_def)
qed

section \<open>A stored answer\<close>

lemma sync_store_stored:
  assumes "sync_store row l = Inr l'"
  shows "stored_response (ir_scope row) (ir_operation_id row) l' = Some row"
proof -
  from assms have "lookup (\<lambda>i. (ir_scope i, ir_operation_id i)) (ir_scope row, ir_operation_id row) (l_responses l) = None"
    and "l' = l\<lparr>l_responses := l_responses l @ [row]\<rparr>"
    by (auto simp: sync_store_def bind_result_Inr insert_sync_Inr response_conflict_def list_ex_iff lookup_None)
  then show ?thesis by (simp add: stored_response_def lookup_append)
qed

lemma persistIdempotencyResponse_stored:
  "persistIdempotencyResponse env actor input h output l = Inr l' \<Longrightarrow>
     stored_response (push_scope actor) (wo_OperationID input) l' =
       Some (sync_response (push_scope actor) (wo_OperationID input) h (PushResponse output) (env_clock env 0))"
  unfolding persistIdempotencyResponse_def by (drule sync_store_stored) (simp add: sync_response_def)

lemma refuse_stored:
  "refuse env actor input h output db = Inr (db', r) \<Longrightarrow>
     r = output \<and> stored_response (push_scope actor) (wo_OperationID input) (ledger db') =
       Some (sync_response (push_scope actor) (wo_OperationID input) h (PushResponse r) (env_clock env 0))"
  by (auto dest!: refuse_Inr persistIdempotencyResponse_stored)

lemma persistAppliedOperation_stored:
  assumes "persistAppliedOperation env actor input h m l = Inr l'"
  shows "stored_response (push_scope actor) (wo_OperationID input) l' =
    Some (sync_response (push_scope actor) (wo_OperationID input) h (PushResponse (mu_Result m)) (env_clock env 0))"
proof -
  from assms obtain l3 where "persistIdempotencyResponse env actor input h (mu_Result m) l3 = Inr l'"
    unfolding persistAppliedOperation_def bind_result_Inr by blast
  then show ?thesis by (rule persistIdempotencyResponse_stored)
qed

text \<open>What became of an operation that the profile's signature covers.\<close>

lemma push_outcome_stored:
  assumes "(if px_Status (mu_Result m) \<noteq> PushAccepted
      then (if px_Status (mu_Result m) = PushRetryable then Inr (dbm, mu_Result m)
            else refuse env actor input h (mu_Result m) dbm)
      else bind_result (persistAppliedOperation env actor input h m (ledger dbm))
             (\<lambda>l. Inr (dbm\<lparr>ledger := l\<rparr>, mu_Result m))) = Inr (db', r)"
    and "px_Status r \<noteq> PushRetryable"
  shows "stored_response (push_scope actor) (wo_OperationID input) (ledger db') =
    Some (sync_response (push_scope actor) (wo_OperationID input) h (PushResponse r) (env_clock env 0))"
proof (cases "px_Status (mu_Result m) = PushAccepted")
  case True
  with assms show ?thesis by (auto simp: bind_result_Inr dest: persistAppliedOperation_stored)
next
  case False
  with assms have "refuse env actor input h (mu_Result m) dbm = Inr (db', r)" by (auto split: if_splits)
  from refuse_stored [OF this] show ?thesis by simp
qed

lemma push_operation_stored:
  assumes run: "push_operation service env actor input h db = Inr (db', r)" and status: "px_Status r \<noteq> PushRetryable"
  shows "stored_response (push_scope actor) (wo_OperationID input) (ledger db') =
    Some (sync_response (push_scope actor) (wo_OperationID input) h (PushResponse r) (env_clock env 0))"
proof (rule ccontr)
  assume no: "\<not> ?thesis"
  then have refused: "refuse env actor input h out dbm \<noteq> Inr (db', r)" for out dbm
    by (auto dest!: refuse_stored)
  from run refused have actor: "wo_ActorSubject input = SubjectID actor"
    by (auto simp: push_operation_def Let_def split: if_splits)
  from run refused actor obtain authority where
    load: "loadGrantAuthority actor (wo_OfflineGrantID input) (wo_PackageID input) (wo_DeviceInstanceID input)
      (wo_CommandType input) (wo_PackageVersion input) (env_clock env 0) False db = Inr authority"
    by (auto simp: push_operation_def Let_def split: sum.splits)
  note run = run [unfolded push_operation_def Let_def load sum.case, simplified actor if_cancel if_False simp_thms]
  from run refused have "bind_result (applyMutation env actor authority input db) (\<lambda>(db', m).
          if px_Status (mu_Result m) \<noteq> PushAccepted
          then (if px_Status (mu_Result m) = PushRetryable then Inr (db', mu_Result m)
                else refuse env actor input h (mu_Result m) db')
          else bind_result (persistAppliedOperation env actor input h m (ledger db'))
                 (\<lambda>l. Inr (db'\<lparr>ledger := l\<rparr>, mu_Result m))) = Inr (db', r)"
    by (simp split: if_split_asm)
  then obtain dbm m where "(if px_Status (mu_Result m) \<noteq> PushAccepted
          then (if px_Status (mu_Result m) = PushRetryable then Inr (dbm, mu_Result m)
                else refuse env actor input h (mu_Result m) dbm)
          else bind_result (persistAppliedOperation env actor input h m (ledger dbm))
                 (\<lambda>l. Inr (dbm\<lparr>ledger := l\<rparr>, mu_Result m))) = Inr (db', r)"
    unfolding bind_result_Inr by force
  from push_outcome_stored [OF this status] no show False by simp
qed

lemma push_transaction_stored:
  assumes "push_transaction service env actor input db = Inr (db', r)" "px_Status r \<noteq> PushRetryable"
  shows "\<exists>row. stored_response (push_scope actor) (wo_OperationID input) (ledger db') = Some row \<and>
    ir_semantic_hash row = SemanticHash (os_operation_sum service (operation_view input)) \<and>
    ir_response_body row = PushResponse r"
proof (cases "stored_response (push_scope actor) (wo_OperationID input) (ledger db)")
  case None
  from push_operation_stored [OF push_transaction_fresh [OF assms(1) None] assms(2)] show ?thesis
    by (simp add: sync_response_def)
next
  case (Some row)
  with assms(1) show ?thesis
    by (auto simp: push_transaction_def Let_def split: if_splits Response.splits)
qed

lemma push_transaction_replayed:
  assumes "stored_response (push_scope actor) (wo_OperationID input) (ledger db) = Some row"
    and "ir_semantic_hash row = SemanticHash (os_operation_sum service (operation_view input))"
    and "ir_response_body row = PushResponse r"
  shows "push_transaction service env actor input db = Inr (db, r)"
  using assms by (simp add: push_transaction_def Let_def)

section \<open>An issued grant\<close>

lemma package_context_Inr:
  assumes "package_context packageID db = Inr (package, inspection, checklist, expiry)"
  shows "package \<in> set (inspection_packages db)" "pk_id package = packageID"
    "lookup in_id (pk_inspection_id package) (inspections db) = Some inspection"
    "lookup k_inspection_id (pk_inspection_id package) (inspection_checklists db) = Some checklist"
    "pk_expires_at package = Some expiry" "in_assigned_inspector_subject_id inspection \<noteq> None"
  using assms by (auto simp: package_context_def find_Some_iff split: option.splits)

lemma Issue_fresh:
  assumes "Issue service env actor input db = Inr (db', resp)"
    and "stored_response (checkout_scope actor) (xk_OperationID input) (ledger db) = None"
  obtains package inspection checklist expiry questions row l
    where "package_context (xk_PackageID input) db = Inr (package, inspection, checklist, expiry)"
    and "questions = sort (checkout_questions (in_id inspection) (SubjectID actor) db)" "questions \<noteq> []"
    and "in_status inspection = ''IN_PROGRESS''" "k_status checklist = KStatusInProgress"
    and "pk_revoked_at package = None" "env_clock env 0 \<le> expiry"
    and "checkout_session actor (env_clock env 0) db"
    and "resp = OfflineGrantResponse (new_grant env actor input package inspection expiry questions)"
    and "row = grant_row actor input (in_id inspection) (new_grant env actor input package inspection expiry questions)"
    and "\<not> grant_conflict row (offline_grants db)"
    and "db' = db\<lparr>offline_grants := offline_grants db @ [row], ledger := l\<rparr>"
proof -
  from assms have "issue_grant service env actor input (SemanticHash (gs_checkout_sum service input)) db = Inr (db', resp)"
    by (auto simp: Issue_def Let_def split: if_splits option.split_asm)
  then show ?thesis
    unfolding issue_grant_def bind_result_Inr Let_def
    by (auto simp: if_Inl_Inr bind_result_Inr insert_sync_Inr intro!: that)
qed

lemma checkout_questions_team: "checkout_questions inspectionID subject db \<noteq> [] \<Longrightarrow> team_rows inspectionID subject db \<noteq> []"
  by (auto simp: checkout_questions_def)

lemma ledger_frame_context [simp]:
  "team_rows inspectionID subject (db\<lparr>offline_grants := gs, ledger := l\<rparr>) = team_rows inspectionID subject db"
  by (simp add: team_rows_def)

lemma issued_grant_context:
  assumes "Issue service env actor input db = Inr (db', OfflineGrantResponse g)"
    and "stored_response (checkout_scope actor) (xk_OperationID input) (ledger db) = None"
    and "distinct (map pk_id (inspection_packages db))"
  obtains row inspection checklist package expiry
    where "grant_context (og_ID g) db' = Some (row, inspection, checklist, package, expiry)"
    and "gr_subject_id row = SubjectID actor" "gr_session_id row = SessionID actor"
    and "gr_device_id row = xk_DeviceInstanceID input" "gr_package_id row = xk_PackageID input"
    and "gr_revoked_at row = None" "gr_expires_at row = og_ExpiresAt g" "og_ExpiresAt g \<le> expiry"
    and "pk_revoked_at package = None" "in_status inspection = ''IN_PROGRESS''"
    and "k_status checklist = KStatusInProgress" "team_rows (in_id inspection) (SubjectID actor) db' \<noteq> []"
    and "in_revision inspection = gr_assignment_revision row"
    and "gr_allowed_command_types row = defaultAllowedCommands"
    and "session_references db' = session_references db"
proof -
  from assms(1,2) obtain package inspection checklist expiry questions row l
    where c: "package_context (xk_PackageID input) db = Inr (package, inspection, checklist, expiry)"
    and q: "questions = sort (checkout_questions (in_id inspection) (SubjectID actor) db)" "questions \<noteq> []"
    and s: "in_status inspection = ''IN_PROGRESS''" "k_status checklist = KStatusInProgress"
      "pk_revoked_at package = None"
    and g: "OfflineGrantResponse g = OfflineGrantResponse (new_grant env actor input package inspection expiry questions)"
    and row: "row = grant_row actor input (in_id inspection) (new_grant env actor input package inspection expiry questions)"
    and free: "\<not> grant_conflict row (offline_grants db)"
    and db': "db' = db\<lparr>offline_grants := offline_grants db @ [row], ledger := l\<rparr>"
    by (rule Issue_fresh) (rule that; assumption)
  note p = package_context_Inr [OF c]
  from p(3) have ins: "in_id inspection = pk_inspection_id package" by (auto dest: lookup_Some)
  have fields: "gr_package_id row = xk_PackageID input" "gr_inspection_id row = in_id inspection"
    by (simp_all add: row grant_row_def new_grant_def Let_def)
  from free have "lookup gr_id (gr_id row) (offline_grants db) = None"
    by (auto simp: grant_conflict_def list_ex_iff lookup_None)
  moreover have "gr_id row = og_ID g" using g by (simp add: row grant_row_def)
  moreover have "lookup pk_id (xk_PackageID input) (inspection_packages db) = Some package"
    using lookup_distinct [OF assms(3) p(1)] p(2) by simp
  ultimately have "grant_context (og_ID g) db' = Some (row, inspection, checklist, package, expiry)"
    using p(3-5) fields by (simp add: grant_context_def db' lookup_append ins)
  then show ?thesis
  proof (rule that)
    show "team_rows (in_id inspection) (SubjectID actor) db' \<noteq> []"
      using q checkout_questions_team [of "in_id inspection" "SubjectID actor" db]
      by (cases "checkout_questions (in_id inspection) (SubjectID actor) db") (simp_all add: db')
  qed (use g s in \<open>auto simp: row grant_row_def new_grant_def Let_def db'\<close>)
qed

section \<open>Pages of changes\<close>

lemma filter_greater_last:
  fixes k :: "'a \<Rightarrow> int"
  assumes "sorted (map k xs)" "distinct (map k xs)" "take n xs \<noteq> []"
  shows "filter (\<lambda>c. k (last (take n xs)) < k c) xs = drop n xs"
proof -
  have mono: "sorted (map k (take n xs) @ map k (drop n xs))" "distinct (map k (take n xs) @ map k (drop n xs))"
    using assms(1,2) by (simp_all only: map_append [symmetric] append_take_drop_id)
  have last: "k (last (take n xs)) \<in> set (map k (take n xs))" using assms(3) by simp
  have sent: "k c \<le> k (last (take n xs))" if "c \<in> set (take n xs)" for c
  proof -
    have "sorted (map k (take n xs))" using mono(1) by (simp add: sorted_append)
    then have "sorted (map k (butlast (take n xs)) @ [k (last (take n xs))])"
      using assms(3) by (metis append_butlast_last_id list.simps(8,9) map_append)
    moreover have "c \<in> set (butlast (take n xs)) \<or> c = last (take n xs)"
      using that assms(3) by (metis append_butlast_last_id in_set_conv_decomp_last rotate1.simps(2) set_ConsD set_rotate1)
    ultimately show ?thesis by (auto simp: sorted_append)
  qed
  have rest: "k (last (take n xs)) < k c" if "c \<in> set (drop n xs)" for c
  proof -
    have "k (last (take n xs)) \<le> k c" using mono(1) last that by (auto simp: sorted_append)
    moreover have "k (last (take n xs)) \<noteq> k c" using mono(2) last that by auto
    ultimately show ?thesis by simp
  qed
  have "filter (\<lambda>c. k (last (take n xs)) < k c) (take n xs @ drop n xs) = drop n xs"
    unfolding filter_append using sent rest by (simp add: filter_empty_conv not_less)
  then show ?thesis by simp
qed

lemma pending_changes_sorted:
  assumes "ledger_wf (ledger db)"
  shows "sorted (map sy_sequence_id (pending_changes actor authority mark db))"
    "distinct (map sy_sequence_id (pending_changes actor authority mark db))"
  using assms by (auto simp: pending_changes_def ledger_wf_def distinct_map intro: inj_on_subset)

text \<open>The changes after the last one of a page are exactly the rest.\<close>

lemma pending_changes_after:
  assumes "ledger_wf (ledger db)" "take n (pending_changes actor authority mark db) \<noteq> []"
  shows "pending_changes actor authority (sy_sequence_id (last (take n (pending_changes actor authority mark db)))) db =
    drop n (pending_changes actor authority mark db)"
proof -
  let ?p = "pending_changes actor authority mark db"
  let ?m = "sy_sequence_id (last (take n ?p))"
  have "last (take n ?p) \<in> set ?p" using assms(2) by (meson in_set_takeD last_in_set)
  then have "mark < ?m" by (auto simp: pending_changes_def)
  then have "pending_changes actor authority ?m db =
      filter (\<lambda>c. ?m < sy_sequence_id c) ?p"
    unfolding pending_changes_def filter_sort filter_filter
    by (intro arg_cong [of _ _ "sort_key sy_sequence_id"] filter_cong) auto
  with filter_greater_last [OF pending_changes_sorted [OF assms(1)] assms(2)] show ?thesis by simp
qed

lemma pending_changes_frame [simp]:
  "pending_changes actor authority mark (db\<lparr>sync_cursor_tokens := t, sync_cursors := c\<rparr>) =
     pending_changes actor authority mark db"
  by (simp add: pending_changes_def)

lemma collect_map_Some:
  "collect (map (\<lambda>c. case f c of Inl _ \<Rightarrow> None | Inr x \<Rightarrow> Some x) cs) = Some ys \<longleftrightarrow> map f cs = map Inr ys"
  by (induction cs arbitrary: ys) (auto split: sum.splits option.splits simp: Cons_eq_map_conv)

lemma pull_page_Inr:
  assumes "pull_page crypto env actor authority input mark db = Inr (db', page)"
  shows "map (\<lambda>c. safeAuthorizedChange (sy_kind c) (sy_payload c))
      (take (pull_limit (pu_Limit input)) (pending_changes actor authority mark db)) = map Inr (pl_Changes page)"
    "pl_HasMore page \<longleftrightarrow> pull_limit (pu_Limit input) < length (pending_changes actor authority mark db)"
    "\<not> pl_ResnapshotRequired page" "ledger db' = ledger db"
    "take (pull_limit (pu_Limit input)) (pending_changes actor authority mark db) = [] \<Longrightarrow>
       db' = db \<and> pl_NextCursor page = pu_Cursor input"
proof -
  let ?n = "pull_limit (pu_Limit input)" and ?p = "pending_changes actor authority mark db"
  have cut: "take ?n (take (?n + 1) ?p) = take ?n ?p" "?n < length (take (?n + 1) ?p) \<longleftrightarrow> ?n < length ?p"
    by (auto simp: min_def)
  define sent where "sent = take ?n ?p"
  define more where "more \<longleftrightarrow> ?n < length ?p"
  note run = assms [unfolded pull_page_def Let_def cut, folded sent_def more_def]
  let ?safe = "collect (map (\<lambda>c. case safeAuthorizedChange (sy_kind c) (sy_payload c) of
    Inl _ \<Rightarrow> None | Inr change \<Rightarrow> Some change) sent)"
  obtain changes where changes: "?safe = Some changes" using run by (cases ?safe) simp_all
  note run = run [unfolded changes option.case]
  have rest: "pl_Changes page = changes" "pl_HasMore page \<longleftrightarrow> more" "\<not> pl_ResnapshotRequired page"
    "ledger db' = ledger db" "sent = [] \<Longrightarrow> db' = db \<and> pl_NextCursor page = pu_Cursor input"
    using run by (cases "sent = []"; auto simp: if_Inl_Inr)+
  with changes show "map (\<lambda>c. safeAuthorizedChange (sy_kind c) (sy_payload c)) (take ?n ?p) = map Inr (pl_Changes page)"
    "pl_HasMore page \<longleftrightarrow> ?n < length ?p" "\<not> pl_ResnapshotRequired page" "ledger db' = ledger db"
    "take ?n ?p = [] \<Longrightarrow> db' = db \<and> pl_NextCursor page = pu_Cursor input"
    unfolding collect_map_Some by (simp_all only: sent_def more_def simp_thms)
qed

section \<open>A submitted checklist\<close>

lemma filter_length_all: "length (filter P xs) = length xs \<longleftrightarrow> (\<forall>x \<in> set xs. P x)"
  by (metis filter_True filter_id_conv length_filter_less linorder_neq_iff)

lemma scope_complete:
  assumes "\<not> scope_incomplete snapshotID inspectionID db"
  shows "scoped_questions snapshotID db \<noteq> []"
    "set (scoped_questions snapshotID db) \<subseteq> set (assigned_questions inspectionID db)"
    "\<forall>q \<in> set (scoped_questions snapshotID db). scope_answered inspectionID db q \<and> \<not> scope_uncommented inspectionID db q"
  using assms by (auto simp: scope_incomplete_def Let_def filter_length_all filter_empty_conv)

lemma sync_submitChecklist_accepted:
  assumes "sync_submitChecklist authority input payload now db = Inr (db', m)"
    and "px_Status (mu_Result m) = PushAccepted"
  obtains k snapshotID where "lookup k_inspection_id (ga_InspectionID authority) (inspection_checklists db) = Some k"
    and "k_status k = KStatusInProgress" "wo_BaseRevision input = Some (k_revision k)"
    and "released_snapshot authority db = Some snapshotID"
    and "\<not> uncleared_attachment (ga_InspectionID authority) db"
    and "\<not> scope_incomplete snapshotID (ga_InspectionID authority) db"
    and "db' = db\<lparr>inspection_checklists := modify k_inspection_id (ga_InspectionID authority)
      (sync_submit_update now (k_revision k + 1)) (inspection_checklists db)\<rparr>"
proof -
  have rejected: "rejected result \<noteq> m"
    if "px_Status result \<noteq> PushAccepted" for result
    using assms(2) that by (auto simp: rejected_def)
  have no: "px_Status (invalidResult operationID t) \<noteq> PushAccepted" for operationID t
    by (simp add: invalidResult_def)
  note run = assms(1) [unfolded sync_submitChecklist_def Let_def]
  from run obtain k where k: "lookup k_inspection_id (ga_InspectionID authority) (inspection_checklists db) = Some k"
    by (cases "lookup k_inspection_id (ga_InspectionID authority) (inspection_checklists db)")
      (simp_all add: rejected no split: if_split_asm)
  note run = run [unfolded k option.case]
  from run obtain snapshotID where s: "released_snapshot authority db = Some snapshotID"
    by (cases "released_snapshot authority db") (simp_all add: rejected no split: if_split_asm)
  from run [unfolded s option.case] have
    "k_status k = KStatusInProgress" "wo_BaseRevision input = Some (k_revision k)"
    "\<not> uncleared_attachment (ga_InspectionID authority) db"
    "\<not> scope_incomplete snapshotID (ga_InspectionID authority) db"
    "db' = db\<lparr>inspection_checklists := modify k_inspection_id (ga_InspectionID authority)
      (sync_submit_update now (k_revision k + 1)) (inspection_checklists db)\<rparr>"
    by (simp_all add: rejected no split: if_split_asm)
  with k s that show ?thesis by blast
qed

section \<open>A revoked grant\<close>

lemma Revoke_Inr:
  assumes "Revoke env actor grantID reason db = Inr db'"
  shows "\<forall>g \<in> set (offline_grants db'). gr_id g = grantID \<and> gr_subject_id g = SubjectID actor \<longrightarrow> gr_revoked_at g \<noteq> None"
    "\<exists>g \<in> set (offline_grants db). gr_id g = grantID \<and> gr_subject_id g = SubjectID actor \<and> gr_revoked_at g = None"
proof -
  let ?m = "\<lambda>g. gr_id g = grantID \<and> gr_subject_id g = SubjectID actor \<and> gr_revoked_at g = None"
  from assms have one: "length (filter ?m (offline_grants db)) = 1"
    and db': "offline_grants db' = map (\<lambda>g. if ?m g
        then g\<lparr>gr_revoked_at := Some (env_clock env 0), gr_revoke_reason := Some reason\<rparr> else g) (offline_grants db)"
    using assms [unfolded Revoke_def Let_def] by (simp_all split: if_split_asm) (drule sym, simp)
  show "\<forall>g \<in> set (offline_grants db'). gr_id g = grantID \<and> gr_subject_id g = SubjectID actor \<longrightarrow> gr_revoked_at g \<noteq> None"
    unfolding db' set_map ball_simps by (rule ballI) simp
  from one have "filter ?m (offline_grants db) \<noteq> []" by auto
  then show "\<exists>g \<in> set (offline_grants db). ?m g" by (auto simp: filter_empty_conv)
qed

lemma revoked_not_authorized:
  assumes "\<forall>g \<in> set (offline_grants db). gr_id g = grantID \<and> gr_subject_id g = SubjectID actor \<longrightarrow> gr_revoked_at g \<noteq> None"
  shows "Authorize env actor (input\<lparr>xa_GrantID := grantID\<rparr>) db \<noteq> None"
    "isl (loadGrantAuthority actor grantID packageID deviceID command version now allow db)"
proof -
  have g: "gr_revoked_at g \<noteq> None \<or> gr_subject_id g \<noteq> SubjectID actor" if "lookup gr_id grantID (offline_grants db) = Some g" for g
    using assms lookup_Some [OF that] by blast
  show "Authorize env actor (input\<lparr>xa_GrantID := grantID\<rparr>) db \<noteq> None"
  proof
    assume "Authorize env actor (input\<lparr>xa_GrantID := grantID\<rparr>) db = None"
    then obtain row inspection checklist package expiry
      where "grant_context grantID db = Some (row, inspection, checklist, package, expiry)"
        "gr_subject_id row = SubjectID actor" "gr_revoked_at row = None"
      by (auto simp: Authorize_def Let_def split: option.split_asm if_splits)
    with grant_context_Some(1) g show False by blast
  qed
  show "isl (loadGrantAuthority actor grantID packageID deviceID command version now allow db)"
  proof (rule ccontr)
    assume "\<not> ?thesis"
    then obtain authority where "loadGrantAuthority actor grantID packageID deviceID command version now allow db = Inr authority"
      by (cases "loadGrantAuthority actor grantID packageID deviceID command version now allow db") auto
    then obtain row inspection checklist package expiry
      where "grant_context grantID db = Some (row, inspection, checklist, package, expiry)"
        "gr_subject_id row = SubjectID actor" "gr_revoked_at row = None"
      by (rule loadGrantAuthority_Inr)
    with grant_context_Some(1) g show False by blast
  qed
qed

lemma issued_grant_expiry:
  assumes "Issue service env actor input db = Inr (db', OfflineGrantResponse g)"
    and "stored_response (checkout_scope actor) (xk_OperationID input) (ledger db) = None"
  shows "\<exists>row. offline_grants db' = offline_grants db @ [row] \<and> gr_id row = og_ID g \<and> gr_expires_at row = og_ExpiresAt g"
proof -
  from assms obtain package inspection expiry questions row l where
    "OfflineGrantResponse g = OfflineGrantResponse (new_grant env actor input package inspection expiry questions)"
    "row = grant_row actor input (in_id inspection) (new_grant env actor input package inspection expiry questions)"
    "db' = db\<lparr>offline_grants := offline_grants db @ [row], ledger := l\<rparr>"
    by (rule Issue_fresh) (rule that; assumption)
  then show ?thesis by (simp add: grant_row_def)
qed

section \<open>Refused checkouts\<close>

text \<open>A package whose inspection names no inspector, or one already checked out to the device.\<close>

lemma Issue_refused:
  assumes "stored_response (checkout_scope actor) (xk_OperationID input) (ledger db) = None"
    and "(\<exists>g \<in> set (offline_grants db). gr_subject_id g = SubjectID actor \<and>
        gr_device_id g = xk_DeviceInstanceID input \<and> gr_package_id g = xk_PackageID input) \<or>
      (\<exists>package inspection.
        find (\<lambda>p. pk_id p = xk_PackageID input \<and> pk_canonical_scope_snapshot_id p \<noteq> None) (inspection_packages db) =
          Some package \<and>
        lookup in_id (pk_inspection_id package) (inspections db) = Some inspection \<and>
        in_assigned_inspector_subject_id inspection = None)"
  shows "isl (Issue service env actor input db)"
proof (rule ccontr)
  assume "\<not> isl (Issue service env actor input db)"
  then obtain db' resp where "Issue service env actor input db = Inr (db', resp)"
    by (cases "Issue service env actor input db") auto
  from this assms(1) obtain package inspection checklist expiry questions row where
    c: "package_context (xk_PackageID input) db = Inr (package, inspection, checklist, expiry)"
    and row: "row = grant_row actor input (in_id inspection) (new_grant env actor input package inspection expiry questions)"
    and free: "\<not> grant_conflict row (offline_grants db)"
    by (rule Issue_fresh) (rule that; assumption)
  have "gr_subject_id row = SubjectID actor" "gr_device_id row = xk_DeviceInstanceID input"
    "gr_package_id row = xk_PackageID input" by (simp_all add: row grant_row_def new_grant_def Let_def)
  with free have "\<not> (\<exists>g \<in> set (offline_grants db). gr_subject_id g = SubjectID actor \<and>
        gr_device_id g = xk_DeviceInstanceID input \<and> gr_package_id g = xk_PackageID input)"
    by (auto simp: grant_conflict_def list_ex_iff)
  with assms(2) obtain p i where
    "find (\<lambda>p. pk_id p = xk_PackageID input \<and> pk_canonical_scope_snapshot_id p \<noteq> None) (inspection_packages db) = Some p"
    "lookup in_id (pk_inspection_id p) (inspections db) = Some i" "in_assigned_inspector_subject_id i = None" by auto
  with c show False by (auto simp: package_context_def split: option.splits)
qed

end
