(* ===== verification/StepFrames.thy ===== *)
theory StepFrames
  imports DeskRuns SyncLaws
begin

text \<open>
  Two tables that few steps write: the offline grants, which only \<open>Issue\<close> and \<open>Revoke\<close> change, and the
  rows of the outbox, to which every step only appends unless it is one of the scan worker.
\<close>

definition quiet :: "DB \<Rightarrow> DB \<Rightarrow> bool" where
  "quiet db db' \<longleftrightarrow> offline_grants db' = offline_grants db \<and>
     prefix (l_outbox (ledger db)) (l_outbox (ledger db'))"

lemma quiet_refl [simp, intro]: "quiet db db"
  by (simp add: quiet_def)

lemma quiet_trans: "quiet db mid \<Longrightarrow> quiet mid db' \<Longrightarrow> quiet db db'"
  by (auto simp: quiet_def intro: prefix_order.trans)

section \<open>The commands\<close>

lemma handler_grants:
  "SubmitCAP_handler env actor c1 db = Inr (db', result) \<Longrightarrow> offline_grants db' = offline_grants db"
  "ReviewCAP_handler env actor c2 db = Inr (db', result) \<Longrightarrow> offline_grants db' = offline_grants db"
  "ReviewEvidence_handler env actor c3 db = Inr (db', result) \<Longrightarrow> offline_grants db' = offline_grants db"
  "AuthorizedCloseFinding_handler env actor c4 db = Inr (db', result) \<Longrightarrow> offline_grants db' = offline_grants db"
  "ConvertPotentialFinding_handler env actor c5 db = Inr (db', result) \<Longrightarrow> offline_grants db' = offline_grants db"
  "DecideReport_handler env actor c6 db = Inr (db', result) \<Longrightarrow> offline_grants db' = offline_grants db"
  "CreateReportVersion_handler env actor c7 db = Inr (db', result) \<Longrightarrow> offline_grants db' = offline_grants db"
  "CreateAdminOrganization_handler env c8 db = Inr (db', result) \<Longrightarrow> offline_grants db' = offline_grants db"
  "CreateReminderRule_handler env actor c9 db = Inr (db', result) \<Longrightarrow> offline_grants db' = offline_grants db"
          apply (erule SubmitCAP_handler_Inr, simp)
         apply (erule ReviewCAP_handler_Inr, simp)
        apply (erule ReviewEvidence_handler_Inr, simp)
       apply (erule AuthorizedCloseFinding_handler_Inr, simp)
      apply (erule ConvertPotentialFinding_handler_Inr, simp)
     apply (erule DecideReport_handler_Inr, simp)
    apply (erule CreateReportVersion_handler_Inr, simp)
   apply (auto simp: CreateAdminOrganization_handler_def CreateReminderRule_handler_def Let_def if_Inl_Inr)
  done

lemma field_grants:
  "UpsertChecklistResponse_handler env actor c1 db = Inr (db', result) \<Longrightarrow> offline_grants db' = offline_grants db"
  "SubmitChecklist_handler env actor c2 db = Inr (db', result) \<Longrightarrow> offline_grants db' = offline_grants db"
  "ReopenChecklist_handler env actor c3 db = Inr (db', result) \<Longrightarrow> offline_grants db' = offline_grants db"
  "CreatePotentialFinding_handler env actor c4 ids db = Inr (db', result) \<Longrightarrow> offline_grants db' = offline_grants db"
  "DecidePotentialFinding_handler env actor c5 db = Inr (db', result) \<Longrightarrow> offline_grants db' = offline_grants db"
  "StartInspection_handler env actor c6 db = Inr (db', result) \<Longrightarrow> offline_grants db' = offline_grants db"
       apply (erule UpsertChecklistResponse_handler_Inr, simp)
      apply (erule SubmitChecklist_handler_Inr, simp)
     apply (erule ReopenChecklist_handler_Inr, simp)
    apply (erule CreatePotentialFinding_handler_Inr, simp)
   apply (erule DecidePotentialFinding_handler_Inr, simp)
  apply (erule StartInspection_handler_Inr, simp)
  done

lemma prepare_grants:
  assumes "prepare parses fresh actor c = Inr (envelope, handler)" "handler env db = Inr (mid, result)"
  shows "offline_grants mid = offline_grants db"
  using assms
  by (cases c) (auto simp: bind_result_Inr Let_def split: if_splits dest: handler_grants field_grants)

lemma persisted_outbox: "persistCommandTransaction r l = Inr l' \<Longrightarrow> prefix (l_outbox l) (l_outbox l')"
  by (simp add: persistCommandTransaction_Inr)

lemma transition_quiet:
  assumes "executeTransition env actor envelope handler db = Inr (db', resp)" "finding_handler handler"
    and "\<And>mid result. handler db = Inr (mid, result) \<Longrightarrow> offline_grants mid = offline_grants db"
  shows "quiet db db'"
  using assms(1)
proof (cases rule: executeTransition_cases)
  case (executed semanticHash mid result l)
  from command_handler.handler_ledger [OF finding_handler.axioms(1) [OF assms(2)] executed(3)]
  have "prefix (l_outbox (ledger db)) (l_outbox (ledger mid))" by (auto simp: keeps_ledger_def)
  with persisted_outbox [OF executed(4)] assms(3) [OF executed(3)] show ?thesis
    by (auto simp: executed(5) quiet_def intro: prefix_order.trans)
qed simp

lemma dispatch_quiet:
  assumes "dispatch parses fresh env actor c db = Inr (db', resp)"
  shows "quiet db db'"
proof -
  from assms obtain envelope handler where p: "prepare parses fresh actor c = Inr (envelope, handler)"
    and h: "finding_handler (handler env)"
    and e: "executeTransition env actor envelope (handler env) db = Inr (db', resp)"
    by (rule dispatch_Inr)
  from e h show ?thesis by (rule transition_quiet) (rule prepare_grants [OF p])
qed

section \<open>The preparation of an audit\<close>

text \<open>The handlers of the assignments write the tables of the desk only; these keep the grants.\<close>

lemma updated_grants:
  "update_assignment i matches change db = Inr (updated, db') \<Longrightarrow> offline_grants db' = offline_grants db"
  "updateAssignmentStatus env current status now db = Inr (output, db') \<Longrightarrow> offline_grants db' = offline_grants db"
  "schedule_inspection env i db = Inr (scheduled, db') \<Longrightarrow> offline_grants db' = offline_grants db"
  by (auto simp: update_assignment_Inr schedule_inspection_def Let_def if_Inl_Inr elim!: updateAssignmentStatus_Inr)

lemma Prepare_grants: "Prepare_handler env actor command db = Inr (db', result) \<Longrightarrow> offline_grants db' = offline_grants db"
  by (erule Prepare_handler_Inr) auto

lemma AssignLead_grants:
  "AssignLead_handler env actor command db = Inr (db', result) \<Longrightarrow> offline_grants db' = offline_grants db"
  by (erule AssignLead_handler_Inr) (auto dest: updated_grants)

lemma Preview_grants:
  "PreviewTeam_handler digests env actor c members db = Inr (db', result) \<Longrightarrow> offline_grants db' = offline_grants db"
  "PreviewQuestions_handler digests env actor d coverage db = Inr (db', result') \<Longrightarrow> offline_grants db' = offline_grants db"
  by (auto simp: PreviewTeam_handler_def PreviewQuestions_handler_def check_error_Inr bind_result_Inr if_Inl_Inr
      elim!: store_preview_Inr)

lemma AssignTeam_grants:
  "AssignTeam_handler digests env actor command members db = Inr (db', result) \<Longrightarrow> offline_grants db' = offline_grants db"
  by (erule AssignTeam_handler_Inr, erule consume_Inr, erule record_edit_Inr)
    (auto dest!: updated_grants simp: AssignTeam_rows_def Let_def)

lemma AssignQuestions_grants:
  "AssignQuestions_handler digests env actor command coverage db = Inr (db', result) \<Longrightarrow>
     offline_grants db' = offline_grants db"
  by (erule AssignQuestions_handler_Inr, erule consume_Inr, erule record_edit_Inr) (auto dest!: updated_grants)

lemma ConfirmPreparation_grants:
  "ConfirmPreparation_handler digests env actor command db = Inr (db', result) \<Longrightarrow> offline_grants db' = offline_grants db"
  by (erule ConfirmPreparation_handler_Inr, erule confirm_writes_Inr) (auto dest!: updated_grants)

lemma RespondCoordination_grants:
  "RespondCoordination_handler env command db = Inr (db', result) \<Longrightarrow> offline_grants db' = offline_grants db"
  by (erule RespondCoordination_handler_Inr)
    (auto dest!: updated_grants simp: set_alternative_def split: if_split_asm option.split)

lemma ReviewCoordination_grants:
  "ReviewCoordination_handler env actor command db = Inr (db', result) \<Longrightarrow> offline_grants db' = offline_grants db"
  by (erule ReviewCoordination_handler_Inr)
    (auto dest!: updated_grants simp: review_writes_def bind_result_Inr split: if_split_asm)

lemmas preparation_grants = Prepare_grants AssignLead_grants Preview_grants AssignTeam_grants AssignQuestions_grants
  ConfirmPreparation_grants RespondCoordination_grants ReviewCoordination_grants

lemma assignment_dispatch_quiet:
  assumes "assignment_dispatch digests env actor c db = Inr (db', resp)"
  shows "quiet db db'"
proof -
  from assms obtain call handler where r: "assignment_run digests env actor c call handler"
    and e: "executeCommand digests env actor call handler db = Inr (db', resp)"
    by (rule assignment_dispatch_Inr)
  from e show ?thesis
  proof (cases rule: executeCommand_cases)
    case (executed semanticHash mid result l)
    from assignment_service.handler_fields [OF assignment_run_service [OF r] executed(3)]
    have "ledger mid = ledger db" by (simp add: desk_only_def)
    moreover have "offline_grants mid = offline_grants db"
      using r executed(3) by (cases rule: assignment_run.cases) (auto dest: preparation_grants)
    ultimately show ?thesis using executed(4) by (simp add: executed(5) quiet_def persist_call_Inr)
  qed simp
qed

lemma Materialize_grants:
  assumes "MaterializeInspection_handler digests env actor command db = Inr (db', result)"
  shows "offline_grants db' = offline_grants db"
proof (rule Materialize_handler_Inr [OF assms])
  fix a item created server snapshotID inspectionStatus
  assume created: "if or_empty (aa_inspection_id a) = ''''
     then (\<forall>i \<in> set (inspections db). in_id i \<noteq> inspection_id_of command a) \<and>
       created = db\<lparr>inspections := inspections db @
         [materialized_inspection env (inspection_id_of command a) (aa_organization_id a) item]\<rparr>
     else created = db"
    and run: "materializeCanonicalInspection digests env server (inspection_id_of command a) (aa_organization_id a)
       inspectionStatus (aa_revision a) snapshotID created = Inr (db', result)"
  have "offline_grants created = offline_grants db" using created by (auto split: if_split_asm)
  moreover have "offline_grants db' = offline_grants created"
    using run by (rule materializeCanonical_Inr, elim materialize_writes_Inr)
      (auto elim!: plan_inspection_Inr simp: update_assignment_Inr)
  ultimately show ?thesis by simp
qed

lemma MaterializeInspection_quiet:
  "MaterializeInspection digests env actor command db = Inr (db', resp) \<Longrightarrow> quiet db db'"
  unfolding MaterializeInspection_def
  by (erule transition_quiet [OF _ materialize.finding_handler_axioms]) (rule Materialize_grants)

section \<open>The uploads\<close>

lemma evidence_Begin_quiet:
  "evidence_Begin service env actor input db = Inr (db', output) \<Longrightarrow> quiet db db'"
  by (erule evidence_Begin_Inr) (auto simp: quiet_def dest!: persistUploadTransaction_Inr)

lemma evidence_Complete_quiet:
  assumes "evidence_Complete service env actor input db = Inr (db', output)"
  shows "quiet db db'"
  using assms
proof (cases rule: evidence_Complete_cases)
  case executed
  then obtain session identity finding mid envelope where
    w: "Complete_writes env actor session identity finding db = Inr mid"
    and p: "persistUploadTransaction envelope mid = Inr db'"
    by (rule Complete_body_Inr)
  from w have "quiet db mid" by (rule Complete_writes_Inr) (simp add: quiet_def)
  moreover have "quiet mid db'" using persistUploadTransaction_Inr [OF p] by (auto simp: quiet_def)
  ultimately show ?thesis by (rule quiet_trans)
qed simp

lemma ReconcileExpired_quiet: "quiet db (fst (ReconcileExpired env db))"
  by (simp add: quiet_def ReconcileExpired_def)

lemma saved_quiet: "saveIdempotent scope op h out now mid = Inr db' \<Longrightarrow> quiet db mid \<Longrightarrow> quiet db db'"
  by (drule saveIdempotent_Inr) (auto simp: quiet_def)

lemma idempotent_upload_quiet:
  assumes "idempotent_upload scope op h body db = Inr (db', resp)"
    and "\<And>db db' resp. body db = Inr (db', resp) \<Longrightarrow> quiet db db'"
  shows "quiet db db'"
  using assms(1) by (cases rule: idempotent_upload_cases) (auto intro: assms(2))

lemma begin_attachment_quiet:
  "begin_attachment_body service env actor input attachment db = Inr (db', resp) \<Longrightarrow> quiet db db'"
  by (auto simp: begin_attachment_body_def Let_def bind_result_Inr quiet_def
      dest!: saveIdempotent_Inr split: option.splits if_splits)

lemma begin_answer_quiet:
  assumes "begin_attachment_answer service env actor input attachment replayed db = Inr (db', resp)"
  shows "quiet db db'"
proof (cases replayed)
  case None
  with assms show ?thesis by (simp add: begin_attachment_answer_def begin_attachment_quiet)
next
  case (Some out)
  with assms show ?thesis by (cases out) (auto simp: begin_attachment_answer_def bind_result_Inr)
qed

lemma attachments_Begin_quiet: "attachments_Begin service env actor input db = Inr (db', resp) \<Longrightarrow> quiet db db'"
  by (auto simp: attachments_Begin_def Let_def bind_result_Inr if_Inl_Inr
      split: option.split_asm intro: begin_answer_quiet)

lemma begin_part_quiet: "begin_part_body service env actor input db = Inr (db', resp) \<Longrightarrow> quiet db db'"
  by (auto simp: begin_part_body_def Let_def bind_result_Inr quiet_def set_session_state_def
      dest!: saveIdempotent_Inr split: option.splits if_splits prod.splits)

lemma BeginPart_quiet: "attachments_BeginPart service env actor input db = Inr (db', resp) \<Longrightarrow> quiet db db'"
  by (auto simp: attachments_BeginPart_def split: if_splits
      elim!: idempotent_upload_quiet intro: begin_part_quiet)

lemma ack_part_quiet: "ack_part_body service env actor input db = Inr (db', resp) \<Longrightarrow> quiet db db'"
  by (auto simp: ack_part_body_def Let_def bind_result_Inr quiet_def set_session_state_def
      dest!: saveIdempotent_Inr split: option.splits if_splits)

lemma AcknowledgePart_quiet: "AcknowledgePart service env actor input db = Inr (db', resp) \<Longrightarrow> quiet db db'"
  by (auto simp: AcknowledgePart_def split: if_splits elim!: idempotent_upload_quiet intro: ack_part_quiet)

lemma complete_writes_quiet:
  "complete_attachment_writes service env actor input session identity db = Inr (db', resp) \<Longrightarrow> quiet db db'"
  by (auto simp: complete_attachment_writes_def Let_def bind_result_Inr sql_insert_Inr quiet_def
      dest!: saveIdempotent_Inr split: if_splits)

lemma complete_attachment_quiet:
  "complete_attachment_body service env actor input db = Inr (db', resp) \<Longrightarrow> quiet db db'"
  by (auto simp: complete_attachment_body_def Let_def bind_result_Inr check_error_Inr
      intro: complete_writes_quiet split: option.splits if_splits)

lemma attachments_Complete_quiet:
  "attachments_Complete service env actor input db = Inr (db', resp) \<Longrightarrow> quiet db db'"
  by (auto simp: attachments_Complete_def split: if_splits
      elim!: idempotent_upload_quiet intro: complete_attachment_quiet)

section \<open>Push and Pull\<close>

text \<open>A mutation writes neither the grants nor the ledger.\<close>

definition still :: "DB \<Rightarrow> DB \<Rightarrow> bool" where
  "still db db' \<longleftrightarrow> offline_grants db' = offline_grants db \<and> ledger db' = ledger db"

lemma still_refl [simp]: "still db db"
  by (simp add: still_def)

lemma still_quiet: "still db mid \<Longrightarrow> prefix (l_outbox (ledger mid)) (l_outbox l) \<Longrightarrow> quiet db (mid\<lparr>ledger := l\<rparr>)"
  by (simp add: still_def quiet_def)

lemma sync_upsertResponse_still:
  "sync_upsertResponse actor authority input payload now db = Inr (db', m) \<Longrightarrow> still db db'"
  by (auto simp: sync_upsertResponse_def Let_def bind_result_Inr still_def split: if_splits option.splits)

lemma sync_insert_potential_still:
  "sync_insert_potential env actor authority input payload ids predecessor db = Inr (db', m) \<Longrightarrow> still db db'"
  by (auto simp: sync_insert_potential_def Let_def bind_result_Inr still_def)

lemma sync_createPotentialFinding_still:
  "sync_createPotentialFinding env actor authority input payload db = Inr (db', m) \<Longrightarrow> still db db'"
  by (auto simp: sync_createPotentialFinding_def Let_def
      intro: sync_insert_potential_still split: if_splits option.splits)

lemma sync_submitChecklist_still:
  "sync_submitChecklist authority input payload now db = Inr (db', m) \<Longrightarrow> still db db'"
  by (auto simp: sync_submitChecklist_def Let_def still_def split: if_splits option.splits)

lemma sync_registerAttachment_still:
  "sync_registerAttachment env actor authority input payload db = Inr (db', m) \<Longrightarrow> still db db'"
  by (auto simp: sync_registerAttachment_def Let_def bind_result_Inr still_def
      split: if_splits option.splits sum.splits)

lemma sync_resolveFieldConflict_still:
  "sync_resolveFieldConflict authority input payload now db = Inr (db', m) \<Longrightarrow> still db db'"
  by (auto simp: sync_resolveFieldConflict_def Let_def split: if_splits)

lemma applyMutation_still: "applyMutation env actor authority input db = Inr (db', m) \<Longrightarrow> still db db'"
  by (auto simp: applyMutation_def split: FieldPayload.splits
      intro: sync_upsertResponse_still sync_createPotentialFinding_still sync_submitChecklist_still
        sync_registerAttachment_still sync_resolveFieldConflict_still)

text \<open>The writers of the ledger append to the outbox.\<close>

lemma sync_outbox:
  "sync_audit event l = Inr l' \<Longrightarrow> prefix (l_outbox l) (l_outbox l')"
  "sync_publish change l = Inr l' \<Longrightarrow> prefix (l_outbox l) (l_outbox l')"
  "sync_enqueue message l = Inr l' \<Longrightarrow> prefix (l_outbox l) (l_outbox l')"
  "sync_store response l = Inr l' \<Longrightarrow> prefix (l_outbox l) (l_outbox l')"
  by (auto simp: sync_audit_def sync_publish_def sync_enqueue_def sync_store_def bind_result_Inr insert_sync_Inr Let_def)

lemma persist_grant_outbox:
  "persist_grant env actor input h g l = Inr l' \<Longrightarrow> prefix (l_outbox l) (l_outbox l')"
  by (auto simp: persist_grant_def bind_result_Inr dest!: sync_outbox intro: prefix_order.trans)

lemma persistAppliedOperation_outbox:
  assumes "persistAppliedOperation env actor input h m l = Inr l'"
  shows "prefix (l_outbox l) (l_outbox l')"
  using assms
  by (auto simp: persistAppliedOperation_def persistIdempotencyResponse_def bind_result_Inr dest!: sync_outbox
      split: if_split_asm option.split_asm intro: prefix_order.trans)

lemma refuse_quiet: "still db mid \<Longrightarrow> refuse env actor input h out mid = Inr (db', r) \<Longrightarrow> quiet db db'"
  by (auto simp: refuse_def persistIdempotencyResponse_def bind_result_Inr intro: still_quiet sync_outbox)

lemma push_operation_quiet:
  "push_operation service env actor input h db = Inr (db', r) \<Longrightarrow> quiet db db'"
  by (auto simp: push_operation_def Let_def bind_result_Inr split: if_splits sum.splits prod.splits
      intro: refuse_quiet still_quiet persistAppliedOperation_outbox applyMutation_still
        refuse_quiet [OF still_refl] still_quiet [of db db' "ledger db'", simplified])

lemma push_transaction_quiet:
  "push_transaction service env actor input db = Inr (db', r) \<Longrightarrow> quiet db db'"
  by (auto simp: push_transaction_def Let_def split: if_splits option.splits Response.splits
      intro: push_operation_quiet)

lemma Pull_quiet: "Pull service env actor input db = Inr (db', r) \<Longrightarrow> quiet db db'"
  by (auto simp: Pull_def pull_page_def Let_def quiet_def split: if_splits sum.splits option.splits)

section \<open>Grants\<close>

lemma Issue_rows:
  assumes "Issue service env actor input db = Inr (db', resp)"
  shows "quiet db db' \<or> (\<exists>row. \<not> grant_conflict row (offline_grants db) \<and>
      offline_grants db' = offline_grants db @ [row] \<and> prefix (l_outbox (ledger db)) (l_outbox (ledger db')))"
  using assms
  by (auto simp: Issue_def issue_grant_def bind_result_Inr insert_sync_Inr Let_def
      dest: persist_grant_outbox split: if_splits option.splits)

lemma Revoke_rows:
  assumes "Revoke env actor grantID reason db = Inr db'"
  shows "ledger db' = ledger db" "offline_grants db' = map (\<lambda>g. if gr_id g = grantID \<and>
      gr_subject_id g = SubjectID actor \<and> gr_revoked_at g = None
    then g\<lparr>gr_revoked_at := Some (env_clock env 0), gr_revoke_reason := Some reason\<rparr> else g) (offline_grants db)"
  using assms by (auto simp: Revoke_def Let_def split: if_splits)

text \<open>A revoked grant: it is stored, and no row of the subject under its identifier is in force.\<close>

definition revoked_grant :: "string \<Rightarrow> string \<Rightarrow> DB \<Rightarrow> bool" where
  "revoked_grant grantID subjectID db \<longleftrightarrow> grantID \<in> gr_id ` set (offline_grants db) \<and>
     (\<forall>g \<in> set (offline_grants db). gr_id g = grantID \<and> gr_subject_id g = subjectID \<longrightarrow> gr_revoked_at g \<noteq> None)"

lemma revoked_grant_cong: "offline_grants db' = offline_grants db \<Longrightarrow> revoked_grant i s db' = revoked_grant i s db"
  by (simp add: revoked_grant_def)

lemma quiet_revoked: "quiet db db' \<Longrightarrow> revoked_grant i s db \<Longrightarrow> revoked_grant i s db'"
  by (simp add: quiet_def revoked_grant_def)

lemma attachment_frame_revoked: "attachment_frame db db' \<Longrightarrow> revoked_grant i s db \<Longrightarrow> revoked_grant i s db'"
  by (auto simp: attachment_frame_def revoked_grant_def)

lemma Issue_revoked:
  assumes "Issue service env actor input db = Inr (db', resp)" "revoked_grant i s db"
  shows "revoked_grant i s db'"
  using Issue_rows [OF assms(1)]
proof
  assume "\<exists>row. \<not> grant_conflict row (offline_grants db) \<and> offline_grants db' = offline_grants db @ [row] \<and>
    prefix (l_outbox (ledger db)) (l_outbox (ledger db'))"
  then obtain row where new: "\<not> grant_conflict row (offline_grants db)"
    and rows: "offline_grants db' = offline_grants db @ [row]" by blast
  from new have "gr_id row \<notin> gr_id ` set (offline_grants db)" by (auto simp: grant_conflict_def list_ex_iff)
  with assms(2) have "gr_id row \<noteq> i" by (auto simp: revoked_grant_def)
  with assms(2) show ?thesis by (simp add: revoked_grant_def rows)
qed (rule quiet_revoked [OF _ assms(2)])

lemma Revoke_revoked:
  assumes "Revoke env actor grantID reason db = Inr db'" "revoked_grant i s db"
  shows "revoked_grant i s db'"
proof -
  let ?g = "\<lambda>g. if gr_id g = grantID \<and> gr_subject_id g = SubjectID actor \<and> gr_revoked_at g = None
    then g\<lparr>gr_revoked_at := Some (env_clock env 0), gr_revoke_reason := Some reason\<rparr> else g"
  have rows: "set (offline_grants db') = ?g ` set (offline_grants db)" by (simp add: Revoke_rows(2) [OF assms(1)])
  have "gr_id (?g g) = gr_id g" for g by simp
  then have "gr_id ` set (offline_grants db') = gr_id ` set (offline_grants db)"
    unfolding rows image_image by (rule image_cong [OF refl])
  moreover have "\<forall>g \<in> set (offline_grants db'). gr_id g = i \<and> gr_subject_id g = s \<longrightarrow> gr_revoked_at g \<noteq> None"
    using assms(2) unfolding rows revoked_grant_def by (simp only: ball_simps) auto
  ultimately show ?thesis using assms(2) by (simp add: revoked_grant_def)
qed

lemma finalizeEvidence_revoked:
  assumes "finalizeEvidence worker env claimed record key promoted result db = Inr db'" "revoked_grant i s db"
  shows "revoked_grant i s db'"
  using assms(1)
proof (cases rule: finalizeEvidence_Inr)
  case delivered
  then show ?thesis using assms(2) attachment_frame_revoked [OF markDelivered_frame] by auto
next
  case scanned
  then show ?thesis using assms(2) by (auto simp: revoked_grant_def)
qed

lemma recordFailure_revoked:
  assumes "recordFailure worker env claimed reason db = Inr db'" "revoked_grant i s db"
  shows "revoked_grant i s db'"
  using assms(1)
  by (cases rule: recordFailure_Inr) (use assms(2) attachment_frame_revoked in \<open>auto simp: revoked_grant_def\<close>)

lemma step_revoked:
  assumes "system_step db db'" "revoked_grant i s db"
  shows "revoked_grant i s db'"
  using assms(1)
proof cases
  case (claim worker now claimed)
  then have "attachment_frame db db'" by (rule claimNext_Some)
  then show ?thesis using assms(2) by (rule attachment_frame_revoked)
next
  case (deliver mid now)
  then show ?thesis using assms(2) attachment_frame_revoked [OF markDelivered_frame] by simp
next
  case (finalize_attachment worker env claimed stored key promoted result)
  then have "attachment_frame db db'" by (rule finalizeAttachment_Inr)
  then show ?thesis using assms(2) by (rule attachment_frame_revoked)
next
  case (expire_uploads env)
  then show ?thesis using assms(2) quiet_revoked [OF ReconcileExpired_quiet] by simp
qed (use assms(2) in \<open>blast intro: quiet_revoked dispatch_quiet assignment_dispatch_quiet MaterializeInspection_quiet
    evidence_Begin_quiet evidence_Complete_quiet finalizeEvidence_revoked recordFailure_revoked Issue_revoked
    Revoke_revoked push_transaction_quiet Pull_quiet attachments_Begin_quiet BeginPart_quiet AcknowledgePart_quiet
    attachments_Complete_quiet\<close>)+

lemma run_revoked: "system_run db db' \<Longrightarrow> revoked_grant i s db \<Longrightarrow> revoked_grant i s db'"
  by (induction rule: rtranclp_induct) (auto intro: step_revoked)

lemma revoked_grantI:
  assumes "Revoke env actor grantID reason db = Inr db'"
  shows "revoked_grant grantID (SubjectID actor) db'"
proof -
  let ?g = "\<lambda>g. if gr_id g = grantID \<and> gr_subject_id g = SubjectID actor \<and> gr_revoked_at g = None
    then g\<lparr>gr_revoked_at := Some (env_clock env 0), gr_revoke_reason := Some reason\<rparr> else g"
  from Revoke_Inr(2) [OF assms] obtain g where g: "g \<in> set (offline_grants db)" "gr_id g = grantID" by blast
  have "?g g \<in> set (offline_grants db')" unfolding Revoke_rows(2) [OF assms] set_map
    using g(1) by (rule imageI)
  moreover have "gr_id (?g g) = grantID" using g(2) by simp
  ultimately have "grantID \<in> gr_id ` set (offline_grants db')" by (rule image_eqI [rotated, OF _ sym])
  then show ?thesis unfolding revoked_grant_def using Revoke_Inr(1) [OF assms] by (rule conjI)
qed

lemma revoked_grant_rows:
  "revoked_grant i s db \<Longrightarrow>
     \<forall>g \<in> set (offline_grants db). gr_id g = i \<and> gr_subject_id g = s \<longrightarrow> gr_revoked_at g \<noteq> None"
  by (simp add: revoked_grant_def)

end
