(* ===== verification/PartLayout.thy ===== *)
theory PartLayout
  imports AttachmentUpload
begin

text \<open>
  The layout of the parts of a resumable upload: the receipts a completion accepts are exactly the
  consecutive parts of the declared size, and what the store must hold for a part to be accepted.
\<close>

section \<open>Machine integers in range\<close>

abbreviation i64 :: "int \<Rightarrow> i64" where "i64 \<equiv> word_of_int"

lemma sint_i64: "- (2 ^ 63) \<le> k \<Longrightarrow> k < 2 ^ 63 \<Longrightarrow> sint (i64 k) = k"
  by (subst sint_sbintrunc') (simp add: signed_take_bit_int_eq_self)

lemma i64_eq_iff: "- (2 ^ 63) \<le> k \<Longrightarrow> k < 2 ^ 63 \<Longrightarrow> w = i64 k \<longleftrightarrow> sint w = k"
  using sint_i64 [of k] of_int_sint [of w] by auto

lemma i64_of_sint: "w = i64 (sint w)"
  using of_int_sint [of w] by simp

text \<open>The number of parts of a size: rounding up.\<close>

definition part_count :: "int \<Rightarrow> int \<Rightarrow> nat" where
  "part_count bytes part = nat ((bytes + part - 1) div part)"

lemma expectedPartCount_ceiling:
  assumes "0 \<le> sint bytes" "0 < sint part" "sint bytes + sint part \<le> 2 ^ 63"
  shows "sint (expectedPartCount bytes part) = int (part_count (sint bytes) (sint part))"
proof -
  let ?k = "sint bytes + sint part - 1"
  have "bytes + part - 1 = i64 ?k" by simp
  moreover have "sint (i64 ?k) = ?k" using assms by (intro sint_i64) simp_all
  ultimately have sum: "sint (bytes + part - 1) = ?k" by simp
  have "?k div sint part \<le> ?k" if "0 \<le> ?k"
    using that assms(2) zdiv_mono2 [of ?k 1 "sint part"] by simp
  then have bounds: "0 \<le> ?k \<Longrightarrow> 0 \<le> ?k div sint part \<and> ?k div sint part < 2 ^ 63"
    using assms by (auto simp: pos_imp_zdiv_nonneg_iff)
  show ?thesis
  proof (cases "sint bytes = 0")
    case True
    with assms(2) have "(sint bytes + sint part - 1) div sint part = 0" by simp
    with True show ?thesis by (simp add: expectedPartCount_def part_count_def)
  next
    case False
    with assms have "0 < sint bytes" by simp
    with assms(2) sum bounds show ?thesis
      by (simp add: expectedPartCount_def i64_div_def trunc_div_def part_count_def sint_i64)
  qed
qed

section \<open>The layout of a whole file\<close>

definition part_offset :: "int \<Rightarrow> int \<Rightarrow> nat \<Rightarrow> int" where
  "part_offset bytes part i = min bytes (int i * part)"

text \<open>The receipt of part \<open>i\<close>, counted from 0: its number, its bytes and the offset after it.\<close>

definition whole_part :: "int \<Rightarrow> int \<Rightarrow> nat \<Rightarrow> UploadPartReceipt \<Rightarrow> bool" where
  "whole_part bytes part i r \<longleftrightarrow> sint (pr_PartNumber r) = int i + 1 \<and>
     sint (pr_ByteSize r) = part_offset bytes part (i + 1) - part_offset bytes part i \<and>
     sint (pr_AcknowledgedOffset r) = part_offset bytes part (i + 1) \<and>
     pr_SHA256 r \<noteq> '''' \<and> pr_ObjectVersion r \<noteq> ''''"

lemma part_count_bounds:
  assumes "0 \<le> bytes" "0 < part"
  shows "bytes \<le> int (part_count bytes part) * part"
    "i < part_count bytes part \<Longrightarrow> int i * part < bytes"
proof -
  have q: "0 \<le> (bytes + part - 1) div part" using assms by (simp add: pos_imp_zdiv_nonneg_iff)
  have "(bytes + part - 1) div part * part + (bytes + part - 1) mod part = bytes + part - 1" by simp
  moreover have "(bytes + part - 1) mod part < part" "0 \<le> (bytes + part - 1) mod part" using assms(2) by simp_all
  ultimately have d: "bytes \<le> (bytes + part - 1) div part * part" "(bytes + part - 1) div part * part < bytes + part"
    by linarith+
  then show "bytes \<le> int (part_count bytes part) * part" using q by (simp add: part_count_def)
  assume "i < part_count bytes part"
  then have "int i + 1 \<le> (bytes + part - 1) div part" using q by (simp add: part_count_def)
  then have "(int i + 1) * part \<le> (bytes + part - 1) div part * part" using assms(2) by simp
  with d show "int i * part < bytes" by (simp add: algebra_simps)
qed

lemma part_offset_bounds:
  assumes "0 \<le> bytes" "0 < part"
  shows "0 \<le> part_offset bytes part i" "part_offset bytes part i \<le> bytes"
    "part_offset bytes part i \<le> part_offset bytes part (i + 1)"
    "part_offset bytes part (i + 1) - part_offset bytes part i \<le> part"
  using assms by (auto simp: part_offset_def min_def algebra_simps)

lemma part_offset_last:
  assumes "0 \<le> bytes" "0 < part"
  shows "part_offset bytes part (part_count bytes part) = bytes"
  using part_count_bounds(1) [OF assms] by (simp add: part_offset_def)

lemma expected_part_size:
  assumes "0 \<le> bytes" "0 < part" "i < part_count bytes part"
  shows "(if i + 1 = part_count bytes part then i64 bytes - i64 (part_offset bytes part i) else i64 part) =
    i64 (part_offset bytes part (i + 1) - part_offset bytes part i)"
proof (cases "i + 1 = part_count bytes part")
  case True
  with part_offset_last [OF assms(1,2)] show ?thesis by simp
next
  case False
  with assms(3) have "i + 1 < part_count bytes part" by simp
  from part_count_bounds(2) [OF assms(1,2) this] part_count_bounds(2) [OF assms]
  have "part_offset bytes part (i + 1) - part_offset bytes part i = part"
    by (simp add: part_offset_def algebra_simps)
  with False show ?thesis by simp
qed

lemma part_step:
  assumes "0 \<le> bytes" "0 < part" "bytes + part \<le> 2 ^ 63" "i < part_count bytes part"
  shows "pr_PartNumber r \<noteq> of_nat (i + 1) \<or>
      pr_ByteSize r \<noteq> (if i + 1 = part_count bytes part then i64 bytes - i64 (part_offset bytes part i) else i64 part) \<or>
      pr_AcknowledgedOffset r \<noteq> i64 (part_offset bytes part i) + pr_ByteSize r \<or>
      pr_SHA256 r = '''' \<or> pr_ObjectVersion r = '''' \<longleftrightarrow> \<not> whole_part bytes part i r"
proof -
  have "int i * 1 \<le> int i * part" using assms(2) by (intro mult_left_mono) simp_all
  then have i: "int i + 1 < 2 ^ 63" using part_count_bounds(2) [OF assms(1,2,4)] assms(2,3) by linarith
  have number: "pr_PartNumber r = of_nat (i + 1) \<longleftrightarrow> sint (pr_PartNumber r) = int i + 1"
    using i64_eq_iff [of "int i + 1" "pr_PartNumber r"] i by (simp add: add.commute)
  have size: "pr_ByteSize r = i64 (part_offset bytes part (i + 1) - part_offset bytes part i) \<longleftrightarrow>
      sint (pr_ByteSize r) = part_offset bytes part (i + 1) - part_offset bytes part i"
    using part_offset_bounds [OF assms(1,2), of i] part_offset_bounds(2) [OF assms(1,2), of "i + 1"] assms(2,3)
    by (intro i64_eq_iff) linarith+
  have "pr_AcknowledgedOffset r = i64 (part_offset bytes part (i + 1)) \<longleftrightarrow>
      sint (pr_AcknowledgedOffset r) = part_offset bytes part (i + 1)"
    using part_offset_bounds [OF assms(1,2), of "i + 1"] assms(2,3) by (intro i64_eq_iff) simp_all
  moreover have "i64 (part_offset bytes part i) +
      i64 (part_offset bytes part (i + 1) - part_offset bytes part i) = i64 (part_offset bytes part (i + 1))" by simp
  ultimately show ?thesis
    unfolding expected_part_size [OF assms(1,2,4)] whole_part_def
    by (metis number size)
qed

lemma part_loop_exact:
  assumes "0 \<le> bytes" "0 < part" "bytes + part \<le> 2 ^ 63" "i + length rs = part_count bytes part"
  shows "part_loop (i64 bytes) (i64 part) (part_count bytes part) i (i64 (part_offset bytes part i)) rs =
    (if \<forall>j < length rs. whole_part bytes part (i + j) (rs ! j) then Some (i64 bytes) else None)"
  using assms(4)
proof (induction rs arbitrary: i)
  case Nil
  then show ?case using part_offset_last [OF assms(1,2)] by simp
next
  case (Cons r rs)
  from Cons.prems have i: "i < part_count bytes part" "Suc i + length rs = part_count bytes part" by simp_all
  note step = part_step [OF assms(1-3) i(1), of r]
  show ?case
  proof (cases "whole_part bytes part i r")
    case False
    with step have "part_loop (i64 bytes) (i64 part) (part_count bytes part) i
        (i64 (part_offset bytes part i)) (r # rs) = None" by (simp only: part_loop.simps Let_def if_True simp_thms)
    with False show ?thesis by fastforce
  next
    case True
    with step have "part_loop (i64 bytes) (i64 part) (part_count bytes part) i
        (i64 (part_offset bytes part i)) (r # rs) =
      part_loop (i64 bytes) (i64 part) (part_count bytes part) (Suc i)
        (i64 (part_offset bytes part i) + pr_ByteSize r) rs" by (simp only: part_loop.simps Let_def if_False simp_thms Suc_eq_plus1)
    also have "i64 (part_offset bytes part i) + pr_ByteSize r = i64 (part_offset bytes part (Suc i))"
    proof -
      have "pr_ByteSize r = i64 (part_offset bytes part (Suc i) - part_offset bytes part i)"
        using i64_of_sint [of "pr_ByteSize r"] True by (simp only: whole_part_def Suc_eq_plus1)
      then show ?thesis by simp
    qed
    finally show ?thesis using True Cons.IH [OF i(2)] by (auto simp: less_Suc_eq_0_disj)
  qed
qed

lemma length_ordered_receipts [simp]: "length (ordered_receipts receipts) = length receipts"
  by (simp add: ordered_receipts_def)

lemma validate_layout_exact:
  assumes "sint bytes + sint part \<le> 2 ^ 63"
  shows "validateResumablePartLayout bytes part receipts = None \<longleftrightarrow>
    0 \<le> sint bytes \<and> 0 < sint part \<and> length receipts = part_count (sint bytes) (sint part) \<and>
    (\<forall>i < length receipts. whole_part (sint bytes) (sint part) i (ordered_receipts receipts ! i))"
proof (cases "0 \<le> sint bytes \<and> 0 < sint part \<and> length receipts = part_count (sint bytes) (sint part)")
  case False
  then show ?thesis
    using expectedPartCount_ceiling [OF _ _ assms] by (auto simp: validateResumablePartLayout_def)
next
  case True
  then have b: "0 \<le> sint bytes" "0 < sint part" by simp_all
  have n: "int (length receipts) = sint (expectedPartCount bytes part)"
    using True expectedPartCount_ceiling [OF b assms] by simp
  have zero: "part_offset (sint bytes) (sint part) 0 = 0" using b by (simp add: part_offset_def)
  have "part_loop bytes part (length receipts) 0 0 (ordered_receipts receipts) =
    (if \<forall>i < length receipts. whole_part (sint bytes) (sint part) i (ordered_receipts receipts ! i)
     then Some bytes else None)"
    using part_loop_exact [OF b assms, of 0 "ordered_receipts receipts"] True zero
    by (simp flip: i64_of_sint)
  with True n show ?thesis by (simp add: validateResumablePartLayout_def)
qed

section \<open>Parts and whole files at the store\<close>

lemma observed_part_refused:
  assumes "os_open (sv_objects service) bucket key = Some (reader, info)"
    and "rd_bytes reader = signature @ rest" "signature \<in> {pdf_signature, png_signature, jpeg_signature}"
    and "sint (sv_maximumByteSize service) < 2 ^ 63 - 1"
  shows "observed_part service input bucket key = Inl ErrObjectMismatch"
proof (cases "Observe (sv_observer service) reader (sv_maximumByteSize service)")
  case (Inl e)
  with assms(1) show ?thesis by (simp add: observed_part_def)
next
  case (Inr observation)
  from Observe_Inr [OF this assms(4)]
  have "ob_ContentType observation = DetectContentType (bs_other_type (sv_observer service)) (take 512 (rd_bytes reader))"
    by simp
  moreover have "take 512 (rd_bytes reader) = signature @ take (512 - length signature) rest"
    using assms(2,3) by (auto simp: pdf_signature_def png_signature_def jpeg_signature_def)
  ultimately have "ob_ContentType observation \<noteq> ''application/octet-stream''"
    using assms(3) by auto
  with assms(1) Inr show ?thesis by (simp add: observed_part_def MatchesDeclaration_def)
qed

lemma acknowledge_refused:
  assumes "lookup us_id (pi_UploadID input) (upload_sessions db) = Some session"
    and "find_part (pi_UploadID input) (pi_SessionEpoch input) (pi_PartNumber input) db = Some part"
    and "up_part_state part \<noteq> ''ACKNOWLEDGED''"
    and "stored_response (ack_scope actor) (pi_OperationID input) (ledger db) = None"
    and "observed_part service input (us_bucket_name session) (up_part_object_key part) = Inl e"
  shows "isl (AcknowledgePart service env actor input db)"
  using assms
  by (simp add: AcknowledgePart_def idempotent_upload_def loadIdempotent_def ack_part_body_def Let_def)

text \<open>An identity with a version and no entity tag cannot be stored.\<close>

lemma unversioned_identity:
  assumes "attachment_identity service session info = Inr identity"
    and "\<not> os_requires_exact (sv_objects service)"
  shows "snd identity = ''''" "us_staging_object_key session \<noteq> '''' \<Longrightarrow> fst identity \<noteq> ''''"
  using assms by (auto simp: attachment_identity_def ExactIdentityForPersistence_def split: if_splits)

lemma unversioned_object_conflict:
  assumes "snd identity = ''''" "fst identity \<noteq> ''''"
  shows "object_metadata_conflict (quarantined_object oid kind session identity now) rows"
  using assms by (simp add: object_metadata_conflict_def exact_identity_check_def quarantined_object_def null_if_empty_def)

lemma complete_attachment_writes_refused:
  assumes "snd identity = ''''" "fst identity \<noteq> ''''"
  shows "isl (complete_attachment_writes service env actor input session identity db)"
  using unversioned_object_conflict [OF assms]
  by (simp add: complete_attachment_writes_def Let_def sql_insert_def)

lemma attachments_Complete_refused:
  assumes "\<not> os_requires_exact (sv_objects service)"
    and "\<forall>u \<in> set (upload_sessions db). us_staging_object_key u \<noteq> ''''"
    and "stored_response (complete_attachment_scope actor) (ki_OperationID input) (ledger db) = None"
  shows "isl (attachments_Complete service env actor input db)"
proof (rule ccontr)
  assume "\<not> isl (attachments_Complete service env actor input db)"
  then obtain db' resp where "attachments_Complete service env actor input db = Inr (db', resp)"
    by (cases "attachments_Complete service env actor input db") auto
  with assms(3) have "complete_attachment_body service env actor input db = Inr (db', resp)"
    by (auto simp: attachments_Complete_def idempotent_upload_def loadIdempotent_def split: if_splits)
  then obtain session info identity where s: "session \<in> set (upload_sessions db)"
    and i: "attachment_identity service session info = Inr identity"
    and w: "complete_attachment_writes service env actor input session identity db = Inr (db', resp)"
    unfolding complete_attachment_body_def Let_def
    by (auto simp: if_Inl_Inr bind_result_Inr check_error_Inr dest!: find_SomeD split: option.split_asm
        intro!: that)
  from unversioned_identity [OF i assms(1)] assms(2) s complete_attachment_writes_refused w
  show False by (metis Inr_Inl_False isl_def)
qed

section \<open>A completed upload\<close>

lemma whole_parts_prefix:
  assumes "\<forall>i < length rs. whole_part bytes part i (rs ! i)" "k \<le> length rs" "0 \<le> bytes"
  shows "sum_list (map (\<lambda>r. sint (pr_ByteSize r)) (take k rs)) = part_offset bytes part k"
  using assms(2)
proof (induction k)
  case 0
  with assms(3) show ?case by (simp add: part_offset_def)
next
  case (Suc k)
  with assms(1) show ?case by (simp add: take_Suc_conv_app_nth whole_part_def)
qed

lemma whole_parts_sum:
  assumes "\<forall>i < length rs. whole_part bytes part i (rs ! i)" "length rs = part_count bytes part"
    and "0 \<le> bytes" "0 < part"
  shows "sum_list (map (\<lambda>r. sint (pr_ByteSize r)) rs) = bytes"
  using whole_parts_prefix [OF assms(1) order.refl assms(3)] part_offset_last [OF assms(3,4)] assms(2) by simp

lemma collect_nth:
  "collect (map f xs) = Some ys \<longleftrightarrow> length ys = length xs \<and> (\<forall>i < length xs. f (xs ! i) = Some (ys ! i))"
proof (induction xs arbitrary: ys)
  case (Cons x xs)
  show ?case
    by (cases "f x"; cases ys) (auto simp: Cons.IH nth_Cons split: nat.splits)
qed auto

text \<open>What the bytes of a receipt are: the store holds them, complete, under the key of an acknowledged part with
  the number, size, digest and version of the receipt.\<close>

definition part_holds :: "UploadService \<Rightarrow> string \<Rightarrow> UploadPart \<Rightarrow> UploadPartReceipt \<Rightarrow> string \<Rightarrow> bool" where
  "part_holds service bucket part receipt bytes \<longleftrightarrow>
     up_part_number part = pr_PartNumber receipt \<and> up_part_state part = ''ACKNOWLEDGED'' \<and>
     up_byte_size part = pr_ByteSize receipt \<and> up_part_sha256 part = pr_SHA256 receipt \<and>
     part_object_version part = pr_ObjectVersion receipt \<and>
     (\<exists>reader info. os_open (sv_objects service) bucket (up_part_object_key part) = Some (reader, info) \<and>
        \<not> rd_fails reader \<and> rd_bytes reader = bytes \<and> oi_Size info = pr_ByteSize receipt) \<and>
     int (length bytes) = sint (pr_ByteSize receipt) \<and>
     ''sha256:'' @ bs_sha256 (sv_observer service) bytes = pr_SHA256 receipt"

lemma stored_part_bytes_Some:
  assumes "stored_part_bytes service bucket parts receipt = Some bytes"
    and "sint (sv_maximumByteSize service) < 2 ^ 63 - 1"
  shows "\<exists>p \<in> set parts. part_holds service bucket p receipt bytes"
proof -
  from assms(1) obtain p reader info observation where
    p: "p \<in> set parts" "up_part_number p = pr_PartNumber receipt" "up_part_state p = ''ACKNOWLEDGED''"
      "up_byte_size p = pr_ByteSize receipt" "up_part_sha256 p = pr_SHA256 receipt"
      "part_object_version p = pr_ObjectVersion receipt"
    and o: "os_open (sv_objects service) bucket (up_part_object_key p) = Some (reader, info)"
      "\<not> rd_fails reader" "rd_bytes reader = bytes" "oi_Size info = pr_ByteSize receipt"
    and size: "(of_nat (length bytes) :: i64) = pr_ByteSize receipt"
    and ob: "Observe (sv_observer service) \<lparr>rd_bytes = bytes, rd_fails = False\<rparr>
      (sv_maximumByteSize service) = Inr observation" "ob_SHA256 observation = pr_SHA256 receipt"
    by (auto simp: stored_part_bytes_def dest!: find_SomeD split: option.splits if_splits prod.splits sum.splits)
  from Observe_Inr [OF ob(1) assms(2)]
  have "int (length bytes) \<le> sint (sv_maximumByteSize service)"
    "ob_SHA256 observation = ''sha256:'' @ bs_sha256 (sv_observer service) bytes" by simp_all
  moreover from this(1) assms(2) have "sint (of_nat (length bytes) :: i64) = int (length bytes)"
    using sint_i64 [of "int (length bytes)"] by simp
  ultimately have "int (length bytes) = sint (pr_ByteSize receipt)"
    "''sha256:'' @ bs_sha256 (sv_observer service) bytes = pr_SHA256 receipt"
    using size ob(2) by simp_all
  with p o show ?thesis unfolding part_holds_def by blast
qed

lemma ordered_twice [simp]: "ordered_receipts (ordered_receipts receipts) = ordered_receipts receipts"
  by (simp add: ordered_receipts_def sort_key_id_if_sorted)

lemma complete_attachment_body_Inr:
  assumes "complete_attachment_body service env actor input db = Inr (db', resp)"
  obtains session partSize attachment contents info identity
    where "session \<in> set (upload_sessions db)" "us_id session = ki_UploadID input"
    and "us_part_size_bytes session = Some partSize"
    and "us_initiated_by_subject_id session = SubjectID actor" "ki_SessionEpoch input = us_session_epoch session"
    and "env_clock env 0 \<le> us_expires_at session" "ki_ByteSize input = us_declared_size_bytes session"
    and "ki_SHA256 input = us_declared_sha256 session"
    and "validateResumablePartLayout (us_declared_size_bytes session) partSize (ordered_receipts (ki_Parts input)) = None"
    and "collect (map (stored_part_bytes service (us_bucket_name session)
      (filter (\<lambda>p. up_upload_session_id p = ki_UploadID input \<and> up_session_epoch p = ki_SessionEpoch input)
        (inspection_attachment_upload_parts db))) (ordered_receipts (ki_Parts input))) = Some contents"
    and "final_object service session (concat contents) = Inr info"
    and "attachment_identity service session info = Inr identity"
    and "complete_attachment_writes service env actor input session identity db = Inr (db', resp)"
  using assms unfolding complete_attachment_body_def Let_def
  by (auto simp: if_Inl_Inr bind_result_Inr check_error_Inr not_less dest!: find_SomeD split: option.split_asm
      intro!: that)

lemma int_length_concat: "int (length (concat xs)) = sum_list (map (\<lambda>x. int (length x)) xs)"
  by (induction xs) simp_all

lemma completed_parts_tile:
  assumes "complete_attachment_body service env actor input db = Inr (db', resp)"
    and "sint (sv_maximumByteSize service) < 2 ^ 63 - 1"
    and "\<forall>u \<in> set (upload_sessions db). \<forall>p. us_part_size_bytes u = Some p \<longrightarrow>
      sint (us_declared_size_bytes u) + sint p \<le> 2 ^ 63"
  obtains session contents info where "session \<in> set (upload_sessions db)"
    and "us_id session = ki_UploadID input" "us_initiated_by_subject_id session = SubjectID actor"
    and "length contents = length (ki_Parts input)"
    and "\<forall>i < length contents. \<exists>part \<in> set (inspection_attachment_upload_parts db).
      up_upload_session_id part = us_id session \<and> up_session_epoch part = us_session_epoch session \<and>
      part_holds service (us_bucket_name session) part (ordered_receipts (ki_Parts input) ! i) (contents ! i)"
    and "int (length (concat contents)) = sint (us_declared_size_bytes session)"
    and "final_object service session (concat contents) = Inr info"
proof -
  from assms(1) obtain session partSize contents info where
    s: "session \<in> set (upload_sessions db)" "us_id session = ki_UploadID input"
      "us_part_size_bytes session = Some partSize" "us_initiated_by_subject_id session = SubjectID actor"
    and epoch: "ki_SessionEpoch input = us_session_epoch session"
    and v: "validateResumablePartLayout (us_declared_size_bytes session) partSize
      (ordered_receipts (ki_Parts input)) = None"
    and c: "collect (map (stored_part_bytes service (us_bucket_name session)
      (filter (\<lambda>p. up_upload_session_id p = ki_UploadID input \<and> up_session_epoch p = ki_SessionEpoch input)
        (inspection_attachment_upload_parts db))) (ordered_receipts (ki_Parts input))) = Some contents"
    and f: "final_object service session (concat contents) = Inr info"
    by (rule complete_attachment_body_Inr) (rule that; assumption)
  let ?rs = "ordered_receipts (ki_Parts input)"
  from s assms(3) have "sint (us_declared_size_bytes session) + sint partSize \<le> 2 ^ 63" by blast
  from v [unfolded validate_layout_exact [OF this]] have
    b: "0 \<le> sint (us_declared_size_bytes session)" "0 < sint partSize"
      "length ?rs = part_count (sint (us_declared_size_bytes session)) (sint partSize)"
      "\<forall>i < length ?rs. whole_part (sint (us_declared_size_bytes session)) (sint partSize) i (?rs ! i)"
    by simp_all
  from c [unfolded collect_nth] have len: "length contents = length ?rs"
    and bytes: "\<forall>i < length ?rs. stored_part_bytes service (us_bucket_name session)
      (filter (\<lambda>p. up_upload_session_id p = ki_UploadID input \<and> up_session_epoch p = ki_SessionEpoch input)
        (inspection_attachment_upload_parts db)) (?rs ! i) = Some (contents ! i)" by blast+
  have each: "\<exists>part \<in> set (inspection_attachment_upload_parts db).
      up_upload_session_id part = us_id session \<and> up_session_epoch part = us_session_epoch session \<and>
      part_holds service (us_bucket_name session) part (?rs ! i) (contents ! i)" if "i < length ?rs" for i
    using stored_part_bytes_Some [OF _ assms(2)] bytes that by (fastforce simp: s(2) epoch)
  have "map (\<lambda>x. int (length x)) contents = map (\<lambda>r. sint (pr_ByteSize r)) ?rs"
    using len each by (intro nth_equalityI) (auto simp: part_holds_def)
  with whole_parts_sum [OF b(4,3,1,2)] have "int (length (concat contents)) = sint (us_declared_size_bytes session)"
    by (simp add: int_length_concat)
  with that s len each f show ?thesis by simp
qed

end
