(* ===== verification/Histories.thy ===== *)
theory Histories
  imports SystemRuns
begin

text \<open>
  What a run of transactions can do to one row and to the append-only tables: the histories that the
  properties of the system are read off. Everything is proved once, inside the locale of transactions.
\<close>

section \<open>The history of one Finding\<close>

lemma finding_transition_revision:
  "finding_transition f f' \<Longrightarrow> sint (f_revision f') = sint (f_revision f) + 1"
  by (auto simp: finding_transition_def dest: sint_succ_pos)

lemma same_identity_refl [simp, intro]: "same_identity f f"
  by (simp add: same_identity_def)

lemma same_identity_trans: "same_identity f g \<Longrightarrow> same_identity g h \<Longrightarrow> same_identity f h"
  by (cases f; cases g; cases h) (simp add: same_identity_def)

text \<open>A history either leaves the row alone or moves along the lifecycle, one revision per transition.\<close>

lemma finding_history:
  assumes "finding_step\<^sup>*\<^sup>* f f'"
  shows "same_identity f f' \<and> finding_edge\<^sup>*\<^sup>* (f_status f) (f_status f') \<and>
    sint (f_revision f) \<le> sint (f_revision f') \<and>
    (f' = f \<or> sint (f_revision f) < sint (f_revision f') \<and> finding_edge\<^sup>+\<^sup>+ (f_status f) (f_status f'))"
  using assms
proof (induction rule: rtranclp_induct)
  case base
  show ?case by simp
next
  case (step g h)
  show ?case
  proof (cases "h = g")
    case False
    with step.hyps(2) have t: "finding_transition g h" by (simp add: finding_step_def)
    then have e: "finding_edge (f_status g) (f_status h)" "same_identity g h"
      by (simp_all add: finding_transition_def)
    have r: "sint (f_revision h) = sint (f_revision g) + 1" by (rule finding_transition_revision [OF t])
    from step.IH e have "same_identity f h" "finding_edge\<^sup>+\<^sup>+ (f_status f) (f_status h)"
      by (auto intro: same_identity_trans rtranclp_into_tranclp1)
    with r step.IH show ?thesis by (auto dest: tranclp_into_rtranclp)
  qed (use step.IH in simp)
qed

lemma finding_history_closed:
  assumes "finding_step\<^sup>*\<^sup>* f f'" "f_status f = FStatusClosed"
  shows "f' = f"
  using assms
  by (induction rule: rtranclp_induct) (auto simp: finding_step_def finding_transition_def)

section \<open>The history of a scan and of an approval\<close>

lemma state_history:
  assumes "state_step\<^sup>*\<^sup>* s s'" "terminal_scan (es_scan_state s)"
  shows "es_scan_state s' = es_scan_state s \<and>
    es_canonical_object_metadata_id s' = es_canonical_object_metadata_id s"
  using assms by (induction rule: rtranclp_induct) (auto simp: state_step_def)

lemma approval_history:
  assumes "approval_step\<^sup>*\<^sup>* a a'" "issued a"
  shows "a' = a"
  using assms by (induction rule: rtranclp_induct) (auto dest: approval_step_issued)

section \<open>Append-only tables\<close>

definition appended :: "DB \<Rightarrow> DB \<Rightarrow> bool" where
  "appended db db' \<longleftrightarrow>
     prefix (report_versions db) (report_versions db') \<and> prefix (cap_revisions db) (cap_revisions db') \<and>
     prefix (review_decisions db) (review_decisions db') \<and>
     prefix (evidence_versions db) (evidence_versions db') \<and>
     prefix (report_decisions db) (report_decisions db') \<and> ledger_grows (ledger db) (ledger db')"

lemma appended_refl [simp, intro]: "appended db db"
  by (simp add: appended_def)

lemma appended_trans: "appended db db' \<Longrightarrow> appended db' db'' \<Longrightarrow> appended db db''"
  by (auto simp: appended_def intro: prefix_order.trans ledger_grows_trans)

lemma lawful_appended: "lawful db db' \<Longrightarrow> ledger_grows (ledger db) (ledger db') \<Longrightarrow> appended db db'"
  by (simp add: lawful_def appended_def)

section \<open>Runs\<close>

context transaction
begin

lemma run_wf: "step\<^sup>*\<^sup>* db db' \<Longrightarrow> system_wf db \<Longrightarrow> system_wf db'"
  by (induction rule: rtranclp_induct) (auto dest: step_wf)

lemma run_appends:
  assumes "step\<^sup>*\<^sup>* db db'" "system_wf db"
  shows "appended db db'"
  using assms
proof (induction rule: rtranclp_induct)
  case (step db1 db2)
  then have "system_wf db1" by (blast intro: run_wf)
  from step_specification [OF step.hyps(2) this] have "appended db1 db2" by (blast intro: lawful_appended)
  with step show ?case by (blast intro: appended_trans)
qed simp

text \<open>A row is found again under its key, at the end of a history of its own steps.\<close>

lemma run_row:
  assumes run: "step\<^sup>*\<^sup>* db db'" and wf: "system_wf db"
    and table: "keyed_table key row_step"
    and evolves: "\<And>db db'. lawful db db' \<Longrightarrow> table_evolves key row_step fresh (rows db) (rows db')"
    and keys: "\<And>db. system_wf db \<Longrightarrow> distinct (map key (rows db))"
    and look: "lookup key k (rows db) = Some r"
  shows "\<exists>r'. lookup key k (rows db') = Some r' \<and> row_step\<^sup>*\<^sup>* r r'"
  using run
proof (induction rule: rtranclp_induct)
  case base
  with look show ?case by blast
next
  case (step db1 db2)
  then obtain r1 where r1: "lookup key k (rows db1) = Some r1" "row_step\<^sup>*\<^sup>* r r1" by blast
  have wf1: "system_wf db1" using run_wf step.hyps(1) wf by blast
  have "lawful db1 db2" using step_specification [OF step.hyps(2) wf1] by blast
  from keyed_table.evolves_lookup [OF table evolves [OF this] keys [OF wf1] r1(1)]
  obtain r2 where "lookup key k (rows db2) = Some r2" "row_step r1 r2" by blast
  with r1(2) show ?case by (blast intro: rtranclp.rtrancl_into_rtrancl)
qed

lemma run_finding:
  assumes "step\<^sup>*\<^sup>* db db'" "system_wf db" "lookup f_id k (findings db) = Some f"
  obtains f' where "lookup f_id k (findings db') = Some f'" "finding_step\<^sup>*\<^sup>* f f'"
proof -
  have "\<exists>f'. lookup f_id k (findings db') = Some f' \<and> finding_step\<^sup>*\<^sup>* f f'"
    by (rule run_row [OF assms(1,2) finding_table.keyed_table_axioms, where fresh = new_finding])
      (use assms(3) in \<open>auto simp: lawful_def system_wf_def\<close>)
  with that show thesis by blast
qed

lemma run_state:
  assumes "step\<^sup>*\<^sup>* db db'" "system_wf db" "lookup es_evidence_version_id k (evidence_version_states db) = Some s"
  obtains s' where "lookup es_evidence_version_id k (evidence_version_states db') = Some s'"
    "state_step\<^sup>*\<^sup>* s s'"
proof -
  have "\<exists>s'. lookup es_evidence_version_id k (evidence_version_states db') = Some s' \<and> state_step\<^sup>*\<^sup>* s s'"
    by (rule run_row [OF assms(1,2) state_table.keyed_table_axioms, where fresh = new_state])
      (use assms(3) in \<open>auto simp: lawful_def system_wf_def\<close>)
  with that show thesis by blast
qed

lemma run_approval:
  assumes "step\<^sup>*\<^sup>* db db'" "system_wf db"
    "lookup ra_report_version_id k (report_approval_states db) = Some a"
  obtains a' where "lookup ra_report_version_id k (report_approval_states db') = Some a'"
    "approval_step\<^sup>*\<^sup>* a a'"
proof -
  have "\<exists>a'. lookup ra_report_version_id k (report_approval_states db') = Some a' \<and> approval_step\<^sup>*\<^sup>* a a'"
    by (rule run_row [OF assms(1,2) approval_table.keyed_table_axioms, where fresh = new_approval])
      (use assms(3) in \<open>auto simp: lawful_def system_wf_def\<close>)
  with that show thesis by blast
qed

end

end
