(* ===== verification/Samples.thy ===== *)
theory Samples
  imports Histories
begin

text \<open>
  Concrete databases, principals and commands: the inputs at which the witnesses apply the properties.
\<close>

section \<open>Databases\<close>

definition no_scopes :: ScopeTables where
  "no_scopes = \<lparr>t_intake_drafts = [], t_scope_drafts = [], t_proposals = [], t_scope_snapshots = [],
     t_provider_scopes = [], t_targets = [], t_responsibilities = [], t_units = [], t_memberships = [],
     t_department_facts = [], t_unit_facts = [], t_scope_targets = []\<rparr>"

definition no_preparation :: PreparationTables where
  "no_preparation = \<lparr>plan_items = [], template_versions = [], preparation_snapshots = [],
     preparation_questions = [], edit_previews = [], preview_consumptions = [], edit_events = [],
     desired_memberships = [], membership_sync = [], identity_references = [], question_catalogs = [],
     catalog_memberships = [], membership_events = [], applicabilities = [], enrichments = [],
     selection_operations = []\<rparr>"

definition empty_ledger :: Ledger where
  "empty_ledger = \<lparr>l_audit_events = [], l_sync_changes = [], l_next_sequence = 1, l_outbox = [],
     l_responses = [], l_links = []\<rparr>"

definition empty_db :: DB where
  "empty_db = \<lparr>findings = [], potential_findings = [], cap_revisions = [], review_decisions = [],
     evidence_versions = [], evidence_version_states = [], upload_sessions = [], object_metadata = [],
     report_versions = [], report_approval_states = [], report_decisions = [], inspections = [],
     inspection_packages = [], inspection_checklists = [], question_assignments = [],
     checklist_responses = [], inspection_attachments = [], inspection_attachment_versions = [],
     inspection_attachment_upload_parts = [], audit_assignments = [], audit_team_members = [],
     audit_question_assignments = [], snapshot_questions = [], question_versions = [],
     document_records = [], document_render_jobs = [], organizations = [], reminder_rules = [],
     session_references = [], offline_grants = [], sync_cursor_tokens = [], sync_cursors = [],
     scope_tables = no_scopes, preparation = no_preparation, ledger = empty_ledger\<rparr>"

definition sample_content :: ReportContent where
  "sample_content = \<lparr>rc_Schema = ''avia.report-content/v1'', rc_LanguageTag = '' en'', rc_Title = ''T '',
     rc_ExecutiveSummary = ''T '', rc_Scope = ''T '', rc_Methodology = ''T '', rc_Sections = [],
     rc_Findings = [], rc_Conclusion = ''T '', rc_Recommendations = [''T '']\<rparr>"

text \<open>A locked Preliminary Report of the inspection \<open>INS\<close>.\<close>

definition sample_report :: ReportVersion where
  "sample_report = \<lparr>rv_id = ''RV'', rv_report_id = ''R'', rv_inspection_id = ''INS'', rv_version = 1,
     rv_status = ''DEPARTMENT_REVIEW'',
     rv_snapshot = \<lparr>rs_decodes = True, rs_kind = Some KindPreliminary, rs_ready = True,
       rs_finding_ids = [], rs_potential_finding_ids = [], rs_potential_finding_root_digest = '''',
       rs_content_hash = ''sha256:0'', rs_created_by_subject = ''lead'', rs_content = sample_content\<rparr>,
     rv_created_at = 0\<rparr>"

definition sample_approval :: "ReportStatus \<Rightarrow> ReportApprovalState" where
  "sample_approval status = \<lparr>ra_report_version_id = ''RV'', ra_status = status, ra_revision = 4,
     ra_issued_at = None, ra_updated_at = 0\<rparr>"

text \<open>One Finding of the organization \<open>ORG\<close> in a given open state.\<close>

definition sample_finding :: "FindingStatus \<Rightarrow> Finding" where
  "sample_finding status = \<lparr>f_id = ''F'', f_reference = ''FND-1'', f_potential_finding_id = None,
     f_inspection_id = ''INS'', f_organization_id = ''ORG'', f_severity = SeverityLevel2Major,
     f_status = status, f_owner_subject_id = None, f_next_action = '''', f_due_date = None,
     f_closure_basis = None, f_closure_reason = None, f_revision = 1, f_cap_required = True,
     f_evidence_required = True, f_issued_at = Some 0, f_closed_at = None, f_created_at = 0,
     f_updated_at = 0\<rparr>"

definition finding_db :: "FindingStatus \<Rightarrow> DB" where
  "finding_db status = empty_db\<lparr>findings := [sample_finding status], report_versions := [sample_report],
     report_approval_states := [sample_approval RStatusLocked]\<rparr>"

lemma finding_db_wf: "status \<noteq> FStatusClosed \<Longrightarrow> system_wf (finding_db status)"
  by (simp add: system_wf_def finding_db_def empty_db_def finding_wf_def sample_finding_def
      PreliminaryIssued_def sample_report_def sample_approval_def numbering_def families_def numbered_def
      ledger_wf_def empty_ledger_def)

section \<open>The environment and the principals\<close>

definition sample_tag :: "string \<Rightarrow> string option" where
  "sample_tag s = (if s = ''en'' then Some ''en'' else None)"

text \<open>The document of the sample narrative, and a JSON package that knows only this text.\<close>

definition sample_document :: json where
  "sample_document = JObject [(''schema'', JString ''avia.report-content/v1''), (''languageTag'', JString ''en''),
     (''title'', JString ''T''), (''executiveSummary'', JString ''E''), (''scope'', JString ''S''),
     (''methodology'', JString ''M''), (''sections'', JArray []), (''findings'', JArray []),
     (''conclusion'', JString ''C''), (''recommendations'', JArray [])]"

definition sample_json :: JsonText where
  "sample_json = \<lparr>jt_next = (\<lambda>t. if t = ''document'' then ReadValue sample_document '''' else ReadEOF),
     jt_any = (\<lambda>_. None), jt_marshal = (\<lambda>v. if v = sample_document then Some ''document'' else None)\<rparr>"

definition sample_env :: Env where
  "sample_env = \<lparr>env_clock = (\<lambda>_. 100), env_commit_clock = 200, env_now = 200,
     env_new_id = (\<lambda>p. p @ ''-1''), env_finding_reference = None, env_nextval = 1, env_today = 10,
     env_semantic_hash = (\<lambda>k e s. Some (k @ e @ (case s of AuthorizedCloseSemantic _ reason \<Rightarrow> reason | _ \<Rightarrow> ''''))), env_parse_tag = sample_tag, env_nfc = (\<lambda>s. s), env_json = sample_json,
     env_content_digest = (\<lambda>_. ''sha256:0''), env_root_digest = (\<lambda>_. ''sha256:1''),
     env_source_hash = (\<lambda>_ _ _ _ _ _ _. Some ''h'')\<rparr>"

definition principal :: "string \<Rightarrow> Role \<Rightarrow> string \<Rightarrow> Principal" where
  "principal subject role org = \<lparr>SubjectID = subject, DisplayName = subject, OrganizationID = org,
     Roles = [role], SessionID = ''S'', DepartmentAssignments = []\<rparr>"

abbreviation manager :: Principal where "manager \<equiv> principal ''manager'' RoleDepartmentManager ''CAA''"
abbreviation auditee :: Principal where "auditee \<equiv> principal ''auditee'' RoleAuditee ''ORG''"

section \<open>Commands\<close>

definition close_command :: AuthorizedCloseFindingCommand where
  "close_command = \<lparr>cl_OperationID = ''op-close'', cl_CorrelationID = ''corr'', cl_FindingID = ''F'',
     cl_ExpectedFindingRevision = 1, cl_Reason = ''done''\<rparr>"

definition cap_command :: SubmitCAPCommand where
  "cap_command = \<lparr>sc_OperationID = ''op-cap'', sc_CorrelationID = ''corr'', sc_FindingID = ''F'',
     sc_ExpectedFindingRevision = 1, sc_RootCause = ''r'', sc_CorrectiveAction = ''c'',
     sc_PreventiveAction = ''p'', sc_ResponsiblePerson = ''q'', sc_TargetCompletionDate = 1000000000000000,
     sc_CommentToCAA = ''''\<rparr>"

definition accepted :: "Principal \<Rightarrow> Command \<Rightarrow> DB \<Rightarrow> DB" where
  "accepted actor c db =
     (case dispatch (\<lambda>_. True) ''corr'' sample_env actor c db of Inr (db', _) \<Rightarrow> db' | Inl _ \<Rightarrow> db)"

lemma accepted_dispatch:
  assumes "\<not> isl (dispatch (\<lambda>_. True) ''corr'' sample_env actor c db)"
  obtains resp where "dispatch (\<lambda>_. True) ''corr'' sample_env actor c db = Inr (accepted actor c db, resp)"
  using assms by (cases "dispatch (\<lambda>_. True) ''corr'' sample_env actor c db") (auto simp: accepted_def)

lemma accepted_step:
  "\<not> isl (dispatch (\<lambda>_. True) ''corr'' sample_env actor c db) \<Longrightarrow> system_step db (accepted actor c db)"
  by (erule accepted_dispatch) (rule system_step.command)

lemma close_accepted:
  "\<not> isl (dispatch (\<lambda>_. True) ''corr'' sample_env manager (CmdAuthorizedClose close_command)
     (finding_db FStatusPendingClosure))"
  by code_simp

lemma cap_accepted:
  "\<not> isl (dispatch (\<lambda>_. True) ''corr'' sample_env auditee (CmdSubmitCAP cap_command)
     (finding_db FStatusWaitingForCAP))"
  by code_simp

section \<open>Runs\<close>

definition closed_db :: DB where
  "closed_db = accepted manager (CmdAuthorizedClose close_command) (finding_db FStatusPendingClosure)"

definition cap_db :: DB where
  "cap_db = accepted auditee (CmdSubmitCAP cap_command) (finding_db FStatusWaitingForCAP)"

lemma closing_run: "system_run (finding_db FStatusPendingClosure) closed_db"
  unfolding closed_db_def by (rule r_into_rtranclp, rule accepted_step, rule close_accepted)

lemma cap_run: "system_run (finding_db FStatusWaitingForCAP) cap_db"
  unfolding cap_db_def by (rule r_into_rtranclp, rule accepted_step, rule cap_accepted)

lemma closed_db_wf: "system_wf closed_db"
  by (rule system.run_wf [OF closing_run]) (simp add: finding_db_wf)

lemma closed_db_finding: "\<exists>f. lookup f_id ''F'' (findings closed_db) = Some f \<and> f_status f = FStatusClosed"
proof -
  have "map_option f_status (lookup f_id ''F'' (findings closed_db)) = Some FStatusClosed" by code_simp
  then show ?thesis by auto
qed

lemma cap_db_revisions:
  "map (\<lambda>c. sint (c_revision c)) (filter (\<lambda>c. c_finding_id c = ''F'') (cap_revisions cap_db)) = [1]"
  by code_simp

definition clean_version :: EvidenceVersion where
  "clean_version = \<lparr>e_id = ''EV'', e_evidence_id = ''E'', e_finding_id = ''F'', e_organization_id = ''ORG'',
     e_version = 1, e_object_metadata_id = Some ''O'', e_filename = ''a.pdf'', e_media_type = ''application/pdf'',
     e_sha256 = ''0'', e_size_bytes = 10, e_status = ScanPending, e_submitted_by_subject_id = ''auditee'',
     e_submitted_at = 0, e_revision = 1\<rparr>"

definition version_state :: "ScanStatus \<Rightarrow> EvidenceVersionState" where
  "version_state scan = \<lparr>es_evidence_version_id = ''EV'', es_upload_state = ''RECEIVED'', es_scan_state = scan,
     es_review_state = ''PENDING_CAA_REVIEW'', es_canonical_object_metadata_id = Some ''C'',
     es_scan_reason = None, es_revision = 2, es_updated_at = 0\<rparr>"

text \<open>The Finding with one scanned Evidence version.\<close>

definition evidence_db :: "FindingStatus \<Rightarrow> ScanStatus \<Rightarrow> DB" where
  "evidence_db status scan = (finding_db status)\<lparr>evidence_versions := [clean_version],
     evidence_version_states := [version_state scan]\<rparr>"

lemma evidence_db_wf: "status \<noteq> FStatusClosed \<Longrightarrow> system_wf (evidence_db status scan)"
proof -
  assume status: "status \<noteq> FStatusClosed"
  have "numbered e_version e_evidence_id (filter (\<lambda>e. e_finding_id e = k) [clean_version])" for k
    by (simp add: numbered_def clean_version_def)
  moreover have "PreliminaryIssued i (evidence_db status scan) = PreliminaryIssued i (finding_db status)" for i
    by (rule PreliminaryIssued_cong) (simp_all add: evidence_db_def)
  moreover have "findings (evidence_db status scan) = findings (finding_db status)"
    "report_approval_states (evidence_db status scan) = report_approval_states (finding_db status)"
    "cap_revisions (evidence_db status scan) = cap_revisions (finding_db status)"
    "ledger (evidence_db status scan) = ledger (finding_db status)"
    "evidence_versions (evidence_db status scan) = [clean_version]"
    "distinct (map es_evidence_version_id (evidence_version_states (evidence_db status scan)))"
    by (simp_all add: evidence_db_def)
  ultimately show ?thesis
    using finding_db_wf [OF status] unfolding system_wf_def numbering_def families_def by metis
qed

section \<open>Larger samples\<close>

text \<open>An audit of \<open>INS\<close> whose lead is the subject \<open>lead\<close>.\<close>

definition sample_inspection :: Inspection where
  "sample_inspection = \<lparr>in_id = ''INS'', in_organization_id = ''ORG'', in_inspection_type = ''t'',
     in_status = ''IN_PROGRESS'', in_revision = 1, in_tombstoned_at = None, in_updated_at = 0,
     in_assigned_inspector_subject_id = None, in_title = ''t'', in_due_date = None, in_created_at = 0\<rparr>"

definition proposal_assignment :: AuditAssignment where
  "proposal_assignment = \<lparr>aa_id = ''A'', aa_inspection_id = Some ''INS'', aa_lead_subject_id = Some ''lead'',
     aa_planning_item_id = Some ''ITEM'', aa_status = ''ASSIGNED'', aa_revision = 1, aa_tombstoned_at = None,
     aa_updated_at = 0, aa_organization_id = ''ORG'', aa_scheduled_start_date = None,
     aa_scheduled_end_date = None, aa_released_scope_snapshot_id = None, aa_created_at = 0\<rparr>"

text \<open>A released scope of a planning proposal; nobody manages a unit.\<close>

definition proposal_scopes :: ScopeTables where
  "proposal_scopes = no_scopes\<lparr>
     t_scope_drafts := [\<lparr>sd_id = ''D'', sd_planning_intake_draft_id = None,
       sd_planning_proposal_snapshot_id = Some ''P'', sd_provider_scope_id = ''PS'',
       sd_regulated_target_id = ''T'', sd_status = ''RELEASED'', sd_audit_type = ''RENEWAL'',
       sd_organization_id = ''ORG'', sd_catalog_id = ''CAT'', sd_usage_class = ''GOVERNED_OPERATIONAL'',
       sd_catalog_root_digest = ''r'', sd_revision = 1, sd_selected_question_count = 1,
       sd_selection_digest = ''s'', sd_approved_checklist_item_ceiling = None, sd_updated_at = 0\<rparr>],
     t_proposals := [\<lparr>pp_id = ''P'', pp_planning_item_id = ''ITEM'', pp_draft_id = ''PD'', pp_revision = 1,
       pp_snapshot_digest = ''p'', pp_snapshot = []\<rparr>],
     t_scope_snapshots := [\<lparr>ss_scope_draft_id = ''D'', ss_stage = ''RELEASED'', ss_id = ''SS'', ss_revision = 1,
       ss_catalog_id = ''CAT'', ss_usage_class = ''GOVERNED_OPERATIONAL'', ss_selection_digest = ''s'',
       ss_selected_question_count = 1, ss_planning_snapshot_digest = ''p'',
       ss_catalog_root_digest = ''r'', ss_snapshot = []\<rparr>]\<rparr>"

text \<open>A closed Finding and the Final Report version that waits for the Executive Director.\<close>

definition final_report :: ReportVersion where
  "final_report = sample_report\<lparr>rv_id := ''FV'', rv_report_id := ''FR'',
     rv_snapshot := (rv_snapshot sample_report)\<lparr>rs_kind := Some KindFinal, rs_finding_ids := [''F'']\<rparr>\<rparr>"

definition final_db :: DB where
  "final_db = closed_db\<lparr>report_versions := [sample_report, final_report],
     report_approval_states := [sample_approval RStatusLocked,
       (sample_approval RStatusExecutiveDirectorReview)\<lparr>ra_report_version_id := ''FV''\<rparr>],
     inspections := [sample_inspection]\<rparr>"

definition issue_command :: DecideReportCommand where
  "issue_command = \<lparr>dc_OperationID = ''op-issue'', dc_CorrelationID = ''corr'', dc_ReportVersionID = ''FV'',
     dc_ExpectedRevision = 4, dc_Decision = RDecisionIssue, dc_Reason = ''''\<rparr>"

abbreviation director :: Principal where "director \<equiv> principal ''director'' RoleExecutiveDirector ''CAA''"
abbreviation lead :: Principal where "lead \<equiv> principal ''lead'' RoleLeadInspector ''CAA''"

text \<open>A potential finding that waits for the lead, frozen in the issued Preliminary Report.\<close>

definition sample_potential :: PotentialFinding where
  "sample_potential = \<lparr>p_id = ''P'', p_inspection_id = ''INS'', p_checklist_response_id = ''CR'',
     p_organization_id = ''ORG'', p_status = PStatusPendingLeadReview, p_finding_basis = ''b'',
     p_expected_evidence = None, p_comment_to_auditee = '''', p_internal_caa_note = None,
     p_converted_finding_id = None, p_revision = 1, p_created_at = 0, p_updated_at = 0,
     p_question_id = ''Q'', p_title = ''t'', p_description = ''d'', p_created_by_subject_id = ''inspector'',
     p_supersedes_potential_finding_id = None\<rparr>"

definition potential_db :: DB where
  "potential_db = empty_db\<lparr>potential_findings := [sample_potential], inspections := [sample_inspection],
     audit_assignments := [proposal_assignment],
     audit_team_members := [\<lparr>tm_assignment_id = ''A'', tm_subject_id = ''lead'',
       tm_member_role = ''LEAD_INSPECTOR'', tm_removed_at = None, tm_revision = 1, tm_created_at = 0\<rparr>],
     report_versions := [sample_report\<lparr>rv_snapshot := (rv_snapshot sample_report)
       \<lparr>rs_potential_finding_ids := [''P'']\<rparr>\<rparr>],
     report_approval_states := [sample_approval RStatusLocked]\<rparr>"

definition convert_command :: ConvertPotentialFindingCommand where
  "convert_command = \<lparr>cp_OperationID = ''op-convert'', cp_CorrelationID = ''corr'',
     cp_PotentialFindingID = ''P'', cp_ExpectedRevision = 1, cp_Severity = SeverityLevel2Major,
     cp_CAPRequired = True, cp_EvidenceRequired = True, cp_DueDate = None, cp_RequirementsSpecified = True\<rparr>"

lemma convert_accepted: "\<not> isl (ConvertPotentialFinding_handler sample_env lead convert_command potential_db)"
  by code_simp

section \<open>An upload\<close>

definition sample_digest :: string where "sample_digest = ''sha256:'' @ replicate 64 (CHR ''0'')"

text \<open>A store that holds one object, the bytes of a short PDF file.\<close>

definition sample_store :: ObjectStore where
  "sample_store = \<lparr>os_put_instruction = (\<lambda>_ _ _. Some (''url'', 150)),
     os_get_instruction = (\<lambda>_ _ _. Some (''url'', 150)),
     os_open = (\<lambda>_ _. Some (\<lparr>rd_bytes = ''%PDF-1'', rd_fails = False\<rparr>,
       \<lparr>oi_VersionID = ''v1'', oi_ETag = ''e1'', oi_Size = 6, oi_Sha256 = ''''\<rparr>)),
     os_write = (\<lambda>_ _ _ _ _. None), os_requires_exact = True\<rparr>"

definition sample_service :: UploadService where
  "sample_service = \<lparr>sv_quarantineBucket = ''quarantine'', sv_maximumByteSize = 100, sv_instructionTTL = 60,
     sv_objects = sample_store,
     sv_observer = \<lparr>bs_sha256 = (\<lambda>_. replicate 64 (CHR ''0'')), bs_other_type = (\<lambda>_. '''')\<rparr>,
     sv_SemanticHash = (\<lambda>_. ''h'')\<rparr>"

definition begin_input :: BeginUploadInput where
  "begin_input = \<lparr>bi_OperationID = ''op-begin'', bi_CorrelationID = ''corr'', bi_FindingID = ''F'',
     bi_ExpectedFindingRevision = 1, bi_FileName = ''a.pdf'', bi_DeclaredMediaType = ''application/pdf'',
     bi_ByteSize = 6, bi_SHA256 = sample_digest\<rparr>"

definition begun :: "evidence_error + (DB \<times> Response)" where
  "begun = evidence_Begin sample_service sample_env auditee begin_input (finding_db FStatusEvidenceRequired)"

lemma begin_accepted: "\<not> isl begun"
  by code_simp

definition begun_db :: DB where
  "begun_db = (case begun of Inr (db', _) \<Rightarrow> db' | Inl _ \<Rightarrow> empty_db)"

definition complete_input :: CompleteUploadInput where
  "complete_input = \<lparr>ci_OperationID = ''op-complete'', ci_CorrelationID = ''corr'',
     ci_UploadID = ''upload-1'', ci_SHA256 = sample_digest, ci_ByteSize = 6\<rparr>"

text \<open>The environment of a second transaction.\<close>

definition second_env :: Env where
  "second_env = sample_env\<lparr>env_new_id := (\<lambda>p. p @ ''-2'')\<rparr>"

lemma complete_accepted: "\<not> isl (Complete_body sample_service second_env auditee complete_input begun_db)"
  by code_simp

section \<open>The sample narrative\<close>

lemma sample_stable: "stable_text sample_tag (\<lambda>s. s)"
  unfolding stable_text_def sample_tag_def
proof (intro conjI allI impI)
  fix s t :: string
  assume "(if s = ''en'' then Some ''en'' else None) = Some t"
  then have "t = ''en''" by (simp split: if_splits)
  moreover have "TrimSpace ''en'' = ''en''" by code_simp
  ultimately show "(if TrimSpace t = ''en'' then Some ''en'' else None) = Some t" by simp
qed simp

lemma sample_valid: "\<exists>c'. ValidateReportContent sample_tag (\<lambda>s. s) sample_content = Inr c'"
proof -
  have "\<not> isl (ValidateReportContent sample_tag (\<lambda>s. s) sample_content)" by code_simp
  then show ?thesis by (cases "ValidateReportContent sample_tag (\<lambda>s. s) sample_content") auto
qed

lemma issue_accepted: "\<not> isl (DecideReport_handler sample_env director issue_command final_db)"
  by code_simp

section \<open>Functional assignments\<close>

text \<open>The versions of one assignment of a checklist reviewer.\<close>

definition reviewer :: "i64 \<Rightarrow> FunctionalAssignment" where
  "reviewer version = \<lparr>fa_AssignmentID = ''a'', fa_RootID = ''root'', fa_SupersedesID = '''', fa_Version = version,
     fa_SubjectID = ''s'', fa_MembershipID = ''m'', fa_Permission = FunctionalPermissionChecklistReviewer,
     fa_Scope = \<lparr>sc_Kind = ScopeDepartmentChecklists, sc_SourceVersionID = '''', sc_SourceID = '''',
       sc_ChainRole = '''', sc_ReviewedSourceSetID = '''', sc_ReviewedSourceSetVersion = 0,
       sc_ReviewedSourceSetDigest = '''', sc_ProviderScopeID = '''', sc_TargetID = '''', sc_InspectionType = '''',
       sc_DepartmentID = ''dep'', sc_OrganizationalUnitID = ''unit'', sc_CandidateRootID = ''''\<rparr>,
     fa_EffectiveFrom = 0, fa_EffectiveTo = None, fa_Status = FunctionalAssignmentActive, fa_CreatedAt = 0\<rparr>"

end
