(* ===== verification/FieldSamples.thy ===== *)
theory FieldSamples
  imports SyncLaws PartLayout Samples
begin

text \<open>
  A device at work: the package \<open>PK\<close> of the inspection \<open>INS\<close>, its checkout by the inspector, an answer
  pushed under the grant, and an attachment session. The inputs of the witnesses of \<open>FieldClients\<close>.
\<close>

section \<open>A package\<close>

abbreviation inspector :: Principal where "inspector \<equiv> principal ''inspector'' RoleInspector ''CAA''"

definition field_package :: InspectionPackage where
  "field_package = \<lparr>pk_id = ''PK'', pk_inspection_id = ''INS'', pk_checklist_template_version_id = None,
     pk_canonical_scope_snapshot_id = Some ''SS'', pk_package_version = 1, pk_expires_at = Some 500,
     pk_revoked_at = None, pk_package_digest = ''d'', pk_snapshot = None,
     pk_created_at = 0\<rparr>"

definition field_db :: DB where
  "field_db = empty_db\<lparr>inspections := [sample_inspection\<lparr>in_assigned_inspector_subject_id := Some ''inspector''\<rparr>],
     inspection_packages := [field_package],
     inspection_checklists := [\<lparr>k_inspection_id = ''INS'', k_status = KStatusInProgress, k_revision = 1,
       k_submitted_at = None, k_reopened_at = None, k_reopen_reason = None\<rparr>],
     question_assignments := [\<lparr>qa_inspection_id = ''INS'', qa_question_id = ''Q'', qa_subject_id = ''inspector'',
       qa_assignment_revision = 1\<rparr>],
     audit_assignments := [proposal_assignment],
     audit_team_members := [\<lparr>tm_assignment_id = ''A'', tm_subject_id = ''inspector'',
       tm_member_role = ''INSPECTOR'', tm_removed_at = None, tm_revision = 1, tm_created_at = 0\<rparr>],
     snapshot_questions := [\<lparr>sq_snapshot_id = ''SS'', sq_question_version_id = ''Q'', sq_position = 0\<rparr>],
     session_references := [\<lparr>ses_id = ''S'', ses_subject_id = ''inspector'', ses_expires_at = 1000,
       ses_absolute_expires_at = None, ses_revoked_at = None\<rparr>]\<rparr>"

text \<open>A profile whose public key is the base point of the curve.\<close>

definition base_x :: string where "base_x = ''axfR8uEsQkf4vOblY6RA8ncDfYEt6zOg9KE5RdiYwpY''"
definition base_y :: string where "base_y = ''T-NC4v4af5uO5-tKfA-eFivOM1drMV7Oy7ZAaDe_UfU''"

definition base_key :: "(string \<times> json) list" where
  "base_key = [(''kty'', JString ''EC''), (''crv'', JString ''P-256''), (''x'', JString base_x), (''y'', JString base_y)]"

definition field_crypto :: Crypto where
  "field_crypto = \<lparr>cr_parse = (\<lambda>_. Some (JObject base_key)), cr_unmarshal = (\<lambda>_. Some (JObject base_key)),
     cr_object_sum = (\<lambda>_. replicate 32 (CHR 0x00)), cr_text_sum = (\<lambda>_. ''''), cr_verify = (\<lambda>_ _ _ _. True)\<rparr>"

lemma base_x_bytes: "base64_decode base_x = Some
    [CHR 0x6B, CHR 0x17, CHR 0xD1, CHR 0xF2, CHR 0xE1, CHR 0x2C, CHR 0x42, CHR 0x47, CHR 0xF8,
     CHR 0xBC, CHR 0xE6, CHR 0xE5, CHR 0x63, CHR 0xA4, CHR 0x40, CHR 0xF2, CHR 0x77, CHR 0x03,
     CHR 0x7D, CHR 0x81, CHR 0x2D, CHR 0xEB, CHR 0x33, CHR 0xA0, CHR 0xF4, CHR 0xA1, CHR 0x39,
     CHR 0x45, CHR 0xD8, CHR 0x98, CHR 0xC2, CHR 0x96]"
  by code_simp

lemma base_y_bytes: "base64_decode base_y = Some
    [CHR 0x4F, CHR 0xE3, CHR 0x42, CHR 0xE2, CHR 0xFE, CHR 0x1A, CHR 0x7F, CHR 0x9B, CHR 0x8E,
     CHR 0xE7, CHR 0xEB, CHR 0x4A, CHR 0x7C, CHR 0x0F, CHR 0x9E, CHR 0x16, CHR 0x2B, CHR 0xCE,
     CHR 0x33, CHR 0x57, CHR 0x6B, CHR 0x31, CHR 0x5E, CHR 0xCE, CHR 0xCB, CHR 0xB6, CHR 0x40,
     CHR 0x68, CHR 0x37, CHR 0xBF, CHR 0x51, CHR 0xF5]"
  by code_simp

lemma proof_bytes: "map_option length (base64_decode (replicate 86 (CHR ''A''))) = Some 64"
  by code_simp

lemma base_point:
  "coordinate ''x'' base_x = Inr 48439561293906451759052585252797914202762949526041747995844080717082404635286"
  "coordinate ''y'' base_y = Inr 36134250956749795798585127919587881956611106672985015071877198253568414405109"
  by (simp_all add: coordinate_def base_x_bytes base_y_bytes big_endian_def)

lemma base_on_curve: "IsOnCurve 48439561293906451759052585252797914202762949526041747995844080717082404635286
    36134250956749795798585127919587881956611106672985015071877198253568414405109"
  by (simp add: IsOnCurve_def p256_p_def p256_b_def)

lemma zero_hash: "''sha256:'' @ SemanticHash (replicate 32 (CHR 0x00)) = sample_digest"
  by code_simp

lemma base_thumbprint: "profilePublicJWKThumbprint field_crypto raw = Inr sample_digest"
proof -
  have members: "member ''d'' base_key = None" "text_member ''kty'' base_key = ''EC''"
    "text_member ''crv'' base_key = ''P-256''" "text_member ''x'' base_key = base_x"
    "text_member ''y'' base_key = base_y" "base_x \<noteq> ''''" "base_y \<noteq> ''''"
    by (simp_all add: member_def text_member_def base_key_def base_x_def base_y_def)
  have crypto: "cr_parse field_crypto raw = Some (JObject base_key)"
    "cr_object_sum field_crypto base_key = replicate 32 (CHR 0x00)" by (simp_all add: field_crypto_def)
  show ?thesis
    unfolding profilePublicJWKThumbprint_def crypto option.case json.case members base_point bind_result.simps
      zero_hash using members(6,7) base_on_curve by simp
qed

lemma base_key_valid: "validateProfilePublicJWK field_crypto sample_digest raw = None"
  unfolding validateProfilePublicJWK_None base_thumbprint by (simp add: sample_digest_def)

lemma base_profile: "profile_point field_crypto raw = Inr \<lparr>pt_X = base_x, pt_Y = base_y\<rparr>"
proof -
  have "decode_point \<lparr>pt_X = '''', pt_Y = ''''\<rparr> base_key = Inr \<lparr>pt_X = base_x, pt_Y = base_y\<rparr>" by code_simp
  then show ?thesis by (simp add: profile_point_def field_crypto_def)
qed

lemma signature_verified:
  "verifyProfileAuthorityProof field_crypto raw sample_digest hash (replicate 86 (CHR ''A'')) = None"
proof -
  obtain signature where "base64_decode (replicate 86 (CHR ''A'')) = Some signature" "length signature = 64"
    using proof_bytes by auto
  moreover have "cr_verify field_crypto point sum r s" for point sum r s by (simp add: field_crypto_def)
  ultimately show ?thesis
    by (simp add: verifyProfileAuthorityProof_def base_key_valid base_profile base_x_bytes base_y_bytes)
qed

definition grant_service :: GrantService where
  "grant_service = \<lparr>gs_crypto = field_crypto, gs_checkout_sum = (\<lambda>_. '''')\<rparr>"

definition checkout_input :: CheckoutInput where
  "checkout_input = \<lparr>xk_OperationID = ''op-checkout'', xk_CorrelationID = ''corr'', xk_PackageID = ''PK'',
     xk_ExpectedPackageVersion = 1, xk_DeviceInstanceID = ''DEV'', xk_ProfileKeyID = sample_digest,
     xk_ProfilePublicJWK = ''key''\<rparr>"

lemma checkout_issued:
  "Issue grant_service sample_env inspector checkout_input field_db =
     issue_grant grant_service sample_env inspector checkout_input (SemanticHash '''') field_db"
proof -
  have "HasRole inspector [RoleInspector]" "SubjectID inspector \<noteq> ''''" "SessionID inspector \<noteq> ''''"
    "xk_ProfileKeyID checkout_input = sample_digest" "sample_digest \<noteq> ''''"
    "stored_response (checkout_scope inspector) (xk_OperationID checkout_input) (ledger field_db) = None"
    by code_simp+
  then show ?thesis
    using base_key_valid by (simp add: Issue_def grant_service_def checkout_input_def)
qed

lemma checkout_accepted: "\<not> isl (Issue grant_service sample_env inspector checkout_input field_db)"
  unfolding checkout_issued by code_simp

definition checked_out :: DB where
  "checked_out = (case issue_grant grant_service sample_env inspector checkout_input (SemanticHash '''') field_db of
     Inr (db', _) \<Rightarrow> db' | Inl _ \<Rightarrow> field_db)"

section \<open>An operation\<close>

definition field_operation :: operation where
  "field_operation = \<lparr>wo_OperationID = ''op-answer'', wo_ProtocolVersion = 1, wo_OfflineGrantID = ''grant-1'',
     wo_PackageID = ''PK'', wo_PackageVersion = 1, wo_PackageRevision = 1, wo_EntityID = ''R'',
     wo_CommandType = ''UPSERT_CHECKLIST_RESPONSE'', wo_BaseRevision = None, wo_DeviceInstanceID = ''DEV'',
     wo_ActorSubject = ''inspector'', wo_OperationSequence = 1, wo_PayloadHash = sample_digest,
     wo_RequestHash = sample_digest, wo_ProfileKeyID = sample_digest,
     wo_AuthorityProof = replicate 86 (CHR ''A''), wo_Dependencies = [], wo_ClientOccurredAt = ''now'',
     wo_Payload = UpsertResponsePayload \<lparr>ur_AuditID = ''INS'', ur_QuestionID = ''Q'', ur_Answer = ''COMPLIANT'',
       ur_Comment = ''''\<rparr>\<rparr>"

definition field_service :: OperationService where
  "field_service = \<lparr>os_crypto = field_crypto, os_rfc3339 = (\<lambda>_. True), os_payload_sum = (\<lambda>_. ''''),
     os_request_sum = (\<lambda>_. ''''), os_operation_sum = (\<lambda>_. '''')\<rparr>"

lemma field_operation_valid: "validateOperation (os_rfc3339 field_service) field_operation = None"
  by code_simp

definition field_authority :: grantAuthority where
  "field_authority = \<lparr>ga_GrantID = ''grant-1'', ga_DeviceID = ''DEV'', ga_ProfileKeyID = sample_digest,
     ga_ProfilePublicJWK = ''key'', ga_PackageID = ''PK'', ga_InspectionID = ''INS'', ga_OrganizationID = ''ORG'',
     ga_QuestionIDs = [''Q'']\<rparr>"

lemma field_authority_loaded:
  "loadGrantAuthority inspector ''grant-1'' ''PK'' ''DEV'' ''UPSERT_CHECKLIST_RESPONSE'' 1 100 False checked_out =
     Inr field_authority"
  by code_simp

lemma answer_applied:
  "case applyMutation second_env inspector field_authority field_operation checked_out of
     Inl _ \<Rightarrow> False
   | Inr (db', m) \<Rightarrow> px_Status (mu_Result m) = PushAccepted \<and>
       \<not> isl (persistAppliedOperation second_env inspector field_operation (SemanticHash '''') m (ledger db'))"
  by code_simp

lemma answer_fresh: "stored_response (push_scope inspector) (wo_OperationID field_operation) (ledger checked_out) = None"
  by code_simp

lemma answer_accepted:
  obtains db' r where "push_transaction field_service second_env inspector field_operation checked_out = Inr (db', r)"
    and "px_Status r = PushAccepted"
proof -
  from answer_applied obtain dbm m l where
    m: "applyMutation second_env inspector field_authority field_operation checked_out = Inr (dbm, m)"
      "px_Status (mu_Result m) = PushAccepted"
    and l: "persistAppliedOperation second_env inspector field_operation (SemanticHash '''') m (ledger dbm) = Inr l"
    by (auto split: sum.splits simp: isl_def)
      (metis obj_sumE)
  have clock: "env_clock second_env 0 = 100" by code_simp
  have fields: "wo_ActorSubject field_operation = ''inspector''" "wo_OfflineGrantID field_operation = ''grant-1''"
    "wo_PackageID field_operation = ''PK''" "wo_DeviceInstanceID field_operation = ''DEV''"
    "wo_CommandType field_operation = ''UPSERT_CHECKLIST_RESPONSE''" "wo_PackageVersion field_operation = 1"
    "wo_ProfileKeyID field_operation = sample_digest" "wo_RequestHash field_operation = sample_digest"
    "wo_AuthorityProof field_operation = replicate 86 (CHR ''A'')"
    by (simp_all only: field_operation_def wireOperation.simps)
  have authority: "ga_ProfileKeyID field_authority = sample_digest" by (simp add: field_authority_def)
  have crypto: "os_crypto field_service = field_crypto" "os_operation_sum field_service x = ''''" for x
    by (simp_all add: field_service_def)
  have subject: "SubjectID inspector = ''inspector''" by (simp add: principal_def)
  have "push_operation field_service second_env inspector field_operation (SemanticHash '''') checked_out =
      Inr (dbm\<lparr>ledger := l\<rparr>, mu_Result m)"
    unfolding push_operation_def Let_def clock fields subject field_authority_loaded crypto
    using m l by (simp add: authority signature_verified)
  then have "push_transaction field_service second_env inspector field_operation checked_out =
      Inr (dbm\<lparr>ledger := l\<rparr>, mu_Result m)"
    using answer_fresh by (simp add: push_transaction_def crypto)
  with m(2) that show ?thesis by blast
qed

section \<open>Parts\<close>

text \<open>A session whose only part holds the bytes of the sample store, a short PDF file.\<close>

definition attachment_row :: InspectionAttachment where
  "attachment_row = \<lparr>at_id = ''AT'', at_inspection_id = ''INS'', at_package_id = ''PK'', at_question_id = ''Q'',
     at_checklist_response_id = None, at_organization_id = ''ORG'', at_created_by_subject_id = ''inspector'',
     at_offline_grant_id = ''grant-1'', at_device_instance_id = ''DEV'', at_file_name = ''a.pdf'',
     at_declared_media_type = ''application/pdf'', at_declared_size_bytes = 6, at_declared_sha256 = sample_digest,
     at_object_metadata_id = None, at_upload_state = ''PENDING'', at_scan_state = ScanPending,
     at_current_version_id = None, at_revision = 1, at_updated_at = 0, at_canonical_object_metadata_id = None,
     at_potential_finding_id = None\<rparr>"

definition part_session :: UploadSession where
  "part_session = \<lparr>us_id = ''U'', us_upload_kind = ''INSPECTION_ATTACHMENT'', us_aggregate_id = ''AT'',
     us_organization_id = ''ORG'', us_initiated_by_subject_id = ''inspector'', us_bucket_name = ''quarantine'',
     us_staging_object_key = ''key'', us_file_name = ''a.pdf'', us_declared_media_type = ''application/pdf'',
     us_declared_size_bytes = 6, us_declared_sha256 = sample_digest, us_expected_aggregate_revision = None,
     us_upload_state = ''UPLOADING'', us_expires_at = 500, us_object_metadata_id = None, us_created_at = 0,
     us_completed_at = None, us_session_epoch = 1, us_part_size_bytes = Some defaultPartSize,
     us_whole_file_sha256 = Some sample_digest, us_object_version_id = None, us_object_etag = None\<rparr>"

definition upload_part :: "string \<Rightarrow> UploadPart" where
  "upload_part state = \<lparr>up_id = ''UP'', up_upload_session_id = ''U'', up_session_epoch = 1, up_part_number = 1,
     up_byte_size = 6, up_part_sha256 = sample_digest, up_part_object_key = ''key/epoch-1/part-1'',
     up_part_state = state, up_object_version_id = Some ''v1'', up_object_etag = Some ''e1'',
     up_acknowledged_at = None, up_created_at = 0\<rparr>"

definition part_db :: "string \<Rightarrow> DB" where
  "part_db state = checked_out\<lparr>inspection_attachments := [attachment_row], upload_sessions := [part_session],
     inspection_attachment_upload_parts := [upload_part state]\<rparr>"

definition part_input :: BeginPartInput where
  "part_input = \<lparr>pi_OperationID = ''op-ack'', pi_CorrelationID = ''corr'', pi_UploadID = ''U'', pi_SessionEpoch = 1,
     pi_PartNumber = 1, pi_ByteSize = 6, pi_SHA256 = sample_digest\<rparr>"

definition whole_receipt :: UploadPartReceipt where
  "whole_receipt = \<lparr>pr_PartNumber = 1, pr_ByteSize = 6, pr_SHA256 = sample_digest, pr_AcknowledgedOffset = 6,
     pr_ObjectVersion = ''v1''\<rparr>"

definition attachment_completion_input :: CompleteAttachmentInput where
  "attachment_completion_input = \<lparr>ki_OperationID = ''op-complete'', ki_CorrelationID = ''corr'', ki_UploadID = ''U'',
     ki_SessionEpoch = 1, ki_SHA256 = sample_digest, ki_ByteSize = 6, ki_Parts = [whole_receipt]\<rparr>"

lemma attachment_completed:
  "\<not> isl (complete_attachment_body sample_service second_env inspector attachment_completion_input
     (part_db ''ACKNOWLEDGED''))"
  by code_simp

lemma field_db_wf: "system_wf field_db"
  by (simp add: system_wf_def field_db_def empty_db_def PreliminaryIssued_def numbering_def families_def
      numbered_def ledger_wf_def empty_ledger_def)

lemma checked_out_issue:
  obtains g where "Issue grant_service sample_env inspector checkout_input field_db = Inr (checked_out, OfflineGrantResponse g)"
proof -
  obtain db' resp where i: "Issue grant_service sample_env inspector checkout_input field_db = Inr (db', resp)"
    using checkout_accepted by (cases "Issue grant_service sample_env inspector checkout_input field_db") auto
  then have "checked_out = db'" by (simp add: checked_out_def checkout_issued)
  moreover obtain g where "resp = OfflineGrantResponse g"
    using i unfolding checkout_issued issue_grant_def bind_result_Inr Let_def
    by (auto simp: if_Inl_Inr bind_result_Inr)
  ultimately show thesis using i that by simp
qed

lemma checked_out_wf: "system_wf checked_out"
proof (rule checked_out_issue)
  fix g assume "Issue grant_service sample_env inspector checkout_input field_db = Inr (checked_out, OfflineGrantResponse g)"
  then have "system_step field_db checked_out" by (rule system_step.issue_offline)
  with field_db_wf show ?thesis by (blast intro: system.step_wf)
qed

text \<open>The only question answered, and the checklist submitted.\<close>

definition answered_db :: DB where
  "answered_db = checked_out\<lparr>checklist_responses := [\<lparr>cr_id = ''R'', cr_inspection_id = ''INS'', cr_package_id = ''PK'',
     cr_question_id = ''Q'', cr_assigned_inspector_subject_id = ''inspector'', cr_response_value = ''COMPLIANT'',
     cr_comment_to_auditee = None, cr_internal_caa_note = None, cr_revision = 1, cr_updated_at = 100\<rparr>]\<rparr>"

definition submit_operation :: operation where
  "submit_operation = field_operation\<lparr>wo_OperationID := ''op-submit'', wo_EntityID := ''INS'',
     wo_CommandType := ''SUBMIT_CHECKLIST'', wo_BaseRevision := Some 1,
     wo_Payload := SubmitChecklistPayload \<lparr>sb_AuditID = ''INS''\<rparr>\<rparr>"

lemma submission_accepted:
  "case sync_submitChecklist field_authority submit_operation \<lparr>sb_AuditID = ''INS''\<rparr> 100 answered_db of
     Inl _ \<Rightarrow> False | Inr (_, m) \<Rightarrow> px_Status (mu_Result m) = PushAccepted"
  by code_simp

section \<open>Changes\<close>

definition answer_change :: "int \<Rightarrow> string \<Rightarrow> SyncChange" where
  "answer_change n answer = \<lparr>sy_sequence_id = n, sy_subject_id = ''inspector'', sy_organization_id = ''ORG'',
     sy_package_id = Some ''PK'', sy_kind = ''checklist_response'', sy_entity_id = ''R'', sy_entity_revision = 1,
     sy_payload = FieldChangePayload (ResponseChange \<lparr>fc_id = ''R'', fc_questionId = ''Q'', fc_answer = answer,
       fc_comment = '''', fc_revision = 1, fc_updatedAt = 100\<rparr>),
     sy_changed_at = 100, sy_operation_id = None, sy_correlation_id = None\<rparr>"

definition changes_db :: DB where
  "changes_db = empty_db\<lparr>ledger := empty_ledger\<lparr>l_sync_changes :=
     [answer_change 1 ''COMPLIANT'', answer_change 2 ''OBSERVATION''], l_next_sequence := 3\<rparr>\<rparr>"

definition page_input :: PullInput where
  "page_input = \<lparr>pu_PackageID = ''PK'', pu_OfflineGrantID = ''grant-1'', pu_DeviceInstanceID = ''DEV'',
     pu_ProfileKeyID = sample_digest, pu_Cursor = None, pu_Limit = 1\<rparr>"

lemma changes_wf: "ledger_wf (ledger changes_db)"
  by (simp add: ledger_wf_def changes_db_def empty_ledger_def answer_change_def)

lemma page_pulled: "\<not> isl (pull_page field_crypto sample_env inspector field_authority page_input 0 changes_db)"
  by code_simp

lemma page_sent:
  "take (pull_limit (pu_Limit page_input)) (pending_changes inspector field_authority 0 changes_db) =
     [answer_change 1 ''COMPLIANT'']"
  by code_simp

end
