(* ===== verification/Lineage.thy ===== *)
theory Lineage
  imports FieldLaws OfflineSync
begin

text \<open>
  The recursive query over the predecessors of a potential finding ends: every potential finding is
  created after the one it supersedes, which both ways of creating one preserve.
\<close>

section \<open>Predecessors come first\<close>

definition parents_first :: "PotentialFinding list \<Rightarrow> bool" where
  "parents_first rows \<longleftrightarrow> distinct (map p_id rows) \<and>
     (\<forall>i < length rows. \<forall>parent. p_supersedes_potential_finding_id (rows ! i) = Some parent \<longrightarrow>
        parent \<in> p_id ` set (take i rows))"

lemma parents_first_snoc:
  assumes "parents_first rows" "p_id row \<notin> p_id ` set rows"
    and "\<And>parent. p_supersedes_potential_finding_id row = Some parent \<Longrightarrow> parent \<in> p_id ` set rows"
  shows "parents_first (rows @ [row])"
  using assms by (auto simp: parents_first_def nth_append less_Suc_eq)

text \<open>The query from the row at a position needs at most one step for each row before it.\<close>

lemma lineage_row_ends:
  assumes "parents_first rows" "i < length rows" "i < n"
  shows "lineage n rows (p_id (rows ! i)) \<noteq> None"
  using assms(2,3)
proof (induction n arbitrary: i)
  case (Suc n)
  have distinct: "distinct (map p_id rows)" using assms(1) by (simp add: parents_first_def)
  have row: "lookup p_id (p_id (rows ! i)) rows = Some (rows ! i)"
    using distinct Suc.prems(1)
    by (auto simp: lookup_def find_Some_iff distinct_conv_nth)
  show ?case
  proof (cases "p_supersedes_potential_finding_id (rows ! i)")
    case None
    with row show ?thesis by simp
  next
    case (Some parent)
    with assms(1) Suc.prems(1) have "parent \<in> p_id ` set (take i rows)" by (auto simp: parents_first_def)
    then obtain j where j: "j < i" "parent = p_id (rows ! j)" by (auto simp: in_set_conv_nth)
    with Suc.prems have "lineage n rows parent \<noteq> None" by (simp add: Suc.IH)
    with row Some show ?thesis by simp
  qed
qed simp

lemma lineage_ends:
  assumes "parents_first rows"
  shows "lineage (Suc (length rows)) rows pid \<noteq> None"
proof (cases "lookup p_id pid rows")
  case (Some p)
  then obtain i where "i < length rows" "pid = p_id (rows ! i)"
    by (auto simp: lookup_def find_Some_iff)
  with lineage_row_ends [OF assms, of i "Suc (length rows)"] show ?thesis by simp
qed simp

section \<open>Both ways of creating one\<close>

lemma latest_potential_row: "latest_potential responseID db = Some p \<Longrightarrow> p \<in> set (potential_findings db)"
  by (auto simp: latest_potential_def dest: latest_Some)

lemma created_parents_first:
  assumes "parents_first (potential_findings db)" "\<not> potential_conflict row (potential_findings db)"
    and "p_supersedes_potential_finding_id row = map_option p_id (latest_potential responseID db)"
  shows "parents_first (potential_findings db @ [row])"
  using assms(1)
proof (rule parents_first_snoc)
  show "p_id row \<notin> p_id ` set (potential_findings db)"
    using assms(2) by (auto simp: potential_conflict_def list_ex_iff)
  show "parent \<in> p_id ` set (potential_findings db)" if "p_supersedes_potential_finding_id row = Some parent" for parent
    using assms(3) that by (cases "latest_potential responseID db") (auto dest: latest_potential_row)
qed

lemma CreatePotentialFinding_parents_first:
  assumes "CreatePotentialFinding_handler env actor command ids db = Inr (db', result)"
    and "parents_first (potential_findings db)"
  shows "parents_first (potential_findings db')"
proof -
  from assms(1) obtain inspection :: Inspection and row :: PotentialFinding and attachments where
    "row = CreatePotential_row env actor command (in_organization_id inspection)
       (map_option p_id (latest_potential (pf_ChecklistResponseID command) db))"
    "\<not> potential_conflict row (potential_findings db)"
    "db' = db\<lparr>potential_findings := potential_findings db @ [row], inspection_attachments := attachments\<rparr>"
    by (rule CreatePotentialFinding_handler_Inr) (rule that; assumption)
  with created_parents_first [OF assms(2)] show ?thesis by (simp add: CreatePotential_row_def)
qed

lemma sync_insert_parents_first:
  assumes "sync_insert_potential env actor authority input payload ids (map_option p_id (latest_potential responseID db)) db =
      Inr (db', m)"
    and "parents_first (potential_findings db)"
  shows "parents_first (potential_findings db')"
  using assms(1) created_parents_first [OF assms(2), of "sync_potential_row env actor authority payload
      (map_option p_id (latest_potential responseID db))" responseID]
  by (auto simp: sync_insert_potential_def Let_def bind_result_Inr insert_sync_Inr sync_potential_row_def)

lemma sync_createPotentialFinding_parents_first:
  assumes "sync_createPotentialFinding env actor authority input payload db = Inr (db', m)"
    and "parents_first (potential_findings db)"
  shows "parents_first (potential_findings db')"
proof -
  from assms(1) consider "db' = db" | ids responseID where
    "sync_insert_potential env actor authority input payload ids (map_option p_id (latest_potential responseID db)) db =
      Inr (db', m)"
    by (auto simp: sync_createPotentialFinding_def Let_def split: if_splits option.split_asm)
      (metis option.simps(8,9))+
  then show ?thesis using assms(2) sync_insert_parents_first by cases auto
qed

end
