(* ===== verification/Closure.thy ===== *)
theory Closure
  imports Histories
begin

text \<open>
  How a Finding comes to be closed: only by the two decisions that may close one. Every other
  transaction keeps the contract \<open>keeps_open\<close>.
\<close>

locale keeps_open =
  fixes step :: "DB \<Rightarrow> DB \<Rightarrow> bool"
  assumes no_closure: "step db db' \<Longrightarrow> f \<in> set (findings db') \<Longrightarrow> f_status f = FStatusClosed \<Longrightarrow>
    f \<in> set (findings db)"

lemma modify_open:
  assumes "f \<in> set (modify key k g rows)" "f_status f = FStatusClosed"
    "\<And>r. f_status (g r) = FStatusClosed \<Longrightarrow> g r = r"
  shows "f \<in> set rows"
  using assms by (force simp: modify_def split: if_splits)

lemma modify_closed:
  assumes "f \<in> set (modify f_id k g rows)" "f \<notin> set rows" "\<And>r. f_id (g r) = f_id r"
  shows "f_id f = k" "\<exists>r \<in> set rows. f_id r = k \<and> f = g r"
  using assms by (auto simp: modify_def split: if_splits)

lemma settled_open: "settled db db' \<Longrightarrow> f \<in> set (findings db') \<Longrightarrow> f \<in> set (findings db)"
  by (simp add: settled_def)

lemma untouched_open: "untouched db db' \<Longrightarrow> f \<in> set (findings db') \<Longrightarrow> f \<in> set (findings db)"
  by (simp add: untouched_def)

section \<open>Transactions that close nothing\<close>

interpretation submit_cap_open: keeps_open "\<lambda>db db'. \<exists>result. SubmitCAP_handler env actor c db = Inr (db', result)"
  for env actor c
  by unfold_locales
    (auto elim!: SubmitCAP_handler_Inr intro: modify_open simp: caps_Submit_Inr SubmitCAP_update_def)

interpretation review_cap_open: keeps_open "\<lambda>db db'. \<exists>result. ReviewCAP_handler env actor c db = Inr (db', result)"
  for env actor c
proof unfold_locales
  fix db db' f
  assume "\<exists>result. ReviewCAP_handler env actor c db = Inr (db', result)"
  then obtain result where run: "ReviewCAP_handler env actor c db = Inr (db', result)" ..
  assume f: "f \<in> set (findings db')" "f_status f = FStatusClosed"
  from run obtain cap :: CAPRevision and finding :: Finding and decision where
    guard: "caps_Review \<lparr>cr_Actor = actor, cr_CAPStatus = c_status cap, cr_CAPRevision = c_revision cap,
       cr_ExpectedCAPRevision = rc_ExpectedCAPRevision c, cr_FindingStatus = f_status finding,
       cr_EvidenceRequired = f_evidence_required finding, cr_Decision = rc_Decision c,
       cr_Reason = TrimSpace (rc_CommentToAuditee c)\<rparr> = Inr decision"
    and db': "db' = db\<lparr>review_decisions := review_decisions db @ [ReviewCAP_decision env actor c],
       findings := modify f_id (f_id finding)
         (ReviewCAP_update env (crr_FindingStatus decision) (f_revision finding + 1)) (findings db)\<rparr>"
    by (rule ReviewCAP_handler_Inr) (rule that; assumption)
  have rows: "findings db' = modify f_id (f_id finding)
      (ReviewCAP_update env (crr_FindingStatus decision) (f_revision finding + 1)) (findings db)"
    by (simp add: db')
  from caps_Review_edge [OF guard] have "crr_FindingStatus decision \<noteq> FStatusClosed"
    by (auto simp: finding_edge_into_closed)
  with f show "f \<in> set (findings db)"
    unfolding rows by (auto elim: modify_open simp: ReviewCAP_update_def)
qed

interpretation convert_open: keeps_open
  "\<lambda>db db'. \<exists>result. ConvertPotentialFinding_handler env actor c db = Inr (db', result)" for env actor c
  by unfold_locales
    (auto elim!: ConvertPotentialFinding_handler_Inr simp: Convert_row_def initialFindingStatus_def split: if_splits)

interpretation decide_report_open: keeps_open
  "\<lambda>db db'. \<exists>result. DecideReport_handler env actor c db = Inr (db', result)" for env actor c
  by unfold_locales (auto elim!: DecideReport_handler_Inr)

interpretation settled: keeps_open settled
  by unfold_locales (rule settled_open)

interpretation field_open: keeps_open untouched
  by unfold_locales (rule untouched_open)

lemmas field_untouched = UpsertChecklistResponse_untouched SubmitChecklist_untouched ReopenChecklist_untouched
  CreatePotentialFinding_untouched DecidePotentialFinding_untouched

interpretation create_report_open: keeps_open
  "\<lambda>db db'. \<exists>result. CreateReportVersion_handler env actor c db = Inr (db', result)" for env actor c
  by unfold_locales (auto elim!: CreateReportVersion_handler_Inr)

interpretation create_organization_open: keeps_open
  "\<lambda>db db'. \<exists>result. CreateAdminOrganization_handler env c db = Inr (db', result)" for env c
  by unfold_locales (auto simp: CreateAdminOrganization_handler_def Let_def if_Inl_Inr)

interpretation create_reminder_open: keeps_open
  "\<lambda>db db'. \<exists>result. CreateReminderRule_handler env actor c db = Inr (db', result)" for env actor c
  by unfold_locales (auto simp: CreateReminderRule_handler_def Let_def if_Inl_Inr)

section \<open>The two decisions that close\<close>

text \<open>What an accepted \<open>AuthorizedCloseFinding\<close> has checked of the row it closes.\<close>

definition authorized_closing :: "Principal \<Rightarrow> AuthorizedCloseFindingCommand \<Rightarrow> Finding \<Rightarrow> DB \<Rightarrow> bool" where
  "authorized_closing actor c f db \<longleftrightarrow> HasRole actor [RoleDepartmentManager] \<and>
     \<not> blank (TrimSpace (cl_Reason c)) \<and> f_closure_basis f = Some ClosureBasisAuthorized \<and>
     cl_FindingID c = f_id f \<and>
     (\<exists>old \<in> set (findings db). f_id old = f_id f \<and> f_status old = FStatusPendingClosure \<and>
        f_revision old = cl_ExpectedFindingRevision c)"

lemma authorized_close_closing:
  assumes run: "AuthorizedCloseFinding_handler env actor c db = Inr (db', result)"
    and f: "f \<in> set (findings db')" "f \<notin> set (findings db)"
  shows "authorized_closing actor c f db"
proof -
  from run obtain finding decision where
    look: "lookup f_id (cl_FindingID c) (findings db) = Some finding"
    and guard: "AuthorizedClose \<lparr>ac_Actor = actor, ac_Status = f_status finding,
       ac_Revision = f_revision finding, ac_ExpectedRevision = cl_ExpectedFindingRevision c,
       ac_Reason = TrimSpace (cl_Reason c)\<rparr> = Inr decision"
    and db': "db' = db\<lparr>findings := modify f_id (cl_FindingID c) (AuthorizedClose_update env decision)
       (findings db)\<rparr>"
    by (rule AuthorizedCloseFinding_handler_Inr) (rule that; assumption)
  have rows: "findings db' = modify f_id (cl_FindingID c) (AuthorizedClose_update env decision) (findings db)"
    by (simp add: db')
  have keep: "f_id (AuthorizedClose_update env decision r) = f_id r" for r
    by (simp add: AuthorizedClose_update_def)
  from modify_closed [OF f(1) [unfolded rows] f(2) keep] have "f_id f = cl_FindingID c"
    "f_closure_basis f = Some (tr_ClosureBasis decision)"
    by (auto simp: AuthorizedClose_update_def)
  with look guard show ?thesis
    by (auto simp: authorized_closing_def AuthorizedClose_Inr dest: lookup_Some)
qed

text \<open>What an accepted \<open>ReviewEvidence\<close> has checked of the row it closes.\<close>

definition evidence_closing :: "Env \<Rightarrow> Principal \<Rightarrow> ReviewEvidenceCommand \<Rightarrow> Finding \<Rightarrow> DB \<Rightarrow> bool" where
  "evidence_closing env actor c f db \<longleftrightarrow> HasRole actor [RoleInspector, RoleLeadInspector] \<and>
     re_Decision c = EDecisionClose \<and> f_closure_basis f = Some ClosureBasisEvidenceVerified \<and>
     re_FindingID c = f_id f \<and>
     requireFindingReviewAuthority env actor (f_inspection_id f) False db = None \<and>
     (\<exists>old \<in> set (findings db). f_id old = f_id f \<and>
        f_status old \<in> {FStatusPendingCAAReview, FStatusEvidenceSubmitted} \<and>
        f_revision old = re_ExpectedFindingRevision c) \<and>
     (\<exists>version \<in> set (evidence_versions db). e_id version = re_EvidenceVersionID c \<and>
        e_finding_id version = f_id f \<and>
        evidence_status version db = (ScanClean, re_ExpectedEvidenceVersionRevision c) \<and>
        map_option e_id (latest (\<lambda>e. sint (e_version e))
          (filter (\<lambda>e. e_finding_id e = f_id f) (evidence_versions db))) = Some (e_id version))"

lemma review_evidence_closing:
  assumes wf: "distinct (map f_id (findings db))"
    and run: "ReviewEvidence_handler env actor c db = Inr (db', result)"
    and f: "f \<in> set (findings db')" "f \<notin> set (findings db)" "f_status f = FStatusClosed"
  shows "evidence_closing env actor c f db"
proof -
  from run obtain version :: EvidenceVersion and finding decision states where
    version: "lookup e_id (re_EvidenceVersionID c) (evidence_versions db) = Some version"
      "e_finding_id version = re_FindingID c"
      "map_option e_id (latest (\<lambda>e. sint (e_version e))
         (filter (\<lambda>e. e_finding_id e = re_FindingID c) (evidence_versions db))) = Some (e_id version)"
    and look: "lookup f_id (re_FindingID c) (findings db) = Some finding"
    and revision: "f_revision finding = re_ExpectedFindingRevision c"
    and authority: "requireFindingReviewAuthority env actor (f_inspection_id finding) False db = None"
    and guard: "evidence_Review \<lparr>er_Actor = actor, er_VersionID = e_id version,
       er_VersionRevision = snd (evidence_status version db),
       er_ExpectedVersionRevision = re_ExpectedEvidenceVersionRevision c,
       er_ScanStatus = fst (evidence_status version db), er_FindingStatus = f_status finding,
       er_Decision = re_Decision c\<rparr> = Inr decision"
    and db': "db' = db\<lparr>review_decisions := review_decisions db @ [ReviewEvidence_decision env actor c],
       evidence_version_states := states,
       findings := modify f_id (f_id finding)
         (ReviewEvidence_update env c decision (f_revision finding + 1)) (findings db)\<rparr>"
    by (rule ReviewEvidence_handler_Inr) (rule that; assumption)
  have rows: "findings db' = modify f_id (f_id finding)
      (ReviewEvidence_update env c decision (f_revision finding + 1)) (findings db)" by (simp add: db')
  have keep: "f_id (ReviewEvidence_update env c decision rev r) = f_id r" for rev r
    by (simp add: ReviewEvidence_update_def)
  from modify_closed [OF f(1) [unfolded rows] f(2) keep] look wf
  have f': "f_id f = f_id finding" "f = ReviewEvidence_update env c decision (f_revision finding + 1) finding"
    by (auto dest!: lookup_Some simp: distinct_map dest: inj_onD)
  with f(3) have closed: "err_FindingStatus decision = FStatusClosed" by (simp add: ReviewEvidence_update_def)
  have review: "HasRole actor [RoleInspector, RoleLeadInspector]"
    "snd (evidence_status version db) = re_ExpectedEvidenceVersionRevision c"
    "fst (evidence_status version db) = ScanClean"
    "f_status finding \<in> {FStatusPendingCAAReview, FStatusEvidenceSubmitted}"
    "re_Decision c = EDecisionClose" "err_ClosureBasis decision = ClosureBasisEvidenceVerified"
    using guard closed by (auto simp: evidence_Review_def split: if_splits EvidenceDecision.splits)
  moreover have "f_inspection_id f = f_inspection_id finding"
    "f_closure_basis f = null_if_no_basis (err_ClosureBasis decision)"
    by (simp_all add: f'(2) ReviewEvidence_update_def)
  ultimately show ?thesis
    using version look revision authority f'(1)
    by (auto simp: evidence_closing_def null_if_no_basis_def ClosureBasisNone_def prod_eq_iff dest!: lookup_Some)
qed

section \<open>Uploads and the worker\<close>

interpretation begin_open: keeps_open
  "\<lambda>db db'. \<exists>service env actor input out. evidence_Begin service env actor input db = Inr (db', out)"
  by unfold_locales (auto dest: evidence_Begin_untouched untouched_open)

interpretation frame_open: keeps_open attachment_frame
  by unfold_locales (auto dest: attachment_frame_untouched untouched_open)

interpretation side_open: keeps_open side_frame
  by unfold_locales (auto simp: side_frame_def dest: untouched_open)

interpretation work_open: keeps_open work_frame
  by unfold_locales (auto simp: work_frame_def settled_def)

interpretation complete_open: keeps_open
  "\<lambda>db db'. \<exists>service env actor input out. evidence_Complete service env actor input db = Inr (db', out)"
proof unfold_locales
  fix db db' f
  assume "\<exists>service env actor input out. evidence_Complete service env actor input db = Inr (db', out)"
  then obtain service env actor input out where
    run: "evidence_Complete service env actor input db = Inr (db', out)" by blast
  assume f: "f \<in> set (findings db')" "f_status f = FStatusClosed"
  from run show "f \<in> set (findings db)"
  proof (cases rule: evidence_Complete_cases)
    case executed
    then obtain session identity finding mid envelope where
      w: "Complete_writes env actor session identity finding db = Inr mid"
      and p: "persistUploadTransaction envelope mid = Inr db'"
      by (rule Complete_body_Inr)
    from persistUploadTransaction_Inr [OF p] f have "f \<in> set (findings mid)" by auto
    with w have "f \<in> set (modify f_id (us_aggregate_id session)
        (Complete_finding env (f_revision finding + 1)) (findings db))"
      by (auto elim!: Complete_writes_Inr)
    then show ?thesis by (rule modify_open [OF _ f(2)]) (simp add: Complete_finding_def)
  qed (use f in simp)
qed

lemma scanned_finding_open:
  "status \<noteq> FStatusClosed \<Longrightarrow> f_status (scanned_finding env status nextAction revision r) = FStatusClosed \<Longrightarrow>
   scanned_finding env status nextAction revision r = r"
  by (auto simp: scanned_finding_def split: if_splits)

interpretation finalize_open: keeps_open "\<lambda>db db'. \<exists>worker env claimed record key promoted result.
    finalizeEvidence worker env claimed record key promoted result db = Inr db'"
proof unfold_locales
  fix db db' f
  assume "\<exists>worker env claimed record key promoted result.
    finalizeEvidence worker env claimed record key promoted result db = Inr db'"
  then obtain worker env claimed rec key promoted result where
    run: "finalizeEvidence worker env claimed rec key promoted result db = Inr db'" by blast
  assume f: "f \<in> set (findings db')" "f_status f = FStatusClosed"
  from run show "f \<in> set (findings db)"
  proof (cases rule: finalizeEvidence_Inr)
    case (delivered version state finding)
    with f show ?thesis by (auto simp: frame_open.no_closure [OF markDelivered_frame])
  next
    case (scanned version state finding canonicalID objects l)
    with f(1) have "f \<in> set (modify f_id (f_id finding) (scanned_finding env
        (fst (scan_outcome (sc_Clean result))) (snd (scan_outcome (sc_Clean result)))
        (f_revision finding + 1)) (findings db))" by simp
    then show ?thesis
      by (rule modify_open [OF _ f(2)]) (erule scanned_finding_open [rotated], simp add: scan_outcome_def)
  qed
qed

interpretation failure_open: keeps_open
  "\<lambda>db db'. \<exists>worker env claimed reason. recordFailure worker env claimed reason db = Inr db'"
proof unfold_locales
  fix db db' f
  assume "\<exists>worker env claimed reason. recordFailure worker env claimed reason db = Inr db'"
  then obtain worker env claimed reason where
    run: "recordFailure worker env claimed reason db = Inr db'" by blast
  assume f: "f \<in> set (findings db')" "f_status f = FStatusClosed"
  from run show "f \<in> set (findings db)"
  proof (cases rule: recordFailure_Inr)
    case other
    then show ?thesis using f by (rule frame_open.no_closure)
  next
    case (failed version state finding objects l)
    with f(1) have "f \<in> set (findings db) \<or> f \<in> set (modify f_id (f_id finding) (scanned_finding env
        FStatusEvidenceMoreInformationRequested ''Auditee submits replacement Evidence''
        (f_revision finding + 1)) (findings db))"
      by (simp add: failed_findings_def split: if_splits)
    then show ?thesis
    proof
      assume "f \<in> set (modify f_id (f_id finding) (scanned_finding env
        FStatusEvidenceMoreInformationRequested ''Auditee submits replacement Evidence''
        (f_revision finding + 1)) (findings db))"
      then show ?thesis by (rule modify_open [OF _ f(2)]) (erule scanned_finding_open [rotated], simp)
    qed
  qed
qed

section \<open>Every way to close a Finding\<close>

lemma envelope_findings:
  assumes "executeTransition env actor envelope handler db = Inr (db', resp)"
    and "f \<in> set (findings db')" "f \<notin> set (findings db)"
  obtains mid result where "handler db = Inr (mid, result)" "f \<in> set (findings mid)"
  using assms(1) by (cases rule: executeTransition_cases) (use assms(2,3) in \<open>auto intro: that\<close>)

lemma closing_command:
  assumes run: "dispatch parses fresh env actor c db = Inr (db', resp)"
    and wf: "distinct (map f_id (findings db))"
    and f: "f \<in> set (findings db')" "f \<notin> set (findings db)" "f_status f = FStatusClosed"
  shows "(\<exists>command. c = CmdAuthorizedClose command \<and> authorized_closing actor command f db) \<or>
    (\<exists>command. c = CmdReviewEvidence command \<and> evidence_closing env actor command f db)"
proof -
  from run obtain envelope handler where p: "prepare parses fresh actor c = Inr (envelope, handler)"
    and e: "executeTransition env actor envelope (handler env) db = Inr (db', resp)"
    by (rule dispatch_Inr)
  from envelope_findings [OF e f(1,2)] obtain mid result where
    h: "handler env db = Inr (mid, result)" and m: "f \<in> set (findings mid)" .
  note opens = submit_cap_open.no_closure review_cap_open.no_closure convert_open.no_closure
    decide_report_open.no_closure create_report_open.no_closure create_organization_open.no_closure
    create_reminder_open.no_closure
  show ?thesis
  proof (cases c)
    case (CmdReviewEvidence command)
    with p h review_evidence_closing [OF wf _ m f(2,3)] show ?thesis by auto
  next
    case (CmdAuthorizedClose command)
    with p h authorized_close_closing [OF _ m f(2)] show ?thesis by auto
  qed (use p h m f(2,3) in \<open>auto simp: bind_result_Inr Let_def split: if_splits
      dest: opens [rotated 2] field_untouched [THEN untouched_open] StartInspection_settled [THEN settled_open]\<close>)
qed

lemma closing_step:
  assumes step: "system_step db db'" and wf: "system_wf db"
    and f: "f \<in> set (findings db')" "f \<notin> set (findings db)" "f_status f = FStatusClosed"
  shows "\<exists>parses fresh env actor c resp. dispatch parses fresh env actor c db = Inr (db', resp) \<and>
    ((\<exists>command. c = CmdAuthorizedClose command \<and> authorized_closing actor command f db) \<or>
     (\<exists>command. c = CmdReviewEvidence command \<and> evidence_closing env actor command f db))"
  using step
proof cases
  case (command parses fresh env actor c resp)
  from wf have "distinct (map f_id (findings db))" by (simp add: system_wf_def)
  with closing_command [OF command _ f] command show ?thesis by blast
next
  case (preparation digests env actor call resp)
  have "f \<in> set (findings db)"
    by (rule work_open.no_closure [OF assignment_dispatch_frame [OF preparation] f(1,3)])
  with f(2) show ?thesis ..
next
  case (materialize digests env actor materialization resp)
  have "f \<in> set (findings db)" by (rule work_open.no_closure [OF Materialize_frame [OF materialize] f(1,3)])
  with f(2) show ?thesis ..
next
  case (begin_upload service env actor input uploaded)
  have "f \<in> set (findings db)" by (rule begin_open.no_closure [OF _ f(1,3)]) (use begin_upload in blast)
  with f(2) show ?thesis ..
next
  case (complete_upload service env actor completion completed)
  have "f \<in> set (findings db)" by (rule complete_open.no_closure [OF _ f(1,3)]) (use complete_upload in blast)
  with f(2) show ?thesis ..
next
  case (expire_uploads env)
  have "f \<in> set (findings db)"
    by (rule untouched_open [OF _ f(1)]) (simp add: expire_uploads ReconcileExpired_untouched)
  with f(2) show ?thesis ..
next
  case (claim worker now claimed)
  then have "attachment_frame db db'" by (rule claimNext_Some)
  then have "f \<in> set (findings db)" by (rule frame_open.no_closure [OF _ f(1,3)])
  with f(2) show ?thesis ..
next
  case (deliver mid now)
  have "f \<in> set (findings db)"
    by (rule frame_open.no_closure [OF _ f(1,3)]) (simp add: deliver markDelivered_frame)
  with f(2) show ?thesis ..
next
  case (finalize_evidence worker env claimed rec key promoted result)
  have "f \<in> set (findings db)" by (rule finalize_open.no_closure [OF _ f(1,3)]) (use finalize_evidence in blast)
  with f(2) show ?thesis ..
next
  case (finalize_attachment worker env claimed rec key promoted result)
  have "f \<in> set (findings db)"
    by (rule frame_open.no_closure [OF finalizeAttachment_Inr [OF finalize_attachment] f(1,3)])
  with f(2) show ?thesis ..
next
  case (scan_failure worker env claimed reason)
  have "f \<in> set (findings db)" by (rule failure_open.no_closure [OF _ f(1,3)]) (use scan_failure in blast)
  with f(2) show ?thesis ..
qed (rule notE [OF f(2)], rule side_open.no_closure [OF _ f(1,3)], erule field_frames)+

end
