(* ===== verification/Replays.thy ===== *)
theory Replays
  imports Closure
begin

text \<open>
  What the envelope promises to every command: a retry of an accepted command returns its stored
  response for ever and has no effect, an operation identifier cannot be used for another payload, and
  an accepted command leaves exactly one audit event.
\<close>

section \<open>Stored responses\<close>

definition same_call :: "commandEnvelope \<Rightarrow> commandEnvelope \<Rightarrow> bool" where
  "same_call e e' \<longleftrightarrow> ce_OperationID e' = ce_OperationID e \<and> ce_Kind e' = ce_Kind e \<and>
     ce_EntityID e' = ce_EntityID e \<and> ce_Semantic e' = ce_Semantic e \<and>
     (ce_CorrelationID e \<noteq> '''' \<longrightarrow> ce_CorrelationID e' \<noteq> '''')"

lemma stored_response_grows:
  assumes "stored_response scope operation l = Some stored" "ledger_grows l l'"
  shows "stored_response scope operation l' = Some stored"
  using assms by (auto simp: stored_response_def ledger_grows_def prefix_def lookup_append)

lemma executeTransition_replays:
  assumes run: "executeTransition env actor envelope handler db = Inr (db', resp)"
    and handler: "finding_handler handler" and hash: "env_semantic_hash env' = env_semantic_hash env"
    and grows: "ledger_grows (ledger db') (ledger db'')" and same: "same_call envelope envelope'"
  shows "executeTransition env' actor envelope' handler' db'' = Inr (db'', resp)"
proof -
  have fields: "\<not> (SubjectID actor = '''' \<or> ce_OperationID envelope = '''' \<or>
      ce_CorrelationID envelope = '''' \<or> ce_Kind envelope = '''' \<or> ce_EntityID envelope = '''')"
    using run by (auto simp: executeTransition_def)
  from command_handler.envelope_stored [OF finding_handler.axioms(1) [OF handler] run] obtain stored where
    "stored_response (command_scope actor envelope) (ce_OperationID envelope) (ledger db') = Some stored"
    "ir_response_body stored = resp"
    "env_semantic_hash env (ce_Kind envelope) (ce_EntityID envelope) (ce_Semantic envelope) =
       Some (ir_semantic_hash stored)" by blast
  with stored_response_grows [OF _ grows] fields hash same show ?thesis
    by (auto simp: executeTransition_def command_scope_def same_call_def)
qed

text \<open>Only \<open>StartInspection\<close> draws a fresh correlation identifier, and nothing depends on it.\<close>

lemma prepare_retry:
  assumes "prepare parses fresh actor c = Inr (envelope, handler)" "fresh' \<noteq> ''''"
  obtains envelope' where "prepare parses fresh' actor c = Inr (envelope', handler)"
    "same_call envelope envelope'"
  using assms
  by (cases c) (auto simp: same_call_def bind_result_Inr Let_def StartInspection_envelope_def
      intro: that split: if_splits)

lemma dispatch_replays:
  assumes run: "dispatch parses fresh env actor c db = Inr (db', resp)"
    and grows: "ledger_grows (ledger db') (ledger db'')"
    and hash: "env_semantic_hash env' = env_semantic_hash env" and fresh: "fresh' \<noteq> ''''"
  shows "dispatch parses fresh' env' actor c db'' = Inr (db'', resp)"
proof -
  from run obtain envelope handler where p: "prepare parses fresh actor c = Inr (envelope, handler)"
    and h: "finding_handler (handler env)"
    and e: "executeTransition env actor envelope (handler env) db = Inr (db', resp)"
    by (rule dispatch_Inr)
  from prepare_retry [OF p fresh] obtain envelope' where
    "prepare parses fresh' actor c = Inr (envelope', handler)" "same_call envelope envelope'" .
  with executeTransition_replays [OF e h hash grows] show ?thesis by (simp add: dispatch_prepare)
qed

section \<open>Reuse of an operation identifier\<close>

lemma dispatch_reuse:
  assumes run: "dispatch parses fresh env actor c db = Inr (db', resp)"
    and grows: "ledger_grows (ledger db') (ledger db'')"
    and first: "prepare parses fresh actor c = Inr (envelope, handler)"
    and second: "prepare parses fresh' actor c' = Inr (envelope', handler')"
    and operation: "ce_OperationID envelope' = ce_OperationID envelope" "ce_Kind envelope' = ce_Kind envelope"
    and ids: "ce_CorrelationID envelope' \<noteq> ''''" "ce_EntityID envelope' \<noteq> ''''"
    and hash: "env_semantic_hash env' (ce_Kind envelope') (ce_EntityID envelope') (ce_Semantic envelope') = Some h"
      "env_semantic_hash env (ce_Kind envelope) (ce_EntityID envelope) (ce_Semantic envelope) \<noteq> Some h"
  shows "dispatch parses fresh' env' actor c' db'' = Inl (AppError ErrOperationIDReuse '''')"
proof -
  from run first have h: "finding_handler (handler env)"
    and e: "executeTransition env actor envelope (handler env) db = Inr (db', resp)"
    by (auto elim!: dispatch_Inr)
  from command_handler.envelope_stored [OF finding_handler.axioms(1) [OF h] e] obtain stored where
    s: "stored_response (command_scope actor envelope) (ce_OperationID envelope) (ledger db') = Some stored"
      "env_semantic_hash env (ce_Kind envelope) (ce_EntityID envelope) (ce_Semantic envelope) =
       Some (ir_semantic_hash stored)" by blast
  from e have fields: "SubjectID actor \<noteq> ''''" "ce_OperationID envelope \<noteq> ''''" "ce_Kind envelope \<noteq> ''''"
    by (auto simp: executeTransition_def)
  from stored_response_grows [OF s(1) grows] have
    "stored_response (command_scope actor envelope') (ce_OperationID envelope') (ledger db'') = Some stored"
    using operation by (simp add: command_scope_def)
  from executeTransition_operation_reuse [OF this hash(1)] s(2) hash(2) fields operation ids
  show ?thesis by (simp add: dispatch_prepare second)
qed

section \<open>The audit trail of a command\<close>

definition audited :: "Principal \<Rightarrow> commandEnvelope \<Rightarrow> DB \<Rightarrow> DB \<Rightarrow> bool" where
  "audited actor envelope db db' \<longleftrightarrow>
     (\<exists>event change message stored link. l_audit_events (ledger db') = l_audit_events (ledger db) @ [event] \<and>
        ae_actor_subject_id event = Some (SubjectID actor) \<and>
        ae_operation_id event = Some (ce_OperationID envelope) \<and>
        l_sync_changes (ledger db') = l_sync_changes (ledger db) @ [change] \<and>
        l_responses (ledger db') = l_responses (ledger db) @ [stored] \<and>
        ir_operation_id stored = ce_OperationID envelope \<and>
        l_links (ledger db') = l_links (ledger db) @ [link] \<and>
        ln_audit_event_id link = ae_event_id event \<and>
        ln_change_sequence_id link = sy_sequence_id change \<and>
        message \<in> set (l_outbox (ledger db')) \<and> o_id message = ln_outbox_message_id link \<and>
        o_operation_id message = Some (ce_OperationID envelope))"

lemma dispatch_audited:
  assumes run: "dispatch parses fresh env actor c db = Inr (db', resp)"
    and p: "prepare parses fresh actor c = Inr (envelope, handler)"
  shows "db' = db \<or> audited actor envelope db db'"
proof -
  from run p have h: "finding_handler (handler env)"
    and e: "executeTransition env actor envelope (handler env) db = Inr (db', resp)"
    by (auto elim!: dispatch_Inr)
  from e show ?thesis
  proof (cases rule: executeTransition_cases)
    case (executed semanticHash mid result l)
    from command_handler.handler_ledger [OF finding_handler.axioms(1) [OF h] executed(3)]
    have "keeps_ledger (ledger db) (ledger mid)" .
    with executed show ?thesis
      by (auto simp: audited_def persistCommandTransaction_Inr keeps_ledger_def audit_row_def
          envelope_record_def sync_row_def outbox_row_def response_row_def link_row_def)
  qed simp
qed

end
