(* ===== verification/ScanFencing.thy ===== *)
theory ScanFencing
  imports ScanContracts
begin

text \<open>
  The lease protocol of the scan worker: a scan result is only committed under a held lease, every failed
  round either postpones the message or ends it, and the objects a clean result may name. The lease itself
  is followed over runs in \<open>LeaseRuns\<close>.
\<close>

section \<open>Claims\<close>

lemma set_update_outbox:
  "set (l_outbox (ledger (update_outbox mid g db))) =
     (\<lambda>m. if o_id m = mid then g m else m) ` set (l_outbox (ledger db))"
  by (auto simp: update_outbox_def modify_def)

lemma claim_of_id [simp]: "cm_ID (claim_of m) = o_id m"
  by (simp add: claim_of_def)

section \<open>Results under a lease\<close>

lemma append_system_outbox:
  assumes "append_system event change message db = Inr db'"
    and "o_lease_owner message = None" "m \<in> set (l_outbox (ledger db'))" "o_lease_owner m \<noteq> None"
  shows "m \<in> set (l_outbox (ledger db))"
  using assms by (auto simp: append_system_def Let_def split: if_splits)

lemma record_outcome_ledger:
  assumes "(if clean then record_clean worker env claimed record key promoted result finding db
            else record_quarantined env claimed result finding db) = Inr db'"
  shows "ledger db' = ledger db"
  using assms
  by (auto simp: record_clean_def record_quarantined_def bind_result_Inr row_simps upsert_canonical_def
      split: if_splits option.splits)

lemma new_message_lease [simp]: "o_lease_owner (new_message i t ty e p a k op c n) = None"
  by (simp add: new_message_def)

lemma finalizeEvidence_fenced:
  assumes "finalizeEvidence worker env claimed record key promoted result db = Inr db'"
  shows "\<exists>m \<in> set (l_outbox (ledger db)). holds_lease (cm_ID claimed) (wk_workerID worker) m"
proof -
  from assms obtain version state finding where
    ctx: "scan_context (cm_AggregateID claimed) db = Some (version, state, finding)"
    by (auto simp: finalizeEvidence_def split: option.splits)
  show ?thesis
  proof (cases "terminal_scan (es_scan_state state)")
    case True
    with assms ctx markDeliveredTx_Inr show ?thesis by (auto simp: finalizeEvidence_def)
  next
    case False
    let ?status = "if sc_Clean result then ScanClean else ScanQuarantined"
    from assms ctx False obtain db1 db2 where
      r: "(if sc_Clean result then record_clean worker env claimed record key promoted result finding db
           else record_quarantined env claimed result finding db) = Inr db1"
      and e: "evidence_events env claimed record (sc_Clean result) (scan_source record ?status result db1) = Inr db2"
      and m: "markDeliveredTx (cm_ID claimed) (wk_workerID worker) (env_clock env 0) db2 = Inr db'"
      by (auto simp: finalizeEvidence_def bind_result_Inr split: if_splits)
    from markDeliveredTx_Inr [OF m] obtain msg where msg: "msg \<in> set (l_outbox (ledger db2))"
      "holds_lease (cm_ID claimed) (wk_workerID worker) msg" by blast
    have "msg \<in> set (l_outbox (ledger (scan_source record ?status result db1)))"
      using e msg unfolding evidence_events_def Let_def
      by (elim append_system_outbox) (auto simp: holds_lease_def)
    with record_outcome_ledger [OF r] msg(2) show ?thesis by (auto simp: scan_source_def)
  qed
qed

lemma finalizeEvidence_identity:
  assumes "finalizeEvidence worker env claimed record key promoted result db = Inr db'"
    and "scan_context (cm_AggregateID claimed) db = Some (version, state, finding)"
    and "\<not> terminal_scan (es_scan_state state)" "sc_Clean result"
  shows "oi_VersionID promoted = '''' \<longleftrightarrow> oi_ETag promoted = ''''"
  using assms(1)
proof (cases rule: finalizeEvidence_Inr)
  case delivered
  with assms(2,3) show ?thesis by simp
next
  case scanned
  with assms(4) show ?thesis
    by (auto simp: exact_identity_check_def canonical_row_def null_if_empty_def split: if_splits)
qed

lemma load_evidence_context:
  assumes "load_evidence vid db = Some (record, scan)" "scan_context vid db = Some (version, state, finding)"
  shows "es_scan_state state = scan"
  using assms by (auto simp: load_evidence_def scan_context_def split: option.splits if_splits)

text \<open>
  A store without versions reports an entity tag for the object an earlier round has promoted, so that
  the row of the retried promotion violates the identity check.
\<close>

lemma unmanaged_retry_refused:
  assumes "load_evidence (cm_AggregateID claimed) db = Some (record, scan)" "\<not> terminal_scan scan"
    and "resolveScan worker (env_clock env 1) record = Inr result" "sc_Clean result"
    and "wk_managed worker = None"
    and "wk_copy worker (or_SourceBucket record) (or_SourceKey record) (wk_canonicalBucket worker)
           (evidence_key record claimed) = AlreadyExists"
    and "os_open (wk_objects worker) (wk_canonicalBucket worker) (evidence_key record claimed) = Some (reader, info)"
    and "oi_VersionID info = ''''" "oi_ETag info \<noteq> ''''"
  shows "isl (processEvidence worker env claimed db)"
proof (rule ccontr)
  assume "\<not> isl (processEvidence worker env claimed db)"
  then obtain db' where "processEvidence worker env claimed db = Inr db'"
    by (cases "processEvidence worker env claimed db") auto
  with assms(1-4) obtain promoted where
    p: "promote worker record (wk_canonicalBucket worker) (evidence_key record claimed) = Inr promoted"
    and f: "finalizeEvidence worker env claimed record (evidence_key record claimed) promoted result db = Inr db'"
    by (auto simp: processEvidence_def bind_result_Inr)
  from p assms(5-7) have "promoted = info"
    by (auto simp: promote_def existingPromotion_def split: if_splits)
  moreover from f obtain version state finding where
    c: "scan_context (cm_AggregateID claimed) db = Some (version, state, finding)"
    by (auto simp: finalizeEvidence_def split: option.splits)
  ultimately show False
    using finalizeEvidence_identity [OF f c] load_evidence_context [OF assms(1) c] assms(2,4,8,9) by simp
qed

section \<open>Failures\<close>

text \<open>A failed round postpones an unfinished message, or ends it at the last attempt.\<close>

lemma append_system_new:
  assumes "append_system event change message db = Inr db'" "m \<in> set (l_outbox (ledger db'))"
  shows "m \<in> set (l_outbox (ledger db)) \<or> m = message"
  using assms by (auto simp: append_system_def Let_def split: if_splits)

lemma failed_message_topic [simp]: "o_topic (failed_message env topic ty e p op) = topic"
  by (simp add: failed_message_def new_message_def)

lemma unclaimable_topics [simp]:
  "''evidence.scan_failed'' \<notin> set scan_topics" "''inspection_attachment.scan_failed'' \<notin> set scan_topics"
  by (simp_all add: scan_topics_def)

lemma evidence_failure_outbox:
  assumes "recordEvidenceTerminalFailure env claimed reason db = Inr db'" "m \<in> set (l_outbox (ledger db'))"
  shows "m \<in> set (l_outbox (ledger db)) \<or> o_topic m \<notin> set scan_topics"
proof -
  from assms(1) obtain version state finding object where
    ctx: "scan_context (cm_AggregateID claimed) db = Some (version, state, finding)"
    "(case e_object_metadata_id version of None \<Rightarrow> None
      | Some object \<Rightarrow> lookup om_id object (object_metadata db)) = Some object"
    by (auto simp: recordEvidenceTerminalFailure_def split: option.splits)
  show ?thesis
  proof (cases "es_scan_state state = ScanPending")
    case False
    with assms ctx show ?thesis by (simp add: recordEvidenceTerminalFailure_def)
  next
    case True
    let ?submitted = "f_status finding = FStatusEvidenceSubmitted"
    let ?status = "if ?submitted then FStatusEvidenceMoreInformationRequested else f_status finding"
    from assms(1) ctx True obtain db1 db2 where
      u: "update_state (cm_AggregateID claimed) (failed_state env reason) db = Inr db1"
      and f: "(if ?submitted then update_submitted_finding env (f_id finding) ?status
          ''Auditee submits replacement Evidence'' (f_revision finding + 1) (fail_object (om_id object) db1)
        else Inr (fail_object (om_id object) db1)) = Inr db2"
      and e: "evidence_failure_events env (cm_AggregateID claimed) version state ?status reason db2 = Inr db'"
      by (auto simp: recordEvidenceTerminalFailure_def bind_result_Inr Let_def)
    have "ledger db2 = ledger db"
      using u f by (auto simp: row_simps fail_object_def split: if_splits)
    moreover from append_system_new [OF e [unfolded evidence_failure_events_def Let_def] assms(2)]
    have "m \<in> set (l_outbox (ledger db2)) \<or> o_topic m = ''evidence.scan_failed''"
      by (elim disjE) simp_all
    ultimately show ?thesis by (metis unclaimable_topics)
  qed
qed

lemma attachment_failure_outbox:
  assumes "recordAttachmentTerminalFailure env claimed reason db = Inr db'" "m \<in> set (l_outbox (ledger db'))"
  shows "m \<in> set (l_outbox (ledger db)) \<or> o_topic m \<notin> set scan_topics"
proof -
  from assms(1) obtain attachment version object where
    ctx: "attachment_context (cm_AggregateID claimed) db = Some (attachment, version)"
    "lookup om_id (iv_source_object_metadata_id version) (object_metadata db) = Some object"
    by (auto simp: recordAttachmentTerminalFailure_def split: option.splits)
  show ?thesis
  proof (cases "at_scan_state attachment = ScanPending")
    case False
    with assms ctx show ?thesis by (simp add: recordAttachmentTerminalFailure_def)
  next
    case True
    with assms(1) ctx obtain db1 where
      u: "update_attachment (attachment_pending (cm_AggregateID claimed)) (failed_attachment env) db = Inr db1"
      and e: "attachment_failure_events env claimed attachment version reason (fail_object (om_id object) db1) = Inr db'"
      by (auto simp: recordAttachmentTerminalFailure_def bind_result_Inr)
    have "ledger (fail_object (om_id object) db1) = ledger db"
      using update_attachment_Inr [OF u] by (auto simp: fail_object_def)
    moreover from append_system_new [OF e [unfolded attachment_failure_events_def Let_def] assms(2)]
    have "m \<in> set (l_outbox (ledger (fail_object (om_id object) db1))) \<or> o_topic m = ''inspection_attachment.scan_failed''"
      by (elim disjE) simp_all
    ultimately show ?thesis by (metis unclaimable_topics)
  qed
qed

lemma last_failure_ends:
  assumes "recordFailure worker env claimed reason db = Inr db'" "wk_maximumAttempts worker \<le> cm_AttemptCount claimed"
    and "m \<in> set (l_outbox (ledger db'))" "o_id m = cm_ID claimed"
  shows "\<not> claimable now m"
proof -
  let ?failed = "update_outbox (cm_ID claimed) (fail_message reason) db"
  from assms(1,2) have r: "(if cm_Topic claimed = ''evidence.scan_requested''
      then recordEvidenceTerminalFailure env claimed reason ?failed
      else if cm_Topic claimed = ''inspection_attachment.scan_requested''
      then recordAttachmentTerminalFailure env claimed reason ?failed else Inr ?failed) = Inr db'"
    unfolding recordFailure_def Let_def by simp
  have "m \<in> set (l_outbox (ledger ?failed)) \<or> o_topic m \<notin> set scan_topics"
  proof (cases "cm_Topic claimed = ''evidence.scan_requested''")
    case True
    from evidence_failure_outbox [OF r [unfolded if_P [OF True]] assms(3)] show ?thesis .
  next
    case False
    show ?thesis
    proof (cases "cm_Topic claimed = ''inspection_attachment.scan_requested''")
      case True
      from attachment_failure_outbox [OF r [unfolded if_not_P [OF False] if_P [OF True]] assms(3)]
      show ?thesis .
    next
      case other: False
      from r [unfolded if_not_P [OF False] if_not_P [OF other]] have "?failed = db'" by (simp only: sum.inject)
      with assms(3) show ?thesis by (simp only: simp_thms)
    qed
  qed
  then show ?thesis
  proof
    assume "m \<in> set (l_outbox (ledger ?failed))"
    with assms(4) show ?thesis by (auto simp: set_update_outbox fail_message_def claimable_def split: if_splits)
  qed (simp add: claimable_def)
qed

lemma early_failure_postpones:
  assumes "recordFailure worker env claimed reason db = Inr db'" "cm_AttemptCount claimed < wk_maximumAttempts worker"
    and "m \<in> set (l_outbox (ledger db'))" "o_id m = cm_ID claimed" "claimable now m"
  shows "env_clock env 0 + wk_retryDelay worker \<le> now"
proof -
  from assms(1,2) have "db' = update_outbox (cm_ID claimed) (retry_message worker (env_clock env 0) reason) db"
    by (simp add: recordFailure_def)
  with assms(3-5) show ?thesis
    by (auto simp: set_update_outbox retry_message_def claimable_def split: if_splits)
qed

end
