(* ===== verification/ScanSamples.thy ===== *)
theory ScanSamples
  imports Samples ScanFencing
begin

text \<open>
  A round of the scan worker over the Evidence version the sample upload leaves: the claim, its result and
  its failure, evaluated step by step.
\<close>

definition completed_db :: DB where
  "completed_db = (case Complete_body sample_service second_env auditee complete_input begun_db of
     Inr (db', _) \<Rightarrow> db' | Inl _ \<Rightarrow> empty_db)"

definition third_env :: Env where
  "third_env = sample_env\<lparr>env_new_id := (\<lambda>p. p @ ''-3''), env_clock := (\<lambda>_. 300)\<rparr>"

definition clean_result :: ScanResult where
  "clean_result = \<lparr>sc_Clean = True, sc_Reason = '''', sc_EngineVersion = ''e'', sc_SignatureVersion = ''s'',
     sc_ScannedAt = 300\<rparr>"

definition sample_worker :: Worker where
  "sample_worker = \<lparr>wk_workerID = ''w'', wk_canonicalBucket = ''canonical'', wk_attachmentBucket = ''attachments'',
     wk_leaseDuration = 60, wk_retryDelay = 10, wk_maximumAttempts = 3, wk_scanBackend = ''clamav'',
     wk_managed = None, wk_scanner = Some (\<lambda>_. Inr clean_result), wk_objects = sample_store,
     wk_copy = (\<lambda>_ _ _ _. Copied no_object), wk_copy_exact = None, wk_sha256 = (\<lambda>_. replicate 64 (CHR ''0''))\<rparr>"

definition scan_claim :: claim where
  "scan_claim = \<lparr>cm_ID = ''outbox-2'', cm_Topic = ''evidence.scan_requested'',
     cm_AggregateID = ''evidence-version-2'', cm_AttemptCount = 1, cm_CorrelationID = ''corr''\<rparr>"

definition claimed_db :: DB where
  "claimed_db = update_outbox ''outbox-2'' (take_lease sample_worker 300) completed_db"

lemma scan_claimed: "claimNext sample_worker 300 completed_db = Some (scan_claim, claimed_db)"
proof -
  have "map_option fst (claimNext sample_worker 300 completed_db) = Some scan_claim" by code_simp
  then obtain db' where c: "claimNext sample_worker 300 completed_db = Some (scan_claim, db')" by auto
  then obtain m where "scan_claim = claim_of m" "db' = update_outbox (o_id m) (take_lease sample_worker 300) completed_db"
    by (rule claimNext_Some)
  with c show ?thesis by (simp add: claimed_db_def scan_claim_def claim_of_def)
qed

lemma scan_processed: "\<not> isl (processEvidence sample_worker third_env scan_claim claimed_db)"
  by code_simp

lemma completed_ledger: "ledger_wf (ledger completed_db)"
  by code_simp

definition scan_record :: objectRecord where
  "scan_record = fst (the (load_evidence ''evidence-version-2'' claimed_db))"

section \<open>A second request\<close>

definition second_request :: OutboxMessage where
  "second_request = new_message ''outbox-9'' ''evidence.scan_requested'' ''evidence_version'' ''evidence-version-9''
     (ResponsePayload (Complete_output clean_version)) 301 None None None 301"

definition requested_db :: DB where
  "requested_db = completed_db\<lparr>ledger := (ledger completed_db)
     \<lparr>l_outbox := l_outbox (ledger completed_db) @ [second_request]\<rparr>\<rparr>"

definition two_requests :: DB where
  "two_requests = update_outbox ''outbox-2'' (take_lease sample_worker 300) requested_db"

lemma first_claimed: "claimNext sample_worker 300 requested_db = Some (scan_claim, two_requests)"
proof -
  have "map_option fst (claimNext sample_worker 300 requested_db) = Some scan_claim" by code_simp
  then obtain db' where c: "claimNext sample_worker 300 requested_db = Some (scan_claim, db')" by auto
  then obtain m where "scan_claim = claim_of m" "db' = update_outbox (o_id m) (take_lease sample_worker 300) requested_db"
    by (rule claimNext_Some)
  with c show ?thesis by (simp add: two_requests_def scan_claim_def claim_of_def)
qed

lemma first_ledger: "ledger_wf (ledger requested_db)"
  by code_simp

section \<open>A retried promotion\<close>

text \<open>A store without versions: the object of an earlier round has an entity tag only.\<close>

definition unversioned_store :: ObjectStore where
  "unversioned_store = \<lparr>os_put_instruction = (\<lambda>_ _ _. None), os_get_instruction = (\<lambda>_ _ _. None),
     os_open = (\<lambda>_ _. Some (\<lparr>rd_bytes = ''%PDF-1'', rd_fails = False\<rparr>,
       \<lparr>oi_VersionID = '''', oi_ETag = ''e1'', oi_Size = 6, oi_Sha256 = sample_digest\<rparr>)),
     os_write = (\<lambda>_ _ _ _ _. None), os_requires_exact = False\<rparr>"

definition retrying_worker :: Worker where
  "retrying_worker = sample_worker\<lparr>wk_objects := unversioned_store, wk_copy := (\<lambda>_ _ _ _. AlreadyExists)\<rparr>"

end
