(* ===== verification/FieldClients.thy ===== *)
theory FieldClients
  imports StepFrames FieldSamples Lineage Replays ScanSamples
begin

text \<open>
  The properties of the field clients: offline grants and their use, pushed operations and pulled
  changes, and the resumable upload of attachments.
\<close>

section \<open>Pushed operations\<close>

text \<open>C29: \<open>Push\<close> answers every request as invalid and changes nothing: a valid operation carries a tagged
  payload hash, and the hash it is compared with is never tagged.\<close>

theorem push_never_accepts:
  "\<exists>operationID. Push service env actor raw db = Inr (db, invalidResult operationID (env_clock env 0))"
proof (cases "decodeOperation (cr_unmarshal (os_crypto service)) raw")
  case (Inl e)
  then show ?thesis by (auto simp: Push_def)
next
  case (Inr input)
  show ?thesis
  proof (cases "validateOperation (os_rfc3339 service) input = None")
    case True
    then have "SemanticHash (os_payload_sum service (wo_Payload input)) \<noteq> wo_PayloadHash input"
      using valid_payload_hash by metis
    with Inr True show ?thesis by (auto simp: Push_def)
  next
    case False
    with Inr show ?thesis by (auto simp: Push_def)
  qed
qed

text \<open>C30: the transaction of a valid operation accepts it, when it is not a replay, only under a grant in
  force: the actor's own, for this device, package version and command, neither revoked nor expired, of an
  inspection and a package that have not changed since, and only with the signature of the profile the grant
  was issued to.\<close>

theorem push_needs_grant:
  assumes "push_transaction service env actor input db = Inr (db', r)" "px_Status r = PushAccepted"
    and "stored_response (push_scope actor) (wo_OperationID input) (ledger db) = None"
    and "validateOperation (os_rfc3339 service) input = None" "wo_CommandType input \<noteq> ''''"
  shows "\<exists>g. grant_in_force actor input (env_clock env 0) db g \<and>
    verifyProfileAuthorityProof (os_crypto service) (gr_profile_public_jwk g) (gr_profile_key_id g)
      (wo_RequestHash input) (wo_AuthorityProof input) = None"
  by (rule push_grant_in_force [OF push_transaction_fresh [OF assms(1,3)] assms(2,4,5)])

theorem push_needs_grant_witness: "\<exists>g. grant_in_force inspector field_operation 100 checked_out g"
proof -
  obtain db' r where "push_transaction field_service second_env inspector field_operation checked_out = Inr (db', r)"
    "px_Status r = PushAccepted" by (rule answer_accepted)
  from push_needs_grant [OF this answer_fresh field_operation_valid]
  have "\<exists>g. grant_in_force inspector field_operation (env_clock second_env 0) checked_out g"
    by (auto simp: field_operation_def)
  moreover have "env_clock second_env 0 = 100" by code_simp
  ultimately show ?thesis by simp
qed

text \<open>C31: a pushed operation takes effect at most once: sent again at any later time, whatever ran in
  between, it is answered with the first result and changes nothing.\<close>

theorem push_replay:
  assumes "push_transaction service env actor input db = Inr (db', r)" "px_Status r \<noteq> PushRetryable"
    and "system_wf db" "system_run db' db''"
  shows "push_transaction service env' actor input db'' = Inr (db'', r)"
proof -
  from push_transaction_stored [OF assms(1,2)] obtain row where
    row: "stored_response (push_scope actor) (wo_OperationID input) (ledger db') = Some row"
      "ir_semantic_hash row = SemanticHash (os_operation_sum service (operation_view input))"
      "ir_response_body row = PushResponse r" by blast
  have "system_step db db'" using assms(1) by (rule system_step.push)
  then have "system_wf db'" using assms(3) by (blast intro: system.step_wf)
  from system.run_appends [OF assms(4) this] have "ledger_grows (ledger db') (ledger db'')"
    by (simp add: appended_def)
  from push_transaction_replayed [OF stored_response_grows [OF row(1) this] row(2,3)] show ?thesis .
qed

theorem push_replay_witness:
  "\<exists>db' r. push_transaction field_service second_env inspector field_operation checked_out = Inr (db', r) \<and>
     push_transaction field_service sample_env inspector field_operation db' = Inr (db', r)"
proof -
  obtain db' r where p: "push_transaction field_service second_env inspector field_operation checked_out = Inr (db', r)"
    and "px_Status r = PushAccepted" by (rule answer_accepted)
  then have "px_Status r \<noteq> PushRetryable" by simp
  from push_replay [OF p this checked_out_wf rtranclp.rtrancl_refl] p show ?thesis by blast
qed

text \<open>C32: a checklist is submitted offline only in progress, at the revision the device knows, when every
  question of the released scope is assigned and answered, no answer that needs a comment lacks one, and no
  attachment still waits for its scan.\<close>

theorem offline_submission_complete:
  assumes "sync_submitChecklist authority input payload now db = Inr (db', m)"
    and "px_Status (mu_Result m) = PushAccepted"
  shows "\<exists>k snapshotID. lookup k_inspection_id (ga_InspectionID authority) (inspection_checklists db) = Some k \<and>
    k_status k = KStatusInProgress \<and> wo_BaseRevision input = Some (k_revision k) \<and>
    released_snapshot authority db = Some snapshotID \<and> scoped_questions snapshotID db \<noteq> [] \<and>
    (\<forall>q \<in> set (scoped_questions snapshotID db).
       q \<in> set (assigned_questions (ga_InspectionID authority) db) \<and>
       scope_answered (ga_InspectionID authority) db q \<and> \<not> scope_uncommented (ga_InspectionID authority) db q) \<and>
    \<not> uncleared_attachment (ga_InspectionID authority) db"
proof -
  from assms obtain k snapshotID where
    "lookup k_inspection_id (ga_InspectionID authority) (inspection_checklists db) = Some k"
    "k_status k = KStatusInProgress" "wo_BaseRevision input = Some (k_revision k)"
    "released_snapshot authority db = Some snapshotID" "\<not> uncleared_attachment (ga_InspectionID authority) db"
    and c: "\<not> scope_incomplete snapshotID (ga_InspectionID authority) db"
    by (rule sync_submitChecklist_accepted)
  with scope_complete [OF c] show ?thesis by blast
qed

theorem offline_submission_complete_witness:
  "\<exists>snapshotID. released_snapshot field_authority answered_db = Some snapshotID \<and>
     scoped_questions snapshotID answered_db \<noteq> []"
proof -
  from submission_accepted obtain db' m where
    "sync_submitChecklist field_authority submit_operation \<lparr>sb_AuditID = ''INS''\<rparr> 100 answered_db = Inr (db', m)"
    "px_Status (mu_Result m) = PushAccepted" by (auto split: sum.splits)
  from offline_submission_complete [OF this] show ?thesis by blast
qed

section \<open>Grants\<close>

text \<open>C33: a fresh checkout gives a usable grant: as long as it has not expired and the session lives, every
  default command of the device is authorized.\<close>

theorem issued_grant_authorizes:
  assumes "Issue service env actor input db = Inr (db', OfflineGrantResponse g)"
    and "stored_response (checkout_scope actor) (xk_OperationID input) (ledger db) = None"
    and "distinct (map pk_id (inspection_packages db))"
    and "lookup ses_id (SessionID actor) (session_references db) = Some session" "session_active now session"
    and "\<not> is_zero_time now" "now \<le> og_ExpiresAt g" "command \<in> set defaultAllowedCommands"
  shows "Authorize env' actor \<lparr>xa_GrantID = og_ID g, xa_PackageID = xk_PackageID input,
    xa_DeviceInstanceID = xk_DeviceInstanceID input, xa_ServerNow = now, xa_CommandType = command\<rparr> db' = None"
proof -
  from assms(1-3) obtain row inspection checklist package expiry
    where "grant_context (og_ID g) db' = Some (row, inspection, checklist, package, expiry)"
    and "gr_subject_id row = SubjectID actor" "gr_session_id row = SessionID actor"
      "gr_device_id row = xk_DeviceInstanceID input" "gr_package_id row = xk_PackageID input"
      "gr_revoked_at row = None" "gr_expires_at row = og_ExpiresAt g" "og_ExpiresAt g \<le> expiry"
      "pk_revoked_at package = None" "in_status inspection = ''IN_PROGRESS''"
      "k_status checklist = KStatusInProgress" "OfflineGrant.team_rows (in_id inspection) (SubjectID actor) db' \<noteq> []"
      "in_revision inspection = gr_assignment_revision row"
      "gr_allowed_command_types row = defaultAllowedCommands"
      "session_references db' = session_references db"
    by (rule issued_grant_context) (rule that; assumption)
  moreover have "0 < clockSkewTolerance" by (simp add: clockSkewTolerance_def second_def)
  ultimately show ?thesis
    using assms(4-) by (auto simp: Authorize_def session_active_def split: option.splits)
qed

theorem issued_grant_authorizes_witness:
  "\<exists>g :: OfflineGrant. Authorize sample_env inspector \<lparr>xa_GrantID = og_ID g, xa_PackageID = ''PK'', xa_DeviceInstanceID = ''DEV'',
     xa_ServerNow = 150, xa_CommandType = ''SUBMIT_CHECKLIST''\<rparr> checked_out = None"
proof -
  obtain g where g: "Issue grant_service sample_env inspector checkout_input field_db =
      Inr (checked_out, OfflineGrantResponse g)" by (rule checked_out_issue)
  have fresh: "stored_response (checkout_scope inspector) (xk_OperationID checkout_input) (ledger field_db) = None"
    by code_simp
  have "map gr_expires_at (offline_grants checked_out) = [500]" by code_simp
  then have e: "og_ExpiresAt g = 500"
    using issued_grant_expiry [OF g fresh] by (auto simp: map_eq_Cons_conv)
  obtain session where "lookup ses_id (SessionID inspector) (session_references field_db) = Some session"
    "session_active 150 session"
    by (simp add: field_db_def principal_def session_active_def)
  then have "Authorize sample_env inspector \<lparr>xa_GrantID = og_ID g, xa_PackageID = xk_PackageID checkout_input,
      xa_DeviceInstanceID = xk_DeviceInstanceID checkout_input, xa_ServerNow = 150,
      xa_CommandType = ''SUBMIT_CHECKLIST''\<rparr> checked_out = None"
    by (rule issued_grant_authorizes [OF g fresh, rotated])
      (simp_all add: e field_db_def is_zero_time_def defaultAllowedCommands_def)
  then show ?thesis by (auto simp: checkout_input_def)
qed

text \<open>C34: a revoked grant stays dead: in every later state, whatever runs in between, no authorization of its
  subject under the grant succeeds and no operation that is pushed under it for the first time is accepted. (An
  operation that already has a stored result returns that result, as C31 states.)\<close>

theorem revoked_grant_refused:
  assumes "Revoke env actor grantID reason db = Inr db'" "system_run db' db''"
  shows "Authorize env' actor (input\<lparr>xa_GrantID := grantID\<rparr>) db'' \<noteq> None \<and>
    (\<forall>service env' operation after r. wo_OfflineGrantID operation = grantID \<and>
      stored_response (push_scope actor) (wo_OperationID operation) (ledger db'') = None \<and>
      push_transaction service env' actor operation db'' = Inr (after, r) \<longrightarrow> px_Status r \<noteq> PushAccepted)"
proof (intro conjI allI impI)
  have "revoked_grant grantID (SubjectID actor) db''"
    using run_revoked [OF assms(2)] revoked_grantI [OF assms(1)] by blast
  note dead = revoked_not_authorized [OF revoked_grant_rows [OF this]]
  from dead(1) show "Authorize env' actor (input\<lparr>xa_GrantID := grantID\<rparr>) db'' \<noteq> None" .
  fix service env' operation after r
  assume push: "wo_OfflineGrantID operation = grantID \<and>
    stored_response (push_scope actor) (wo_OperationID operation) (ledger db'') = None \<and>
    push_transaction service env' actor operation db'' = Inr (after, r)"
  then have run: "push_operation service env' actor operation
    (SemanticHash (os_operation_sum service (operation_view operation))) db'' = Inr (after, r)"
    by (intro push_transaction_fresh) auto
  show "px_Status r \<noteq> PushAccepted"
  proof
    assume "px_Status r = PushAccepted"
    with run obtain authority where "loadGrantAuthority actor (wo_OfflineGrantID operation) (wo_PackageID operation)
      (wo_DeviceInstanceID operation) (wo_CommandType operation) (wo_PackageVersion operation) (env_clock env' 0)
      False db'' = Inr authority" by (rule push_operation_accepted)
    with dead(2) push show False by (metis Inr_Inl_False isl_def)
  qed
qed

theorem revoked_grant_refused_witness:
  "\<exists>db' after r. Revoke sample_env inspector ''grant-1'' ''lost'' checked_out = Inr db' \<and>
     push_transaction field_service third_env inspector field_operation db' = Inr (after, r) \<and>
     px_Status r \<noteq> PushAccepted \<and>
     Authorize sample_env inspector \<lparr>xa_GrantID = ''grant-1'', xa_PackageID = ''PK'', xa_DeviceInstanceID = ''DEV'',
       xa_ServerNow = 150, xa_CommandType = ''''\<rparr> after \<noteq> None"
proof -
  let ?push = "push_transaction field_service third_env inspector field_operation"
  have "case Revoke sample_env inspector ''grant-1'' ''lost'' checked_out of
      Inl _ \<Rightarrow> False | Inr db' \<Rightarrow> \<not> isl (?push db') \<and>
        stored_response (push_scope inspector) (wo_OperationID field_operation) (ledger db') = None" by code_simp
  then obtain db' after r where d: "Revoke sample_env inspector ''grant-1'' ''lost'' checked_out = Inr db'"
    and p: "?push db' = Inr (after, r)"
    and fresh: "stored_response (push_scope inspector) (wo_OperationID field_operation) (ledger db') = None"
    by (auto split: sum.splits simp: isl_def) (metis obj_sumE surj_pair)
  let ?input = "\<lparr>xa_GrantID = '''', xa_PackageID = ''PK'', xa_DeviceInstanceID = ''DEV'', xa_ServerNow = 150,
    xa_CommandType = ''''\<rparr>"
  have "wo_OfflineGrantID field_operation = ''grant-1''" by (simp add: field_operation_def)
  with revoked_grant_refused [OF d rtranclp.rtrancl_refl] p fresh have "px_Status r \<noteq> PushAccepted" by blast
  moreover have "system_run db' after" using p by (blast intro: system_step.push)
  from revoked_grant_refused [OF d this, where env' = sample_env and input = ?input]
  have "Authorize sample_env inspector (?input\<lparr>xa_GrantID := ''grant-1''\<rparr>) after \<noteq> None" by blast
  ultimately show ?thesis using d p by auto
qed

text \<open>C35: two checkouts always fail, when the operation has no stored response: of a package for which the subject
  already has a grant on the same device, even one that has expired or been revoked, and of a package whose own
  inspection names no single inspector.\<close>

theorem checkout_refused:
  assumes "stored_response (checkout_scope actor) (xk_OperationID input) (ledger db) = None"
    and "(\<exists>g \<in> set (offline_grants db). gr_subject_id g = SubjectID actor \<and>
        gr_device_id g = xk_DeviceInstanceID input \<and> gr_package_id g = xk_PackageID input) \<or>
      (\<exists>package inspection.
        find (\<lambda>p. pk_id p = xk_PackageID input \<and> pk_canonical_scope_snapshot_id p \<noteq> None) (inspection_packages db) =
          Some package \<and>
        lookup in_id (pk_inspection_id package) (inspections db) = Some inspection \<and>
        in_assigned_inspector_subject_id inspection = None)"
  shows "isl (Issue service env actor input db)"
  using assms by (rule Issue_refused)

theorem checkout_refused_witness:
  "isl (Issue grant_service second_env inspector (checkout_input\<lparr>xk_OperationID := ''again''\<rparr>) checked_out) \<and>
   isl (Issue grant_service sample_env inspector checkout_input (field_db\<lparr>inspections :=
     map (\<lambda>i. i\<lparr>in_assigned_inspector_subject_id := None\<rparr>) (inspections field_db) @
     map (\<lambda>i. i\<lparr>in_id := ''other''\<rparr>) (inspections field_db)\<rparr>))"
proof
  have "map (\<lambda>g. (gr_subject_id g, gr_device_id g, gr_package_id g)) (offline_grants checked_out) =
    [(''inspector'', ''DEV'', ''PK'')]" by code_simp
  then have "\<exists>g \<in> set (offline_grants checked_out). gr_subject_id g = ''inspector'' \<and> gr_device_id g = ''DEV'' \<and>
    gr_package_id g = ''PK''" by (auto simp: map_eq_Cons_conv)
  moreover have "stored_response (checkout_scope inspector) ''again'' (ledger checked_out) = None" by code_simp
  ultimately show "isl (Issue grant_service second_env inspector (checkout_input\<lparr>xk_OperationID := ''again''\<rparr>) checked_out)"
    by (intro checkout_refused) (simp_all add: checkout_input_def principal_def)
  let ?db = "field_db\<lparr>inspections := map (\<lambda>i. i\<lparr>in_assigned_inspector_subject_id := None\<rparr>) (inspections field_db) @
     map (\<lambda>i. i\<lparr>in_id := ''other''\<rparr>) (inspections field_db)\<rparr>"
  have "case find (\<lambda>p. pk_id p = xk_PackageID checkout_input \<and> pk_canonical_scope_snapshot_id p \<noteq> None)
      (inspection_packages ?db) of None \<Rightarrow> False
    | Some p \<Rightarrow> map_option in_assigned_inspector_subject_id (lookup in_id (pk_inspection_id p) (inspections ?db)) = Some None"
    by code_simp
  then obtain p i where
    "find (\<lambda>p. pk_id p = xk_PackageID checkout_input \<and> pk_canonical_scope_snapshot_id p \<noteq> None) (inspection_packages ?db) =
       Some p" "lookup in_id (pk_inspection_id p) (inspections ?db) = Some i" "in_assigned_inspector_subject_id i = None"
    by (auto split: option.split_asm)
  moreover have "stored_response (checkout_scope inspector) (xk_OperationID checkout_input) (ledger ?db) = None" by code_simp
  ultimately show "isl (Issue grant_service sample_env inspector checkout_input ?db)"
    by (intro checkout_refused) blast+
qed

section \<open>Pulled changes\<close>

text \<open>C36: a page hands out exactly the next changes, in order and each decoded by its kind; it announces more
  when there are more, and the changes after its last one are exactly the rest: nothing is skipped and
  nothing comes twice.\<close>

theorem pull_pages:
  assumes "pull_page crypto env actor authority input mark db = Inr (db', page)" "ledger_wf (ledger db)"
    and "sent = take (pull_limit (pu_Limit input)) (pending_changes actor authority mark db)" "sent \<noteq> []"
  shows "map Inr (pl_Changes page) = map (\<lambda>c. safeAuthorizedChange (sy_kind c) (sy_payload c)) sent \<and>
    pending_changes actor authority mark db =
      sent @ pending_changes actor authority (sy_sequence_id (last sent)) db' \<and>
    (pl_HasMore page \<longleftrightarrow> pending_changes actor authority (sy_sequence_id (last sent)) db' \<noteq> [])"
proof -
  note page = pull_page_Inr [OF assms(1)]
  have same: "pending_changes actor authority m db' = pending_changes actor authority m db" for m
    using page(4) by (simp add: pending_changes_def)
  from pending_changes_after [OF assms(2), of "pull_limit (pu_Limit input)" actor authority mark] assms(3,4)
  have "pending_changes actor authority (sy_sequence_id (last sent)) db =
    drop (pull_limit (pu_Limit input)) (pending_changes actor authority mark db)" by simp
  with page(1,2) assms(3) show ?thesis by (auto simp: same)
qed

theorem pull_pages_witness:
  "\<exists>db' page. pull_page field_crypto sample_env inspector field_authority page_input 0 changes_db = Inr (db', page) \<and>
     pending_changes inspector field_authority 0 changes_db =
       answer_change 1 ''COMPLIANT'' # pending_changes inspector field_authority 1 db'"
proof -
  obtain db' page where p: "pull_page field_crypto sample_env inspector field_authority page_input 0 changes_db =
      Inr (db', page)"
    using page_pulled by (cases "pull_page field_crypto sample_env inspector field_authority page_input 0 changes_db") auto
  from pull_pages [OF p changes_wf page_sent [symmetric]] p show ?thesis by (simp add: answer_change_def)
qed

section \<open>Attachments\<close>

text \<open>C37: the layout of the parts is exact: receipts are accepted exactly when they are, in the order of their
  numbers, the consecutive parts \<open>1..n\<close> of the declared size, all full but the last, each with the offset it
  ends at, a digest and an object version.\<close>

theorem part_layout_exact:
  assumes "sint bytes + sint part \<le> 2 ^ 63"
  shows "validateResumablePartLayout bytes part receipts = None \<longleftrightarrow>
    0 \<le> sint bytes \<and> 0 < sint part \<and> length receipts = part_count (sint bytes) (sint part) \<and>
    (\<forall>i < length receipts. whole_part (sint bytes) (sint part) i (ordered_receipts receipts ! i))"
  using assms by (rule validate_layout_exact)

theorem part_layout_exact_witness:
  "validateResumablePartLayout 6 defaultPartSize [whole_receipt] = None \<longleftrightarrow>
     whole_part 6 (5 * 1024 * 1024) 0 whole_receipt"
proof -
  have d: "sint (6 :: i64) = 6" "sint defaultPartSize = 5 * 1024 * 1024" by code_simp+
  have "ordered_receipts [whole_receipt] = [whole_receipt]" by (simp add: ordered_receipts_def)
  with part_layout_exact [of 6 defaultPartSize "[whole_receipt]", unfolded d] show ?thesis
    by (simp add: part_count_def)
qed

text \<open>C38: an attachment is completed only by the subject of its session and only from parts the store still
  holds: for each receipt, in their order, the session has an acknowledged part of the number, size, digest and
  object version of the receipt, the store delivers under the key of that part the bytes themselves, complete and
  of that size and digest, and together they are exactly the declared number of bytes. The whole object is made of
  them, or is the one already there, checked against the declaration (\<open>final_object\<close>).\<close>

theorem attachment_parts_complete:
  assumes "complete_attachment_body service env actor input db = Inr (db', resp)"
    and "sint (sv_maximumByteSize service) < 2 ^ 63 - 1"
    and "\<forall>u \<in> set (upload_sessions db). \<forall>p. us_part_size_bytes u = Some p \<longrightarrow>
      sint (us_declared_size_bytes u) + sint p \<le> 2 ^ 63"
  shows "\<exists>session contents. session \<in> set (upload_sessions db) \<and> us_id session = ki_UploadID input \<and>
    us_initiated_by_subject_id session = SubjectID actor \<and> length contents = length (ki_Parts input) \<and>
    (\<forall>i < length contents. \<exists>part \<in> set (inspection_attachment_upload_parts db).
      up_upload_session_id part = us_id session \<and> up_session_epoch part = us_session_epoch session \<and>
      part_holds service (us_bucket_name session) part (ordered_receipts (ki_Parts input) ! i) (contents ! i)) \<and>
    int (length (concat contents)) = sint (us_declared_size_bytes session) \<and>
    \<not> isl (final_object service session (concat contents))"
proof -
  from assms obtain session contents info where
    c: "session \<in> set (upload_sessions db)" "us_id session = ki_UploadID input"
      "us_initiated_by_subject_id session = SubjectID actor" "length contents = length (ki_Parts input)"
      "\<forall>i < length contents. \<exists>part \<in> set (inspection_attachment_upload_parts db).
        up_upload_session_id part = us_id session \<and> up_session_epoch part = us_session_epoch session \<and>
        part_holds service (us_bucket_name session) part (ordered_receipts (ki_Parts input) ! i) (contents ! i)"
      "int (length (concat contents)) = sint (us_declared_size_bytes session)"
    and f: "final_object service session (concat contents) = Inr info"
    by (rule completed_parts_tile) (rule that; assumption)
  from f have "\<not> isl (final_object service session (concat contents))" by (simp only: sum.disc not_False_eq_True)
  with c show ?thesis by (intro exI [of _ session] exI [of _ contents] conjI)
qed

theorem attachment_parts_complete_witness:
  "part_holds sample_service ''quarantine'' (upload_part ''ACKNOWLEDGED'') whole_receipt ''%PDF-1'' \<and>
   \<not> isl (final_object sample_service part_session ''%PDF-1'')"
proof -
  obtain db' resp where c: "complete_attachment_body sample_service second_env inspector attachment_completion_input
      (part_db ''ACKNOWLEDGED'') = Inr (db', resp)"
    using attachment_completed
    by (cases "complete_attachment_body sample_service second_env inspector attachment_completion_input
      (part_db ''ACKNOWLEDGED'')") auto
  have d: "sint (6 :: i64) = 6" "sint defaultPartSize = 5 * 1024 * 1024" by code_simp+
  have s: "upload_sessions (part_db ''ACKNOWLEDGED'') = [part_session]"
    "inspection_attachment_upload_parts (part_db ''ACKNOWLEDGED'') = [upload_part ''ACKNOWLEDGED'']"
    by (simp_all add: part_db_def)
  have limit: "sint (sv_maximumByteSize sample_service) < 2 ^ 63 - 1" by (simp add: sample_service_def)
  have "\<forall>u \<in> set (upload_sessions (part_db ''ACKNOWLEDGED'')). \<forall>p. us_part_size_bytes u = Some p \<longrightarrow>
      sint (us_declared_size_bytes u) + sint p \<le> 2 ^ 63"
    by (simp add: s part_session_def d)
  from attachment_parts_complete [OF c limit this] obtain contents where
    len: "length contents = 1"
    and holds: "part_holds sample_service ''quarantine'' (upload_part ''ACKNOWLEDGED'') whole_receipt (contents ! 0)"
    and final: "\<not> isl (final_object sample_service part_session (concat contents))"
    unfolding s by (auto simp: attachment_completion_input_def part_session_def ordered_receipts_def)
  from len have "concat contents = contents ! 0" by (cases contents) auto
  moreover have "contents ! 0 = ''%PDF-1''"
    using holds by (auto simp: part_holds_def sample_service_def sample_store_def)
  ultimately show ?thesis using holds final by simp
qed

text \<open>C39: a part whose bytes begin like a PDF, PNG or JPEG file, as the first part of every such file does, is
  never acknowledged: its detected type is not the octet stream the service insists on.\<close>

theorem first_part_refused:
  assumes "lookup us_id (pi_UploadID input) (upload_sessions db) = Some session"
    and "find_part (pi_UploadID input) (pi_SessionEpoch input) (pi_PartNumber input) db = Some part"
    and "up_part_state part \<noteq> ''ACKNOWLEDGED''"
    and "stored_response (ack_scope actor) (pi_OperationID input) (ledger db) = None"
    and "os_open (sv_objects service) (us_bucket_name session) (up_part_object_key part) = Some (reader, info)"
    and "rd_bytes reader = signature @ rest" "signature \<in> {pdf_signature, png_signature, jpeg_signature}"
    and "sint (sv_maximumByteSize service) < 2 ^ 63 - 1"
  shows "isl (AcknowledgePart service env actor input db)"
  using acknowledge_refused [OF assms(1-4) observed_part_refused [OF assms(5-8)]] .

theorem first_part_refused_witness: "isl (AcknowledgePart sample_service second_env inspector part_input (part_db ''OPEN''))"
proof (rule first_part_refused [where signature = pdf_signature and rest = "''1''" and
      reader = "\<lparr>rd_bytes = ''%PDF-1'', rd_fails = False\<rparr>"])
  show "lookup us_id (pi_UploadID part_input) (upload_sessions (part_db ''OPEN'')) = Some part_session"
    by (simp add: part_db_def part_session_def part_input_def lookup_def)
  show "find_part (pi_UploadID part_input) (pi_SessionEpoch part_input) (pi_PartNumber part_input) (part_db ''OPEN'') =
      Some (upload_part ''OPEN'')"
    by (simp add: find_part_def part_db_def upload_part_def part_input_def)
  show "stored_response (ack_scope inspector) (pi_OperationID part_input) (ledger (part_db ''OPEN'')) = None"
    by code_simp
qed (simp_all add: upload_part_def sample_service_def sample_store_def pdf_signature_def)

text \<open>On a store without exact identities no upload of an attachment can be completed: the service makes
  up a version identifier but leaves the entity tag empty, and the object row may not have one without the
  other.\<close>

theorem unversioned_attachment_refused:
  assumes "\<not> os_requires_exact (sv_objects service)"
    and "\<forall>u \<in> set (upload_sessions db). us_staging_object_key u \<noteq> ''''"
    and "stored_response (complete_attachment_scope actor) (ki_OperationID input) (ledger db) = None"
  shows "isl (attachments_Complete service env actor input db)"
  using assms by (rule attachments_Complete_refused)

theorem unversioned_attachment_refused_witness:
  "isl (attachments_Complete (sample_service\<lparr>sv_objects := unversioned_store\<rparr>) second_env inspector
     attachment_completion_input (part_db ''ACKNOWLEDGED''))"
proof (rule unversioned_attachment_refused)
  show "stored_response (complete_attachment_scope inspector) (ki_OperationID attachment_completion_input)
      (ledger (part_db ''ACKNOWLEDGED'')) = None" by code_simp
qed (simp_all add: unversioned_store_def sample_store_def part_db_def part_session_def)

section \<open>Successors of potential findings\<close>

text \<open>C40: the recursive query that a conversion runs over the predecessors ends, and keeps ending: creating a
  potential finding, at the desk or offline, puts it behind the one it supersedes.\<close>

theorem lineage_terminates:
  assumes "parents_first (potential_findings db)"
    and "CreatePotentialFinding_handler env actor command ids db = Inr (db', result) \<or>
      sync_createPotentialFinding env actor authority input payload db = Inr (db', m)"
  shows "lineage (Suc (length (potential_findings db'))) (potential_findings db') pid \<noteq> None \<and>
    parents_first (potential_findings db')"
proof -
  have "parents_first (potential_findings db')"
    using assms CreatePotentialFinding_parents_first sync_createPotentialFinding_parents_first by blast
  with lineage_ends show ?thesis by blast
qed

text \<open>
  An answer that needs a finding, whose first potential finding was returned: the next one supersedes it.
  When that one is returned as well, both have the same revision, and the greater identifier decides
  which of them the third supersedes, not the order of their creation.
\<close>

definition returned_potential :: "string \<Rightarrow> string option \<Rightarrow> PotentialFinding" where
  "returned_potential pid predecessor = sample_potential\<lparr>p_id := pid, p_checklist_response_id := ''R'',
     p_status := PStatusReturned, p_revision := 2, p_supersedes_potential_finding_id := predecessor\<rparr>"

definition returned_db :: "PotentialFinding list \<Rightarrow> DB" where
  "returned_db rows = answered_db\<lparr>potential_findings := rows, checklist_responses :=
     map (\<lambda>r. r\<lparr>cr_response_value := ''NON_COMPLIANT''\<rparr>) (checklist_responses answered_db)\<rparr>"

definition potential_payload :: createPotentialFindingPayload where
  "potential_payload = \<lparr>cf_AuditID = ''INS'', cf_QuestionID = ''Q'', cf_ChecklistResponseID = ''R'',
     cf_ExpectedChecklistResponseRevision = Some 1, cf_Title = ''t'', cf_Description = ''d'',
     cf_RequiredComment = ''c'', cf_InspectionAttachmentIDs = None\<rparr>"

lemma successor_by_identifier:
  "latest_potential ''R'' (returned_db [returned_potential ''B'' None, returned_potential ''A'' (Some ''B'')]) =
     Some (returned_potential ''B'' None)"
  by code_simp

theorem lineage_terminates_witness:
  "\<exists>db' m. sync_createPotentialFinding sample_env inspector field_authority field_operation potential_payload
       (returned_db [returned_potential ''A'' None]) = Inr (db', m) \<and>
     lineage 3 (potential_findings db') ''potential-finding-1'' \<noteq> None"
proof -
  let ?create = "sync_createPotentialFinding sample_env inspector field_authority field_operation potential_payload
    (returned_db [returned_potential ''A'' None])"
  have "case ?create of Inl _ \<Rightarrow> False | Inr (db', m) \<Rightarrow> length (potential_findings db') = 2" by code_simp
  then obtain db' m where c: "?create = Inr (db', m)" "length (potential_findings db') = 2"
    by (auto split: sum.splits)
  have "parents_first (potential_findings (returned_db [returned_potential ''A'' None]))"
    by (simp add: parents_first_def returned_db_def returned_potential_def)
  from lineage_terminates [OF this disjI2 [OF c(1)], of "''potential-finding-1''"] c show ?thesis
    by (simp add: numeral_3_eq_3)
qed

end
