(* ===== verification/CoverageLaws.thy ===== *)
theory CoverageLaws
  imports DeskRuns
begin

text \<open>
  The coverage of questions: what \<open>AssignQuestions\<close> leaves in the table is what the reference operation
  \<open>applyQuestionCoverageOperation\<close> computes.
\<close>

section \<open>Sorted coverage\<close>

lemma coverage_order_inj: "inj coverage_order"
  by (rule injI) (simp add: coverage_order_def)

lemma sorted_coverage_unique:
  assumes "distinct xs" "distinct ys" "set xs = set ys"
  shows "sort_key coverage_order xs = sort_key coverage_order ys"
proof -
  have "map coverage_order (sort_key coverage_order xs) = map coverage_order (sort_key coverage_order ys)"
    by (rule sorted_distinct_set_unique)
      (use assms coverage_order_inj in \<open>simp_all add: distinct_map inj_on_subset [OF _ subset_UNIV]\<close>)
  then show ?thesis using coverage_order_inj by (simp add: inj_map_eq_map)
qed

section \<open>The table\<close>

definition covered :: "string \<Rightarrow> AuditQuestionAssignment list \<Rightarrow> Coverage list" where
  "covered i rows = map coverage_of (filter (\<lambda>q. aq_assignment_id q = i) rows)"

lemma listQuestionAssignments_covered:
  "listQuestionAssignments i db = sort_key coverage_order (covered i (audit_question_assignments db))"
  by (simp add: listQuestionAssignments_def covered_def)

lemma distinct_covered:
  assumes "coverage_wf rows"
  shows "distinct (covered i rows)"
proof -
  have "distinct (map (\<lambda>q. (aq_assignment_id q, coverage_of q)) (filter (\<lambda>q. aq_assignment_id q = i) rows))"
    using assms by (simp add: coverage_wf_def distinct_map_filter)
  then show ?thesis by (auto simp: covered_def distinct_map inj_on_def)
qed

lemma coverage_of_new [simp]:
  "coverage_of \<lparr>aq_assignment_id = i, aq_question_id = qc_QuestionID c, aq_subject_id = qc_SubjectID c,
     aq_revision = r, aq_created_at = t\<rparr> = c"
  by (cases c) (simp add: coverage_of_def)

lemma set_cover_row:
  "set (covered i (cover_row i k now c rows)) =
     (if k = CoverageRemove then set (covered i rows) - {c} else insert c (set (covered i rows)))"
proof (cases "k = CoverageRemove")
  case True
  then show ?thesis by (auto simp: cover_row_def covered_def covers_def)
next
  case keep: False
  show ?thesis
  proof (cases "list_ex (covers i c) rows")
    case True
    with keep show ?thesis by (auto simp: cover_row_def covered_def covers_def list_ex_iff)
  next
    case False
    with keep show ?thesis by (simp add: cover_row_def covered_def)
  qed
qed

lemma set_cover_fold:
  "set (covered i (fold (cover_row i k now) cs rows)) =
     (if k = CoverageRemove then set (covered i rows) - set cs else set (covered i rows) \<union> set cs)"
  by (induction cs arbitrary: rows) (auto simp: set_cover_row)

lemma set_cover_rows:
  "set (covered i (cover_rows i k now cs rows)) =
     (if k = CoverageReplace then set cs else if k = CoverageRemove then set (covered i rows) - set cs
      else set (covered i rows) \<union> set cs)"
  by (auto simp: cover_rows_def set_cover_fold) (auto simp: covered_def)

section \<open>The reference\<close>

text \<open>Text columns hold no NUL byte, so the keys of the map tell coverage apart.\<close>

definition nul_free :: "Coverage \<Rightarrow> bool" where
  "nul_free c \<longleftrightarrow> CHR 0x00 \<notin> set (qc_QuestionID c)"

lemma split_at_first: "x \<notin> set xs \<Longrightarrow> x \<notin> set ys \<Longrightarrow> xs @ x # s = ys @ x # t \<longleftrightarrow> xs = ys \<and> s = t"
proof (induction xs arbitrary: ys)
  case Nil
  then show ?case by (cases ys) auto
next
  case (Cons a xs)
  then show ?case by (cases ys) auto
qed

lemma coverage_key_inj: "nul_free c \<Longrightarrow> nul_free d \<Longrightarrow> coverage_key c = coverage_key d \<longleftrightarrow> c = d"
  by (cases c; cases d) (simp add: coverage_key_def nul_free_def split_at_first)

text \<open>The map of the code: keys of clean coverage.\<close>

definition keyed :: "(string \<times> Coverage) list \<Rightarrow> bool" where
  "keyed result \<longleftrightarrow> distinct (map fst result) \<and> (\<forall>(k, c) \<in> set result. k = coverage_key c \<and> nul_free c)"

lemma keyed_key: "keyed result \<Longrightarrow> (k, c) \<in> set result \<Longrightarrow> k = coverage_key c \<and> nul_free c"
  by (auto simp: keyed_def)

lemma keyed_append:
  assumes "keyed result" "nul_free c" "c \<notin> snd ` set result"
  shows "coverage_key c \<notin> fst ` set result" "keyed (result @ [(coverage_key c, c)])"
proof -
  show fresh: "coverage_key c \<notin> fst ` set result"
  proof
    assume "coverage_key c \<in> fst ` set result"
    then obtain d where d: "(coverage_key c, d) \<in> set result" by auto
    from keyed_key [OF assms(1) this] assms(2) have "d = c" using coverage_key_inj by metis
    with d assms(3) show False by force
  qed
  with assms show "keyed (result @ [(coverage_key c, c)])" by (auto simp: keyed_def)
qed

lemma index_coverage_keyed:
  assumes "keyed result" "\<forall>c \<in> set items. clean_coverage c \<and> nul_free c" "distinct items"
    "set items \<inter> snd ` set result = {}"
  shows "\<exists>out. index_coverage result items = Inr out \<and> keyed out \<and> map snd out = map snd result @ items"
  using assms
proof (induction items arbitrary: result)
  case Nil
  then show ?case by simp
next
  case (Cons c items)
  let ?r = "result @ [(coverage_key c, c)]"
  have c: "trim_coverage c = c" "qc_QuestionID c \<noteq> ''''" "qc_SubjectID c \<noteq> ''''" "nul_free c"
    using Cons.prems(2) by (simp_all add: clean_coverage_def)
  from Cons.prems(4) have "c \<notin> snd ` set result" by auto
  from keyed_append [OF Cons.prems(1) c(4) this]
  have fresh: "coverage_key c \<notin> fst ` set result" and "keyed ?r" .
  with Cons.IH [of ?r] Cons.prems obtain out where "index_coverage ?r items = Inr out" "keyed out"
    "map snd out = map snd ?r @ items" by auto
  with c fresh show ?case by (simp add: Let_def)
qed

lemma keyed_snd:
  assumes "keyed result"
  shows "distinct (map snd result)"
proof -
  have "map fst result = map coverage_key (map snd result)" using assms by (auto simp: keyed_def)
  with assms show ?thesis by (metis distinct_map keyed_def)
qed

lemma apply_coverage_keyed:
  assumes "keyed result" "nul_free c"
  shows "keyed (apply_coverage k c result) \<and> snd ` set (apply_coverage k c result) =
    (if k = CoverageRemove then snd ` set result - {c} else insert c (snd ` set result))"
proof (cases "k = CoverageRemove")
  case True
  let ?kept = "filter (\<lambda>e. fst e \<noteq> coverage_key c) result"
  have delete: "AList.delete (coverage_key c) result = ?kept"
    unfolding AList.delete_eq by (rule filter_cong) auto
  have "fst e \<noteq> coverage_key c \<longleftrightarrow> snd e \<noteq> c" if "e \<in> set result" for e
    using keyed_key [OF assms(1), of "fst e" "snd e"] that assms(2) by (auto simp: coverage_key_inj)
  then have "snd ` set ?kept = snd ` set result - {c}" by (auto simp: image_iff)
  moreover have "keyed ?kept" using assms(1) by (auto simp: keyed_def distinct_map_filter)
  ultimately show ?thesis using True by (simp add: apply_coverage_def delete)
next
  case False
  have "map_of (AList.update (coverage_key c) c result) = (map_of result)(coverage_key c \<mapsto> c)"
    by (simp add: update_conv')
  moreover have d: "distinct (map fst (AList.update (coverage_key c) c result))"
    using assms(1) by (simp add: keyed_def distinct_update)
  ultimately have set: "(j, d) \<in> set (AList.update (coverage_key c) c result) \<longleftrightarrow>
      (if j = coverage_key c then d = c else (j, d) \<in> set result)" for j d
    using assms(1) by (metis keyed_def fun_upd_apply map_of_eq_Some_iff option.inject)
  have "keyed (AList.update (coverage_key c) c result)"
    using d assms by (auto simp: keyed_def set split: if_split_asm)
  moreover have "snd ` set (AList.update (coverage_key c) c result) = insert c (snd ` set result)"
  proof (intro set_eqI iffI)
    fix x
    assume "x \<in> snd ` set (AList.update (coverage_key c) c result)"
    then show "x \<in> insert c (snd ` set result)" by (force simp: set split: if_split_asm)
  next
    fix x
    assume "x \<in> insert c (snd ` set result)"
    then consider "x = c" | j where "(j, x) \<in> set result" by force
    then show "x \<in> snd ` set (AList.update (coverage_key c) c result)"
    proof cases
      case 1
      then show ?thesis using set [of "coverage_key c" c] by force
    next
      case 2
      from keyed_key [OF assms(1) 2] assms(2) have "j = coverage_key c \<longrightarrow> x = c"
        by (auto simp: coverage_key_inj)
      with 2 set [of j x] have "(j, x) \<in> set (AList.update (coverage_key c) c result)" by simp
      then show ?thesis by (metis image_eqI snd_conv)
    qed
  qed
  ultimately show ?thesis using False by (simp add: apply_coverage_def)
qed

lemma fold_apply_coverage:
  assumes "keyed result" "\<forall>c \<in> set cs. nul_free c"
  shows "keyed (fold (apply_coverage k) cs result) \<and> snd ` set (fold (apply_coverage k) cs result) =
    (if k = CoverageRemove then snd ` set result - set cs else snd ` set result \<union> set cs)"
  using assms
proof (induction cs arbitrary: result)
  case (Cons c cs)
  let ?next = "apply_coverage k c result"
  from apply_coverage_keyed [OF Cons.prems(1), of c k] Cons.prems(2) have step: "keyed ?next"
    "snd ` set ?next = (if k = CoverageRemove then snd ` set result - {c} else insert c (snd ` set result))"
    by simp_all
  from Cons.prems(2) have "\<forall>c \<in> set cs. nul_free c" by simp
  note rest = Cons.IH [OF step(1) this]
  then show ?case unfolding step(2) by (auto split: if_split)
qed simp

text \<open>The reference as a set, on clean coverage.\<close>

lemma applyQuestionCoverageOperation_set:
  assumes "validQuestionCoverageOperation k" "normalizedQuestionAssignments affected = Inr cs"
    and current: "\<forall>c \<in> set current. clean_coverage c \<and> nul_free c" "distinct current" and cs: "\<forall>c \<in> set cs. nul_free c"
  obtains out where "applyQuestionCoverageOperation current affected k = Inr (sort_key coverage_order out)"
    "distinct out" "set out = (if k = CoverageReplace then set cs else if k = CoverageRemove then set current - set cs
      else set current \<union> set cs)"
proof -
  obtain base where base: "(if k \<noteq> CoverageReplace then index_coverage [] current else Inr []) = Inr base" "keyed base"
    "snd ` set base = (if k = CoverageReplace then {} else set current)"
  proof (cases "k = CoverageReplace")
    case True
    with that [of "[]"] show thesis by (simp add: keyed_def)
  next
    case False
    from index_coverage_keyed [of "[]" current] current obtain out where
      "index_coverage [] current = Inr out" "keyed out" "map snd out = current" by (auto simp: keyed_def)
    moreover from this(3) have "snd ` set out = set current" by (metis set_map)
    ultimately show thesis using that [of out] False by simp
  qed
  from fold_apply_coverage [OF base(2) cs, of k] base(3)
  show thesis
    using assms(1,2) base(1)
    by (intro that [of "map snd (fold (apply_coverage k) cs base)"])
      (auto simp: applyQuestionCoverageOperation_def keyed_snd)
qed

lemma cover_rows_reference:
  assumes wf: "coverage_wf rows" and k: "validQuestionCoverageOperation k"
    and cs: "normalizedQuestionAssignments affected = Inr cs"
    and nul: "\<forall>c \<in> set (covered i rows) \<union> set cs. nul_free c"
  shows "applyQuestionCoverageOperation (sort_key coverage_order (covered i rows)) affected k =
    Inr (sort_key coverage_order (covered i (cover_rows i k now cs rows)))"
proof -
  have clean: "\<forall>c \<in> set (covered i rows). clean_coverage c" using wf by (auto simp: coverage_wf_def covered_def)
  let ?current = "sort_key coverage_order (covered i rows)"
  have current: "\<forall>c \<in> set ?current. clean_coverage c \<and> nul_free c" "distinct ?current" "\<forall>c \<in> set cs. nul_free c"
    using clean nul distinct_covered [OF wf] by simp_all
  obtain out where out: "applyQuestionCoverageOperation ?current affected k = Inr (sort_key coverage_order out)"
    "distinct out" "set out = (if k = CoverageReplace then set cs else if k = CoverageRemove
      then set ?current - set cs else set ?current \<union> set cs)"
    by (rule applyQuestionCoverageOperation_set [OF k cs current])
  have "distinct (covered i (cover_rows i k now cs rows))"
    by (rule distinct_covered, rule cover_rows_wf [OF wf normalized_clean [OF cs]])
  from sorted_coverage_unique [OF out(2) this] out(1,3) show ?thesis by (simp add: set_cover_rows)
qed

end
