(* ===== verification/MaterializationLaws.thy ===== *)
theory MaterializationLaws
  imports DeskRuns
begin

text \<open>
  The package of a materialized inspection: question by question it holds the inspectors of the receipt
  that was confirmed.
\<close>

section \<open>Stored questions\<close>

text \<open>
  The primary keys of the tables that no command writes: one row per question of a scope, one membership
  per question of a catalog, one row per question version.
\<close>

definition scope_keys :: "DB \<Rightarrow> bool" where
  "scope_keys db \<longleftrightarrow>
     distinct (map (\<lambda>s. (sq_snapshot_id s, sq_question_version_id s)) (snapshot_questions db)) \<and>
     distinct (map (\<lambda>m. (cm_catalog_id m, cm_question_version_id m)) (catalog_memberships (preparation db))) \<and>
     distinct (map qv_id (question_versions db))"

lemma subjects_of_row:
  assumes "distinct (map fst entries)" "i < length entries" "entries ! i = (q, subjects)"
  shows "map pz_subject_id (filter (\<lambda>z. pz_question_version_id z = q \<and> pz_position z = int (n + i))
    (concat (map (\<lambda>(position, q, subjects). map (\<lambda>s. \<lparr>pz_preparation_id = k,
         pz_released_scope_snapshot_id = snapshotID, pz_question_version_id = q, pz_subject_id = s,
         pz_position = int position\<rparr>) subjects) (enumerate n entries)))) = subjects"
  using assms
proof (induction entries arbitrary: n i)
  case (Cons e entries)
  obtain q0 s0 where e: "e = (q0, s0)" by (cases e)
  show ?case
  proof (cases i)
    case 0
    with Cons.prems e have "q = q0" "subjects = s0" "q \<notin> fst ` set entries" by auto
    with 0 e show ?thesis
      by (auto simp: comp_def filter_empty_conv in_set_enumerate_eq intro: filter_True)
  next
    case (Suc j)
    with Cons.prems e have j: "j < length entries" "entries ! j = (q, subjects)" "distinct (map fst entries)" by simp_all
    then have "q \<in> fst ` set entries" by (metis fst_conv image_eqI nth_mem)
    with Cons.prems(1) e have "q \<noteq> q0" by auto
    with Cons.IH [OF j(3,1,2), of "Suc n"] e Suc show ?thesis by simp
  qed
qed simp

lemma question_rows_questions:
  assumes "\<forall>e \<in> set entries. snd e \<noteq> []"
  shows "pz_question_version_id ` set (question_rows k s entries) = fst ` set entries"
proof -
  have "pz_question_version_id ` set (concat (map (\<lambda>(position, q, subjects). map (\<lambda>x. \<lparr>pz_preparation_id = k,
         pz_released_scope_snapshot_id = s, pz_question_version_id = q, pz_subject_id = x,
         pz_position = int position\<rparr>) subjects) (enumerate n entries))) = fst ` set entries" for n
    using assms
  proof (induction entries arbitrary: n)
    case (Cons e entries)
    then show ?case by (cases e) (simp add: image_Un image_image image_constant_conv)
  qed simp
  then show ?thesis by (simp add: question_rows_def)
qed

section \<open>The package\<close>

lemma unique_filter:
  assumes "distinct (map f rows)" "\<And>x y. P x \<Longrightarrow> P y \<Longrightarrow> f x = f y"
  shows "length (filter P rows) \<le> 1"
  using assms(1)
proof (induction rows)
  case (Cons x rows)
  then show ?case using assms(2) by (auto simp: filter_empty_conv)
qed simp

lemma concat_at_most_one:
  assumes "\<forall>x \<in> set xs. length (f x) \<le> 1" "length (concat (map f xs)) = length xs"
  shows "\<forall>x \<in> set xs. length (f x) = 1"
  using assms
proof (induction xs)
  case (Cons x xs)
  have "length (concat (map f xs)) \<le> length xs"
    using Cons.prems(1) by (induction xs) auto
  with Cons.prems have "length (f x) = 1" "length (concat (map f xs)) = length xs" by auto
  with Cons show ?case by simp
qed simp

definition package_inner :: "string \<Rightarrow> string \<Rightarrow> DB \<Rightarrow> SnapshotQuestion \<Rightarrow> PackageQuestion list" where
  "package_inner catalogID preparationID db s =
     concat (map (\<lambda>m. map (\<lambda>v. \<lparr>kq_id = qv_id v, kq_sectionId = cm_form_code m,
          kq_prompt = qv_prompt v, kq_regulatoryReference = qv_configured_reference v,
          kq_expectedEvidence = qv_expected_evidence v,
          kq_assignedInspectorUserIds = package_subjects preparationID s db\<rparr>)
        (filter (\<lambda>v. qv_id v = sq_question_version_id s) (question_versions db)))
       (filter (\<lambda>m. cm_catalog_id m = catalogID \<and> cm_question_version_id m = sq_question_version_id s)
         (catalog_memberships (preparation db))))"

definition scope_rows :: "string \<Rightarrow> DB \<Rightarrow> SnapshotQuestion list" where
  "scope_rows snapshotID db = sort_key sq_position (filter (\<lambda>s. sq_snapshot_id s = snapshotID) (snapshot_questions db))"

lemma package_questions_inner:
  "package_questions catalogID snapshotID preparationID db =
     concat (map (package_inner catalogID preparationID db) (scope_rows snapshotID db))"
  by (simp add: package_questions_def package_inner_def [abs_def] scope_rows_def)

lemma package_inner_length:
  assumes "scope_keys db"
  shows "length (package_inner catalogID preparationID db s) \<le> 1"
proof -
  let ?ms = "filter (\<lambda>m. cm_catalog_id m = catalogID \<and> cm_question_version_id m = sq_question_version_id s)
         (catalog_memberships (preparation db))"
  let ?vs = "filter (\<lambda>v. qv_id v = sq_question_version_id s) (question_versions db)"
  have "length ?ms \<le> 1"
    by (rule unique_filter [where f = "\<lambda>m. (cm_catalog_id m, cm_question_version_id m)"])
      (use assms in \<open>auto simp: scope_keys_def\<close>)
  moreover have "length ?vs \<le> 1"
    by (rule unique_filter [where f = qv_id]) (use assms in \<open>auto simp: scope_keys_def\<close>)
  ultimately show ?thesis
    by (cases ?ms rule: list.exhaust) (auto simp: package_inner_def)
qed

lemma package_inner_views:
  assumes "length (package_inner catalogID preparationID db s) = 1"
  shows "map (\<lambda>q. (kq_id q, kq_assignedInspectorUserIds q)) (package_inner catalogID preparationID db s) =
    [(sq_question_version_id s, package_subjects preparationID s db)]"
proof -
  from assms obtain q where q: "package_inner catalogID preparationID db s = [q]"
    by (auto simp: length_Suc_conv)
  then have "q \<in> set (package_inner catalogID preparationID db s)" by simp
  then have "kq_id q = sq_question_version_id s" "kq_assignedInspectorUserIds q = package_subjects preparationID s db"
    by (auto simp: package_inner_def)
  with q show ?thesis by simp
qed

lemma map_concat_single:
  "\<forall>x \<in> set xs. map g (f x) = [h x] \<Longrightarrow> map g (concat (map f xs)) = map h xs"
  by (induction xs) auto

text \<open>The subjects of a question of the scope are those of the receipt.\<close>

lemma receipt_subjects:
  assumes receipt: "receipt_of db a p" and placed: "questions_placed db" and keys: "scope_keys db"
    and s: "s \<in> set (scope_rows (ph_released_scope_snapshot_id p) db)"
  shows "package_subjects (ph_id p) s db =
    sort (subjects_of (listQuestionAssignments (aa_id a) db) (sq_question_version_id s))"
proof -
  let ?ssid = "ph_released_scope_snapshot_id p" and ?cov = "listQuestionAssignments (aa_id a) db"
  let ?rows = "scope_rows ?ssid db" and ?entries = "py_coverage (ph_snapshot p)"
  let ?subjects = "\<lambda>q. sort (subjects_of ?cov q)"
  have ids: "snapshot_question_ids ?ssid db = map sq_question_version_id ?rows"
    by (simp add: snapshot_question_ids_def scope_rows_def)
  have entries: "?entries = map (\<lambda>s. (sq_question_version_id s, ?subjects (sq_question_version_id s))) ?rows"
    using receipt by (simp add: receipt_of_def ids coverage_entries_def)
  have stored: "filter (\<lambda>z. pz_preparation_id z = ph_id p) (preparation_questions (preparation db)) =
      question_rows (ph_id p) ?ssid ?entries" using receipt by (simp add: receipt_of_def)
  have snapshot: "sq_snapshot_id s = ?ssid" "s \<in> set (snapshot_questions db)" using s by (auto simp: scope_rows_def)
  have unique: "t = s" if "t \<in> set (snapshot_questions db)" "sq_snapshot_id t = ?ssid"
    "sq_question_version_id t = sq_question_version_id s" for t
  proof -
    have "inj_on (\<lambda>s. (sq_snapshot_id s, sq_question_version_id s)) (set (snapshot_questions db))"
      using keys by (simp add: scope_keys_def distinct_map)
    then show ?thesis by (rule inj_onD) (use that snapshot in simp_all)
  qed
  have "distinct (map (\<lambda>s. (sq_snapshot_id s, sq_question_version_id s)) (filter (\<lambda>s. sq_snapshot_id s = ?ssid)
      (snapshot_questions db)))" using keys by (simp add: scope_keys_def distinct_map_filter)
  then have "distinct (map sq_question_version_id (filter (\<lambda>s. sq_snapshot_id s = ?ssid) (snapshot_questions db)))"
    by (auto simp: distinct_map inj_on_def)
  then have "distinct (map sq_question_version_id ?rows)"
    by (simp add: scope_rows_def distinct_map)
  then have fsts: "distinct (map fst ?entries)" by (simp add: entries comp_def)
  from s obtain i where i: "i < length ?rows" "?rows ! i = s" by (auto simp: in_set_conv_nth)
  let ?subj = "?subjects (sq_question_version_id s)"
  have entry: "i < length ?entries" "?entries ! i = (sq_question_version_id s, ?subj)"
    using i by (simp_all add: entries)
  have listed: "map pz_subject_id (filter (\<lambda>z. pz_question_version_id z = sq_question_version_id s \<and>
      pz_position z = int i) (question_rows (ph_id p) ?ssid ?entries)) = ?subj"
    using subjects_of_row [OF fsts entry, of 0] by (simp add: question_rows_def)
  have "(sq_question_version_id s, ?subj) \<in> set ?entries" using entry by (metis nth_mem)
  moreover have "\<forall>e \<in> set ?entries. snd e \<noteq> []" using receipt unfolding receipt_of_def by blast
  ultimately have "?subj \<noteq> []" by fastforce
  with listed obtain z where z: "z \<in> set (question_rows (ph_id p) ?ssid ?entries)"
    "pz_question_version_id z = sq_question_version_id s" "pz_position z = int i"
    by (metis (mono_tags, lifting) filter_empty_conv list.map_disc_iff)
  have zs: "z \<in> set (preparation_questions (preparation db))" using z(1) stored by (metis filter_is_subset subsetD)
  have "pz_released_scope_snapshot_id z = ?ssid" using z(1) by (auto simp: question_rows_def)
  with placed zs z obtain t where "t \<in> set (snapshot_questions db)" "sq_snapshot_id t = ?ssid"
    "sq_question_version_id t = sq_question_version_id s" "sq_position t = int i"
    by (auto simp: questions_placed_def question_placed_def list_ex_iff)
  with unique have position: "sq_position s = int i" by blast
  have "filter (\<lambda>q. pz_preparation_id q = ph_id p \<and> pz_released_scope_snapshot_id q = sq_snapshot_id s \<and>
        pz_question_version_id q = sq_question_version_id s \<and> pz_position q = sq_position s)
       (preparation_questions (preparation db)) =
      filter (\<lambda>q. pz_question_version_id q = sq_question_version_id s \<and> pz_position q = int i)
        (filter (\<lambda>z. pz_preparation_id z = ph_id p) (preparation_questions (preparation db)))"
    unfolding filter_filter position snapshot
  proof (rule filter_cong [OF refl])
    fix q
    assume "q \<in> set (preparation_questions (preparation db))"
    then have "pz_preparation_id q = ph_id p \<Longrightarrow> q \<in> set (question_rows (ph_id p) ?ssid ?entries)"
      unfolding stored [symmetric] by simp
    then have "pz_preparation_id q = ph_id p \<Longrightarrow> pz_released_scope_snapshot_id q = ?ssid"
      by (auto simp: question_rows_def)
    then show "(pz_preparation_id q = ph_id p \<and> pz_released_scope_snapshot_id q = ?ssid \<and>
        pz_question_version_id q = sq_question_version_id s \<and> pz_position q = int i) =
       (pz_preparation_id q = ph_id p \<and> pz_question_version_id q = sq_question_version_id s \<and> pz_position q = int i)"
      by blast
  qed
  then have "package_subjects (ph_id p) s db = sort (map pz_subject_id
      (filter (\<lambda>q. pz_question_version_id q = sq_question_version_id s \<and> pz_position q = int i)
        (question_rows (ph_id p) ?ssid ?entries)))"
    by (simp only: package_subjects_def stored)
  with listed show ?thesis by (simp add: sorted_sort_id)
qed

lemma package_is_receipt:
  assumes receipt: "receipt_of db a p" and placed: "questions_placed db" and keys: "scope_keys db"
    and prepared: "prepared_question_count (ph_id p) (ph_released_scope_snapshot_id p) db = count"
    and questions: "int (length (package_questions catalogID (ph_released_scope_snapshot_id p) (ph_id p) db)) = count"
  shows "map (\<lambda>q. (kq_id q, kq_assignedInspectorUserIds q))
      (package_questions catalogID (ph_released_scope_snapshot_id p) (ph_id p) db) = py_coverage (ph_snapshot p)"
proof -
  let ?ssid = "ph_released_scope_snapshot_id p" and ?rows = "scope_rows (ph_released_scope_snapshot_id p) db"
  let ?entries = "py_coverage (ph_snapshot p)"
  have ids: "snapshot_question_ids ?ssid db = map sq_question_version_id ?rows"
    by (simp add: snapshot_question_ids_def scope_rows_def)
  have entries: "?entries = map (\<lambda>s. (sq_question_version_id s,
      sort (subjects_of (listQuestionAssignments (aa_id a) db) (sq_question_version_id s)))) ?rows"
    using receipt by (simp add: receipt_of_def ids coverage_entries_def)
  have stored: "filter (\<lambda>z. pz_preparation_id z = ph_id p) (preparation_questions (preparation db)) =
      question_rows (ph_id p) ?ssid ?entries" using receipt by (simp add: receipt_of_def)
  let ?placed = "filter (\<lambda>q. pz_preparation_id q = ph_id p \<and> pz_released_scope_snapshot_id q = ?ssid \<and>
        list_ex (\<lambda>s. sq_snapshot_id s = ?ssid \<and> sq_question_version_id s = pz_question_version_id q \<and>
          sq_position s = pz_position q) (snapshot_questions db)) (preparation_questions (preparation db))"
  have "set ?placed = set (question_rows (ph_id p) ?ssid ?entries)"
  proof -
    have "q \<in> set (question_rows (ph_id p) ?ssid ?entries) \<Longrightarrow> pz_released_scope_snapshot_id q = ?ssid" for q
      by (auto simp: question_rows_def)
    then show ?thesis
      using placed unfolding stored [symmetric] by (auto simp: questions_placed_def question_placed_def)
  qed
  then have "pz_question_version_id ` set ?placed = fst ` set ?entries"
    using question_rows_questions [of ?entries] receipt by (simp add: receipt_of_def)
  also have "\<dots> = set (map sq_question_version_id ?rows)" by (simp add: entries image_image)
  finally have distinct_count: "prepared_question_count (ph_id p) ?ssid db =
      int (card (set (map sq_question_version_id ?rows)))"
    by (simp add: prepared_question_count_def length_remdups_card_conv)
  have "distinct (map (\<lambda>s. (sq_snapshot_id s, sq_question_version_id s)) (filter (\<lambda>s. sq_snapshot_id s = ?ssid)
      (snapshot_questions db)))" using keys by (simp add: scope_keys_def distinct_map_filter)
  then have "distinct (map sq_question_version_id ?rows)"
    by (auto simp: distinct_map inj_on_def scope_rows_def)
  then have "card (set (map sq_question_version_id ?rows)) = length ?rows"
    by (metis distinct_card length_map)
  then have "count = int (length ?rows)"
    using prepared distinct_count by simp
  with questions have "length (concat (map (package_inner catalogID (ph_id p) db) ?rows)) = length ?rows"
    by (simp add: package_questions_inner)
  then have "\<forall>s \<in> set ?rows. length (package_inner catalogID (ph_id p) db s) = 1"
    by (intro concat_at_most_one) (use package_inner_length [OF keys] in blast)+
  then have "map (\<lambda>q. (kq_id q, kq_assignedInspectorUserIds q)) (package_questions catalogID ?ssid (ph_id p) db) =
      map (\<lambda>s. (sq_question_version_id s, package_subjects (ph_id p) s db)) ?rows"
    unfolding package_questions_inner by (intro map_concat_single) (simp add: package_inner_views)
  also have "\<dots> = ?entries" unfolding entries by (rule map_cong [OF refl]) (simp add: receipt_subjects [OF receipt placed keys])
  finally show ?thesis .
qed

end
