(* ===== verification/DateAgreement.thy ===== *)
theory DateAgreement
  imports DeskRuns
begin

text \<open>
  Who agrees on the date of an audit: of all the steps of the system only the answer of the Auditee and
  the review of the Department Manager take an assignment to CONFIRMED.
\<close>

section \<open>Steps that confirm nothing\<close>

definition no_confirmation :: "DB \<Rightarrow> DB \<Rightarrow> bool" where
  "no_confirmation db db' \<longleftrightarrow>
     (\<forall>a \<in> set (audit_assignments db'). aa_status a = StatusConfirmed \<longrightarrow> a \<in> set (audit_assignments db))"

lemma no_confirmation_refl [simp, intro]: "no_confirmation db db"
  by (simp add: no_confirmation_def)

lemma no_confirmation_cong: "audit_assignments db' = audit_assignments db \<Longrightarrow> no_confirmation db db'"
  by (simp add: no_confirmation_def)

lemma same_desk_confirms_nothing: "same_desk db db' \<Longrightarrow> no_confirmation db db'"
  by (rule no_confirmation_cong) (simp add: same_desk_def)

lemma no_confirmation_ledger [simp]: "no_confirmation db (db'\<lparr>ledger := l\<rparr>) \<longleftrightarrow> no_confirmation db db'"
  by (simp add: no_confirmation_def)

lemma update_confirms_nothing:
  assumes "update_assignment i matches change db = Inr (updated, db')"
    and "\<And>a. matches a \<Longrightarrow> aa_status (change a) \<noteq> StatusConfirmed"
  shows "no_confirmation db db'"
  using assms by (auto simp: update_assignment_Inr no_confirmation_def)

lemma status_confirms_nothing:
  "updateAssignmentStatus env current status now db = Inr (output, db') \<Longrightarrow> status \<noteq> StatusConfirmed \<Longrightarrow>
     no_confirmation db db'"
  by (erule updateAssignmentStatus_Inr) (rule update_confirms_nothing, assumption, simp)

text \<open>The rows of a handler that reads \<open>base\<close> and only rewrites other tables after the update.\<close>

lemma no_confirmation_between:
  "no_confirmation base mid \<Longrightarrow> audit_assignments base = audit_assignments db \<Longrightarrow>
     audit_assignments db' = audit_assignments mid \<Longrightarrow> no_confirmation db db'"
  by (simp add: no_confirmation_def)

lemma Prepare_confirms_nothing:
  "Prepare_handler env actor command db = Inr (db', result) \<Longrightarrow> no_confirmation db db'"
  by (erule Prepare_handler_Inr) (auto simp: no_confirmation_def prepared_assignment_def)

lemma AssignLead_confirms_nothing:
  assumes "AssignLead_handler env actor command db = Inr (db', result)"
  shows "no_confirmation db db'"
proof -
  from assms obtain a planned mid where "current_assignment (al_AssignmentID command) db = Some a"
    and run: "update_assignment (al_AssignmentID command) (\<lambda>b. aa_status b = StatusPreparation \<and> aa_revision b = aa_revision a)
       (lead_update env (al_LeadSubjectID command) planned) db = Inr (True, mid)"
    and db': "db' = mid\<lparr>audit_team_members := audit_team_members mid @ [lead_member env command]\<rparr>"
    by (rule AssignLead_handler_Inr) (rule that; assumption)
  have "no_confirmation db mid" by (rule update_confirms_nothing [OF run]) (simp add: lead_update_def)
  then show ?thesis by (rule no_confirmation_between) (simp_all add: db')
qed

lemma Preview_confirms_nothing:
  "PreviewTeam_handler digests env actor c members db = Inr (db', result) \<Longrightarrow> no_confirmation db db'"
  "PreviewQuestions_handler digests env actor d coverage db = Inr (db', result') \<Longrightarrow> no_confirmation db db'"
  by (auto simp: PreviewTeam_handler_def PreviewQuestions_handler_def check_error_Inr bind_result_Inr if_Inl_Inr
      elim!: store_preview_Inr intro!: no_confirmation_cong)

lemma AssignTeam_confirms_nothing:
  assumes "AssignTeam_handler digests env actor command members db = Inr (db', result)"
  shows "no_confirmation db db'"
proof -
  from assms obtain a consumed updated mid kind revision snapshot actor' edit where
    "consumePreparationPreview digests (mt_PreviewID command) (mt_PreviewDigest command)
       (mt_AssignmentID command) (mt_ExpectedRevision command) ''TEAM'' (SubjectID actor)
       (TeamSnapshot members) (env_clock env 0) db = Inr consumed"
    and run: "updateAssignmentStatus env (assignment_view env a) StatusTeamAssigned (env_clock env 1)
       (AssignTeam_rows env command members consumed) = Inr (updated, mid)"
    and "recordPreparationEdit digests (mt_AssignmentID command) revision kind actor' edit mid = Inr db'"
    by (rule AssignTeam_handler_Inr) (rule that; assumption)
  then show ?thesis
    by (intro no_confirmation_between [OF status_confirms_nothing [OF run]])
      (auto elim!: consume_Inr record_edit_Inr simp: AssignTeam_rows_def Let_def)
qed

lemma AssignQuestions_confirms_nothing:
  assumes "AssignQuestions_handler digests env actor command coverage db = Inr (db', result)"
  shows "no_confirmation db db'"
proof -
  from assms obtain a consumed allowed updated mid kind revision snapshot actor' edit rows where
    "consumePreparationPreview digests (mq_PreviewID command) (mq_PreviewDigest command)
       (mq_AssignmentID command) (mq_ExpectedRevision command) ''QUESTION_COVERAGE'' (SubjectID actor)
       (CoverageSnapshot (mq_OperationKind command) coverage) (env_clock env 0) db = Inr consumed"
    and run: "updateAssignmentStatus env (assignment_view env a) StatusQuestionsAssigned (env_clock env 1)
       (consumed\<lparr>audit_question_assignments := rows\<rparr>) = Inr (updated, mid)"
    and "recordPreparationEdit digests (mq_AssignmentID command) revision kind actor' edit mid = Inr db'"
    by (rule AssignQuestions_handler_Inr) (rule that; assumption)
  then show ?thesis
    by (intro no_confirmation_between [OF status_confirms_nothing [OF run]]) (auto elim!: consume_Inr record_edit_Inr)
qed

lemma ConfirmPreparation_confirms_nothing:
  assumes "ConfirmPreparation_handler digests env actor command db = Inr (db', result)"
  shows "no_confirmation db db'"
proof -
  from assms obtain a joined snapshot entries where
    writes: "confirm_writes digests env actor (assignment_view env a) joined snapshot entries db = Inr (db', result)"
    by (rule ConfirmPreparation_handler_Inr) (rule that; assumption)
  from writes obtain base where base: "audit_assignments base = audit_assignments db"
    and run: "update_assignment (an_ID (assignment_view env a))
       (\<lambda>b. aa_status b = StatusQuestionsAssigned \<and> aa_revision b = an_Revision (assignment_view env a))
       (\<lambda>b. b\<lparr>aa_revision := aa_revision b + 1, aa_updated_at := env_clock env 0\<rparr>) base = Inr (True, db')"
    by (rule confirm_writes_Inr) (rule that; simp)
  show ?thesis
    by (rule no_confirmation_between [OF update_confirms_nothing [OF run] base]) simp_all
qed

lemma Start_confirms_nothing:
  "StartInspection_handler env actor command db = Inr (db', result) \<Longrightarrow> no_confirmation db db'"
  by (erule StartInspection_handler_Inr) (auto simp: no_confirmation_def modify_def Start_assignment_update_def)

lemma Materialize_confirms_nothing:
  assumes wf: "desk_wf db" and run: "MaterializeInspection_handler digests env actor command db = Inr (db', result)"
  shows "no_confirmation db db'"
proof -
  from wf run obtain a inspectionID noticePolicy where
    rows: "audit_assignments db' =
       replaced (materialized env inspectionID (materialize_status noticePolicy) a) (audit_assignments db)"
    by (rule Materialize_desk) (rule that; assumption)
  then show ?thesis
    using materialize_status_cases [of noticePolicy] by (auto simp: no_confirmation_def modify_def materialized_def)
qed
section \<open>The two agreements\<close>

definition agreed_by_auditee :: "DB \<Rightarrow> DB \<Rightarrow> AuditAssignment \<Rightarrow> bool" where
  "agreed_by_auditee db db' a \<longleftrightarrow> (\<exists>digests env actor command resp.
     RespondAuditeeCoordination digests env actor command db = Inr (db', resp) \<and>
     rp_Decision command = CoordinationConfirm \<and> HasRole actor [RoleAuditee] \<and>
     aa_inspection_id a = Some (rp_InspectionID command) \<and>
     (\<exists>n \<in> set (inspections db). in_id n = rp_InspectionID command \<and> in_organization_id n = OrganizationID actor) \<and>
     aa_revision a = rp_ExpectedRevision command \<and> aa_status a = StatusAwaitingAuditeeConfirmation)"

definition agreed_by_manager :: "DB \<Rightarrow> DB \<Rightarrow> AuditAssignment \<Rightarrow> bool" where
  "agreed_by_manager db db' a \<longleftrightarrow> (\<exists>digests env actor command resp.
     ReviewAuditeeCoordination digests env actor command db = Inr (db', resp) \<and>
     rw_Decision command = ReviewCoordinationAccept \<and> HasRole actor [RoleDepartmentManager] \<and>
     aa_inspection_id a = Some (rw_InspectionID command) \<and>
     aa_revision a = rw_ExpectedRevision command \<and> aa_status a = StatusAlternativeProposed)"

definition confirmed_only_by :: "(AuditAssignment \<Rightarrow> bool) \<Rightarrow> DB \<Rightarrow> DB \<Rightarrow> bool" where
  "confirmed_only_by agreed db db' \<longleftrightarrow> (\<forall>a' \<in> set (audit_assignments db'). aa_status a' = StatusConfirmed \<longrightarrow>
     a' \<in> set (audit_assignments db) \<or> (\<exists>a \<in> set (audit_assignments db). aa_id a = aa_id a' \<and> agreed a))"

lemma no_confirmation_only: "no_confirmation db db' \<Longrightarrow> confirmed_only_by agreed db db'"
  by (simp add: no_confirmation_def confirmed_only_by_def)

lemma update_confirmed_only:
  assumes "update_assignment (aa_id a) matches change db = Inr (updated, mid)" "a \<in> set (audit_assignments db)"
    "audit_assignments db' = audit_assignments mid" "\<And>b. aa_id (change b) = aa_id b" "agreed a"
  shows "confirmed_only_by agreed db db'"
  using assms by (auto simp: update_assignment_Inr confirmed_only_by_def)

lemma schedule_assignments:
  "schedule_inspection env i db = Inr (scheduled, db') \<Longrightarrow> audit_assignments db' = audit_assignments db"
  by (auto simp: schedule_inspection_def Let_def if_Inl_Inr)

lemma set_alternative_assignments [simp]:
  "audit_assignments (set_alternative env a i date db) = audit_assignments db"
  by (simp add: set_alternative_def)

lemma Respond_confirms:
  assumes run: "RespondCoordination_handler env command db = Inr (db', result)"
    and agreed: "\<And>a n. rp_Decision command = CoordinationConfirm \<Longrightarrow> a \<in> set (audit_assignments db) \<Longrightarrow>
      aa_inspection_id a = Some (rp_InspectionID command) \<Longrightarrow> n \<in> set (inspections db) \<Longrightarrow>
      in_id n = rp_InspectionID command \<Longrightarrow> in_organization_id n = rp_OrganizationID command \<Longrightarrow>
      aa_revision a = rp_ExpectedRevision command \<Longrightarrow> aa_status a = StatusAwaitingAuditeeConfirmation \<Longrightarrow> agreed a"
    and valid: "respond_decision_check command"
  shows "confirmed_only_by agreed db db'"
proof -
  from run obtain row mid scheduled nextStatus where
    look: "coordination_context (\<lambda>_. True) (rp_InspectionID command) (rp_OrganizationID command) db = Some row"
    and nextStatus: "nextStatus = (if rp_Decision command = CoordinationProposeAlternative then StatusAlternativeProposed
       else StatusConfirmed)"
    and revision: "aa_revision (cw_assignment row) = rp_ExpectedRevision command"
    and status: "rp_Decision command = CoordinationConfirm \<Longrightarrow> aa_status (cw_assignment row) = StatusAwaitingAuditeeConfirmation"
    and update: "update_assignment (aa_id (cw_assignment row)) (\<lambda>b. aa_revision b = aa_revision (cw_assignment row))
       (\<lambda>b. b\<lparr>aa_status := nextStatus, aa_revision := aa_revision b + 1, aa_updated_at := env_clock env 0\<rparr>) db =
       Inr (True, mid)"
    and sched: "if rp_Decision command = CoordinationConfirm
     then schedule_inspection env (rp_InspectionID command) mid = Inr (True, scheduled) else scheduled = mid"
    and db': "db' = (case rp_AlternativeDate command of None \<Rightarrow> scheduled
       | Some date \<Rightarrow> set_alternative env (cw_assignment row) (rp_InspectionID command) date scheduled)"
    by (rule RespondCoordination_handler_Inr) (rule that; assumption)
  have rows: "audit_assignments db' = audit_assignments mid"
    using sched schedule_assignments by (auto simp: db' split: if_split_asm option.split)
  show ?thesis
  proof (cases "rp_Decision command = CoordinationConfirm")
    case True
    have row: "cw_inspection row \<in> set (inspections db)"
      using look coordination_row(3) by (auto simp: coordination_context_def find_Some_iff)
    show ?thesis
      by (rule update_confirmed_only [OF update coordination_context_Some(1) [OF look] rows])
        (use agreed [OF True coordination_context_Some(1,2) [OF look] row] coordination_context_Some(3,4) [OF look]
          revision status True in simp_all)
  next
    case False
    with valid have "nextStatus = StatusAlternativeProposed"
      by (auto simp: nextStatus respond_decision_check_def split: CoordinationDecision.splits)
    then have "no_confirmation db mid" by (intro update_confirms_nothing [OF update]) simp
    then show ?thesis by (intro no_confirmation_only no_confirmation_between [OF _ refl rows])
  qed
qed

lemma Review_confirms:
  assumes run: "ReviewCoordination_handler env actor command db = Inr (db', result)"
    and agreed: "\<And>a. rw_Decision command = ReviewCoordinationAccept \<Longrightarrow> a \<in> set (audit_assignments db) \<Longrightarrow>
      aa_inspection_id a = Some (rw_InspectionID command) \<Longrightarrow> aa_revision a = rw_ExpectedRevision command \<Longrightarrow>
      aa_status a = StatusAlternativeProposed \<Longrightarrow> agreed a"
  shows "confirmed_only_by agreed db db'"
proof -
  from run obtain row alternative where
    look: "coordination_context (\<lambda>row. aa_status (cw_assignment row) = StatusAlternativeProposed \<and>
       aa_tombstoned_at (cw_assignment row) = None) (rw_InspectionID command) (rw_OrganizationID command) db = Some row"
    and revision: "aa_revision (cw_assignment row) = rw_ExpectedRevision command"
    and writes: "review_writes env command (cw_assignment row) alternative db = Inr db'"
    by (rule ReviewCoordination_handler_Inr) (rule that; assumption)
  note a = coordination_context_Some(1,2) [OF look]
  show ?thesis
  proof (cases "rw_Decision command = ReviewCoordinationAccept")
    case True
    with writes obtain updated mid scheduled where
      update: "update_assignment (aa_id (cw_assignment row)) (\<lambda>b. aa_revision b = aa_revision (cw_assignment row))
        (accept_update env alternative) db = Inr (updated, mid)"
      and sched: "schedule_inspection env (rw_InspectionID command) mid = Inr (scheduled, db')"
      by (auto simp: review_writes_def bind_result_Inr)
    show ?thesis
      by (rule update_confirmed_only [OF update a(1) schedule_assignments [OF sched]])
        (use agreed [OF True a revision] coordination_context_Some(5) [OF look] in \<open>simp_all add: accept_update_def\<close>)
  next
    case False
    with writes obtain updated where
      update: "update_assignment (aa_id (cw_assignment row)) (\<lambda>b. aa_revision b = aa_revision (cw_assignment row))
        (\<lambda>b. b\<lparr>aa_status := StatusAwaitingAuditeeConfirmation, aa_revision := aa_revision b + 1,
             aa_updated_at := env_clock env 0\<rparr>) db = Inr (updated, db')"
      by (auto simp: review_writes_def bind_result_Inr)
    show ?thesis by (rule no_confirmation_only, rule update_confirms_nothing [OF update]) simp
  qed
qed

section \<open>Every step\<close>

lemma prepare_confirms_nothing:
  assumes "prepare parses fresh actor c = Inr (envelope, handler)" "handler env db = Inr (mid, result)"
  shows "no_confirmation db mid"
  using assms
  by (cases c) (auto simp: bind_result_Inr Let_def split: if_splits intro: handler_same_desk [THEN same_desk_confirms_nothing]
      field_same_desk [THEN same_desk_confirms_nothing] Start_confirms_nothing)

lemma dispatch_confirms_nothing:
  assumes "dispatch parses fresh env actor c db = Inr (db', resp)"
  shows "no_confirmation db db'"
proof -
  from assms obtain envelope handler where p: "prepare parses fresh actor c = Inr (envelope, handler)"
    and e: "executeTransition env actor envelope (handler env) db = Inr (db', resp)"
    by (rule dispatch_Inr)
  from e show ?thesis
    by (cases rule: executeTransition_cases) (auto intro: prepare_confirms_nothing [OF p])
qed

lemma MaterializeInspection_confirms_nothing:
  assumes "MaterializeInspection digests env actor command db = Inr (db', resp)" "desk_wf db"
  shows "no_confirmation db db'"
  using assms(1) unfolding MaterializeInspection_def
  by (cases rule: executeTransition_cases) (auto intro: Materialize_confirms_nothing [OF assms(2)])

abbreviation date_agreed :: "DB \<Rightarrow> DB \<Rightarrow> AuditAssignment \<Rightarrow> bool" where
  "date_agreed db db' a \<equiv> agreed_by_auditee db db' a \<or> agreed_by_manager db db' a"

lemma RespondAuditeeCoordination_confirms:
  assumes run: "RespondAuditeeCoordination digests env actor command db = Inr (db', resp)"
  shows "confirmed_only_by (date_agreed db db') db db'"
proof -
  from run have actor: "CanViewAuditeeCoordination actor" "OrganizationID actor = rp_OrganizationID command"
    and valid: "respond_decision_check command"
    and e: "executeCommand digests env actor (RespondCoordination_call command)
      (RespondCoordination_handler env command) db = Inr (db', resp)"
    by (auto simp: RespondAuditeeCoordination_def split: if_split_asm)
  from e show ?thesis
  proof (cases rule: executeCommand_cases)
    case (executed semanticHash mid result l)
    have "confirmed_only_by (date_agreed db db') db mid"
    proof (rule Respond_confirms [OF executed(3) _ valid])
      fix a :: AuditAssignment and n :: Inspection
      assume "rp_Decision command = CoordinationConfirm" "aa_inspection_id a = Some (rp_InspectionID command)"
        "n \<in> set (inspections db)" "in_id n = rp_InspectionID command" "in_organization_id n = rp_OrganizationID command"
        "aa_revision a = rp_ExpectedRevision command" "aa_status a = StatusAwaitingAuditeeConfirmation"
      with run actor have "agreed_by_auditee db db' a"
        unfolding agreed_by_auditee_def CanViewAuditeeCoordination_def by metis
      then show "date_agreed db db' a" ..
    qed
    then show ?thesis by (simp add: executed(5) confirmed_only_by_def)
  qed (simp add: no_confirmation_only)
qed

lemma ReviewAuditeeCoordination_confirms:
  assumes run: "ReviewAuditeeCoordination digests env actor command db = Inr (db', resp)"
  shows "confirmed_only_by (date_agreed db db') db db'"
proof -
  from run have actor: "HasRole actor [RoleDepartmentManager]"
    and e: "executeCommand digests env actor (ReviewCoordination_call command)
      (ReviewCoordination_handler env actor command) db = Inr (db', resp)"
    by (auto simp: ReviewAuditeeCoordination_def split: if_split_asm)
  from e show ?thesis
  proof (cases rule: executeCommand_cases)
    case (executed semanticHash mid result l)
    have "confirmed_only_by (date_agreed db db') db mid"
    proof (rule Review_confirms [OF executed(3)])
      fix a :: AuditAssignment
      assume "rw_Decision command = ReviewCoordinationAccept" "aa_inspection_id a = Some (rw_InspectionID command)"
        "aa_revision a = rw_ExpectedRevision command" "aa_status a = StatusAlternativeProposed"
      with run actor have "agreed_by_manager db db' a" unfolding agreed_by_manager_def by metis
      then show "date_agreed db db' a" ..
    qed
    then show ?thesis by (simp add: executed(5) confirmed_only_by_def)
  qed (simp add: no_confirmation_only)
qed

lemmas preparation_confirms_nothing = Prepare_confirms_nothing AssignLead_confirms_nothing Preview_confirms_nothing
  AssignTeam_confirms_nothing AssignQuestions_confirms_nothing ConfirmPreparation_confirms_nothing

lemma assignment_dispatch_confirms:
  assumes run: "assignment_dispatch digests env actor c db = Inr (db', resp)"
  shows "confirmed_only_by (date_agreed db db') db db'"
proof -
  from run obtain call handler where r: "assignment_run digests env actor c call handler"
    and e: "executeCommand digests env actor call handler db = Inr (db', resp)"
    by (rule assignment_dispatch_Inr)
  have "no_confirmation db db'" if other: "\<And>mid result. handler db = Inr (mid, result) \<Longrightarrow> no_confirmation db mid"
    using e by (cases rule: executeCommand_cases) (auto intro: other)
  with r run show ?thesis
    by (cases rule: assignment_run.cases)
      (auto intro: no_confirmation_only preparation_confirms_nothing RespondAuditeeCoordination_confirms
        ReviewAuditeeCoordination_confirms)
qed

lemma system_step_confirms:
  assumes "system_step db db'" and wf: "desk_wf db"
  shows "confirmed_only_by (date_agreed db db') db db'"
  using assms(1)
proof cases
  case (claim worker now claimed)
  then have "attachment_frame db db'" by (rule claimNext_Some)
  then show ?thesis by (intro no_confirmation_only same_desk_confirms_nothing desk_frames)
next
  case (deliver mid now)
  then show ?thesis by (simp add: no_confirmation_only same_desk_confirms_nothing desk_frames markDelivered_frame)
next
  case (finalize_attachment worker env claimed stored key promoted result)
  then have "attachment_frame db db'" by (rule finalizeAttachment_Inr)
  then show ?thesis by (intro no_confirmation_only same_desk_confirms_nothing desk_frames)
next
  case (expire_uploads env)
  then show ?thesis by (simp add: no_confirmation_only same_desk_confirms_nothing desk_frames)
qed (use wf in \<open>blast intro: assignment_dispatch_confirms no_confirmation_only dispatch_confirms_nothing
    MaterializeInspection_confirms_nothing same_desk_confirms_nothing desk_frames field_frames [THEN side_frame_desk]\<close>)+

end
