(* ===== verification/PreparationLaws.thy ===== *)
theory PreparationLaws
  imports CoverageLaws MaterializationLaws DateAgreement
begin

text \<open>
  What a fresh call of the preparation has done: the confirmation of a preparation, the use of a preview,
  the change of the coverage and the materialization of the inspection, each from the state of the desk.
\<close>

section \<open>Fresh calls\<close>

text \<open>The scope of a call depends on the actor and the kind of the command only.\<close>

lemma call_scope_kind:
  "call_scope actor (AssignQuestions_call command coverage) = SubjectID actor @ '':assign_questions''"
  "call_scope actor (AssignTeam_call team members) = SubjectID actor @ '':assign_team''"
  "xc_operationID (AssignQuestions_call command coverage) = mq_OperationID command"
  "xc_operationID (AssignTeam_call team members) = mt_OperationID team"
  by (simp_all add: call_scope_def AssignQuestions_call_def AssignTeam_call_def)

definition fresh_questions :: "Principal \<Rightarrow> AssignQuestionsCommand \<Rightarrow> DB \<Rightarrow> bool" where
  "fresh_questions actor command db \<longleftrightarrow>
     stored_response (SubjectID actor @ '':assign_questions'') (mq_OperationID command) (ledger db) = None"

lemma AssignQuestions_fresh:
  assumes "AssignQuestions digests env actor command db = Inr (db', resp)" "fresh_questions actor command db"
  obtains coverage mid result l where
    "HasRole actor [RoleLeadInspector]"
    "normalizedQuestionAssignments (mq_QuestionAssignments command) = Inr coverage"
    "validQuestionCoverageOperation (mq_OperationKind command)"
    "AssignQuestions_handler digests env actor command coverage db = Inr (mid, result)"
    "db' = mid\<lparr>ledger := l\<rparr>"
proof -
  from assms(1) obtain coverage where c: "HasRole actor [RoleLeadInspector]"
    "normalizedQuestionAssignments (mq_QuestionAssignments command) = Inr coverage"
    "validQuestionCoverageOperation (mq_OperationKind command)"
    and e: "executeCommand digests env actor (AssignQuestions_call command coverage)
      (AssignQuestions_handler digests env actor command coverage) db = Inr (db', resp)"
    by (auto simp: AssignQuestions_def split: if_split_asm sum.split_asm)
  from e show thesis
  proof (cases rule: executeCommand_cases)
    case replayed
    with assms(2) show thesis by (simp add: call_scope_kind fresh_questions_def)
  next
    case (executed semanticHash mid result l)
    with c show thesis by (intro that) auto
  qed
qed

lemma ConfirmPreparation_fresh:
  assumes "ConfirmPreparation digests env actor command db = Inr (db', resp)"
    "stored_response (call_scope actor (ConfirmPreparation_call command)) (cf_OperationID command) (ledger db) = None"
  obtains mid result l where "HasRole actor [RoleDepartmentManager]"
    "ConfirmPreparation_handler digests env actor command db = Inr (mid, result)" "db' = mid\<lparr>ledger := l\<rparr>"
proof -
  from assms(1) have c: "HasRole actor [RoleDepartmentManager]"
    and e: "executeCommand digests env actor (ConfirmPreparation_call command)
      (ConfirmPreparation_handler digests env actor command) db = Inr (db', resp)"
    by (auto simp: ConfirmPreparation_def CanPrepare_def split: if_split_asm)
  from e show thesis
  proof (cases rule: executeCommand_cases)
    case replayed
    with assms(2) show thesis by (simp add: ConfirmPreparation_call_def)
  next
    case (executed semanticHash mid result l)
    with c show thesis by (intro that) auto
  qed
qed

lemma MaterializeInspection_fresh:
  assumes "MaterializeInspection digests env actor command db = Inr (db', resp)"
    "stored_response (command_scope actor (MaterializeInspection_envelope command)) (mi_OperationID command) (ledger db) = None"
  obtains mid result l where
    "MaterializeInspection_handler digests env actor command db = Inr (mid, result)" "db' = mid\<lparr>ledger := l\<rparr>"
  using assms(1) unfolding MaterializeInspection_def
proof (cases rule: executeTransition_cases)
  case replayed
  with assms(2) show thesis by (simp add: MaterializeInspection_envelope_def)
next
  case (executed semanticHash mid result l)
  then show thesis by (intro that) auto
qed

section \<open>The use of a preview\<close>

lemma recorded_consumptions:
  assumes "recordPreparationEdit digests i revision kind actor edit mid = Inr db'"
  shows "preview_consumptions (preparation db') = preview_consumptions (preparation mid)"
    "edit_previews (preparation db') = edit_previews (preparation mid)"
    "audit_assignments db' = audit_assignments mid"
    "audit_question_assignments db' = audit_question_assignments mid"
    "audit_team_members db' = audit_team_members mid"
  using assms by (auto elim!: record_edit_Inr)

lemma updated_status_tables:
  assumes "updateAssignmentStatus env current status now db = Inr (output, mid)"
  shows "preparation mid = preparation db" "audit_question_assignments mid = audit_question_assignments db"
    "audit_team_members mid = audit_team_members db"
  using assms by (auto elim!: updateAssignmentStatus_Inr simp: update_assignment_Inr)

text \<open>The preview that an accepted change of the coverage used, and the coverage it left.\<close>

lemma AssignQuestions_effect:
  assumes "AssignQuestions_handler digests env actor command coverage db = Inr (db', result)"
  obtains a p now allowed where
    "current_assignment (mq_AssignmentID command) db = Some a" "aa_revision a = mq_ExpectedRevision command"
    "CanConfigureTeam actor (or_empty (aa_lead_subject_id a))"
    "lookup ep_id (mq_PreviewID command) (edit_previews (preparation db)) = Some p"
    "hash_edit digests (CoverageSnapshot (mq_OperationKind command) coverage) = Some (ep_edit_digest p)"
    "ep_assignment_id p = mq_AssignmentID command" "ep_assignment_revision p = mq_ExpectedRevision command"
    "ep_edit_kind p = ''QUESTION_COVERAGE''" "ep_actor_subject_id p = SubjectID actor"
    "env_clock env 0 < ep_expires_at p"
    "\<forall>c \<in> set (preview_consumptions (preparation db)). ec_preview_id c \<noteq> mq_PreviewID command"
    "\<exists>c \<in> set (preview_consumptions (preparation db')). ec_preview_id c = mq_PreviewID command"
    "audit_question_assignments db' = cover_rows (mq_AssignmentID command) (mq_OperationKind command) now coverage
       (audit_question_assignments db)"
    "\<forall>c \<in> set coverage. qc_QuestionID c \<in> set allowed"
    "templateQuestionIDs (or_empty (aa_inspection_id a)) (or_empty (aa_planning_item_id a)) db = Inr allowed"
    "mq_OperationKind command \<noteq> CoverageRemove \<Longrightarrow>
       \<forall>c \<in> set coverage. active_member (mq_AssignmentID command) (qc_SubjectID c) db"
proof -
  let ?cover = "cover_rows (mq_AssignmentID command) (mq_OperationKind command) (env_clock env 1) coverage"
  from assms obtain a consumed allowed updated mid edit where
    look: "current_assignment (mq_AssignmentID command) db = Some a"
    and lead: "CanConfigureTeam actor (or_empty (aa_lead_subject_id a))"
    and revision: "aa_revision a = mq_ExpectedRevision command"
    and consume: "consumePreparationPreview digests (mq_PreviewID command) (mq_PreviewDigest command)
       (mq_AssignmentID command) (mq_ExpectedRevision command) ''QUESTION_COVERAGE'' (SubjectID actor)
       (CoverageSnapshot (mq_OperationKind command) coverage) (env_clock env 0) db = Inr consumed"
    and allowed: "templateQuestionIDs (or_empty (aa_inspection_id a)) (or_empty (aa_planning_item_id a)) consumed = Inr allowed"
    and assignable: "list_all (assignable (mq_AssignmentID command) (mq_OperationKind command) allowed consumed) coverage"
    and run: "updateAssignmentStatus env (assignment_view env a) StatusQuestionsAssigned (env_clock env 1)
       (consumed\<lparr>audit_question_assignments := ?cover (audit_question_assignments consumed)\<rparr>) = Inr (updated, mid)"
    and edit: "recordPreparationEdit digests (mq_AssignmentID command) (an_Revision updated) ''QUESTION_COVERAGE'' actor
       edit mid = Inr db'"
    by (rule AssignQuestions_handler_Inr) (rule that; assumption)
  note tables = recorded_consumptions [OF edit] updated_status_tables [OF run]
  let ?row = "\<lparr>ec_preview_id = mq_PreviewID command, ec_consumed_by_subject_id = SubjectID actor,
    ec_consumed_at = env_clock env 0\<rparr>"
  from consume obtain p where p: "lookup ep_id (mq_PreviewID command) (edit_previews (preparation db)) = Some p"
    "hash_edit digests (CoverageSnapshot (mq_OperationKind command) coverage) = Some (ep_edit_digest p)"
    and "ep_edit_digest p = mq_PreviewDigest command"
    and kind: "ep_assignment_id p = mq_AssignmentID command" "ep_assignment_revision p = mq_ExpectedRevision command"
    "ep_edit_kind p = ''QUESTION_COVERAGE''" "ep_actor_subject_id p = SubjectID actor"
    "env_clock env 0 < ep_expires_at p"
    "\<forall>c \<in> set (preview_consumptions (preparation db)). ec_preview_id c \<noteq> mq_PreviewID command"
    and consumed: "consumed = db\<lparr>preparation := (preparation db)\<lparr>preview_consumptions :=
      preview_consumptions (preparation db) @ [?row]\<rparr>\<rparr>"
    by (rule consume_Inr) (rule that; assumption)
  have allowed': "templateQuestionIDs (or_empty (aa_inspection_id a)) (or_empty (aa_planning_item_id a)) db = Inr allowed"
  proof -
    have "template_of_audit i j consumed = template_of_audit i j db"
      "released_snapshot_of_audit i j consumed = released_snapshot_of_audit i j db"
      "snapshot_question_ids s consumed = snapshot_question_ids s db" for i j s
      by (simp_all add: consumed template_of_audit_def released_snapshot_of_audit_def snapshot_question_ids_def)
    with allowed show ?thesis by (simp only: templateQuestionIDs_def)
  qed
  have rows: "audit_question_assignments db' = ?cover (audit_question_assignments db)" by (simp add: tables consumed)
  have used: "\<exists>c \<in> set (preview_consumptions (preparation db')). ec_preview_id c = mq_PreviewID command"
    by (simp add: tables consumed)
  have questions: "\<forall>c \<in> set coverage. qc_QuestionID c \<in> set allowed"
    using assignable by (simp add: list_all_iff assignable_def)
  have members: "\<forall>c \<in> set coverage. active_member (mq_AssignmentID command) (qc_SubjectID c) db"
    if "mq_OperationKind command \<noteq> CoverageRemove"
    using assignable that by (simp add: list_all_iff assignable_def consumed active_member_def)
  show thesis by (rule that [OF look revision lead p kind used rows questions allowed' members])
qed

text \<open>A consumed preview is used up.\<close>

lemma consumed_preview_refused:
  assumes "c \<in> set (preview_consumptions (preparation db))" "ec_preview_id c = mq_PreviewID command"
    and "fresh_questions actor command db"
  shows "\<exists>e. AssignQuestions digests env actor command db = Inl e"
proof (cases "AssignQuestions digests env actor command db")
  case (Inr r)
  then obtain db' resp where "AssignQuestions digests env actor command db = Inr (db', resp)" by (cases r) auto
  then obtain coverage mid result where
    "AssignQuestions_handler digests env actor command coverage db = Inr (mid, result)"
    using assms(3) by (rule AssignQuestions_fresh)
  then have "\<forall>c \<in> set (preview_consumptions (preparation db)). ec_preview_id c \<noteq> mq_PreviewID command"
    by (rule AssignQuestions_effect)
  with assms(1,2) show ?thesis by blast
qed auto

section \<open>The confirmation\<close>

text \<open>The receipt that an accepted confirmation appends.\<close>

lemma ConfirmPreparation_effect:
  assumes run: "ConfirmPreparation_handler digests env actor command db = Inr (db', result)"
  obtains a p snapshot where
    "current_assignment (cf_AssignmentID command) db = Some a" "aa_status a = StatusQuestionsAssigned"
    "aa_revision a = cf_ExpectedAssignmentRevision command"
    "require_scope env actor (or_empty (aa_planning_item_id a)) '''' db = None"
    "snapshot \<in> set (t_scope_snapshots (scope_tables db))" "ss_stage snapshot = ''RELEASED''"
    "preparation_snapshots (preparation db') = preparation_snapshots (preparation db) @ [p]"
    "ph_status p = ''CONFIRMED''" "ph_assignment_id p = Some (cf_AssignmentID command)"
    "ph_released_scope_snapshot_id p = ss_id snapshot"
    "ph_confirmed_by_subject_id p = Some (SubjectID actor)"
    "ph_preparation_digest p = digest_preparation digests (ph_snapshot p)"
    "ph_confirmed_assignment_revision p = Some (aa_revision a + 1)"
    "py_coverage (ph_snapshot p) =
       coverage_entries (coverage_rows (cf_AssignmentID command) db) (snapshot_question_ids (ss_id snapshot) db)"
    "\<forall>c \<in> set (coverage_rows (cf_AssignmentID command) db). active_member (cf_AssignmentID command) (qc_SubjectID c) db"
    "\<forall>q \<in> set (snapshot_question_ids (ss_id snapshot) db). subjects_of (coverage_rows (cf_AssignmentID command) db) q \<noteq> []"
    "length (snapshot_question_ids (ss_id snapshot) db) =
       length (remdups (map qc_QuestionID (coverage_rows (cf_AssignmentID command) db)))"
proof -
  let ?k = "cf_AssignmentID command"
  from run obtain a joined draft snapshot where
    h: "current_assignment ?k db = Some a" "aa_revision a = cf_ExpectedAssignmentRevision command"
      "aa_status a = StatusQuestionsAssigned"
      "require_scope env actor (or_empty (aa_planning_item_id a)) '''' db = None"
    and found: "confirmation_context ?k db = Some (joined, draft, snapshot)"
    and c: "\<forall>c \<in> set (coverage_rows ?k db). active_member ?k (qc_SubjectID c) db"
      "\<forall>q \<in> set (snapshot_question_ids (ss_id snapshot) db). subjects_of (coverage_rows ?k db) q \<noteq> []"
      "int (length (snapshot_question_ids (ss_id snapshot) db)) = ss_selected_question_count snapshot"
      "int (length (remdups (map qc_QuestionID (coverage_rows ?k db)))) = ss_selected_question_count snapshot"
    and writes: "confirm_writes digests env actor (assignment_view env a) joined snapshot
       (coverage_entries (coverage_rows ?k db) (snapshot_question_ids (ss_id snapshot) db)) db = Inr (db', result)"
    by (rule ConfirmPreparation_handler_Inr) (rule that; assumption)
  have id: "aa_id a = ?k" using current_assignment_Some [OF h(1)] by simp
  from writes obtain payload revision preparationID row questions where
    payload: "payload = preparation_payload (assignment_view env a) (an_ID (assignment_view env a)) snapshot
       (coverage_entries (coverage_rows ?k db) (snapshot_question_ids (ss_id snapshot) db))"
    and row: "row = confirmed_snapshot digests env actor (assignment_view env a) preparationID revision payload"
    and update: "update_assignment (an_ID (assignment_view env a))
       (\<lambda>b. aa_status b = StatusQuestionsAssigned \<and> aa_revision b = an_Revision (assignment_view env a))
       (\<lambda>b. b\<lparr>aa_revision := aa_revision b + 1, aa_updated_at := env_clock env 0\<rparr>)
       (db\<lparr>preparation := (preparation db)\<lparr>preparation_snapshots := preparation_snapshots (preparation db) @ [row],
          preparation_questions := questions\<rparr>\<rparr>) = Inr (True, db')"
    by (rule confirm_writes_Inr) (rule that; assumption)
  have "preparation_snapshots (preparation db') = preparation_snapshots (preparation db) @ [row]"
    using update by (simp add: update_assignment_Inr)
  then show thesis
    using h c confirmation_context_Some(4,5) [OF found]
    by (intro that [of a snapshot row]) (simp_all add: row confirmed_snapshot_def payload preparation_payload_def id)
qed

text \<open>Counting tells that nothing outside the scope is covered.\<close>

lemma covers_exactly:
  assumes "distinct ids" "\<forall>q \<in> set ids. subjects_of coverage q \<noteq> []"
    "length ids = length (remdups (map qc_QuestionID coverage))"
  shows "qc_QuestionID ` set coverage = set ids"
proof -
  have "set ids \<subseteq> qc_QuestionID ` set coverage"
  proof
    fix q
    assume "q \<in> set ids"
    with assms(2) obtain s where "s \<in> set (subjects_of coverage q)" by fastforce
    then show "q \<in> qc_QuestionID ` set coverage" by (auto simp: subjects_of_def)
  qed
  moreover have "card (qc_QuestionID ` set coverage) = card (set ids)"
    using assms(1,3) by (simp add: length_remdups_card_conv distinct_card)
  ultimately show ?thesis by (metis List.finite_set card_subset_eq finite_imageI)
qed

lemma scope_ids_distinct:
  assumes "scope_keys db"
  shows "distinct (snapshot_question_ids s db)"
proof -
  have "distinct (map (\<lambda>q. (sq_snapshot_id q, sq_question_version_id q)) (filter (\<lambda>q. sq_snapshot_id q = s)
      (snapshot_questions db)))" using assms by (simp add: scope_keys_def distinct_map_filter)
  then have "distinct (map sq_question_version_id (filter (\<lambda>q. sq_snapshot_id q = s) (snapshot_questions db)))"
    by (auto simp: distinct_map inj_on_def)
  then show ?thesis by (simp add: snapshot_question_ids_def distinct_map)
qed

section \<open>The change of the coverage\<close>

lemma set_TrimSpace: "set (TrimSpace s) \<subseteq> set s"
  unfolding TrimSpace_def by (metis set_mono_suffix set_rev strip_all_suffix subset_trans)

lemma nul_free_trim: "nul_free c \<Longrightarrow> nul_free (trim_coverage c)"
  using set_TrimSpace by (fastforce simp: nul_free_def trim_coverage_def)

lemma normalize_coverage_set:
  "normalize_coverage seen vs = Inr out \<Longrightarrow> set out = set seen \<union> trim_coverage ` set vs"
  by (induction seen vs rule: normalize_coverage.induct) (auto simp: Let_def split: if_split_asm)

lemma normalized_nul_free:
  assumes "normalizedQuestionAssignments vs = Inr coverage" "\<forall>c \<in> set vs. nul_free c"
  shows "\<forall>c \<in> set coverage. nul_free c"
  using assms normalize_coverage_set [of "[]" vs]
  by (auto simp: normalizedQuestionAssignments_def bind_result_Inr nul_free_trim split: if_split_asm)

lemma covered_listed: "set (covered i (audit_question_assignments db)) = set (listQuestionAssignments i db)"
  by (simp add: listQuestionAssignments_covered)

text \<open>The coverage that an accepted change leaves is the one the reference computes.\<close>

lemma AssignQuestions_reference:
  assumes run: "AssignQuestions_handler digests env actor command coverage db = Inr (db', result)"
    and coverage: "normalizedQuestionAssignments (mq_QuestionAssignments command) = Inr coverage"
    and kind: "validQuestionCoverageOperation (mq_OperationKind command)" and wf: "desk_wf db"
    and nul: "\<forall>c \<in> set (listQuestionAssignments (mq_AssignmentID command) db). nul_free c"
      "\<forall>c \<in> set (mq_QuestionAssignments command). nul_free c"
  shows "applyQuestionCoverageOperation (listQuestionAssignments (mq_AssignmentID command) db)
      (mq_QuestionAssignments command) (mq_OperationKind command) =
      Inr (listQuestionAssignments (mq_AssignmentID command) db')"
    "k \<noteq> mq_AssignmentID command \<Longrightarrow> listQuestionAssignments k db' = listQuestionAssignments k db"
proof -
  from run obtain now where rows: "audit_question_assignments db' =
      cover_rows (mq_AssignmentID command) (mq_OperationKind command) now coverage (audit_question_assignments db)"
    by (rule AssignQuestions_effect)
  have "coverage_wf (audit_question_assignments db)" using wf by (simp add: desk_wf_def)
  from cover_rows_reference [OF this kind coverage] normalized_nul_free [OF coverage nul(2)] nul(1)
  show "applyQuestionCoverageOperation (listQuestionAssignments (mq_AssignmentID command) db)
      (mq_QuestionAssignments command) (mq_OperationKind command) =
      Inr (listQuestionAssignments (mq_AssignmentID command) db')"
    by (simp add: listQuestionAssignments_covered rows ball_Un)
  show "listQuestionAssignments k db' = listQuestionAssignments k db" if "k \<noteq> mq_AssignmentID command"
    using that by (simp add: listQuestionAssignments_def rows filter_cover_rows)
qed

section \<open>The materialized package\<close>

lemma materialized_receipt:
  assumes wf: "desk_wf db" and keys: "scope_keys db"
    and run: "MaterializeInspection_handler digests env actor command db = Inr (db', result)"
  shows "HasRole actor [RoleDepartmentManager] \<and>
    (\<exists>a p i package content. current_assignment (mi_AssignmentID command) db = Some a \<and>
      aa_status a = StatusQuestionsAssigned \<and> aa_revision a = mi_ExpectedAssignmentRevision command \<and>
      p \<in> set (preparation_snapshots (preparation db)) \<and> ph_status p = ''CONFIRMED'' \<and>
      ph_assignment_id p = Some (aa_id a) \<and> ph_confirmed_assignment_revision p = Some (aa_revision a) \<and>
      (\<forall>n \<in> set (inspections db). in_id n \<noteq> i) \<and>
      inspection_packages db' = inspection_packages db @ [package] \<and>
      pk_inspection_id package = i \<and> pk_snapshot package = Some content \<and>
      pk_package_digest package = digest_package digests content \<and>
      ks_preparationId content = ph_id p \<and> ks_preparationDigest content = ph_preparation_digest p \<and>
      map (\<lambda>q. (kq_id q, kq_assignedInspectorUserIds q)) (ks_questions content) = py_coverage (ph_snapshot p) \<and>
      question_assignments db' = question_assignments db @
        materialized_assignments i (aa_revision a + 1) (ks_questions content) \<and>
      (\<exists>a'. lookup aa_id (aa_id a) (audit_assignments db') = Some a' \<and> aa_inspection_id a' = Some i \<and>
        aa_status a' \<in> {StatusScheduled, StatusAwaitingAuditeeConfirmation}))"
proof -
  from wf have rows: "assignments_wf db" by (simp add: desk_wf_def)
  obtain a i snapshot noticePolicy p content where role: "HasRole actor [RoleDepartmentManager]"
    and a: "a \<in> set (audit_assignments db)" "aa_id a = mi_AssignmentID command" "aa_status a = StatusQuestionsAssigned"
    and revision: "aa_revision a = mi_ExpectedAssignmentRevision command"
    and fresh: "\<forall>n \<in> set (inspections db). in_id n \<noteq> i"
    and confirmed: "current_confirmations (aa_id a) (ss_id snapshot) (aa_revision a) db = [p]"
    and content: "content = package_snapshot snapshot p
       (package_questions (ss_catalog_id snapshot) (ss_id snapshot) (ph_id p) db)"
    and count: "prepared_question_count (ph_id p) (ss_id snapshot) db = ss_selected_question_count snapshot"
      "int (length (ks_questions content)) = ss_selected_question_count snapshot"
    and assignments: "audit_assignments db' =
       replaced (materialized env i (materialize_status noticePolicy) a) (audit_assignments db)"
    and packages: "\<exists>package. inspection_packages db' = inspection_packages db @ [package] \<and> pk_inspection_id package = i \<and>
       pk_snapshot package = Some content \<and> pk_package_digest package = digest_package digests content"
    and assigned: "question_assignments db' = question_assignments db @
       materialized_assignments i (aa_revision a + 1) (ks_questions content)"
    by (rule Materialize_desk [OF wf run]) (rule that; assumption)
  from run have look: "current_assignment (mi_AssignmentID command) db = Some a"
    by (rule Materialize_handler_Inr) (use assignments_key [OF rows a(1)] a(2) in \<open>auto dest!: current_assignment_Some\<close>)
  from confirmed have "p \<in> set (current_confirmations (aa_id a) (ss_id snapshot) (aa_revision a) db)" by simp
  then have p: "p \<in> set (preparation_snapshots (preparation db))" "ph_status p = ''CONFIRMED''"
    "ph_assignment_id p = Some (aa_id a)" "ph_confirmed_assignment_revision p = Some (aa_revision a)"
    "ph_released_scope_snapshot_id p = ss_id snapshot" by (simp_all add: current_confirmations_def)
  from wf p obtain b where "b \<in> set (audit_assignments db)" "aa_id b = aa_id a" and receipt: "receipt_of db b p"
    by (auto simp: desk_wf_def receipts_wf_def receipt_holds_def)
  have "map (\<lambda>q. (kq_id q, kq_assignedInspectorUserIds q)) (ks_questions content) = py_coverage (ph_snapshot p)"
    using package_is_receipt [OF receipt _ keys, of "ss_selected_question_count snapshot" "ss_catalog_id snapshot"]
      count wf by (simp add: content package_snapshot_def p(5) desk_wf_def)
  moreover have "lookup aa_id (aa_id a) (audit_assignments db') =
      Some (materialized env i (materialize_status noticePolicy) a)"
    using current_lookup [OF rows a(1)] by (simp add: assignments lookup_modify materialized_def)
  ultimately show ?thesis
    using role look a(3) revision p(1-4) fresh packages assigned materialize_status_cases [of noticePolicy]
    by (intro conjI role exI [of _ a] exI [of _ p] exI [of _ i])
      (auto simp: content package_snapshot_def materialized_def)
qed

end
