(* ===== verification/CoverageChanges.thy ===== *)
theory CoverageChanges
  imports PreparationLaws
begin

text \<open>
  Who changes the coverage and the inspectors of an assignment: of all the steps of the system only
  \<open>AssignTeam\<close> and \<open>AssignQuestions\<close>, and each of them consumes an open preview of its own kind.
\<close>

section \<open>Steps that change no coverage\<close>

definition inspector_rows :: "DB \<Rightarrow> AuditTeamMember list" where
  "inspector_rows db = filter (\<lambda>m. tm_member_role m = ''INSPECTOR'') (audit_team_members db)"

definition same_cover :: "DB \<Rightarrow> DB \<Rightarrow> bool" where
  "same_cover db db' \<longleftrightarrow> audit_question_assignments db' = audit_question_assignments db \<and>
     inspector_rows db' = inspector_rows db"

lemma same_cover_refl [simp, intro]: "same_cover db db"
  by (simp add: same_cover_def)

lemma same_cover_tables:
  "audit_question_assignments db' = audit_question_assignments db \<Longrightarrow>
     audit_team_members db' = audit_team_members db \<Longrightarrow> same_cover db db'"
  by (simp add: same_cover_def inspector_rows_def)

lemma same_cover_ledger [simp]: "same_cover db (db'\<lparr>ledger := l\<rparr>) \<longleftrightarrow> same_cover db db'"
  by (simp add: same_cover_def inspector_rows_def)

lemma same_desk_cover: "same_desk db db' \<Longrightarrow> same_cover db db'"
  by (simp add: same_cover_tables same_desk_def)

lemma Prepare_cover: "Prepare_handler env actor command db = Inr (db', result) \<Longrightarrow> same_cover db db'"
  by (erule Prepare_handler_Inr) (auto intro: same_cover_tables)

lemma AssignLead_cover:
  assumes "AssignLead_handler env actor command db = Inr (db', result)"
  shows "same_cover db db'"
proof -
  from assms obtain a planned mid where "current_assignment (al_AssignmentID command) db = Some a"
    and run: "update_assignment (al_AssignmentID command) (\<lambda>b. aa_status b = StatusPreparation \<and> aa_revision b = aa_revision a)
       (lead_update env (al_LeadSubjectID command) planned) db = Inr (True, mid)"
    and db': "db' = mid\<lparr>audit_team_members := audit_team_members mid @ [lead_member env command]\<rparr>"
    by (rule AssignLead_handler_Inr) (rule that; assumption)
  from run show ?thesis
    by (simp add: db' update_assignment_Inr same_cover_def inspector_rows_def lead_member_def)
qed

lemma Preview_cover:
  "PreviewTeam_handler digests env actor c members db = Inr (db', result) \<Longrightarrow> same_cover db db'"
  "PreviewQuestions_handler digests env actor d coverage db = Inr (db', result') \<Longrightarrow> same_cover db db'"
  by (auto simp: PreviewTeam_handler_def PreviewQuestions_handler_def check_error_Inr bind_result_Inr if_Inl_Inr
      elim!: store_preview_Inr intro!: same_cover_tables)

lemma ConfirmPreparation_cover:
  assumes "ConfirmPreparation_handler digests env actor command db = Inr (db', result)"
  shows "same_cover db db'"
proof -
  from assms obtain a joined snapshot entries where
    writes: "confirm_writes digests env actor (assignment_view env a) joined snapshot entries db = Inr (db', result)"
    by (rule ConfirmPreparation_handler_Inr) (rule that; assumption)
  from writes show ?thesis by (rule confirm_writes_Inr) (auto simp: update_assignment_Inr intro!: same_cover_tables)
qed

lemma schedule_cover: "schedule_inspection env i db = Inr (scheduled, db') \<Longrightarrow> same_cover db db'"
  by (auto simp: schedule_inspection_def Let_def if_Inl_Inr intro!: same_cover_tables)

lemma same_cover_trans: "same_cover db mid \<Longrightarrow> same_cover mid db' \<Longrightarrow> same_cover db db'"
  by (simp add: same_cover_def)

lemma update_cover: "update_assignment i matches change db = Inr (updated, db') \<Longrightarrow> same_cover db db'"
  by (auto simp: update_assignment_Inr intro: same_cover_tables)

lemma RespondCoordination_cover:
  assumes "RespondCoordination_handler env command db = Inr (db', result)"
  shows "same_cover db db'"
proof -
  from assms obtain row mid scheduled nextStatus where
    "coordination_context (\<lambda>_. True) (rp_InspectionID command) (rp_OrganizationID command) db = Some row"
    and "nextStatus = (if rp_Decision command = CoordinationProposeAlternative then StatusAlternativeProposed
       else StatusConfirmed)"
    and update: "update_assignment (aa_id (cw_assignment row)) (\<lambda>b. aa_revision b = aa_revision (cw_assignment row))
       (\<lambda>b. b\<lparr>aa_status := nextStatus, aa_revision := aa_revision b + 1, aa_updated_at := env_clock env 0\<rparr>) db =
       Inr (True, mid)"
    and sched: "if rp_Decision command = CoordinationConfirm
     then schedule_inspection env (rp_InspectionID command) mid = Inr (True, scheduled) else scheduled = mid"
    and db': "db' = (case rp_AlternativeDate command of None \<Rightarrow> scheduled
       | Some date \<Rightarrow> set_alternative env (cw_assignment row) (rp_InspectionID command) date scheduled)"
    by (rule RespondCoordination_handler_Inr) (rule that; assumption)
  have "same_cover mid scheduled" using sched by (auto intro: schedule_cover split: if_split_asm)
  with update_cover [OF update] have "same_cover db scheduled" by (rule same_cover_trans)
  then show ?thesis
    by (rule same_cover_trans) (auto simp: db' set_alternative_def intro!: same_cover_tables split: option.split)
qed

lemma ReviewCoordination_cover:
  assumes "ReviewCoordination_handler env actor command db = Inr (db', result)"
  shows "same_cover db db'"
proof -
  from assms obtain row alternative where
    "coordination_context (\<lambda>row. aa_status (cw_assignment row) = StatusAlternativeProposed \<and>
       aa_tombstoned_at (cw_assignment row) = None) (rw_InspectionID command) (rw_OrganizationID command) db = Some row"
    and writes: "review_writes env command (cw_assignment row) alternative db = Inr db'"
    by (rule ReviewCoordination_handler_Inr) (rule that; assumption)
  then show ?thesis
    by (auto simp: review_writes_def bind_result_Inr split: if_split_asm
        intro: update_cover same_cover_trans [OF update_cover schedule_cover])
qed

lemma StartInspection_cover: "StartInspection_handler env actor command db = Inr (db', result) \<Longrightarrow> same_cover db db'"
  by (erule StartInspection_handler_Inr) (auto intro!: same_cover_tables)

lemma Materialize_cover:
  assumes "desk_wf db" "MaterializeInspection_handler digests env actor command db = Inr (db', result)"
  shows "same_cover db db'"
  using assms
proof (rule Materialize_desk)
  assume "audit_question_assignments db' = audit_question_assignments db"
    "audit_team_members db' = audit_team_members db"
  then show ?thesis by (rule same_cover_tables)
qed

section \<open>The use of a preview\<close>

text \<open>A preview allows a change: it is of the assignment, at its revision, of the kind and by the actor of the
  command, it has not expired, and the digest stored with it is the one of the content of the command.\<close>

definition preview_matches :: "Digests \<Rightarrow> Env \<Rightarrow> Principal \<Rightarrow> AuditAssignment \<Rightarrow> string \<Rightarrow> EditSnapshot \<Rightarrow> EditPreview \<Rightarrow>
    bool" where
  "preview_matches digests env actor a kind snapshot p \<longleftrightarrow>
     ep_assignment_id p = aa_id a \<and> ep_assignment_revision p = aa_revision a \<and> ep_edit_kind p = kind \<and>
     ep_actor_subject_id p = SubjectID actor \<and> env_clock env 0 < ep_expires_at p \<and>
     hash_edit digests snapshot = Some (ep_edit_digest p)"

text \<open>The two steps that use a preview: by the lead inspector of the assignment, on a matching preview.\<close>

inductive uses_preview :: "DB \<Rightarrow> DB \<Rightarrow> EditPreview \<Rightarrow> bool" for db db' p where
  team: "AssignTeam digests env actor command db = Inr (db', resp) \<Longrightarrow> mt_PreviewID command = ep_id p \<Longrightarrow>
    current_assignment (mt_AssignmentID command) db = Some a \<Longrightarrow>
    CanConfigureTeam actor (or_empty (aa_lead_subject_id a)) \<Longrightarrow>
    normalizedIDs (mt_MemberSubjectIDs command) = Inr members \<Longrightarrow>
    preview_matches digests env actor a ''TEAM'' (TeamSnapshot members) p \<Longrightarrow> uses_preview db db' p"
| questions: "AssignQuestions digests env actor command db = Inr (db', resp) \<Longrightarrow> mq_PreviewID command = ep_id p \<Longrightarrow>
    current_assignment (mq_AssignmentID command) db = Some a \<Longrightarrow>
    CanConfigureTeam actor (or_empty (aa_lead_subject_id a)) \<Longrightarrow>
    normalizedQuestionAssignments (mq_QuestionAssignments command) = Inr coverage \<Longrightarrow>
    preview_matches digests env actor a ''QUESTION_COVERAGE'' (CoverageSnapshot (mq_OperationKind command) coverage) p \<Longrightarrow>
    uses_preview db db' p"

definition consumed_preview :: "string \<Rightarrow> DB \<Rightarrow> bool" where
  "consumed_preview i db \<longleftrightarrow> (\<exists>c \<in> set (preview_consumptions (preparation db)). ec_preview_id c = i)"

lemma consumed_preview_ledger [simp]: "consumed_preview i (db\<lparr>ledger := l\<rparr>) = consumed_preview i db"
  by (simp add: consumed_preview_def)

lemma consumed_preview_later: "desk_appended db db' \<Longrightarrow> consumed_preview i db \<Longrightarrow> consumed_preview i db'"
  by (auto simp: consumed_preview_def desk_appended_def dest: set_mono_prefix)

lemma AssignTeam_effect:
  assumes "AssignTeam_handler digests env actor command members db = Inr (db', result)"
  obtains a p where "current_assignment (mt_AssignmentID command) db = Some a"
    "CanConfigureTeam actor (or_empty (aa_lead_subject_id a))"
    "lookup ep_id (mt_PreviewID command) (edit_previews (preparation db)) = Some p"
    "preview_matches digests env actor a ''TEAM'' (TeamSnapshot members) p"
    "\<not> consumed_preview (mt_PreviewID command) db" "consumed_preview (mt_PreviewID command) db'"
proof -
  from assms obtain a consumed updated mid edit where
    look: "current_assignment (mt_AssignmentID command) db = Some a"
    and lead: "CanConfigureTeam actor (or_empty (aa_lead_subject_id a))"
    and revision: "aa_revision a = mt_ExpectedRevision command"
    and consume: "consumePreparationPreview digests (mt_PreviewID command) (mt_PreviewDigest command)
       (mt_AssignmentID command) (mt_ExpectedRevision command) ''TEAM'' (SubjectID actor)
       (TeamSnapshot members) (env_clock env 0) db = Inr consumed"
    and run: "updateAssignmentStatus env (assignment_view env a) StatusTeamAssigned (env_clock env 1)
       (AssignTeam_rows env command members consumed) = Inr (updated, mid)"
    and edit: "recordPreparationEdit digests (mt_AssignmentID command) (an_Revision updated) ''TEAM'' actor
       edit mid = Inr db'"
    by (rule AssignTeam_handler_Inr) (rule that; assumption)
  have id: "aa_id a = mt_AssignmentID command" using current_assignment_Some [OF look] by simp
  from consume show thesis
  proof (rule consume_Inr)
    fix p
    assume p: "lookup ep_id (mt_PreviewID command) (edit_previews (preparation db)) = Some p"
      "hash_edit digests (TeamSnapshot members) = Some (ep_edit_digest p)"
      "ep_assignment_id p = mt_AssignmentID command" "ep_assignment_revision p = mt_ExpectedRevision command"
      "ep_edit_kind p = ''TEAM''" "ep_actor_subject_id p = SubjectID actor" "env_clock env 0 < ep_expires_at p"
      and fresh: "\<forall>c \<in> set (preview_consumptions (preparation db)). ec_preview_id c \<noteq> mt_PreviewID command"
      and consumed: "consumed = db\<lparr>preparation := (preparation db)\<lparr>preview_consumptions :=
        preview_consumptions (preparation db) @ [\<lparr>ec_preview_id = mt_PreviewID command,
          ec_consumed_by_subject_id = SubjectID actor, ec_consumed_at = env_clock env 0\<rparr>]\<rparr>\<rparr>"
    show thesis
    proof (rule that [OF look lead p(1)])
      show "preview_matches digests env actor a ''TEAM'' (TeamSnapshot members) p"
        using p by (simp add: preview_matches_def id revision)
      show "\<not> consumed_preview (mt_PreviewID command) db" using fresh by (auto simp: consumed_preview_def)
      show "consumed_preview (mt_PreviewID command) db'"
        by (simp add: consumed_preview_def recorded_consumptions [OF edit] updated_status_tables [OF run]
            AssignTeam_rows_def Let_def consumed)
    qed
  qed
qed

lemma AssignQuestions_use:
  assumes "AssignQuestions_handler digests env actor command coverage db = Inr (db', result)"
  obtains a p where "current_assignment (mq_AssignmentID command) db = Some a"
    "CanConfigureTeam actor (or_empty (aa_lead_subject_id a))"
    "lookup ep_id (mq_PreviewID command) (edit_previews (preparation db)) = Some p"
    "preview_matches digests env actor a ''QUESTION_COVERAGE'' (CoverageSnapshot (mq_OperationKind command) coverage) p"
    "\<not> consumed_preview (mq_PreviewID command) db" "consumed_preview (mq_PreviewID command) db'"
proof -
  from assms obtain a p where
    look: "current_assignment (mq_AssignmentID command) db = Some a" and a: "aa_revision a = mq_ExpectedRevision command"
      "CanConfigureTeam actor (or_empty (aa_lead_subject_id a))"
    and p: "lookup ep_id (mq_PreviewID command) (edit_previews (preparation db)) = Some p"
      "hash_edit digests (CoverageSnapshot (mq_OperationKind command) coverage) = Some (ep_edit_digest p)"
      "ep_assignment_id p = mq_AssignmentID command" "ep_assignment_revision p = mq_ExpectedRevision command"
      "ep_edit_kind p = ''QUESTION_COVERAGE''" "ep_actor_subject_id p = SubjectID actor"
      "env_clock env 0 < ep_expires_at p"
    and c: "\<forall>c \<in> set (preview_consumptions (preparation db)). ec_preview_id c \<noteq> mq_PreviewID command"
      "\<exists>c \<in> set (preview_consumptions (preparation db')). ec_preview_id c = mq_PreviewID command"
    by (rule AssignQuestions_effect) (rule that; assumption)
  have "aa_id a = mq_AssignmentID command" using current_assignment_Some [OF look] by simp
  then show thesis
    using c by (intro that [OF look a(2) p(1)]) (auto simp: consumed_preview_def preview_matches_def p a(1))
qed

section \<open>Every step\<close>

text \<open>Within a step: the coverage and the inspectors stay, or an open preview is used.\<close>

definition covered_by_preview :: "DB \<Rightarrow> DB \<Rightarrow> bool" where
  "covered_by_preview db db' \<longleftrightarrow> same_cover db db' \<or>
     (\<exists>p. lookup ep_id (ep_id p) (edit_previews (preparation db)) = Some p \<and> uses_preview db db' p \<and>
        \<not> consumed_preview (ep_id p) db \<and> consumed_preview (ep_id p) db')"

lemma same_cover_preview: "same_cover db db' \<Longrightarrow> covered_by_preview db db'"
  by (simp add: covered_by_preview_def)

lemma AssignTeam_preview:
  assumes run: "AssignTeam digests env actor command db = Inr (db', resp)"
  shows "covered_by_preview db db'"
proof -
  from run obtain members where m: "normalizedIDs (mt_MemberSubjectIDs command) = Inr members"
    and e: "executeCommand digests env actor (AssignTeam_call command members)
      (AssignTeam_handler digests env actor command members) db = Inr (db', resp)"
    by (auto simp: AssignTeam_def split: if_split_asm sum.split_asm)
  from e show ?thesis
  proof (cases rule: executeCommand_cases)
    case (executed semanticHash mid result l)
    from executed(3) obtain a p where u: "current_assignment (mt_AssignmentID command) db = Some a"
      "CanConfigureTeam actor (or_empty (aa_lead_subject_id a))"
      "lookup ep_id (mt_PreviewID command) (edit_previews (preparation db)) = Some p"
      "preview_matches digests env actor a ''TEAM'' (TeamSnapshot members) p"
      "\<not> consumed_preview (mt_PreviewID command) db" "consumed_preview (mt_PreviewID command) mid"
      by (rule AssignTeam_effect)
    have id: "ep_id p = mt_PreviewID command" using lookup_Some [OF u(3)] by simp
    have "uses_preview db db' p" by (rule uses_preview.team [OF run id [symmetric] u(1,2) m u(4)])
    with u show ?thesis unfolding covered_by_preview_def by (intro disjI2 exI [of _ p]) (simp add: id executed(5))
  qed (simp add: same_cover_preview)
qed

lemma AssignQuestions_preview:
  assumes run: "AssignQuestions digests env actor command db = Inr (db', resp)"
  shows "covered_by_preview db db'"
proof -
  from run obtain coverage where m: "normalizedQuestionAssignments (mq_QuestionAssignments command) = Inr coverage"
    and e: "executeCommand digests env actor (AssignQuestions_call command coverage)
      (AssignQuestions_handler digests env actor command coverage) db = Inr (db', resp)"
    by (auto simp: AssignQuestions_def split: if_split_asm sum.split_asm)
  from e show ?thesis
  proof (cases rule: executeCommand_cases)
    case (executed semanticHash mid result l)
    from executed(3) obtain a p where u: "current_assignment (mq_AssignmentID command) db = Some a"
      "CanConfigureTeam actor (or_empty (aa_lead_subject_id a))"
      "lookup ep_id (mq_PreviewID command) (edit_previews (preparation db)) = Some p"
      "preview_matches digests env actor a ''QUESTION_COVERAGE'' (CoverageSnapshot (mq_OperationKind command) coverage) p"
      "\<not> consumed_preview (mq_PreviewID command) db" "consumed_preview (mq_PreviewID command) mid"
      by (rule AssignQuestions_use)
    have id: "ep_id p = mq_PreviewID command" using lookup_Some [OF u(3)] by simp
    have "uses_preview db db' p" by (rule uses_preview.questions [OF run id [symmetric] u(1,2) m u(4)])
    with u show ?thesis unfolding covered_by_preview_def by (intro disjI2 exI [of _ p]) (simp add: id executed(5))
  qed (simp add: same_cover_preview)
qed

lemmas preparation_cover = Prepare_cover AssignLead_cover Preview_cover ConfirmPreparation_cover
  RespondCoordination_cover ReviewCoordination_cover

lemma assignment_dispatch_preview:
  assumes run: "assignment_dispatch digests env actor c db = Inr (db', resp)"
  shows "covered_by_preview db db'"
proof -
  from run obtain call handler where r: "assignment_run digests env actor c call handler"
    and e: "executeCommand digests env actor call handler db = Inr (db', resp)"
    by (rule assignment_dispatch_Inr)
  have "same_cover db db'" if other: "\<And>mid result. handler db = Inr (mid, result) \<Longrightarrow> same_cover db mid"
    using e by (cases rule: executeCommand_cases) (auto intro: other)
  with r run show ?thesis
    by (cases rule: assignment_run.cases)
      (auto intro: same_cover_preview preparation_cover AssignTeam_preview AssignQuestions_preview)
qed

lemma prepare_cover:
  assumes "prepare parses fresh actor c = Inr (envelope, handler)" "handler env db = Inr (mid, result)"
  shows "same_cover db mid"
  using assms
  by (cases c) (auto simp: bind_result_Inr Let_def split: if_splits intro: handler_same_desk [THEN same_desk_cover]
      field_same_desk [THEN same_desk_cover] StartInspection_cover)

lemma dispatch_cover:
  assumes "dispatch parses fresh env actor c db = Inr (db', resp)"
  shows "same_cover db db'"
proof -
  from assms obtain envelope handler where p: "prepare parses fresh actor c = Inr (envelope, handler)"
    and e: "executeTransition env actor envelope (handler env) db = Inr (db', resp)"
    by (rule dispatch_Inr)
  from e show ?thesis
    by (cases rule: executeTransition_cases) (auto intro: prepare_cover [OF p])
qed

lemma MaterializeInspection_cover:
  assumes "MaterializeInspection digests env actor command db = Inr (db', resp)" "desk_wf db"
  shows "same_cover db db'"
  using assms(1) unfolding MaterializeInspection_def
  by (cases rule: executeTransition_cases) (auto intro: Materialize_cover [OF assms(2)])

lemma system_step_preview:
  assumes "system_step db db'" and wf: "desk_wf db"
  shows "covered_by_preview db db'"
  using assms(1)
proof cases
  case (claim worker now claimed)
  then have "attachment_frame db db'" by (rule claimNext_Some)
  then show ?thesis by (intro same_cover_preview same_desk_cover desk_frames)
next
  case (deliver mid now)
  then show ?thesis by (simp add: same_cover_preview same_desk_cover desk_frames markDelivered_frame)
next
  case (finalize_attachment worker env claimed stored key promoted result)
  then have "attachment_frame db db'" by (rule finalizeAttachment_Inr)
  then show ?thesis by (intro same_cover_preview same_desk_cover desk_frames)
next
  case (expire_uploads env)
  then show ?thesis by (simp add: same_cover_preview same_desk_cover desk_frames)
qed (use wf in \<open>blast intro: assignment_dispatch_preview same_cover_preview dispatch_cover
    MaterializeInspection_cover same_desk_cover desk_frames field_frames [THEN side_frame_desk]\<close>)+

section \<open>A consumed preview is used up\<close>

definition fresh_team :: "Principal \<Rightarrow> AssignTeamCommand \<Rightarrow> DB \<Rightarrow> bool" where
  "fresh_team actor command db \<longleftrightarrow>
     stored_response (SubjectID actor @ '':assign_team'') (mt_OperationID command) (ledger db) = None"

lemma consumed_questions_refused:
  assumes "consumed_preview (mq_PreviewID command) db" "fresh_questions actor command db"
  shows "\<exists>e. AssignQuestions digests env actor command db = Inl e"
  using consumed_preview_refused [OF _ _ assms(2)] assms(1) unfolding consumed_preview_def by blast

lemma consumed_team_refused:
  assumes used: "consumed_preview (mt_PreviewID command) db" and fresh: "fresh_team actor command db"
  shows "\<exists>e. AssignTeam digests env actor command db = Inl e"
proof (cases "AssignTeam digests env actor command db")
  case (Inr r)
  then obtain db' resp members where
    "executeCommand digests env actor (AssignTeam_call command members)
      (AssignTeam_handler digests env actor command members) db = Inr (db', resp)"
    by (cases r) (auto simp: AssignTeam_def split: if_split_asm sum.split_asm)
  then show ?thesis
  proof (cases rule: executeCommand_cases)
    case replayed
    with fresh show ?thesis by (simp add: call_scope_kind fresh_team_def)
  next
    case (executed semanticHash mid result l)
    from executed(3) have "\<not> consumed_preview (mt_PreviewID command) db" by (rule AssignTeam_effect)
    with used show ?thesis by blast
  qed
qed auto

end
