(* ===== verification/PreparationSamples.thy ===== *)
theory PreparationSamples
  imports DeskRuns Samples
begin

text \<open>
  A released planning item of one question and the commands that prepare, confirm and materialize its
  audit: the run at which the witnesses of the preparation apply.
\<close>

section \<open>The released item\<close>

definition audit_draft :: PlanningIntakeDraft where
  "audit_draft = \<lparr>pid_id = ''D'', pid_submitted_planning_item_id = Some ''I'',
     pid_values = [(''organizationId'', JString ''ORG''), (''applicationType'', JString ''ON_SITE_INSPECTION''),
       (''catalogVersion'', JString ''v1''), (''noticePolicy'', JString ''ADVANCE''),
       (''inspectionCategory'', JString ''SCHEDULED'')],
     pid_tombstoned = False, pid_revision = 1, pid_updated_at = 0, pid_organization_id = ''ORG'',
     pid_created_by_subject_id = ''manager''\<rparr>"

definition audit_scope :: ScopeDraft where
  "audit_scope = \<lparr>sd_id = ''SD'', sd_planning_intake_draft_id = Some ''D'', sd_planning_proposal_snapshot_id = None,
     sd_provider_scope_id = ''PS'', sd_regulated_target_id = ''T'', sd_status = ''RELEASED'',
     sd_audit_type = ''ON_SITE_INSPECTION'', sd_organization_id = ''ORG'', sd_catalog_id = ''CAT'',
     sd_usage_class = ''GOVERNED_OPERATIONAL'', sd_catalog_root_digest = ''root'', sd_revision = 1,
     sd_selected_question_count = 1, sd_selection_digest = ''sel'', sd_approved_checklist_item_ceiling = None,
     sd_updated_at = 0\<rparr>"

definition audit_snapshot :: ScopeSnapshot where
  "audit_snapshot = \<lparr>ss_scope_draft_id = ''SD'', ss_stage = ''RELEASED'', ss_id = ''SS'', ss_revision = 1,
     ss_catalog_id = ''CAT'', ss_usage_class = ''GOVERNED_OPERATIONAL'', ss_selection_digest = ''sel'',
     ss_selected_question_count = 1, ss_planning_snapshot_digest = ''plan'', ss_catalog_root_digest = ''root'',
     ss_snapshot = [(''noticePolicy'', JString ''ADVANCE''),
       (''selectedQuestionVersionIds'', JArray [JString ''Q1''])]\<rparr>"

definition audit_scopes :: ScopeTables where
  "audit_scopes = \<lparr>t_intake_drafts = [audit_draft], t_scope_drafts = [audit_scope], t_proposals = [],
     t_scope_snapshots = [audit_snapshot],
     t_provider_scopes = [\<lparr>ps_id = ''PS'', ps_root_id = ''PS'', ps_organization_id = ''ORG'',
       ps_service_provider_type_id = ''AIR_OPERATOR'', ps_status = ''ACTIVE'', ps_effective_from = 0,
       ps_effective_to = None, ps_primary_target_id = Some ''T''\<rparr>],
     t_targets = [\<lparr>rt_id = ''T'', rt_organization_id = Some ''ORG'', rt_owner_organization_id = None\<rparr>],
     t_responsibilities = [(''AIR_OPERATOR'', ''U'')], t_units = [''U''],
     t_memberships = [\<lparr>mb_id = ''M'', mb_root_id = ''M'', mb_subject_id = ''manager'', mb_department_id = ''DEP'',
       mb_organizational_unit_id = ''U'', mb_membership_role = ''DEPARTMENT_MANAGER'', mb_status = ''ACTIVE'',
       mb_effective_from = 0, mb_effective_to = None\<rparr>],
     t_department_facts = [\<lparr>sf_id = ''1'', sf_subject = ''DEP'', sf_status = ''ACTIVE'', sf_effective_from = 0\<rparr>],
     t_unit_facts = [\<lparr>sf_id = ''2'', sf_subject = ''U'', sf_status = ''ACTIVE'', sf_effective_from = 0\<rparr>],
     t_scope_targets = []\<rparr>"

definition employed :: "string \<Rightarrow> Role \<Rightarrow> DesiredMembership" where
  "employed subject role = \<lparr>dm_membership_id = subject, dm_subject_id = subject, dm_revision = 1,
     dm_membership_state = ''ACTIVE'', dm_effective_at = 0, dm_organization_id = ''CAA'',
     dm_roles = [role_text role]\<rparr>"

definition synchronized :: "string \<Rightarrow> Role \<Rightarrow> MembershipSync" where
  "synchronized subject role = \<lparr>ms_membership_id = subject, ms_subject_id = subject, ms_desired_revision = 1,
     ms_observed_provider_enabled = True, ms_drift_state = ''IN_SYNC'', ms_observed_organization_id = Some ''CAA'',
     ms_observed_roles = [role_text role]\<rparr>"

definition audit_preparation :: PreparationTables where
  "audit_preparation = no_preparation\<lparr>
     plan_items := [\<lparr>it_id = ''I'', it_organization_id = ''ORG'', it_title = ''Audit'',
       it_inspection_type = ''ON_SITE_INSPECTION'', it_status = ''RELEASED'', it_scheduled_date = 0, it_revision = 3,
       it_tombstoned_at = None, it_plan_year = 2026, it_estimated_budget = 0, it_current_owner_role = '''',
       it_next_action = '''', it_created_at = 0, it_updated_at = 0\<rparr>],
     desired_memberships := [employed ''lead'' RoleLeadInspector, employed ''inspector'' RoleInspector],
     membership_sync := [synchronized ''lead'' RoleLeadInspector, synchronized ''inspector'' RoleInspector],
     identity_references := [\<lparr>id_subject_id = ''lead'', id_tombstoned_at = None, id_deactivated_at = None\<rparr>,
       \<lparr>id_subject_id = ''inspector'', id_tombstoned_at = None, id_deactivated_at = None\<rparr>],
     question_catalogs := [\<lparr>ca_id = ''CAT'', ca_catalog_version = ''v1'', ca_catalog_root_digest = ''root'',
       ca_usage_class = ''GOVERNED_OPERATIONAL'', ca_status = ''SEALED'',
       ca_source_origin = ''IMPORTED_APPROVED_SOURCE'', ca_created_at = 0\<rparr>],
     catalog_memberships := [\<lparr>cm_catalog_id = ''CAT'', cm_question_version_id = ''Q1'',
       cm_usage_class = ''GOVERNED_OPERATIONAL'', cm_form_code = ''F1'', cm_ordinal = 0, cm_proposed_domain = None\<rparr>],
     applicabilities := [\<lparr>ap_catalog_id = ''CAT'', ap_question_version_id = ''Q1'', ap_provider_scope_id = ''PS'',
       ap_regulated_target_id = ''T'', ap_status = ''ELIGIBLE''\<rparr>]\<rparr>"

definition planned_db :: DB where
  "planned_db = empty_db\<lparr>scope_tables := audit_scopes, preparation := audit_preparation,
     organizations := [\<lparr>g_id = ''ORG'', g_legal_name = ''Operator'', g_organization_type = ''OPERATOR'',
       g_status = ''ACTIVE'', g_revision = 1, g_created_at = 0, g_updated_at = 0, g_tombstoned_at = None\<rparr>],
     snapshot_questions := [\<lparr>sq_snapshot_id = ''SS'', sq_question_version_id = ''Q1'', sq_position = 0\<rparr>],
     question_versions := [\<lparr>qv_id = ''Q1'', qv_question_id = ''Q'', qv_prompt = ''p'', qv_configured_reference = ''r'',
       qv_expected_evidence = ''e''\<rparr>]\<rparr>"

section \<open>The commands\<close>

definition prep_digests :: Digests where
  "prep_digests = \<lparr>hash_command = (\<lambda>_. Some ''h''), hash_edit = (\<lambda>_. Some ''e''),
     digest_preparation = (\<lambda>_. ''sha256:p''), digest_package = (\<lambda>_. ''sha256:k''), digest_selection = (\<lambda>_. ''sel'')\<rparr>"

definition prep_env :: "char \<Rightarrow> Env" where
  "prep_env c = sample_env\<lparr>env_new_id := (\<lambda>p. p @ [c])\<rparr>"

abbreviation lead_actor :: Principal where "lead_actor \<equiv> principal ''lead'' RoleLeadInspector ''CAA''"

definition prepared :: "char \<Rightarrow> Principal \<Rightarrow> AssignmentCommand \<Rightarrow> DB \<Rightarrow> DB" where
  "prepared c actor command db =
     (case assignment_dispatch prep_digests (prep_env c) actor command db of Inr (db', _) \<Rightarrow> db' | Inl _ \<Rightarrow> db)"

abbreviation audit_assignment :: string where "audit_assignment \<equiv> ''assignment:I''"

definition cmd_prepare :: AssignmentCommand where
  "cmd_prepare = CmdPrepare \<lparr>ac_OperationID = ''op1'', ac_IdempotencyKey = ''k1'', ac_PlanningItemID = ''I'',
     ac_InspectionID = '''', ac_ExpectedPlanningRevision = 3\<rparr>"

definition cmd_lead :: AssignmentCommand where
  "cmd_lead = CmdAssignLead \<lparr>al_OperationID = ''op2'', al_IdempotencyKey = ''k2'', al_AssignmentID = audit_assignment,
     al_InspectionID = '''', al_ExpectedInspectionRevision = 1, al_LeadSubjectID = ''lead'',
     al_ScheduledStartDate = '''', al_ScheduledEndDate = ''''\<rparr>"

definition cmd_preview_team :: AssignmentCommand where
  "cmd_preview_team = CmdPreviewTeam \<lparr>vt_OperationID = ''op3'', vt_IdempotencyKey = ''k3'',
     vt_AssignmentID = audit_assignment, vt_ExpectedRevision = 2, vt_MemberSubjectIDs = [''inspector'']\<rparr>"

definition cmd_team :: AssignmentCommand where
  "cmd_team = CmdAssignTeam \<lparr>mt_OperationID = ''op4'', mt_IdempotencyKey = ''k4'', mt_AssignmentID = audit_assignment,
     mt_ExpectedRevision = 2, mt_PreviewID = ''preparation-preview:assignment:I:TEAM:op3'', mt_PreviewDigest = ''e'',
     mt_MemberSubjectIDs = [''inspector'']\<rparr>"

definition cmd_preview_questions :: AssignmentCommand where
  "cmd_preview_questions = CmdPreviewQuestions \<lparr>vq_OperationID = ''op5'', vq_IdempotencyKey = ''k5'',
     vq_AssignmentID = audit_assignment, vq_ExpectedRevision = 3, vq_OperationKind = CoverageAdd,
     vq_QuestionAssignments = [\<lparr>qc_QuestionID = ''Q1'', qc_SubjectID = ''inspector''\<rparr>]\<rparr>"

definition questions_command :: AssignQuestionsCommand where
  "questions_command = \<lparr>mq_OperationID = ''op6'', mq_IdempotencyKey = ''k6'',
     mq_AssignmentID = audit_assignment, mq_ExpectedRevision = 3,
     mq_PreviewID = ''preparation-preview:assignment:I:QUESTION_COVERAGE:op5'', mq_PreviewDigest = ''e'',
     mq_OperationKind = CoverageAdd,
     mq_QuestionAssignments = [\<lparr>qc_QuestionID = ''Q1'', qc_SubjectID = ''inspector''\<rparr>]\<rparr>"

definition confirm_command :: ConfirmPreparationCommand where
  "confirm_command = \<lparr>cf_OperationID = ''op7'', cf_IdempotencyKey = ''k7'', cf_AssignmentID = audit_assignment,
     cf_ExpectedAssignmentRevision = 4\<rparr>"

definition materialize_command_input :: MaterializeInspectionCommand where
  "materialize_command_input = \<lparr>mi_OperationID = ''op8'', mi_IdempotencyKey = ''k8'', mi_CorrelationID = ''corr'',
     mi_AssignmentID = audit_assignment, mi_ExpectedAssignmentRevision = 5, mi_TemplateVersionID = '''',
     mi_PackageID = '''', mi_PackageVersion = 0, mi_ExpiresAt = 0\<rparr>"

section \<open>The run\<close>

definition lead_db :: DB where
  "lead_db = prepared (CHR ''2'') manager cmd_lead (prepared (CHR ''1'') manager cmd_prepare planned_db)"

definition team_db :: DB where
  "team_db = prepared (CHR ''4'') lead_actor cmd_team (prepared (CHR ''3'') lead_actor cmd_preview_team lead_db)"

definition previewed_db :: DB where
  "previewed_db = prepared (CHR ''5'') lead_actor cmd_preview_questions team_db"

definition covered_db :: DB where
  "covered_db = prepared (CHR ''6'') lead_actor (CmdAssignQuestions questions_command) previewed_db"

definition confirmed_db :: DB where
  "confirmed_db = prepared (CHR ''7'') manager (CmdConfirmPreparation confirm_command) covered_db"

definition materialized_db :: DB where
  "materialized_db = (case MaterializeInspection prep_digests (prep_env (CHR ''8'')) manager materialize_command_input
     confirmed_db of Inr (db', _) \<Rightarrow> db' | Inl _ \<Rightarrow> confirmed_db)"

definition agree_command :: RespondCoordinationCommand where
  "agree_command = \<lparr>rp_OperationID = ''op9'', rp_IdempotencyKey = ''k9'', rp_InspectionID = ''inspection:assignment:I'',
     rp_OrganizationID = ''ORG'', rp_ExpectedRevision = 6, rp_Decision = CoordinationConfirm, rp_AlternativeDate = None\<rparr>"

definition agreed_db :: DB where
  "agreed_db = prepared (CHR ''9'') auditee (CmdRespondCoordination agree_command) materialized_db"

lemma prepared_dispatch:
  assumes "\<not> isl (assignment_dispatch prep_digests (prep_env c) actor command db)"
  obtains resp where "assignment_dispatch prep_digests (prep_env c) actor command db = Inr (prepared c actor command db, resp)"
  using assms by (cases "assignment_dispatch prep_digests (prep_env c) actor command db") (auto simp: prepared_def)

lemma prepared_run: "system_run db (prepared c actor command db)"
proof (cases "isl (assignment_dispatch prep_digests (prep_env c) actor command db)")
  case True
  then show ?thesis by (auto simp: prepared_def split: sum.split)
next
  case False
  then show ?thesis by (rule prepared_dispatch) (rule r_into_rtranclp, rule system_step.preparation)
qed

lemma planned_db_wf: "desk_wf planned_db"
  by (simp add: desk_wf_def assignments_wf_def keys_wf_def receipts_wf_def inspections_wf_def coverage_wf_def
      questions_placed_def planned_db_def empty_db_def audit_preparation_def no_preparation_def)

lemma preparation_run: "system_run planned_db previewed_db" "system_run previewed_db covered_db"
  "system_run covered_db confirmed_db"
  unfolding previewed_db_def team_db_def lead_db_def covered_db_def confirmed_db_def
  by ((rule prepared_run | rule rtranclp_trans [OF _ prepared_run])+)

lemma covered_db_wf: "desk_wf previewed_db" "desk_wf covered_db" "desk_wf confirmed_db"
proof -
  show previewed: "desk_wf previewed_db" using desk.run_desk [OF preparation_run(1) planned_db_wf] ..
  show covered: "desk_wf covered_db" using desk.run_desk [OF preparation_run(2) previewed] ..
  show "desk_wf confirmed_db" using desk.run_desk [OF preparation_run(3) covered] ..
qed

end
