(* ===== verification/PreparationResults.thy ===== *)
theory PreparationResults
  imports PreparationSamples MaterializationLaws
begin

text \<open>What the run of \<open>PreparationSamples\<close> leaves, step by step.\<close>

definition stage_view where
  "stage_view db =
     (map (\<lambda>a. (aa_id a, aa_status a, aa_revision a, aa_inspection_id a)) (audit_assignments db),
      map (\<lambda>p. (ph_id p, ph_status p, ph_assignment_id p)) (filter (\<lambda>p. ph_status p = ''CONFIRMED'') (preparation_snapshots (preparation db))),
      listQuestionAssignments audit_assignment db,
      map ir_operation_id (l_responses (ledger db)), scope_keys db)"

abbreviation confirmation_id :: string where "confirmation_id \<equiv> ''preparation:assignment:I:1''"
abbreviation audit_inspection :: string where "audit_inspection \<equiv> ''inspection:assignment:I''"

lemma audit_stages:
  "(let previewed = previewed_db;
        covered = prepared (CHR ''6'') lead_actor (CmdAssignQuestions questions_command) previewed;
        confirmed = prepared (CHR ''7'') manager (CmdConfirmPreparation confirm_command) covered;
        materialized = (case MaterializeInspection prep_digests (prep_env (CHR ''8'')) manager
          materialize_command_input confirmed of Inr (db', _) \<Rightarrow> db' | Inl _ \<Rightarrow> confirmed);
        agreed = prepared (CHR ''9'') auditee (CmdRespondCoordination agree_command) materialized
    in (stage_view previewed, stage_view covered, stage_view confirmed, stage_view materialized, stage_view agreed)) =
   (([(audit_assignment, StatusTeamAssigned, 3, None)], [], [],
      [''op1'', ''op2'', ''op3'', ''op4'', ''op5''], True),
    ([(audit_assignment, StatusQuestionsAssigned, 4, None)], [], [\<lparr>qc_QuestionID = ''Q1'', qc_SubjectID = ''inspector''\<rparr>],
      [''op1'', ''op2'', ''op3'', ''op4'', ''op5'', ''op6''], True),
    ([(audit_assignment, StatusQuestionsAssigned, 5, None)], [(confirmation_id, ''CONFIRMED'', Some audit_assignment)],
      [\<lparr>qc_QuestionID = ''Q1'', qc_SubjectID = ''inspector''\<rparr>],
      [''op1'', ''op2'', ''op3'', ''op4'', ''op5'', ''op6'', ''op7''], True),
    ([(audit_assignment, StatusAwaitingAuditeeConfirmation, 6, Some audit_inspection)],
      [(confirmation_id, ''CONFIRMED'', Some audit_assignment)],
      [\<lparr>qc_QuestionID = ''Q1'', qc_SubjectID = ''inspector''\<rparr>],
      [''op1'', ''op2'', ''op3'', ''op4'', ''op5'', ''op6'', ''op7'', ''op8''], True),
    ([(audit_assignment, StatusConfirmed, 7, Some audit_inspection)],
      [(confirmation_id, ''CONFIRMED'', Some audit_assignment)],
      [\<lparr>qc_QuestionID = ''Q1'', qc_SubjectID = ''inspector''\<rparr>],
      [''op1'', ''op2'', ''op3'', ''op4'', ''op5'', ''op6'', ''op7'', ''op8'', ''op9''], True))"
  by code_simp

lemmas audit_stage_views = audit_stages [unfolded Let_def, folded covered_db_def, folded confirmed_db_def,
  folded materialized_db_def, folded agreed_db_def]

lemma stage_views:
  "stage_view previewed_db = ([(audit_assignment, StatusTeamAssigned, 3, None)], [], [],
     [''op1'', ''op2'', ''op3'', ''op4'', ''op5''], True)"
  "stage_view covered_db = ([(audit_assignment, StatusQuestionsAssigned, 4, None)], [],
     [\<lparr>qc_QuestionID = ''Q1'', qc_SubjectID = ''inspector''\<rparr>],
     [''op1'', ''op2'', ''op3'', ''op4'', ''op5'', ''op6''], True)"
  "stage_view confirmed_db = ([(audit_assignment, StatusQuestionsAssigned, 5, None)],
     [(confirmation_id, ''CONFIRMED'', Some audit_assignment)], [\<lparr>qc_QuestionID = ''Q1'', qc_SubjectID = ''inspector''\<rparr>],
     [''op1'', ''op2'', ''op3'', ''op4'', ''op5'', ''op6'', ''op7''], True)"
  "fst (stage_view materialized_db) = [(audit_assignment, StatusAwaitingAuditeeConfirmation, 6, Some audit_inspection)]"
  "fst (stage_view agreed_db) = [(audit_assignment, StatusConfirmed, 7, Some audit_inspection)]"
  using audit_stage_views by simp_all

section \<open>Rows\<close>

lemma confirmed_assignment:
  obtains a where "audit_assignments confirmed_db = [a]" "aa_id a = audit_assignment"
    "aa_status a = StatusQuestionsAssigned" "aa_revision a = 5"
  using stage_views(3) by (auto simp: stage_view_def)

lemma materialized_assignment:
  obtains a where "audit_assignments materialized_db = [a]" "aa_id a = audit_assignment"
    "aa_status a = StatusAwaitingAuditeeConfirmation"
  using stage_views(4) by (auto simp: stage_view_def)

lemma agreed_assignment:
  obtains a where "audit_assignments agreed_db = [a]" "aa_id a = audit_assignment" "aa_status a = StatusConfirmed"
    "aa_inspection_id a = Some audit_inspection"
  using stage_views(5) by (auto simp: stage_view_def)

lemma confirmed_receipt:
  obtains p where "p \<in> set (preparation_snapshots (preparation confirmed_db))" "ph_id p = confirmation_id"
    "ph_status p = ''CONFIRMED''" "ph_assignment_id p = Some audit_assignment"
proof -
  from stage_views(3) obtain p where "filter (\<lambda>p. ph_status p = ''CONFIRMED'') (preparation_snapshots (preparation confirmed_db)) = [p]"
    and p: "ph_id p = confirmation_id" "ph_status p = ''CONFIRMED''" "ph_assignment_id p = Some audit_assignment"
    by (auto simp: stage_view_def)
  then have "p \<in> set (preparation_snapshots (preparation confirmed_db))" by (metis filter_is_subset list.set_intros(1) subsetD)
  with p show thesis by (intro that)
qed

lemma stage_fresh:
  assumes "operationID \<notin> ir_operation_id ` set (l_responses l)"
  shows "stored_response scope operationID l = None"
  using assms by (auto simp: stored_response_def lookup_None)

lemma image_of_map: "map f xs = ys \<Longrightarrow> f ` set xs = set ys"
  by auto

lemma stage_responses:
  "ir_operation_id ` set (l_responses (ledger previewed_db)) = set [''op1'', ''op2'', ''op3'', ''op4'', ''op5'']"
  "ir_operation_id ` set (l_responses (ledger covered_db)) = set [''op1'', ''op2'', ''op3'', ''op4'', ''op5'', ''op6'']"
  "ir_operation_id ` set (l_responses (ledger confirmed_db)) =
     set [''op1'', ''op2'', ''op3'', ''op4'', ''op5'', ''op6'', ''op7'']"
  by (rule image_of_map, use stage_views(1-3) in \<open>simp add: stage_view_def\<close>)+

section \<open>Accepted commands\<close>

lemma prepared_accepted:
  assumes "fst (stage_view (prepared c actor command db)) \<noteq> fst (stage_view db)"
  obtains resp where "assignment_dispatch prep_digests (prep_env c) actor command db = Inr (prepared c actor command db, resp)"
  using assms by (cases "assignment_dispatch prep_digests (prep_env c) actor command db") (auto simp: prepared_def)

lemma questions_accepted:
  obtains resp where "AssignQuestions prep_digests (prep_env (CHR ''6'')) lead_actor questions_command previewed_db =
    Inr (covered_db, resp)"
proof -
  have "fst (stage_view (prepared (CHR ''6'') lead_actor (CmdAssignQuestions questions_command) previewed_db)) \<noteq>
      fst (stage_view previewed_db)"
    unfolding covered_db_def [symmetric] stage_views by simp
  then show thesis by (rule prepared_accepted) (rule that, simp add: covered_db_def)
qed

lemma confirm_accepted:
  obtains resp where "ConfirmPreparation prep_digests (prep_env (CHR ''7'')) manager confirm_command covered_db =
    Inr (confirmed_db, resp)"
proof -
  have "fst (stage_view (prepared (CHR ''7'') manager (CmdConfirmPreparation confirm_command) covered_db)) \<noteq>
      fst (stage_view covered_db)"
    unfolding confirmed_db_def [symmetric] stage_views by simp
  then show thesis by (rule prepared_accepted) (rule that, simp add: confirmed_db_def)
qed

lemma materialize_accepted:
  obtains resp where "MaterializeInspection prep_digests (prep_env (CHR ''8'')) manager materialize_command_input
    confirmed_db = Inr (materialized_db, resp)"
  using stage_views(3,4) that by (auto simp: materialized_db_def split: sum.splits)

lemma agree_step: "system_step materialized_db agreed_db"
proof -
  have "fst (stage_view (prepared (CHR ''9'') auditee (CmdRespondCoordination agree_command) materialized_db)) \<noteq>
      fst (stage_view materialized_db)"
    unfolding agreed_db_def [symmetric] stage_views by simp
  then show ?thesis
    by (rule prepared_accepted) (unfold agreed_db_def [symmetric], rule system_step.preparation)
qed

lemma materialize_run: "system_run confirmed_db materialized_db" "system_run confirmed_db agreed_db"
proof -
  obtain resp where "MaterializeInspection prep_digests (prep_env (CHR ''8'')) manager materialize_command_input
    confirmed_db = Inr (materialized_db, resp)" by (rule materialize_accepted)
  then show run: "system_run confirmed_db materialized_db" by (intro r_into_rtranclp system_step.materialize)
  from agree_step show "system_run confirmed_db agreed_db" by (rule rtranclp.rtrancl_into_rtrancl [OF run])
qed

lemma materialized_db_wf: "desk_wf materialized_db"
  using desk.run_desk [OF materialize_run(1) covered_db_wf(3)] ..

end
