(* ===== verification/Preparations.thy ===== *)
theory Preparations
  imports CoverageChanges PreparationResults
begin

text \<open>
  The properties of the preparation of an audit: the lifecycle of an assignment and its inspection, the
  receipt of a confirmed preparation, the previews and the coverage, and the agreement on the date.
\<close>

section \<open>Assignments\<close>

text \<open>C17: every assignment of a reachable state has one of the nine statuses and a positive revision; it names
  a lead exactly after the first status and an inspection exactly after the preparation.\<close>

theorem assignment_shapes:
  assumes "system_run db db'" "desk_wf db" "a \<in> set (audit_assignments db')"
  shows "aa_status a \<in> set assignment_statuses \<and> 0 < sint (aa_revision a) \<and>
    (aa_lead_subject_id a = None \<longleftrightarrow> aa_status a = StatusPreparation) \<and>
    (aa_inspection_id a = None \<longleftrightarrow> aa_status a \<in> {StatusPreparation, StatusLeadAssigned, StatusTeamAssigned,
       StatusQuestionsAssigned})"
proof -
  from desk.run_desk [OF assms(1,2)] assms(3) have "assignment_check a" "aa_status a \<in> set assignment_statuses"
    by (auto simp: desk_wf_def assignments_wf_def)
  then show ?thesis
    by (auto simp: assignment_check_def assignment_shape_def preparation_statuses_def split: if_split_asm)
qed

theorem assignment_shapes_witness:
  "\<exists>a \<in> set (audit_assignments confirmed_db). aa_lead_subject_id a \<noteq> None \<and> aa_inspection_id a = None"
proof -
  obtain a where a: "audit_assignments confirmed_db = [a]" "aa_status a = StatusQuestionsAssigned"
    by (rule confirmed_assignment) (rule that)
  with assignment_shapes [OF preparation_run(3) covered_db_wf(2), of a] show ?thesis by simp
qed

text \<open>C9: the inspection of an assignment follows it: it exists, belongs to no other assignment, and is in the
  status that the one of the assignment prescribes, whatever ran.\<close>

theorem inspection_follows_assignment:
  assumes "system_run db db'" "desk_wf db" "a \<in> set (audit_assignments db')" "aa_inspection_id a = Some i"
  shows "(\<exists>n. lookup in_id i (inspections db') = Some n \<and>
      in_status n = (if aa_status a = StatusAwaitingAuditeeConfirmation \<or> aa_status a = StatusAlternativeProposed
        then ''AWAITING_AUDITEE_CONFIRMATION'' else if aa_status a = StatusReady then ''IN_PROGRESS'' else ''SCHEDULED'')) \<and>
    (\<forall>b \<in> set (audit_assignments db'). aa_inspection_id b = Some i \<longrightarrow> b = a)"
proof -
  from desk.run_desk [OF assms(1,2)] have wf: "desk_wf db'" ..
  then have rows: "assignments_wf db'" by (simp add: desk_wf_def)
  have "b = a" if "b \<in> set (audit_assignments db')" "aa_inspection_id b = Some i" for b
    using inspections_unique [of db' a b] wf that assms(3,4) assignments_key [OF rows assms(3) that(1)]
    by (simp add: desk_wf_def)
  with agreed_status [OF wf assms(3,4)] show ?thesis by (auto simp: scheduled_as_def)
qed

theorem inspection_follows_assignment_witness:
  "\<exists>n. lookup in_id audit_inspection (inspections agreed_db) = Some n \<and> in_status n = ''SCHEDULED''"
proof -
  obtain a where a: "audit_assignments agreed_db = [a]" "aa_id a = audit_assignment" "aa_status a = StatusConfirmed"
    "aa_inspection_id a = Some audit_inspection" by (rule agreed_assignment)
  from inspection_follows_assignment [OF materialize_run(2) covered_db_wf(3) _ a(4)] a(1,3) show ?thesis by simp
qed

text \<open>C14: the lifecycle of an assignment: its row stays, keeps the columns that name the audit, moves along the
  edges of the lifecycle with a higher revision for every change, and never changes its lead or its inspection
  once it has one.\<close>

theorem assignment_lifecycle:
  assumes "system_run db db'" "desk_wf db" "lookup aa_id k (audit_assignments db) = Some a"
  shows "\<exists>a'. lookup aa_id k (audit_assignments db') = Some a' \<and> same_audit a a' \<and>
    assignment_edge\<^sup>*\<^sup>* (aa_status a) (aa_status a') \<and>
    (a' = a \<or> sint (aa_revision a) < sint (aa_revision a')) \<and>
    (aa_lead_subject_id a \<noteq> None \<longrightarrow> aa_lead_subject_id a' = aa_lead_subject_id a) \<and>
    (aa_inspection_id a \<noteq> None \<longrightarrow> aa_inspection_id a' = aa_inspection_id a)"
  using desk.run_assignment [OF assms] assignment_history by blast

theorem assignment_lifecycle_witness:
  "assignment_edge\<^sup>*\<^sup>* StatusQuestionsAssigned StatusConfirmed"
proof -
  obtain a where a: "audit_assignments confirmed_db = [a]" "aa_id a = audit_assignment"
    "aa_status a = StatusQuestionsAssigned" by (rule confirmed_assignment) (rule that)
  obtain b where b: "audit_assignments agreed_db = [b]" "aa_status b = StatusConfirmed"
    by (rule agreed_assignment) (rule that)
  have "lookup aa_id audit_assignment (audit_assignments confirmed_db) = Some a" using a by (simp add: lookup_def)
  from assignment_lifecycle [OF materialize_run(2) covered_db_wf(3) this] a b
  show ?thesis by (auto simp: lookup_def split: if_split_asm)
qed

section \<open>Receipts\<close>

text \<open>C10: a confirmed preparation is a lasting receipt: its row never changes, and at every later time it
  attests the scope, the lead and the live coverage of its assignment, all by active members of the team, with one
  stored row per question and inspector.\<close>

theorem confirmed_receipt_lasts:
  assumes "system_run db db'" "desk_wf db" "p \<in> set (preparation_snapshots (preparation db))"
    and "ph_status p = ''CONFIRMED''"
  shows "p \<in> set (preparation_snapshots (preparation db')) \<and>
    (\<exists>a \<in> set (audit_assignments db'). ph_assignment_id p = Some (aa_id a) \<and>
      aa_released_scope_snapshot_id a = Some (ph_released_scope_snapshot_id p) \<and>
      aa_lead_subject_id a = Some (ph_lead_subject_id p) \<and>
      py_coverage (ph_snapshot p) = coverage_entries (listQuestionAssignments (aa_id a) db')
        (snapshot_question_ids (ph_released_scope_snapshot_id p) db') \<and>
      (\<forall>c \<in> set (listQuestionAssignments (aa_id a) db'). active_member (aa_id a) (qc_SubjectID c) db') \<and>
      filter (\<lambda>z. pz_preparation_id z = ph_id p) (preparation_questions (preparation db')) =
        question_rows (ph_id p) (ph_released_scope_snapshot_id p) (py_coverage (ph_snapshot p)))"
  using desk.run_receipt [OF assms] unfolding receipt_holds_def receipt_of_def by blast

theorem confirmed_receipt_lasts_witness:
  "\<exists>p \<in> set (preparation_snapshots (preparation agreed_db)). ph_id p = confirmation_id \<and>
     py_coverage (ph_snapshot p) = coverage_entries (listQuestionAssignments audit_assignment agreed_db)
       (snapshot_question_ids (ph_released_scope_snapshot_id p) agreed_db)"
proof -
  obtain p where p: "p \<in> set (preparation_snapshots (preparation confirmed_db))" "ph_id p = confirmation_id"
    "ph_status p = ''CONFIRMED''" "ph_assignment_id p = Some audit_assignment" by (rule confirmed_receipt)
  from confirmed_receipt_lasts [OF materialize_run(2) covered_db_wf(3) p(1,3)] p(2,4) show ?thesis by auto
qed

text \<open>C12: a preparation is confirmed only by a Department Manager in scope, at the revision the command expects,
  for a released scope: every question of the scope and no other is covered, by active members of the team, and
  the receipt that is appended holds exactly that coverage, with the digest of its content.\<close>

theorem confirmation_pins_scope:
  assumes "ConfirmPreparation digests env actor command db = Inr (db', resp)" "scope_keys db"
    and "stored_response (call_scope actor (ConfirmPreparation_call command)) (cf_OperationID command) (ledger db) = None"
  shows "HasRole actor [RoleDepartmentManager] \<and>
    (\<exists>a p snapshot. current_assignment (cf_AssignmentID command) db = Some a \<and>
      aa_status a = StatusQuestionsAssigned \<and> aa_revision a = cf_ExpectedAssignmentRevision command \<and>
      require_scope env actor (or_empty (aa_planning_item_id a)) '''' db = None \<and>
      snapshot \<in> set (t_scope_snapshots (scope_tables db)) \<and> ss_stage snapshot = ''RELEASED'' \<and>
      qc_QuestionID ` set (listQuestionAssignments (cf_AssignmentID command) db) =
        set (snapshot_question_ids (ss_id snapshot) db) \<and>
      (\<forall>c \<in> set (listQuestionAssignments (cf_AssignmentID command) db).
         active_member (cf_AssignmentID command) (qc_SubjectID c) db) \<and>
      preparation_snapshots (preparation db') = preparation_snapshots (preparation db) @ [p] \<and>
      ph_status p = ''CONFIRMED'' \<and> ph_assignment_id p = Some (cf_AssignmentID command) \<and>
      ph_released_scope_snapshot_id p = ss_id snapshot \<and>
      ph_confirmed_by_subject_id p = Some (SubjectID actor) \<and>
      ph_confirmed_assignment_revision p = Some (aa_revision a + 1) \<and>
      ph_preparation_digest p = digest_preparation digests (ph_snapshot p) \<and>
      py_coverage (ph_snapshot p) = coverage_entries (listQuestionAssignments (cf_AssignmentID command) db)
        (snapshot_question_ids (ss_id snapshot) db))"
proof -
  from assms(1,3) obtain mid result l where role: "HasRole actor [RoleDepartmentManager]"
    and run: "ConfirmPreparation_handler digests env actor command db = Inr (mid, result)"
    and db': "db' = mid\<lparr>ledger := l\<rparr>" by (rule ConfirmPreparation_fresh)
  from run obtain a p snapshot where h: "current_assignment (cf_AssignmentID command) db = Some a"
      "aa_status a = StatusQuestionsAssigned" "aa_revision a = cf_ExpectedAssignmentRevision command"
      "require_scope env actor (or_empty (aa_planning_item_id a)) '''' db = None"
      "snapshot \<in> set (t_scope_snapshots (scope_tables db))" "ss_stage snapshot = ''RELEASED''"
      "preparation_snapshots (preparation mid) = preparation_snapshots (preparation db) @ [p]"
      "ph_status p = ''CONFIRMED''" "ph_assignment_id p = Some (cf_AssignmentID command)"
      "ph_released_scope_snapshot_id p = ss_id snapshot" "ph_confirmed_by_subject_id p = Some (SubjectID actor)"
      "ph_preparation_digest p = digest_preparation digests (ph_snapshot p)"
      "ph_confirmed_assignment_revision p = Some (aa_revision a + 1)"
      "py_coverage (ph_snapshot p) =
         coverage_entries (coverage_rows (cf_AssignmentID command) db) (snapshot_question_ids (ss_id snapshot) db)"
      "\<forall>c \<in> set (coverage_rows (cf_AssignmentID command) db). active_member (cf_AssignmentID command) (qc_SubjectID c) db"
    and c: "\<forall>q \<in> set (snapshot_question_ids (ss_id snapshot) db).
        subjects_of (coverage_rows (cf_AssignmentID command) db) q \<noteq> []"
      "length (snapshot_question_ids (ss_id snapshot) db) =
         length (remdups (map qc_QuestionID (coverage_rows (cf_AssignmentID command) db)))"
    by (rule ConfirmPreparation_effect) (rule that; assumption)
  from covers_exactly [OF scope_ids_distinct [OF assms(2)] c] role h show ?thesis
    unfolding coverage_rows_def db' by simp blast
qed

theorem confirmation_pins_scope_witness:
  "\<exists>snapshot :: ScopeSnapshot. ss_stage snapshot = ''RELEASED'' \<and>
     qc_QuestionID ` set (listQuestionAssignments audit_assignment covered_db) =
       set (snapshot_question_ids (ss_id snapshot) covered_db)"
proof -
  obtain resp where run: "ConfirmPreparation prep_digests (prep_env (CHR ''7'')) manager confirm_command covered_db =
    Inr (confirmed_db, resp)" by (rule confirm_accepted)
  have keys: "scope_keys covered_db" using stage_views(2) by (simp add: stage_view_def)
  have fresh: "stored_response (call_scope manager (ConfirmPreparation_call confirm_command))
    (cf_OperationID confirm_command) (ledger covered_db) = None"
    by (rule stage_fresh) (simp add: stage_responses confirm_command_def)
  have id: "cf_AssignmentID confirm_command = audit_assignment" by (simp add: confirm_command_def)
  from confirmation_pins_scope [OF run keys fresh, unfolded id] show ?thesis by blast
qed

text \<open>C11: an inspection is materialized only by a Department Manager, from the preparation that was confirmed
  at the current revision of the assignment: question by question the package holds the inspectors of the receipt,
  under its identifier and digest, and the same assignments of questions are appended for the inspectors.\<close>

theorem materialized_from_receipt:
  assumes "MaterializeInspection digests env actor command db = Inr (db', resp)" "desk_wf db" "scope_keys db"
    and "stored_response (command_scope actor (MaterializeInspection_envelope command)) (mi_OperationID command)
      (ledger db) = None"
  shows "HasRole actor [RoleDepartmentManager] \<and>
    (\<exists>a p i package content. current_assignment (mi_AssignmentID command) db = Some a \<and>
      aa_status a = StatusQuestionsAssigned \<and> aa_revision a = mi_ExpectedAssignmentRevision command \<and>
      p \<in> set (preparation_snapshots (preparation db)) \<and> ph_status p = ''CONFIRMED'' \<and>
      ph_assignment_id p = Some (aa_id a) \<and> ph_confirmed_assignment_revision p = Some (aa_revision a) \<and>
      (\<forall>n \<in> set (inspections db). in_id n \<noteq> i) \<and>
      inspection_packages db' = inspection_packages db @ [package] \<and>
      pk_inspection_id package = i \<and> pk_snapshot package = Some content \<and>
      pk_package_digest package = digest_package digests content \<and>
      ks_preparationId content = ph_id p \<and> ks_preparationDigest content = ph_preparation_digest p \<and>
      map (\<lambda>q. (kq_id q, kq_assignedInspectorUserIds q)) (ks_questions content) = py_coverage (ph_snapshot p) \<and>
      question_assignments db' = question_assignments db @
        materialized_assignments i (aa_revision a + 1) (ks_questions content) \<and>
      (\<exists>a'. lookup aa_id (aa_id a) (audit_assignments db') = Some a' \<and> aa_inspection_id a' = Some i \<and>
        aa_status a' \<in> {StatusScheduled, StatusAwaitingAuditeeConfirmation}))"
proof -
  from assms(1,4) obtain mid result l where
    run: "MaterializeInspection_handler digests env actor command db = Inr (mid, result)" and db': "db' = mid\<lparr>ledger := l\<rparr>"
    by (rule MaterializeInspection_fresh)
  from materialized_receipt [OF assms(2,3) run] show ?thesis unfolding db' by simp
qed

theorem materialized_from_receipt_witness:
  "\<exists>package content. package \<in> set (inspection_packages materialized_db) \<and> pk_snapshot package = Some content \<and>
     ks_preparationId content \<in> ph_id ` set (preparation_snapshots (preparation confirmed_db))"
proof -
  obtain resp where run: "MaterializeInspection prep_digests (prep_env (CHR ''8'')) manager materialize_command_input
    confirmed_db = Inr (materialized_db, resp)" by (rule materialize_accepted)
  have keys: "scope_keys confirmed_db" using stage_views(3) by (simp add: stage_view_def)
  have fresh: "stored_response (command_scope manager (MaterializeInspection_envelope materialize_command_input))
    (mi_OperationID materialize_command_input) (ledger confirmed_db) = None"
    by (rule stage_fresh) (simp add: stage_responses materialize_command_input_def)
  from materialized_from_receipt [OF run covered_db_wf(3) keys fresh] obtain p package content where
    "p \<in> set (preparation_snapshots (preparation confirmed_db))" "ks_preparationId content = ph_id p"
    "inspection_packages materialized_db = inspection_packages confirmed_db @ [package]"
    "pk_snapshot package = Some content" by blast
  then show ?thesis by (intro exI [of _ package] exI [of _ content]) simp
qed

section \<open>Previews and coverage\<close>

text \<open>C15: the coverage and the inspectors of the audits are only changed with a preview: a step of the system that
  leaves other rows is an \<open>AssignTeam\<close> or an \<open>AssignQuestions\<close> of the lead inspector of the assignment on a preview
  that the same subject took of that very kind and content, at the present revision, and that is neither expired nor
  consumed. The step consumes the preview: in every later state both commands are refused when they name it again
  under an operation that has no stored response.\<close>

theorem preview_used_once:
  assumes "system_run db0 db" "desk_wf db0" "system_step db db'"
    and "audit_question_assignments db' \<noteq> audit_question_assignments db \<or> inspector_rows db' \<noteq> inspector_rows db"
  shows "\<exists>p. lookup ep_id (ep_id p) (edit_previews (preparation db)) = Some p \<and> uses_preview db db' p \<and>
    \<not> consumed_preview (ep_id p) db \<and>
    (\<forall>db'' digests env actor questions members. system_run db' db'' \<longrightarrow>
      (mq_PreviewID questions = ep_id p \<and> fresh_questions actor questions db'' \<longrightarrow>
        (\<exists>e. AssignQuestions digests env actor questions db'' = Inl e)) \<and>
      (mt_PreviewID members = ep_id p \<and> fresh_team actor members db'' \<longrightarrow>
        (\<exists>e. AssignTeam digests env actor members db'' = Inl e)))"
proof -
  from desk.run_desk [OF assms(1,2)] have wf: "desk_wf db" ..
  moreover have "system_run db db'" using assms(3) by (rule r_into_rtranclp)
  ultimately have wf': "desk_wf db'" using desk.run_desk by blast
  from system_step_preview [OF assms(3) wf] assms(4) obtain p where
    p: "lookup ep_id (ep_id p) (edit_previews (preparation db)) = Some p" "uses_preview db db' p"
      "\<not> consumed_preview (ep_id p) db" "consumed_preview (ep_id p) db'"
    by (auto simp: covered_by_preview_def same_cover_def)
  have "consumed_preview (ep_id p) db''" if "system_run db' db''" for db''
    using desk.run_desk [OF that wf'] p(4) by (blast intro: consumed_preview_later)
  with p(1-3) consumed_questions_refused consumed_team_refused show ?thesis
    by (intro exI [of _ p]) metis
qed

theorem preview_used_once_witness:
  "\<exists>p e. uses_preview previewed_db covered_db p \<and>
     AssignTeam prep_digests sample_env lead_actor \<lparr>mt_OperationID = ''again'', mt_IdempotencyKey = ''again'',
       mt_AssignmentID = audit_assignment, mt_ExpectedRevision = 4, mt_PreviewID = ep_id p, mt_PreviewDigest = ''e'',
       mt_MemberSubjectIDs = [''inspector'']\<rparr> confirmed_db = Inl e"
proof -
  obtain resp where "AssignQuestions prep_digests (prep_env (CHR ''6'')) lead_actor questions_command previewed_db =
    Inr (covered_db, resp)" by (rule questions_accepted)
  then have step: "system_step previewed_db covered_db"
    by (intro system_step.preparation [where call = "CmdAssignQuestions questions_command"]) simp
  have "listQuestionAssignments audit_assignment covered_db \<noteq> listQuestionAssignments audit_assignment previewed_db"
    using stage_views(1,2) by (simp add: stage_view_def)
  then have "audit_question_assignments covered_db \<noteq> audit_question_assignments previewed_db"
    by (auto simp: listQuestionAssignments_def)
  from preview_used_once [OF rtranclp.rtrancl_refl covered_db_wf(1) step disjI1 [OF this]] obtain p where
    p: "uses_preview previewed_db covered_db p"
    and refused: "\<And>actor members. mt_PreviewID members = ep_id p \<Longrightarrow> fresh_team actor members confirmed_db \<Longrightarrow>
      \<exists>e. AssignTeam prep_digests sample_env actor members confirmed_db = Inl e"
    using preparation_run(3) by blast
  let ?again = "\<lparr>mt_OperationID = ''again'', mt_IdempotencyKey = ''again'', mt_AssignmentID = audit_assignment,
    mt_ExpectedRevision = 4, mt_PreviewID = ep_id p, mt_PreviewDigest = ''e'', mt_MemberSubjectIDs = [''inspector'']\<rparr>"
  have "fresh_team lead_actor ?again confirmed_db"
    unfolding fresh_team_def by (rule stage_fresh) (simp add: stage_responses)
  from refused [OF _ this] p show ?thesis by auto
qed

text \<open>C16: the statements of \<open>AssignQuestions\<close> compute what \<open>applyQuestionCoverageOperation\<close> specifies: the
  coverage they leave is the result of that function on the coverage before, and every other assignment keeps its
  own. (Text columns hold no NUL byte, which is what separates the two halves of a key of the function's map.)\<close>

theorem coverage_operation:
  assumes "AssignQuestions digests env actor command db = Inr (db', resp)" "fresh_questions actor command db"
    and "desk_wf db" "\<forall>c \<in> set (listQuestionAssignments (mq_AssignmentID command) db). nul_free c"
    and "\<forall>c \<in> set (mq_QuestionAssignments command). nul_free c"
  shows "applyQuestionCoverageOperation (listQuestionAssignments (mq_AssignmentID command) db)
      (mq_QuestionAssignments command) (mq_OperationKind command) =
      Inr (listQuestionAssignments (mq_AssignmentID command) db') \<and>
    (k \<noteq> mq_AssignmentID command \<longrightarrow> listQuestionAssignments k db' = listQuestionAssignments k db)"
proof -
  from assms(1,2) obtain coverage mid result l where
    coverage: "normalizedQuestionAssignments (mq_QuestionAssignments command) = Inr coverage"
      "validQuestionCoverageOperation (mq_OperationKind command)"
    and run: "AssignQuestions_handler digests env actor command coverage db = Inr (mid, result)"
    and db': "db' = mid\<lparr>ledger := l\<rparr>" by (rule AssignQuestions_fresh)
  have "listQuestionAssignments j db' = listQuestionAssignments j mid" for j by (simp add: db' listQuestionAssignments_def)
  with AssignQuestions_reference [OF run coverage assms(3-5)] show ?thesis by simp
qed

theorem coverage_operation_witness:
  "applyQuestionCoverageOperation [] [\<lparr>qc_QuestionID = ''Q1'', qc_SubjectID = ''inspector''\<rparr>] CoverageAdd =
     Inr (listQuestionAssignments audit_assignment covered_db)"
proof -
  obtain resp where run: "AssignQuestions prep_digests (prep_env (CHR ''6'')) lead_actor questions_command previewed_db =
    Inr (covered_db, resp)" by (rule questions_accepted)
  have fresh: "fresh_questions lead_actor questions_command previewed_db"
    unfolding fresh_questions_def by (rule stage_fresh) (simp add: stage_responses questions_command_def)
  have before: "listQuestionAssignments audit_assignment previewed_db = []" using stage_views(1) by (simp add: stage_view_def)
  have fields: "mq_AssignmentID questions_command = audit_assignment" "mq_OperationKind questions_command = CoverageAdd"
    "mq_QuestionAssignments questions_command = [\<lparr>qc_QuestionID = ''Q1'', qc_SubjectID = ''inspector''\<rparr>]"
    by (simp_all add: questions_command_def)
  from coverage_operation [OF run fresh covered_db_wf(1), unfolded fields before] show ?thesis by (simp add: nul_free_def)
qed

section \<open>The date\<close>

text \<open>C13: an announced date is only agreed on by the two sides: whatever step takes an assignment to CONFIRMED, it
  is either the confirmation of an Auditee of the inspected organization while the date awaits it, or a Department
  Manager who accepts the alternative that the Auditee proposed, at the revision they name.\<close>

theorem date_agreed_by_both_sides:
  assumes "system_run db0 db" "desk_wf db0" "system_step db db'"
    and "lookup aa_id k (audit_assignments db) = Some a" "lookup aa_id k (audit_assignments db') = Some a'"
    and "aa_status a \<noteq> StatusConfirmed" "aa_status a' = StatusConfirmed"
  shows "(\<exists>digests env actor command resp.
      RespondAuditeeCoordination digests env actor command db = Inr (db', resp) \<and>
      rp_Decision command = CoordinationConfirm \<and> HasRole actor [RoleAuditee] \<and>
      aa_inspection_id a = Some (rp_InspectionID command) \<and>
      (\<exists>n \<in> set (inspections db). in_id n = rp_InspectionID command \<and> in_organization_id n = OrganizationID actor) \<and>
      aa_revision a = rp_ExpectedRevision command \<and> aa_status a = StatusAwaitingAuditeeConfirmation) \<or>
    (\<exists>digests env actor command resp.
      ReviewAuditeeCoordination digests env actor command db = Inr (db', resp) \<and>
      rw_Decision command = ReviewCoordinationAccept \<and> HasRole actor [RoleDepartmentManager] \<and>
      aa_inspection_id a = Some (rw_InspectionID command) \<and>
      aa_revision a = rw_ExpectedRevision command \<and> aa_status a = StatusAlternativeProposed)"
proof -
  from desk.run_desk [OF assms(1,2)] have wf: "desk_wf db" ..
  then have rows: "assignments_wf db" by (simp add: desk_wf_def)
  note a = lookup_Some [OF assms(4)] and a' = lookup_Some [OF assms(5)]
  have same: "b = a" if "b \<in> set (audit_assignments db)" "aa_id b = k" for b
    using assignments_key [OF rows, of a b] a that by auto
  from system_step_confirms [OF assms(3) wf] a' assms(7) consider "a' \<in> set (audit_assignments db)"
    | b where "b \<in> set (audit_assignments db)" "aa_id b = k" "date_agreed db db' b"
    unfolding confirmed_only_by_def by metis
  then show ?thesis
  proof cases
    case 1
    with same a' assms(6,7) show ?thesis by auto
  next
    case 2
    with same show ?thesis unfolding agreed_by_auditee_def agreed_by_manager_def by blast
  qed
qed

theorem date_agreed_by_both_sides_witness:
  "\<exists>digests env actor command resp.
     RespondAuditeeCoordination digests env actor command materialized_db = Inr (agreed_db, resp) \<and>
     rp_Decision command = CoordinationConfirm \<and> HasRole actor [RoleAuditee]"
proof -
  obtain a where a: "audit_assignments materialized_db = [a]" "aa_id a = audit_assignment"
    "aa_status a = StatusAwaitingAuditeeConfirmation" by (rule materialized_assignment)
  obtain b where b: "audit_assignments agreed_db = [b]" "aa_id b = audit_assignment" "aa_status b = StatusConfirmed"
    by (rule agreed_assignment) (rule that)
  have rows: "lookup aa_id audit_assignment (audit_assignments materialized_db) = Some a"
    "lookup aa_id audit_assignment (audit_assignments agreed_db) = Some b" using a b by (simp_all add: lookup_def)
  have status: "aa_status a \<noteq> StatusConfirmed" "aa_status a \<noteq> StatusAlternativeProposed" using a(3) by simp_all
  from date_agreed_by_both_sides [OF rtranclp.rtrancl_refl materialized_db_wf agree_step rows status(1) b(3)] status(2)
  show ?thesis by blast
qed

end
