(* ===== verification/LeaseRuns.thy ===== *)
theory LeaseRuns
  imports StepFrames ScanFencing
begin

text \<open>
  The lease of a claimed message over runs of the whole system: nothing but a recorded failure of the
  message shortens it, so that a second claim either waits for its end or follows such a failure.
\<close>

definition held_until :: "string \<Rightarrow> instant \<Rightarrow> DB \<Rightarrow> bool" where
  "held_until i expiry db \<longleftrightarrow> (\<exists>m \<in> set (l_outbox (ledger db)). o_id m = i \<and>
     (o_delivered_at m \<noteq> None \<or> o_lease_expires_at m = Some expiry))"

text \<open>The two steps that matter: a failure of the message is recorded, and the message is claimed.\<close>

definition failure_recorded :: "string \<Rightarrow> DB \<Rightarrow> DB \<Rightarrow> bool" where
  "failure_recorded i db db' \<longleftrightarrow> (\<exists>worker env claimed reason.
     recordFailure worker env claimed reason db = Inr db' \<and> cm_ID claimed = i)"

definition claimed_at :: "string \<Rightarrow> instant \<Rightarrow> DB \<Rightarrow> DB \<Rightarrow> bool" where
  "claimed_at i now db db' \<longleftrightarrow> (\<exists>worker claimed. claimNext worker now db = Some (claimed, db') \<and> cm_ID claimed = i)"

section \<open>Steps of other messages\<close>

lemma prefix_held: "prefix (l_outbox (ledger db)) (l_outbox (ledger db')) \<Longrightarrow> held_until i e db \<Longrightarrow> held_until i e db'"
  by (auto simp: held_until_def dest: set_mono_prefix)

lemma quiet_held: "quiet db db' \<Longrightarrow> held_until i e db \<Longrightarrow> held_until i e db'"
  using prefix_held [of db db'] by (simp add: quiet_def)

lemma same_ledger_held: "ledger db' = ledger db \<Longrightarrow> held_until i e db' = held_until i e db"
  by (simp add: held_until_def)

lemma update_outbox_held:
  assumes "held_until i e db"
    and "\<And>m. o_id m = i \<Longrightarrow> j = i \<Longrightarrow> o_delivered_at m \<noteq> None \<or> o_lease_expires_at m = Some e \<Longrightarrow>
      o_id (g m) = i \<and> (o_delivered_at (g m) \<noteq> None \<or> o_lease_expires_at (g m) = Some e)"
  shows "held_until i e (update_outbox j g db)"
proof -
  from assms(1) obtain m where m: "m \<in> set (l_outbox (ledger db))" "o_id m = i"
    "o_delivered_at m \<noteq> None \<or> o_lease_expires_at m = Some e" by (auto simp: held_until_def)
  show ?thesis
    unfolding held_until_def set_update_outbox
    by (rule bexI [OF _ imageI [OF m(1)]]) (use m assms(2) [OF m(2) _ m(3)] in \<open>cases "o_id m = j"; simp\<close>)
qed

lemma markDelivered_held: "held_until i e db \<Longrightarrow> held_until i e (markDelivered mid now db)"
  unfolding markDelivered_def by (rule update_outbox_held) auto

lemma markDeliveredTx_held: "markDeliveredTx mid w now db = Inr db' \<Longrightarrow> held_until i e db \<Longrightarrow> held_until i e db'"
  by (drule markDeliveredTx_Inr) (simp add: markDelivered_held)

lemma other_message_held: "held_until i e db \<Longrightarrow> j \<noteq> i \<Longrightarrow> held_until i e (update_outbox j g db)"
  by (rule update_outbox_held) auto

lemma append_system_held: "append_system event change message db = Inr db' \<Longrightarrow> held_until i e db \<Longrightarrow> held_until i e db'"
  by (erule append_system_Inr) (auto intro: prefix_held)

section \<open>Results and failures\<close>

lemma finalizeEvidence_held:
  assumes "finalizeEvidence worker env claimed record key promoted result db = Inr db'" "held_until i e db"
  shows "held_until i e db'"
proof -
  from assms(1) obtain version state finding where
    ctx: "scan_context (cm_AggregateID claimed) db = Some (version, state, finding)"
    by (auto simp: finalizeEvidence_def split: option.splits)
  show ?thesis
  proof (cases "terminal_scan (es_scan_state state)")
    case True
    with assms ctx show ?thesis by (auto simp: finalizeEvidence_def intro: markDeliveredTx_held)
  next
    case False
    let ?status = "if sc_Clean result then ScanClean else ScanQuarantined"
    from assms ctx False obtain db1 db2 where
      r: "(if sc_Clean result then record_clean worker env claimed record key promoted result finding db
           else record_quarantined env claimed result finding db) = Inr db1"
      and e: "evidence_events env claimed record (sc_Clean result) (scan_source record ?status result db1) = Inr db2"
      and m: "markDeliveredTx (cm_ID claimed) (wk_workerID worker) (env_clock env 0) db2 = Inr db'"
      by (auto simp: finalizeEvidence_def bind_result_Inr split: if_splits)
    have "held_until i e (scan_source record ?status result db1)"
      using assms(2) record_outcome_ledger [OF r] by (simp add: scan_source_def held_until_def)
    then have "held_until i e db2" using e unfolding evidence_events_def Let_def by (rule append_system_held [rotated])
    with m show ?thesis by (rule markDeliveredTx_held)
  qed
qed

lemma finalizeAttachment_held:
  assumes "finalizeAttachment worker env claimed record key promoted result db = Inr db'" "held_until i e db"
  shows "held_until i e db'"
proof -
  from assms(1) obtain attachment version where
    ctx: "attachment_context (cm_AggregateID claimed) db = Some (attachment, version)"
    by (auto simp: finalizeAttachment_def split: option.splits)
  show ?thesis
  proof (cases "terminal_scan (at_scan_state attachment)")
    case True
    with assms ctx show ?thesis by (auto simp: finalizeAttachment_def if_Inl_Inr intro: markDeliveredTx_held)
  next
    case False
    with assms ctx obtain db1 status canonicalID db2 db3 where
      b: "(if sc_Clean result
           then bind_result (upsert_canonical (canonical_row env ''inspection_attachment'' (cm_AggregateID claimed)
               (wk_attachmentBucket worker) key record promoted result) db)
             (\<lambda>(db1, canonicalID). Inr (db1, ScanClean, Some canonicalID))
           else Inr (db, ScanQuarantined, None)) = (Inr (db1, status, canonicalID) :: go_error + _)"
      and u: "update_attachment (\<lambda>a. attachment_pending (cm_AggregateID claimed) a \<and>
              at_current_version_id a = Some (or_AttachmentVersionID record))
              (scanned_attachment env status canonicalID) db1 = Inr db2"
      and e: "attachment_events env claimed record (at_revision attachment) status
            (scan_source record status result db2) = Inr db3"
      and m: "markDeliveredTx (cm_ID claimed) (wk_workerID worker) (env_clock env 0) db3 = Inr db'"
      by (clarsimp simp: finalizeAttachment_def bind_result_Inr if_Inl_Inr)
    have "ledger db1 = ledger db"
      using b by (auto simp: bind_result_Inr upsert_canonical_def split: if_splits option.splits)
    moreover have "ledger db2 = ledger db1" using update_attachment_Inr [OF u] by auto
    ultimately have "held_until i e (scan_source record status result db2)"
      using assms(2) by (simp add: scan_source_def held_until_def)
    then have "held_until i e db3" using e unfolding attachment_events_def Let_def by (rule append_system_held [rotated])
    with m show ?thesis by (rule markDeliveredTx_held)
  qed
qed

lemma recordEvidenceTerminalFailure_held:
  assumes "recordEvidenceTerminalFailure env claimed reason db = Inr db'" "held_until i e db"
  shows "held_until i e db'"
proof -
  from assms(1) obtain version state finding object where
    ctx: "scan_context (cm_AggregateID claimed) db = Some (version, state, finding)"
    "(case e_object_metadata_id version of None \<Rightarrow> None
      | Some object \<Rightarrow> lookup om_id object (object_metadata db)) = Some object"
    by (auto simp: recordEvidenceTerminalFailure_def split: option.splits)
  show ?thesis
  proof (cases "es_scan_state state = ScanPending")
    case False
    with assms ctx show ?thesis by (simp add: recordEvidenceTerminalFailure_def)
  next
    case True
    let ?submitted = "f_status finding = FStatusEvidenceSubmitted"
    let ?status = "if ?submitted then FStatusEvidenceMoreInformationRequested else f_status finding"
    from assms(1) ctx True obtain db1 db2 where
      u: "update_state (cm_AggregateID claimed) (failed_state env reason) db = Inr db1"
      and f: "(if ?submitted then update_submitted_finding env (f_id finding) ?status
          ''Auditee submits replacement Evidence'' (f_revision finding + 1) (fail_object (om_id object) db1)
        else Inr (fail_object (om_id object) db1)) = Inr db2"
      and e: "evidence_failure_events env (cm_AggregateID claimed) version state ?status reason db2 = Inr db'"
      by (auto simp: recordEvidenceTerminalFailure_def bind_result_Inr Let_def)
    have "ledger db2 = ledger db"
      using u f by (auto simp: row_simps fail_object_def split: if_splits)
    with assms(2) have "held_until i e db2" by (simp add: held_until_def)
    with e show ?thesis unfolding evidence_failure_events_def Let_def by (rule append_system_held)
  qed
qed

lemma recordAttachmentTerminalFailure_held:
  assumes "recordAttachmentTerminalFailure env claimed reason db = Inr db'" "held_until i e db"
  shows "held_until i e db'"
proof -
  from assms(1) obtain attachment version object where
    ctx: "attachment_context (cm_AggregateID claimed) db = Some (attachment, version)"
    "lookup om_id (iv_source_object_metadata_id version) (object_metadata db) = Some object"
    by (auto simp: recordAttachmentTerminalFailure_def split: option.splits)
  show ?thesis
  proof (cases "at_scan_state attachment = ScanPending")
    case False
    with assms ctx show ?thesis by (simp add: recordAttachmentTerminalFailure_def)
  next
    case True
    with assms(1) ctx obtain db1 where
      u: "update_attachment (attachment_pending (cm_AggregateID claimed)) (failed_attachment env) db = Inr db1"
      and e: "attachment_failure_events env claimed attachment version reason (fail_object (om_id object) db1) = Inr db'"
      by (auto simp: recordAttachmentTerminalFailure_def bind_result_Inr)
    have "held_until i e (fail_object (om_id object) db1)"
      using update_attachment_Inr [OF u] assms(2) by (auto simp: fail_object_def held_until_def)
    with e show ?thesis unfolding attachment_failure_events_def Let_def by (rule append_system_held)
  qed
qed

lemma recordFailure_held:
  assumes "recordFailure worker env claimed reason db = Inr db'" "held_until i e db" "cm_ID claimed \<noteq> i"
  shows "held_until i e db'"
  using assms(1) other_message_held [OF assms(2,3)]
  by (auto simp: recordFailure_def Let_def split: if_split_asm
      intro: recordEvidenceTerminalFailure_held recordAttachmentTerminalFailure_held)

section \<open>Steps and runs\<close>

lemma claimNext_held:
  assumes "claimNext worker now db = Some (claimed, db')" "held_until i e db" "ledger_wf (ledger db)"
  shows "held_until i e db' \<or> cm_ID claimed = i \<and> e \<le> now"
proof -
  from assms(1) obtain m where m: "m \<in> set (l_outbox (ledger db))" "claimable now m" "claimed = claim_of m"
    "db' = update_outbox (o_id m) (take_lease worker now) db" by (rule claimNext_Some)
  from assms(2) obtain h where h: "h \<in> set (l_outbox (ledger db))" "o_id h = i"
    "o_delivered_at h \<noteq> None \<or> o_lease_expires_at h = Some e" by (auto simp: held_until_def)
  show ?thesis
  proof (cases "o_id m = i")
    case True
    have "distinct (map o_id (l_outbox (ledger db)))" using assms(3) by (simp add: ledger_wf_def)
    with True h(1,2) m(1) have "h = m" by (auto simp: distinct_map inj_on_def)
    with h(3) m(2,3) True show ?thesis by (auto simp: claimable_def)
  next
    case False
    with other_message_held [OF assms(2)] m(4) show ?thesis by blast
  qed
qed

lemma step_held:
  assumes "system_step db db'" "held_until i e db" "ledger_wf (ledger db)"
  shows "held_until i e db' \<or> failure_recorded i db db' \<or> (\<exists>now. e \<le> now \<and> claimed_at i now db db')"
  using assms(1)
proof cases
  case (claim worker now claimed)
  with claimNext_held [OF claim assms(2,3)] show ?thesis unfolding claimed_at_def by blast
next
  case (deliver mid now)
  then show ?thesis using markDelivered_held [OF assms(2)] by simp
next
  case (scan_failure worker env claimed reason)
  with recordFailure_held [OF scan_failure assms(2)] show ?thesis unfolding failure_recorded_def by blast
next
  case (expire_uploads env)
  then show ?thesis using assms(2) quiet_held [OF ReconcileExpired_quiet] by simp
next
  case (issue_offline grants env actor checkout resp)
  with Issue_rows [OF issue_offline] show ?thesis using assms(2) by (auto intro: quiet_held prefix_held)
next
  case (revoke_offline env actor grantID reason)
  with Revoke_rows(1) [OF revoke_offline] show ?thesis using assms(2) by (simp add: held_until_def)
qed (use assms(2) in \<open>blast intro: quiet_held dispatch_quiet assignment_dispatch_quiet MaterializeInspection_quiet
    evidence_Begin_quiet evidence_Complete_quiet finalizeEvidence_held finalizeAttachment_held
    push_transaction_quiet Pull_quiet attachments_Begin_quiet BeginPart_quiet AcknowledgePart_quiet
    attachments_Complete_quiet\<close>)+

text \<open>A message under a lease is claimed only when the lease has ended.\<close>

lemma held_claimed:
  assumes "held_until i e db" "ledger_wf (ledger db)" "claimed_at i now db db'"
  shows "e \<le> now"
proof -
  from assms(3) obtain worker claimed where "claimNext worker now db = Some (claimed, db')" and i: "cm_ID claimed = i"
    by (auto simp: claimed_at_def)
  then obtain m where m: "m \<in> set (l_outbox (ledger db))" "claimable now m" "claimed = claim_of m"
    by (auto elim: claimNext_Some)
  from assms(1) obtain h where h: "h \<in> set (l_outbox (ledger db))" "o_id h = i"
    "o_delivered_at h \<noteq> None \<or> o_lease_expires_at h = Some e" by (auto simp: held_until_def)
  have "distinct (map o_id (l_outbox (ledger db)))" using assms(2) by (simp add: ledger_wf_def)
  with h(1,2) m(1,3) i have "h = m" by (auto simp: distinct_map inj_on_def)
  with h(3) m(2) show ?thesis by (auto simp: claimable_def)
qed

text \<open>A step of the system before the time \<open>e\<close> that records no failure of the message: a claim of it, if
  there is one, reads an earlier clock.\<close>

definition before_end :: "string \<Rightarrow> instant \<Rightarrow> DB \<Rightarrow> DB \<Rightarrow> bool" where
  "before_end i e db db' \<longleftrightarrow> system_step db db' \<and> \<not> failure_recorded i db db' \<and>
     (\<forall>now. claimed_at i now db db' \<longrightarrow> now < e)"

lemma run_held:
  assumes "(before_end i e)\<^sup>*\<^sup>* db db'" "held_until i e db" "ledger_wf (ledger db)"
  shows "held_until i e db' \<and> ledger_wf (ledger db')"
  using assms(1)
proof (induction rule: rtranclp_induct)
  case (step mid db')
  then have s: "system_step mid db'" by (simp add: before_end_def)
  with step.IH system.step_ledger have wf: "ledger_wf (ledger db')" by blast
  with step_held [OF s, of i e] step.IH step.hyps(2) show ?case by (fastforce simp: before_end_def)
qed (use assms(2,3) in simp)

lemma claimed_held:
  assumes "claimNext worker now db = Some (claimed, db')"
  shows "held_until (cm_ID claimed) (now + wk_leaseDuration worker) db'"
proof -
  from assms obtain m where m: "m \<in> set (l_outbox (ledger db))" "claimed = claim_of m"
    "db' = update_outbox (o_id m) (take_lease worker now) db" by (rule claimNext_Some)
  then have "take_lease worker now m \<in> set (l_outbox (ledger db'))" by (auto simp: set_update_outbox)
  then show ?thesis unfolding held_until_def by (rule bexI [rotated]) (simp add: take_lease_def m(2))
qed

lemma second_claim:
  assumes "claimNext worker now db = Some (claimed, db')" "ledger_wf (ledger db)"
    and run: "(before_end (cm_ID claimed) (now + wk_leaseDuration worker))\<^sup>*\<^sup>* db' db''"
    and again: "claimNext worker' now' db'' = Some (claimed', after)" "cm_ID claimed' = cm_ID claimed"
  shows "now + wk_leaseDuration worker \<le> now'"
proof -
  have "system_step db db'" using assms(1) by (rule system_step.claim)
  then have "ledger_wf (ledger db')" using assms(2) system.step_ledger by blast
  from run_held [OF run claimed_held [OF assms(1)] this] have "held_until (cm_ID claimed)
    (now + wk_leaseDuration worker) db''" "ledger_wf (ledger db'')" by blast+
  then show ?thesis by (rule held_claimed) (use again in \<open>auto simp: claimed_at_def\<close>)
qed

end
