(* ===== verification/ReportBoundary.thy ===== *)
theory ReportBoundary
  imports DeskRuns Samples
begin

text \<open>
  The narratives of report versions over runs: only \<open>CreateReportVersion\<close> stores one, and every stored
  narrative went through \<open>DecodeReportContent\<close>.
\<close>

section \<open>An accepted narrative\<close>

definition bounded_content :: "ReportContent \<Rightarrow> bool" where
  "bounded_content c \<longleftrightarrow> rc_Schema c = ReportContentSchema \<and> (\<forall>t \<in> set (content_texts c). plain_text t) \<and>
     distinct (map sec_ID (rc_Sections c)) \<and> distinct (map rf_FindingID (rc_Findings c)) \<and>
     int (length (rc_Sections c)) \<le> maximumReportSections \<and> int (length (rc_Findings c)) \<le> maximumReportFindings \<and>
     int (length (rc_Recommendations c)) \<le> maximumReportParagraphs \<and>
     (\<forall>s \<in> set (rc_Sections c). sec_Paragraphs s \<noteq> [] \<and>
        int (length (sec_Paragraphs s)) \<le> maximumReportParagraphs) \<and> int (text_count c) \<le> maximumReportText"

lemma normalizeSections_shape:
  "normalizeSections nfc seen xs = Inr ys \<Longrightarrow> length ys = length xs \<and> distinct (map sec_ID ys) \<and>
     set (map sec_ID ys) \<inter> set seen = {} \<and>
     (\<forall>s \<in> set ys. sec_Paragraphs s \<noteq> [] \<and> int (length (sec_Paragraphs s)) \<le> maximumReportParagraphs)"
proof (induction xs arbitrary: seen ys)
  case (Cons x xs)
  then obtain y ys' where y: "normalizeSection nfc seen x = Inr y" and rest: "normalizeSections nfc (sec_ID y # seen) xs = Inr ys'"
    and ys: "ys = y # ys'" by (auto simp: bind_result_Inr)
  from y obtain ps where ps: "map_result (normalizeReportString nfc True) (sec_Paragraphs x) = Inr ps"
    and y': "sec_Paragraphs y = ps" "sec_ID y \<notin> set seen" "sec_Paragraphs x \<noteq> []"
      "int (length (sec_Paragraphs x)) \<le> maximumReportParagraphs"
    by (auto simp: normalizeSection_def bind_result_Inr if_Inl_Inr not_less)
  from map_result_length [OF ps] y' have "sec_Paragraphs y \<noteq> []" "int (length (sec_Paragraphs y)) \<le> maximumReportParagraphs"
    by auto
  with Cons.IH [OF rest] y'(2) show ?case by (auto simp: ys)
qed simp

lemma normalizeFindings_shape:
  "normalizeFindings nfc seen xs = Inr ys \<Longrightarrow> length ys = length xs \<and> distinct (map rf_FindingID ys) \<and>
     set (map rf_FindingID ys) \<inter> set seen = {}"
proof (induction xs arbitrary: seen ys)
  case (Cons x xs)
  then obtain y ys' where "normalizeFinding nfc seen x = Inr y" and rest: "normalizeFindings nfc (rf_FindingID y # seen) xs = Inr ys'"
    and ys: "ys = y # ys'" by (auto simp: bind_result_Inr)
  then have "rf_FindingID y \<notin> set seen" by (auto simp: normalizeFinding_def bind_result_Inr if_Inl_Inr)
  with Cons.IH [OF rest] show ?case by (auto simp: ys)
qed simp

lemma validated_bounded:
  assumes "ValidateReportContent parse_tag nfc c = Inr c'"
  shows "bounded_content c'"
  using ValidateReportContent_Inr [OF assms] validated_plain [OF assms] map_result_length
    normalizeSections_shape normalizeFindings_shape
  unfolding bounded_content_def by (metis (no_types, lifting))

text \<open>
  The call that stores a narrative: an accepted \<open>CreateReportVersion\<close> whose content is encoded as a text that
  is one object with known members and nothing after it, and whose decoding is the narrative.
\<close>

definition narrative_created :: "DB \<Rightarrow> DB \<Rightarrow> ReportContent \<Rightarrow> bool" where
  "narrative_created db db' c \<longleftrightarrow> (\<exists>env actor input resp raw members rest.
     CreateReportVersion env actor input db = Inr (db', resp) \<and> HasRole actor [RoleLeadInspector] \<and>
     recorded_lead (kv_AuditID input) (SubjectID actor) db \<and>
     jt_marshal (env_json env) (kv_Content input) = Some raw \<and>
     jt_next (env_json env) raw = ReadValue (JObject members) rest \<and> jt_next (env_json env) rest = ReadEOF \<and>
     (\<forall>(k, v) \<in> set members. content_fields (fold_name k) \<noteq> None) \<and>
     DecodeReportContent (env_json env) (env_parse_tag env) (env_nfc env) raw = Inr c)"

section \<open>Steps\<close>

text \<open>The report versions that a step adds.\<close>

definition adds_narratives :: "DB \<Rightarrow> DB \<Rightarrow> bool" where
  "adds_narratives db db' \<longleftrightarrow> (\<forall>v \<in> set (report_versions db'). v \<in> set (report_versions db) \<or>
     narrative_created db db' (rs_content (rv_snapshot v)) \<and> bounded_content (rs_content (rv_snapshot v)))"

lemma same_versions: "report_versions db' = report_versions db \<Longrightarrow> adds_narratives db db'"
  by (simp add: adds_narratives_def)

lemma settled_versions: "settled db db' \<Longrightarrow> adds_narratives db db'"
  by (simp add: settled_def same_versions)

lemma untouched_versions: "untouched db db' \<Longrightarrow> adds_narratives db db'"
  by (simp add: untouched_iff settled_versions)

lemma CreateReportVersion_narrative:
  assumes run: "CreateReportVersion env actor input db = Inr (db', resp)"
  shows "adds_narratives db db'"
proof -
  from run obtain command where i: "CreateReport_input actor input = Inr command"
    and e: "executeTransition env actor (CreateReportVersion_envelope command)
      (CreateReportVersion_handler env actor command) db = Inr (db', resp)"
    by (auto simp: CreateReportVersion_def bind_result_Inr)
  note i = CreateReport_input_Inr [OF i]
  have same: "kv_AuditID command = kv_AuditID input" "kv_Content command = kv_Content input" by (subst i(4), simp)+
  from e show ?thesis
  proof (cases rule: executeTransition_cases)
    case (executed semanticHash mid result l)
    from executed(3) obtain content where lead: "recorded_lead (kv_AuditID command) (SubjectID actor) db"
      and c: "report_content env (kv_Content command) = Inr content"
      and mid: "mid = db\<lparr>report_versions := report_versions db @ [CreateReport_version env actor command
           (potential_roots (kv_AuditID command) db) content],
         report_approval_states := report_approval_states db @ [CreateReport_approval env command]\<rparr>"
      by (rule CreateReportVersion_handler_Inr)
    from c obtain raw where m: "jt_marshal (env_json env) (kv_Content input) = Some raw"
      and d: "DecodeReportContent (env_json env) (env_parse_tag env) (env_nfc env) raw = Inr content"
      unfolding report_content_Inr same by blast
    from d obtain members rest decoded where r: "jt_next (env_json env) raw = ReadValue (JObject members) rest"
      "jt_next (env_json env) rest = ReadEOF" "\<forall>(k, v) \<in> set members. content_fields (fold_name k) \<noteq> None"
      and v: "ValidateReportContent (env_parse_tag env) (env_nfc env) decoded = Inr content"
      by (rule DecodeReportContent_Inr)
    have "narrative_created db db' content"
      unfolding narrative_created_def using run i(1) lead [unfolded same] m r d by blast
    with validated_bounded [OF v] show ?thesis
      by (auto simp: adds_narratives_def executed(5) mid CreateReport_version_def)
  qed (simp add: same_versions)
qed

lemma handler_versions:
  "SubmitCAP_handler env actor c1 db = Inr (db', result) \<Longrightarrow> report_versions db' = report_versions db"
  "ReviewCAP_handler env actor c2 db = Inr (db', result) \<Longrightarrow> report_versions db' = report_versions db"
  "ReviewEvidence_handler env actor c3 db = Inr (db', result) \<Longrightarrow> report_versions db' = report_versions db"
  "AuthorizedCloseFinding_handler env actor c4 db = Inr (db', result) \<Longrightarrow> report_versions db' = report_versions db"
  "ConvertPotentialFinding_handler env actor c5 db = Inr (db', result) \<Longrightarrow> report_versions db' = report_versions db"
  "DecideReport_handler env actor c6 db = Inr (db', result) \<Longrightarrow> report_versions db' = report_versions db"
  "CreateAdminOrganization_handler env c8 db = Inr (db', result) \<Longrightarrow> report_versions db' = report_versions db"
  "CreateReminderRule_handler env actor c9 db = Inr (db', result) \<Longrightarrow> report_versions db' = report_versions db"
         apply (erule SubmitCAP_handler_Inr, simp)
        apply (erule ReviewCAP_handler_Inr, simp)
       apply (erule ReviewEvidence_handler_Inr, simp)
      apply (erule AuthorizedCloseFinding_handler_Inr, simp)
     apply (erule ConvertPotentialFinding_handler_Inr, simp)
    apply (erule DecideReport_handler_Inr, simp)
   apply (auto simp: CreateAdminOrganization_handler_def CreateReminderRule_handler_def Let_def if_Inl_Inr)
  done

lemmas field_versions = UpsertChecklistResponse_untouched SubmitChecklist_untouched ReopenChecklist_untouched
  CreatePotentialFinding_untouched DecidePotentialFinding_untouched

lemma prepare_versions:
  assumes "prepare parses fresh actor c = Inr (envelope, handler)" "handler env db = Inr (mid, result)"
    and "\<And>input. c \<noteq> CmdCreateReport input"
  shows "report_versions mid = report_versions db"
  using assms
  by (cases c) (auto simp: bind_result_Inr Let_def untouched_iff settled_def split: if_splits
      dest: handler_versions field_versions StartInspection_settled)

lemma dispatch_narrative:
  assumes run: "dispatch parses fresh env actor c db = Inr (db', resp)"
  shows "adds_narratives db db'"
proof (cases "\<exists>input. c = CmdCreateReport input")
  case True
  with run show ?thesis by (auto intro: CreateReportVersion_narrative)
next
  case False
  from run obtain envelope handler where p: "prepare parses fresh actor c = Inr (envelope, handler)"
    and e: "executeTransition env actor envelope (handler env) db = Inr (db', resp)"
    by (rule dispatch_Inr)
  from e show ?thesis
    by (cases rule: executeTransition_cases)
      (use prepare_versions [OF p] False in \<open>auto intro!: same_versions\<close>)
qed

lemma assignment_dispatch_versions:
  "assignment_dispatch digests env actor c db = Inr (db', resp) \<Longrightarrow> adds_narratives db db'"
  by (drule assignment_dispatch_frame) (simp add: work_frame_def settled_versions)

lemma MaterializeInspection_versions:
  "MaterializeInspection digests env actor command db = Inr (db', resp) \<Longrightarrow> adds_narratives db db'"
  by (drule Materialize_frame) (simp add: work_frame_def settled_versions)

lemma evidence_Complete_versions:
  assumes "evidence_Complete service env actor input db = Inr (db', output)"
  shows "adds_narratives db db'"
  using assms
proof (cases rule: evidence_Complete_cases)
  case executed
  then obtain session identity finding mid envelope where
    w: "Complete_writes env actor session identity finding db = Inr mid"
    and p: "persistUploadTransaction envelope mid = Inr db'"
    by (rule Complete_body_Inr)
  from w have "report_versions mid = report_versions db" by (rule Complete_writes_Inr) simp
  with persistUploadTransaction_Inr [OF p] show ?thesis by (auto intro: same_versions)
qed (simp add: same_versions)

lemma finalizeEvidence_versions:
  assumes "finalizeEvidence worker env claimed record key promoted result db = Inr db'"
  shows "adds_narratives db db'"
  using assms
  by (cases rule: finalizeEvidence_Inr)
    (use untouched_versions [OF attachment_frame_untouched [OF markDelivered_frame]] in \<open>auto simp: same_versions\<close>)

lemma recordFailure_versions:
  assumes "recordFailure worker env claimed reason db = Inr db'"
  shows "adds_narratives db db'"
  using assms
  by (cases rule: recordFailure_Inr)
    (auto simp: same_versions dest: untouched_versions [OF attachment_frame_untouched])

lemma side_frame_versions: "side_frame db db' \<Longrightarrow> adds_narratives db db'"
  by (simp add: side_frame_def untouched_versions)

lemmas version_frames = evidence_Begin_untouched [THEN untouched_versions] ReconcileExpired_untouched [THEN untouched_versions]
  attachment_frame_untouched [THEN untouched_versions] evidence_Complete_versions finalizeEvidence_versions
  recordFailure_versions

lemma step_narratives:
  assumes "system_step db db'"
  shows "adds_narratives db db'"
  using assms
proof cases
  case (claim worker now claimed)
  then have "attachment_frame db db'" by (rule claimNext_Some)
  then show ?thesis by (intro version_frames)
next
  case (deliver mid now)
  then show ?thesis by (simp add: version_frames markDelivered_frame)
next
  case (finalize_attachment worker env claimed stored key promoted result)
  then have "attachment_frame db db'" by (rule finalizeAttachment_Inr)
  then show ?thesis by (intro version_frames)
next
  case (expire_uploads env)
  then show ?thesis by (simp add: version_frames)
qed (blast intro: dispatch_narrative assignment_dispatch_versions MaterializeInspection_versions version_frames
    field_frames [THEN side_frame_versions])+

text \<open>A report version that a run adds is added by one of its steps.\<close>

lemma run_narratives:
  assumes "system_run db db'" "v \<in> set (report_versions db')"
  shows "v \<in> set (report_versions db) \<or> bounded_content (rs_content (rv_snapshot v)) \<and>
    (\<exists>before after. system_run db before \<and> system_run after db' \<and>
       narrative_created before after (rs_content (rv_snapshot v)))"
  using assms
proof (induction rule: rtranclp_induct)
  case (step mid db')
  show ?case
  proof (cases "v \<in> set (report_versions mid)")
    case True
    with step.IH step.hyps(2) show ?thesis by (blast intro: rtranclp.rtrancl_into_rtrancl)
  next
    case False
    with step_narratives [OF step.hyps(2)] step.prems have "bounded_content (rs_content (rv_snapshot v))"
      "narrative_created mid db' (rs_content (rv_snapshot v))" by (auto simp: adds_narratives_def)
    with step.hyps(1) show ?thesis by blast
  qed
qed simp

section \<open>A created report\<close>

text \<open>An inspection with a submitted checklist, its lead, and the Preliminary Report the lead creates.\<close>

definition report_db :: DB where
  "report_db = empty_db\<lparr>inspections := [sample_inspection], audit_assignments := [proposal_assignment],
     audit_team_members := [\<lparr>tm_assignment_id = ''A'', tm_subject_id = ''lead'', tm_member_role = ''LEAD_INSPECTOR'',
       tm_removed_at = None, tm_revision = 1, tm_created_at = 0\<rparr>],
     inspection_checklists := [\<lparr>k_inspection_id = ''INS'', k_status = KStatusSubmitted, k_revision = 1,
       k_submitted_at = Some 1, k_reopened_at = None, k_reopen_reason = None\<rparr>]\<rparr>"

definition report_command :: CreateReportVersionCommand where
  "report_command = \<lparr>kv_OperationID = ''op-report'', kv_IdempotencyKey = ''key'', kv_ReportVersionID = ''RV-1'',
     kv_ReportID = ''R-1'', kv_AuditID = ''INS'', kv_Kind = KindPreliminary, kv_Version = 1,
     kv_Status = RStatusDepartmentReview, kv_FindingIDs = [], kv_Content = sample_document\<rparr>"

abbreviation reporting_lead :: Principal where
  "reporting_lead \<equiv> principal ''lead'' RoleLeadInspector ''CAA''"

lemma report_created:
  "case CreateReportVersion sample_env reporting_lead report_command report_db of Inl _ \<Rightarrow> False
   | Inr (db', _) \<Rightarrow> map rv_id (report_versions db') = [''RV-1'']"
  by code_simp

end
