(* ===== verification/Spec2Isabelle.thy ===== *)
theory Spec2Isabelle
  imports FieldClients Preparations LeaseRuns ReportBoundary
begin

text \<open>
  A verification library of the Go backend of the surveillance system (\<open>src/apps/api/internal\<close>): the
  regulator inspects organizations, potential findings become Findings once a Preliminary Report has been
  issued, the organization answers each Finding with corrective action plans (CAPs) and Evidence, a worker
  scans uploaded files, and Findings and reports are closed by authorised decisions. Inspectors may work
  offline with a grant for one device and synchronise later.

  \<^bold>\<open>How the parts interact.\<close> Every write of the application is one database transaction. A command goes
  through \<open>executeTransition\<close>, which looks up a stored response, runs the handler and appends an audit
  event, a synchronisation change, an outbox message, a stored response and a link of them
  (\<open>persistCommandTransaction\<close>). The upload services and the synchronisation write the same ledger with
  envelopes of their own. The scan worker claims outbox messages under a lease and updates Evidence,
  Attachments and Findings. All of them read and write the tables collected in the record \<open>DB\<close>; a
  transaction is a function from \<open>DB\<close> to an error or a new \<open>DB\<close>, an error being the rollback.

  \<^bold>\<open>Theories.\<close>
  \<^item> \<open>Prelude\<close>: \<open>int64\<close> as a 64-bit word, times and durations, Go's \<open>strings\<close> functions, results and errors.
    \<open>Codecs\<close>, \<open>Json\<close>: hexadecimal and base64 texts, and the decoding of JSON values into structs.
  \<^item> \<open>Identity\<close> (\<open>identity/principal.go\<close>, \<open>authority.go\<close>, \<open>department_authority.go\<close>,
    \<open>checklist_functional_authority.go\<close>), \<open>FindingLifecycle\<close> (\<open>findings/state.go\<close>, \<open>caps/*.go\<close>,
    \<open>evidence/state.go\<close>), \<open>FieldDecisions\<close> (\<open>potentialfindings\<close>, \<open>checklists\<close>, \<open>inspections\<close>, \<open>reports\<close>),
    \<open>ReportContent\<close> (\<open>documents/report_content.go\<close>): the pure decisions.
  \<^item> \<open>Commands\<close>, \<open>Envelope\<close>, \<open>Store\<close>: commands and results, the ledger, \<open>executeTransition\<close>, the tables of
    \<open>migrations\<close> with their keys and checks.
  \<^item> \<open>ScopeAuthority\<close> (\<open>assignments/service.go\<close>, the department scope query), \<open>FindingWorkflow\<close>
    (\<open>application/canonical_transitions.go\<close>, \<open>service.go\<close>), \<open>FieldWorkflow\<close>
    (\<open>application/field_workflow.go\<close>, \<open>inspection_start.go\<close>), \<open>ReportWorkflow\<close> (\<open>DecideReport\<close>),
    \<open>CleanState\<close> (\<open>clean_state_creation.go\<close>): the command handlers, one \<open><Command>_handler\<close> each.
  \<^item> \<open>UploadPolicy\<close> (\<open>platform/uploadpolicy\<close>, \<open>platform/objectstore\<close>), \<open>UploadEnvelope\<close>, \<open>EvidenceUpload\<close>
    (\<open>evidence/upload_service.go\<close>), \<open>AttachmentUpload\<close> (\<open>inspections/attachments/upload_service.go\<close>):
    declarations, sessions, parts and completion of uploads.
  \<^item> \<open>AssignmentTypes\<close>, \<open>AssignmentEnvelope\<close>, \<open>AssignmentCommands\<close>, \<open>CoverageCommands\<close>, \<open>PreparationGate\<close>,
    \<open>Coordination\<close> (\<open>assignments/service.go\<close>, \<open>state.go\<close>): the preparation of an audit, from the released
    planning item to the confirmed lead, team, question coverage and date. \<open>CanonicalScope\<close>
    (\<open>application/canonical_scope.go\<close>) and \<open>Materialization\<close> (\<open>MaterializeInspection\<close>): the inspection package
    made of it.
  \<^item> \<open>ScanWorker\<close> (\<open>worker/evidence/worker.go\<close>, \<open>platform/scanner\<close>): claim, scan, promotion, finalisation, failure.
  \<^item> \<open>ProfileAuthority\<close> and \<open>OfflineGrant\<close> (\<open>sync/profile_authority.go\<close>, \<open>sync/grant.go\<close>), \<open>SyncWire\<close> and
    \<open>OfflineSync\<close> (\<open>sync/service.go\<close>): offline grants, the wire format, \<open>Push\<close> and \<open>Pull\<close>.
    \<open>SyncLaws\<close>, \<open>PartLayout\<close> and \<open>Lineage\<close> hold what they check and preserve, \<open>FieldSamples\<close> a device at
    work, and \<open>FieldClients\<close> their properties.
  \<^item> \<open>KeyedTable\<close>, \<open>Numbering\<close>, \<open>HandlerContract\<close>, \<open>LedgerGrowth\<close>, \<open>FindingSystem\<close>, \<open>Histories\<close>: the
    interfaces, as locales. \<open>command_handler\<close> is what the envelope needs of a handler and what it then
    promises, \<open>finding_handler\<close> extends it by what a handler does to the tables of Findings;
    \<open>transaction\<close> is the contract of one transaction over the shared tables (\<open>lawful\<close>, and the ledger only
    grows), from which the invariant \<open>system_wf\<close> and the histories of rows follow for runs; \<open>keyed_table\<close> is
    the shape of the tables, \<open>keeps_open\<close> (in \<open>Closure\<close>) a transaction that closes no Finding.
  \<^item> \<open>FindingLaws\<close>, \<open>FieldLaws\<close>, \<open>FindingContracts\<close>, \<open>UploadContracts\<close>, \<open>ScanLaws\<close>, \<open>ScanContracts\<close>,
    \<open>ScanFencing\<close>, \<open>FieldFrames\<close>, \<open>PreparationFrames\<close>, \<open>PreparationContracts\<close>, \<open>SystemRuns\<close>, \<open>Closure\<close>,
    \<open>Replays\<close>: inversion lemmas (what an accepted operation has checked and changed) and the interpretations of
    the contracts on every operation. \<open>StepFrames\<close> (grants and the outbox), \<open>LeaseRuns\<close> (the lease of a
    scan request) and \<open>ReportBoundary\<close> (stored narratives) follow single rows over runs. \<open>SystemRuns\<close>
    defines \<open>system_step\<close>: one accepted command, one step of a preparation, one upload
    step, one transaction of a scan worker, or one request of a field client;
    \<open>system_run\<close> is its reflexive transitive closure.
  \<^item> \<open>PreparationDesk\<close>: the specification of the preparation. \<open>assignment_edge\<close> is the lifecycle of an
    assignment, \<open>receipt_of\<close> what a confirmed preparation attests, \<open>desk_wf\<close> the invariant (lifecycle shapes,
    receipts, inspections that follow their assignment, clean coverage), \<open>desk_step\<close> what a transaction may
    change; the locale \<open>desk_transaction\<close> carries them over runs. \<open>PreparationSteps\<close>, \<open>DeskCommands\<close> and
    \<open>DeskDecisions\<close> prove it of every handler, \<open>DeskRuns\<close> interprets the locale on \<open>system_step\<close>.
    \<open>CoverageLaws\<close> relates the coverage table to \<open>applyQuestionCoverageOperation\<close>, \<open>MaterializationLaws\<close> the
    package to the receipt, \<open>DateAgreement\<close> shows which steps confirm a date, \<open>PreparationLaws\<close> what fresh calls
    have done, \<open>CoverageChanges\<close> which steps change coverage and inspectors.
    \<open>PreparationSamples\<close> and \<open>PreparationResults\<close> run a preparation from the released item to the agreed date,
    and \<open>Preparations\<close> holds the properties.
  \<^item> \<open>Samples\<close>, \<open>ScanSamples\<close>: concrete states at which the witnesses apply the properties.

  \<^bold>\<open>Correspondence.\<close> A Go struct is a record whose fields carry a short prefix and the source's names, a
  row of a table is a record with the columns the statements use, an open string enumeration is a datatype
  with a constructor for each constant and one for any other text. Errors are values with the source's
  messages. \<open>int64\<close> is \<open>64 word\<close> read with \<open>sint\<close>; an addition that wraps gives a negative revision, which the
  CHECK of the table refuses, as in PostgreSQL. Row locks make transactions sequential steps. Text is
  compared bytewise. \<open>date\<close> columns hold midnight instants (UTC); JSON columns
  hold the typed value that was encoded. One command draws at most one identifier per prefix
  (\<open>env_new_id\<close>); successive readings of the clock are \<open>env_clock n\<close>, the database's \<open>now()\<close> is \<open>env_now\<close>.

  \<^bold>\<open>Parameters.\<close> SHA-256, semantic hashes, Unicode NFC, language tags, UUID and RFC 3339 parsing,
  verification of elliptic-curve signatures, the scanner of JSON texts and
  \<open>json.Marshal\<close> (\<open>JsonText\<close>, a field of \<open>Env\<close>), content sniffing beyond the three
  allowed signatures, the digests of scopes and packages (\<open>Digests\<close>), the scanner's answer and the object
  store are arguments of the definitions. A property that relies on one states the relied-on behaviour as a hypothesis.

  \<^bold>\<open>Properties.\<close> C1 to C8 are about runs of the whole system; C9 to C17, in \<open>Preparations\<close>, about the
  preparation of audits; C18 to C20 about idempotency and the audit trail, C21 and C22 about reports, C23 about
  authority, C24 about conversion, C25 and C26 about uploads, C27 and C28 about the scan worker; C29 to C40, in
  \<open>FieldClients\<close>, about pushed and pulled changes, offline grants, resumable uploads and the chain of potential
  findings. Theorems without a number support them or state smaller facts. C11 and C12 assume the primary keys
  of the tables that no modelled statement writes (\<open>scope_keys\<close>), C16 that text columns hold no NUL byte.

  \<^bold>\<open>Bounds.\<close> The recursive query over the lineage of a potential finding runs with fuel one more than the
  number of rows; a chain without a cycle is never longer, and running out is the query that does not end.
  The step of a scan worker in \<open>system_step\<close> takes an arbitrary claim, record and result, which covers
  crashes, stale leases and interleaved workers. The step of \<open>Push\<close> is its transaction
  (\<open>push_transaction\<close>), whatever was validated before.

  \<^bold>\<open>Not modelled.\<close> Foreign keys (except that of a preparation's questions on the positions of the scope),
  not-null columns and triggers; tables that no modelled statement uses;
  telemetry and the test hook of the worker; nil pools and pointers; request identifiers, event versions
  and terminal times of outbox messages. Whole components left out: HTTP decoding and generated bindings,
  process configuration and the remote clients (identity provider, mail, renderer) as pure glue; the
  planning, applicability, catalogue, notification, administration and data-feed
  services, which the modelled operations reach only through their tables.
\<close>

section \<open>The system keeps its invariant\<close>

text \<open>C1: every interleaving of commands, uploads, scan-worker transactions and field-client requests keeps the system
  invariant: unique identities, a closing time and basis exactly on closed Findings, an issued
  Preliminary Report behind every Finding, consecutive numbering of CAP revisions and Evidence versions,
  and a ledger whose links resolve.\<close>

theorem system_invariant:
  assumes "system_run db db'" "system_wf db"
  shows "system_wf db'"
  using assms by (rule system.run_wf)

theorem system_invariant_witness:
  "system_run (finding_db FStatusPendingClosure) closed_db \<and> system_wf closed_db"
  using system_invariant [OF closing_run] finding_db_wf [of FStatusPendingClosure] closing_run by simp

text \<open>C2: a closed Finding is final: whatever runs afterwards, its row stays exactly as it was.\<close>

theorem closed_finding_final:
  assumes "system_run db db'" "system_wf db" "lookup f_id k (findings db) = Some f"
    and "f_status f = FStatusClosed"
  shows "lookup f_id k (findings db') = Some f"
proof -
  from system.run_finding [OF assms(1-3)] obtain f' where
    f': "lookup f_id k (findings db') = Some f'" "finding_step\<^sup>*\<^sup>* f f'" .
  from finding_history_closed [OF f'(2) assms(4)] f'(1) show ?thesis by simp
qed

theorem closed_finding_final_witness:
  "\<exists>f. lookup f_id ''F'' (findings closed_db) = Some f \<and> f_status f = FStatusClosed \<and>
     lookup f_id ''F'' (findings (markDelivered ''m'' 5 closed_db)) = Some f"
proof -
  from closed_db_finding obtain f where
    f: "lookup f_id ''F'' (findings closed_db) = Some f" "f_status f = FStatusClosed" by blast
  have "system_run closed_db (markDelivered ''m'' 5 closed_db)" by (blast intro: system_step.deliver)
  from closed_finding_final [OF this closed_db_wf f] f show ?thesis by blast
qed

text \<open>C3: the history of a Finding: its identity columns never change, its revision never decreases,
  and whenever the row changed at all the revision grew and the status moved along the lifecycle.\<close>

theorem finding_lifecycle:
  assumes "system_run db db'" "system_wf db" "lookup f_id k (findings db) = Some f"
  shows "\<exists>f'. lookup f_id k (findings db') = Some f' \<and> same_identity f f' \<and>
    finding_edge\<^sup>*\<^sup>* (f_status f) (f_status f') \<and>
    (f' = f \<or> sint (f_revision f) < sint (f_revision f') \<and> finding_edge\<^sup>+\<^sup>+ (f_status f) (f_status f'))"
proof -
  from system.run_finding [OF assms] obtain f' where
    "lookup f_id k (findings db') = Some f'" "finding_step\<^sup>*\<^sup>* f f'" .
  with finding_history [OF this(2)] show ?thesis by blast
qed

theorem finding_lifecycle_witness:
  "\<exists>f'. lookup f_id ''F'' (findings closed_db) = Some f' \<and>
    same_identity (sample_finding FStatusPendingClosure) f' \<and>
    finding_edge\<^sup>*\<^sup>* FStatusPendingClosure (f_status f') \<and>
    (f' = sample_finding FStatusPendingClosure \<or> 1 < sint (f_revision f') \<and>
       finding_edge\<^sup>+\<^sup>+ FStatusPendingClosure (f_status f'))"
  using finding_lifecycle [OF closing_run finding_db_wf, of "''F''" "sample_finding FStatusPendingClosure"]
  by (simp add: finding_db_def sample_finding_def lookup_def)

text \<open>C4: nothing is erased: CAP revisions, review decisions, Evidence versions, report versions, report
  decisions, audit events, synchronisation changes, stored responses and links only grow at their end, and
  an outbox message changes at most its delivery columns.\<close>

theorem history_append_only:
  assumes "system_run db db'" "system_wf db"
  shows "appended db db'"
  using assms by (rule system.run_appends)

theorem history_append_only_witness: "appended (finding_db FStatusPendingClosure) closed_db"
  using history_append_only [OF closing_run finding_db_wf] by simp

text \<open>C5: in every state a run reaches, the CAP revisions of a Finding are numbered 1, 2, ... without a gap
  and belong to one CAP, and so do its Evidence versions to one Evidence item.\<close>

theorem versions_numbered:
  assumes "system_run db db'" "system_wf db"
  shows "numbered c_revision c_cap_id (filter (\<lambda>c. c_finding_id c = k) (cap_revisions db')) \<and>
    numbered e_version e_evidence_id (filter (\<lambda>e. e_finding_id e = k) (evidence_versions db'))"
  using system.run_wf [OF assms] by (simp add: system_wf_def numbering_def families_def)

theorem versions_numbered_witness:
  "map (\<lambda>c. sint (c_revision c)) (filter (\<lambda>c. c_finding_id c = ''F'') (cap_revisions cap_db)) = [1] \<and>
   numbered c_revision c_cap_id (filter (\<lambda>c. c_finding_id c = ''F'') (cap_revisions cap_db))"
  using versions_numbered [OF cap_run finding_db_wf, of "''F''"] cap_db_revisions by simp

text \<open>C6: no Finding exists before an issued Preliminary Report of its inspection: in every reachable
  state, the inspection of every Finding has an issued or locked Preliminary Report version.\<close>

theorem findings_have_issued_report:
  assumes "system_run db db'" "system_wf db" "f \<in> set (findings db')"
  shows "PreliminaryIssued (f_inspection_id f) db'"
  using system.run_wf [OF assms(1,2)] assms(3) by (simp add: system_wf_def)

theorem findings_have_issued_report_witness:
  "\<exists>f \<in> set (findings closed_db). PreliminaryIssued (f_inspection_id f) closed_db"
proof -
  from closed_db_finding obtain f where "f \<in> set (findings closed_db)" by (auto dest: lookup_Some)
  with findings_have_issued_report [OF closing_run finding_db_wf] show ?thesis by auto
qed

text \<open>C7: a Finding is closed in only two ways: by a Department Manager from PENDING_CLOSURE with a reason,
  or by an assigned CAA inspector who accepts the scan-clean latest Evidence version, both against the
  current revisions. No upload, scan or other command closes one.\<close>

theorem closing_decisions:
  assumes "system_step db db'" "system_wf db" "f \<in> set (findings db')" "f \<notin> set (findings db)"
    "f_status f = FStatusClosed"
  shows "\<exists>parses fresh env actor c resp. dispatch parses fresh env actor c db = Inr (db', resp) \<and>
    ((\<exists>command. c = CmdAuthorizedClose command \<and> authorized_closing actor command f db) \<or>
     (\<exists>command. c = CmdReviewEvidence command \<and> evidence_closing env actor command f db))"
  using assms by (rule closing_step)

theorem closing_decisions_witness:
  "\<exists>f parses fresh env actor c resp.
     dispatch parses fresh env actor c (finding_db FStatusPendingClosure) = Inr (closed_db, resp) \<and>
     ((\<exists>command. c = CmdAuthorizedClose command \<and>
         authorized_closing actor command f (finding_db FStatusPendingClosure)) \<or>
      (\<exists>command. c = CmdReviewEvidence command \<and>
         evidence_closing env actor command f (finding_db FStatusPendingClosure)))"
proof -
  from closed_db_finding obtain f where
    f: "f \<in> set (findings closed_db)" "f_status f = FStatusClosed" by (auto dest: lookup_Some)
  then have "f \<notin> set (findings (finding_db FStatusPendingClosure))"
    by (auto simp: finding_db_def sample_finding_def)
  from closing_decisions [OF accepted_step [OF close_accepted, folded closed_db_def] finding_db_wf f(1) this f(2)]
  show ?thesis by blast
qed

text \<open>C8: a scan result is final: once an Evidence version is CLEAN or QUARANTINED, no later step, stale
  worker or retry changes the result or its canonical object.\<close>

theorem scan_result_final:
  assumes "system_run db db'" "system_wf db"
    and "lookup es_evidence_version_id k (evidence_version_states db) = Some s" "terminal_scan (es_scan_state s)"
  shows "\<exists>s'. lookup es_evidence_version_id k (evidence_version_states db') = Some s' \<and>
    es_scan_state s' = es_scan_state s \<and>
    es_canonical_object_metadata_id s' = es_canonical_object_metadata_id s"
proof -
  from system.run_state [OF assms(1-3)] obtain s' where
    "lookup es_evidence_version_id k (evidence_version_states db') = Some s'" "state_step\<^sup>*\<^sup>* s s'" .
  with state_history [OF this(2) assms(4)] show ?thesis by blast
qed

theorem scan_result_final_witness:
  "\<exists>s'. lookup es_evidence_version_id ''EV'' (evidence_version_states
       (markDelivered ''m'' 5 (evidence_db FStatusPendingCAAReview ScanClean))) = Some s' \<and>
     es_scan_state s' = ScanClean \<and> es_canonical_object_metadata_id s' = Some ''C''"
proof -
  have "system_run (evidence_db FStatusPendingCAAReview ScanClean)
      (markDelivered ''m'' 5 (evidence_db FStatusPendingCAAReview ScanClean))"
    by (blast intro: system_step.deliver)
  from scan_result_final [OF this evidence_db_wf, of "''EV''" "version_state ScanClean"] show ?thesis
    by (simp add: evidence_db_def version_state_def lookup_def terminal_scan_def)
qed

text \<open>An issued or locked report version is final: its approval row never changes again.\<close>

theorem issued_report_final:
  assumes "system_run db db'" "system_wf db"
    and "lookup ra_report_version_id k (report_approval_states db) = Some a" "issued a"
  shows "lookup ra_report_version_id k (report_approval_states db') = Some a"
proof -
  from system.run_approval [OF assms(1-3)] obtain a' where
    "lookup ra_report_version_id k (report_approval_states db') = Some a'" "approval_step\<^sup>*\<^sup>* a a'" .
  with approval_history [OF this(2) assms(4)] show ?thesis by simp
qed

theorem issued_report_final_witness:
  "lookup ra_report_version_id ''RV'' (report_approval_states closed_db) = Some (sample_approval RStatusLocked)"
  by (rule issued_report_final [OF closing_run finding_db_wf])
    (simp_all add: finding_db_def sample_approval_def issued_def lookup_def)

section \<open>Idempotency and the audit trail\<close>

text \<open>C18: a retry of an accepted command, at any later time and with any clock, returns the stored
  response and changes nothing.\<close>

theorem command_replay:
  assumes "dispatch parses fresh env actor c db = Inr (db', resp)" "system_wf db" "system_run db' db''"
    and "env_semantic_hash env' = env_semantic_hash env" "fresh' \<noteq> ''''"
  shows "dispatch parses fresh' env' actor c db'' = Inr (db'', resp)"
proof -
  have "system_wf db'" using assms(1,2) by (blast intro: command.step_wf)
  from system.run_appends [OF assms(3) this] have "ledger_grows (ledger db') (ledger db'')"
    by (simp add: appended_def)
  from dispatch_replays [OF assms(1) this assms(4,5)] show ?thesis .
qed

theorem command_replay_witness:
  "\<exists>resp. dispatch (\<lambda>_. True) ''corr'' sample_env manager (CmdAuthorizedClose close_command)
       (finding_db FStatusPendingClosure) = Inr (closed_db, resp) \<and>
     dispatch (\<lambda>_. True) ''other'' (sample_env\<lparr>env_today := 99\<rparr>) manager (CmdAuthorizedClose close_command)
       closed_db = Inr (closed_db, resp)"
proof -
  from accepted_dispatch [OF close_accepted, folded closed_db_def] obtain resp where
    d: "dispatch (\<lambda>_. True) ''corr'' sample_env manager (CmdAuthorizedClose close_command)
       (finding_db FStatusPendingClosure) = Inr (closed_db, resp)" .
  from command_replay [OF d finding_db_wf rtranclp.rtrancl_refl, of "sample_env\<lparr>env_today := 99\<rparr>" "''other''"] d
  show ?thesis by simp
qed

text \<open>C19: an operation identifier is bound to one payload: a second command of the same kind by the same
  actor under a used operation identifier is refused, for ever, when its payload hashes differently.\<close>

theorem operation_identifier_bound:
  assumes "dispatch parses fresh env actor c db = Inr (db', resp)" "system_wf db" "system_run db' db''"
    and "prepare parses fresh actor c = Inr (envelope, handler)"
    and "prepare parses fresh' actor c' = Inr (envelope', handler')"
    and "ce_OperationID envelope' = ce_OperationID envelope" "ce_Kind envelope' = ce_Kind envelope"
    and "ce_CorrelationID envelope' \<noteq> ''''" "ce_EntityID envelope' \<noteq> ''''"
    and "env_semantic_hash env' (ce_Kind envelope') (ce_EntityID envelope') (ce_Semantic envelope') = Some h"
    and "env_semantic_hash env (ce_Kind envelope) (ce_EntityID envelope) (ce_Semantic envelope) \<noteq> Some h"
  shows "dispatch parses fresh' env' actor c' db'' = Inl (AppError ErrOperationIDReuse '''')"
proof -
  have "system_wf db'" using assms(1,2) by (blast intro: command.step_wf)
  from system.run_appends [OF assms(3) this] have "ledger_grows (ledger db') (ledger db'')"
    by (simp add: appended_def)
  from dispatch_reuse [OF assms(1) this assms(4-)] show ?thesis .
qed

theorem operation_identifier_bound_witness:
  "dispatch (\<lambda>_. True) ''corr'' sample_env manager
     (CmdAuthorizedClose (close_command\<lparr>cl_Reason := ''other''\<rparr>)) closed_db =
   Inl (AppError ErrOperationIDReuse '''')"
proof -
  from accepted_dispatch [OF close_accepted, folded closed_db_def] obtain resp where
    d: "dispatch (\<lambda>_. True) ''corr'' sample_env manager (CmdAuthorizedClose close_command)
       (finding_db FStatusPendingClosure) = Inr (closed_db, resp)" .
  have trims: "TrimSpace ''done'' = ''done''" "TrimSpace ''other'' = ''other''" by code_simp+
  show ?thesis
    by (rule operation_identifier_bound [OF d finding_db_wf rtranclp.rtrancl_refl, where
          envelope = "AuthorizedCloseFinding_envelope close_command" and
          envelope' = "AuthorizedCloseFinding_envelope (close_command\<lparr>cl_Reason := ''other''\<rparr>)" and
          handler = "\<lambda>env. AuthorizedCloseFinding_handler env manager close_command" and
          handler' = "\<lambda>env. AuthorizedCloseFinding_handler env manager (close_command\<lparr>cl_Reason := ''other''\<rparr>)" and
          h = "''authorized_close_findingFother''"])
      (simp_all add: AuthorizedCloseFinding_envelope_def close_command_def sample_env_def trims)
qed

text \<open>C20: an accepted command either was a replay that changed nothing, or appended exactly one audit
  event, synchronisation change, stored response and link, all of its own operation and actor, the link
  naming the event, the change and the queued outbox message.\<close>

theorem command_audited:
  assumes "dispatch parses fresh env actor c db = Inr (db', resp)"
    and "prepare parses fresh actor c = Inr (envelope, handler)"
  shows "db' = db \<or> audited actor envelope db db'"
  using assms by (rule dispatch_audited)

theorem command_audited_witness:
  "closed_db = finding_db FStatusPendingClosure \<or>
   audited manager (AuthorizedCloseFinding_envelope close_command) (finding_db FStatusPendingClosure) closed_db"
proof -
  from accepted_dispatch [OF close_accepted, folded closed_db_def] obtain resp where
    "dispatch (\<lambda>_. True) ''corr'' sample_env manager (CmdAuthorizedClose close_command)
       (finding_db FStatusPendingClosure) = Inr (closed_db, resp)" .
  from command_audited [OF this] show ?thesis by simp
qed

section \<open>Reports\<close>

lemma length_filter_all:
  assumes "length (filter (\<lambda>x. P x \<and> Q x) xs) = length (filter P xs)"
  shows "\<forall>x \<in> set xs. P x \<longrightarrow> Q x"
proof -
  have len: "length (filter Q (filter P xs)) = length (filter P xs)"
    using assms by (simp only: filter_filter)
  show ?thesis
  proof (intro ballI impI, rule ccontr)
    fix x assume "x \<in> set xs" "P x" "\<not> Q x"
    then have "length (filter Q (filter P xs)) < length (filter P xs)"
      by (intro length_filter_less [of x]) simp_all
    with len show False by simp
  qed
qed

text \<open>C21: a decision on a Final Report is accepted only when the Preliminary Report of the inspection is
  issued and the snapshot names every Finding of the inspection, all of them closed.\<close>

theorem final_report_needs_closed_findings:
  assumes "DecideReport_handler env actor command db = Inr (db', result)"
    and "lookup rv_id (dc_ReportVersionID command) (report_versions db) = Some version"
    and "rs_kind (rv_snapshot version) = Some KindFinal"
  shows "PreliminaryIssued (rv_inspection_id version) db \<and>
    (\<forall>f \<in> set (findings db). f_inspection_id f = rv_inspection_id version \<longrightarrow>
       f_status f = FStatusClosed \<and> f_id f \<in> set (rs_finding_ids (rv_snapshot version)))"
proof -
  from assms(1) obtain state version' content inspection status docs jobs l where
    v: "lookup rv_id (dc_ReportVersionID command) (report_versions db) = Some version'"
    and g: "final_guard version' db = None" "finding_set_guard version' inspection db = None"
    by (rule DecideReport_handler_Inr) (rule that; assumption)
  from v assms(2) have [simp]: "version' = version" by simp
  from g(1) assms(3) have closed: "PreliminaryIssued (rv_inspection_id version) db"
    "\<forall>f \<in> set (findings db). f_inspection_id f = rv_inspection_id version \<longrightarrow> f_status f = FStatusClosed"
    by (auto simp: final_guard_def snapshot_kind_def list_ex_iff split: if_splits)
  from g(2) have "length (filter (\<lambda>f. f_inspection_id f = rv_inspection_id version \<and>
      f_id f \<in> set (rs_finding_ids (rv_snapshot version))) (findings db)) =
    length (filter (\<lambda>f. f_inspection_id f = rv_inspection_id version) (findings db))"
    by (auto simp: finding_set_guard_def linked_findings_def Let_def split: if_splits)
  from length_filter_all [OF this] closed show ?thesis by blast
qed

theorem final_report_needs_closed_findings_witness:
  "PreliminaryIssued ''INS'' final_db \<and> (\<exists>f. findings final_db = [f] \<and> f_status f = FStatusClosed)"
proof -
  obtain db' result where "DecideReport_handler sample_env director issue_command final_db = Inr (db', result)"
    using issue_accepted by (cases "DecideReport_handler sample_env director issue_command final_db") auto
  moreover have "lookup rv_id (dc_ReportVersionID issue_command) (report_versions final_db) = Some final_report"
    "rs_kind (rv_snapshot final_report) = Some KindFinal" by code_simp+
  ultimately have "PreliminaryIssued (rv_inspection_id final_report) final_db \<and>
    (\<forall>f \<in> set (findings final_db). f_inspection_id f = rv_inspection_id final_report \<longrightarrow>
       f_status f = FStatusClosed \<and> f_id f \<in> set (rs_finding_ids (rv_snapshot final_report)))"
    by (rule final_report_needs_closed_findings)
  moreover have "rv_inspection_id final_report = ''INS''"
    "map f_inspection_id (findings final_db) = [''INS'']" by code_simp+
  ultimately show ?thesis by (auto simp: map_eq_Cons_conv)
qed

text \<open>Report narratives have a normal form: validating a content that was already validated succeeds
  and changes nothing, so its stored bytes and their hash are stable. The hypothesis states that Unicode
  normalisation of trimmed text is idempotent and that canonical language tags parse to themselves.\<close>

theorem report_content_normal_form:
  assumes "stable_text parse_tag nfc" "ValidateReportContent parse_tag nfc c = Inr c'"
  shows "ValidateReportContent parse_tag nfc c' = Inr c'"
  by (rule validate_report_content_fixed) (fact assms)+

theorem report_content_normal_form_witness:
  "\<exists>c'. ValidateReportContent sample_tag (\<lambda>s. s) sample_content = Inr c' \<and>
     ValidateReportContent sample_tag (\<lambda>s. s) c' = Inr c'"
  using sample_valid report_content_normal_form [OF sample_stable] by blast



section \<open>Authority\<close>

text \<open>The functional assignments in force are, when no two successors of one root tie, exactly the
  ones that no other version of their root supersedes and that are active, effective and well scoped; they
  come in the order of their roots, each root once.\<close>

theorem current_functional_assignments:
  assumes "\<forall>a \<in> set xs. \<forall>b \<in> set xs. eligible a \<and> eligible b \<and> fa_RootID a = fa_RootID b \<and> a \<noteq> b \<longrightarrow>
      supersedes a b \<or> supersedes b a"
  shows "set (ResolveCurrentFunctionalAssignments xs now) =
      {a \<in> set xs. eligible a \<and> current_at now a \<and>
         (\<forall>b \<in> set xs. eligible b \<and> fa_RootID b = fa_RootID a \<longrightarrow> \<not> supersedes b a)} \<and>
    sorted (map fa_RootID (ResolveCurrentFunctionalAssignments xs now)) \<and>
    distinct (map fa_RootID (ResolveCurrentFunctionalAssignments xs now))"
proof (intro conjI set_eqI iffI)
  fix a assume "a \<in> set (ResolveCurrentFunctionalAssignments xs now)"
  from resolve_current_mem [OF this] show "a \<in> {a \<in> set xs. eligible a \<and> current_at now a \<and>
      (\<forall>b \<in> set xs. eligible b \<and> fa_RootID b = fa_RootID a \<longrightarrow> \<not> supersedes b a)}" by blast
next
  fix a assume "a \<in> {a \<in> set xs. eligible a \<and> current_at now a \<and>
      (\<forall>b \<in> set xs. eligible b \<and> fa_RootID b = fa_RootID a \<longrightarrow> \<not> supersedes b a)}"
  then have a: "a \<in> set xs" "eligible a" "current_at now a"
    "\<forall>b \<in> set xs. eligible b \<and> fa_RootID b = fa_RootID a \<longrightarrow> \<not> supersedes b a" by auto
  with assms have "\<forall>b \<in> set xs. b \<noteq> a \<and> eligible b \<and> fa_RootID b = fa_RootID a \<longrightarrow> supersedes a b" by metis
  from ResolveCurrent_unique [OF a(1-3) this] show "a \<in> set (ResolveCurrentFunctionalAssignments xs now)" .
qed (rule resolve_current_sorted)+

theorem current_functional_assignments_witness:
  "reviewer 2 \<in> set (ResolveCurrentFunctionalAssignments [reviewer 1, reviewer 2] 5) \<and>
   reviewer 1 \<notin> set (ResolveCurrentFunctionalAssignments [reviewer 1, reviewer 2] 5)"
proof -
  have s: "supersedes (reviewer 2) (reviewer 1)" "\<not> supersedes (reviewer 1) (reviewer 2)"
    "eligible (reviewer 2)" "current_at 5 (reviewer 2)" by code_simp+
  then have "\<forall>a \<in> set [reviewer 1, reviewer 2]. \<forall>b \<in> set [reviewer 1, reviewer 2]. eligible a \<and> eligible b \<and>
      fa_RootID a = fa_RootID b \<and> a \<noteq> b \<longrightarrow> supersedes a b \<or> supersedes b a" by auto
  from conjunct1 [OF current_functional_assignments [OF this, of 5]] s show ?thesis
    by (auto simp: reviewer_def)
qed

text \<open>Two application authorities are equal exactly when they are valid and identical: one allowed
  role in its organization; no permutation or superset of roles passes for the same authority.\<close>

theorem equal_application_authority:
  "EqualApplicationAuthority o1 r1 o2 r2 \<longleftrightarrow>
     ValidateApplicationAuthority o1 r1 = None \<and> o1 = o2 \<and> r1 = r2"
  by (rule EqualApplicationAuthority_iff)

text \<open>C23: when no live planning intake draft leads to an audit, the check of the current department
  scope passes for every Department Manager, whatever the audit's released scope drafts say: the callers
  pass no planning item, so drafts that are bound to a planning proposal are never looked at. The witness
  is a released scope whose check refuses the same manager as soon as the planning item is passed.\<close>

theorem proposal_scope_unchecked:
  assumes "\<forall>draft \<in> set (t_intake_drafts t). \<not> draft_matches canonical '''' inspectionID draft"
  shows "requireCurrentDepartmentScopeAuthority t canonical today actor '''' inspectionID = None"
proof -
  have "filter (draft_matches canonical '''' inspectionID) (t_intake_drafts t) = []"
    using assms by (simp add: filter_empty_conv)
  then show ?thesis by (simp add: requireCurrentDepartmentScopeAuthority_def matching_scope_def)
qed

theorem proposal_scope_unchecked_witness:
  "requireCurrentDepartmentScopeAuthority proposal_scopes [proposal_assignment] 10 manager '''' ''INS'' = None \<and>
   requireCurrentDepartmentScopeAuthority proposal_scopes [proposal_assignment] 10 manager ''ITEM'' ''INS'' =
     Some (AppError ErrForbidden '''')"
proof
  show "requireCurrentDepartmentScopeAuthority proposal_scopes [proposal_assignment] 10 manager '''' ''INS'' = None"
    by (rule proposal_scope_unchecked) (simp add: proposal_scopes_def no_scopes_def)
  show "requireCurrentDepartmentScopeAuthority proposal_scopes [proposal_assignment] 10 manager ''ITEM'' ''INS'' =
     Some (AppError ErrForbidden '''')" by code_simp
qed

section \<open>Potential findings\<close>

text \<open>C24: a conversion is accepted only from a pending potential finding, by the lead of its inspection and
  when its lineage is frozen in an issued Preliminary Report; it appends exactly one new Finding, the only
  one of that potential finding, at revision 1 in the state its CAP and Evidence requirements select.\<close>

theorem conversion_effect:
  assumes "ConvertPotentialFinding_handler env actor command db = Inr (db', result)"
  shows "\<exists>pending ids f. lookup p_id (cp_PotentialFindingID command) (potential_findings db) = Some pending \<and>
    p_status pending = PStatusPendingLeadReview \<and> p_revision pending = cp_ExpectedRevision command \<and>
    isLead (p_inspection_id pending) (SubjectID actor) db \<and>
    lineage (Suc (length (potential_findings db))) (potential_findings db) (cp_PotentialFindingID command) = Some ids \<and>
    LineageIssued (p_inspection_id pending) ids db \<and>
    findings db' = findings db @ [f] \<and> f_potential_finding_id f = Some (cp_PotentialFindingID command) \<and>
    (\<forall>g \<in> set (findings db). f_potential_finding_id g \<noteq> f_potential_finding_id f) \<and>
    f_inspection_id f = p_inspection_id pending \<and> f_revision f = 1 \<and>
    f_status f = (if capRequired command then FStatusWaitingForCAP
      else if evidenceRequired command then FStatusEvidenceRequired else FStatusPendingClosure)"
proof -
  from assms obtain pending ids decision row where
    v: "lookup p_id (cp_PotentialFindingID command) (potential_findings db) = Some pending"
      "isLead (p_inspection_id pending) (SubjectID actor) db"
      "lineage (Suc (length (potential_findings db))) (potential_findings db)
         (cp_PotentialFindingID command) = Some ids"
      "LineageIssued (p_inspection_id pending) ids db"
    and d: "potentialfindings_Decide \<lparr>pd_Actor = actor, pd_Status = p_status pending,
       pd_Revision = p_revision pending, pd_ExpectedRevision = cp_ExpectedRevision command,
       pd_Decision = PDecisionConvert, pd_Reason = '''', pd_Severity = cp_Severity command\<rparr> = Inr decision"
    and row: "row = Convert_row env command pending" "\<not> finding_conflict row (findings db)"
    and db': "db' = db\<lparr>findings := findings db @ [row],
       potential_findings := modify p_id (cp_PotentialFindingID command)
         (Convert_update env decision (f_id row)) (potential_findings db)\<rparr>"
    by (rule ConvertPotentialFinding_handler_Inr) (rule that; assumption)
  from row have "\<forall>g \<in> set (findings db). f_potential_finding_id g \<noteq> f_potential_finding_id row"
    by (auto simp: finding_conflict_def list_ex_iff Convert_row_def)
  moreover have "f_status row = (if capRequired command then FStatusWaitingForCAP
      else if evidenceRequired command then FStatusEvidenceRequired else FStatusPendingClosure)"
    by (simp add: row(1) Convert_row_def initialFindingStatus_def)
  ultimately show ?thesis
    using v potentialfindings_Decide_Inr(2,3) [OF d]
    by (intro exI [of _ pending] exI [of _ ids] exI [of _ row]) (simp add: db' row(1) Convert_row_def)
qed

theorem conversion_effect_witness:
  "\<exists>db' result f. ConvertPotentialFinding_handler sample_env lead convert_command potential_db = Inr (db', result) \<and>
     findings db' = findings potential_db @ [f] \<and> f_status f = FStatusWaitingForCAP"
proof -
  obtain db' result where
    h: "ConvertPotentialFinding_handler sample_env lead convert_command potential_db = Inr (db', result)"
    using convert_accepted by (cases "ConvertPotentialFinding_handler sample_env lead convert_command potential_db") auto
  have "capRequired convert_command" by code_simp
  with conversion_effect [OF h] h show ?thesis by auto
qed

section \<open>Uploads\<close>

text \<open>An accepted Evidence upload was declared with a plain file name, an allowed media type, a size in
  \<open>1..maximum\<close> and a SHA-256 digest, and either replays a stored response or records one pending session.\<close>

theorem begin_upload_declared:
  assumes "evidence_Begin service env actor input db = Inr (db', output)"
  shows "\<not> blank (bi_FileName input) \<and> set (TrimSpace (bi_FileName input)) \<inter> {CHR ''/'', CHR 0x5C, CHR 0x00} = {} \<and>
    bi_DeclaredMediaType input \<in> set allowedMediaTypes \<and>
    0 < sint (bi_ByteSize input) \<and> sint (bi_ByteSize input) \<le> sint (sv_maximumByteSize service) \<and>
    sha256Pattern (bi_SHA256 input) \<and>
    (db' = db \<or> (\<exists>session. upload_sessions db' = upload_sessions db @ [session] \<and>
       us_upload_state session = ''PENDING'' \<and> us_aggregate_id session = bi_FindingID input \<and>
       us_initiated_by_subject_id session = SubjectID actor))"
proof -
  have "ValidateDeclaration (bi_FileName input) (bi_DeclaredMediaType input) (bi_ByteSize input)
      (sv_maximumByteSize service) (bi_SHA256 input) = None"
    using assms by (simp add: evidence_Begin_def split: if_splits option.splits)
  moreover from assms have "db' = db \<or> (\<exists>session. upload_sessions db' = upload_sessions db @ [session] \<and>
       us_upload_state session = ''PENDING'' \<and> us_aggregate_id session = bi_FindingID input \<and>
       us_initiated_by_subject_id session = SubjectID actor)"
    by (cases rule: evidence_Begin_Inr)
      (auto simp: BeginUpload_session_def dest!: persistUploadTransaction_Inr)
  ultimately show ?thesis by (simp add: ValidateDeclaration_None)
qed

theorem begin_upload_declared_witness:
  "\<exists>db' out. evidence_Begin sample_service sample_env auditee begin_input (finding_db FStatusEvidenceRequired) =
      Inr (db', out) \<and> bi_DeclaredMediaType begin_input \<in> set allowedMediaTypes \<and>
      sint (bi_ByteSize begin_input) \<le> sint (sv_maximumByteSize sample_service)"
proof -
  obtain db' out where
    "evidence_Begin sample_service sample_env auditee begin_input (finding_db FStatusEvidenceRequired) =
       Inr (db', out)"
    using begin_accepted unfolding begun_def
    by (cases "evidence_Begin sample_service sample_env auditee begin_input (finding_db FStatusEvidenceRequired)") auto
  with begin_upload_declared [OF this] show ?thesis by blast
qed

text \<open>C25: an accepted observation is of the whole object, at most \<open>maximum\<close> bytes of it, with its exact
  size and digest; only the largest \<open>int64\<close> maximum is excluded, where the limit wraps.\<close>

theorem observation_complete:
  assumes "Observe observer reader maximum = Inr observed" "sint maximum < 2 ^ 63 - 1"
  shows "\<not> rd_fails reader \<and> int (length (rd_bytes reader)) \<le> sint maximum \<and>
    ob_Size observed = of_nat (length (rd_bytes reader)) \<and>
    ob_SHA256 observed = ''sha256:'' @ bs_sha256 observer (rd_bytes reader)"
  using Observe_Inr [OF assms] by simp

theorem observation_complete_witness:
  "\<exists>observed. Observe \<lparr>bs_sha256 = (\<lambda>s. s), bs_other_type = (\<lambda>_. '''')\<rparr>
      \<lparr>rd_bytes = ''abc'', rd_fails = False\<rparr> 10 = Inr observed \<and> ob_SHA256 observed = ''sha256:abc''"
proof -
  obtain observed where "Observe \<lparr>bs_sha256 = (\<lambda>s. s), bs_other_type = (\<lambda>_. '''')\<rparr>
      \<lparr>rd_bytes = ''abc'', rd_fails = False\<rparr> 10 = Inr observed"
    by (simp add: Observe_def)
  with observation_complete [OF this] show ?thesis by simp
qed

text \<open>C26: an Evidence version is only recorded when the object store delivered, completely and within the
  limit, the bytes that were declared: size, digest and detected type equal those of the session and of the
  new version; the session was pending, unexpired and the actor's own.\<close>

theorem completed_upload_is_declared:
  assumes "Complete_body service env actor input db = Inr (db', output)"
    and "sint (sv_maximumByteSize service) < 2 ^ 63 - 1"
  shows "\<exists>session version reader info. session \<in> set (upload_sessions db) \<and>
    us_initiated_by_subject_id session = SubjectID actor \<and> us_upload_state session = ''PENDING'' \<and>
    env_clock env 0 \<le> us_expires_at session \<and>
    os_open (sv_objects service) (us_bucket_name session) (us_staging_object_key session) = Some (reader, info) \<and>
    \<not> rd_fails reader \<and> int (length (rd_bytes reader)) \<le> sint (sv_maximumByteSize service) \<and>
    us_declared_size_bytes session = of_nat (length (rd_bytes reader)) \<and>
    us_declared_sha256 session = ''sha256:'' @ bs_sha256 (sv_observer service) (rd_bytes reader) \<and>
    us_declared_media_type session =
      DetectContentType (bs_other_type (sv_observer service)) (take 512 (rd_bytes reader)) \<and>
    evidence_versions db' = evidence_versions db @ [version] \<and>
    e_finding_id version = us_aggregate_id session \<and> e_sha256 version = us_declared_sha256 session \<and>
    e_size_bytes version = us_declared_size_bytes session \<and> e_media_type version = us_declared_media_type session"
proof -
  from assms(1) obtain session rev identity finding mid where
    s: "evidence_session (ci_UploadID input) db = Some (session, rev)"
      "us_initiated_by_subject_id session = SubjectID actor" "us_upload_state session = ''PENDING''"
      "env_clock env 0 \<le> us_expires_at session"
    and o: "uploaded_object service session = Inr identity"
    and w: "Complete_writes env actor session identity finding db = Inr mid"
    and p: "persistUploadTransaction (Complete_envelope service env actor input session
       (Complete_version env actor session db)) mid = Inr db'"
    by (rule Complete_body_Inr) (rule that; assumption)
  from o obtain reader info observation where
    r: "os_open (sv_objects service) (us_bucket_name session) (us_staging_object_key session) = Some (reader, info)"
    and ob: "Observe (sv_observer service) reader (sv_maximumByteSize service) = Inr observation"
    and m: "MatchesDeclaration observation (us_declared_media_type session) (us_declared_sha256 session)
       (us_declared_size_bytes session)"
    by (rule uploaded_object_Inr)
  note observed = Observe_Inr [OF ob assms(2)]
  have "evidence_versions db' = evidence_versions db @ [Complete_version env actor session db]"
    using persistUploadTransaction_Inr [OF p] w by (auto elim!: Complete_writes_Inr)
  with s r observed m evidence_session_Some [OF s(1)] show ?thesis
    by (intro exI [of _ session] exI [of _ "Complete_version env actor session db"] exI [of _ reader]
        exI [of _ info]) (auto simp: MatchesDeclaration_def Complete_version_def)
qed

theorem completed_upload_is_declared_witness:
  "\<exists>db' out version. Complete_body sample_service second_env auditee complete_input begun_db = Inr (db', out) \<and>
     evidence_versions db' = evidence_versions begun_db @ [version]"
proof -
  obtain db' out where
    c: "Complete_body sample_service second_env auditee complete_input begun_db = Inr (db', out)"
    using complete_accepted by (cases "Complete_body sample_service second_env auditee complete_input begun_db") auto
  have "sint (sv_maximumByteSize sample_service) < 2 ^ 63 - 1" by (simp add: sample_service_def)
  from completed_upload_is_declared [OF c this] c show ?thesis by blast
qed

text \<open>Expiry marks exactly the pending Evidence sessions whose time has passed, counts them, and a second
  round at the same time finds none.\<close>

theorem expiry_exact:
  "fst (ReconcileExpired env (fst (ReconcileExpired env db))) = fst (ReconcileExpired env db) \<and>
   snd (ReconcileExpired env (fst (ReconcileExpired env db))) = 0 \<and>
   (\<forall>u \<in> set (upload_sessions (fst (ReconcileExpired env db))). us_upload_kind u = ''EVIDENCE'' \<longrightarrow>
      us_upload_state u = ''PENDING'' \<longrightarrow> env_clock env 0 \<le> us_expires_at u)"
  by (auto simp: ReconcileExpired_def expire_def not_less filter_empty_conv)

theorem expiry_exact_witness: "snd (ReconcileExpired sample_env (fst (ReconcileExpired sample_env empty_db))) = 0"
  using expiry_exact [of sample_env empty_db] by simp


section \<open>The scan worker\<close>

text \<open>C27: a claimed scan request is exclusive: whatever transactions of the system follow the claim, with their
  clocks before the end of the lease where they claim, as long as none of them records a failure of the message
  (which ends the lease at once), no worker claims the message before the end of the lease.\<close>

theorem claimed_scan_exclusive:
  assumes "claimNext worker now db = Some (claimed, db')" "ledger_wf (ledger db)"
    and "(before_end (cm_ID claimed) (now + wk_leaseDuration worker))\<^sup>*\<^sup>* db' db''"
    and "claimNext worker' now' db'' = Some (claimed', after)" "now' < now + wk_leaseDuration worker"
  shows "cm_ID claimed' \<noteq> cm_ID claimed"
  using second_claim [OF assms(1-4)] assms(5) by force

theorem claimed_scan_exclusive_witness:
  "\<exists>claimed' db''. claimNext sample_worker 359 two_requests = Some (claimed', db'') \<and>
     cm_ID claimed' \<noteq> cm_ID scan_claim"
proof -
  have "claimNext sample_worker 359 two_requests \<noteq> None" by code_simp
  then obtain claimed' db'' where c: "claimNext sample_worker 359 two_requests = Some (claimed', db'')" by auto
  from claimed_scan_exclusive [OF first_claimed first_ledger rtranclp.rtrancl_refl c] c show ?thesis
    by (auto simp: sample_worker_def)
qed

text \<open>A scan result is only committed by the worker that still holds the lease of the claimed message.\<close>

theorem scan_result_needs_lease:
  assumes "finalizeEvidence worker env claimed record key promoted result db = Inr db'"
  shows "\<exists>m \<in> set (l_outbox (ledger db)). o_id m = cm_ID claimed \<and> o_delivered_at m = None \<and>
    o_lease_owner m = Some (wk_workerID worker)"
  using finalizeEvidence_fenced [OF assms] by (simp add: holds_lease_def)

theorem scan_result_needs_lease_witness:
  "\<exists>db'. finalizeEvidence sample_worker third_env scan_claim scan_record ''key'' no_object clean_result claimed_db = Inr db' \<and>
     (\<exists>m \<in> set (l_outbox (ledger claimed_db)). o_id m = ''outbox-2'' \<and> o_lease_owner m = Some ''w'')"
proof -
  have "\<not> isl (finalizeEvidence sample_worker third_env scan_claim scan_record ''key'' no_object clean_result claimed_db)"
    by code_simp
  then obtain db' where
    f: "finalizeEvidence sample_worker third_env scan_claim scan_record ''key'' no_object clean_result claimed_db = Inr db'"
    by (cases "finalizeEvidence sample_worker third_env scan_claim scan_record ''key'' no_object clean_result claimed_db") auto
  from scan_result_needs_lease [OF f] f show ?thesis by (auto simp: scan_claim_def sample_worker_def)
qed

text \<open>C28: a failed round ends: before the last attempt the message only becomes claimable again after the
  retry delay; at the last attempt it is never claimable again.\<close>

theorem failed_scan_ends:
  assumes "recordFailure worker env claimed reason db = Inr db'"
    and "m \<in> set (l_outbox (ledger db'))" "o_id m = cm_ID claimed" "claimable now m"
  shows "cm_AttemptCount claimed < wk_maximumAttempts worker \<and> env_clock env 0 + wk_retryDelay worker \<le> now"
proof (cases "cm_AttemptCount claimed < wk_maximumAttempts worker")
  case True
  with early_failure_postpones [OF assms(1) True assms(2-4)] show ?thesis by simp
next
  case False
  with last_failure_ends [OF assms(1) _ assms(2,3)] assms(4) show ?thesis by simp
qed

theorem failed_scan_ends_witness:
  "\<exists>db' m. recordFailure sample_worker third_env scan_claim ''scanner is down'' claimed_db = Inr db' \<and>
     m \<in> set (l_outbox (ledger db')) \<and> o_id m = cm_ID scan_claim \<and> claimable 310 m \<and>
     cm_AttemptCount scan_claim < wk_maximumAttempts sample_worker"
proof -
  let ?r = "recordFailure sample_worker third_env scan_claim ''scanner is down'' claimed_db"
  have "case ?r of Inl _ \<Rightarrow> False | Inr db' \<Rightarrow>
      list_ex (\<lambda>m. o_id m = cm_ID scan_claim \<and> claimable 310 m) (l_outbox (ledger db'))" by code_simp
  then obtain db' m where r: "?r = Inr db'"
    and m: "m \<in> set (l_outbox (ledger db'))" "o_id m = cm_ID scan_claim" "claimable 310 m"
    by (auto simp: list_ex_iff split: sum.splits)
  from failed_scan_ends [OF r m] r m show ?thesis by blast
qed

text \<open>A scan whose promotion is retried on a store without versions always fails: the existing object
  reports an entity tag and no version, which the canonical object row may not combine, although the code
  accepts it. After the last attempt the clean Evidence is recorded as failed.\<close>

theorem unmanaged_retry_fails:
  assumes "load_evidence (cm_AggregateID claimed) db = Some (record, scan)" "\<not> terminal_scan scan"
    and "resolveScan worker (env_clock env 1) record = Inr result" "sc_Clean result"
    and "wk_managed worker = None"
    and "wk_copy worker (or_SourceBucket record) (or_SourceKey record) (wk_canonicalBucket worker)
           (evidence_key record claimed) = AlreadyExists"
    and "os_open (wk_objects worker) (wk_canonicalBucket worker) (evidence_key record claimed) = Some (reader, info)"
    and "oi_VersionID info = ''''" "oi_ETag info \<noteq> ''''"
  shows "isl (processEvidence worker env claimed db)"
  by (rule unmanaged_retry_refused) (fact assms)+

theorem unmanaged_retry_fails_witness: "isl (processEvidence retrying_worker third_env scan_claim claimed_db)"
proof -
  have "load_evidence (cm_AggregateID scan_claim) claimed_db \<noteq> None \<and>
      snd (the (load_evidence (cm_AggregateID scan_claim) claimed_db)) = ScanPending" by code_simp
  then obtain record' where l: "load_evidence (cm_AggregateID scan_claim) claimed_db = Some (record', ScanPending)"
    by auto
  show ?thesis
    by (rule unmanaged_retry_fails [OF l, where result = clean_result],
        (simp_all add: terminal_scan_def retrying_worker_def sample_worker_def resolveScan_def unversioned_store_def
          clean_result_def sample_store_def)+)
qed

end
